(* ===== verification/Atct_Prelude.thy ===== *)
theory Atct_Prelude
  imports Main "HOL-Library.List_Lexorder" "HOL-Library.Char_ord" "HOL-Library.Option_ord"
    "HOL-Library.Product_Lexorder"
begin

text \<open>
  What the component theories share. Three layers:
  \<^item> the shape of a store operation: a function from the state to a result or an error and
    the state it leaves behind, with the sequencing the Go code writes as
    \<^verbatim>\<open>if err != nil { return err }\<close> and the transaction it writes as
    \<^verbatim>\<open>BeginTx ... defer Rollback ... Commit\<close>;
  \<^item> tables as lists of rows in rowid order, with the few statement shapes the queries use;
  \<^item> three judgements about operations (an error leaves the state alone, an operation moves the
    state along a given order, an operation succeeds) and the rules that carry their proofs.
\<close>

section \<open>Operations with errors and transactions\<close>

text \<open>
  The state is part of the result in both cases: an error after a commit leaves the committed
  state behind, and the model says so.
\<close>

type_synonym ('s, 'e, 'a) op = "'s \<Rightarrow> ('e + 'a) \<times> 's"

definition ret :: "'a \<Rightarrow> ('s, 'e, 'a) op" where
  "ret x = (\<lambda>s. (Inr x, s))"

definition fail :: "'e \<Rightarrow> ('s, 'e, 'a) op" where
  "fail e = (\<lambda>s. (Inl e, s))"

definition bnd :: "('s, 'e, 'a) op \<Rightarrow> ('a \<Rightarrow> ('s, 'e, 'b) op) \<Rightarrow> ('s, 'e, 'b) op" where
  "bnd m f = (\<lambda>s. case m s of (Inl e, t) \<Rightarrow> (Inl e, t) | (Inr x, t) \<Rightarrow> f x t)"

definition ask :: "('s \<Rightarrow> 'a) \<Rightarrow> ('s, 'e, 'a) op" where
  "ask f = (\<lambda>s. (Inr (f s), s))"

definition change :: "('s \<Rightarrow> 's) \<Rightarrow> ('s, 'e, unit) op" where
  "change f = (\<lambda>s. (Inr (), f s))"

definition check :: "bool \<Rightarrow> 'e \<Rightarrow> ('s, 'e, unit) op" where
  "check b e = (if b then ret () else fail e)"

definition need :: "'e \<Rightarrow> 'a option \<Rightarrow> ('s, 'e, 'a) op" where
  "need e v = (case v of None \<Rightarrow> fail e | Some x \<Rightarrow> ret x)"

definition transaction :: "('s, 'e, 'a) op \<Rightarrow> ('s, 'e, 'a) op" where
  "transaction m = (\<lambda>s. case m s of (Inl e, t) \<Rightarrow> (Inl e, s) | (Inr x, t) \<Rightarrow> (Inr x, t))"

text \<open>Running a block whose error is looked at instead of returned.\<close>

definition try_op :: "('s, 'e, 'a) op \<Rightarrow> ('s, 'e, 'e + 'a) op" where
  "try_op m = (\<lambda>s. case m s of (r, t) \<Rightarrow> (Inr r, t))"

definition map_error :: "('e \<Rightarrow> 'e) \<Rightarrow> ('s, 'e, 'a) op \<Rightarrow> ('s, 'e, 'a) op" where
  "map_error g m = (\<lambda>s. case m s of (Inl e, t) \<Rightarrow> (Inl (g e), t) | (Inr x, t) \<Rightarrow> (Inr x, t))"

fun each :: "('a \<Rightarrow> ('s, 'e, unit) op) \<Rightarrow> 'a list \<Rightarrow> ('s, 'e, unit) op" where
  "each f [] = ret ()"
| "each f (x # xs) = bnd (f x) (\<lambda>_. each f xs)"

text \<open>A loop that collects a value per element, and one that stops at the first value it finds.\<close>

fun collect :: "('a \<Rightarrow> ('s, 'e, 'b) op) \<Rightarrow> 'a list \<Rightarrow> ('s, 'e, 'b list) op" where
  "collect f [] = ret []"
| "collect f (x # xs) = bnd (f x) (\<lambda>y. bnd (collect f xs) (\<lambda>ys. ret (y # ys)))"

fun search :: "('a \<Rightarrow> ('s, 'e, 'b option) op) \<Rightarrow> 'a list \<Rightarrow> ('s, 'e, 'b option) op" where
  "search f [] = ret None"
| "search f (x # xs) = bnd (f x) (\<lambda>v. case v of None \<Rightarrow> search f xs | Some y \<Rightarrow> ret (Some y))"

text \<open>
  Inversion of a run, one equation per combinator: \<open>op_run\<close> turns the fact that an operation
  returned into the conditions of the branch it took.
\<close>

named_theorems op_run "what a run of a combinator says about its parts"

lemma ret_run [op_run]:
  "ret x s = (Inr y, t) \<longleftrightarrow> y = x \<and> t = s"  "ret x s = (Inl e, t) \<longleftrightarrow> False"
  by (auto simp: ret_def)

lemma fail_run [op_run]:
  "fail e s = (Inr y, t) \<longleftrightarrow> False"  "fail e s = (Inl e', t) \<longleftrightarrow> e' = e \<and> t = s"
  by (auto simp: fail_def)

lemma ask_run [op_run]:
  "ask f s = (Inr y, t) \<longleftrightarrow> y = f s \<and> t = s"  "ask f s = (Inl e, t) \<longleftrightarrow> False"
  by (auto simp: ask_def)

lemma change_run [op_run]:
  "change f s = (Inr y, t) \<longleftrightarrow> t = f s"  "change f s = (Inl e, t) \<longleftrightarrow> False"
  by (auto simp: change_def)

lemma check_run [op_run]:
  "check b e s = (Inr y, t) \<longleftrightarrow> b \<and> t = s"
  "check b e s = (Inl e', t) \<longleftrightarrow> \<not> b \<and> e' = e \<and> t = s"
  by (auto simp: check_def op_run)

lemma need_run [op_run]:
  "need e v s = (Inr y, t) \<longleftrightarrow> v = Some y \<and> t = s"
  "need e v s = (Inl e', t) \<longleftrightarrow> v = None \<and> e' = e \<and> t = s"
  by (auto simp: need_def op_run split: option.splits)

lemma bnd_run_Inr [op_run]:
  "bnd m f s = (Inr y, u) \<longleftrightarrow> (\<exists>x t. m s = (Inr x, t) \<and> f x t = (Inr y, u))"
  by (auto simp: bnd_def split: prod.splits sum.splits)

lemma bnd_run_Inl [op_run]:
  "bnd m f s = (Inl e, u) \<longleftrightarrow>
     m s = (Inl e, u) \<or> (\<exists>x t. m s = (Inr x, t) \<and> f x t = (Inl e, u))"
  by (auto simp: bnd_def split: prod.splits sum.splits)

lemma transaction_run [op_run]:
  "transaction m s = (Inr y, t) \<longleftrightarrow> m s = (Inr y, t)"
  "transaction m s = (Inl e, t) \<longleftrightarrow> t = s \<and> (\<exists>u. m s = (Inl e, u))"
  by (auto simp: transaction_def split: prod.splits sum.splits)

lemma try_op_run [op_run]:
  "try_op m s = (Inr r, t) \<longleftrightarrow> m s = (r, t)"  "try_op m s = (Inl e, t) \<longleftrightarrow> False"
  by (auto simp: try_op_def split: prod.splits)

lemma map_error_run [op_run]:
  "map_error g m s = (Inr y, t) \<longleftrightarrow> m s = (Inr y, t)"
  "map_error g m s = (Inl e, t) \<longleftrightarrow> (\<exists>e'. m s = (Inl e', t) \<and> e = g e')"
  by (auto simp: map_error_def split: prod.splits sum.splits)

lemma if_run [op_run]:
  "(if b then m else n) s = (r, t) \<longleftrightarrow> b \<and> m s = (r, t) \<or> \<not> b \<and> n s = (r, t)"
  by simp

lemma option_run [op_run]:
  "(case v of None \<Rightarrow> m | Some x \<Rightarrow> f x) s = (r, t) \<longleftrightarrow>
     v = None \<and> m s = (r, t) \<or> (\<exists>x. v = Some x \<and> f x s = (r, t))"
  by (cases v) auto

lemma sum_run [op_run]:
  "(case v of Inl x \<Rightarrow> g x | Inr y \<Rightarrow> f y) s = (r, t) \<longleftrightarrow>
     (\<exists>x. v = Inl x \<and> g x s = (r, t)) \<or> (\<exists>y. v = Inr y \<and> f y s = (r, t))"
  by (cases v) auto

lemma prod_run [op_run]:
  "(case p of (x, y) \<Rightarrow> f x y) s = (r, t) \<longleftrightarrow> (\<exists>x y. p = (x, y) \<and> f x y s = (r, t))"
  by (cases p) auto

text \<open>Forward evaluation, for witnesses: \<open>op_eval\<close> computes a run on a given state.\<close>

named_theorems op_eval "computing a run of a combinator"

lemma op_eval_combinators [op_eval]:
  "ret x s = (Inr x, s)"  "fail e s = (Inl e, s)"  "ask f s = (Inr (f s), s)"
  "change g s = (Inr (), g s)"
  "check b e s = (if b then (Inr (), s) else (Inl e, s))"
  "need e v s = (case v of None \<Rightarrow> (Inl e, s) | Some x \<Rightarrow> (Inr x, s))"
  by (auto simp: ret_def fail_def ask_def change_def check_def need_def split: option.splits)

lemmas op_eval_defs = bnd_def transaction_def try_op_def map_error_def

section \<open>Judgements about operations\<close>

subsection \<open>Reading only, and leaving the state alone on an error\<close>

definition reads :: "('s, 'e, 'a) op \<Rightarrow> bool" where
  "reads m \<longleftrightarrow> (\<forall>s. snd (m s) = s)"

definition atomic_op :: "('s, 'e, 'a) op \<Rightarrow> bool" where
  "atomic_op m \<longleftrightarrow> (\<forall>s e t. m s = (Inl e, t) \<longrightarrow> t = s)"

definition total_op :: "('s, 'e, 'a) op \<Rightarrow> bool" where
  "total_op m \<longleftrightarrow> (\<forall>s e t. m s \<noteq> (Inl e, t))"

named_theorems reads_intros "operations that only read"
named_theorems atomic_intros "operations whose errors change nothing"
named_theorems total_intros "operations that always return"

lemma readsD: "reads m \<Longrightarrow> m s = (r, t) \<Longrightarrow> t = s"
  by (metis reads_def snd_conv)

lemma reads_run: "reads m \<Longrightarrow> m s = (r, t) \<longleftrightarrow> t = s \<and> fst (m s) = r"
  by (metis fst_conv prod.collapse readsD)

lemma atomicD: "atomic_op m \<Longrightarrow> m s = (Inl e, t) \<Longrightarrow> t = s"
  by (auto simp: atomic_op_def)

lemma reads_ret [reads_intros]: "reads (ret x)"
  by (simp add: reads_def ret_def)

lemma reads_fail [reads_intros]: "reads (fail e)"
  by (simp add: reads_def fail_def)

lemma reads_ask [reads_intros]: "reads (ask f)"
  by (simp add: reads_def ask_def)

lemma reads_check [reads_intros]: "reads (check b e)"
  by (simp add: check_def reads_ret reads_fail)

lemma reads_need [reads_intros]: "reads (need e v)"
  by (simp add: need_def reads_ret reads_fail split: option.splits)

lemma reads_bnd [reads_intros]: "reads m \<Longrightarrow> (\<And>x. reads (f x)) \<Longrightarrow> reads (bnd m f)"
  by (auto simp: reads_def bnd_def split: prod.splits sum.splits) (metis snd_conv)+

lemma reads_if [reads_intros]: "reads m \<Longrightarrow> reads n \<Longrightarrow> reads (if b then m else n)"
  by simp

lemma reads_option [reads_intros]:
  "reads m \<Longrightarrow> (\<And>x. reads (f x)) \<Longrightarrow> reads (case v of None \<Rightarrow> m | Some x \<Rightarrow> f x)"
  by (cases v) auto

lemma reads_sum [reads_intros]:
  "(\<And>x. reads (g x)) \<Longrightarrow> (\<And>x. reads (f x)) \<Longrightarrow> reads (case v of Inl x \<Rightarrow> g x | Inr x \<Rightarrow> f x)"
  by (cases v) auto

lemma reads_prod [reads_intros]:
  "(\<And>x y. reads (f x y)) \<Longrightarrow> reads (case p of (x, y) \<Rightarrow> f x y)"
  by (cases p) auto

lemma reads_list [reads_intros]:
  "reads m \<Longrightarrow> (\<And>x xs. reads (f x xs)) \<Longrightarrow> reads (case l of [] \<Rightarrow> m | x # xs \<Rightarrow> f x xs)"
  by (cases l) auto

lemma reads_each [reads_intros]: "(\<And>x. reads (f x)) \<Longrightarrow> reads (each f xs)"
  by (induction xs) (auto intro: reads_ret reads_bnd)

lemma reads_collect [reads_intros]: "(\<And>x. reads (f x)) \<Longrightarrow> reads (collect f xs)"
  by (induction xs) (auto intro: reads_ret reads_bnd)

lemma reads_search [reads_intros]: "(\<And>x. reads (f x)) \<Longrightarrow> reads (search f xs)"
  by (induction xs) (auto intro!: reads_ret reads_bnd reads_option)

lemma reads_map_error [reads_intros]: "reads m \<Longrightarrow> reads (map_error g m)"
  by (auto simp: reads_def map_error_def split: prod.splits sum.splits) (metis snd_conv)+

lemma reads_try [reads_intros]: "reads m \<Longrightarrow> reads (try_op m)"
  by (auto simp: reads_def try_op_def split: prod.splits) (metis snd_conv)

lemma atomic_reads [atomic_intros]: "reads m \<Longrightarrow> atomic_op m"
  by (auto simp: atomic_op_def dest: readsD)

lemma atomic_transaction [atomic_intros]: "atomic_op (transaction m)"
  by (auto simp: atomic_op_def op_run)

lemma atomic_total [atomic_intros]: "total_op m \<Longrightarrow> atomic_op m"
  by (auto simp: atomic_op_def total_op_def)

lemma atomic_bnd_reads [atomic_intros]:
  "reads m \<Longrightarrow> (\<And>x. atomic_op (f x)) \<Longrightarrow> atomic_op (bnd m f)"
  by (auto simp: atomic_op_def op_run dest: readsD)

lemma atomic_bnd_total [atomic_intros]:
  "atomic_op m \<Longrightarrow> (\<And>x. total_op (f x)) \<Longrightarrow> atomic_op (bnd m f)"
  by (auto simp: atomic_op_def total_op_def op_run)

lemma atomic_if [atomic_intros]: "atomic_op m \<Longrightarrow> atomic_op n \<Longrightarrow> atomic_op (if b then m else n)"
  by simp

lemma atomic_option [atomic_intros]:
  "atomic_op m \<Longrightarrow> (\<And>x. atomic_op (f x)) \<Longrightarrow> atomic_op (case v of None \<Rightarrow> m | Some x \<Rightarrow> f x)"
  by (cases v) auto

lemma atomic_map_error [atomic_intros]: "atomic_op m \<Longrightarrow> atomic_op (map_error g m)"
  by (auto simp: atomic_op_def op_run)

lemma total_ret [total_intros]: "total_op (ret x)"
  by (simp add: total_op_def op_run)

lemma total_ask [total_intros]: "total_op (ask f)"
  by (simp add: total_op_def op_run)

lemma total_change [total_intros]: "total_op (change f)"
  by (simp add: total_op_def op_run)

lemma total_bnd [total_intros]: "total_op m \<Longrightarrow> (\<And>x. total_op (f x)) \<Longrightarrow> total_op (bnd m f)"
  by (auto simp: total_op_def op_run)

lemma total_if [total_intros]: "total_op m \<Longrightarrow> total_op n \<Longrightarrow> total_op (if b then m else n)"
  by simp

lemma total_option [total_intros]:
  "total_op m \<Longrightarrow> (\<And>x. total_op (f x)) \<Longrightarrow> total_op (case v of None \<Rightarrow> m | Some x \<Rightarrow> f x)"
  by (cases v) auto

lemma total_sum [total_intros]:
  "(\<And>x. total_op (g x)) \<Longrightarrow> (\<And>x. total_op (f x)) \<Longrightarrow>
     total_op (case v of Inl x \<Rightarrow> g x | Inr x \<Rightarrow> f x)"
  by (cases v) auto

lemma total_prod [total_intros]:
  "(\<And>x y. total_op (f x y)) \<Longrightarrow> total_op (case p of (x, y) \<Rightarrow> f x y)"
  by (cases p) auto

lemma total_try [total_intros]: "total_op (try_op m)"
  by (simp add: total_op_def op_run)

lemma total_each [total_intros]: "(\<And>x. total_op (f x)) \<Longrightarrow> total_op (each f xs)"
  by (induction xs) (auto intro: total_intros)

subsection \<open>Moving the state along an order\<close>

text \<open>
  \<open>evolves R m\<close>: whatever \<open>m\<close> does, and whether it returns or fails, the state it leaves is
  \<open>R\<close>-above the state it started from. With \<open>R s t = (I s \<longrightarrow> I t)\<close> this is preservation of
  the invariant \<open>I\<close>; with an order on rows it says how rows may change.
\<close>

definition evolves :: "('s \<Rightarrow> 's \<Rightarrow> bool) \<Rightarrow> ('s, 'e, 'a) op \<Rightarrow> bool" where
  "evolves R m \<longleftrightarrow> (\<forall>s. R s (snd (m s)))"

named_theorems evolves_intros "operations that move the state along an order"

lemma evolvesD: "evolves R m \<Longrightarrow> m s = (r, t) \<Longrightarrow> R s t"
  by (metis evolves_def snd_conv)

lemma evolves_change: "(\<And>s. R s (f s)) \<Longrightarrow> evolves R (change f)"
  by (simp add: evolves_def change_def)

locale state_order =
  fixes R :: "'s \<Rightarrow> 's \<Rightarrow> bool"
  assumes refl: "R s s"
    and trans: "R s t \<Longrightarrow> R t u \<Longrightarrow> R s u"
begin

lemma ev_reads: "reads m \<Longrightarrow> evolves R m"
  by (simp add: evolves_def reads_def refl)

lemma ev_bnd: "evolves R m \<Longrightarrow> (\<And>x. evolves R (f x)) \<Longrightarrow> evolves R (bnd m f)"
  by (auto simp: evolves_def bnd_def split: prod.splits sum.splits)
    (metis snd_conv trans)+

lemma ev_transaction: "evolves R m \<Longrightarrow> evolves R (transaction m)"
  by (auto simp: evolves_def transaction_def refl split: prod.splits sum.splits)
    (metis snd_conv)

lemma ev_try: "evolves R m \<Longrightarrow> evolves R (try_op m)"
  by (auto simp: evolves_def try_op_def split: prod.splits) (metis snd_conv)

lemma ev_map_error: "evolves R m \<Longrightarrow> evolves R (map_error g m)"
  by (auto simp: evolves_def map_error_def split: prod.splits sum.splits) (metis snd_conv)+

lemma ev_if: "evolves R m \<Longrightarrow> evolves R n \<Longrightarrow> evolves R (if b then m else n)"
  by simp

lemma ev_option:
  "evolves R m \<Longrightarrow> (\<And>x. evolves R (f x)) \<Longrightarrow> evolves R (case v of None \<Rightarrow> m | Some x \<Rightarrow> f x)"
  by (cases v) auto

lemma ev_sum:
  "(\<And>x. evolves R (g x)) \<Longrightarrow> (\<And>x. evolves R (f x)) \<Longrightarrow>
     evolves R (case v of Inl x \<Rightarrow> g x | Inr x \<Rightarrow> f x)"
  by (cases v) auto

lemma ev_prod: "(\<And>x y. evolves R (f x y)) \<Longrightarrow> evolves R (case p of (x, y) \<Rightarrow> f x y)"
  by (cases p) auto

lemma ev_each: "(\<And>x. evolves R (f x)) \<Longrightarrow> evolves R (each f xs)"
  by (induction xs) (auto intro: ev_bnd ev_reads reads_ret)

lemma ev_list:
  "evolves R m \<Longrightarrow> (\<And>x xs. evolves R (f x xs)) \<Longrightarrow> evolves R (case l of [] \<Rightarrow> m | x # xs \<Rightarrow> f x xs)"
  by (cases l) auto

lemma ev_collect: "(\<And>x. evolves R (f x)) \<Longrightarrow> evolves R (collect f xs)"
  by (induction xs) (auto intro: ev_bnd ev_reads reads_ret)

lemma ev_search: "(\<And>x. evolves R (f x)) \<Longrightarrow> evolves R (search f xs)"
proof (induction xs)
  case Nil
  show ?case by (simp add: ev_reads reads_ret)
next
  case (Cons x xs)
  then have "evolves R (case v of None \<Rightarrow> search f xs | Some y \<Rightarrow> ret (Some y))" for v
    by (cases v) (auto intro: ev_reads reads_ret)
  with Cons show ?case by (simp add: ev_bnd)
qed

lemma ev_check: "evolves R (check b e)"
  by (intro ev_reads reads_intros)

lemma ev_need: "evolves R (need e v)"
  by (intro ev_reads reads_intros)

lemma ev_ask: "evolves R (ask f)"
  by (intro ev_reads reads_intros)

lemma ev_ret: "evolves R (ret x)"
  by (intro ev_reads reads_intros)

lemma ev_fail: "evolves R (fail e)"
  by (intro ev_reads reads_intros)

lemmas ev_rules = ev_bnd ev_transaction ev_try ev_map_error ev_if ev_option ev_sum ev_prod ev_list ev_each
  ev_collect ev_search
  ev_check ev_need ev_ask ev_ret ev_fail

end

text \<open>Preservation of an invariant is the order \<open>I s \<longrightarrow> I t\<close>.\<close>

definition keeps :: "('s \<Rightarrow> bool) \<Rightarrow> 's \<Rightarrow> 's \<Rightarrow> bool" where
  "keeps I s t \<longleftrightarrow> (I s \<longrightarrow> I t)"

interpretation keeps: state_order "keeps I" for I
  by unfold_locales (auto simp: keeps_def)

lemma keepsD: "evolves (keeps I) m \<Longrightarrow> m s = (r, t) \<Longrightarrow> I s \<Longrightarrow> I t"
  by (auto dest: evolvesD simp: keeps_def)

lemma keepsI: "(\<And>s r t. I s \<Longrightarrow> m s = (r, t) \<Longrightarrow> I t) \<Longrightarrow> evolves (keeps I) m"
  by (auto simp: evolves_def keeps_def) (metis prod.collapse)

text \<open>A transaction keeps what its successful runs keep.\<close>

lemma keeps_transactionI:
  "(\<And>s x t. I s \<Longrightarrow> m s = (Inr x, t) \<Longrightarrow> I t) \<Longrightarrow> evolves (keeps I) (transaction m)"
  by (rule keepsI) (auto simp: transaction_def split: prod.splits sum.splits)

section \<open>Tables\<close>

text \<open>
  A table is the list of its rows in rowid order. An UPDATE rewrites the rows its WHERE clause
  selects and reports how many they were; a SELECT of one row takes the first that matches.
\<close>

definition update_where :: "('r \<Rightarrow> bool) \<Rightarrow> ('r \<Rightarrow> 'r) \<Rightarrow> 'r list \<Rightarrow> 'r list" where
  "update_where P f rows = map (\<lambda>r. if P r then f r else r) rows"

definition affected :: "('r \<Rightarrow> bool) \<Rightarrow> 'r list \<Rightarrow> nat" where
  "affected P rows = length (filter P rows)"

definition exec_update ::
  "('s \<Rightarrow> 'r list) \<Rightarrow> (('r list \<Rightarrow> 'r list) \<Rightarrow> 's \<Rightarrow> 's) \<Rightarrow> ('r \<Rightarrow> bool) \<Rightarrow> ('r \<Rightarrow> 'r)
     \<Rightarrow> ('s, 'e, nat) op" where
  "exec_update get upd P f = (\<lambda>s. (Inr (affected P (get s)), upd (update_where P f) s))"

definition exec_insert :: "(('r list \<Rightarrow> 'r list) \<Rightarrow> 's \<Rightarrow> 's) \<Rightarrow> 'r \<Rightarrow> ('s, 'e, unit) op" where
  "exec_insert upd r = change (upd (\<lambda>rows. rows @ [r]))"

text \<open>
  Statements the schema may refuse: the violated constraint, if any, is looked up first and
  the table is left alone.
\<close>

fun first_violated :: "(bool \<times> 'e) list \<Rightarrow> 'e option" where
  "first_violated [] = None"
| "first_violated ((ok, e) # rest) = (if ok then first_violated rest else Some e)"

definition checked_update ::
  "('s \<Rightarrow> (bool \<times> 'e) list) \<Rightarrow> ('s \<Rightarrow> 'r list) \<Rightarrow> (('r list \<Rightarrow> 'r list) \<Rightarrow> 's \<Rightarrow> 's) \<Rightarrow>
     ('r \<Rightarrow> bool) \<Rightarrow> ('r \<Rightarrow> 'r) \<Rightarrow> ('s, 'e, nat) op" where
  "checked_update constraints get upd P f = (\<lambda>s. case first_violated (constraints s) of
     Some e \<Rightarrow> (Inl e, s) | None \<Rightarrow> exec_update get upd P f s)"

definition checked_insert ::
  "('s \<Rightarrow> (bool \<times> 'e) list) \<Rightarrow> (('r list \<Rightarrow> 'r list) \<Rightarrow> 's \<Rightarrow> 's) \<Rightarrow> 'r \<Rightarrow> ('s, 'e, unit) op" where
  "checked_insert constraints upd r = (\<lambda>s. case first_violated (constraints s) of
     Some e \<Rightarrow> (Inl e, s) | None \<Rightarrow> (Inr (), upd (\<lambda>rows. rows @ [r]) s))"

lemma first_violated_None: "first_violated cs = None \<longleftrightarrow> list_all fst cs"
  by (induction cs rule: first_violated.induct) auto

text \<open>The rowid SQLite gives a new row of an INTEGER PRIMARY KEY table: one above the largest.\<close>

definition next_id :: "('r \<Rightarrow> int) \<Rightarrow> 'r list \<Rightarrow> int" where
  "next_id k rows = foldr (\<lambda>r m. max (k r) m) rows 0 + 1"

lemma exec_update_run [op_run]:
  "exec_update get upd P f s = (Inr n, t) \<longleftrightarrow>
     n = affected P (get s) \<and> t = upd (update_where P f) s"
  "exec_update get upd P f s = (Inl e, t) \<longleftrightarrow> False"
  by (auto simp: exec_update_def)

lemma exec_insert_run [op_run]:
  "exec_insert upd r s = (Inr x, t) \<longleftrightarrow> t = upd (\<lambda>rows. rows @ [r]) s"
  "exec_insert upd r s = (Inl e, t) \<longleftrightarrow> False"
  by (auto simp: exec_insert_def op_run)

lemma checked_update_run [op_run]:
  "checked_update cs get upd P f s = (Inr n, t) \<longleftrightarrow>
     list_all fst (cs s) \<and> n = affected P (get s) \<and> t = upd (update_where P f) s"
  "checked_update cs get upd P f s = (Inl e, t) \<longleftrightarrow> first_violated (cs s) = Some e \<and> t = s"
  by (auto simp: checked_update_def exec_update_def first_violated_None [symmetric]
      split: option.splits)

lemma checked_insert_run [op_run]:
  "checked_insert cs upd r s = (Inr x, t) \<longleftrightarrow>
     list_all fst (cs s) \<and> t = upd (\<lambda>rows. rows @ [r]) s"
  "checked_insert cs upd r s = (Inl e, t) \<longleftrightarrow> first_violated (cs s) = Some e \<and> t = s"
  by (auto simp: checked_insert_def first_violated_None [symmetric] split: option.splits)

lemma atomic_checked [atomic_intros]:
  "atomic_op (checked_update cs get upd P f)" "atomic_op (checked_insert cs upd r)"
  by (auto simp: atomic_op_def op_run)

lemma total_exec_update [total_intros]: "total_op (exec_update get upd P f)"
  by (simp add: total_op_def op_run)

lemma total_exec_insert [total_intros]: "total_op (exec_insert upd r)"
  by (simp add: total_op_def op_run)

lemma evolves_exec_update:
  "(\<And>s. R s (upd (update_where P f) s)) \<Longrightarrow> evolves R (exec_update get upd P f)"
  by (simp add: evolves_def exec_update_def)

lemma evolves_exec_insert:
  "(\<And>s. R s (upd (\<lambda>rows. rows @ [r]) s)) \<Longrightarrow> evolves R (exec_insert upd r)"
  by (simp add: exec_insert_def evolves_change)

lemma evolves_checked_update:
  "(\<And>s. R s s) \<Longrightarrow> (\<And>s. list_all fst (cs s) \<Longrightarrow> R s (upd (update_where P f) s)) \<Longrightarrow>
     evolves R (checked_update cs get upd P f)"
  by (auto simp: evolves_def checked_update_def exec_update_def first_violated_None [symmetric]
      split: option.splits)

lemma evolves_checked_insert:
  "(\<And>s. R s s) \<Longrightarrow> (\<And>s. list_all fst (cs s) \<Longrightarrow> R s (upd (\<lambda>rows. rows @ [r]) s)) \<Longrightarrow>
     evolves R (checked_insert cs upd r)"
  by (auto simp: evolves_def checked_insert_def first_violated_None [symmetric]
      split: option.splits)

lemma update_where_simps [simp]:
  "update_where P f [] = []"
  "update_where P f (r # rows) = (if P r then f r else r) # update_where P f rows"
  by (simp_all add: update_where_def)

lemma length_update_where [simp]: "length (update_where P f rows) = length rows"
  by (simp add: update_where_def)

lemma affected_simps [simp]:
  "affected P [] = 0"
  "affected P (r # rows) = (if P r then Suc (affected P rows) else affected P rows)"
  by (simp_all add: affected_def)

lemma affected_0: "affected P rows = 0 \<longleftrightarrow> (\<forall>r\<in>set rows. \<not> P r)"
  by (auto simp: affected_def filter_empty_conv)

lemma affected_pos: "0 < affected P rows \<longleftrightarrow> (\<exists>r\<in>set rows. P r)"
  using affected_0 [of P rows] by auto

lemma set_update_where:
  "set (update_where P f rows) = (\<lambda>r. if P r then f r else r) ` set rows"
  by (simp add: update_where_def)

lemma map_update_where:
  "(\<And>r. P r \<Longrightarrow> k (f r) = k r) \<Longrightarrow> map k (update_where P f rows) = map k rows"
  by (simp add: update_where_def)

lemma update_where_none: "\<forall>r\<in>set rows. \<not> P r \<Longrightarrow> update_where P f rows = rows"
  by (induction rows) auto

lemma update_where_twice:
  "(\<And>r. Q r \<Longrightarrow> \<not> P (f r)) \<Longrightarrow>
     update_where P f (update_where Q f rows) = update_where (\<lambda>r. P r \<or> Q r) f rows"
  by (induction rows) auto

lemma update_where_cong:
  "(\<And>r. r \<in> set rows \<Longrightarrow> P r \<longleftrightarrow> Q r) \<Longrightarrow> (\<And>r. r \<in> set rows \<Longrightarrow> P r \<Longrightarrow> f r = g r) \<Longrightarrow>
     update_where P f rows = update_where Q g rows"
  by (induction rows) auto

lemma affected_cong:
  "(\<And>r. r \<in> set rows \<Longrightarrow> P r \<longleftrightarrow> Q r) \<Longrightarrow> affected P rows = affected Q rows"
  by (induction rows) auto

lemma next_id_greater: "r \<in> set rows \<Longrightarrow> k r < next_id k rows"
  by (induction rows) (auto simp: next_id_def)

lemma next_id_pos: "0 < next_id k rows"
  by (induction rows) (auto simp: next_id_def)

lemma next_id_fresh: "next_id k rows \<notin> k ` set rows"
  by (auto dest!: next_id_greater [where k = k])

lemma find_Some_in: "List.find P xs = Some x \<Longrightarrow> x \<in> set xs \<and> P x"
  by (induction xs) (auto split: if_splits)

lemma find_None_iff_all: "List.find P xs = None \<longleftrightarrow> (\<forall>x\<in>set xs. \<not> P x)"
  by (induction xs) auto

lemma find_key_unique:
  "distinct (map k xs) \<Longrightarrow> x \<in> set xs \<Longrightarrow> k x = i \<Longrightarrow> List.find (\<lambda>y. k y = i) xs = Some x"
  by (induction xs) (auto simp: image_iff)

lemma find_update_where_key:
  "(\<And>r. P r \<Longrightarrow> k (f r) = k r) \<Longrightarrow>
     List.find (\<lambda>r. k r = i) (update_where P f rows) =
     map_option (\<lambda>r. if P r then f r else r) (List.find (\<lambda>r. k r = i) rows)"
  by (induction rows) auto

lemma find_append:
  "List.find P (xs @ ys) = (case List.find P xs of None \<Rightarrow> List.find P ys | Some x \<Rightarrow> Some x)"
  by (induction xs) auto

lemma distinct_key_append:
  "distinct (map k (rows @ [r])) \<longleftrightarrow> distinct (map k rows) \<and> k r \<notin> k ` set rows"
  by auto

text \<open>
  A table later: its rows are still there, in place, each moved along an order of rows.
\<close>

definition grows :: "('r \<Rightarrow> 'r \<Rightarrow> bool) \<Rightarrow> 'r list \<Rightarrow> 'r list \<Rightarrow> bool" where
  "grows le xs ys \<longleftrightarrow> list_all2 le xs (take (length xs) ys)"

lemma grows_refl: "(\<And>x. le x x) \<Longrightarrow> grows le xs xs"
  by (simp add: grows_def list_all2_refl)

lemma grows_length: "grows le xs ys \<Longrightarrow> length xs \<le> length ys"
  by (auto simp: grows_def dest: list_all2_lengthD)

lemma grows_trans:
  assumes le: "\<And>x y z. le x y \<Longrightarrow> le y z \<Longrightarrow> le x z" and xy: "grows le xs ys" and yz: "grows le ys zs"
  shows "grows le xs zs"
proof -
  have "list_all2 le (take (length xs) ys) (take (length xs) (take (length ys) zs))"
    using yz unfolding grows_def by (intro list_all2_takeI) simp
  then have "list_all2 le (take (length xs) ys) (take (length xs) zs)"
    using grows_length [OF xy] by (simp add: min_absorb1)
  with xy [unfolded grows_def] show ?thesis
    unfolding grows_def by (rule list_all2_trans [of le le le, rotated]) (rule le)
qed

lemma grows_nth: "grows le xs ys \<Longrightarrow> i < length xs \<Longrightarrow> le (xs ! i) (ys ! i)"
  by (auto simp: grows_def list_all2_conv_all_nth)

lemma grows_row: "grows le xs ys \<Longrightarrow> x \<in> set xs \<Longrightarrow> \<exists>y\<in>set ys. le x y"
  by (metis grows_nth grows_length in_set_conv_nth less_le_trans nth_mem)

lemma grows_update:
  "(\<And>x. le x x) \<Longrightarrow> (\<And>x. x \<in> set xs \<Longrightarrow> P x \<Longrightarrow> le x (f x)) \<Longrightarrow> grows le xs (update_where P f xs)"
  by (induction xs) (auto simp: grows_def)

lemma grows_append: "(\<And>x. le x x) \<Longrightarrow> grows le xs (xs @ ys)"
  by (simp add: grows_def list_all2_refl)

text \<open>With distinct keys that rows keep, looking up a key finds the same row later.\<close>

lemma grows_find:
  assumes g: "grows le xs ys" and key: "\<And>x y. le x y \<Longrightarrow> k y = k x"
    and f: "List.find (\<lambda>x. k x = i) xs = Some x"
  shows "\<exists>y. List.find (\<lambda>y. k y = i) ys = Some y \<and> le x y"
proof -
  have "list_all2 le us vs \<Longrightarrow> List.find (\<lambda>x. k x = i) us = Some x \<Longrightarrow>
      \<exists>y. List.find (\<lambda>y. k y = i) vs = Some y \<and> le x y" for us vs
    by (induction rule: list_all2_induct) (auto simp: key split: if_splits)
  then obtain y where "List.find (\<lambda>y. k y = i) (take (length xs) ys) = Some y" "le x y"
    using g f unfolding grows_def by blast
  then show ?thesis
    using find_append [of "\<lambda>y. k y = i" "take (length xs) ys" "drop (length xs) ys"] by simp
qed

lemma affected_key:
  "distinct (map k rows) \<Longrightarrow> affected (\<lambda>r. k r = i \<and> P r) rows \<noteq> 0 \<longleftrightarrow>
     (\<exists>r. List.find (\<lambda>r. k r = i) rows = Some r \<and> P r)"
  unfolding neq0_conv affected_pos
  by (auto dest: find_key_unique find_Some_in)

text \<open>
  ORDER BY. SQLite leaves the order of rows with equal keys open; the model takes rowid order,
  which is what its sorter gives for these statements: a stable insertion sort.
\<close>

fun insort_by :: "('a \<Rightarrow> 'k::linorder) \<Rightarrow> 'a \<Rightarrow> 'a list \<Rightarrow> 'a list" where
  "insort_by k x [] = [x]"
| "insort_by k x (y # ys) = (if k x \<le> k y then x # y # ys else y # insort_by k x ys)"

definition order_by :: "('a \<Rightarrow> 'k::linorder) \<Rightarrow> 'a list \<Rightarrow> 'a list" where
  "order_by k xs = foldr (insort_by k) xs []"

lemma order_by_simps [simp]:
  "order_by k [] = []"  "order_by k (x # xs) = insort_by k x (order_by k xs)"
  by (simp_all add: order_by_def)

lemma set_insort_by [simp]: "set (insort_by k x xs) = insert x (set xs)"
  by (induction xs) auto

lemma set_order_by [simp]: "set (order_by k xs) = set xs"
  by (induction xs) auto

lemma length_order_by [simp]: "length (order_by k xs) = length xs"
proof -
  have ins: "length (insort_by k x ys) = Suc (length ys)" for x ys
    by (induction ys) auto
  show ?thesis by (induction xs) (auto simp: ins)
qed

lemma sorted_order_by: "sorted (map k (order_by k xs))"
proof -
  have ins: "sorted (map k ys) \<Longrightarrow> sorted (map k (insort_by k x ys))" for x ys
    by (induction ys) auto
  show ?thesis by (induction xs) (auto simp: ins)
qed

lemma order_by_sorted: "sorted (map k xs) \<Longrightarrow> order_by k xs = xs"
proof (induction xs)
  case (Cons x xs)
  then have "order_by k xs = xs" by simp
  with Cons.prems show ?case by (cases xs) auto
qed simp

lemma distinct_order_by: "distinct (map k xs) \<Longrightarrow> distinct (map k (order_by f xs))"
proof -
  have ins: "distinct (map k (insort_by f x ys)) \<longleftrightarrow> distinct (map k (x # ys))" for x ys
    by (induction ys) auto
  have "set (map k (order_by f xs)) = set (map k xs)" for xs by simp
  then show "distinct (map k xs) \<Longrightarrow> ?thesis"
    by (induction xs) (auto simp del: insort_by.simps simp: ins)
qed

lemma filter_insort_by:
  "sorted (map f ys) \<Longrightarrow>
     filter P (insort_by f x ys) = (if P x then insort_by f x (filter P ys) else filter P ys)"
proof (induction ys)
  case (Cons y ys)
  have "f x \<le> f y \<Longrightarrow> \<forall>z\<in>set (filter P ys). f x \<le> f z"
    using Cons.prems by auto
  moreover have "\<forall>z\<in>set zs. f x \<le> f z \<Longrightarrow> insort_by f x zs = x # zs" for zs
    by (cases zs) auto
  ultimately show ?case using Cons by auto
qed simp

lemma filter_order_by: "filter P (order_by f xs) = order_by f (filter P xs)"
  by (induction xs) (auto simp: filter_insort_by sorted_order_by)

lemma distinct_filter_key: "distinct (map k xs) \<Longrightarrow> distinct (map k (filter P xs))"
  by (induction xs) auto

section \<open>Go strings\<close>

text \<open>
  A Go string is its bytes. \<^verbatim>\<open>strings.TrimSpace\<close> removes Unicode white space at both
  ends; these are the UTF-8 encodings of the code points \<^verbatim>\<open>unicode.IsSpace\<close> accepts.
\<close>

definition space_runes :: "string list" where
  "space_runes =
     [[CHR 0x09], [CHR 0x0A], [CHR 0x0B], [CHR 0x0C], [CHR 0x0D], [CHR 0x20],
      [CHR 0xC2, CHR 0x85], [CHR 0xC2, CHR 0xA0], [CHR 0xE1, CHR 0x9A, CHR 0x80],
      [CHR 0xE2, CHR 0x80, CHR 0x80], [CHR 0xE2, CHR 0x80, CHR 0x81],
      [CHR 0xE2, CHR 0x80, CHR 0x82], [CHR 0xE2, CHR 0x80, CHR 0x83],
      [CHR 0xE2, CHR 0x80, CHR 0x84], [CHR 0xE2, CHR 0x80, CHR 0x85],
      [CHR 0xE2, CHR 0x80, CHR 0x86], [CHR 0xE2, CHR 0x80, CHR 0x87],
      [CHR 0xE2, CHR 0x80, CHR 0x88], [CHR 0xE2, CHR 0x80, CHR 0x89],
      [CHR 0xE2, CHR 0x80, CHR 0x8A], [CHR 0xE2, CHR 0x80, CHR 0xA8],
      [CHR 0xE2, CHR 0x80, CHR 0xA9], [CHR 0xE2, CHR 0x80, CHR 0xAF],
      [CHR 0xE2, CHR 0x81, CHR 0x9F], [CHR 0xE3, CHR 0x80, CHR 0x80]]"

definition starts_with :: "string \<Rightarrow> string \<Rightarrow> bool" where
  "starts_with p s \<longleftrightarrow> take (length p) s = p"

definition strip_one :: "string list \<Rightarrow> string \<Rightarrow> string option" where
  "strip_one seps s =
     (case List.find (\<lambda>p. p \<noteq> [] \<and> starts_with p s) seps of
        None \<Rightarrow> None | Some p \<Rightarrow> Some (drop (length p) s))"

lemma strip_one_shorter: "strip_one seps s = Some t \<Longrightarrow> length t < length s"
  by (auto simp: strip_one_def starts_with_def split: option.splits dest!: find_Some_in)
    (metis append_take_drop_id diff_less length_drop length_greater_0_conv append_Nil2
      drop_eq_Nil list.size(3) take_Nil)

function strip_all :: "string list \<Rightarrow> string \<Rightarrow> string" where
  "strip_all seps s = (case strip_one seps s of None \<Rightarrow> s | Some t \<Rightarrow> strip_all seps t)"
  by pat_completeness auto
termination
  by (relation "measure (\<lambda>(seps, s). length s)") (auto dest: strip_one_shorter)

declare strip_all.simps [simp del]

definition TrimSpace :: "string \<Rightarrow> string" where
  "TrimSpace s = rev (strip_all (map rev space_runes) (rev (strip_all space_runes s)))"

definition blank :: "string \<Rightarrow> bool" where
  "blank s \<longleftrightarrow> TrimSpace s = []"

lemma strip_all_stuck: "strip_one seps s = None \<Longrightarrow> strip_all seps s = s"
  by (subst strip_all.simps) simp

lemma strip_one_strip_all: "strip_one seps (strip_all seps s) = None"
proof (induction seps s rule: strip_all.induct)
  case (1 seps s)
  then show ?case
    by (cases "strip_one seps s") (auto simp: strip_all.simps [of seps s])
qed

lemma strip_all_drop: "\<exists>n. strip_all seps s = drop n s"
proof (induction seps s rule: strip_all.induct)
  case (1 seps s)
  show ?case
  proof (cases "strip_one seps s")
    case None
    then show ?thesis by (intro exI [of _ 0]) (simp add: strip_all_stuck)
  next
    case (Some t)
    then obtain m where "t = drop m s" by (auto simp: strip_one_def split: option.splits)
    moreover obtain n where "strip_all seps t = drop n t" using "1.IH" [OF Some] by blast
    ultimately show ?thesis
      using Some by (subst strip_all.simps) (auto intro!: exI [of _ "n + m"])
  qed
qed

lemma strip_one_take: "strip_one seps s = None \<Longrightarrow> strip_one seps (take n s) = None"
proof -
  assume a: "strip_one seps s = None"
  have "starts_with p (take n s) \<Longrightarrow> starts_with p s" for p
    by (auto simp: starts_with_def) (metis append_take_drop_id length_take min.cobounded1 take_all_iff take_take min_def)
  with a show ?thesis by (auto simp: strip_one_def find_None_iff split: option.splits)
qed

lemma TrimSpace_idem [simp]: "TrimSpace (TrimSpace s) = TrimSpace s"
proof -
  let ?l = "strip_all space_runes s"
  obtain n where n: "strip_all (map rev space_runes) (rev ?l) = drop n (rev ?l)"
    using strip_all_drop by blast
  have "TrimSpace s = take (length ?l - n) ?l"
    by (simp add: TrimSpace_def n rev_drop)
  then have "strip_all space_runes (TrimSpace s) = TrimSpace s"
    by (simp add: strip_all_stuck strip_one_take strip_one_strip_all)
  then show ?thesis
    by (simp add: TrimSpace_def [of "TrimSpace s"])
      (simp add: TrimSpace_def strip_all_stuck strip_one_strip_all)
qed

lemma blank_Nil [simp]: "blank []"
  by (code_simp)

text \<open>Small facts about optional values used by the scanned NULL columns.\<close>

definition nz :: "int option \<Rightarrow> int" where
  "nz v = (case v of None \<Rightarrow> 0 | Some i \<Rightarrow> i)"

definition nullable :: "int \<Rightarrow> int option" where
  "nullable i = (if i = 0 then None else Some i)"

lemma nz_simps [simp]: "nz None = 0"  "nz (Some i) = i"
  by (simp_all add: nz_def)

lemma nz_nullable [simp]: "nz (nullable i) = i"
  by (simp add: nullable_def)

lemma coalesce_cases: "(case v of None \<Rightarrow> w | Some x \<Rightarrow> Some x) = None \<longleftrightarrow> v = None \<and> w = None"
  by (cases v) auto

end
