(* ===== verification/Atct_Domain.thy ===== *)
theory Atct_Domain
  imports Atct_Prelude
begin

text \<open>
  The vocabulary of \<^verbatim>\<open>internal/domain\<close>: the statuses and kinds of goals, tasks and
  decisions (\<^verbatim>\<open>status.go\<close>), the headline and body of a goal's text
  (\<^verbatim>\<open>model.go\<close>) and the rank of a decision in the inbox
  (\<^verbatim>\<open>decision_priority.go\<close>). The Go types are string types whose constants are the
  values below; each datatype has the function that gives back the stored string.
\<close>

section \<open>Statuses and kinds\<close>

datatype GoalStatus = GoalActive | GoalDone | GoalDropped

datatype TaskStatus = TaskTodo | TaskDoing | TaskReview | TaskDone | TaskDropped

datatype DecisionStatus = DecisionOpen | DecisionAnswered | DecisionApplied | DecisionWithdrawn

text \<open>
  \<open>SessionDiscardDecisionKind\<close> is declared in \<^verbatim>\<open>internal/store/handoff_recovery.go\<close>;
  the other three in \<^verbatim>\<open>internal/domain/status.go\<close>.
\<close>

datatype DecisionKind = KindDecision | KindGoalReview | KindPostMerge | SessionDiscardDecisionKind

fun TaskStatus_string :: "TaskStatus \<Rightarrow> string" where
  "TaskStatus_string TaskTodo = ''todo''"
| "TaskStatus_string TaskDoing = ''doing''"
| "TaskStatus_string TaskReview = ''review''"
| "TaskStatus_string TaskDone = ''done''"
| "TaskStatus_string TaskDropped = ''dropped''"

definition ParseTaskStatus :: "string \<Rightarrow> TaskStatus option" where
  "ParseTaskStatus s =
     (if s = ''todo'' then Some TaskTodo
      else if s = ''doing'' then Some TaskDoing
      else if s = ''review'' then Some TaskReview
      else if s = ''done'' then Some TaskDone
      else if s = ''dropped'' then Some TaskDropped
      else None)"

lemma ParseTaskStatus_string [simp]: "ParseTaskStatus (TaskStatus_string st) = Some st"
  by (cases st) (simp_all add: ParseTaskStatus_def)

lemma ParseTaskStatus_Some: "ParseTaskStatus s = Some st \<Longrightarrow> s = TaskStatus_string st"
  by (auto simp: ParseTaskStatus_def split: if_splits)

section \<open>Options and reports\<close>

record decision_option =
  o_label :: string
  o_description :: string
  o_consequence :: string

record completion_report =
  WorkDone :: string
  NowPossible :: string
  HowToVerify :: string
  Surprises :: string
  NeedsReview :: string
  NextGoalIDs :: "int list"

record goal_summary =
  gs_id :: int
  gs_headline :: string
  gs_status :: GoalStatus

section \<open>Headline and body\<close>

definition newline :: char where
  "newline = CHR 0x0A"

definition Headline :: "string \<Rightarrow> string" where
  "Headline content =
     (if newline \<in> set content then TrimSpace (takeWhile (\<lambda>c. c \<noteq> newline) content)
      else TrimSpace content)"

definition Body :: "string \<Rightarrow> string" where
  "Body content =
     (if newline \<in> set content then TrimSpace (tl (dropWhile (\<lambda>c. c \<noteq> newline) content))
      else [])"

lemma set_strip_all: "set (strip_all seps s) \<subseteq> set s"
proof (induction seps s rule: strip_all.induct)
  case (1 seps s)
  show ?case
  proof (cases "strip_one seps s")
    case None
    then show ?thesis by (simp add: strip_all_stuck)
  next
    case (Some t)
    then have "set t \<subseteq> set s"
      by (auto simp: strip_one_def split: option.splits dest: in_set_dropD)
    with "1.IH" [OF Some] Some show ?thesis by (subst strip_all.simps) auto
  qed
qed

lemma set_TrimSpace: "set (TrimSpace s) \<subseteq> set s"
proof -
  have "set (TrimSpace s) \<subseteq> set (rev (strip_all space_runes s))"
    unfolding TrimSpace_def set_rev [of "strip_all (map rev space_runes) _"] by (rule set_strip_all)
  with set_strip_all [of space_runes s] show ?thesis by auto
qed

text \<open>A list of goals shows one line per goal: no headline contains a line break.\<close>

lemma Headline_one_line: "newline \<notin> set (Headline content)"
proof -
  have "newline \<notin> set (takeWhile (\<lambda>c. c \<noteq> newline) content)"
    by (auto dest: set_takeWhileD)
  then show ?thesis
    using set_TrimSpace [of content] set_TrimSpace [of "takeWhile (\<lambda>c. c \<noteq> newline) content"]
    by (auto simp: Headline_def)
qed

section \<open>The rank of an open decision\<close>

datatype PriorityReason =
  PriorityGoalReview | PriorityTaskInProgress | PriorityQueued | PriorityAutoSettles

definition DecisionPriority ::
  "DecisionKind \<Rightarrow> TaskStatus \<Rightarrow> bool \<Rightarrow> bool \<Rightarrow> nat \<times> PriorityReason" where
  "DecisionPriority kind taskStatus hasTask autoSettles =
     (if kind = KindGoalReview then (1, PriorityGoalReview)
      else if hasTask \<and> (taskStatus = TaskDoing \<or> taskStatus = TaskReview)
        then (2, PriorityTaskInProgress)
      else if \<not> autoSettles then (3, PriorityQueued)
      else (4, PriorityAutoSettles))"

text \<open>The rank and the reason are the same information.\<close>

lemma DecisionPriority_rank_reason:
  "fst (DecisionPriority k st h a) =
     (case snd (DecisionPriority k st h a) of
        PriorityGoalReview \<Rightarrow> 1 | PriorityTaskInProgress \<Rightarrow> 2
      | PriorityQueued \<Rightarrow> 3 | PriorityAutoSettles \<Rightarrow> 4)"
  by (simp add: DecisionPriority_def)

text \<open>A settled default never outranks a decision that waits for a human.\<close>

lemma DecisionPriority_auto_last:
  "fst (DecisionPriority k st h False) \<le> fst (DecisionPriority k st h True)"
  by (simp add: DecisionPriority_def)

lemma DecisionPriority_ignores_status:
  "DecisionPriority k st False a = DecisionPriority k st' False a"
  by (simp add: DecisionPriority_def)

end
