(* ===== verification/Atct_Schema.thy ===== *)
theory Atct_Schema
  imports Atct_Domain
begin

text \<open>
  The tables of \<^verbatim>\<open>schema.sql\<close> as the store uses them, one record per row type
  (\<^verbatim>\<open>internal/store/sqlcgen/models.go\<close>), and the state of the store: its tables and
  the notifications it has handed to subscribers. A NULL is \<^const>\<open>None\<close>. A timestamp column
  is the instant its text denotes, in nanoseconds; \<^verbatim>\<open>Atct_Timestamp\<close> justifies
  comparing instants where the database compares text. The options of a decision are the decoded
  list, not its JSON text.
\<close>

type_synonym time = int

text \<open>\<^verbatim>\<open>Format(time.RFC3339)\<close> keeps whole seconds only.\<close>

definition rfc3339 :: "time \<Rightarrow> time" where
  "rfc3339 t = 1000000000 * (t div 1000000000)"

lemma rfc3339_le: "rfc3339 t \<le> t"
  by (simp add: rfc3339_def)

lemma rfc3339_mono: "t \<le> u \<Longrightarrow> rfc3339 t \<le> rfc3339 u"
  by (simp add: rfc3339_def zdiv_mono1)

section \<open>Rows\<close>

record project =
  p_id :: int
  p_name :: string
  p_root_path :: string
  p_created_at :: time
  p_claimed_by :: int
  p_claimed_at :: "time option"
  p_archived_at :: "time option"

record agent_session =
  s_id :: int
  s_project_id :: "int option"
  s_registered_at :: time
  s_pid :: int
  s_started_at :: string
  s_session_key :: string
  s_discarded_at :: "time option"
  s_discarded_by :: "int option"
  s_discarded_decision_id :: "int option"
  s_discard_reason :: string
  s_development_mode :: bool
  s_last_heartbeat_at :: "time option"

record goal =
  g_id :: int
  g_project_id :: int
  g_derived_from :: "int option"
  g_content :: string
  g_spec :: string
  g_plan :: string
  g_status :: GoalStatus
  g_creator :: string
  g_result_summary :: string
  g_work_done :: string
  g_now_possible :: string
  g_how_to_verify :: string
  g_surprises :: string
  g_needs_review :: string
  g_created_at :: time
  g_updated_at :: time

record next_goal =
  ng_goal_id :: int
  ng_next_goal_id :: int
  ng_created_at :: time

record task =
  t_id :: int
  t_goal_id :: int
  t_title :: string
  t_description :: string
  t_status :: TaskStatus
  t_agent :: string
  t_sort_order :: int
  t_declare_key :: string
  t_snoozed_until :: "time option"
  t_created_at :: time
  t_updated_at :: time

record task_commit =
  tc_task_id :: int
  tc_sha :: string
  tc_subject :: string
  tc_files_changed :: int
  tc_insertions :: int
  tc_deletions :: int
  tc_created_at :: time

record decision =
  d_id :: int
  d_goal_id :: int
  d_task_id :: "int option"
  d_kind :: DecisionKind
  d_question :: string
  d_options :: "decision_option list"
  d_status :: DecisionStatus
  d_default_option :: string
  d_default_after_ms :: "int option"
  d_default_applied_at :: "time option"
  d_answer_label :: string
  d_answer_text :: string
  d_answered_at :: "time option"
  d_applied_at :: "time option"
  d_agent_session_id :: int
  d_created_at :: time
  d_answered_via :: string
  d_answer_quote :: string
  d_answer_evidence :: string
  d_answer_prompt_id :: string

text \<open>
  \<^verbatim>\<open>task_handoffs\<close> and \<^verbatim>\<open>goal_handoffs\<close> have the same columns but for the
  name of the one that says what was handed over; \<open>h_owner\<close> is that column, \<open>task_id\<close> in the
  one table and \<open>goal_id\<close> in the other.
\<close>

record handoff =
  h_id :: string
  h_owner :: int
  h_requested_by :: "int option"
  h_received_by :: "int option"
  h_requested_at :: "time option"
  h_received_at :: "time option"
  h_completed_report_at :: "time option"
  h_request_report :: "string option"
  h_complete_report :: "string option"
  h_review_requested_by :: "int option"
  h_review_requested_at :: "time option"
  h_review_request_report :: "string option"
  h_review_received_by :: "int option"
  h_review_received_at :: "time option"
  h_review_rejected_at :: "time option"
  h_review_reject_report :: "string option"
  h_review_rejection_received_by :: "int option"
  h_review_rejection_received_at :: "time option"
  h_recovered_at :: "time option"
  h_recovery_report :: "string option"

record handoff_entry =
  e_id :: int
  e_handoff_id :: string
  e_kind :: string
  e_body :: string
  e_author_session_id :: "int option"
  e_in_reply_to_id :: "int option"
  e_created_at :: time

record plan_handoff =
  pl_id :: string
  pl_goal_id :: int
  pl_review_requested_by :: "int option"
  pl_review_requested_at :: "time option"
  pl_review_request_report :: "string option"
  pl_review_received_by :: "int option"
  pl_review_received_at :: "time option"
  pl_review_rejected_at :: "time option"
  pl_review_reject_report :: "string option"
  pl_review_rejection_received_by :: "int option"
  pl_review_rejection_received_at :: "time option"
  pl_completed_report_at :: "time option"
  pl_complete_report :: "string option"

record task_create_handoff =
  c_id :: string
  c_goal_id :: int
  c_requested_by :: "int option"
  c_received_by :: "int option"
  c_completed_by :: "int option"
  c_requested_at :: "time option"
  c_received_at :: "time option"
  c_completed_at :: "time option"
  c_request_report :: "string option"
  c_complete_report :: "string option"
  c_recovered_at :: "time option"
  c_recovery_report :: "string option"

text \<open>
  A monitor is the process that delivers events to a session. \<^verbatim>\<open>monitor_health\<close> is what
  monitors report of themselves, \<^verbatim>\<open>monitor_bindings\<close> joins a monitor's token with its
  session; an empty \<^verbatim>\<open>last_reconciled_at\<close> is \<^const>\<open>None\<close>.
\<close>

record monitor_health =
  mh_monitor_id :: string
  mh_agent_key :: string
  mh_scope_key :: string
  mh_agent_session_id :: int
  mh_cwd :: string
  mh_role :: string
  mh_project_id :: int
  mh_goal_id :: "int option"
  mh_task_id :: "int option"
  mh_pid :: int
  mh_process_started_at :: time
  mh_state :: string
  mh_reason :: string
  mh_transitioned_at :: time
  mh_last_seen_at :: time
  mh_stopped_at :: "time option"

record monitor_binding =
  mb_token :: string
  mb_agent_session_id :: int
  mb_created_at :: time
  mb_last_reconciled_at :: "time option"

record handoff_gap =
  gap_handoff_id :: string
  gap_scope :: string

section \<open>Notifications\<close>

text \<open>
  What the store tells its subscribers (\<^verbatim>\<open>notify.go\<close>, the event types of
  \<^verbatim>\<open>wakeup.go\<close>): the wake-up of the waiters for one decision, the broadcast, and the
  events. \<open>NoEvent\<close> is the Go zero value, whose empty name \<^verbatim>\<open>publishWorkflowEvents\<close>
  skips. The random wake-up id of an event is left out.
\<close>

datatype event =
    NoEvent
  | GoalCreatedEvent goal
  | WorkflowDecisionEvent string decision
  | HandoffEvent (ev_name: string) (ev_project: int) (ev_goal: int) (ev_task: int) (ev_handoff: string)
      (ev_session: int) (ev_report: string)
  | HandoffReviewEvent string int int int string int string
  | HandoffReportedEvent int int int string string
  | GoalWithdrawnEvent int int string "int list" "string list" "int list"

datatype notification = Publish int | PublishAll | PublishEvent event

section \<open>The store\<close>

record store =
  projects :: "project list"
  agent_sessions :: "agent_session list"
  goals :: "goal list"
  next_goals :: "next_goal list"
  tasks :: "task list"
  task_commits :: "task_commit list"
  decisions :: "decision list"
  task_handoffs :: "handoff list"
  goal_handoffs :: "handoff list"
  task_handoff_entries :: "handoff_entry list"
  goal_handoff_entries :: "handoff_entry list"
  plan_handoffs :: "plan_handoff list"
  plan_handoff_entries :: "handoff_entry list"
  task_create_handoffs :: "task_create_handoff list"
  monitor_health_rows :: "monitor_health list"
  monitor_bindings :: "monitor_binding list"
  handoff_history_gaps :: "handoff_gap list"
  ui_locale :: "string option"
  published :: "notification list"

definition empty_store :: store where
  "empty_store = \<lparr>projects = [], agent_sessions = [], goals = [], next_goals = [], tasks = [],
     task_commits = [], decisions = [], task_handoffs = [], goal_handoffs = [],
     task_handoff_entries = [], goal_handoff_entries = [], plan_handoffs = [],
     plan_handoff_entries = [], task_create_handoffs = [], monitor_health_rows = [],
     monitor_bindings = [], handoff_history_gaps = [], ui_locale = Some ''en'', published = []\<rparr>"

text \<open>
  The sentinel errors of the packages, the constraint failures the driver reports, and
  \<open>Failure\<close> for the errors that have a message only. The text a sentinel is wrapped in
  is left out.
\<close>

datatype decision_error =
    ErrDecisionNotFound | ErrDecisionNotOpen | ErrInvalidDecisionDefault | ErrTaskHasOpenDecision
  | ErrGoalHasOpenDecision | ErrAnswerPromptReused

datatype task_error =
    ErrTaskNotFound | ErrTaskAlreadyClaimed | ErrTaskNotEditable | ErrTaskContentNotOwned
  | ErrTaskCreateHandoffState

datatype goal_error =
    ErrGoalNotFound | ErrGoalNotActive | ErrGoalReviewOpen | ErrGoalReviewNotFound
  | ErrGoalReviewNotApproved | ErrGoalReviewHandoffIncomplete | ErrGoalAlreadyClaimed
  | ErrGoalSelfReference | ErrGoalDerivationCycle | ErrNextGoalNotFound
  | ErrNextGoalProjectMismatch | ErrNextGoalSelfReference | ErrNextGoalDuplicate

text \<open>
  \<^verbatim>\<open>task_handoff.go\<close> and \<^verbatim>\<open>goal_handoff.go\<close> declare the same
  sentinels, prefixed \<^verbatim>\<open>ErrTaskHandoff\<close> and \<^verbatim>\<open>ErrGoalHandoff\<close>;
  \<open>ErrPlanHandoff\<close> has the last ones.
\<close>

datatype handoff_error =
    NotFound | LiveReceiver | OwnerMismatch | NotHeld | AlreadyOpen | Ambiguous | ReportEmpty
  | ReviewState | ReviewReviewerMismatch | ReviewReportEmpty | RecoveryState
  | GoalArtifactsEmpty | SpecPlanReferenceOnly

datatype entry_error =
    ErrHandoffEntryNotFound | ErrHandoffEntryKindInvalid | ErrHandoffEntryBodyEmpty
  | ErrHandoffEntryBodyTooLarge | ErrHandoffEntryBodyInvalidUTF8 | ErrHandoffEntryParticipant
  | ErrHandoffEntryRelatesToInvalid | ErrHandoffEntryTerminal | ErrHandoffHistoryLimitInvalid
  | ErrHandoffHistoryCursorInvalid

datatype session_error =
    ErrAgentSessionNotRegistered | ErrAgentSessionNotAssociated | ErrSessionRecoveryNotProven
  | ErrSessionDiscarded | ErrSessionDiscardNotFound | ErrSessionDiscardPending
  | ErrSessionDiscardForbidden

datatype project_error = ErrProjectNotFound | ErrProjectAlreadyClaimed | ErrProjectArchived

datatype monitor_error = ErrMonitorBindingNotFound | ErrUnsupportedUILocale

text \<open>The sentinels of \<^verbatim>\<open>internal/daemon\<close>.\<close>

datatype daemon_error =
    DaemonGoalAlreadyClaimed | DaemonProjectAlreadyClaimed
  | ErrRoleUnauthorized | ErrSessionNotIdentified | ErrDecisionOutsideGoal
  | ErrHandoffCompletionSessionRequired | ErrHumanQuoteUnverified
  | ErrMonitoredCallerRequired | ErrCapabilityInvalid | ErrCapabilityExpired | ErrCapabilityReplay
  | ErrCapabilityPeerMismatch

datatype error =
    NoRows | UniqueConstraintFailed | ForeignKeyConstraintFailed | CheckConstraintFailed
  | Failure string
  | DecisionE decision_error | TaskE task_error | GoalE goal_error
  | ErrTaskHandoff handoff_error | ErrGoalHandoff handoff_error | ErrPlanHandoff handoff_error
  | EntryE entry_error | SessionE session_error | ProjectE project_error | MonitorE monitor_error
  | DaemonE daemon_error

type_synonym 'a store_op = "(store, error, 'a) op"

section \<open>Publishing\<close>

definition notify_publish :: "int \<Rightarrow> unit store_op" where
  "notify_publish i = change (published_update (\<lambda>l. l @ [Publish i]))"

definition notify_publishAll :: "unit store_op" where
  "notify_publishAll = change (published_update (\<lambda>l. l @ [PublishAll]))"

definition publishEvent :: "event \<Rightarrow> unit store_op" where
  "publishEvent e = change (published_update (\<lambda>l. l @ [PublishEvent e]))"

definition publishWorkflowEvents :: "event list \<Rightarrow> unit store_op" where
  "publishWorkflowEvents evs =
     each (\<lambda>e. if e \<noteq> NoEvent then publishEvent e else ret ()) evs"

lemma total_publish [total_intros]:
  "total_op (notify_publish i)" "total_op notify_publishAll" "total_op (publishEvent e)"
  "total_op (publishWorkflowEvents evs)"
  by (auto simp: notify_publish_def notify_publishAll_def publishEvent_def publishWorkflowEvents_def
      intro!: total_intros)

lemma notify_run [op_run]:
  "notify_publish i s = (r, t) \<longleftrightarrow> r = Inr () \<and> t = published_update (\<lambda>l. l @ [Publish i]) s"
  "notify_publishAll s = (r, t) \<longleftrightarrow> r = Inr () \<and> t = published_update (\<lambda>l. l @ [PublishAll]) s"
  "publishEvent e s = (r, t) \<longleftrightarrow> r = Inr () \<and> t = published_update (\<lambda>l. l @ [PublishEvent e]) s"
  by (auto simp: notify_publish_def notify_publishAll_def publishEvent_def change_def)

lemma publishWorkflowEvents_run [op_run]:
  "publishWorkflowEvents evs s = (r, t) \<longleftrightarrow>
     r = Inr () \<and> t = published_update (\<lambda>l. l @ map PublishEvent (filter (\<lambda>e. e \<noteq> NoEvent) evs)) s"
proof -
  have "publishWorkflowEvents evs s =
      (Inr (), published_update (\<lambda>l. l @ map PublishEvent (filter (\<lambda>e. e \<noteq> NoEvent) evs)) s)"
    unfolding publishWorkflowEvents_def
    by (induction evs arbitrary: s) (auto simp: publishEvent_def op_eval op_eval_defs comp_def)
  then show ?thesis by auto
qed

lemma each_publish_run [op_run]:
  "each (\<lambda>d. notify_publish (k d)) ds s = (r, t) \<longleftrightarrow>
     r = Inr () \<and> t = published_update (\<lambda>l. l @ map (\<lambda>d. Publish (k d)) ds) s"
proof -
  have "each (\<lambda>d. notify_publish (k d)) ds s =
      (Inr (), published_update (\<lambda>l. l @ map (\<lambda>d. Publish (k d)) ds) s)"
    by (induction ds arbitrary: s) (auto simp: notify_publish_def op_eval op_eval_defs comp_def)
  then show ?thesis by auto
qed

text \<open>Publishing changes the notifications and nothing else.\<close>

definition same_tables :: "store \<Rightarrow> store \<Rightarrow> bool" where
  "same_tables s t \<longleftrightarrow> (\<exists>l. t = s\<lparr>published := l\<rparr>)"

lemma same_tables_fields:
  assumes "same_tables s t"
  shows "projects t = projects s" "agent_sessions t = agent_sessions s" "goals t = goals s"
    "next_goals t = next_goals s" "tasks t = tasks s" "task_commits t = task_commits s"
    "decisions t = decisions s" "task_handoffs t = task_handoffs s"
    "goal_handoffs t = goal_handoffs s" "task_handoff_entries t = task_handoff_entries s"
    "goal_handoff_entries t = goal_handoff_entries s" "plan_handoffs t = plan_handoffs s"
    "plan_handoff_entries t = plan_handoff_entries s"
    "task_create_handoffs t = task_create_handoffs s"
    "monitor_health_rows t = monitor_health_rows s" "monitor_bindings t = monitor_bindings s"
    "handoff_history_gaps t = handoff_history_gaps s" "ui_locale t = ui_locale s"
  using assms by (auto simp: same_tables_def)

interpretation same_tables: state_order same_tables
proof
  show "same_tables s s" for s
    unfolding same_tables_def by (rule exI [of _ "published s"]) simp
  show "same_tables s t \<Longrightarrow> same_tables t u \<Longrightarrow> same_tables s u" for s t u
    by (auto simp: same_tables_def)
qed

lemma same_tables_published: "same_tables s (published_update f s)"
  unfolding same_tables_def by (rule exI [of _ "f (published s)"]) simp

lemma publish_same_tables:
  "evolves same_tables (notify_publish i)" "evolves same_tables notify_publishAll"
  "evolves same_tables (publishEvent e)"
  by (simp_all add: notify_publish_def notify_publishAll_def publishEvent_def evolves_change
      same_tables_published)

lemma publishWorkflowEvents_same_tables: "evolves same_tables (publishWorkflowEvents evs)"
  unfolding publishWorkflowEvents_def
  by (intro same_tables.ev_each same_tables.ev_if publish_same_tables same_tables.ev_ret)

text \<open>An order that does not look at the notifications is kept by publishing.\<close>

lemma evolves_publish:
  assumes R: "\<And>s t. same_tables s t \<Longrightarrow> R s t"
  shows "evolves R (notify_publish i)" "evolves R notify_publishAll" "evolves R (publishEvent e)"
    "evolves R (publishWorkflowEvents evs)"
  using publish_same_tables(1) [of i] publish_same_tables(2) publish_same_tables(3) [of e]
    publishWorkflowEvents_same_tables [of evs] R
  unfolding evolves_def by blast+

section \<open>Well-formed tables\<close>

text \<open>
  What the PRIMARY KEY and UNIQUE constraints of the schema say: row ids are distinct, and at
  most one handoff of a task or goal is open (the partial unique indexes
  \<^verbatim>\<open>idx_task_handoffs_open_task_id\<close> and \<^verbatim>\<open>idx_goal_handoffs_open_goal_id\<close>).
\<close>

definition handoff_open :: "handoff \<Rightarrow> bool" where
  "handoff_open h \<longleftrightarrow> h_completed_report_at h = None \<and> h_recovered_at h = None"

definition one_open :: "handoff list \<Rightarrow> bool" where
  "one_open hs \<longleftrightarrow> distinct (map h_owner (filter handoff_open hs))"

definition wf_handoffs :: "handoff list \<Rightarrow> bool" where
  "wf_handoffs hs \<longleftrightarrow> distinct (map h_id hs) \<and> one_open hs"

lemma one_openD:
  assumes "one_open hs" and "g \<in> set hs" and "h \<in> set hs" and "handoff_open g" and "handoff_open h"
    and "h_owner g = h_owner h"
  shows "g = h"
  using assms by (auto simp: one_open_def distinct_map inj_on_def)

end
