(* ===== verification/Atct_Sessions.thy ===== *)
theory Atct_Sessions
  imports Atct_Schema
begin

text \<open>
  Agent sessions: the heartbeat lease that says whether a session is running
  (\<^verbatim>\<open>runtime_lease.go\<close>, \<^verbatim>\<open>claim_liveness.go\<close>), the proof
  that a session's work may be taken over (\<^verbatim>\<open>canRecoverSessionInTx\<close> in
  \<^verbatim>\<open>goal_handoff.go\<close>), the fence of discarded sessions
  (\<^verbatim>\<open>handoff_recovery.go\<close>), and registration, identification and association
  with a project (\<^verbatim>\<open>store.go\<close>). Every operation takes the instant \<open>now\<close> it
  reads from the clock.
\<close>

section \<open>Queries\<close>

definition session_row :: "int \<Rightarrow> store \<Rightarrow> agent_session option" where
  "session_row i s = List.find (\<lambda>r. s_id r = i) (agent_sessions s)"

definition GetAgentSessionLiveness_sql :: "int \<Rightarrow> agent_session store_op" where
  "GetAgentSessionLiveness_sql i = bnd (ask (session_row i)) (need NoRows)"

definition GetAgentSessionRecovery_sql :: "int \<Rightarrow> agent_session store_op" where
  "GetAgentSessionRecovery_sql i = bnd (ask (session_row i)) (need NoRows)"

definition GetAgentSessionProjectID_sql :: "int \<Rightarrow> (int option) store_op" where
  "GetAgentSessionProjectID_sql i =
     bnd (ask (session_row i)) (\<lambda>v. bnd (need NoRows v) (\<lambda>r. ret (s_project_id r)))"

definition GetAgentSessionKey_sql :: "int \<Rightarrow> string store_op" where
  "GetAgentSessionKey_sql i =
     bnd (ask (session_row i)) (\<lambda>v. bnd (need NoRows v) (\<lambda>r. ret (s_session_key r)))"

definition GetAgentSessionIDByKey_sql :: "string \<Rightarrow> int store_op" where
  "GetAgentSessionIDByKey_sql key =
     bnd (ask (\<lambda>s. List.find (\<lambda>r. s_session_key r = key) (agent_sessions s)))
       (\<lambda>v. bnd (need NoRows v) (\<lambda>r. ret (s_id r)))"

definition HeartbeatAgentSession_sql :: "time \<Rightarrow> int \<Rightarrow> nat store_op" where
  "HeartbeatAgentSession_sql now i =
     exec_update agent_sessions agent_sessions_update (\<lambda>r. s_id r = i)
       (s_last_heartbeat_at_update (\<lambda>_. Some now))"

definition RenewAgentSessionLease_sql :: "time \<Rightarrow> int \<Rightarrow> time \<Rightarrow> nat store_op" where
  "RenewAgentSessionLease_sql now i threshold =
     exec_update agent_sessions agent_sessions_update
       (\<lambda>r. s_id r = i \<and>
          (case s_last_heartbeat_at r of None \<Rightarrow> True | Some hb \<Rightarrow> hb < threshold))
       (s_last_heartbeat_at_update (\<lambda>_. Some now))"

definition UpdateAgentSessionKey_sql :: "string \<Rightarrow> int \<Rightarrow> nat store_op" where
  "UpdateAgentSessionKey_sql key i =
     exec_update agent_sessions agent_sessions_update (\<lambda>r. s_id r = i)
       (s_session_key_update (\<lambda>_. key))"

definition UpdateAgentSessionProcessIdentity_sql ::
  "int \<Rightarrow> string \<Rightarrow> time \<Rightarrow> int \<Rightarrow> nat store_op" where
  "UpdateAgentSessionProcessIdentity_sql pid startedAt registeredAt i =
     exec_update agent_sessions agent_sessions_update (\<lambda>r. s_id r = i)
       (\<lambda>r. r\<lparr>s_pid := pid, s_started_at := startedAt, s_registered_at := registeredAt\<rparr>)"

definition EnableDevelopmentMode_sql :: "int \<Rightarrow> nat store_op" where
  "EnableDevelopmentMode_sql i =
     exec_update agent_sessions agent_sessions_update (\<lambda>r. s_id r = i)
       (s_development_mode_update (\<lambda>_. True))"

definition project_exists :: "int \<Rightarrow> store \<Rightarrow> bool" where
  "project_exists i s \<longleftrightarrow> (\<exists>p\<in>set (projects s). p_id p = i)"

definition session_exists :: "int \<Rightarrow> store \<Rightarrow> bool" where
  "session_exists i s \<longleftrightarrow> (\<exists>r\<in>set (agent_sessions s). s_id r = i)"

text \<open>A NULL reference satisfies every foreign key.\<close>

definition fk_ok :: "(int \<Rightarrow> store \<Rightarrow> bool) \<Rightarrow> int option \<Rightarrow> store \<Rightarrow> bool" where
  "fk_ok ex v s \<longleftrightarrow> (case v of None \<Rightarrow> True | Some i \<Rightarrow> ex i s)"

definition UpdateAgentSessionProject_sql :: "int option \<Rightarrow> int \<Rightarrow> nat store_op" where
  "UpdateAgentSessionProject_sql project i =
     bnd (ask (\<lambda>s. session_exists i s \<longrightarrow> fk_ok project_exists project s)) (\<lambda>ok.
     bnd (check ok ForeignKeyConstraintFailed) (\<lambda>_.
     exec_update agent_sessions agent_sessions_update (\<lambda>r. s_id r = i)
       (s_project_id_update (\<lambda>_. project))))"

definition RegisterAgentSessionWithProject_sql ::
  "int option \<Rightarrow> int \<Rightarrow> string \<Rightarrow> time \<Rightarrow> int store_op" where
  "RegisterAgentSessionWithProject_sql project pid startedAt registeredAt =
     bnd (ask (fk_ok project_exists project)) (\<lambda>ok.
     bnd (check ok ForeignKeyConstraintFailed) (\<lambda>_.
     bnd (ask (\<lambda>s. next_id s_id (agent_sessions s))) (\<lambda>i.
     bnd (exec_insert agent_sessions_update
       \<lparr>s_id = i, s_project_id = project, s_registered_at = registeredAt, s_pid = pid,
        s_started_at = startedAt, s_session_key = [], s_discarded_at = None,
        s_discarded_by = None, s_discarded_decision_id = None, s_discard_reason = [],
        s_development_mode = False, s_last_heartbeat_at = None\<rparr>) (\<lambda>_.
     ret i))))"

text \<open>The sessions the NOT EXISTS clauses of the retention query keep.\<close>

definition handoff_names :: "int \<Rightarrow> handoff \<Rightarrow> bool" where
  "handoff_names i h \<longleftrightarrow>
     Some i \<in> {h_requested_by h, h_received_by h, h_review_requested_by h,
                h_review_received_by h, h_review_rejection_received_by h}"

definition retained :: "store \<Rightarrow> int \<Rightarrow> bool" where
  "retained s i \<longleftrightarrow>
     list_ex (handoff_names i) (task_handoffs s) \<or> list_ex (handoff_names i) (goal_handoffs s)
   \<or> list_ex (\<lambda>h. Some i \<in> {pl_review_requested_by h, pl_review_received_by h,
                                 pl_review_rejection_received_by h}) (plan_handoffs s)
   \<or> list_ex (\<lambda>h. Some i \<in> {c_requested_by h, c_received_by h, c_completed_by h})
       (task_create_handoffs s)
   \<or> list_ex (\<lambda>d. s_discarded_by d = Some i) (agent_sessions s)"

text \<open>
  A deleted session is also set to NULL in the entries it wrote (ON DELETE SET NULL), and its
  monitor bindings go with it (ON DELETE CASCADE); the other columns that reference a session are the ones \<open>retained\<close> looks at.
\<close>

definition forget_author :: "(int \<Rightarrow> bool) \<Rightarrow> handoff_entry list \<Rightarrow> handoff_entry list" where
  "forget_author gone es =
     map (\<lambda>e. case e_author_session_id e of None \<Rightarrow> e
          | Some i \<Rightarrow> if gone i then e\<lparr>e_author_session_id := None\<rparr> else e) es"

definition delete_sessions :: "(agent_session \<Rightarrow> bool) \<Rightarrow> store \<Rightarrow> store" where
  "delete_sessions P s =
     (let gone = (\<lambda>i. list_ex (\<lambda>r. s_id r = i \<and> P r) (agent_sessions s))
      in s\<lparr>agent_sessions := filter (\<lambda>r. \<not> P r) (agent_sessions s),
           task_handoff_entries := forget_author gone (task_handoff_entries s),
           goal_handoff_entries := forget_author gone (goal_handoff_entries s),
           plan_handoff_entries := forget_author gone (plan_handoff_entries s),
           monitor_bindings := filter (\<lambda>b. \<not> gone (mb_agent_session_id b)) (monitor_bindings s)\<rparr>)"

definition DeleteExpiredAgentSessionsExcept_sql :: "int \<Rightarrow> time \<Rightarrow> unit store_op" where
  "DeleteExpiredAgentSessionsExcept_sql i registeredBefore =
     change (\<lambda>s. delete_sessions
       (\<lambda>r. s_id r \<noteq> i \<and> s_registered_at r < registeredBefore \<and> \<not> retained s (s_id r)) s)"

section \<open>The heartbeat lease\<close>

definition second :: time where
  "second = 1000000000"

definition RuntimeLeaseDuration :: time where
  "RuntimeLeaseDuration = 30 * second"

definition agentSessionRetention :: time where
  "agentSessionRetention = 30 * 24 * 3600 * second"

datatype agentSessionLeaseState = leaseUnknown | leaseHeld | leaseLapsed

definition agentSessionLiveAt :: "time option \<Rightarrow> time \<Rightarrow> bool" where
  "agentSessionLiveAt hb now =
     (case hb of None \<Rightarrow> False | Some heartbeat \<Rightarrow> \<not> heartbeat < now - RuntimeLeaseDuration)"

definition agentSessionLiveInQueries :: "int \<Rightarrow> time \<Rightarrow> store \<Rightarrow> bool" where
  "agentSessionLiveInQueries i now s =
     (if i \<le> 0 then False
      else case session_row i s of None \<Rightarrow> False
           | Some row \<Rightarrow> agentSessionLiveAt (s_last_heartbeat_at row) now)"

definition agentSessionLease :: "int \<Rightarrow> time \<Rightarrow> store \<Rightarrow> agentSessionLeaseState" where
  "agentSessionLease i now s =
     (if i \<le> 0 then leaseUnknown
      else case session_row i s of None \<Rightarrow> leaseUnknown
           | Some row \<Rightarrow>
               if s_last_heartbeat_at row = None then leaseUnknown
               else if agentSessionLiveAt (s_last_heartbeat_at row) now then leaseHeld
               else leaseLapsed)"

definition claimIsRunning :: "int \<Rightarrow> time \<Rightarrow> store \<Rightarrow> bool" where
  "claimIsRunning i now s = agentSessionLiveInQueries i now s"

definition claimIsDefinitelyDead :: "int \<Rightarrow> time \<Rightarrow> store \<Rightarrow> bool" where
  "claimIsDefinitelyDead i now s = (\<not> agentSessionLiveInQueries i now s)"

definition leaseCutoff :: "time \<Rightarrow> time" where
  "leaseCutoff now = now - RuntimeLeaseDuration"

definition requireAgentSessionID :: "int \<Rightarrow> int store_op" where
  "requireAgentSessionID i =
     (if i \<le> 0 then fail (Failure ''agent_session_id is required'') else ret i)"

definition HeartbeatAgentSession :: "int \<Rightarrow> time \<Rightarrow> unit store_op" where
  "HeartbeatAgentSession i now =
     bnd (requireAgentSessionID i) (\<lambda>i.
     bnd (HeartbeatAgentSession_sql now i) (\<lambda>affected.
     check (affected \<noteq> 0) (SessionE ErrAgentSessionNotRegistered)))"

section \<open>Discarded sessions and recovery\<close>

datatype RecoveryProofKind = RecoveryProofSessionDiscard | RecoveryProofLeaseLapsed

record recovery_proof =
  SessionID :: int
  Kind :: RecoveryProofKind
  DiscardDecisionID :: int
  proof_PID :: int
  proof_StartedAt :: string

definition agentSessionHasDiscardMetadata :: "agent_session \<Rightarrow> bool" where
  "agentSessionHasDiscardMetadata r \<longleftrightarrow>
     s_discarded_at r \<noteq> None \<or> s_discarded_by r \<noteq> None \<or> s_discarded_decision_id r \<noteq> None
   \<or> \<not> blank (s_discard_reason r)"

definition requireUndiscardedSession :: "int \<Rightarrow> unit store_op" where
  "requireUndiscardedSession i =
     (if i = 0 then ret ()
      else bnd (ask (session_row i)) (\<lambda>v. case v of None \<Rightarrow> ret ()
           | Some row \<Rightarrow>
               check (\<not> agentSessionHasDiscardMetadata row) (SessionE ErrSessionDiscarded)))"

definition canRecoverSessionInTx :: "int \<Rightarrow> time \<Rightarrow> recovery_proof store_op" where
  "canRecoverSessionInTx i now =
     (if i \<le> 0 then fail (SessionE ErrSessionRecoveryNotProven)
      else bnd (ask (session_row i)) (\<lambda>v. case v of
        None \<Rightarrow> fail (SessionE ErrAgentSessionNotRegistered)
      | Some row \<Rightarrow>
          if agentSessionHasDiscardMetadata row then
            (if s_discarded_at row \<noteq> None \<and> 0 < nz (s_discarded_by row)
                \<and> 0 < nz (s_discarded_decision_id row) \<and> s_discard_reason row \<noteq> []
             then ret \<lparr>SessionID = i, Kind = RecoveryProofSessionDiscard,
                       DiscardDecisionID = nz (s_discarded_decision_id row),
                       proof_PID = s_pid row, proof_StartedAt = s_started_at row\<rparr>
             else fail (SessionE ErrSessionRecoveryNotProven))
          else bnd (ask (agentSessionLease i now)) (\<lambda>lease.
            if lease = leaseHeld then fail (SessionE ErrSessionRecoveryNotProven)
            else ret \<lparr>SessionID = i, Kind = RecoveryProofLeaseLapsed, DiscardDecisionID = 0,
                      proof_PID = s_pid row, proof_StartedAt = s_started_at row\<rparr>)))"

definition CanRecoverSession :: "int \<Rightarrow> time \<Rightarrow> recovery_proof store_op" where
  "CanRecoverSession i now = canRecoverSessionInTx i now"

definition EnableDevelopmentMode :: "int \<Rightarrow> unit store_op" where
  "EnableDevelopmentMode i =
     bnd (requireUndiscardedSession i) (\<lambda>_.
     bnd (EnableDevelopmentMode_sql i) (\<lambda>changed. check (changed \<noteq> 0) NoRows))"

definition ProjectIDForAgentSession :: "int \<Rightarrow> int store_op" where
  "ProjectIDForAgentSession i =
     bnd (requireAgentSessionID i) (\<lambda>i.
     bnd (map_error (\<lambda>e. if e = NoRows then SessionE ErrAgentSessionNotRegistered else e)
           (GetAgentSessionProjectID_sql i)) (\<lambda>project.
     if nz project = 0 then fail (SessionE ErrAgentSessionNotAssociated)
     else ret (nz project)))"

section \<open>Registration, identification, association\<close>

text \<open>
  \<open>pid\<close> and \<open>startedAt\<close> are what \<^verbatim>\<open>processStartedAt\<close> reports of the process,
  0 and the empty string when it reports an error.
\<close>

definition RegisterAgentSessionInProject :: "int \<Rightarrow> string \<Rightarrow> int \<Rightarrow> time \<Rightarrow> int store_op" where
  "RegisterAgentSessionInProject pid startedAt projectID now =
     transaction
       (bnd (RegisterAgentSessionWithProject_sql (nullable projectID) pid startedAt now) (\<lambda>i.
        bnd (DeleteExpiredAgentSessionsExcept_sql i (now - agentSessionRetention)) (\<lambda>_.
        bnd (HeartbeatAgentSession_sql now i) (\<lambda>_.
        ret i))))"

definition RegisterAgentSession :: "int \<Rightarrow> string \<Rightarrow> time \<Rightarrow> int store_op" where
  "RegisterAgentSession pid startedAt now = RegisterAgentSessionInProject pid startedAt 0 now"

definition IdentifyAgentSession ::
  "int \<Rightarrow> string \<Rightarrow> int \<Rightarrow> string \<Rightarrow> time \<Rightarrow> (int \<times> bool) store_op" where
  "IdentifyAgentSession i sessionKey pid startedAt now =
     (let key = TrimSpace sessionKey in
      if key = [] then fail (Failure ''session_key is required'')
      else bnd (requireAgentSessionID i) (\<lambda>i. transaction
        (bnd (map_error (\<lambda>e. if e = NoRows then SessionE ErrAgentSessionNotRegistered else e)
               (GetAgentSessionLiveness_sql i)) (\<lambda>_.
         bnd (GetAgentSessionRecovery_sql i) (\<lambda>transport.
         bnd (check (\<not> agentSessionHasDiscardMetadata transport) (SessionE ErrSessionDiscarded)) (\<lambda>_.
         bnd (try_op (GetAgentSessionIDByKey_sql key)) (\<lambda>found. case found of
           Inr canonical \<Rightarrow>
             bnd (GetAgentSessionRecovery_sql canonical) (\<lambda>session.
             bnd (check (\<not> agentSessionHasDiscardMetadata session)
                    (SessionE ErrSessionDiscarded)) (\<lambda>_.
             bnd (UpdateAgentSessionProcessIdentity_sql pid startedAt now canonical) (\<lambda>_.
             ret (canonical, canonical \<noteq> i))))
         | Inl e \<Rightarrow>
             if e = NoRows then
               bnd (UpdateAgentSessionKey_sql key i) (\<lambda>_.
               bnd (UpdateAgentSessionProcessIdentity_sql pid startedAt now i) (\<lambda>_.
               ret (i, False)))
             else fail e)))))))"

definition AgentSessionIDByKey :: "string \<Rightarrow> int store_op" where
  "AgentSessionIDByKey sessionKey =
     (let key = TrimSpace sessionKey in
      if key = [] then fail (Failure ''session_key is required'')
      else map_error (\<lambda>e. if e = NoRows then Failure ''session_key is not registered'' else e)
             (GetAgentSessionIDByKey_sql key))"

definition AssociateAgentSessionWithProject :: "int \<Rightarrow> int \<Rightarrow> time \<Rightarrow> unit store_op" where
  "AssociateAgentSessionWithProject i projectID now =
     bnd (requireAgentSessionID i) (\<lambda>i. transaction
       (bnd (UpdateAgentSessionProject_sql (Some projectID) i) (\<lambda>affected.
        bnd (check (affected \<noteq> 0) (SessionE ErrAgentSessionNotRegistered)) (\<lambda>_.
        DeleteExpiredAgentSessionsExcept_sql i (now - agentSessionRetention)))))"

section \<open>The lease\<close>

lemma session_row_id: "session_row i s = Some r \<Longrightarrow> s_id r = i \<and> r \<in> set (agent_sessions s)"
  by (auto simp: session_row_def dest: find_Some_in)

lemma session_row_None: "session_row i s = None \<longleftrightarrow> \<not> session_exists i s"
  by (auto simp: session_row_def session_exists_def find_None_iff_all)

lemma session_row_update:
  "session_row i (agent_sessions_update (update_where (\<lambda>r. s_id r = j \<and> P r) f) s) =
     map_option (\<lambda>r. if s_id r = j \<and> P r then f r else r) (session_row i s)"
  if "\<And>r. s_id (f r) = s_id r"
  unfolding session_row_def by (simp add: find_update_where_key that)

lemmas session_row_update_id = session_row_update [where P = "\<lambda>_. True", simplified]

lemma agentSessionLease_held: "agentSessionLease i now s = leaseHeld \<longleftrightarrow> agentSessionLiveInQueries i now s"
  by (auto simp: agentSessionLease_def agentSessionLiveInQueries_def agentSessionLiveAt_def
      split: option.splits)

text \<open>A heartbeat keeps the session live for the thirty seconds of its lease and not longer.\<close>

lemma heartbeat_lease:
  assumes "HeartbeatAgentSession i t s = (Inr (), u)"
  shows "agentSessionLiveInQueries i now u \<longleftrightarrow> now \<le> t + RuntimeLeaseDuration"
proof -
  have i: "0 < i" and ex: "session_exists i s"
    and u: "u = agent_sessions_update (update_where (\<lambda>r. s_id r = i)
              (s_last_heartbeat_at_update (\<lambda>_. Some t))) s"
    using assms by (auto simp: HeartbeatAgentSession_def requireAgentSessionID_def
        HeartbeatAgentSession_sql_def op_run affected_pos session_exists_def split: if_splits)
  obtain r where r: "session_row i s = Some r" "s_id r = i"
    using ex session_row_None [of i s] session_row_id by fastforce
  show ?thesis
    using i r by (simp add: u agentSessionLiveInQueries_def session_row_update_id
        agentSessionLiveAt_def) linarith
qed

section \<open>Recovery\<close>

lemma reads_sessions [reads_intros]:
  "reads (GetAgentSessionLiveness_sql i)" "reads (GetAgentSessionRecovery_sql i)"
  "reads (GetAgentSessionProjectID_sql i)" "reads (GetAgentSessionKey_sql i)"
  "reads (GetAgentSessionIDByKey_sql key)" "reads (requireAgentSessionID i)"
  "reads (requireUndiscardedSession i)" "reads (canRecoverSessionInTx i now)"
  "reads (ProjectIDForAgentSession i)"
  by (auto simp: GetAgentSessionLiveness_sql_def GetAgentSessionRecovery_sql_def
      GetAgentSessionProjectID_sql_def GetAgentSessionKey_sql_def GetAgentSessionIDByKey_sql_def
      requireAgentSessionID_def requireUndiscardedSession_def canRecoverSessionInTx_def
      ProjectIDForAgentSession_def intro!: reads_intros)

lemma requireUndiscardedSession_run:
  "requireUndiscardedSession i s = (Inr (), t) \<longleftrightarrow>
     t = s \<and> (i = 0 \<or> (\<forall>r. session_row i s = Some r \<longrightarrow> \<not> agentSessionHasDiscardMetadata r))"
  by (auto simp: requireUndiscardedSession_def op_run split: option.splits)

text \<open>
  A recovery proof is never given for a session whose lease is held, unless the session was
  discarded by an approved decision.
\<close>

lemma recovery_proof_sound:
  assumes "canRecoverSessionInTx i now s = (Inr p, t)"
  shows "session_exists i s" and "t = s" and "SessionID p = i"
    and "Kind p = RecoveryProofLeaseLapsed \<Longrightarrow> \<not> agentSessionLiveInQueries i now s"
    and "Kind p = RecoveryProofSessionDiscard \<Longrightarrow>
           \<exists>r\<in>set (agent_sessions s). s_id r = i \<and> s_discarded_at r \<noteq> None
             \<and> s_discarded_decision_id r = Some (DiscardDecisionID p)"
proof -
  obtain r where row: "session_row i s = Some r"
    using assms by (auto simp: canRecoverSessionInTx_def op_run split: if_splits option.splits)
  then show "session_exists i s" using session_row_None [of i s] by simp
  show "t = s" using assms by (rule readsD [rotated]) (rule reads_sessions)
  show "SessionID p = i"
    using assms by (auto simp: canRecoverSessionInTx_def op_run split: if_splits option.splits)
  show "\<not> agentSessionLiveInQueries i now s" if "Kind p = RecoveryProofLeaseLapsed"
    using assms that by (auto simp: canRecoverSessionInTx_def op_run agentSessionLease_held
        split: if_splits option.splits)
  show "\<exists>r\<in>set (agent_sessions s). s_id r = i \<and> s_discarded_at r \<noteq> None
          \<and> s_discarded_decision_id r = Some (DiscardDecisionID p)"
    if "Kind p = RecoveryProofSessionDiscard"
    using assms that row session_row_id [OF row]
    by (auto simp: canRecoverSessionInTx_def op_run nz_def split: if_splits option.splits)
qed

lemma recovery_proof_complete:
  assumes "0 < i" and "session_row i s = Some r" and "\<not> agentSessionHasDiscardMetadata r"
    and "\<not> agentSessionLiveInQueries i now s"
  shows "\<exists>p. canRecoverSessionInTx i now s = (Inr p, s) \<and> Kind p = RecoveryProofLeaseLapsed"
  using assms by (simp add: canRecoverSessionInTx_def bnd_def ask_def ret_def agentSessionLease_held)

section \<open>Well-formed sessions\<close>

text \<open>The primary key, and the unique index on the keys that are set.\<close>

definition wf_sessions :: "store \<Rightarrow> bool" where
  "wf_sessions s \<longleftrightarrow>
     distinct (map s_id (agent_sessions s))
   \<and> distinct (filter (\<lambda>k. k \<noteq> []) (map s_session_key (agent_sessions s)))"

lemma wf_sessions_cong: "agent_sessions t = agent_sessions s \<Longrightarrow> wf_sessions t \<longleftrightarrow> wf_sessions s"
  by (simp add: wf_sessions_def)

lemma wf_sessions_filter:
  "wf_sessions s \<Longrightarrow> agent_sessions t = filter P (agent_sessions s) \<Longrightarrow> wf_sessions t"
  by (auto simp: wf_sessions_def distinct_map filter_map comp_def inj_on_def)

lemma wf_sessions_update:
  assumes "wf_sessions s"
    and "\<And>r. s_id (f r) = s_id r" and "\<And>r. s_session_key (f r) = s_session_key r"
  shows "wf_sessions (agent_sessions_update (update_where P f) s)"
  using assms by (simp add: wf_sessions_def map_update_where)

lemma wf_sessions_insert:
  assumes "wf_sessions s" and "s_id r = next_id s_id (agent_sessions s)" and "s_session_key r = []"
  shows "wf_sessions (agent_sessions_update (\<lambda>rows. rows @ [r]) s)"
  using assms next_id_fresh [of s_id "agent_sessions s"] by (auto simp: wf_sessions_def)

lemma agent_sessions_delete [simp]:
  "agent_sessions (delete_sessions P s) = filter (\<lambda>r. \<not> P r) (agent_sessions s)"
  by (simp add: delete_sessions_def Let_def)

lemma wf_sessions_queries:
  "evolves (keeps wf_sessions) (RegisterAgentSessionWithProject_sql pr pid st now)"
  "evolves (keeps wf_sessions) (DeleteExpiredAgentSessionsExcept_sql i before)"
  "evolves (keeps wf_sessions) (HeartbeatAgentSession_sql now i)"
  "evolves (keeps wf_sessions) (RenewAgentSessionLease_sql now i threshold)"
  "evolves (keeps wf_sessions) (UpdateAgentSessionProcessIdentity_sql pid st now i)"
  "evolves (keeps wf_sessions) (UpdateAgentSessionProject_sql pr i)"
  "evolves (keeps wf_sessions) (EnableDevelopmentMode_sql i)"
proof -
  have upd: "evolves (keeps wf_sessions) (exec_update agent_sessions agent_sessions_update P f)"
    if "\<And>r. s_id (f r) = s_id r" "\<And>r. s_session_key (f r) = s_session_key r" for P f
    using wf_sessions_update [OF _ that] by (auto intro: evolves_exec_update simp: keeps_def)
  show "evolves (keeps wf_sessions) (HeartbeatAgentSession_sql now i)"
    "evolves (keeps wf_sessions) (RenewAgentSessionLease_sql now i threshold)"
    "evolves (keeps wf_sessions) (UpdateAgentSessionProcessIdentity_sql pid st now i)"
    "evolves (keeps wf_sessions) (EnableDevelopmentMode_sql i)"
    by (auto simp: HeartbeatAgentSession_sql_def RenewAgentSessionLease_sql_def
        UpdateAgentSessionProcessIdentity_sql_def EnableDevelopmentMode_sql_def intro!: upd)
  show "evolves (keeps wf_sessions) (UpdateAgentSessionProject_sql pr i)"
    unfolding UpdateAgentSessionProject_sql_def by (intro keeps.ev_rules upd) auto
  show "evolves (keeps wf_sessions) (DeleteExpiredAgentSessionsExcept_sql i before)"
    unfolding DeleteExpiredAgentSessionsExcept_sql_def
    by (rule evolves_change, unfold keeps_def, intro impI, erule wf_sessions_filter) simp
  show "evolves (keeps wf_sessions) (RegisterAgentSessionWithProject_sql pr pid st now)"
    by (rule keepsI) (auto simp: RegisterAgentSessionWithProject_sql_def bnd_def ask_def check_def
        ret_def fail_def exec_insert_def change_def wf_sessions_insert split: if_splits)
qed

lemma register_wf: "evolves (keeps wf_sessions) (RegisterAgentSessionInProject pid st pr now)"
  unfolding RegisterAgentSessionInProject_def
  by (intro keeps.ev_rules wf_sessions_queries)

lemma associate_wf: "evolves (keeps wf_sessions) (AssociateAgentSessionWithProject i pr now)"
  unfolding AssociateAgentSessionWithProject_def requireAgentSessionID_def
  by (intro keeps.ev_rules wf_sessions_queries)

text \<open>A key is set only after the look-up found nobody who has it.\<close>

lemma wf_sessions_new_key:
  assumes wf: "wf_sessions s" and new: "\<forall>r\<in>set (agent_sessions s). s_session_key r \<noteq> key"
  shows "wf_sessions (agent_sessions_update
           (update_where (\<lambda>r. s_id r = i) (s_session_key_update (\<lambda>_. key))) s)"
proof -
  have step: "distinct (map s_id rows) \<Longrightarrow> distinct (filter (\<lambda>k. k \<noteq> []) (map s_session_key rows)) \<Longrightarrow>
      \<forall>r\<in>set rows. s_session_key r \<noteq> key \<Longrightarrow>
      distinct (filter (\<lambda>k. k \<noteq> []) (map s_session_key
        (update_where (\<lambda>r. s_id r = i) (s_session_key_update (\<lambda>_. key)) rows)))
    \<and> set (map s_session_key
        (update_where (\<lambda>r. s_id r = i) (s_session_key_update (\<lambda>_. key)) rows))
      \<subseteq> (if i \<in> s_id ` set rows then {key} else {}) \<union> set (map s_session_key rows)" for rows
  proof (induction rows)
    case (Cons r rows)
    then show ?case by (auto simp: set_update_where image_iff split: if_splits)
  qed simp
  show ?thesis
    using wf new step [of "agent_sessions s"] by (simp add: wf_sessions_def map_update_where)
qed

lemma identify_wf: "evolves (keeps wf_sessions) (IdentifyAgentSession i key pid st now)"
proof -
  have key: "evolves (keeps wf_sessions)
      (bnd (try_op (GetAgentSessionIDByKey_sql k)) (\<lambda>found. case found of
           Inr canonical \<Rightarrow> f canonical
         | Inl e \<Rightarrow> if e = NoRows then bnd (UpdateAgentSessionKey_sql k i) (\<lambda>_. g) else fail e))"
    if f: "\<And>c. evolves (keeps wf_sessions) (f c)" and g: "evolves (keeps wf_sessions) g"
    for k f i and g :: "(int \<times> bool) store_op"
  proof (rule keepsI)
    fix s r t
    assume wf: "wf_sessions s"
      and run: "bnd (try_op (GetAgentSessionIDByKey_sql k)) (\<lambda>found. case found of
           Inr canonical \<Rightarrow> f canonical
         | Inl e \<Rightarrow> if e = NoRows then bnd (UpdateAgentSessionKey_sql k i) (\<lambda>_. g) else fail e) s
         = (r, t)"
    show "wf_sessions t"
    proof (cases "List.find (\<lambda>r. s_session_key r = k) (agent_sessions s)")
      case None
      then have "wf_sessions (agent_sessions_update
           (update_where (\<lambda>r. s_id r = i) (s_session_key_update (\<lambda>_. k))) s)"
        using wf by (intro wf_sessions_new_key) (auto simp: find_None_iff_all)
      then show ?thesis
        using run None keepsD [OF g]
        by (auto simp: bnd_def try_op_def GetAgentSessionIDByKey_sql_def ask_def need_def fail_def
            UpdateAgentSessionKey_sql_def exec_update_def)
    next
      case (Some q)
      then show ?thesis
        using run wf keepsD [OF f]
        by (auto simp: bnd_def try_op_def GetAgentSessionIDByKey_sql_def ask_def need_def ret_def)
    qed
  qed
  show ?thesis
    unfolding IdentifyAgentSession_def Let_def requireAgentSessionID_def
    by (intro keeps.ev_rules key wf_sessions_queries keeps.ev_reads reads_intros)
qed

text \<open>
  Identification binds the key: the canonical session carries it, and neither it nor the
  transport's own session is discarded. A key that was known keeps its session.
\<close>

lemma session_row_set:
  "(\<And>r. s_id (f r) = s_id r) \<Longrightarrow> session_row c s = Some q \<Longrightarrow>
     session_row c (agent_sessions_update (update_where (\<lambda>r. s_id r = c) f) s) = Some (f q)"
  using session_row_update_id [of f c c s] by (auto dest: session_row_id)

lemma identify_result:
  assumes run: "IdentifyAgentSession i key pid st now s = (Inr (c, reattached), t)"
    and wf: "wf_sessions s"
  shows "\<exists>r. session_row c t = Some r \<and> s_session_key r = TrimSpace key
           \<and> s_registered_at r = now \<and> \<not> agentSessionHasDiscardMetadata r"
    and "reattached \<longleftrightarrow> c \<noteq> i"
    and "TrimSpace key \<noteq> []"
    and "List.find (\<lambda>r. s_session_key r = TrimSpace key) (agent_sessions s) = Some q \<Longrightarrow> c = s_id q"
proof -
  note defs = IdentifyAgentSession_def Let_def requireAgentSessionID_def
    GetAgentSessionLiveness_sql_def GetAgentSessionRecovery_sql_def GetAgentSessionIDByKey_sql_def
    UpdateAgentSessionKey_sql_def UpdateAgentSessionProcessIdentity_sql_def op_run
  let ?found = "List.find (\<lambda>r. s_session_key r = TrimSpace key) (agent_sessions s)"
  obtain r where r: "session_row i s = Some r" "\<not> agentSessionHasDiscardMetadata r"
    and key: "TrimSpace key \<noteq> []"
    using run by (auto simp: defs)
  show "TrimSpace key \<noteq> []" by (rule key)
  show "reattached \<longleftrightarrow> c \<noteq> i" and "?found = Some q \<Longrightarrow> c = s_id q"
    using run by (auto simp: defs)
  show "\<exists>r. session_row c t = Some r \<and> s_session_key r = TrimSpace key
           \<and> s_registered_at r = now \<and> \<not> agentSessionHasDiscardMetadata r"
  proof (cases ?found)
    case None
    then have "c = i" and t: "t = agent_sessions_update (update_where (\<lambda>r. s_id r = i)
        (\<lambda>r. r\<lparr>s_pid := pid, s_started_at := st, s_registered_at := now\<rparr>))
        (agent_sessions_update (update_where (\<lambda>r. s_id r = i)
          (s_session_key_update (\<lambda>_. TrimSpace key))) s)"
      using run by (auto simp: defs)
    have "session_row i t = Some (r\<lparr>s_session_key := TrimSpace key, s_pid := pid,
        s_started_at := st, s_registered_at := now\<rparr>)"
      unfolding t by (subst session_row_set [OF _ session_row_set [OF _ r(1)]]) simp_all
    then show ?thesis
      using r \<open>c = i\<close> by (simp add: agentSessionHasDiscardMetadata_def)
  next
    case (Some q)
    then obtain v where c: "c = s_id q" and v: "session_row c s = Some v"
        "\<not> agentSessionHasDiscardMetadata v"
      and t: "t = agent_sessions_update (update_where (\<lambda>r. s_id r = c)
        (\<lambda>r. r\<lparr>s_pid := pid, s_started_at := st, s_registered_at := now\<rparr>)) s"
      using run by (auto simp: defs)
    moreover have "s_session_key v = TrimSpace key"
      using Some v c find_Some_in [OF Some] wf
      by (auto simp: session_row_def wf_sessions_def dest: find_key_unique)
    ultimately show ?thesis
      by (simp add: session_row_set agentSessionHasDiscardMetadata_def)
  qed
qed

section \<open>Registration\<close>

text \<open>
  A registered session has a fresh id and is live for its lease. Sessions that handoffs name stay,
  but a lease does not keep a session: retention looks at the registration only.
\<close>

lemma register_row:
  assumes "RegisterAgentSessionWithProject_sql pr pid st now s = (Inr i, t)"
  shows "i = next_id s_id (agent_sessions s)"
    and "\<exists>r. agent_sessions t = agent_sessions s @ [r] \<and> s_id r = i"
  using assms by (auto simp: RegisterAgentSessionWithProject_sql_def op_run)

lemma register_live:
  assumes "RegisterAgentSessionInProject pid st pr t0 s = (Inr i, t)"
  shows "agentSessionLiveInQueries i now t \<longleftrightarrow> now \<le> t0 + RuntimeLeaseDuration"
    and "\<not> session_exists i s"
proof -
  obtain u v where u: "RegisterAgentSessionWithProject_sql (nullable pr) pid st t0 s = (Inr i, u)"
    and v: "DeleteExpiredAgentSessionsExcept_sql i (t0 - agentSessionRetention) u = (Inr (), v)"
    and t: "t = agent_sessions_update (update_where (\<lambda>r. s_id r = i)
              (s_last_heartbeat_at_update (\<lambda>_. Some t0))) v"
    using assms by (auto simp: RegisterAgentSessionInProject_def HeartbeatAgentSession_sql_def op_run)
  note i = register_row(1) [OF u]
  show "\<not> session_exists i s"
    using next_id_fresh [of s_id "agent_sessions s"] unfolding i session_exists_def
    by (metis image_eqI)
  have "session_exists i v"
    using register_row(2) [OF u] v
    by (auto simp: DeleteExpiredAgentSessionsExcept_sql_def op_run session_exists_def)
  then obtain q where q: "session_row i v = Some q"
    using session_row_None [of i v] by auto
  have "session_row i t = Some (q\<lparr>s_last_heartbeat_at := Some t0\<rparr>)"
    unfolding t using session_row_set [OF _ q, of "s_last_heartbeat_at_update (\<lambda>_. Some t0)"] by simp
  then show "agentSessionLiveInQueries i now t \<longleftrightarrow> now \<le> t0 + RuntimeLeaseDuration"
    using next_id_pos [of s_id "agent_sessions s"] i
    by (simp add: agentSessionLiveInQueries_def agentSessionLiveAt_def) linarith
qed

end
