(* ===== verification/Atct_Entries.thy ===== *)
theory Atct_Entries
  imports Atct_Sessions
begin

text \<open>
  The threads of entries kept with every handoff (\<^verbatim>\<open>handoff_entry.go\<close> and
  \<^verbatim>\<open>appendPlanHandoffEntryTx\<close> of \<^verbatim>\<open>review_exchange.go\<close>): what
  an entry must look like, appending, cursor pages, the change watermark, and the loop of the HTTP
  API that reads a whole thread page by page (\<^verbatim>\<open>httpapi/handoff.go\<close>). The
  deprecated alias fields of \<^verbatim>\<open>HandoffEntry\<close> are copies of the canonical ones and
  are left out.
\<close>

section \<open>What an entry must look like\<close>

definition HandoffEntryBodyMaxBytes :: nat where
  "HandoffEntryBodyMaxBytes = 16 * 1024"

definition HandoffHistoryMaxLimit :: nat where
  "HandoffHistoryMaxLimit = 200"

text \<open>\<^verbatim>\<open>utf8.ValidString\<close>: no overlong form, no surrogate, nothing above U+10FFFF.\<close>

definition continuation :: "nat \<Rightarrow> nat \<Rightarrow> char \<Rightarrow> bool" where
  "continuation lo hi c \<longleftrightarrow> lo \<le> of_char c \<and> (of_char c :: nat) \<le> hi"

fun ValidString :: "string \<Rightarrow> bool" where
  "ValidString [] = True"
| "ValidString (a # s) =
     (let n = of_char a :: nat in
      if n < 128 then ValidString s
      else case s of
        [] \<Rightarrow> False
      | b # s1 \<Rightarrow>
          if 194 \<le> n \<and> n \<le> 223 then continuation 128 191 b \<and> ValidString s1
          else case s1 of
            [] \<Rightarrow> False
          | c # s2 \<Rightarrow>
              if 224 \<le> n \<and> n \<le> 239 then
                continuation (if n = 224 then 160 else 128) (if n = 237 then 159 else 191) b
                \<and> continuation 128 191 c \<and> ValidString s2
              else case s2 of
                [] \<Rightarrow> False
              | d # s3 \<Rightarrow>
                  240 \<le> n \<and> n \<le> 244
                  \<and> continuation (if n = 240 then 144 else 128) (if n = 244 then 143 else 191) b
                  \<and> continuation 128 191 c \<and> continuation 128 191 d \<and> ValidString s3)"

definition normalizeHandoffEntryBody :: "string \<Rightarrow> string store_op" where
  "normalizeHandoffEntryBody body0 =
     (let body = TrimSpace body0 in
      if body = [] then fail (EntryE ErrHandoffEntryBodyEmpty)
      else if \<not> ValidString body then fail (EntryE ErrHandoffEntryBodyInvalidUTF8)
      else if HandoffEntryBodyMaxBytes < length body then fail (EntryE ErrHandoffEntryBodyTooLarge)
      else ret body)"

definition validHandoffEntryKind :: "string \<Rightarrow> bool" where
  "validHandoffEntryKind kind \<longleftrightarrow>
     kind \<in> {''request'', ''received'', ''review_requested'', ''review_received'',
              ''review_rejected'', ''completed''}"

definition genericHandoffEntryKind :: "string \<Rightarrow> bool" where
  "genericHandoffEntryKind kind \<longleftrightarrow>
     kind \<in> {''review_requested'', ''review_received'', ''review_rejected''}"

definition validateHandoffEntryRequest :: "string \<Rightarrow> string \<Rightarrow> string store_op" where
  "validateHandoffEntryRequest kind body =
     (if \<not> validHandoffEntryKind kind then fail (EntryE ErrHandoffEntryKindInvalid)
      else if \<not> genericHandoffEntryKind kind then fail (EntryE ErrHandoffEntryKindInvalid)
      else normalizeHandoffEntryBody body)"

definition canonicalInternalHandoffEntryKind :: "string \<Rightarrow> string store_op" where
  "canonicalInternalHandoffEntryKind kind =
     (if kind = ''complete'' then ret ''completed''
      else if kind = ''review_request'' then ret ''review_requested''
      else if kind = ''review_response'' then ret ''review_received''
      else if \<not> validHandoffEntryKind kind then fail (EntryE ErrHandoffEntryKindInvalid)
      else ret kind)"

definition nullableEntryAuthor :: "int \<Rightarrow> int option" where
  "nullableEntryAuthor i = (if 0 < i then Some i else None)"

text \<open>\<^verbatim>\<open>strconv.ParseInt(value, 10, 64)\<close>; None is its error.\<close>

definition digit_value :: "char \<Rightarrow> int" where
  "digit_value c = of_char c - 48"

definition is_digit :: "char \<Rightarrow> bool" where
  "is_digit c \<longleftrightarrow> 0 \<le> digit_value c \<and> digit_value c \<le> 9"

definition parse_decimal :: "string \<Rightarrow> int option" where
  "parse_decimal s =
     (if s \<noteq> [] \<and> list_all is_digit s then Some (foldl (\<lambda>n c. 10 * n + digit_value c) 0 s)
      else None)"

definition ParseInt :: "string \<Rightarrow> int option" where
  "ParseInt s =
     (case (case s of [] \<Rightarrow> None
            | c # r \<Rightarrow> if c = CHR ''-'' then map_option uminus (parse_decimal r)
                       else if c = CHR ''+'' then parse_decimal r
                       else parse_decimal s) of
        None \<Rightarrow> None
      | Some n \<Rightarrow> if - (2 ^ 63) \<le> n \<and> n < 2 ^ 63 then Some n else None)"

definition nullableEntryReply :: "string \<Rightarrow> (int option) store_op" where
  "nullableEntryReply value0 =
     (let value = TrimSpace value0 in
      if value = [] then ret None
      else case ParseInt value of
        None \<Rightarrow> fail (EntryE ErrHandoffEntryRelatesToInvalid)
      | Some i \<Rightarrow> if i \<le> 0 then fail (EntryE ErrHandoffEntryRelatesToInvalid) else ret (Some i))"

section \<open>Queries\<close>

definition task_handoff_row :: "string \<Rightarrow> store \<Rightarrow> handoff option" where
  "task_handoff_row i s = List.find (\<lambda>h. h_id h = i) (task_handoffs s)"

definition goal_handoff_row :: "string \<Rightarrow> store \<Rightarrow> handoff option" where
  "goal_handoff_row i s = List.find (\<lambda>h. h_id h = i) (goal_handoffs s)"

definition GetTaskHandoffEntryState_sql :: "string \<Rightarrow> handoff store_op" where
  "GetTaskHandoffEntryState_sql i = bnd (ask (task_handoff_row i)) (need NoRows)"

definition GetGoalHandoffEntryState_sql :: "string \<Rightarrow> handoff store_op" where
  "GetGoalHandoffEntryState_sql i = bnd (ask (goal_handoff_row i)) (need NoRows)"

definition entry_in :: "string \<Rightarrow> int \<Rightarrow> handoff_entry list \<Rightarrow> bool" where
  "entry_in hid i es \<longleftrightarrow> list_ex (\<lambda>e. e_handoff_id e = hid \<and> e_id e = i) es"

definition TaskHandoffEntryExists_sql :: "string \<Rightarrow> int \<Rightarrow> bool store_op" where
  "TaskHandoffEntryExists_sql hid i = ask (\<lambda>s. entry_in hid i (task_handoff_entries s))"

definition GoalHandoffEntryExists_sql :: "string \<Rightarrow> int \<Rightarrow> bool store_op" where
  "GoalHandoffEntryExists_sql hid i = ask (\<lambda>s. entry_in hid i (goal_handoff_entries s))"

definition insert_entry ::
  "(store \<Rightarrow> handoff_entry list) \<Rightarrow> ((handoff_entry list \<Rightarrow> handoff_entry list) \<Rightarrow> store \<Rightarrow> store) \<Rightarrow>
   string \<Rightarrow> string \<Rightarrow> string \<Rightarrow> int option \<Rightarrow> int option \<Rightarrow> time \<Rightarrow> handoff_entry store_op" where
  "insert_entry es upd hid kind body author reply createdAt =
     bnd (ask (fk_ok session_exists author)) (\<lambda>ok.
     bnd (check ok ForeignKeyConstraintFailed) (\<lambda>_.
     bnd (ask (\<lambda>s. next_id e_id (es s))) (\<lambda>i.
     (let e = \<lparr>e_id = i, e_handoff_id = hid, e_kind = kind, e_body = body,
               e_author_session_id = author, e_in_reply_to_id = reply, e_created_at = createdAt\<rparr>
      in bnd (exec_insert upd e) (\<lambda>_. ret e)))))"

definition CreateTaskHandoffEntry_sql ::
  "string \<Rightarrow> string \<Rightarrow> string \<Rightarrow> int option \<Rightarrow> int option \<Rightarrow> time \<Rightarrow> handoff_entry store_op" where
  "CreateTaskHandoffEntry_sql = insert_entry task_handoff_entries task_handoff_entries_update"

definition CreateGoalHandoffEntry_sql ::
  "string \<Rightarrow> string \<Rightarrow> string \<Rightarrow> int option \<Rightarrow> int option \<Rightarrow> time \<Rightarrow> handoff_entry store_op" where
  "CreateGoalHandoffEntry_sql = insert_entry goal_handoff_entries goal_handoff_entries_update"

definition CreatePlanHandoffEntry_sql ::
  "string \<Rightarrow> string \<Rightarrow> string \<Rightarrow> int option \<Rightarrow> time \<Rightarrow> handoff_entry store_op" where
  "CreatePlanHandoffEntry_sql hid kind body author createdAt =
     insert_entry plan_handoff_entries plan_handoff_entries_update hid kind body author None createdAt"

definition thread_after :: "string \<Rightarrow> int \<Rightarrow> handoff_entry list \<Rightarrow> handoff_entry list" where
  "thread_after hid cursor es =
     order_by e_id (filter (\<lambda>e. e_handoff_id e = hid \<and> cursor < e_id e) es)"

definition ListTaskHandoffEntries_sql :: "string \<Rightarrow> int \<Rightarrow> nat \<Rightarrow> (handoff_entry list) store_op" where
  "ListTaskHandoffEntries_sql hid cursor lim =
     ask (\<lambda>s. take lim (thread_after hid cursor (task_handoff_entries s)))"

definition ListGoalHandoffEntries_sql :: "string \<Rightarrow> int \<Rightarrow> nat \<Rightarrow> (handoff_entry list) store_op" where
  "ListGoalHandoffEntries_sql hid cursor lim =
     ask (\<lambda>s. take lim (thread_after hid cursor (goal_handoff_entries s)))"

definition max_entry_id :: "handoff_entry list \<Rightarrow> int" where
  "max_entry_id es = next_id e_id es - 1"

definition MaxTaskHandoffEntryID_sql :: "int store_op" where
  "MaxTaskHandoffEntryID_sql = ask (\<lambda>s. max_entry_id (task_handoff_entries s))"

definition MaxGoalHandoffEntryID_sql :: "int store_op" where
  "MaxGoalHandoffEntryID_sql = ask (\<lambda>s. max_entry_id (goal_handoff_entries s))"

definition CountTaskHandoffRequestEntries_sql :: "string \<Rightarrow> nat store_op" where
  "CountTaskHandoffRequestEntries_sql hid =
     ask (\<lambda>s. affected (\<lambda>e. e_handoff_id e = hid \<and> e_kind e = ''request'') (task_handoff_entries s))"

definition CountGoalHandoffRequestEntries_sql :: "string \<Rightarrow> nat store_op" where
  "CountGoalHandoffRequestEntries_sql hid =
     ask (\<lambda>s. affected (\<lambda>e. e_handoff_id e = hid \<and> e_kind e = ''request'') (goal_handoff_entries s))"

section \<open>Appending\<close>

definition appendHandoffEntryTx ::
  "string \<Rightarrow> string \<Rightarrow> string \<Rightarrow> string \<Rightarrow> int \<Rightarrow> string \<Rightarrow> bool \<Rightarrow> time \<Rightarrow> handoff_entry store_op" where
  "appendHandoffEntryTx table hid kind body0 author relatesTo allowStateEntry now =
     bnd (canonicalInternalHandoffEntryKind kind) (\<lambda>canonicalKind.
     bnd (normalizeHandoffEntryBody body0) (\<lambda>body.
     bnd (if table = ''goal_handoff_entries'' then
            map_error (\<lambda>e. if e = NoRows then EntryE ErrHandoffEntryNotFound else e)
              (GetGoalHandoffEntryState_sql hid)
          else if table = ''task_handoff_entries'' then
            map_error (\<lambda>e. if e = NoRows then EntryE ErrHandoffEntryNotFound else e)
              (GetTaskHandoffEntryState_sql hid)
          else fail (Failure ''unknown handoff entry table'')) (\<lambda>state.
     bnd (check (allowStateEntry \<or> h_completed_report_at state = None)
            (EntryE ErrHandoffEntryTerminal)) (\<lambda>_.
     bnd (check (allowStateEntry \<or> 0 < author \<and>
              (h_requested_by state = Some author \<or> h_received_by state = Some author))
            (EntryE ErrHandoffEntryParticipant)) (\<lambda>_.
     bnd (nullableEntryReply relatesTo) (\<lambda>inReplyTo.
     bnd (case inReplyTo of
            None \<Rightarrow> ret True
          | Some i \<Rightarrow>
              if table = ''goal_handoff_entries'' then GoalHandoffEntryExists_sql hid i
              else TaskHandoffEntryExists_sql hid i) (\<lambda>found.
     bnd (check found (EntryE ErrHandoffEntryRelatesToInvalid)) (\<lambda>_.
     if table = ''goal_handoff_entries'' then
       CreateGoalHandoffEntry_sql hid canonicalKind body (nullableEntryAuthor author) inReplyTo now
     else
       CreateTaskHandoffEntry_sql hid canonicalKind body (nullableEntryAuthor author) inReplyTo
         now))))))))"

definition appendPlanHandoffEntryTx ::
  "string \<Rightarrow> string \<Rightarrow> string \<Rightarrow> int \<Rightarrow> time \<Rightarrow> unit store_op" where
  "appendPlanHandoffEntryTx hid kind body0 author createdAt =
     bnd (normalizeHandoffEntryBody body0) (\<lambda>body.
     bnd (CreatePlanHandoffEntry_sql hid kind body (nullableEntryAuthor author) createdAt) (\<lambda>_.
     ret ()))"

definition AppendTaskHandoffEntry ::
  "string \<Rightarrow> string \<Rightarrow> string \<Rightarrow> int \<Rightarrow> string \<Rightarrow> time \<Rightarrow> handoff_entry store_op" where
  "AppendTaskHandoffEntry hid kind body0 author relatesTo now =
     bnd (validateHandoffEntryRequest kind body0) (\<lambda>body. transaction
       (appendHandoffEntryTx ''task_handoff_entries'' hid kind body author relatesTo False now))"

definition AppendGoalHandoffEntry ::
  "string \<Rightarrow> string \<Rightarrow> string \<Rightarrow> int \<Rightarrow> string \<Rightarrow> time \<Rightarrow> handoff_entry store_op" where
  "AppendGoalHandoffEntry hid kind body0 author relatesTo now =
     bnd (validateHandoffEntryRequest kind body0) (\<lambda>body. transaction
       (appendHandoffEntryTx ''goal_handoff_entries'' hid kind body author relatesTo False now))"

section \<open>Pages\<close>

record handoff_entry_page =
  Entries :: "handoff_entry list"
  HasMore :: bool
  NextCursor :: int

definition trimHandoffEntryPage :: "handoff_entry list \<Rightarrow> nat \<Rightarrow> handoff_entry_page" where
  "trimHandoffEntryPage entries lim =
     (let kept = (if lim < length entries then take lim entries else entries)
      in \<lparr>Entries = kept, HasMore = (lim < length entries),
          NextCursor = (if kept = [] then 0 else e_id (last kept))\<rparr>)"

definition listHandoffEntries ::
  "string \<Rightarrow> string \<Rightarrow> int \<Rightarrow> nat \<Rightarrow> handoff_entry_page store_op" where
  "listHandoffEntries table hid cursor lim =
     (if cursor < 0 then fail (EntryE ErrHandoffHistoryCursorInvalid)
      else if lim < 1 \<or> HandoffHistoryMaxLimit < lim then fail (EntryE ErrHandoffHistoryLimitInvalid)
      else if table = ''goal_handoff_entries'' then
        bnd (map_error (\<lambda>e. if e = NoRows then EntryE ErrHandoffEntryNotFound else e)
              (GetGoalHandoffEntryState_sql hid)) (\<lambda>_.
        bnd (ListGoalHandoffEntries_sql hid cursor (lim + 1)) (\<lambda>rows.
        ret (trimHandoffEntryPage rows lim)))
      else if table = ''task_handoff_entries'' then
        bnd (map_error (\<lambda>e. if e = NoRows then EntryE ErrHandoffEntryNotFound else e)
              (GetTaskHandoffEntryState_sql hid)) (\<lambda>_.
        bnd (ListTaskHandoffEntries_sql hid cursor (lim + 1)) (\<lambda>rows.
        ret (trimHandoffEntryPage rows lim)))
      else fail (Failure ''unknown handoff entry table''))"

definition ListTaskHandoffEntries :: "string \<Rightarrow> int \<Rightarrow> nat \<Rightarrow> handoff_entry_page store_op" where
  "ListTaskHandoffEntries = listHandoffEntries ''task_handoff_entries''"

definition ListGoalHandoffEntries :: "string \<Rightarrow> int \<Rightarrow> nat \<Rightarrow> handoff_entry_page store_op" where
  "ListGoalHandoffEntries = listHandoffEntries ''goal_handoff_entries''"

definition HandoffEntryWatermark :: "int store_op" where
  "HandoffEntryWatermark =
     bnd MaxTaskHandoffEntryID_sql (\<lambda>taskMax.
     bnd MaxGoalHandoffEntryID_sql (\<lambda>goalMax.
     ret (taskMax + goalMax)))"

text \<open>
  \<^verbatim>\<open>appendHandoffEntryRecords\<close> reads a thread page by page until a page says
  there is no more. Nothing in the loop itself bounds it, so it may not return: None.
\<close>

partial_function (option) appendHandoffEntryRecords ::
  "(int \<Rightarrow> error + handoff_entry_page) \<Rightarrow> int \<Rightarrow> handoff_entry list \<Rightarrow>
     (error + handoff_entry list) option" where
  "appendHandoffEntryRecords listPage afterID records =
     (case listPage afterID of
        Inl e \<Rightarrow> Some (Inl e)
      | Inr page \<Rightarrow>
          if \<not> HasMore page then Some (Inr (records @ Entries page))
          else if NextCursor page \<le> afterID
            then Some (Inl (Failure ''handoff history after_id did not advance''))
          else appendHandoffEntryRecords listPage (NextCursor page) (records @ Entries page))"

section \<open>A table of entries\<close>

text \<open>Row ids grow along the table; ids are never negative.\<close>

definition wf_entries :: "handoff_entry list \<Rightarrow> bool" where
  "wf_entries es \<longleftrightarrow> sorted_wrt (<) (map e_id es) \<and> (\<forall>e\<in>set es. 0 < e_id e)"

text \<open>
  Entries are only ever added at the end. What may change in an entry that exists is its author,
  which is erased when the session is deleted.
\<close>

definition entry_core :: "handoff_entry \<Rightarrow> handoff_entry" where
  "entry_core e = e\<lparr>e_author_session_id := None\<rparr>"

definition entries_extend :: "handoff_entry list \<Rightarrow> handoff_entry list \<Rightarrow> bool" where
  "entries_extend es es' \<longleftrightarrow> (\<exists>new. map entry_core es' = map entry_core es @ new)"

lemma e_id_entry_core [simp]: "e_id (entry_core e) = e_id e"
  by (simp add: entry_core_def)

lemma entries_extend_refl [simp]: "entries_extend es es"
  by (simp add: entries_extend_def)

lemma entries_extend_trans: "entries_extend a b \<Longrightarrow> entries_extend b c \<Longrightarrow> entries_extend a c"
  unfolding entries_extend_def by (metis append_assoc)

lemma entries_extend_append [simp]: "entries_extend es (es @ new)"
  by (simp add: entries_extend_def)

lemma entry_core_forget [simp]: "map entry_core (forget_author gone es) = map entry_core es"
  by (auto simp: forget_author_def entry_core_def split: option.splits)

lemma entries_extend_forget [simp]: "entries_extend es (forget_author gone es)"
  by (simp add: entries_extend_def)

lemma e_id_forget [simp]: "map e_id (forget_author gone es) = map e_id es"
  by (auto simp: forget_author_def split: option.splits)

lemma wf_entries_ids: "wf_entries es \<longleftrightarrow> sorted_wrt (<) (map e_id es) \<and> (\<forall>i\<in>set (map e_id es). 0 < i)"
  by (simp add: wf_entries_def)

lemma wf_entries_forget [simp]: "wf_entries (forget_author gone es) \<longleftrightarrow> wf_entries es"
  by (simp only: wf_entries_ids e_id_forget)

lemma wf_entries_append:
  "wf_entries es \<Longrightarrow> e_id e = next_id e_id es \<Longrightarrow> wf_entries (es @ [e])"
  using next_id_pos [of e_id es]
  by (auto simp: wf_entries_def sorted_wrt_append dest: next_id_greater [where k = e_id])

lemma entries_extend_ids: "entries_extend es es' \<Longrightarrow> \<exists>new. map e_id es' = map e_id es @ new"
proof -
  assume "entries_extend es es'"
  then obtain new where "map entry_core es' = map entry_core es @ new"
    by (auto simp: entries_extend_def)
  then have "map e_id (map entry_core es') = map e_id (map entry_core es) @ map e_id new"
    by (metis map_append)
  then show ?thesis by (auto simp: comp_def)
qed

lemma max_entry_id_last: "wf_entries es \<Longrightarrow> max_entry_id es = (if es = [] then 0 else e_id (last es))"
proof (induction es rule: rev_induct)
  case (snoc e es)
  then have wf: "wf_entries es" and big: "\<forall>x\<in>set es. e_id x < e_id e" and pos: "0 < e_id e"
    by (auto simp: wf_entries_def sorted_wrt_append)
  have "foldr (\<lambda>r m. max (e_id r) m) es (max (e_id e) 0) = e_id e"
    using big pos by (induction es) auto
  then show ?case by (simp add: max_entry_id_def next_id_def)
qed (simp add: max_entry_id_def next_id_def)

text \<open>The highest id tells whether a table that only grows has grown.\<close>

lemma max_entry_id_extend:
  assumes ext: "entries_extend es es'" and wf: "wf_entries es'"
  shows "max_entry_id es \<le> max_entry_id es'"
    and "max_entry_id es = max_entry_id es' \<longleftrightarrow> map e_id es = map e_id es'"
proof -
  obtain new where ids: "map e_id es' = map e_id es @ new"
    using entries_extend_ids [OF ext] by blast
  have wfs: "wf_entries es" "sorted_wrt (<) (map e_id es @ new)" "\<forall>i\<in>set new. 0 < i"
    using wf unfolding wf_entries_ids ids by (auto simp: sorted_wrt_append)
  have lst: "max_entry_id xs = (if map e_id xs = [] then 0 else last (map e_id xs))"
    if "wf_entries xs" for xs
    using max_entry_id_last [OF that] by (cases xs rule: rev_cases) auto
  have "new = [] \<or> max_entry_id es < max_entry_id es'"
    using wfs lst [OF wf] lst [OF wfs(1)] unfolding ids
    by (cases new rule: rev_cases; cases es rule: rev_cases) (auto simp: sorted_wrt_append)
  moreover have "new = [] \<Longrightarrow> max_entry_id es = max_entry_id es'"
    using lst [OF wf] lst [OF wfs(1)] ids by simp
  ultimately show "max_entry_id es \<le> max_entry_id es'"
    and "max_entry_id es = max_entry_id es' \<longleftrightarrow> map e_id es = map e_id es'"
    using ids by auto
qed

subsection \<open>The interface of an entry table\<close>

locale entry_table =
  fixes es :: "store \<Rightarrow> handoff_entry list"
    and upd :: "(handoff_entry list \<Rightarrow> handoff_entry list) \<Rightarrow> store \<Rightarrow> store"
  assumes es_upd: "es (upd f s) = f (es s)"
begin

lemma insert_entry_result:
  assumes "insert_entry es upd hid kind body author reply now s = (Inr e, t)"
  shows "t = upd (\<lambda>rows. rows @ [e]) s" and "es t = es s @ [e]"
    and "e_id e = next_id e_id (es s)" and "e_handoff_id e = hid" and "e_kind e = kind"
    and "e_body e = body" and "e_author_session_id e = author" and "e_created_at e = now"
  using assms by (auto simp: insert_entry_def Let_def op_run es_upd)

lemma insert_entry_wf: "evolves (keeps (\<lambda>s. wf_entries (es s))) (insert_entry es upd hid kind body author reply now)"
  unfolding insert_entry_def Let_def
  by (rule keepsI)
    (auto simp: bnd_def ask_def check_def ret_def fail_def exec_insert_def change_def es_upd
      intro: wf_entries_append split: if_splits)

end

interpretation task_entries: entry_table task_handoff_entries task_handoff_entries_update
  by unfold_locales simp

interpretation goal_entries: entry_table goal_handoff_entries goal_handoff_entries_update
  by unfold_locales simp

interpretation plan_entries: entry_table plan_handoff_entries plan_handoff_entries_update
  by unfold_locales simp

section \<open>The three logs of the store\<close>

definition wf_logs :: "store \<Rightarrow> bool" where
  "wf_logs s \<longleftrightarrow> wf_entries (task_handoff_entries s) \<and> wf_entries (goal_handoff_entries s)
     \<and> wf_entries (plan_handoff_entries s)"

definition logs_extend :: "store \<Rightarrow> store \<Rightarrow> bool" where
  "logs_extend s t \<longleftrightarrow>
     entries_extend (task_handoff_entries s) (task_handoff_entries t)
   \<and> entries_extend (goal_handoff_entries s) (goal_handoff_entries t)
   \<and> entries_extend (plan_handoff_entries s) (plan_handoff_entries t)
   \<and> (wf_logs s \<longrightarrow> wf_logs t)"

interpretation logs_extend: state_order logs_extend
  by unfold_locales (auto simp: logs_extend_def intro: entries_extend_trans)

text \<open>Anything that leaves the three tables alone is an extension.\<close>

lemma logs_extend_cong:
  "task_handoff_entries t = task_handoff_entries s \<Longrightarrow>
   goal_handoff_entries t = goal_handoff_entries s \<Longrightarrow>
   plan_handoff_entries t = plan_handoff_entries s \<Longrightarrow> logs_extend s t"
  by (simp add: logs_extend_def wf_logs_def)

lemma same_tables_logs: "same_tables s t \<Longrightarrow> logs_extend s t"
  by (simp add: logs_extend_cong same_tables_fields)

lemma insert_entry_logs:
  "evolves logs_extend (CreateTaskHandoffEntry_sql hid kind body author reply now)"
  "evolves logs_extend (CreateGoalHandoffEntry_sql hid kind body author reply now)"
  "evolves logs_extend (CreatePlanHandoffEntry_sql hid kind body author now)"
  unfolding CreateTaskHandoffEntry_sql_def CreateGoalHandoffEntry_sql_def
    CreatePlanHandoffEntry_sql_def insert_entry_def Let_def
  by (auto simp: evolves_def bnd_def ask_def check_def ret_def fail_def exec_insert_def change_def
      logs_extend_def wf_logs_def intro: wf_entries_append)

lemma delete_sessions_logs: "logs_extend s (delete_sessions P s)"
  by (simp add: logs_extend_def wf_logs_def delete_sessions_def Let_def)

lemma reads_entries [reads_intros]:
  "reads (normalizeHandoffEntryBody body)" "reads (validateHandoffEntryRequest kind body)"
  "reads (canonicalInternalHandoffEntryKind kind)" "reads (nullableEntryReply v)"
  "reads (GetTaskHandoffEntryState_sql i)" "reads (GetGoalHandoffEntryState_sql i)"
  "reads (TaskHandoffEntryExists_sql hid e)" "reads (GoalHandoffEntryExists_sql hid e)"
  "reads (listHandoffEntries table hid cursor lim)"
  by (auto simp: normalizeHandoffEntryBody_def validateHandoffEntryRequest_def Let_def
      canonicalInternalHandoffEntryKind_def nullableEntryReply_def GetTaskHandoffEntryState_sql_def
      GetGoalHandoffEntryState_sql_def TaskHandoffEntryExists_sql_def GoalHandoffEntryExists_sql_def
      listHandoffEntries_def ListTaskHandoffEntries_sql_def ListGoalHandoffEntries_sql_def
      intro!: reads_intros)

lemma append_logs:
  "evolves logs_extend (appendHandoffEntryTx table hid kind body author rel allow now)"
  "evolves logs_extend (appendPlanHandoffEntryTx hid kind body author now)"
  unfolding appendHandoffEntryTx_def appendPlanHandoffEntryTx_def
  by (intro logs_extend.ev_rules insert_entry_logs logs_extend.ev_reads reads_intros)+

lemma Append_logs:
  "evolves logs_extend (AppendTaskHandoffEntry hid kind body author rel now)"
  "evolves logs_extend (AppendGoalHandoffEntry hid kind body author rel now)"
  unfolding AppendTaskHandoffEntry_def AppendGoalHandoffEntry_def
  by (intro logs_extend.ev_rules append_logs logs_extend.ev_reads reads_intros)+

lemma sessions_logs:
  "evolves logs_extend (RegisterAgentSessionInProject pid st pr now)"
  "evolves logs_extend (IdentifyAgentSession i key pid st now)"
  "evolves logs_extend (AssociateAgentSessionWithProject i pr now)"
  "evolves logs_extend (HeartbeatAgentSession i now)"
  "evolves logs_extend (EnableDevelopmentMode i)"
proof -
  have upd: "evolves logs_extend (exec_update agent_sessions agent_sessions_update P f)" for P f
    by (rule evolves_exec_update) (rule logs_extend_cong; simp)
  have ins: "evolves logs_extend (exec_insert agent_sessions_update r)" for r
    by (rule evolves_exec_insert) (rule logs_extend_cong; simp)
  have del: "evolves logs_extend (DeleteExpiredAgentSessionsExcept_sql i before)" for i before
    unfolding DeleteExpiredAgentSessionsExcept_sql_def
    by (rule evolves_change) (rule delete_sessions_logs)
  note rules = logs_extend.ev_rules upd ins del logs_extend.ev_reads reads_intros
  show "evolves logs_extend (RegisterAgentSessionInProject pid st pr now)"
    unfolding RegisterAgentSessionInProject_def RegisterAgentSessionWithProject_sql_def
      HeartbeatAgentSession_sql_def by (intro rules)
  show "evolves logs_extend (IdentifyAgentSession i key pid st now)"
    unfolding IdentifyAgentSession_def Let_def UpdateAgentSessionKey_sql_def
      UpdateAgentSessionProcessIdentity_sql_def by (intro rules)
  show "evolves logs_extend (AssociateAgentSessionWithProject i pr now)"
    unfolding AssociateAgentSessionWithProject_def UpdateAgentSessionProject_sql_def by (intro rules)
  show "evolves logs_extend (HeartbeatAgentSession i now)"
    unfolding HeartbeatAgentSession_def HeartbeatAgentSession_sql_def by (intro rules)
  show "evolves logs_extend (EnableDevelopmentMode i)"
    unfolding EnableDevelopmentMode_def EnableDevelopmentMode_sql_def by (intro rules)
qed

section \<open>Appended entries\<close>

text \<open>An entry that was appended is normal: trimmed, valid, bounded, of a canonical kind.\<close>

lemma normalizeHandoffEntryBody_run:
  "normalizeHandoffEntryBody b s = (Inr body, t) \<longleftrightarrow>
     t = s \<and> body = TrimSpace b \<and> body \<noteq> [] \<and> ValidString body
     \<and> length body \<le> HandoffEntryBodyMaxBytes"
  by (auto simp: normalizeHandoffEntryBody_def Let_def op_run)

lemma canonicalInternalHandoffEntryKind_valid:
  "fst (canonicalInternalHandoffEntryKind k s) = Inr kind \<Longrightarrow> validHandoffEntryKind kind"
  by (auto simp: canonicalInternalHandoffEntryKind_def validHandoffEntryKind_def ret_def fail_def
      split: if_splits)

lemmas entry_reads_run = reads_run [OF reads_entries(3)] reads_run [OF reads_entries(4)]

lemma appendHandoffEntryTx_task:
  "appendHandoffEntryTx ''task_handoff_entries'' hid kind body author rel allow now s = (Inr e, t) \<Longrightarrow>
   \<exists>k b reply h.
     fst (canonicalInternalHandoffEntryKind kind s) = Inr k
   \<and> normalizeHandoffEntryBody body s = (Inr b, s) \<and> task_handoff_row hid s = Some h
   \<and> (allow \<or> h_completed_report_at h = None \<and> 0 < author
        \<and> (h_requested_by h = Some author \<or> h_received_by h = Some author))
   \<and> insert_entry task_handoff_entries task_handoff_entries_update hid k b
        (nullableEntryAuthor author) reply now s = (Inr e, t)"
  by (auto simp: appendHandoffEntryTx_def op_run normalizeHandoffEntryBody_run entry_reads_run
      GetTaskHandoffEntryState_sql_def TaskHandoffEntryExists_sql_def CreateTaskHandoffEntry_sql_def)

lemma AppendTaskHandoffEntry_effect:
  assumes run: "AppendTaskHandoffEntry hid kind body author rel now s = (Inr e, t)"
  shows "task_handoff_entries t = task_handoff_entries s @ [e]"
    and "e_handoff_id e = hid" and "e_body e = TrimSpace body"
    and "e_body e \<noteq> []" and "length (e_body e) \<le> HandoffEntryBodyMaxBytes"
    and "validHandoffEntryKind (e_kind e)" and "e_author_session_id e = Some author"
    and "\<exists>h. task_handoff_row hid s = Some h \<and> h_completed_report_at h = None
           \<and> (h_requested_by h = Some author \<or> h_received_by h = Some author)"
proof -
  obtain b0 where b0: "normalizeHandoffEntryBody body s = (Inr b0, s)"
    and app: "appendHandoffEntryTx ''task_handoff_entries'' hid kind b0 author rel False now s = (Inr e, t)"
    using run by (auto simp: AppendTaskHandoffEntry_def validateHandoffEntryRequest_def op_run
        normalizeHandoffEntryBody_run)
  obtain k b reply h where
    k: "fst (canonicalInternalHandoffEntryKind kind s) = Inr k" and
    b: "normalizeHandoffEntryBody b0 s = (Inr b, s)" and
    h: "task_handoff_row hid s = Some h" "h_completed_report_at h = None" "0 < author"
      "h_requested_by h = Some author \<or> h_received_by h = Some author" and
    ins: "insert_entry task_handoff_entries task_handoff_entries_update hid k b
            (nullableEntryAuthor author) reply now s = (Inr e, t)"
    using appendHandoffEntryTx_task [OF app] by auto
  note ins = task_entries.insert_entry_result [OF ins]
  show "task_handoff_entries t = task_handoff_entries s @ [e]" and "e_handoff_id e = hid"
    by (rule ins)+
  show "e_body e = TrimSpace body" and "e_body e \<noteq> []"
    and "length (e_body e) \<le> HandoffEntryBodyMaxBytes"
    using b0 b by (auto simp: ins normalizeHandoffEntryBody_run)
  show "validHandoffEntryKind (e_kind e)"
    using canonicalInternalHandoffEntryKind_valid [OF k] by (simp add: ins)
  show "e_author_session_id e = Some author"
    using h by (simp add: ins nullableEntryAuthor_def)
  show "\<exists>h. task_handoff_row hid s = Some h \<and> h_completed_report_at h = None
           \<and> (h_requested_by h = Some author \<or> h_received_by h = Some author)"
    using h by blast
qed

section \<open>Reading a thread\<close>

lemma thread_after_sorted:
  "wf_entries es \<Longrightarrow> thread_after hid c es = filter (\<lambda>e. e_handoff_id e = hid \<and> c < e_id e) es"
proof -
  let ?f = "filter (\<lambda>e. e_handoff_id e = hid \<and> c < e_id e) es"
  assume "wf_entries es"
  then have "sorted_wrt (\<lambda>x y. e_id x < e_id y) ?f"
    by (simp add: wf_entries_def sorted_wrt_map sorted_wrt_filter)
  then have "sorted (map e_id ?f)"
    unfolding sorted_wrt_map by (rule sorted_wrt_mono_rel [rotated]) simp
  then show ?thesis by (simp add: thread_after_def order_by_sorted)
qed

lemma thread_after_wf: "wf_entries es \<Longrightarrow> sorted_wrt (<) (map e_id (thread_after hid c es))"
  by (simp add: thread_after_sorted) (simp add: wf_entries_def sorted_wrt_map sorted_wrt_filter)

lemma filter_above_drop:
  "sorted_wrt (<) (map k xs) \<Longrightarrow> n < length xs \<Longrightarrow>
     filter (\<lambda>x. k (xs ! n) < (k x :: int)) xs = drop (Suc n) xs"
proof (induction xs arbitrary: n)
  case (Cons x xs)
  show ?case
  proof (cases n)
    case 0
    then show ?thesis using Cons.prems by (auto simp: filter_id_conv)
  next
    case (Suc m)
    with Cons.prems have m: "m < length xs" "sorted_wrt (<) (map k xs)" and "k x < k (xs ! m)" by auto
    then have "\<not> k (xs ! m) < k x" by linarith
    with Cons.IH [OF m(2,1)] show ?thesis by (simp add: Suc)
  qed
qed simp

text \<open>One page: a prefix of what is left of the thread, and where to go on.\<close>

lemma page_next:
  fixes es hid c lim
  defines "T \<equiv> thread_after hid c es" and "p \<equiv> trimHandoffEntryPage (take (lim + 1) (thread_after hid c es)) lim"
  assumes wf: "wf_entries es" and lim: "0 < lim"
  shows "Entries p = take lim T" and "HasMore p \<longleftrightarrow> lim < length T"
    and "HasMore p \<Longrightarrow> c < NextCursor p \<and> thread_after hid (NextCursor p) es = drop lim T"
proof -
  show "Entries p = take lim T" and more: "HasMore p \<longleftrightarrow> lim < length T"
    by (auto simp: p_def T_def trimHandoffEntryPage_def Let_def min_def)
  assume "HasMore p"
  then have len: "lim < length T" by (simp add: more)
  then have "T \<noteq> []" by auto
  with len have kept: "take lim T \<noteq> []" "last (take lim T) = T ! (lim - 1)" and in_T: "T ! (lim - 1) \<in> set T"
    using lim by (auto simp: last_conv_nth [of "take lim T"])
  then have cur: "NextCursor p = e_id (T ! (lim - 1))"
    using len by (simp add: p_def T_def [symmetric] trimHandoffEntryPage_def Let_def)
  have c: "c < NextCursor p"
    using in_T wf unfolding cur T_def thread_after_sorted [OF wf] by auto
  have "thread_after hid (NextCursor p) es = filter (\<lambda>e. NextCursor p < e_id e) T"
    unfolding T_def thread_after_sorted [OF wf] using c by (auto intro: filter_cong)
  also have "\<dots> = drop (Suc (lim - 1)) T"
    unfolding cur using thread_after_wf [OF wf, of hid c] len lim
    by (intro filter_above_drop) (auto simp: T_def)
  finally show "c < NextCursor p \<and> thread_after hid (NextCursor p) es = drop lim T"
    using c lim by simp
qed

text \<open>The loop returns, and what it returns is the whole thread, each entry once, in order.\<close>

lemma read_thread:
  assumes wf: "wf_entries es" and lim: "0 < lim"
    and page: "\<And>c. 0 \<le> c \<Longrightarrow>
      listPage c = Inr (trimHandoffEntryPage (take (lim + 1) (thread_after hid c es)) lim)"
    and c: "0 \<le> c"
  shows "appendHandoffEntryRecords listPage c acc = Some (Inr (acc @ thread_after hid c es))"
  using c
proof (induction "length (thread_after hid c es)" arbitrary: c acc rule: less_induct)
  case less
  let ?p = "trimHandoffEntryPage (take (lim + 1) (thread_after hid c es)) lim"
  note pg = page_next [OF wf lim, of hid c]
  show ?case
  proof (cases "HasMore ?p")
    case False
    then show ?thesis
      using pg(1,2) less.prems
      by (subst appendHandoffEntryRecords.simps) (simp add: page)
  next
    case True
    with pg have step: "c < NextCursor ?p" "thread_after hid (NextCursor ?p) es = drop lim (thread_after hid c es)"
      and len: "lim < length (thread_after hid c es)" by auto
    have "appendHandoffEntryRecords listPage (NextCursor ?p) (acc @ Entries ?p)
        = Some (Inr ((acc @ Entries ?p) @ thread_after hid (NextCursor ?p) es))"
      using step len lim less.prems by (intro less.hyps) auto
    then show ?thesis
      using True step pg(1) less.prems
      by (subst appendHandoffEntryRecords.simps) (simp add: page)
  qed
qed

lemma ListTaskHandoffEntries_page:
  assumes "task_handoff_row hid s = Some h" and "0 < lim" and "lim \<le> HandoffHistoryMaxLimit" and "0 \<le> c"
  shows "fst (ListTaskHandoffEntries hid c lim s) =
    Inr (trimHandoffEntryPage (take (lim + 1) (thread_after hid c (task_handoff_entries s))) lim)"
  using assms by (simp add: ListTaskHandoffEntries_def listHandoffEntries_def
      GetTaskHandoffEntryState_sql_def ListTaskHandoffEntries_sql_def op_eval op_eval_defs)

lemma HandoffEntryWatermark_value:
  "HandoffEntryWatermark s =
     (Inr (max_entry_id (task_handoff_entries s) + max_entry_id (goal_handoff_entries s)), s)"
  by (simp add: HandoffEntryWatermark_def MaxTaskHandoffEntryID_sql_def MaxGoalHandoffEntryID_sql_def
      op_eval op_eval_defs)

text \<open>The watermark of a store that went on is the same exactly when nothing was appended.\<close>

lemma watermark_detects:
  assumes "logs_extend s t" and "wf_logs s"
  shows "fst (HandoffEntryWatermark s) = fst (HandoffEntryWatermark t) \<longleftrightarrow>
           map e_id (task_handoff_entries s) = map e_id (task_handoff_entries t)
         \<and> map e_id (goal_handoff_entries s) = map e_id (goal_handoff_entries t)"
proof -
  have ext: "entries_extend (task_handoff_entries s) (task_handoff_entries t)"
      "entries_extend (goal_handoff_entries s) (goal_handoff_entries t)"
    and wf: "wf_entries (task_handoff_entries t)" "wf_entries (goal_handoff_entries t)"
    using assms by (auto simp: logs_extend_def wf_logs_def)
  note tm = max_entry_id_extend [OF ext(1) wf(1)] and gm = max_entry_id_extend [OF ext(2) wf(2)]
  show ?thesis
    unfolding HandoffEntryWatermark_value fst_conv sum.inject
    using tm gm by linarith
qed

end
