(* ===== verification/Atct_Handoff_Row.thy ===== *)
theory Atct_Handoff_Row
  imports Atct_Entries
begin

text \<open>
  The rows of \<^verbatim>\<open>task_handoffs\<close> and \<^verbatim>\<open>goal_handoffs\<close>: the
  statements of \<^verbatim>\<open>task.sql\<close> that read and write them, which are the same for both
  tables but for receipt, and the life of one handoff. A statement is its WHERE clause on the row
  (a guard) and its SET clause (an update). \<open>phase\<close> abstracts a row to a state of the review
  cycle, \<open>phase_step\<close> is the specification of that cycle, and \<open>handoff_le\<close> says that a row
  has moved along it.
\<close>

section \<open>Guards and updates\<close>

definition close_guard :: "handoff \<Rightarrow> bool" where
  "close_guard h \<longleftrightarrow> h_requested_at h \<noteq> None \<and> h_completed_report_at h = None \<and> h_recovered_at h = None"

definition close_row :: "time \<Rightarrow> string option \<Rightarrow> handoff \<Rightarrow> handoff" where
  "close_row now report h = h\<lparr>h_completed_report_at := Some now, h_complete_report := report\<rparr>"

definition reviewer_close_guard :: "int option \<Rightarrow> handoff \<Rightarrow> bool" where
  "reviewer_close_guard by h \<longleftrightarrow>
     h_requested_at h \<noteq> None \<and> h_received_at h \<noteq> None
   \<and> by \<noteq> None \<and> h_review_received_by h = by \<and> h_review_received_at h \<noteq> None
   \<and> h_completed_report_at h = None \<and> h_recovered_at h = None"

definition amend_guard :: "handoff \<Rightarrow> bool" where
  "amend_guard h \<longleftrightarrow> h_completed_report_at h \<noteq> None \<and> h_recovered_at h = None"

definition amend_row :: "string \<Rightarrow> handoff \<Rightarrow> handoff" where
  "amend_row report h = h\<lparr>h_complete_report := Some report\<rparr>"

text \<open>
  \<open>held i\<close>: session \<open>i\<close> has a heartbeat no older than the lease cutoff. SQL comparison with a
  NULL parameter selects nothing, so \<open>by = None\<close> never equals the recorded receiver.
\<close>

definition receive_guard :: "int option \<Rightarrow> (int \<Rightarrow> bool) \<Rightarrow> handoff \<Rightarrow> bool" where
  "receive_guard by held h \<longleftrightarrow>
     h_requested_at h \<noteq> None
   \<and> (h_received_at h = None
      \<or> (by \<noteq> None \<and> h_received_by h = by)
      \<or> \<not> (case h_received_by h of None \<Rightarrow> False | Some i \<Rightarrow> held i))"

definition receive_row :: "int option \<Rightarrow> time \<Rightarrow> handoff \<Rightarrow> handoff" where
  "receive_row by now h = h\<lparr>h_received_by := by, h_received_at := Some now\<rparr>"

definition review_request_guard :: "handoff \<Rightarrow> bool" where
  "review_request_guard h \<longleftrightarrow>
     h_requested_at h \<noteq> None \<and> h_received_at h \<noteq> None
   \<and> h_completed_report_at h = None \<and> h_recovered_at h = None
   \<and> (h_review_requested_at h = None
      \<or> (h_review_rejected_at h \<noteq> None \<and> h_review_rejection_received_at h \<noteq> None))"

definition review_request_row :: "int option \<Rightarrow> time \<Rightarrow> string \<Rightarrow> handoff \<Rightarrow> handoff" where
  "review_request_row by now report h =
     h\<lparr>h_review_requested_by := by, h_review_requested_at := Some now,
       h_review_request_report := Some report,
       h_review_received_by := None, h_review_received_at := None,
       h_review_rejected_at := None, h_review_reject_report := None,
       h_review_rejection_received_by := None, h_review_rejection_received_at := None\<rparr>"

definition review_receive_guard :: "handoff \<Rightarrow> bool" where
  "review_receive_guard h \<longleftrightarrow>
     h_review_requested_at h \<noteq> None \<and> h_review_received_at h = None
   \<and> h_review_rejected_at h = None \<and> h_completed_report_at h = None \<and> h_recovered_at h = None"

definition review_receive_row :: "int option \<Rightarrow> time \<Rightarrow> handoff \<Rightarrow> handoff" where
  "review_receive_row by now h = h\<lparr>h_review_received_by := by, h_review_received_at := Some now\<rparr>"

definition review_rereceive_guard :: "int option \<Rightarrow> handoff \<Rightarrow> bool" where
  "review_rereceive_guard old h \<longleftrightarrow>
     old \<noteq> None \<and> h_review_received_by h = old \<and> h_review_received_at h \<noteq> None
   \<and> h_review_rejected_at h = None \<and> h_completed_report_at h = None \<and> h_recovered_at h = None"

definition review_reject_guard :: "handoff \<Rightarrow> bool" where
  "review_reject_guard h \<longleftrightarrow>
     h_review_received_at h \<noteq> None \<and> h_completed_report_at h = None \<and> h_recovered_at h = None"

definition review_reject_row :: "time \<Rightarrow> string \<Rightarrow> handoff \<Rightarrow> handoff" where
  "review_reject_row now report h =
     h\<lparr>h_review_received_by := None, h_review_received_at := None,
       h_review_rejected_at := Some now, h_review_reject_report := Some report\<rparr>"

definition rejection_receive_guard :: "int option \<Rightarrow> handoff \<Rightarrow> bool" where
  "rejection_receive_guard by h \<longleftrightarrow>
     h_review_rejected_at h \<noteq> None \<and> h_review_rejection_received_at h = None
   \<and> by \<noteq> None \<and> h_received_by h = by \<and> h_recovered_at h = None"

definition rejection_receive_row :: "int option \<Rightarrow> time \<Rightarrow> handoff \<Rightarrow> handoff" where
  "rejection_receive_row by now h =
     h\<lparr>h_review_rejection_received_by := by, h_review_rejection_received_at := Some now\<rparr>"

text \<open>\<open>proven i\<close>: session \<open>i\<close> still has the process identity of the recovery proof.\<close>

definition recover_requester_guard :: "int \<Rightarrow> (int \<Rightarrow> bool) \<Rightarrow> handoff \<Rightarrow> bool" where
  "recover_requester_guard i proven h \<longleftrightarrow>
     h_requested_by h = Some i \<and> h_requested_at h \<noteq> None \<and> h_received_at h = None
   \<and> h_completed_report_at h = None \<and> h_recovered_at h = None \<and> proven i"

definition recover_receiver_guard :: "int \<Rightarrow> (int \<Rightarrow> bool) \<Rightarrow> handoff \<Rightarrow> bool" where
  "recover_receiver_guard i proven h \<longleftrightarrow>
     h_received_by h = Some i \<and> h_received_at h \<noteq> None
   \<and> h_completed_report_at h = None \<and> h_recovered_at h = None \<and> proven i"

definition recover_row :: "time \<Rightarrow> string \<Rightarrow> handoff \<Rightarrow> handoff" where
  "recover_row now report h = h\<lparr>h_recovered_at := Some now, h_recovery_report := Some report\<rparr>"

definition recover_review_guard :: "int \<Rightarrow> (int \<Rightarrow> bool) \<Rightarrow> handoff \<Rightarrow> bool" where
  "recover_review_guard i proven h \<longleftrightarrow>
     h_review_received_by h = Some i \<and> h_review_received_at h \<noteq> None
   \<and> h_completed_report_at h = None \<and> h_recovered_at h = None \<and> proven i"

definition recover_review_row :: "handoff \<Rightarrow> handoff" where
  "recover_review_row h = h\<lparr>h_review_received_by := None, h_review_received_at := None\<rparr>"

definition new_handoff :: "string \<Rightarrow> int \<Rightarrow> int option \<Rightarrow> time \<Rightarrow> string option \<Rightarrow> handoff" where
  "new_handoff hid owner by now report =
     \<lparr>h_id = hid, h_owner = owner, h_requested_by = by, h_received_by = None,
      h_requested_at = Some now, h_received_at = None, h_completed_report_at = None,
      h_request_report = report, h_complete_report = None, h_review_requested_by = None,
      h_review_requested_at = None, h_review_request_report = None, h_review_received_by = None,
      h_review_received_at = None, h_review_rejected_at = None, h_review_reject_report = None,
      h_review_rejection_received_by = None, h_review_rejection_received_at = None,
      h_recovered_at = None, h_recovery_report = None\<rparr>"

definition coalesce :: "'a option \<Rightarrow> 'a option \<Rightarrow> 'a option" where
  "coalesce v w = (case v of None \<Rightarrow> w | Some x \<Rightarrow> Some x)"

definition rerequest_row :: "int option \<Rightarrow> time \<Rightarrow> string option \<Rightarrow> handoff \<Rightarrow> handoff" where
  "rerequest_row by now report h =
     h\<lparr>h_requested_by := coalesce (h_requested_by h) by,
       h_requested_at := coalesce (h_requested_at h) (Some now),
       h_request_report := coalesce (h_request_report h) report\<rparr>"

lemmas handoff_guards =
  close_guard_def reviewer_close_guard_def amend_guard_def receive_guard_def
  review_request_guard_def review_receive_guard_def review_rereceive_guard_def
  review_reject_guard_def rejection_receive_guard_def recover_requester_guard_def
  recover_receiver_guard_def recover_review_guard_def

lemmas handoff_updates =
  close_row_def amend_row_def receive_row_def review_request_row_def review_receive_row_def
  review_reject_row_def rejection_receive_row_def recover_row_def recover_review_row_def
  rerequest_row_def coalesce_def

section \<open>The life of a handoff\<close>

datatype phase = Requested | Working | AwaitingReview | InReview | Rejected | Rework | Completed | Recovered

fun phase_open :: "phase \<Rightarrow> bool" where
  "phase_open Completed = False"
| "phase_open Recovered = False"
| "phase_open _ = True"

inductive phase_step :: "phase \<Rightarrow> phase \<Rightarrow> bool" where
  receive: "phase_step Requested Working"
| submit: "p \<in> {Working, Rework} \<Longrightarrow> phase_step p AwaitingReview"
| take_review: "phase_step AwaitingReview InReview"
| drop_review: "phase_step InReview AwaitingReview"
| reject: "phase_step InReview Rejected"
| accept_rejection: "phase_step Rejected Rework"
| close: "phase_open p \<Longrightarrow> phase_step p Completed"
| recover: "phase_open p \<Longrightarrow> phase_step p Recovered"

inductive_cases phase_stepE: "phase_step p q"

inductive_simps phase_step_from_closed: "phase_step Completed q" "phase_step Recovered q"

inductive_simps phase_step_to: "phase_step p Rework" "phase_step p InReview" "phase_step p Working"

definition phase :: "handoff \<Rightarrow> phase" where
  "phase h =
     (if h_recovered_at h \<noteq> None then Recovered
      else if h_completed_report_at h \<noteq> None then Completed
      else if h_received_at h = None then Requested
      else if h_review_requested_at h = None then Working
      else if h_review_rejection_received_at h \<noteq> None then Rework
      else if h_review_rejected_at h \<noteq> None then Rejected
      else if h_review_received_at h \<noteq> None then InReview
      else AwaitingReview)"

text \<open>
  Which columns are set together. A review receipt and a rejection exclude each other, everything
  about a review needs a review request, and a review needs a receiver of the work.
\<close>

definition wf_row :: "handoff \<Rightarrow> bool" where
  "wf_row h \<longleftrightarrow>
     h_requested_at h \<noteq> None
   \<and> (h_review_requested_at h \<noteq> None \<longrightarrow> h_received_at h \<noteq> None)
   \<and> (h_review_received_at h \<noteq> None \<longrightarrow> h_review_requested_at h \<noteq> None \<and> h_review_rejected_at h = None)
   \<and> (h_review_received_by h \<noteq> None \<longleftrightarrow> h_review_received_at h \<noteq> None)
   \<and> (h_review_rejected_at h \<noteq> None \<longrightarrow> h_review_requested_at h \<noteq> None \<and> h_review_reject_report h \<noteq> None)
   \<and> (h_review_rejection_received_at h \<noteq> None \<longrightarrow> h_review_rejected_at h \<noteq> None)
   \<and> (h_completed_report_at h \<noteq> None \<longrightarrow> h_recovered_at h = None)"

text \<open>
  One row later: the same handoff, its request and its end never rewritten, and its phase reached
  by steps of the cycle.
\<close>

definition handoff_le :: "handoff \<Rightarrow> handoff \<Rightarrow> bool" where
  "handoff_le g h \<longleftrightarrow>
     h_id h = h_id g \<and> h_owner h = h_owner g
   \<and> (wf_row g \<longrightarrow> wf_row h \<and> phase_step\<^sup>*\<^sup>* (phase g) (phase h)
        \<and> h_requested_at h = h_requested_at g
        \<and> (h_requested_by g \<noteq> None \<longrightarrow> h_requested_by h = h_requested_by g)
        \<and> (h_completed_report_at g \<noteq> None \<longrightarrow> h_completed_report_at h = h_completed_report_at g)
        \<and> (h_recovered_at g \<noteq> None \<longrightarrow> h_recovered_at h = h_recovered_at g))"

lemma handoff_le_refl [simp]: "handoff_le h h"
  by (simp add: handoff_le_def)

lemma handoff_le_trans: "handoff_le f g \<Longrightarrow> handoff_le g h \<Longrightarrow> handoff_le f h"
  unfolding handoff_le_def by (auto elim: rtranclp_trans)

lemma phase_open_iff: "phase_open (phase h) \<longleftrightarrow> handoff_open h"
  by (auto simp: phase_def handoff_open_def)

lemma closed_phase_final: "phase_step\<^sup>*\<^sup>* p q \<Longrightarrow> \<not> phase_open p \<Longrightarrow> q = p"
  by (induction rule: rtranclp_induct) (cases p; auto elim: phase_stepE)+

lemma handoff_le_open: "handoff_le g h \<Longrightarrow> wf_row g \<Longrightarrow> handoff_open h \<Longrightarrow> handoff_open g"
  unfolding handoff_le_def using closed_phase_final phase_open_iff by metis

text \<open>Each statement moves a row by at most one step of the cycle.\<close>

named_theorems handoff_moves "statements that move a row along its life"

lemma handoff_leI:
  assumes "h_id h = h_id g" "h_owner h = h_owner g"
    and "wf_row g \<Longrightarrow> wf_row h"
    and "wf_row g \<Longrightarrow> phase g = phase h \<or> phase_step (phase g) (phase h)"
    and "wf_row g \<Longrightarrow> h_requested_at h = h_requested_at g"
    and "h_requested_by g \<noteq> None \<Longrightarrow> h_requested_by h = h_requested_by g"
    and "h_completed_report_at g \<noteq> None \<Longrightarrow> h_completed_report_at h = h_completed_report_at g"
    and "h_recovered_at g \<noteq> None \<Longrightarrow> h_recovered_at h = h_recovered_at g"
  shows "handoff_le g h"
  using assms unfolding handoff_le_def by (metis r_into_rtranclp rtranclp.rtrancl_refl)

lemma close_moves [handoff_moves]: "close_guard h \<Longrightarrow> handoff_le h (close_row now report h)"
  by (rule handoff_leI) (auto simp: handoff_guards handoff_updates wf_row_def phase_def
      intro: phase_step.intros)

lemma reviewer_close_moves [handoff_moves]:
  "reviewer_close_guard by h \<Longrightarrow> handoff_le h (close_row now report h)"
  by (rule handoff_leI) (auto simp: handoff_guards handoff_updates wf_row_def phase_def
      intro: phase_step.intros)

lemma amend_moves [handoff_moves]: "amend_guard h \<Longrightarrow> handoff_le h (amend_row report h)"
  by (rule handoff_leI) (auto simp: handoff_guards handoff_updates wf_row_def phase_def)

lemma receive_moves [handoff_moves]:
  "receive_guard by held h \<Longrightarrow> handoff_le h (receive_row by now h)"
  by (rule handoff_leI) (auto simp: receive_row_def wf_row_def phase_def intro: phase_step.intros)

lemma review_request_moves [handoff_moves]:
  "review_request_guard h \<Longrightarrow> handoff_le h (review_request_row by now report h)"
  by (rule handoff_leI) (auto simp: handoff_guards handoff_updates wf_row_def phase_def
      phase_step.simps)

lemma review_receive_moves [handoff_moves]:
  "review_receive_guard h \<Longrightarrow> handoff_le h (review_receive_row (Some i) now h)"
  by (rule handoff_leI) (auto simp: handoff_guards handoff_updates wf_row_def phase_def
      phase_step.simps)

lemma review_rereceive_moves [handoff_moves]:
  "review_rereceive_guard old h \<Longrightarrow> handoff_le h (review_receive_row (Some i) now h)"
  by (rule handoff_leI) (auto simp: handoff_guards handoff_updates wf_row_def phase_def)

lemma review_reject_moves [handoff_moves]:
  "review_reject_guard h \<Longrightarrow> handoff_le h (review_reject_row now report h)"
  by (rule handoff_leI) (auto simp: handoff_guards handoff_updates wf_row_def phase_def
      phase_step.simps)

lemma rejection_receive_moves [handoff_moves]:
  "rejection_receive_guard by h \<Longrightarrow> handoff_le h (rejection_receive_row by now h)"
  by (rule handoff_leI) (auto simp: handoff_guards handoff_updates wf_row_def phase_def
      phase_step.simps)

lemma recover_requester_moves [handoff_moves]:
  "recover_requester_guard i proven h \<Longrightarrow> handoff_le h (recover_row now report h)"
  by (rule handoff_leI) (auto simp: handoff_guards handoff_updates wf_row_def phase_def
      intro: phase_step.intros)

lemma recover_receiver_moves [handoff_moves]:
  "recover_receiver_guard i proven h \<Longrightarrow> handoff_le h (recover_row now report h)"
  by (rule handoff_leI) (auto simp: handoff_guards handoff_updates wf_row_def phase_def
      intro: phase_step.intros)

lemma recover_review_moves [handoff_moves]:
  "recover_review_guard i proven h \<Longrightarrow> handoff_le h (recover_review_row h)"
  by (rule handoff_leI) (auto simp: handoff_guards handoff_updates wf_row_def phase_def
      phase_step.simps)

lemma rerequest_moves [handoff_moves]: "handoff_le h (rerequest_row by now report h)"
  by (rule handoff_leI) (auto simp: handoff_updates wf_row_def phase_def split: option.splits)

lemma new_handoff_row [simp]:
  "h_id (new_handoff hid owner by now report) = hid"
  "h_owner (new_handoff hid owner by now report) = owner"
  "wf_row (new_handoff hid owner by now report)"
  "phase (new_handoff hid owner by now report) = Requested"
  "handoff_open (new_handoff hid owner by now report)"
  by (simp_all add: new_handoff_def wf_row_def phase_def handoff_open_def)

section \<open>Tables of handoffs\<close>

text \<open>
  The table invariant: the keys of the schema and the shape of the rows; and the order of tables:
  old rows stay, in place, and have moved along their life.
\<close>

definition wf_table :: "handoff list \<Rightarrow> bool" where
  "wf_table hs \<longleftrightarrow> wf_handoffs hs \<and> (\<forall>h\<in>set hs. wf_row h)"

definition table_le :: "handoff list \<Rightarrow> handoff list \<Rightarrow> bool" where
  "table_le gs hs \<longleftrightarrow> grows handoff_le gs hs \<and> (wf_table gs \<longrightarrow> wf_table hs)"

lemma table_le_refl [simp]: "table_le hs hs"
  by (simp add: table_le_def grows_refl)

lemma table_le_trans: "table_le fs gs \<Longrightarrow> table_le gs hs \<Longrightarrow> table_le fs hs"
  unfolding table_le_def by (blast intro: grows_trans handoff_le_trans)

lemma handoff_le_id: "handoff_le g h \<Longrightarrow> h_id h = h_id g"
  by (simp add: handoff_le_def)

definition open_owners :: "handoff list \<Rightarrow> int list" where
  "open_owners hs = map h_owner (filter handoff_open hs)"

lemma open_owners_simps [simp]:
  "open_owners [] = []"
  "open_owners (h # hs) = (if handoff_open h then h_owner h # open_owners hs else open_owners hs)"
  by (simp_all add: open_owners_def)

lemma one_open_update:
  assumes "one_open hs" and "\<forall>h\<in>set hs. wf_row h" and P: "\<And>h. P h \<Longrightarrow> handoff_le h (f h)"
  shows "one_open (update_where P f hs)"
proof -
  have "distinct (open_owners hs) \<Longrightarrow> \<forall>h\<in>set hs. wf_row h \<Longrightarrow>
      distinct (open_owners (update_where P f hs))
      \<and> set (open_owners (update_where P f hs)) \<subseteq> set (open_owners hs)"
  proof (induction hs)
    case (Cons h hs)
    have "handoff_open (f h) \<Longrightarrow> P h \<Longrightarrow> handoff_open h" and "P h \<Longrightarrow> h_owner (f h) = h_owner h"
      using Cons.prems handoff_le_open [OF P] P [of h, unfolded handoff_le_def] by auto
    with Cons show ?case by (auto split: if_splits)
  qed simp
  then show ?thesis using assms by (simp add: one_open_def open_owners_def)
qed

lemma table_le_update:
  assumes P: "\<And>h. P h \<Longrightarrow> handoff_le h (f h)"
  shows "table_le hs (update_where P f hs)"
proof -
  have "grows handoff_le hs (update_where P f hs)"
    by (intro grows_update P) simp_all
  moreover have "wf_table (update_where P f hs)" if "wf_table hs"
  proof -
    have "map h_id (update_where P f hs) = map h_id hs"
      using P by (intro map_update_where) (auto simp: handoff_le_def)
    moreover have "\<forall>h\<in>set (update_where P f hs). wf_row h"
      using that P by (auto simp: wf_table_def set_update_where handoff_le_def)
    ultimately show ?thesis
      using that one_open_update [OF _ _ P, of hs] by (auto simp: wf_table_def wf_handoffs_def)
  qed
  ultimately show ?thesis by (simp add: table_le_def)
qed

lemma table_le_insert:
  assumes "wf_row h" and "h_id h \<notin> h_id ` set hs"
    and "handoff_open h \<Longrightarrow> \<forall>g\<in>set hs. handoff_open g \<longrightarrow> h_owner g \<noteq> h_owner h"
  shows "table_le hs (hs @ [h])"
  using assms by (auto simp: table_le_def wf_table_def wf_handoffs_def one_open_def grows_append)

subsection \<open>The statements\<close>

definition update_handoff ::
  "(store \<Rightarrow> handoff list) \<Rightarrow> ((handoff list \<Rightarrow> handoff list) \<Rightarrow> store \<Rightarrow> store) \<Rightarrow> string \<Rightarrow> int \<Rightarrow>
   int option list \<Rightarrow> (handoff \<Rightarrow> bool) \<Rightarrow> (handoff \<Rightarrow> handoff) \<Rightarrow> nat store_op" where
  "update_handoff hs upd hid owner refs guard f =
     (let P = (\<lambda>h. h_id h = hid \<and> h_owner h = owner \<and> guard h) in
      checked_update
        (\<lambda>s. [(affected P (hs s) = 0 \<or> list_all (\<lambda>v. fk_ok session_exists v s) refs,
               ForeignKeyConstraintFailed)])
        hs upd P f)"

definition request_handoff ::
  "(store \<Rightarrow> handoff list) \<Rightarrow> ((handoff list \<Rightarrow> handoff list) \<Rightarrow> store \<Rightarrow> store) \<Rightarrow>
   (int \<Rightarrow> store \<Rightarrow> bool) \<Rightarrow> string \<Rightarrow> int \<Rightarrow> int option \<Rightarrow> time \<Rightarrow> string option \<Rightarrow> unit store_op" where
  "request_handoff hs upd owner_exists hid owner by now report =
     bnd (ask (\<lambda>s. list_ex (\<lambda>h. h_id h = hid) (hs s))) (\<lambda>conflict.
     if conflict then
       bnd (checked_update
         (\<lambda>s. [(fk_ok session_exists by s
                \<or> list_all (\<lambda>h. h_id h = hid \<longrightarrow> h_requested_by h \<noteq> None) (hs s),
                ForeignKeyConstraintFailed)])
         hs upd (\<lambda>h. h_id h = hid) (rerequest_row by now report)) (\<lambda>_. ret ())
     else
       checked_insert
         (\<lambda>s. [(list_all (\<lambda>h. h_id h \<noteq> hid) (hs s), UniqueConstraintFailed),
               (list_all (\<lambda>h. \<not> (handoff_open h \<and> h_owner h = owner)) (hs s), UniqueConstraintFailed),
               (owner_exists owner s \<and> fk_ok session_exists by s, ForeignKeyConstraintFailed)])
         upd (new_handoff hid owner by now report))"

text \<open>The interface of the two tables, and what its statements keep.\<close>

locale handoff_table =
  fixes hs :: "store \<Rightarrow> handoff list"
    and upd :: "(handoff list \<Rightarrow> handoff list) \<Rightarrow> store \<Rightarrow> store"
  assumes hs_upd: "hs (upd f s) = f (hs s)"
    and upd_value: "upd f s = upd (\<lambda>_. f (hs s)) s"
begin

definition le :: "store \<Rightarrow> store \<Rightarrow> bool" where
  "le s t \<longleftrightarrow> table_le (hs s) (hs t)"

lemma update_result:
  assumes "update_handoff hs upd hid owner refs guard f s = (Inr n, t)"
  shows "n = affected (\<lambda>h. h_id h = hid \<and> h_owner h = owner \<and> guard h) (hs s)"
    and "t = upd (update_where (\<lambda>h. h_id h = hid \<and> h_owner h = owner \<and> guard h) f) s"
  using assms by (auto simp: update_handoff_def Let_def op_run)

lemma update_found:
  assumes run: "update_handoff hs upd hid owner refs guard f s = (Inr n, t)" and n: "n \<noteq> 0"
    and wf: "wf_table (hs s)"
  shows "\<exists>h. List.find (\<lambda>h. h_id h = hid) (hs s) = Some h \<and> h_owner h = owner \<and> guard h"
proof -
  have "0 < affected (\<lambda>h. h_id h = hid \<and> h_owner h = owner \<and> guard h) (hs s)"
    using n update_result(1) [OF run] by simp
  then obtain h where h: "h \<in> set (hs s)" "h_id h = hid" "h_owner h = owner" "guard h"
    unfolding affected_pos by blast
  have "distinct (map h_id (hs s))"
    using wf by (simp add: wf_table_def wf_handoffs_def)
  then have "List.find (\<lambda>h. h_id h = hid) (hs s) = Some h"
    using h(1,2) by (rule find_key_unique)
  with h show ?thesis by blast
qed

end

sublocale handoff_table < tables: state_order le
  by unfold_locales (auto simp: le_def intro: table_le_trans)

context handoff_table
begin

lemma update_le:
  assumes "\<And>h. guard h \<Longrightarrow> handoff_le h (f h)"
  shows "evolves le (update_handoff hs upd hid owner refs guard f)"
  unfolding update_handoff_def Let_def
  by (rule evolves_checked_update) (auto simp: le_def hs_upd assms intro!: table_le_update)

lemma request_le: "evolves le (request_handoff hs upd owner_exists hid owner by now report)"
  unfolding request_handoff_def
  by (intro tables.ev_rules evolves_checked_update evolves_checked_insert)
    (auto simp: le_def hs_upd list_all_iff image_iff rerequest_moves
      intro!: table_le_update table_le_insert)

end

interpretation task_handoff: handoff_table task_handoffs task_handoffs_update
proof
  show "task_handoffs (task_handoffs_update f s) = f (task_handoffs s)" for f s by simp
  show "task_handoffs_update f s = task_handoffs_update (\<lambda>_. f (task_handoffs s)) s" for f s
    by (cases s) simp
qed

interpretation goal_handoff: handoff_table goal_handoffs goal_handoffs_update
proof
  show "goal_handoffs (goal_handoffs_update f s) = f (goal_handoffs s)" for f s by simp
  show "goal_handoffs_update f s = goal_handoffs_update (\<lambda>_. f (goal_handoffs s)) s" for f s
    by (cases s) simp
qed

section \<open>The queries of the two tables\<close>

definition lease_held :: "int \<Rightarrow> time \<Rightarrow> store \<Rightarrow> bool" where
  "lease_held i cutoff s \<longleftrightarrow>
     list_ex (\<lambda>r. s_id r = i \<and> (case s_last_heartbeat_at r of None \<Rightarrow> False | Some hb \<Rightarrow> cutoff \<le> hb))
       (agent_sessions s)"

definition process_is :: "int \<Rightarrow> int \<Rightarrow> string \<Rightarrow> store \<Rightarrow> bool" where
  "process_is i pid startedAt s \<longleftrightarrow>
     list_ex (\<lambda>r. s_id r = i \<and> s_pid r = pid \<and> s_started_at r = startedAt) (agent_sessions s)"

definition task_exists :: "int \<Rightarrow> store \<Rightarrow> bool" where
  "task_exists i s \<longleftrightarrow> (\<exists>r\<in>set (tasks s). t_id r = i)"

definition goal_exists :: "int \<Rightarrow> store \<Rightarrow> bool" where
  "goal_exists i s \<longleftrightarrow> (\<exists>r\<in>set (goals s). g_id r = i)"

definition RequestTaskHandoff_sql ::
  "string \<Rightarrow> int \<Rightarrow> int option \<Rightarrow> time \<Rightarrow> string option \<Rightarrow> unit store_op" where
  "RequestTaskHandoff_sql = request_handoff task_handoffs task_handoffs_update task_exists"

definition RequestGoalHandoff_sql ::
  "string \<Rightarrow> int \<Rightarrow> int option \<Rightarrow> time \<Rightarrow> string option \<Rightarrow> unit store_op" where
  "RequestGoalHandoff_sql = request_handoff goal_handoffs goal_handoffs_update goal_exists"


definition GetTaskHandoff_sql :: "string \<Rightarrow> handoff store_op" where
  "GetTaskHandoff_sql hid = bnd (ask (task_handoff_row hid)) (need NoRows)"

definition GetTaskHandoffTaskID_sql :: "string \<Rightarrow> int store_op" where
  "GetTaskHandoffTaskID_sql hid =
     bnd (ask (task_handoff_row hid)) (\<lambda>v. bnd (need NoRows v) (\<lambda>h. ret (h_owner h)))"

definition ListTaskHandoffs_sql :: "int \<Rightarrow> (handoff list) store_op" where
  "ListTaskHandoffs_sql owner =
     ask (\<lambda>s. order_by h_id (filter (\<lambda>h. h_owner h = owner) (task_handoffs s)))"

definition CompleteTaskHandoff_sql :: "string \<Rightarrow> int \<Rightarrow> time \<Rightarrow> string option \<Rightarrow> nat store_op" where
  "CompleteTaskHandoff_sql hid owner now report =
     update_handoff task_handoffs task_handoffs_update hid owner [] close_guard (close_row now report)"

definition CompleteTaskHandoffByReviewer_sql ::
  "string \<Rightarrow> int \<Rightarrow> int option \<Rightarrow> time \<Rightarrow> string \<Rightarrow> nat store_op" where
  "CompleteTaskHandoffByReviewer_sql hid owner by now report =
     update_handoff task_handoffs task_handoffs_update hid owner [] (reviewer_close_guard by)
       (close_row now (Some report))"

definition AmendTaskHandoffReport_sql :: "string \<Rightarrow> int \<Rightarrow> string \<Rightarrow> nat store_op" where
  "AmendTaskHandoffReport_sql hid owner report =
     update_handoff task_handoffs task_handoffs_update hid owner [] amend_guard (amend_row report)"

definition ReceiveTaskHandoff_sql ::
  "string \<Rightarrow> int \<Rightarrow> int option \<Rightarrow> time \<Rightarrow> time \<Rightarrow> nat store_op" where
  "ReceiveTaskHandoff_sql hid owner by now cutoff =
     bnd (ask (\<lambda>s i. lease_held i cutoff s)) (\<lambda>held.
     update_handoff task_handoffs task_handoffs_update hid owner [by]
       (receive_guard by held) (receive_row by now))"

definition RequestTaskHandoffReview_sql ::
  "string \<Rightarrow> int \<Rightarrow> int \<Rightarrow> time \<Rightarrow> string \<Rightarrow> nat store_op" where
  "RequestTaskHandoffReview_sql hid owner by now report =
     update_handoff task_handoffs task_handoffs_update hid owner [Some by] review_request_guard
       (review_request_row (Some by) now report)"

definition ReceiveTaskHandoffReview_sql :: "string \<Rightarrow> int \<Rightarrow> int \<Rightarrow> time \<Rightarrow> nat store_op" where
  "ReceiveTaskHandoffReview_sql hid owner by now =
     update_handoff task_handoffs task_handoffs_update hid owner [Some by] review_receive_guard
       (review_receive_row (Some by) now)"

definition RejectTaskHandoffReview_sql :: "string \<Rightarrow> int \<Rightarrow> time \<Rightarrow> string \<Rightarrow> nat store_op" where
  "RejectTaskHandoffReview_sql hid owner now report =
     update_handoff task_handoffs task_handoffs_update hid owner [] review_reject_guard
       (review_reject_row now report)"

definition ReceiveTaskHandoffReviewRejection_sql :: "string \<Rightarrow> int \<Rightarrow> int \<Rightarrow> time \<Rightarrow> nat store_op" where
  "ReceiveTaskHandoffReviewRejection_sql hid owner by now =
     update_handoff task_handoffs task_handoffs_update hid owner [Some by]
       (rejection_receive_guard (Some by)) (rejection_receive_row (Some by) now)"

definition RecoverTaskHandoffRequester_sql ::
  "string \<Rightarrow> int \<Rightarrow> int \<Rightarrow> int \<Rightarrow> string \<Rightarrow> time \<Rightarrow> string \<Rightarrow> nat store_op" where
  "RecoverTaskHandoffRequester_sql hid owner i pid startedAt now report =
     bnd (ask (\<lambda>s i. process_is i pid startedAt s)) (\<lambda>proven.
     update_handoff task_handoffs task_handoffs_update hid owner [] (recover_requester_guard i proven)
       (recover_row now report))"

definition RecoverTaskHandoffReceiver_sql ::
  "string \<Rightarrow> int \<Rightarrow> int \<Rightarrow> int \<Rightarrow> string \<Rightarrow> time \<Rightarrow> string \<Rightarrow> nat store_op" where
  "RecoverTaskHandoffReceiver_sql hid owner i pid startedAt now report =
     bnd (ask (\<lambda>s i. process_is i pid startedAt s)) (\<lambda>proven.
     update_handoff task_handoffs task_handoffs_update hid owner [] (recover_receiver_guard i proven)
       (recover_row now report))"

definition RecoverTaskHandoffReview_sql ::
  "string \<Rightarrow> int \<Rightarrow> int \<Rightarrow> int \<Rightarrow> string \<Rightarrow> nat store_op" where
  "RecoverTaskHandoffReview_sql hid owner i pid startedAt =
     bnd (ask (\<lambda>s i. process_is i pid startedAt s)) (\<lambda>proven.
     update_handoff task_handoffs task_handoffs_update hid owner [] (recover_review_guard i proven)
       recover_review_row)"


definition GetGoalHandoff_sql :: "string \<Rightarrow> handoff store_op" where
  "GetGoalHandoff_sql hid = bnd (ask (goal_handoff_row hid)) (need NoRows)"

definition GetGoalHandoffGoalID_sql :: "string \<Rightarrow> int store_op" where
  "GetGoalHandoffGoalID_sql hid =
     bnd (ask (goal_handoff_row hid)) (\<lambda>v. bnd (need NoRows v) (\<lambda>h. ret (h_owner h)))"

definition ListGoalHandoffs_sql :: "int \<Rightarrow> (handoff list) store_op" where
  "ListGoalHandoffs_sql owner =
     ask (\<lambda>s. order_by h_id (filter (\<lambda>h. h_owner h = owner) (goal_handoffs s)))"

definition CompleteGoalHandoff_sql :: "string \<Rightarrow> int \<Rightarrow> time \<Rightarrow> string option \<Rightarrow> nat store_op" where
  "CompleteGoalHandoff_sql hid owner now report =
     update_handoff goal_handoffs goal_handoffs_update hid owner [] close_guard (close_row now report)"

definition CompleteGoalHandoffByReviewer_sql ::
  "string \<Rightarrow> int \<Rightarrow> int option \<Rightarrow> time \<Rightarrow> string \<Rightarrow> nat store_op" where
  "CompleteGoalHandoffByReviewer_sql hid owner by now report =
     update_handoff goal_handoffs goal_handoffs_update hid owner [] (reviewer_close_guard by)
       (close_row now (Some report))"

definition AmendGoalHandoffReport_sql :: "string \<Rightarrow> int \<Rightarrow> string \<Rightarrow> nat store_op" where
  "AmendGoalHandoffReport_sql hid owner report =
     update_handoff goal_handoffs goal_handoffs_update hid owner [] amend_guard (amend_row report)"

definition ReceiveGoalHandoff_sql ::
  "string \<Rightarrow> int \<Rightarrow> int option \<Rightarrow> time \<Rightarrow> time \<Rightarrow> nat store_op" where
  "ReceiveGoalHandoff_sql hid owner by now cutoff =
     bnd (ask (\<lambda>s i. lease_held i cutoff s)) (\<lambda>held.
     update_handoff goal_handoffs goal_handoffs_update hid owner [by]
       (\<lambda>h. h_recovered_at h = None \<and> receive_guard by held h) (receive_row by now))"

definition RequestGoalHandoffReview_sql ::
  "string \<Rightarrow> int \<Rightarrow> int \<Rightarrow> time \<Rightarrow> string \<Rightarrow> nat store_op" where
  "RequestGoalHandoffReview_sql hid owner by now report =
     update_handoff goal_handoffs goal_handoffs_update hid owner [Some by] review_request_guard
       (review_request_row (Some by) now report)"

definition ReceiveGoalHandoffReview_sql :: "string \<Rightarrow> int \<Rightarrow> int \<Rightarrow> time \<Rightarrow> nat store_op" where
  "ReceiveGoalHandoffReview_sql hid owner by now =
     update_handoff goal_handoffs goal_handoffs_update hid owner [Some by] review_receive_guard
       (review_receive_row (Some by) now)"

definition RejectGoalHandoffReview_sql :: "string \<Rightarrow> int \<Rightarrow> time \<Rightarrow> string \<Rightarrow> nat store_op" where
  "RejectGoalHandoffReview_sql hid owner now report =
     update_handoff goal_handoffs goal_handoffs_update hid owner [] review_reject_guard
       (review_reject_row now report)"

definition ReceiveGoalHandoffReviewRejection_sql :: "string \<Rightarrow> int \<Rightarrow> int \<Rightarrow> time \<Rightarrow> nat store_op" where
  "ReceiveGoalHandoffReviewRejection_sql hid owner by now =
     update_handoff goal_handoffs goal_handoffs_update hid owner [Some by]
       (rejection_receive_guard (Some by)) (rejection_receive_row (Some by) now)"

definition RecoverGoalHandoffRequester_sql ::
  "string \<Rightarrow> int \<Rightarrow> int \<Rightarrow> int \<Rightarrow> string \<Rightarrow> time \<Rightarrow> string \<Rightarrow> nat store_op" where
  "RecoverGoalHandoffRequester_sql hid owner i pid startedAt now report =
     bnd (ask (\<lambda>s i. process_is i pid startedAt s)) (\<lambda>proven.
     update_handoff goal_handoffs goal_handoffs_update hid owner [] (recover_requester_guard i proven)
       (recover_row now report))"

definition RecoverGoalHandoffReceiver_sql ::
  "string \<Rightarrow> int \<Rightarrow> int \<Rightarrow> int \<Rightarrow> string \<Rightarrow> time \<Rightarrow> string \<Rightarrow> nat store_op" where
  "RecoverGoalHandoffReceiver_sql hid owner i pid startedAt now report =
     bnd (ask (\<lambda>s i. process_is i pid startedAt s)) (\<lambda>proven.
     update_handoff goal_handoffs goal_handoffs_update hid owner [] (recover_receiver_guard i proven)
       (recover_row now report))"

definition RecoverGoalHandoffReview_sql ::
  "string \<Rightarrow> int \<Rightarrow> int \<Rightarrow> int \<Rightarrow> string \<Rightarrow> nat store_op" where
  "RecoverGoalHandoffReview_sql hid owner i pid startedAt =
     bnd (ask (\<lambda>s i. process_is i pid startedAt s)) (\<lambda>proven.
     update_handoff goal_handoffs goal_handoffs_update hid owner [] (recover_review_guard i proven)
       recover_review_row)"


definition ReReceiveGoalHandoffReview_sql ::
  "string \<Rightarrow> int \<Rightarrow> int \<Rightarrow> int \<Rightarrow> time \<Rightarrow> nat store_op" where
  "ReReceiveGoalHandoffReview_sql hid owner by old now =
     update_handoff goal_handoffs goal_handoffs_update hid owner [Some by]
       (review_rereceive_guard (Some old)) (review_receive_row (Some by) now)"


lemma task_handoff_queries_le:
  "evolves task_handoff.le (CompleteTaskHandoff_sql hid owner now report)"
  "evolves task_handoff.le (CompleteTaskHandoffByReviewer_sql hid owner oi now r)"
  "evolves task_handoff.le (AmendTaskHandoffReport_sql hid owner r)"
  "evolves task_handoff.le (ReceiveTaskHandoff_sql hid owner oi now cutoff)"
  "evolves task_handoff.le (RequestTaskHandoffReview_sql hid owner i now r)"
  "evolves task_handoff.le (ReceiveTaskHandoffReview_sql hid owner i now)"
  "evolves task_handoff.le (RejectTaskHandoffReview_sql hid owner now r)"
  "evolves task_handoff.le (ReceiveTaskHandoffReviewRejection_sql hid owner i now)"
  "evolves task_handoff.le (RecoverTaskHandoffRequester_sql hid owner i pid st now r)"
  "evolves task_handoff.le (RecoverTaskHandoffReceiver_sql hid owner i pid st now r)"
  "evolves task_handoff.le (RecoverTaskHandoffReview_sql hid owner i pid st)"
  "evolves task_handoff.le (RequestTaskHandoff_sql hid owner oi now report)"
  unfolding CompleteTaskHandoff_sql_def CompleteTaskHandoffByReviewer_sql_def AmendTaskHandoffReport_sql_def ReceiveTaskHandoff_sql_def RequestTaskHandoffReview_sql_def ReceiveTaskHandoffReview_sql_def RejectTaskHandoffReview_sql_def ReceiveTaskHandoffReviewRejection_sql_def RecoverTaskHandoffRequester_sql_def RecoverTaskHandoffReceiver_sql_def RecoverTaskHandoffReview_sql_def RequestTaskHandoff_sql_def
  by (intro task_handoff.tables.ev_rules task_handoff.update_le task_handoff.request_le; (elim conjE)?; (erule handoff_moves)?)+


lemma goal_handoff_queries_le:
  "evolves goal_handoff.le (CompleteGoalHandoff_sql hid owner now report)"
  "evolves goal_handoff.le (CompleteGoalHandoffByReviewer_sql hid owner oi now r)"
  "evolves goal_handoff.le (AmendGoalHandoffReport_sql hid owner r)"
  "evolves goal_handoff.le (ReceiveGoalHandoff_sql hid owner oi now cutoff)"
  "evolves goal_handoff.le (RequestGoalHandoffReview_sql hid owner i now r)"
  "evolves goal_handoff.le (ReceiveGoalHandoffReview_sql hid owner i now)"
  "evolves goal_handoff.le (RejectGoalHandoffReview_sql hid owner now r)"
  "evolves goal_handoff.le (ReceiveGoalHandoffReviewRejection_sql hid owner i now)"
  "evolves goal_handoff.le (RecoverGoalHandoffRequester_sql hid owner i pid st now r)"
  "evolves goal_handoff.le (RecoverGoalHandoffReceiver_sql hid owner i pid st now r)"
  "evolves goal_handoff.le (RecoverGoalHandoffReview_sql hid owner i pid st)"
  "evolves goal_handoff.le (RequestGoalHandoff_sql hid owner oi now report)"
  "evolves goal_handoff.le (ReReceiveGoalHandoffReview_sql hid owner i old now)"
  unfolding CompleteGoalHandoff_sql_def CompleteGoalHandoffByReviewer_sql_def AmendGoalHandoffReport_sql_def ReceiveGoalHandoff_sql_def RequestGoalHandoffReview_sql_def ReceiveGoalHandoffReview_sql_def RejectGoalHandoffReview_sql_def ReceiveGoalHandoffReviewRejection_sql_def RecoverGoalHandoffRequester_sql_def RecoverGoalHandoffReceiver_sql_def RecoverGoalHandoffReview_sql_def RequestGoalHandoff_sql_def ReReceiveGoalHandoffReview_sql_def
  by (intro goal_handoff.tables.ev_rules goal_handoff.update_le goal_handoff.request_le; (elim conjE)?; (erule handoff_moves)?)+

end
