(* ===== verification/Atct_Decision_Row.thy ===== *)
theory Atct_Decision_Row
  imports Atct_Handoff_Row
begin

text \<open>
  The rows of \<^verbatim>\<open>decisions\<close>: the statements of \<^verbatim>\<open>decision.sql\<close>
  and those of \<^verbatim>\<open>goal.sql\<close> and \<^verbatim>\<open>goal_handoff.sql\<close> that
  touch them, and the life of one decision. \<open>status_step\<close> is the specification: an open decision
  is answered, settled or withdrawn once, and an answered one is applied once.
\<close>

section \<open>The life of a decision\<close>

inductive status_step :: "DecisionStatus \<Rightarrow> DecisionStatus \<Rightarrow> bool" where
  answer: "status_step DecisionOpen DecisionAnswered"
| settle: "status_step DecisionOpen DecisionApplied"
| withdraw: "status_step DecisionOpen DecisionWithdrawn"
| deliver: "status_step DecisionAnswered DecisionApplied"

inductive_cases status_stepE: "status_step st st'"

text \<open>Which columns go with which status.\<close>

definition wf_decision :: "decision \<Rightarrow> bool" where
  "wf_decision d \<longleftrightarrow>
     (d_status d = DecisionOpen \<longrightarrow> d_answered_at d = None \<and> d_answer_label d = [] \<and> d_answer_text d = []
        \<and> d_default_applied_at d = None)
   \<and> (d_status d \<in> {DecisionAnswered, DecisionApplied} \<longrightarrow> d_answered_at d \<noteq> None)
   \<and> (d_status d = DecisionApplied \<longleftrightarrow> d_applied_at d \<noteq> None)
   \<and> (d_status d = DecisionWithdrawn \<longrightarrow> d_answered_at d = None)"

text \<open>
  One decision later: the question it asked is what it was, and once it is not open its answer
  and the source of the answer never change.
\<close>

definition decision_le :: "decision \<Rightarrow> decision \<Rightarrow> bool" where
  "decision_le d e \<longleftrightarrow>
     d_id e = d_id d \<and> d_goal_id e = d_goal_id d \<and> d_task_id e = d_task_id d \<and> d_kind e = d_kind d
   \<and> d_question e = d_question d \<and> d_options e = d_options d
   \<and> d_default_option e = d_default_option d \<and> d_default_after_ms e = d_default_after_ms d
   \<and> d_created_at e = d_created_at d
   \<and> status_step\<^sup>*\<^sup>* (d_status d) (d_status e)
   \<and> (d_status d \<noteq> DecisionOpen \<longrightarrow>
        d_answer_label e = d_answer_label d \<and> d_answer_text e = d_answer_text d
      \<and> d_answered_at e = d_answered_at d \<and> d_default_applied_at e = d_default_applied_at d
      \<and> d_answered_via e = d_answered_via d \<and> d_answer_quote e = d_answer_quote d
      \<and> d_answer_evidence e = d_answer_evidence d \<and> d_answer_prompt_id e = d_answer_prompt_id d)
   \<and> (d_status d \<in> {DecisionApplied, DecisionWithdrawn} \<longrightarrow> d_applied_at e = d_applied_at d
        \<and> d_agent_session_id e = d_agent_session_id d)
   \<and> (wf_decision d \<longrightarrow> wf_decision e)"

lemma status_steps_open: "status_step\<^sup>*\<^sup>* st DecisionOpen \<Longrightarrow> st = DecisionOpen"
  by (erule rtranclp.cases) (auto elim: status_stepE)

lemma status_steps_final:
  "status_step\<^sup>*\<^sup>* st st' \<Longrightarrow> st \<in> {DecisionApplied, DecisionWithdrawn} \<Longrightarrow> st' = st"
  by (induction rule: rtranclp_induct) (auto elim: status_stepE)

lemma decision_le_refl [simp]: "decision_le d d"
  by (simp add: decision_le_def)

lemma decision_le_trans: "decision_le d e \<Longrightarrow> decision_le e f \<Longrightarrow> decision_le d f"
  unfolding decision_le_def using status_steps_open status_steps_final
  by (smt (verit, best) rtranclp_trans)

text \<open>The table invariant: the primary key, one decision per human prompt, and the columns.\<close>

definition wf_decisions :: "decision list \<Rightarrow> bool" where
  "wf_decisions ds \<longleftrightarrow>
     distinct (map d_id ds)
   \<and> distinct (filter (\<lambda>p. p \<noteq> []) (map d_answer_prompt_id ds))
   \<and> (\<forall>d\<in>set ds. wf_decision d)"

definition decisions_le :: "store \<Rightarrow> store \<Rightarrow> bool" where
  "decisions_le s t \<longleftrightarrow> grows decision_le (decisions s) (decisions t)
     \<and> (wf_decisions (decisions s) \<longrightarrow> wf_decisions (decisions t))"

interpretation decisions_le: state_order decisions_le
  by unfold_locales
    (auto simp: decisions_le_def intro: grows_refl grows_trans decision_le_trans)

section \<open>Queries\<close>

definition decision_row :: "int \<Rightarrow> store \<Rightarrow> decision option" where
  "decision_row i s = List.find (\<lambda>d. d_id d = i) (decisions s)"

definition GetDecision_sql :: "int \<Rightarrow> decision store_op" where
  "GetDecision_sql i = bnd (ask (decision_row i)) (need NoRows)"

definition CreateDecision_sql ::
  "int \<Rightarrow> int option \<Rightarrow> DecisionKind \<Rightarrow> string \<Rightarrow> decision_option list \<Rightarrow> string \<Rightarrow> int option \<Rightarrow> int \<Rightarrow>
   time \<Rightarrow> int store_op" where
  "CreateDecision_sql goal task kind question options defaultOption defaultAfterMs session createdAt =
     bnd (ask (\<lambda>s. next_id d_id (decisions s))) (\<lambda>i.
     bnd (checked_insert
       (\<lambda>s. [(list_all (\<lambda>d. d_id d \<noteq> i) (decisions s), UniqueConstraintFailed),
             (goal_exists goal s \<and> fk_ok task_exists task s, ForeignKeyConstraintFailed)])
       decisions_update
       \<lparr>d_id = i, d_goal_id = goal, d_task_id = task, d_kind = kind, d_question = question,
        d_options = options, d_status = DecisionOpen, d_default_option = defaultOption,
        d_default_after_ms = defaultAfterMs, d_default_applied_at = None, d_answer_label = [],
        d_answer_text = [], d_answered_at = None, d_applied_at = None,
        d_agent_session_id = session, d_created_at = createdAt, d_answered_via = [],
        d_answer_quote = [], d_answer_evidence = [], d_answer_prompt_id = []\<rparr>) (\<lambda>_.
     ret i))"

record AnswerSource =
  Via :: string
  Quote :: string
  Evidence :: string
  PromptID :: string

definition set_source :: "AnswerSource \<Rightarrow> decision \<Rightarrow> decision" where
  "set_source src d =
     d\<lparr>d_answered_via := Via src, d_answer_quote := Quote src, d_answer_evidence := Evidence src,
       d_answer_prompt_id := PromptID src\<rparr>"

text \<open>
  The statements that answer an open decision record the source; the unique index on the prompt
  refuses a prompt that another row already carries.
\<close>

definition answer_update ::
  "AnswerSource \<Rightarrow> (decision \<Rightarrow> bool) \<Rightarrow> (decision \<Rightarrow> decision) \<Rightarrow> int \<Rightarrow> nat store_op" where
  "answer_update src P f i =
     checked_update
       (\<lambda>s. [(affected (\<lambda>d. d_id d = i \<and> P d) (decisions s) = 0 \<or> PromptID src = []
              \<or> list_all (\<lambda>d. d_id d = i \<or> d_answer_prompt_id d \<noteq> PromptID src) (decisions s),
              UniqueConstraintFailed)])
       decisions decisions_update (\<lambda>d. d_id d = i \<and> P d) (\<lambda>d. set_source src (f d))"

definition AnswerDecision_sql :: "string \<Rightarrow> string \<Rightarrow> time \<Rightarrow> AnswerSource \<Rightarrow> int \<Rightarrow> nat store_op" where
  "AnswerDecision_sql label txt now src i =
     answer_update src (\<lambda>d. d_status d = DecisionOpen)
       (\<lambda>d. d\<lparr>d_status := DecisionAnswered, d_answer_label := label, d_answer_text := txt,
              d_answered_at := Some now\<rparr>) i"

definition ApproveGoalReviewDecision_sql :: "time \<Rightarrow> AnswerSource \<Rightarrow> int \<Rightarrow> nat store_op" where
  "ApproveGoalReviewDecision_sql now src i =
     answer_update src (\<lambda>d. d_kind d = KindGoalReview \<and> d_status d = DecisionOpen)
       (\<lambda>d. d\<lparr>d_status := DecisionApplied, d_answer_label := ''approve'',
              d_answered_at := Some now, d_applied_at := Some now\<rparr>) i"

definition RejectGoalReviewDecision_sql :: "string \<Rightarrow> time \<Rightarrow> AnswerSource \<Rightarrow> int \<Rightarrow> nat store_op" where
  "RejectGoalReviewDecision_sql txt now src i =
     answer_update src (\<lambda>d. d_kind d = KindGoalReview \<and> d_status d = DecisionOpen)
       (\<lambda>d. d\<lparr>d_status := DecisionAnswered, d_answer_label := ''reject'', d_answer_text := txt,
              d_answered_at := Some now\<rparr>) i"

definition ApplyDecisionDefault_sql :: "string \<Rightarrow> time \<Rightarrow> int \<Rightarrow> nat store_op" where
  "ApplyDecisionDefault_sql label now i =
     exec_update decisions decisions_update (\<lambda>d. d_id d = i \<and> d_status d = DecisionOpen)
       (\<lambda>d. d\<lparr>d_status := DecisionAnswered, d_answer_label := label, d_answered_at := Some now,
              d_default_applied_at := Some now\<rparr>)"

definition MarkDecisionApplied_sql :: "time \<Rightarrow> int \<Rightarrow> nat store_op" where
  "MarkDecisionApplied_sql now i =
     exec_update decisions decisions_update (\<lambda>d. d_id d = i \<and> d_status d = DecisionAnswered)
       (\<lambda>d. d\<lparr>d_status := DecisionApplied, d_applied_at := Some now\<rparr>)"

definition WithdrawDecision_sql :: "string \<Rightarrow> int \<Rightarrow> nat store_op" where
  "WithdrawDecision_sql reason i =
     exec_update decisions decisions_update (\<lambda>d. d_id d = i \<and> d_status d = DecisionOpen)
       (\<lambda>d. d\<lparr>d_status := DecisionWithdrawn, d_answer_text := reason\<rparr>)"

definition ReassignGoalDecisionsToReceiver_sql :: "int \<Rightarrow> int \<Rightarrow> nat store_op" where
  "ReassignGoalDecisionsToReceiver_sql receiver goal =
     bnd (ask (\<lambda>s i. list_ex (\<lambda>h. h_owner h = goal \<and> h_received_by h = Some i \<and> i \<noteq> receiver)
                       (goal_handoffs s))) (\<lambda>former.
     exec_update decisions decisions_update
       (\<lambda>d. d_goal_id d = goal \<and> d_status d \<in> {DecisionOpen, DecisionAnswered}
          \<and> d_applied_at d = None \<and> former (d_agent_session_id d))
       (d_agent_session_id_update (\<lambda>_. receiver)))"

text \<open>
  The lists. An archived project hides its decisions from the lists over all projects, and a
  finished goal hides its answers that wait for an agent.
\<close>

definition project_archived :: "int \<Rightarrow> store \<Rightarrow> bool" where
  "project_archived i s \<longleftrightarrow> list_ex (\<lambda>p. p_id p = i \<and> p_archived_at p \<noteq> None) (projects s)"

definition goal_visible :: "store \<Rightarrow> int \<Rightarrow> bool" where
  "goal_visible s i \<longleftrightarrow> list_ex (\<lambda>g. g_id g = i \<and> \<not> project_archived (g_project_id g) s) (goals s)"

definition goal_active :: "store \<Rightarrow> int \<Rightarrow> bool" where
  "goal_active s i \<longleftrightarrow> list_ex (\<lambda>g. g_id g = i \<and> g_status g = GoalActive) (goals s)"

definition goal_in_project :: "int \<Rightarrow> store \<Rightarrow> int \<Rightarrow> bool" where
  "goal_in_project p s i \<longleftrightarrow> list_ex (\<lambda>g. g_id g = i \<and> g_project_id g = p) (goals s)"

definition select_decisions ::
  "(decision \<Rightarrow> 'k::linorder) \<Rightarrow> (store \<Rightarrow> decision \<Rightarrow> bool) \<Rightarrow> (decision list) store_op" where
  "select_decisions k P = ask (\<lambda>s. order_by k (filter (P s) (decisions s)))"

definition ListOpenDecisions_sql :: "int \<Rightarrow> (decision list) store_op" where
  "ListOpenDecisions_sql goal =
     select_decisions d_created_at (\<lambda>s d. d_goal_id d = goal \<and> d_status d = DecisionOpen)"

definition ListDecisionsForGoal_sql :: "int \<Rightarrow> (decision list) store_op" where
  "ListDecisionsForGoal_sql goal = select_decisions d_id (\<lambda>s d. d_goal_id d = goal)"

definition ListAllOpenDecisions_sql :: "(decision list) store_op" where
  "ListAllOpenDecisions_sql =
     select_decisions d_created_at (\<lambda>s d. d_status d = DecisionOpen \<and> goal_visible s (d_goal_id d))"

definition ListExpiredDecisions_sql :: "(decision list) store_op" where
  "ListExpiredDecisions_sql =
     select_decisions d_created_at (\<lambda>s d. d_status d = DecisionOpen \<and> d_default_after_ms d \<noteq> None
       \<and> d_default_option d \<noteq> [] \<and> goal_visible s (d_goal_id d))"

definition ListAnsweredDecisionForID_sql :: "int \<Rightarrow> (decision list) store_op" where
  "ListAnsweredDecisionForID_sql i =
     select_decisions d_answered_at (\<lambda>s d. d_status d = DecisionAnswered \<and> d_id d = i)"

definition ListAnsweredDecisionsForAgentSession_sql :: "int \<Rightarrow> (decision list) store_op" where
  "ListAnsweredDecisionsForAgentSession_sql session =
     select_decisions d_answered_at
       (\<lambda>s d. d_status d = DecisionAnswered \<and> d_agent_session_id d = session)"

definition ListUnappliedDecisions_sql :: "(decision list) store_op" where
  "ListUnappliedDecisions_sql =
     select_decisions d_answered_at (\<lambda>s d. d_status d = DecisionAnswered
       \<and> goal_visible s (d_goal_id d) \<and> goal_active s (d_goal_id d))"

definition ListUnappliedDecisionsForGoal_sql :: "int \<Rightarrow> (decision list) store_op" where
  "ListUnappliedDecisionsForGoal_sql goal =
     select_decisions d_answered_at (\<lambda>s d. d_status d = DecisionAnswered \<and> d_goal_id d = goal
       \<and> goal_active s (d_goal_id d))"

definition ListUnappliedDecisionsForProject_sql :: "int \<Rightarrow> (decision list) store_op" where
  "ListUnappliedDecisionsForProject_sql project =
     select_decisions d_answered_at (\<lambda>s d. d_status d = DecisionAnswered
       \<and> goal_in_project project s (d_goal_id d) \<and> goal_visible s (d_goal_id d)
       \<and> goal_active s (d_goal_id d))"

definition CountAppliedDecisions_sql :: "int \<Rightarrow> nat store_op" where
  "CountAppliedDecisions_sql goal =
     ask (\<lambda>s. affected (\<lambda>d. d_goal_id d = goal \<and> d_status d = DecisionApplied) (decisions s))"

definition CountAppliedDecisionsForTask_sql :: "int \<Rightarrow> int \<Rightarrow> nat store_op" where
  "CountAppliedDecisionsForTask_sql goal task =
     ask (\<lambda>s. affected (\<lambda>d. d_goal_id d = goal \<and> d_task_id d = Some task
                             \<and> d_status d = DecisionApplied) (decisions s))"

definition newest_applied :: "(decision \<Rightarrow> bool) \<Rightarrow> nat \<Rightarrow> store \<Rightarrow> decision list" where
  "newest_applied P lim s =
     take lim (rev (order_by (\<lambda>d. (d_answered_at d, d_applied_at d, d_id d))
       (filter (\<lambda>d. P d \<and> d_status d = DecisionApplied) (decisions s))))"

definition ListAppliedDecisions_sql :: "int \<Rightarrow> nat \<Rightarrow> (decision list) store_op" where
  "ListAppliedDecisions_sql goal lim = ask (newest_applied (\<lambda>d. d_goal_id d = goal) lim)"

definition ListAppliedDecisionsForTask_sql :: "int \<Rightarrow> int \<Rightarrow> nat \<Rightarrow> (decision list) store_op" where
  "ListAppliedDecisionsForTask_sql goal task lim =
     ask (newest_applied (\<lambda>d. d_goal_id d = goal \<and> d_task_id d = Some task) lim)"

definition CountOpenDecisionsForTask_sql :: "int \<Rightarrow> nat store_op" where
  "CountOpenDecisionsForTask_sql task =
     ask (\<lambda>s. affected (\<lambda>d. d_task_id d = Some task \<and> d_status d = DecisionOpen) (decisions s))"

definition CountOpenDecisionsForGoal_sql :: "int \<Rightarrow> nat store_op" where
  "CountOpenDecisionsForGoal_sql goal =
     ask (\<lambda>s. affected (\<lambda>d. d_goal_id d = goal \<and> d_status d = DecisionOpen) (decisions s))"

definition CountApprovedGoalReviewsForGoal_sql :: "int \<Rightarrow> nat store_op" where
  "CountApprovedGoalReviewsForGoal_sql goal =
     ask (\<lambda>s. affected (\<lambda>d. d_goal_id d = goal \<and> d_kind d = KindGoalReview
                             \<and> d_status d = DecisionApplied \<and> d_answer_label d = ''approve'')
                (decisions s))"

definition HasGoalReview_sql :: "int \<Rightarrow> bool store_op" where
  "HasGoalReview_sql goal =
     ask (\<lambda>s. list_ex (\<lambda>d. d_goal_id d = goal \<and> d_kind d = KindGoalReview) (decisions s))"

definition GetOpenGoalReviewGoalID_sql :: "int \<Rightarrow> int store_op" where
  "GetOpenGoalReviewGoalID_sql i =
     bnd (ask (\<lambda>s. List.find (\<lambda>d. d_id d = i \<and> d_kind d = KindGoalReview \<and> d_status d = DecisionOpen)
                     (decisions s)))
       (\<lambda>v. bnd (need NoRows v) (\<lambda>d. ret (d_goal_id d)))"

definition GetLatestGoalReviewID_sql :: "int \<Rightarrow> int store_op" where
  "GetLatestGoalReviewID_sql goal =
     bnd (ask (\<lambda>s. rev (order_by d_id
                     (filter (\<lambda>d. d_goal_id d = goal \<and> d_kind d = KindGoalReview) (decisions s)))))
       (\<lambda>ds. case ds of [] \<Rightarrow> fail NoRows | d # _ \<Rightarrow> ret (d_id d))"

section \<open>The statements move decisions along their life\<close>

lemma decisions_le_cong: "decisions t = decisions s \<Longrightarrow> decisions_le s t"
  by (auto simp: decisions_le_def intro: grows_refl)

lemma wf_decisions_update:
  assumes wf: "wf_decisions ds" and le: "\<And>d. P d \<Longrightarrow> decision_le d (f d)"
    and prompt: "\<And>d. P d \<Longrightarrow> d_answer_prompt_id (f d) = d_answer_prompt_id d"
  shows "wf_decisions (update_where P f ds)"
proof -
  have "map d_id (update_where P f ds) = map d_id ds"
    using le by (intro map_update_where) (simp add: decision_le_def)
  moreover have "map d_answer_prompt_id (update_where P f ds) = map d_answer_prompt_id ds"
    using prompt by (intro map_update_where)
  ultimately show ?thesis
    using wf le by (auto simp: wf_decisions_def set_update_where decision_le_def)
qed

lemma decisions_le_update:
  assumes "\<And>d. P d \<Longrightarrow> decision_le d (f d)"
    and "\<And>d. P d \<Longrightarrow> d_answer_prompt_id (f d) = d_answer_prompt_id d"
  shows "decisions_le s (decisions_update (update_where P f) s)"
  using assms by (auto simp: decisions_le_def intro: grows_update wf_decisions_update)

text \<open>Setting the prompt of one row, when no other row has it, keeps the prompts distinct.\<close>

definition prompts :: "decision list \<Rightarrow> string list" where
  "prompts ds = filter (\<lambda>p. p \<noteq> []) (map d_answer_prompt_id ds)"

lemma prompts_simps [simp]:
  "prompts [] = []"
  "prompts (d # ds) = (if d_answer_prompt_id d = [] then prompts ds else d_answer_prompt_id d # prompts ds)"
  by (simp_all add: prompts_def)

lemma distinct_prompts_set:
  assumes id: "\<And>d. d_id (f d) = d_id d" and p: "\<And>d. d_answer_prompt_id (f d) = p"
  shows "distinct (map d_id ds) \<Longrightarrow> distinct (prompts ds) \<Longrightarrow>
      p = [] \<or> (\<forall>d\<in>set ds. d_id d = i \<or> d_answer_prompt_id d \<noteq> p) \<Longrightarrow>
      distinct (prompts (update_where (\<lambda>d. d_id d = i \<and> P d) f ds))
    \<and> set (prompts (update_where (\<lambda>d. d_id d = i \<and> P d) f ds))
        \<subseteq> set (prompts ds) \<union> (if i \<in> d_id ` set ds then {p} else {})"
proof (induction ds)
  case (Cons d ds)
  have other: "p \<noteq> [] \<Longrightarrow> i \<notin> d_id ` set ds \<or> d_id d \<noteq> i"
    using Cons.prems(1) by auto
  have fresh: "p \<noteq> [] \<Longrightarrow> d_id d = i \<Longrightarrow> p \<notin> set (prompts ds)"
  proof -
    assume "p \<noteq> []" and i: "d_id d = i"
    then have "\<forall>x\<in>set ds. d_answer_prompt_id x \<noteq> p"
      using Cons.prems(1,3) by (metis (no_types, lifting) distinct.simps(2) image_eqI list.set_intros(2) list.set_map list.simps(9))
    then show ?thesis by (auto simp: prompts_def)
  qed
  note IH = Cons.IH
  show ?case
  proof (cases "d_id d = i")
    case True
    then have "i \<notin> d_id ` set ds" using Cons.prems(1) by auto
    then have "update_where (\<lambda>d. d_id d = i \<and> P d) f ds = ds"
      by (intro update_where_none) auto
    then show ?thesis using True Cons.prems fresh by (auto simp: p)
  next
    case False
    then show ?thesis using IH Cons.prems by (auto split: if_splits)
  qed
qed simp

lemma answer_update_le:
  assumes le: "\<And>d. P d \<Longrightarrow> decision_le d (set_source src (f d))" and id: "\<And>d. d_id (f d) = d_id d"
  shows "evolves decisions_le (answer_update src P f i)"
  unfolding answer_update_def
proof (rule evolves_checked_update)
  show "decisions_le s s" for s by (simp add: decisions_le_cong)
  fix s :: store
  let ?g = "\<lambda>d. set_source src (f d)"
  let ?Q = "\<lambda>d. d_id d = i \<and> P d"
  assume c: "list_all fst [(affected ?Q (decisions s) = 0 \<or> PromptID src = []
      \<or> list_all (\<lambda>d. d_id d = i \<or> d_answer_prompt_id d \<noteq> PromptID src) (decisions s),
      UniqueConstraintFailed)]"
  show "decisions_le s (decisions_update (update_where ?Q ?g) s)"
  proof (cases "affected ?Q (decisions s) = 0")
    case True
    then show ?thesis by (intro decisions_le_cong) (simp add: affected_0 update_where_none)
  next
    case False
    have "wf_decisions (update_where ?Q ?g (decisions s))" if wf: "wf_decisions (decisions s)"
    proof -
      have "map d_id (update_where ?Q ?g (decisions s)) = map d_id (decisions s)"
        by (intro map_update_where) (simp add: set_source_def id)
      moreover have "distinct (prompts (update_where ?Q ?g (decisions s)))"
        using wf c False distinct_prompts_set [of ?g "PromptID src" "decisions s" i P]
        by (simp add: wf_decisions_def prompts_def set_source_def id list_all_iff)
      ultimately show ?thesis
        using wf le by (auto simp: wf_decisions_def prompts_def set_update_where decision_le_def)
    qed
    then show ?thesis using le by (auto simp: decisions_le_def intro: grows_update)
  qed
qed

lemmas decision_le_open = decision_le_def wf_decision_def set_source_def

lemma decision_queries_le:
  "evolves decisions_le (AnswerDecision_sql label txt now src i)"
  "evolves decisions_le (ApproveGoalReviewDecision_sql now src i)"
  "evolves decisions_le (RejectGoalReviewDecision_sql txt now src i)"
  "evolves decisions_le (ApplyDecisionDefault_sql label now i)"
  "evolves decisions_le (MarkDecisionApplied_sql now i)"
  "evolves decisions_le (WithdrawDecision_sql label i)"
proof -
  note steps = r_into_rtranclp [of status_step, OF status_step.answer]
    r_into_rtranclp [of status_step, OF status_step.settle]
    r_into_rtranclp [of status_step, OF status_step.withdraw]
    r_into_rtranclp [of status_step, OF status_step.deliver]
  show "evolves decisions_le (AnswerDecision_sql label txt now src i)"
    "evolves decisions_le (ApproveGoalReviewDecision_sql now src i)"
    "evolves decisions_le (RejectGoalReviewDecision_sql txt now src i)"
    unfolding AnswerDecision_sql_def ApproveGoalReviewDecision_sql_def RejectGoalReviewDecision_sql_def
    by (intro answer_update_le; simp add: decision_le_open steps)+
  show "evolves decisions_le (ApplyDecisionDefault_sql label now i)"
    "evolves decisions_le (MarkDecisionApplied_sql now i)"
    "evolves decisions_le (WithdrawDecision_sql label i)"
    unfolding ApplyDecisionDefault_sql_def MarkDecisionApplied_sql_def WithdrawDecision_sql_def
    by (intro evolves_exec_update decisions_le_update; auto simp: decision_le_open steps)+
qed

lemma reassign_le: "evolves decisions_le (ReassignGoalDecisionsToReceiver_sql receiver goal)"
  unfolding ReassignGoalDecisionsToReceiver_sql_def
  by (intro decisions_le.ev_rules evolves_exec_update decisions_le_update)
    (auto simp: decision_le_def wf_decision_def)

lemma create_decision_le:
  "evolves decisions_le (CreateDecision_sql goal task kind q opts def after session createdAt)"
  unfolding CreateDecision_sql_def
  by (intro decisions_le.ev_rules evolves_checked_insert)
    (auto simp: decisions_le_def wf_decisions_def wf_decision_def list_all_iff image_iff
      intro: grows_refl grows_append)

lemma reads_decisions [reads_intros]:
  "reads (GetDecision_sql i)" "reads (select_decisions k P)" "reads (ListOpenDecisions_sql i)"
  "reads (ListDecisionsForGoal_sql i)" "reads ListAllOpenDecisions_sql"
  "reads ListExpiredDecisions_sql" "reads (ListAnsweredDecisionForID_sql i)"
  "reads (ListAnsweredDecisionsForAgentSession_sql i)" "reads ListUnappliedDecisions_sql"
  "reads (ListUnappliedDecisionsForGoal_sql i)" "reads (ListUnappliedDecisionsForProject_sql i)"
  "reads (CountAppliedDecisions_sql i)" "reads (CountAppliedDecisionsForTask_sql i t)"
  "reads (ListAppliedDecisions_sql i n)" "reads (ListAppliedDecisionsForTask_sql i t n)"
  "reads (CountOpenDecisionsForTask_sql i)" "reads (CountOpenDecisionsForGoal_sql i)"
  "reads (CountApprovedGoalReviewsForGoal_sql i)" "reads (HasGoalReview_sql i)"
  "reads (GetOpenGoalReviewGoalID_sql i)" "reads (GetLatestGoalReviewID_sql i)"
  unfolding GetDecision_sql_def select_decisions_def ListOpenDecisions_sql_def
    ListDecisionsForGoal_sql_def ListAllOpenDecisions_sql_def ListExpiredDecisions_sql_def
    ListAnsweredDecisionForID_sql_def ListAnsweredDecisionsForAgentSession_sql_def
    ListUnappliedDecisions_sql_def ListUnappliedDecisionsForGoal_sql_def
    ListUnappliedDecisionsForProject_sql_def CountAppliedDecisions_sql_def
    CountAppliedDecisionsForTask_sql_def ListAppliedDecisions_sql_def
    ListAppliedDecisionsForTask_sql_def CountOpenDecisionsForTask_sql_def
    CountOpenDecisionsForGoal_sql_def CountApprovedGoalReviewsForGoal_sql_def HasGoalReview_sql_def
    GetOpenGoalReviewGoalID_sql_def GetLatestGoalReviewID_sql_def
  by (intro reads_intros; simp split: list.split; intro conjI allI impI reads_intros)+

end
