(* ===== verification/Atct_Goal_Row.thy ===== *)
theory Atct_Goal_Row
  imports Atct_Decision_Row
begin

text \<open>
  The rows of \<^verbatim>\<open>goals\<close>, \<^verbatim>\<open>next_goals\<close>,
  \<^verbatim>\<open>tasks\<close>, \<^verbatim>\<open>task_commits\<close>,
  \<^verbatim>\<open>plan_handoffs\<close> and \<^verbatim>\<open>task_create_handoffs\<close>, with the
  statements that read and write them and the orders they move their rows along.
\<close>

section \<open>Goals\<close>

text \<open>
  SQLite's \<^verbatim>\<open>trim\<close> removes spaces only, and its \<^verbatim>\<open>length\<close>
  counts characters up to the first NUL.
\<close>

definition sql_trim :: "string \<Rightarrow> string" where
  "sql_trim s = rev (dropWhile (\<lambda>c. c = CHR 0x20) (rev (dropWhile (\<lambda>c. c = CHR 0x20) s)))"

definition char_count_step :: "char \<times> string \<Rightarrow> string" where
  "char_count_step = (\<lambda>(c, s). if 192 \<le> (of_char c :: nat) then dropWhile (continuation 128 191) s else s)"

function char_count :: "string \<Rightarrow> nat" where
  "char_count [] = 0"
| "char_count (c # s) = Suc (char_count (char_count_step (c, s)))"
  by pat_completeness auto
termination
  by (relation "measure length") (auto simp: char_count_step_def less_Suc_eq_le length_dropWhile_le)

definition sql_length :: "string \<Rightarrow> nat" where
  "sql_length s = char_count (takeWhile (\<lambda>c. c \<noteq> CHR 0x00) s)"

definition report_column_ok :: "string \<Rightarrow> bool" where
  "report_column_ok v \<longleftrightarrow> 0 < sql_length (sql_trim v) \<and> sql_length v \<le> 2000"

definition goal_check :: "goal \<Rightarrow> bool" where
  "goal_check g \<longleftrightarrow> g_status g \<noteq> GoalDone \<or>
     report_column_ok (g_work_done g) \<and> report_column_ok (g_now_possible g)
   \<and> report_column_ok (g_how_to_verify g) \<and> report_column_ok (g_surprises g)
   \<and> report_column_ok (g_needs_review g)"

definition goal_row :: "int \<Rightarrow> store \<Rightarrow> goal option" where
  "goal_row i s = List.find (\<lambda>g. g_id g = i) (goals s)"

definition GetGoal_sql :: "int \<Rightarrow> goal store_op" where
  "GetGoal_sql i =
     bnd (ask (goal_row i)) (\<lambda>v. bnd (need NoRows v) (\<lambda>g.
       ret (g\<lparr>g_derived_from := nullable (nz (g_derived_from g))\<rparr>)))"

definition GetGoalProjectID_sql :: "int \<Rightarrow> int store_op" where
  "GetGoalProjectID_sql i =
     bnd (ask (goal_row i)) (\<lambda>v. bnd (need NoRows v) (\<lambda>g. ret (g_project_id g)))"

definition GetGoalStatus_sql :: "int \<Rightarrow> GoalStatus store_op" where
  "GetGoalStatus_sql i =
     bnd (ask (goal_row i)) (\<lambda>v. bnd (need NoRows v) (\<lambda>g. ret (g_status g)))"

definition CreateGoal_sql ::
  "int \<Rightarrow> int option \<Rightarrow> string \<Rightarrow> GoalStatus \<Rightarrow> string \<Rightarrow> time \<Rightarrow> time \<Rightarrow> int store_op" where
  "CreateGoal_sql project derived content status creator createdAt updatedAt =
     bnd (ask (\<lambda>s. next_id g_id (goals s))) (\<lambda>i.
     (let g = \<lparr>g_id = i, g_project_id = project, g_derived_from = derived, g_content = content,
               g_spec = [], g_plan = [], g_status = status, g_creator = creator,
               g_result_summary = [], g_work_done = [], g_now_possible = [], g_how_to_verify = [],
               g_surprises = [], g_needs_review = [], g_created_at = createdAt,
               g_updated_at = updatedAt\<rparr>
      in bnd (checked_insert
        (\<lambda>s. [(goal_check g, CheckConstraintFailed),
              (list_all (\<lambda>g. g_id g \<noteq> i) (goals s), UniqueConstraintFailed),
              (project_exists project s \<and> fk_ok goal_exists derived s, ForeignKeyConstraintFailed)])
        goals_update g) (\<lambda>_. ret i)))"

definition FinalizeGoalReview_sql :: "time \<Rightarrow> int \<Rightarrow> nat store_op" where
  "FinalizeGoalReview_sql now i =
     (let f = (\<lambda>g. g\<lparr>g_status := GoalDone, g_updated_at := now\<rparr>) in
      checked_update
        (\<lambda>s. [(list_all (\<lambda>g. g_id g = i \<and> g_status g = GoalActive \<longrightarrow> goal_check (f g)) (goals s),
               CheckConstraintFailed)])
        goals goals_update (\<lambda>g. g_id g = i \<and> g_status g = GoalActive) f)"

definition SetGoalDerivedFrom_sql :: "int option \<Rightarrow> time \<Rightarrow> int \<Rightarrow> nat store_op" where
  "SetGoalDerivedFrom_sql derived now i =
     checked_update
       (\<lambda>s. [(affected (\<lambda>g. g_id g = i) (goals s) = 0 \<or> fk_ok goal_exists derived s,
              ForeignKeyConstraintFailed)])
       goals goals_update (\<lambda>g. g_id g = i)
       (\<lambda>g. g\<lparr>g_derived_from := derived, g_updated_at := now\<rparr>)"

definition UpdateGoalCompletionReport_sql ::
  "string \<Rightarrow> completion_report \<Rightarrow> time \<Rightarrow> int \<Rightarrow> nat store_op" where
  "UpdateGoalCompletionReport_sql summary rep now i =
     exec_update goals goals_update (\<lambda>g. g_id g = i \<and> g_status g = GoalActive)
       (\<lambda>g. g\<lparr>g_result_summary := summary, g_work_done := WorkDone rep,
              g_now_possible := NowPossible rep, g_how_to_verify := HowToVerify rep,
              g_surprises := Surprises rep, g_needs_review := NeedsReview rep,
              g_updated_at := now\<rparr>)"

definition UpdateGoalRequestReport_sql :: "string \<Rightarrow> string \<Rightarrow> time \<Rightarrow> int \<Rightarrow> nat store_op" where
  "UpdateGoalRequestReport_sql spec plan now i =
     exec_update goals goals_update (\<lambda>g. g_id g = i)
       (\<lambda>g. g\<lparr>g_spec := spec, g_plan := plan, g_updated_at := now\<rparr>)"

definition WithdrawActiveGoal_sql :: "string \<Rightarrow> time \<Rightarrow> int \<Rightarrow> nat store_op" where
  "WithdrawActiveGoal_sql summary now i =
     exec_update goals goals_update (\<lambda>g. g_id g = i \<and> g_status g = GoalActive)
       (\<lambda>g. g\<lparr>g_status := GoalDropped, g_result_summary := summary, g_updated_at := now\<rparr>)"

definition ListAllGoals_sql :: "(goal list) store_op" where
  "ListAllGoals_sql =
     ask (\<lambda>s. order_by g_created_at (filter (\<lambda>g. \<not> project_archived (g_project_id g) s) (goals s)))"

definition ListGoals_sql :: "int \<Rightarrow> (goal list) store_op" where
  "ListGoals_sql project =
     ask (\<lambda>s. order_by g_created_at (filter (\<lambda>g. g_project_id g = project
                \<and> \<not> project_archived (g_project_id g) s) (goals s)))"

definition ListDerivedGoals_sql :: "int option \<Rightarrow> (goal list) store_op" where
  "ListDerivedGoals_sql derived =
     ask (\<lambda>s. order_by g_created_at
       (filter (\<lambda>g. derived \<noteq> None \<and> g_derived_from g = derived) (goals s)))"

definition DeleteNextGoals_sql :: "int \<Rightarrow> unit store_op" where
  "DeleteNextGoals_sql goal =
     change (next_goals_update (filter (\<lambda>n. ng_goal_id n \<noteq> goal)))"

definition InsertNextGoal_sql :: "int \<Rightarrow> int \<Rightarrow> time \<Rightarrow> unit store_op" where
  "InsertNextGoal_sql goal next now =
     checked_insert
       (\<lambda>s. [(goal \<noteq> next, CheckConstraintFailed),
             (list_all (\<lambda>n. \<not> (ng_goal_id n = goal \<and> ng_next_goal_id n = next)) (next_goals s),
              UniqueConstraintFailed),
             (goal_exists goal s \<and> goal_exists next s, ForeignKeyConstraintFailed)])
       next_goals_update \<lparr>ng_goal_id = goal, ng_next_goal_id = next, ng_created_at = now\<rparr>"

definition ListNextGoalIDs_sql :: "int \<Rightarrow> (int list) store_op" where
  "ListNextGoalIDs_sql goal =
     ask (\<lambda>s. map ng_next_goal_id
       (order_by ng_next_goal_id (filter (\<lambda>n. ng_goal_id n = goal) (next_goals s))))"

definition ListNextGoals_sql :: "int \<Rightarrow> (goal_summary list) store_op" where
  "ListNextGoals_sql goal =
     ask (\<lambda>s. concat (map (\<lambda>n. map (\<lambda>g. \<lparr>gs_id = g_id g, gs_headline = g_content g, gs_status = g_status g\<rparr>)
         (filter (\<lambda>g. g_id g = ng_next_goal_id n) (goals s)))
       (order_by ng_next_goal_id (filter (\<lambda>n. ng_goal_id n = goal) (next_goals s)))))"

subsection \<open>The life of a goal\<close>

inductive goal_status_step :: "GoalStatus \<Rightarrow> GoalStatus \<Rightarrow> bool" where
  finish: "goal_status_step GoalActive GoalDone"
| drop: "goal_status_step GoalActive GoalDropped"

text \<open>
  One goal later: same goal of the same project with the same text; a goal that is done or
  dropped stays so and keeps its report.
\<close>

definition goal_le :: "goal \<Rightarrow> goal \<Rightarrow> bool" where
  "goal_le g h \<longleftrightarrow>
     g_id h = g_id g \<and> g_project_id h = g_project_id g \<and> g_content h = g_content g
   \<and> g_creator h = g_creator g \<and> g_created_at h = g_created_at g
   \<and> (g_status h = g_status g \<or> goal_status_step (g_status g) (g_status h))
   \<and> (g_status g \<noteq> GoalActive \<longrightarrow>
        g_result_summary h = g_result_summary g \<and> g_work_done h = g_work_done g
      \<and> g_now_possible h = g_now_possible g \<and> g_how_to_verify h = g_how_to_verify g
      \<and> g_surprises h = g_surprises g \<and> g_needs_review h = g_needs_review g)
   \<and> (goal_check g \<longrightarrow> goal_check h)"

lemma goal_le_refl [simp]: "goal_le g g"
  by (simp add: goal_le_def)

lemma goal_le_trans: "goal_le f g \<Longrightarrow> goal_le g h \<Longrightarrow> goal_le f h"
  unfolding goal_le_def by (auto simp: goal_status_step.simps)

definition wf_goals :: "goal list \<Rightarrow> bool" where
  "wf_goals gs \<longleftrightarrow> distinct (map g_id gs) \<and> (\<forall>g\<in>set gs. 0 < g_id g \<and> goal_check g)"

definition goals_le :: "store \<Rightarrow> store \<Rightarrow> bool" where
  "goals_le s t \<longleftrightarrow> grows goal_le (goals s) (goals t) \<and> (wf_goals (goals s) \<longrightarrow> wf_goals (goals t))"

interpretation goals_le: state_order goals_le
  by unfold_locales (auto simp: goals_le_def intro: grows_refl grows_trans goal_le_trans)

lemma goals_le_cong: "goals t = goals s \<Longrightarrow> goals_le s t"
  by (auto simp: goals_le_def intro: grows_refl)

lemma goals_le_update:
  assumes le: "\<And>g. P g \<Longrightarrow> g \<in> set (goals s) \<Longrightarrow> goal_le g (f g)"
  shows "goals_le s (goals_update (update_where P f) s)"
proof -
  have grow: "grows goal_le (goals s) (update_where P f (goals s))"
  proof (rule grows_update)
    show "goal_le g g" for g by simp
    show "goal_le g (f g)" if "g \<in> set (goals s)" "P g" for g using that(2,1) by (rule le)
  qed
  have keeps: "g_id (f g) = g_id g \<and> (goal_check g \<longrightarrow> goal_check (f g))"
    if "P g" "g \<in> set (goals s)" for g
    using le [OF that] unfolding goal_le_def by blast
  have ids: "map g_id (update_where P f (goals s)) = map g_id (goals s)"
    unfolding update_where_def map_map by (rule map_cong) (use keeps in auto)
  have "\<forall>g\<in>set (update_where P f (goals s)). 0 < g_id g \<and> goal_check g"
    if "\<forall>g\<in>set (goals s). 0 < g_id g \<and> goal_check g"
    unfolding set_update_where using that keeps by fastforce
  then have "wf_goals (goals s) \<Longrightarrow> wf_goals (update_where P f (goals s))"
    unfolding wf_goals_def ids by blast
  with grow show ?thesis by (simp add: goals_le_def)
qed

lemma goal_check_cong:
  "g_status h = g_status g \<Longrightarrow> g_work_done h = g_work_done g \<Longrightarrow> g_now_possible h = g_now_possible g \<Longrightarrow>
   g_how_to_verify h = g_how_to_verify g \<Longrightarrow> g_surprises h = g_surprises g \<Longrightarrow>
   g_needs_review h = g_needs_review g \<Longrightarrow> goal_check h \<longleftrightarrow> goal_check g"
  by (simp add: goal_check_def)

lemma goal_queries_le:
  "evolves goals_le (FinalizeGoalReview_sql now i)"
  "evolves goals_le (SetGoalDerivedFrom_sql derived now i)"
  "evolves goals_le (UpdateGoalCompletionReport_sql summary rep now i)"
  "evolves goals_le (UpdateGoalRequestReport_sql spec plan now i)"
  "evolves goals_le (WithdrawActiveGoal_sql summary now i)"
proof -
  show "evolves goals_le (FinalizeGoalReview_sql now i)"
    unfolding FinalizeGoalReview_sql_def Let_def
    by (intro evolves_checked_update goals_le_update goals_le.refl)
      (auto simp: goal_le_def list_all_iff goal_status_step.simps)
  show "evolves goals_le (SetGoalDerivedFrom_sql derived now i)"
    unfolding SetGoalDerivedFrom_sql_def
    by (intro evolves_checked_update goals_le_update goals_le.refl)
      (auto simp: goal_le_def goal_check_def)
  show "evolves goals_le (UpdateGoalCompletionReport_sql summary rep now i)"
    "evolves goals_le (UpdateGoalRequestReport_sql spec plan now i)"
    "evolves goals_le (WithdrawActiveGoal_sql summary now i)"
    unfolding UpdateGoalCompletionReport_sql_def UpdateGoalRequestReport_sql_def
      WithdrawActiveGoal_sql_def
    by (intro evolves_exec_update goals_le_update;
        auto simp: goal_le_def goal_check_def goal_status_step.simps)+
qed

lemma create_goal_le:
  "evolves goals_le (CreateGoal_sql project derived content status creator c u)"
  by (auto simp: CreateGoal_sql_def Let_def evolves_def bnd_def ask_def checked_insert_def ret_def
      first_violated_None goals_le_def wf_goals_def next_id_pos list_all_iff image_iff
      intro: grows_refl grows_append split: option.splits)

lemma reads_goals [reads_intros]:
  "reads (GetGoal_sql i)" "reads (GetGoalProjectID_sql i)" "reads (GetGoalStatus_sql i)"
  "reads ListAllGoals_sql" "reads (ListGoals_sql i)" "reads (ListDerivedGoals_sql d)"
  "reads (ListNextGoalIDs_sql i)" "reads (ListNextGoals_sql i)"
  unfolding GetGoal_sql_def GetGoalProjectID_sql_def GetGoalStatus_sql_def ListAllGoals_sql_def
    ListGoals_sql_def ListDerivedGoals_sql_def ListNextGoalIDs_sql_def ListNextGoals_sql_def
  by (intro reads_intros)+

section \<open>Tasks\<close>

definition task_row :: "int \<Rightarrow> store \<Rightarrow> task option" where
  "task_row i s = List.find (\<lambda>t. t_id t = i) (tasks s)"

definition GetTaskGoalID_sql :: "int \<Rightarrow> int store_op" where
  "GetTaskGoalID_sql i =
     bnd (ask (task_row i)) (\<lambda>v. bnd (need NoRows v) (\<lambda>t. ret (t_goal_id t)))"

definition GetTaskProjectID_sql :: "int \<Rightarrow> int store_op" where
  "GetTaskProjectID_sql i =
     bnd (ask (task_row i)) (\<lambda>v. bnd (need NoRows v) (\<lambda>t.
     bnd (ask (goal_row (t_goal_id t))) (\<lambda>w. bnd (need NoRows w) (\<lambda>g. ret (g_project_id g)))))"

definition GetTaskForClaim_sql :: "int \<Rightarrow> (task \<times> GoalStatus) store_op" where
  "GetTaskForClaim_sql i =
     bnd (ask (task_row i)) (\<lambda>v. bnd (need NoRows v) (\<lambda>t.
     bnd (ask (goal_row (t_goal_id t))) (\<lambda>w. bnd (need NoRows w) (\<lambda>g. ret (t, g_status g)))))"

definition TaskExists_sql :: "int \<Rightarrow> int store_op" where
  "TaskExists_sql i = bnd (ask (task_row i)) (\<lambda>v. bnd (need NoRows v) (\<lambda>t. ret (t_id t)))"

definition MaxTaskSortOrder_sql :: "int \<Rightarrow> int store_op" where
  "MaxTaskSortOrder_sql goal =
     ask (\<lambda>s. foldr (\<lambda>t m. max (t_sort_order t) m)
       (filter (\<lambda>t. t_goal_id t = goal) (tasks s)) (- 1))"

text \<open>
  A declare key that the goal already has inserts nothing and returns the row that has it; the
  sort order has a unique index of its own.
\<close>

definition CreateTask_sql ::
  "int \<Rightarrow> string \<Rightarrow> string \<Rightarrow> TaskStatus \<Rightarrow> string \<Rightarrow> int \<Rightarrow> string \<Rightarrow> time option \<Rightarrow> time \<Rightarrow> time \<Rightarrow>
   int store_op" where
  "CreateTask_sql goal title description status agent sortOrder declareKey snoozed createdAt updatedAt =
     bnd (ask (\<lambda>s. List.find (\<lambda>t. t_goal_id t = goal \<and> t_declare_key t = declareKey) (tasks s)))
       (\<lambda>found. case found of
          Some t \<Rightarrow> ret (t_id t)
        | None \<Rightarrow>
            bnd (ask (\<lambda>s. next_id t_id (tasks s))) (\<lambda>i.
            bnd (checked_insert
              (\<lambda>s. [(list_all (\<lambda>t. t_id t \<noteq> i
                        \<and> \<not> (t_goal_id t = goal \<and> t_declare_key t = declareKey)
                        \<and> \<not> (t_goal_id t = goal \<and> t_sort_order t = sortOrder)) (tasks s),
                     UniqueConstraintFailed),
                    (goal_exists goal s, ForeignKeyConstraintFailed)])
              tasks_update
              \<lparr>t_id = i, t_goal_id = goal, t_title = title, t_description = description,
               t_status = status, t_agent = agent, t_sort_order = sortOrder,
               t_declare_key = declareKey, t_snoozed_until = snoozed, t_created_at = createdAt,
               t_updated_at = updatedAt\<rparr>) (\<lambda>_.
            ret i)))"

definition UpdateTaskStatus_sql :: "TaskStatus \<Rightarrow> time \<Rightarrow> int \<Rightarrow> nat store_op" where
  "UpdateTaskStatus_sql status now i =
     exec_update tasks tasks_update (\<lambda>t. t_id t = i)
       (\<lambda>t. t\<lparr>t_status := status, t_updated_at := now\<rparr>)"

definition ReleaseTask_sql :: "time \<Rightarrow> int \<Rightarrow> nat store_op" where
  "ReleaseTask_sql now i =
     exec_update tasks tasks_update (\<lambda>t. t_id t = i)
       (\<lambda>t. t\<lparr>t_status := TaskTodo, t_updated_at := now\<rparr>)"

definition UpdateTaskContent_sql :: "string option \<Rightarrow> string option \<Rightarrow> time \<Rightarrow> int \<Rightarrow> nat store_op" where
  "UpdateTaskContent_sql title description now i =
     exec_update tasks tasks_update (\<lambda>t. t_id t = i \<and> t_status t \<in> {TaskTodo, TaskDoing})
       (\<lambda>t. t\<lparr>t_title := (case title of None \<Rightarrow> t_title t | Some v \<Rightarrow> v),
              t_description := (case description of None \<Rightarrow> t_description t | Some v \<Rightarrow> v),
              t_updated_at := now\<rparr>)"

definition UpdateTaskSnooze_sql :: "time option \<Rightarrow> time \<Rightarrow> int \<Rightarrow> nat store_op" where
  "UpdateTaskSnooze_sql snoozed now i =
     exec_update tasks tasks_update (\<lambda>t. t_id t = i)
       (\<lambda>t. t\<lparr>t_snoozed_until := snoozed, t_updated_at := now\<rparr>)"

definition DropOpenTasksForGoal_sql :: "time \<Rightarrow> int \<Rightarrow> nat store_op" where
  "DropOpenTasksForGoal_sql now goal =
     exec_update tasks tasks_update (\<lambda>t. t_goal_id t = goal \<and> t_status t \<in> {TaskTodo, TaskDoing})
       (\<lambda>t. t\<lparr>t_status := TaskDropped, t_updated_at := now\<rparr>)"

definition ListTasks_sql :: "int \<Rightarrow> (task list) store_op" where
  "ListTasks_sql goal =
     ask (\<lambda>s. order_by (\<lambda>t. (t_sort_order t, t_id t)) (filter (\<lambda>t. t_goal_id t = goal) (tasks s)))"

definition ListTasksForAllGoals_sql :: "(task list) store_op" where
  "ListTasksForAllGoals_sql =
     ask (\<lambda>s. order_by (\<lambda>t. (t_goal_id t, t_sort_order t, t_id t)) (tasks s))"

definition ListOpenTaskHandoffs_sql :: "(handoff list) store_op" where
  "ListOpenTaskHandoffs_sql = ask (\<lambda>s. order_by h_id (filter handoff_open (task_handoffs s)))"

definition ListOpenTaskHandoffsForGoal_sql :: "int \<Rightarrow> (handoff list) store_op" where
  "ListOpenTaskHandoffsForGoal_sql goal =
     ask (\<lambda>s. order_by h_id (filter (\<lambda>h. handoff_open h
       \<and> list_ex (\<lambda>t. t_id t = h_owner h \<and> t_goal_id t = goal) (tasks s)) (task_handoffs s)))"

definition ListOpenGoalHandoffs_sql :: "(handoff list) store_op" where
  "ListOpenGoalHandoffs_sql = ask (\<lambda>s. order_by h_id (filter handoff_open (goal_handoffs s)))"

definition GoalHandoffEverReceivedBy_sql :: "int \<Rightarrow> int \<Rightarrow> bool store_op" where
  "GoalHandoffEverReceivedBy_sql goal session =
     ask (\<lambda>s. list_ex (\<lambda>h. h_owner h = goal \<and> h_received_by h = Some session) (goal_handoffs s))"

definition LinkTaskCommit_sql ::
  "int \<Rightarrow> string \<Rightarrow> string \<Rightarrow> int \<Rightarrow> int \<Rightarrow> int \<Rightarrow> time \<Rightarrow> unit store_op" where
  "LinkTaskCommit_sql task sha subject files ins dels now =
     bnd (ask (task_exists task)) (\<lambda>ok.
     bnd (check ok ForeignKeyConstraintFailed) (\<lambda>_.
     change (task_commits_update (\<lambda>cs.
       filter (\<lambda>c. \<not> (tc_task_id c = task \<and> tc_sha c = sha)) cs
       @ [\<lparr>tc_task_id = task, tc_sha = sha, tc_subject = subject, tc_files_changed = files,
           tc_insertions = ins, tc_deletions = dels, tc_created_at = now\<rparr>]))))"

definition ListTaskCommits_sql :: "int \<Rightarrow> (task_commit list) store_op" where
  "ListTaskCommits_sql task =
     ask (\<lambda>s. order_by tc_created_at (filter (\<lambda>c. tc_task_id c = task) (task_commits s)))"

text \<open>One task later: it belongs to the goal it was declared in, under its key and place.\<close>

definition task_le :: "task \<Rightarrow> task \<Rightarrow> bool" where
  "task_le t u \<longleftrightarrow>
     t_id u = t_id t \<and> t_goal_id u = t_goal_id t \<and> t_declare_key u = t_declare_key t
   \<and> t_sort_order u = t_sort_order t \<and> t_agent u = t_agent t \<and> t_created_at u = t_created_at t"

lemma task_le_refl [simp]: "task_le t t"
  by (simp add: task_le_def)

lemma task_le_trans: "task_le t u \<Longrightarrow> task_le u v \<Longrightarrow> task_le t v"
  by (simp add: task_le_def)

definition wf_tasks :: "task list \<Rightarrow> bool" where
  "wf_tasks ts \<longleftrightarrow> distinct (map t_id ts) \<and> distinct (map (\<lambda>t. (t_goal_id t, t_declare_key t)) ts)
     \<and> distinct (map (\<lambda>t. (t_goal_id t, t_sort_order t)) ts)"

definition tasks_le :: "store \<Rightarrow> store \<Rightarrow> bool" where
  "tasks_le s t \<longleftrightarrow> grows task_le (tasks s) (tasks t) \<and> (wf_tasks (tasks s) \<longrightarrow> wf_tasks (tasks t))"

interpretation tasks_le: state_order tasks_le
  by unfold_locales (auto simp: tasks_le_def intro: grows_refl grows_trans task_le_trans)

lemma tasks_le_cong: "tasks t = tasks s \<Longrightarrow> tasks_le s t"
  by (auto simp: tasks_le_def intro: grows_refl)

lemma tasks_le_update:
  assumes le: "\<And>t. task_le t (f t)"
  shows "tasks_le s (tasks_update (update_where P f) s)"
proof -
  have "grows task_le (tasks s) (update_where P f (tasks s))"
    by (intro grows_update task_le_refl le)
  moreover have "t_id (f t) = t_id t" "t_goal_id (f t) = t_goal_id t"
    "t_declare_key (f t) = t_declare_key t" "t_sort_order (f t) = t_sort_order t" for t
    using le [of t] by (simp_all add: task_le_def)
  ultimately show ?thesis by (simp add: tasks_le_def wf_tasks_def map_update_where)
qed

lemma task_queries_le:
  "evolves tasks_le (UpdateTaskStatus_sql status now i)"
  "evolves tasks_le (ReleaseTask_sql now i)"
  "evolves tasks_le (UpdateTaskContent_sql title desc now i)"
  "evolves tasks_le (UpdateTaskSnooze_sql snoozed now i)"
  "evolves tasks_le (DropOpenTasksForGoal_sql now goal)"
  unfolding UpdateTaskStatus_sql_def ReleaseTask_sql_def UpdateTaskContent_sql_def
    UpdateTaskSnooze_sql_def DropOpenTasksForGoal_sql_def
  by (intro evolves_exec_update tasks_le_update; simp add: task_le_def)+

lemma create_task_le:
  "evolves tasks_le (CreateTask_sql goal title desc status agent place key snoozed c u)"
  unfolding CreateTask_sql_def
  by (intro tasks_le.ev_rules evolves_checked_insert)
    (auto simp: tasks_le_def wf_tasks_def list_all_iff image_iff intro: grows_refl grows_append)

lemma reads_tasks [reads_intros]:
  "reads (GetTaskGoalID_sql i)" "reads (GetTaskProjectID_sql i)" "reads (GetTaskForClaim_sql i)"
  "reads (TaskExists_sql i)" "reads (MaxTaskSortOrder_sql g)" "reads (ListTasks_sql g)"
  "reads ListTasksForAllGoals_sql" "reads ListOpenTaskHandoffs_sql"
  "reads (ListOpenTaskHandoffsForGoal_sql g)" "reads ListOpenGoalHandoffs_sql"
  "reads (GoalHandoffEverReceivedBy_sql g i)" "reads (ListTaskCommits_sql i)"
  unfolding GetTaskGoalID_sql_def GetTaskProjectID_sql_def GetTaskForClaim_sql_def
    TaskExists_sql_def MaxTaskSortOrder_sql_def ListTasks_sql_def ListTasksForAllGoals_sql_def
    ListOpenTaskHandoffs_sql_def ListOpenTaskHandoffsForGoal_sql_def ListOpenGoalHandoffs_sql_def
    GoalHandoffEverReceivedBy_sql_def ListTaskCommits_sql_def
  by (intro reads_intros)+

end
