(* ===== verification/Atct_Plan_Row.thy ===== *)
theory Atct_Plan_Row
  imports Atct_Goal_Row
begin

text \<open>
  The rows of \<^verbatim>\<open>plan_handoffs\<close>, the review of a goal's plan, and of
  \<^verbatim>\<open>task_create_handoffs\<close>, the permission to declare tasks, with their
  statements in \<^verbatim>\<open>task.sql\<close> and the orders their rows move along.
\<close>

section \<open>Plan handoffs\<close>

definition plan_row :: "string \<Rightarrow> store \<Rightarrow> plan_handoff option" where
  "plan_row i s = List.find (\<lambda>p. pl_id p = i) (plan_handoffs s)"

definition GetPlanHandoff_sql :: "string \<Rightarrow> plan_handoff store_op" where
  "GetPlanHandoff_sql i = bnd (ask (plan_row i)) (need NoRows)"

definition ListPlanHandoffs_sql :: "int \<Rightarrow> (plan_handoff list) store_op" where
  "ListPlanHandoffs_sql goal =
     ask (\<lambda>s. order_by pl_id (filter (\<lambda>p. pl_goal_id p = goal) (plan_handoffs s)))"

definition plan_update ::
  "string \<Rightarrow> int \<Rightarrow> int option list \<Rightarrow> (plan_handoff \<Rightarrow> bool) \<Rightarrow> (plan_handoff \<Rightarrow> plan_handoff) \<Rightarrow> nat store_op"
where
  "plan_update hid goal refs guard f =
     (let P = (\<lambda>p. pl_id p = hid \<and> pl_goal_id p = goal \<and> guard p) in
      checked_update
        (\<lambda>s. [(affected P (plan_handoffs s) = 0 \<or> list_all (\<lambda>v. fk_ok session_exists v s) refs,
               ForeignKeyConstraintFailed)])
        plan_handoffs plan_handoffs_update P f)"

definition plan_request_row :: "int \<Rightarrow> time \<Rightarrow> string \<Rightarrow> plan_handoff \<Rightarrow> plan_handoff" where
  "plan_request_row by now report p =
     p\<lparr>pl_review_requested_by := Some by, pl_review_requested_at := Some now,
       pl_review_request_report := Some report, pl_review_received_by := None,
       pl_review_received_at := None, pl_review_rejected_at := None, pl_review_reject_report := None,
       pl_review_rejection_received_by := None, pl_review_rejection_received_at := None\<rparr>"

definition new_plan :: "string \<Rightarrow> int \<Rightarrow> int \<Rightarrow> time \<Rightarrow> string \<Rightarrow> plan_handoff" where
  "new_plan hid goal by now report =
     \<lparr>pl_id = hid, pl_goal_id = goal, pl_review_requested_by = Some by,
      pl_review_requested_at = Some now, pl_review_request_report = Some report,
      pl_review_received_by = None, pl_review_received_at = None, pl_review_rejected_at = None,
      pl_review_reject_report = None, pl_review_rejection_received_by = None,
      pl_review_rejection_received_at = None, pl_completed_report_at = None,
      pl_complete_report = None\<rparr>"

definition RequestPlanHandoffReview_sql :: "string \<Rightarrow> int \<Rightarrow> int \<Rightarrow> time \<Rightarrow> string \<Rightarrow> nat store_op" where
  "RequestPlanHandoffReview_sql hid goal by now report =
     bnd (ask (\<lambda>s. list_ex (\<lambda>p. pl_id p = hid) (plan_handoffs s))) (\<lambda>conflict.
     if conflict then
       plan_update hid goal [Some by]
         (\<lambda>p. pl_completed_report_at p = None \<and> pl_review_rejected_at p \<noteq> None
            \<and> pl_review_rejection_received_at p \<noteq> None)
         (plan_request_row by now report)
     else
       bnd (checked_insert
         (\<lambda>s. [(list_all (\<lambda>p. pl_id p \<noteq> hid) (plan_handoffs s), UniqueConstraintFailed),
               (list_all (\<lambda>p. \<not> (pl_goal_id p = goal \<and> pl_completed_report_at p = None))
                  (plan_handoffs s), UniqueConstraintFailed),
               (goal_exists goal s \<and> session_exists by s, ForeignKeyConstraintFailed)])
         plan_handoffs_update (new_plan hid goal by now report)) (\<lambda>_. ret 1))"

definition ReceivePlanHandoffReview_sql :: "string \<Rightarrow> int \<Rightarrow> int \<Rightarrow> time \<Rightarrow> nat store_op" where
  "ReceivePlanHandoffReview_sql hid goal by now =
     plan_update hid goal [Some by]
       (\<lambda>p. pl_review_requested_at p \<noteq> None \<and> pl_review_received_at p = None
          \<and> pl_review_rejected_at p = None \<and> pl_completed_report_at p = None)
       (\<lambda>p. p\<lparr>pl_review_received_by := Some by, pl_review_received_at := Some now\<rparr>)"

definition RejectPlanHandoffReview_sql :: "string \<Rightarrow> int \<Rightarrow> time \<Rightarrow> string \<Rightarrow> nat store_op" where
  "RejectPlanHandoffReview_sql hid goal now report =
     plan_update hid goal []
       (\<lambda>p. pl_review_received_at p \<noteq> None \<and> pl_completed_report_at p = None)
       (\<lambda>p. p\<lparr>pl_review_received_by := None, pl_review_received_at := None,
              pl_review_rejected_at := Some now, pl_review_reject_report := Some report\<rparr>)"

definition ReceivePlanHandoffReviewRejection_sql :: "string \<Rightarrow> int \<Rightarrow> int \<Rightarrow> time \<Rightarrow> nat store_op" where
  "ReceivePlanHandoffReviewRejection_sql hid goal by now =
     bnd (ask (\<lambda>s. list_ex (\<lambda>h. h_owner h = goal \<and> h_received_by h = Some by
                 \<and> h_received_at h \<noteq> None \<and> handoff_open h) (goal_handoffs s))) (\<lambda>holder.
     plan_update hid goal [Some by]
       (\<lambda>p. pl_review_rejected_at p \<noteq> None \<and> pl_review_rejection_received_at p = None
          \<and> (pl_review_requested_by p = Some by \<or> holder))
       (\<lambda>p. p\<lparr>pl_review_rejection_received_by := Some by,
              pl_review_rejection_received_at := Some now\<rparr>))"

definition CompletePlanHandoff_sql :: "string \<Rightarrow> int \<Rightarrow> int \<Rightarrow> time \<Rightarrow> string \<Rightarrow> nat store_op" where
  "CompletePlanHandoff_sql hid goal by now report =
     plan_update hid goal []
       (\<lambda>p. pl_review_received_by p = Some by \<and> pl_review_received_at p \<noteq> None
          \<and> pl_completed_report_at p = None)
       (\<lambda>p. p\<lparr>pl_completed_report_at := Some now, pl_complete_report := Some report\<rparr>)"

definition RecoverPlanHandoffReview_sql :: "string \<Rightarrow> int \<Rightarrow> int \<Rightarrow> int \<Rightarrow> string \<Rightarrow> nat store_op" where
  "RecoverPlanHandoffReview_sql hid goal i pid startedAt =
     bnd (ask (process_is i pid startedAt)) (\<lambda>proven.
     plan_update hid goal []
       (\<lambda>p. pl_review_received_by p = Some i \<and> pl_review_received_at p \<noteq> None \<and> proven
          \<and> pl_completed_report_at p = None)
       (\<lambda>p. p\<lparr>pl_review_received_by := None, pl_review_received_at := None\<rparr>))"

subsection \<open>The review cycle of a plan\<close>

datatype plan_phase = PlanAwaiting | PlanInReview | PlanRejected | PlanRework | PlanAccepted

inductive plan_step :: "plan_phase \<Rightarrow> plan_phase \<Rightarrow> bool" where
  take_plan: "plan_step PlanAwaiting PlanInReview"
| drop_plan: "plan_step PlanInReview PlanAwaiting"
| reject_plan: "plan_step PlanInReview PlanRejected"
| accept_plan_rejection: "plan_step PlanRejected PlanRework"
| resubmit_plan: "plan_step PlanRework PlanAwaiting"
| accept_plan: "plan_step PlanInReview PlanAccepted"

inductive_cases plan_stepE: "plan_step p q"

definition plan_phase :: "plan_handoff \<Rightarrow> plan_phase" where
  "plan_phase p =
     (if pl_completed_report_at p \<noteq> None then PlanAccepted
      else if pl_review_rejection_received_at p \<noteq> None then PlanRework
      else if pl_review_rejected_at p \<noteq> None then PlanRejected
      else if pl_review_received_at p \<noteq> None then PlanInReview
      else PlanAwaiting)"

definition wf_plan :: "plan_handoff \<Rightarrow> bool" where
  "wf_plan p \<longleftrightarrow>
     pl_review_requested_at p \<noteq> None
   \<and> (pl_review_received_at p \<noteq> None \<longrightarrow> pl_review_rejected_at p = None)
   \<and> (pl_review_received_by p \<noteq> None \<longleftrightarrow> pl_review_received_at p \<noteq> None)
   \<and> (pl_review_rejection_received_at p \<noteq> None \<longrightarrow> pl_review_rejected_at p \<noteq> None)
   \<and> (pl_completed_report_at p \<noteq> None \<longrightarrow> pl_review_received_at p \<noteq> None)"

definition plan_le :: "plan_handoff \<Rightarrow> plan_handoff \<Rightarrow> bool" where
  "plan_le p q \<longleftrightarrow>
     pl_id q = pl_id p \<and> pl_goal_id q = pl_goal_id p
   \<and> (wf_plan p \<longrightarrow> wf_plan q \<and> plan_step\<^sup>*\<^sup>* (plan_phase p) (plan_phase q)
        \<and> (pl_completed_report_at p \<noteq> None \<longrightarrow>
             pl_completed_report_at q = pl_completed_report_at p
           \<and> pl_complete_report q = pl_complete_report p))"

lemma plan_le_refl [simp]: "plan_le p p"
  by (simp add: plan_le_def)

lemma plan_le_trans: "plan_le p q \<Longrightarrow> plan_le q r \<Longrightarrow> plan_le p r"
  unfolding plan_le_def by (auto elim: rtranclp_trans)

lemma plan_leI:
  assumes "pl_id q = pl_id p" "pl_goal_id q = pl_goal_id p"
    and "wf_plan p \<Longrightarrow> wf_plan q"
    and "wf_plan p \<Longrightarrow> plan_phase q = plan_phase p \<or> plan_step (plan_phase p) (plan_phase q)"
    and "pl_completed_report_at p \<noteq> None \<Longrightarrow> wf_plan p \<Longrightarrow>
      pl_completed_report_at q = pl_completed_report_at p \<and> pl_complete_report q = pl_complete_report p"
  shows "plan_le p q"
  using assms unfolding plan_le_def by (metis r_into_rtranclp rtranclp.rtrancl_refl)

definition wf_plans :: "plan_handoff list \<Rightarrow> bool" where
  "wf_plans ps \<longleftrightarrow> distinct (map pl_id ps) \<and> (\<forall>p\<in>set ps. wf_plan p)"

definition plans_le :: "store \<Rightarrow> store \<Rightarrow> bool" where
  "plans_le s t \<longleftrightarrow> grows plan_le (plan_handoffs s) (plan_handoffs t)
     \<and> (wf_plans (plan_handoffs s) \<longrightarrow> wf_plans (plan_handoffs t))"

interpretation plans_le: state_order plans_le
  by unfold_locales (auto simp: plans_le_def intro: grows_refl grows_trans plan_le_trans)

lemma plans_le_cong: "plan_handoffs t = plan_handoffs s \<Longrightarrow> plans_le s t"
  by (auto simp: plans_le_def intro: grows_refl)

lemma plans_le_update:
  assumes le: "\<And>p. P p \<Longrightarrow> plan_le p (f p)"
  shows "plans_le s (plan_handoffs_update (update_where P f) s)"
proof -
  have grow: "grows plan_le (plan_handoffs s) (update_where P f (plan_handoffs s))"
    by (intro grows_update plan_le_refl le)
  have ids: "map pl_id (update_where P f (plan_handoffs s)) = map pl_id (plan_handoffs s)"
    using le by (intro map_update_where) (simp add: plan_le_def)
  have "wf_plan p \<Longrightarrow> P p \<Longrightarrow> wf_plan (f p)" for p
    using le [of p] by (simp add: plan_le_def)
  then have "wf_plans (plan_handoffs s) \<Longrightarrow> wf_plans (update_where P f (plan_handoffs s))"
    unfolding wf_plans_def ids set_update_where by auto
  with grow show ?thesis by (simp add: plans_le_def)
qed

lemma plan_update_le:
  "(\<And>p. guard p \<Longrightarrow> plan_le p (f p)) \<Longrightarrow> evolves plans_le (plan_update hid goal refs guard f)"
  unfolding plan_update_def Let_def
  by (intro evolves_checked_update plans_le_update plans_le.refl) auto

lemma plan_queries_le:
  "evolves plans_le (ReceivePlanHandoffReview_sql hid goal i now)"
  "evolves plans_le (RejectPlanHandoffReview_sql hid goal now report)"
  "evolves plans_le (ReceivePlanHandoffReviewRejection_sql hid goal i now)"
  "evolves plans_le (CompletePlanHandoff_sql hid goal i now report)"
  "evolves plans_le (RecoverPlanHandoffReview_sql hid goal i pid st)"
  unfolding ReceivePlanHandoffReview_sql_def RejectPlanHandoffReview_sql_def
    ReceivePlanHandoffReviewRejection_sql_def CompletePlanHandoff_sql_def RecoverPlanHandoffReview_sql_def
  by (intro plans_le.ev_rules plan_update_le plan_leI;
      auto simp: wf_plan_def plan_phase_def plan_step.simps)+

lemma plan_request_le: "evolves plans_le (RequestPlanHandoffReview_sql hid goal i now report)"
proof -
  have "evolves plans_le (checked_insert
      (\<lambda>s. [(list_all (\<lambda>p. pl_id p \<noteq> hid) (plan_handoffs s), e1), (A s, e2), (B s, e3)])
      plan_handoffs_update (new_plan hid goal i now report))" for A B and e1 e2 e3 :: error
    by (intro evolves_checked_insert plans_le.refl)
      (auto simp: plans_le_def wf_plans_def new_plan_def wf_plan_def list_all_iff image_iff
        intro: grows_append)
  moreover have "evolves plans_le (plan_update hid goal [Some i]
         (\<lambda>p. pl_completed_report_at p = None \<and> pl_review_rejected_at p \<noteq> None
            \<and> pl_review_rejection_received_at p \<noteq> None)
         (plan_request_row i now report))"
    by (intro plan_update_le plan_leI)
      (auto simp: plan_request_row_def wf_plan_def plan_phase_def plan_step.simps)
  ultimately show ?thesis
    unfolding RequestPlanHandoffReview_sql_def by (intro plans_le.ev_rules)
qed

section \<open>Task-create handoffs\<close>

definition create_open :: "task_create_handoff \<Rightarrow> bool" where
  "create_open c \<longleftrightarrow> c_completed_at c = None \<and> c_recovered_at c = None"

definition GetTaskCreateHandoff_sql :: "string \<Rightarrow> task_create_handoff store_op" where
  "GetTaskCreateHandoff_sql i =
     bnd (ask (\<lambda>s. List.find (\<lambda>c. c_id c = i) (task_create_handoffs s))) (need NoRows)"

definition GetTaskCreateHandoffForGoal_sql :: "int \<Rightarrow> task_create_handoff store_op" where
  "GetTaskCreateHandoffForGoal_sql goal =
     bnd (ask (\<lambda>s. rev (order_by (\<lambda>c. (create_open c, c_requested_at c, c_id c))
                     (filter (\<lambda>c. c_goal_id c = goal) (task_create_handoffs s)))))
       (\<lambda>cs. case cs of [] \<Rightarrow> fail NoRows | c # _ \<Rightarrow> ret c)"

definition ListTaskCreateHandoffs_sql :: "int \<Rightarrow> (task_create_handoff list) store_op" where
  "ListTaskCreateHandoffs_sql goal =
     ask (\<lambda>s. order_by (\<lambda>c. (c_requested_at c, c_id c))
       (filter (\<lambda>c. c_goal_id c = goal) (task_create_handoffs s)))"

definition CreateTaskCreateHandoff_sql :: "string \<Rightarrow> int \<Rightarrow> int \<Rightarrow> time \<Rightarrow> string \<Rightarrow> unit store_op" where
  "CreateTaskCreateHandoff_sql i goal by now report =
     checked_insert
       (\<lambda>s. [(list_all (\<lambda>c. c_id c \<noteq> i) (task_create_handoffs s), UniqueConstraintFailed),
             (list_all (\<lambda>c. \<not> (c_goal_id c = goal \<and> create_open c)) (task_create_handoffs s),
              UniqueConstraintFailed),
             (goal_exists goal s \<and> session_exists by s, ForeignKeyConstraintFailed)])
       task_create_handoffs_update
       \<lparr>c_id = i, c_goal_id = goal, c_requested_by = Some by, c_received_by = None,
        c_completed_by = None, c_requested_at = Some now, c_received_at = None,
        c_completed_at = None, c_request_report = Some report, c_complete_report = None,
        c_recovered_at = None, c_recovery_report = None\<rparr>"

definition create_update ::
  "int option list \<Rightarrow> (task_create_handoff \<Rightarrow> bool) \<Rightarrow> (task_create_handoff \<Rightarrow> task_create_handoff) \<Rightarrow>
   nat store_op" where
  "create_update refs P f =
     checked_update
       (\<lambda>s. [(affected P (task_create_handoffs s) = 0 \<or> list_all (\<lambda>v. fk_ok session_exists v s) refs,
              ForeignKeyConstraintFailed)])
       task_create_handoffs task_create_handoffs_update P f"

definition ReceiveTaskCreateHandoff_sql :: "string \<Rightarrow> int \<Rightarrow> time \<Rightarrow> nat store_op" where
  "ReceiveTaskCreateHandoff_sql i by now =
     create_update [Some by]
       (\<lambda>c. c_id c = i \<and> c_received_by c = None \<and> create_open c)
       (\<lambda>c. c\<lparr>c_received_by := Some by, c_received_at := Some now\<rparr>)"

definition CompleteTaskCreateHandoff_sql :: "string \<Rightarrow> int \<Rightarrow> time \<Rightarrow> string \<Rightarrow> nat store_op" where
  "CompleteTaskCreateHandoff_sql i by now report =
     create_update [Some by]
       (\<lambda>c. c_id c = i \<and> c_received_by c = Some by \<and> create_open c)
       (\<lambda>c. c\<lparr>c_completed_by := Some by, c_completed_at := Some now,
              c_complete_report := Some report\<rparr>)"

definition SupersedeOpenTaskCreateHandoff_sql :: "time \<Rightarrow> string \<Rightarrow> int \<Rightarrow> nat store_op" where
  "SupersedeOpenTaskCreateHandoff_sql now report goal =
     create_update []
       (\<lambda>c. c_goal_id c = goal \<and> c_received_by c = None \<and> create_open c)
       (\<lambda>c. c\<lparr>c_recovered_at := Some now, c_recovery_report := Some report\<rparr>)"

definition RecoverTaskCreateHandoffReceiver_sql ::
  "string \<Rightarrow> int \<Rightarrow> int \<Rightarrow> int \<Rightarrow> string \<Rightarrow> time \<Rightarrow> string \<Rightarrow> nat store_op" where
  "RecoverTaskCreateHandoffReceiver_sql hid goal i pid startedAt now report =
     bnd (ask (process_is i pid startedAt)) (\<lambda>proven.
     create_update []
       (\<lambda>c. c_id c = hid \<and> c_goal_id c = goal \<and> c_received_by c = Some i \<and> c_received_at c \<noteq> None
          \<and> create_open c \<and> proven)
       (\<lambda>c. c\<lparr>c_recovered_at := Some now, c_recovery_report := Some report\<rparr>))"

definition RecoverTaskCreateHandoffRequester_sql ::
  "string \<Rightarrow> int \<Rightarrow> int \<Rightarrow> int \<Rightarrow> string \<Rightarrow> time \<Rightarrow> string \<Rightarrow> nat store_op" where
  "RecoverTaskCreateHandoffRequester_sql hid goal i pid startedAt now report =
     bnd (ask (process_is i pid startedAt)) (\<lambda>proven.
     create_update []
       (\<lambda>c. c_id c = hid \<and> c_goal_id c = goal \<and> c_requested_by c = Some i \<and> c_received_by c = None
          \<and> create_open c \<and> proven)
       (\<lambda>c. c\<lparr>c_recovered_at := Some now, c_recovery_report := Some report\<rparr>))"

text \<open>A task-create handoff ends once: completed or recovered, never both, never again open.\<close>

definition create_le :: "task_create_handoff \<Rightarrow> task_create_handoff \<Rightarrow> bool" where
  "create_le c d \<longleftrightarrow>
     c_id d = c_id c \<and> c_goal_id d = c_goal_id c \<and> c_requested_by d = c_requested_by c
   \<and> (c_received_by c \<noteq> None \<longrightarrow> c_received_by d = c_received_by c)
   \<and> (\<not> create_open c \<longrightarrow> d = c)
   \<and> (c_completed_at c = None \<or> c_recovered_at c = None \<longrightarrow>
        c_completed_at d = None \<or> c_recovered_at d = None)"

lemma create_le_refl [simp]: "create_le c c"
  by (simp add: create_le_def)

lemma create_le_trans: "create_le c d \<Longrightarrow> create_le d e \<Longrightarrow> create_le c e"
  unfolding create_le_def by auto

definition creates_le :: "store \<Rightarrow> store \<Rightarrow> bool" where
  "creates_le s t \<longleftrightarrow> grows create_le (task_create_handoffs s) (task_create_handoffs t)"

interpretation creates_le: state_order creates_le
  by unfold_locales (auto simp: creates_le_def intro: grows_refl grows_trans create_le_trans)

lemma creates_le_cong: "task_create_handoffs t = task_create_handoffs s \<Longrightarrow> creates_le s t"
  by (auto simp: creates_le_def intro: grows_refl)

lemma create_update_le:
  "(\<And>c. P c \<Longrightarrow> create_le c (f c)) \<Longrightarrow> evolves creates_le (create_update refs P f)"
  unfolding create_update_def
  by (intro evolves_checked_update creates_le.refl) (auto simp: creates_le_def intro!: grows_update)

lemma create_queries_le:
  "evolves creates_le (ReceiveTaskCreateHandoff_sql i session now)"
  "evolves creates_le (CompleteTaskCreateHandoff_sql i session now report)"
  "evolves creates_le (SupersedeOpenTaskCreateHandoff_sql now report goal)"
  "evolves creates_le (RecoverTaskCreateHandoffReceiver_sql i goal session pid st now report)"
  "evolves creates_le (RecoverTaskCreateHandoffRequester_sql i goal session pid st now report)"
  unfolding ReceiveTaskCreateHandoff_sql_def CompleteTaskCreateHandoff_sql_def
    SupersedeOpenTaskCreateHandoff_sql_def RecoverTaskCreateHandoffReceiver_sql_def
    RecoverTaskCreateHandoffRequester_sql_def
  by (intro creates_le.ev_rules create_update_le; auto simp: create_le_def create_open_def)+

lemma create_insert_le: "evolves creates_le (CreateTaskCreateHandoff_sql i goal session now report)"
  unfolding CreateTaskCreateHandoff_sql_def
  by (intro evolves_checked_insert creates_le.refl) (auto simp: creates_le_def intro: grows_append)

lemma reads_plans [reads_intros]:
  "reads (GetPlanHandoff_sql i)" "reads (ListPlanHandoffs_sql g)" "reads (GetTaskCreateHandoff_sql i)"
  "reads (GetTaskCreateHandoffForGoal_sql g)" "reads (ListTaskCreateHandoffs_sql g)"
  unfolding GetPlanHandoff_sql_def ListPlanHandoffs_sql_def GetTaskCreateHandoff_sql_def
    GetTaskCreateHandoffForGoal_sql_def ListTaskCreateHandoffs_sql_def
  by (intro reads_intros; simp split: list.split; intro conjI allI impI reads_intros)+

end
