(* ===== verification/Atct_Order.thy ===== *)
theory Atct_Order
  imports Atct_Plan_Row
begin

text \<open>
  One order for the whole store. \<open>store_le s t\<close> says that \<open>t\<close> is a later state of the
  store \<open>s\<close>: the logs have only grown, every row of every table is still there and has moved
  along its life, and what the tables' constraints promise still holds. Each statement writes one
  table (the locale \<open>one_table\<close>), so its own order and the frame give \<open>store_le\<close>;
  \<open>le_queries\<close> collects the result for every statement, and an operation built from them
  is handled by the rules of the order alone.
\<close>

section \<open>Statements that write one table\<close>

locale one_table =
  fixes upd :: "('r list \<Rightarrow> 'r list) \<Rightarrow> store \<Rightarrow> store"
  assumes upd_id: "upd id s = s"
    and upd_upd: "upd f (upd g s) = upd (f \<circ> g) s"
begin

definition only :: "store \<Rightarrow> store \<Rightarrow> bool" where
  "only s t \<longleftrightarrow> (\<exists>f. t = upd f s)"

lemma only_upd: "only s (upd f s)"
  unfolding only_def by blast

lemma only_refl: "only s s"
  using only_upd [of s id] by (simp add: upd_id)

lemma only_trans: "only s t \<Longrightarrow> only t u \<Longrightarrow> only s u"
  unfolding only_def by (auto simp: upd_upd)

end

sublocale one_table < frame: state_order only
  by unfold_locales (rule only_refl, erule (1) only_trans)

context one_table
begin

lemma only_change: "evolves only (change (upd f))"
  by (rule evolves_change) (rule only_upd)

lemma only_exec_update: "evolves only (exec_update get upd P f)"
  by (rule evolves_exec_update) (rule only_upd)

lemma only_exec_insert: "evolves only (exec_insert upd r)"
  by (rule evolves_exec_insert) (rule only_upd)

lemma only_checked_update: "evolves only (checked_update cs get upd P f)"
  by (rule evolves_checked_update) (rule only_refl, rule only_upd)

lemma only_checked_insert: "evolves only (checked_insert cs upd r)"
  by (rule evolves_checked_insert) (rule only_refl, rule only_upd)

lemmas only_rules = only_change only_exec_update only_exec_insert only_checked_update
  only_checked_insert frame.ev_rules

end

interpretation projects_table: one_table projects_update
  by unfold_locales simp_all

interpretation sessions_table: one_table agent_sessions_update
  by unfold_locales simp_all

interpretation goals_table: one_table goals_update
  by unfold_locales simp_all

interpretation next_goals_table: one_table next_goals_update
  by unfold_locales simp_all

interpretation tasks_table: one_table tasks_update
  by unfold_locales simp_all

interpretation commits_table: one_table task_commits_update
  by unfold_locales simp_all

interpretation decisions_table: one_table decisions_update
  by unfold_locales simp_all

interpretation task_handoffs_table: one_table task_handoffs_update
  by unfold_locales simp_all

interpretation goal_handoffs_table: one_table goal_handoffs_update
  by unfold_locales simp_all

interpretation te_table: one_table task_handoff_entries_update
  by unfold_locales simp_all

interpretation ge_table: one_table goal_handoff_entries_update
  by unfold_locales simp_all

interpretation pe_table: one_table plan_handoff_entries_update
  by unfold_locales simp_all

interpretation plans_table: one_table plan_handoffs_update
  by unfold_locales simp_all

interpretation creates_table: one_table task_create_handoffs_update
  by unfold_locales simp_all

interpretation health_table: one_table monitor_health_rows_update
  by unfold_locales simp_all

interpretation bindings_table: one_table monitor_bindings_update
  by unfold_locales simp_all

section \<open>The order\<close>

text \<open>Projects, bindings and monitors have unique keys.\<close>

definition wf_registry :: "store \<Rightarrow> bool" where
  "wf_registry s \<longleftrightarrow>
     distinct (map p_id (projects s)) \<and> distinct (map p_name (projects s))
   \<and> distinct (map p_root_path (projects s)) \<and> distinct (map mb_token (monitor_bindings s))
   \<and> distinct (map mh_monitor_id (monitor_health_rows s))"

lemma wf_registry_cong:
  "projects t = projects s \<Longrightarrow> monitor_bindings t = monitor_bindings s \<Longrightarrow>
     monitor_health_rows t = monitor_health_rows s \<Longrightarrow> wf_registry t \<longleftrightarrow> wf_registry s"
  by (simp add: wf_registry_def)

definition store_le :: "store \<Rightarrow> store \<Rightarrow> bool" where
  "store_le s t \<longleftrightarrow>
     logs_extend s t \<and> task_handoff.le s t \<and> goal_handoff.le s t \<and> decisions_le s t \<and> goals_le s t
   \<and> tasks_le s t \<and> plans_le s t \<and> creates_le s t \<and> keeps wf_sessions s t
   \<and> keeps wf_registry s t"

interpretation store_le: state_order store_le
  unfolding store_le_def
  by unfold_locales
    (auto intro: logs_extend.refl task_handoff.tables.refl goal_handoff.tables.refl decisions_le.refl
      goals_le.refl tasks_le.refl plans_le.refl creates_le.refl keeps.refl
      logs_extend.trans task_handoff.tables.trans goal_handoff.tables.trans decisions_le.trans
      goals_le.trans tasks_le.trans plans_le.trans creates_le.trans keeps.trans)

lemma handoff_le_cong:
  "task_handoffs t = task_handoffs s \<Longrightarrow> task_handoff.le s t"
  "goal_handoffs t = goal_handoffs s \<Longrightarrow> goal_handoff.le s t"
  by (simp_all add: task_handoff.le_def goal_handoff.le_def)

lemma keeps_sessions_cong: "agent_sessions t = agent_sessions s \<Longrightarrow> keeps wf_sessions s t"
  by (simp add: keeps_def wf_sessions_def)

lemma keeps_registry_cong:
  "projects t = projects s \<Longrightarrow> monitor_bindings t = monitor_bindings s \<Longrightarrow>
     monitor_health_rows t = monitor_health_rows s \<Longrightarrow> keeps wf_registry s t"
  by (simp add: keeps_def wf_registry_def)

lemmas store_le_congs = logs_extend_cong handoff_le_cong decisions_le_cong goals_le_cong tasks_le_cong
  plans_le_cong creates_le_cong keeps_sessions_cong keeps_registry_cong

lemma same_tables_le: "same_tables s t \<Longrightarrow> store_le s t"
  unfolding store_le_def by (simp add: store_le_congs same_tables_fields)

lemma le_publish:
  "evolves store_le (notify_publish i)" "evolves store_le notify_publishAll"
  "evolves store_le (publishEvent e)" "evolves store_le (publishWorkflowEvents evs)"
  by (rule evolves_publish, erule same_tables_le)+

text \<open>The frame of each table.\<close>

lemma frame_le:
  "projects_table.only s t \<Longrightarrow> keeps wf_registry s t \<Longrightarrow> store_le s t"
  "next_goals_table.only s t \<Longrightarrow> store_le s t"
  "commits_table.only s t \<Longrightarrow> store_le s t"
  "health_table.only s t \<Longrightarrow> keeps wf_registry s t \<Longrightarrow> store_le s t"
  "bindings_table.only s t \<Longrightarrow> keeps wf_registry s t \<Longrightarrow> store_le s t"
  "sessions_table.only s t \<Longrightarrow> keeps wf_sessions s t \<Longrightarrow> store_le s t"
  "goals_table.only s t \<Longrightarrow> goals_le s t \<Longrightarrow> store_le s t"
  "tasks_table.only s t \<Longrightarrow> tasks_le s t \<Longrightarrow> store_le s t"
  "decisions_table.only s t \<Longrightarrow> decisions_le s t \<Longrightarrow> store_le s t"
  "task_handoffs_table.only s t \<Longrightarrow> task_handoff.le s t \<Longrightarrow> store_le s t"
  "goal_handoffs_table.only s t \<Longrightarrow> goal_handoff.le s t \<Longrightarrow> store_le s t"
  "plans_table.only s t \<Longrightarrow> plans_le s t \<Longrightarrow> store_le s t"
  "creates_table.only s t \<Longrightarrow> creates_le s t \<Longrightarrow> store_le s t"
  "te_table.only s t \<Longrightarrow> logs_extend s t \<Longrightarrow> store_le s t"
  "ge_table.only s t \<Longrightarrow> logs_extend s t \<Longrightarrow> store_le s t"
  "pe_table.only s t \<Longrightarrow> logs_extend s t \<Longrightarrow> store_le s t"
  unfolding store_le_def projects_table.only_def next_goals_table.only_def commits_table.only_def health_table.only_def bindings_table.only_def sessions_table.only_def goals_table.only_def tasks_table.only_def decisions_table.only_def task_handoffs_table.only_def goal_handoffs_table.only_def plans_table.only_def creates_table.only_def te_table.only_def ge_table.only_def pe_table.only_def
  by (elim exE; simp add: store_le_congs)+

lemma projects_table_le:
  "evolves projects_table.only m \<Longrightarrow> evolves (keeps wf_registry) m \<Longrightarrow> evolves store_le m"
  unfolding evolves_def by (blast intro: frame_le)

lemma next_goals_table_le:
  "evolves next_goals_table.only m \<Longrightarrow> evolves store_le m"
  unfolding evolves_def by (blast intro: frame_le)

lemma commits_table_le:
  "evolves commits_table.only m \<Longrightarrow> evolves store_le m"
  unfolding evolves_def by (blast intro: frame_le)

lemma monitors_table_le:
  "evolves health_table.only m \<Longrightarrow> evolves (keeps wf_registry) m \<Longrightarrow> evolves store_le m"
  "evolves bindings_table.only m \<Longrightarrow> evolves (keeps wf_registry) m \<Longrightarrow> evolves store_le m"
  unfolding evolves_def by (blast intro: frame_le)+

lemma sessions_table_le:
  "evolves sessions_table.only m \<Longrightarrow> evolves (keeps wf_sessions) m \<Longrightarrow> evolves store_le m"
  unfolding evolves_def by (blast intro: frame_le)

lemma goals_table_le:
  "evolves goals_table.only m \<Longrightarrow> evolves goals_le m \<Longrightarrow> evolves store_le m"
  unfolding evolves_def by (blast intro: frame_le)

lemma tasks_table_le:
  "evolves tasks_table.only m \<Longrightarrow> evolves tasks_le m \<Longrightarrow> evolves store_le m"
  unfolding evolves_def by (blast intro: frame_le)

lemma decisions_table_le:
  "evolves decisions_table.only m \<Longrightarrow> evolves decisions_le m \<Longrightarrow> evolves store_le m"
  unfolding evolves_def by (blast intro: frame_le)

lemma task_handoffs_table_le:
  "evolves task_handoffs_table.only m \<Longrightarrow> evolves task_handoff.le m \<Longrightarrow> evolves store_le m"
  unfolding evolves_def by (blast intro: frame_le)

lemma goal_handoffs_table_le:
  "evolves goal_handoffs_table.only m \<Longrightarrow> evolves goal_handoff.le m \<Longrightarrow> evolves store_le m"
  unfolding evolves_def by (blast intro: frame_le)

lemma plans_table_le:
  "evolves plans_table.only m \<Longrightarrow> evolves plans_le m \<Longrightarrow> evolves store_le m"
  unfolding evolves_def by (blast intro: frame_le)

lemma creates_table_le:
  "evolves creates_table.only m \<Longrightarrow> evolves creates_le m \<Longrightarrow> evolves store_le m"
  unfolding evolves_def by (blast intro: frame_le)

lemma te_table_le:
  "evolves te_table.only m \<Longrightarrow> evolves logs_extend m \<Longrightarrow> evolves store_le m"
  unfolding evolves_def by (blast intro: frame_le)

lemma ge_table_le:
  "evolves ge_table.only m \<Longrightarrow> evolves logs_extend m \<Longrightarrow> evolves store_le m"
  unfolding evolves_def by (blast intro: frame_le)

lemma pe_table_le:
  "evolves pe_table.only m \<Longrightarrow> evolves logs_extend m \<Longrightarrow> evolves store_le m"
  unfolding evolves_def by (blast intro: frame_le)

section \<open>Every statement moves the store forward\<close>

named_theorems le_queries "statements and operations that move the store forward"

lemma sessions_only:
  "evolves sessions_table.only (HeartbeatAgentSession_sql now i)"
  "evolves sessions_table.only (RenewAgentSessionLease_sql now i threshold)"
  "evolves sessions_table.only (UpdateAgentSessionProcessIdentity_sql pid st now i)"
  "evolves sessions_table.only (UpdateAgentSessionProject_sql pr i)"
  "evolves sessions_table.only (EnableDevelopmentMode_sql i)"
  "evolves sessions_table.only (RegisterAgentSessionWithProject_sql pr pid st now)"
  unfolding HeartbeatAgentSession_sql_def
    RenewAgentSessionLease_sql_def
    UpdateAgentSessionProcessIdentity_sql_def
    UpdateAgentSessionProject_sql_def
    EnableDevelopmentMode_sql_def
    RegisterAgentSessionWithProject_sql_def 
  by (intro sessions_table.only_rules)+

lemma sessions_statements_le [le_queries]:
  "evolves store_le (HeartbeatAgentSession_sql now i)"
  "evolves store_le (RenewAgentSessionLease_sql now i threshold)"
  "evolves store_le (UpdateAgentSessionProcessIdentity_sql pid st now i)"
  "evolves store_le (UpdateAgentSessionProject_sql pr i)"
  "evolves store_le (EnableDevelopmentMode_sql i)"
  "evolves store_le (RegisterAgentSessionWithProject_sql pr pid st now)"
  by (intro sessions_table_le sessions_only wf_sessions_queries)+

lemma goals_only:
  "evolves goals_table.only (CreateGoal_sql project derived content gstatus creator now updated)"
  "evolves goals_table.only (FinalizeGoalReview_sql now i)"
  "evolves goals_table.only (SetGoalDerivedFrom_sql derived now i)"
  "evolves goals_table.only (UpdateGoalCompletionReport_sql summary rep now i)"
  "evolves goals_table.only (UpdateGoalRequestReport_sql spec plan now i)"
  "evolves goals_table.only (WithdrawActiveGoal_sql summary now i)"
  unfolding CreateGoal_sql_def
    FinalizeGoalReview_sql_def
    SetGoalDerivedFrom_sql_def
    UpdateGoalCompletionReport_sql_def
    UpdateGoalRequestReport_sql_def
    WithdrawActiveGoal_sql_def Let_def
  by (intro goals_table.only_rules)+

lemma goals_statements_le [le_queries]:
  "evolves store_le (CreateGoal_sql project derived content gstatus creator now updated)"
  "evolves store_le (FinalizeGoalReview_sql now i)"
  "evolves store_le (SetGoalDerivedFrom_sql derived now i)"
  "evolves store_le (UpdateGoalCompletionReport_sql summary rep now i)"
  "evolves store_le (UpdateGoalRequestReport_sql spec plan now i)"
  "evolves store_le (WithdrawActiveGoal_sql summary now i)"
  by (intro goals_table_le goals_only goal_queries_le create_goal_le)+

lemma tasks_only:
  "evolves tasks_table.only (CreateTask_sql goal title desc tstatus agent place key snoozed now updated)"
  "evolves tasks_table.only (UpdateTaskStatus_sql tstatus now i)"
  "evolves tasks_table.only (ReleaseTask_sql now i)"
  "evolves tasks_table.only (UpdateTaskContent_sql otitle odesc now i)"
  "evolves tasks_table.only (UpdateTaskSnooze_sql snoozed now i)"
  "evolves tasks_table.only (DropOpenTasksForGoal_sql now goal)"
  unfolding CreateTask_sql_def
    UpdateTaskStatus_sql_def
    ReleaseTask_sql_def
    UpdateTaskContent_sql_def
    UpdateTaskSnooze_sql_def
    DropOpenTasksForGoal_sql_def 
  by (intro tasks_table.only_rules)+

lemma tasks_statements_le [le_queries]:
  "evolves store_le (CreateTask_sql goal title desc tstatus agent place key snoozed now updated)"
  "evolves store_le (UpdateTaskStatus_sql tstatus now i)"
  "evolves store_le (ReleaseTask_sql now i)"
  "evolves store_le (UpdateTaskContent_sql otitle odesc now i)"
  "evolves store_le (UpdateTaskSnooze_sql snoozed now i)"
  "evolves store_le (DropOpenTasksForGoal_sql now goal)"
  by (intro tasks_table_le tasks_only task_queries_le create_task_le)+

lemma decisions_only:
  "evolves decisions_table.only (CreateDecision_sql goal task kind q opts def after session now)"
  "evolves decisions_table.only (AnswerDecision_sql label txt now src i)"
  "evolves decisions_table.only (ApproveGoalReviewDecision_sql now src i)"
  "evolves decisions_table.only (RejectGoalReviewDecision_sql txt now src i)"
  "evolves decisions_table.only (ApplyDecisionDefault_sql label now i)"
  "evolves decisions_table.only (MarkDecisionApplied_sql now i)"
  "evolves decisions_table.only (WithdrawDecision_sql label i)"
  "evolves decisions_table.only (ReassignGoalDecisionsToReceiver_sql receiver goal)"
  unfolding CreateDecision_sql_def
    AnswerDecision_sql_def
    ApproveGoalReviewDecision_sql_def
    RejectGoalReviewDecision_sql_def
    ApplyDecisionDefault_sql_def
    MarkDecisionApplied_sql_def
    WithdrawDecision_sql_def
    ReassignGoalDecisionsToReceiver_sql_def answer_update_def
  by (intro decisions_table.only_rules)+

lemma decisions_statements_le [le_queries]:
  "evolves store_le (CreateDecision_sql goal task kind q opts def after session now)"
  "evolves store_le (AnswerDecision_sql label txt now src i)"
  "evolves store_le (ApproveGoalReviewDecision_sql now src i)"
  "evolves store_le (RejectGoalReviewDecision_sql txt now src i)"
  "evolves store_le (ApplyDecisionDefault_sql label now i)"
  "evolves store_le (MarkDecisionApplied_sql now i)"
  "evolves store_le (WithdrawDecision_sql label i)"
  "evolves store_le (ReassignGoalDecisionsToReceiver_sql receiver goal)"
  by (intro decisions_table_le decisions_only decision_queries_le create_decision_le reassign_le)+

lemma task_handoffs_only:
  "evolves task_handoffs_table.only (CompleteTaskHandoff_sql hid owner now report)"
  "evolves task_handoffs_table.only (CompleteTaskHandoffByReviewer_sql hid owner oi now r)"
  "evolves task_handoffs_table.only (AmendTaskHandoffReport_sql hid owner r)"
  "evolves task_handoffs_table.only (ReceiveTaskHandoff_sql hid owner oi now cutoff)"
  "evolves task_handoffs_table.only (RequestTaskHandoffReview_sql hid owner i now r)"
  "evolves task_handoffs_table.only (ReceiveTaskHandoffReview_sql hid owner i now)"
  "evolves task_handoffs_table.only (RejectTaskHandoffReview_sql hid owner now r)"
  "evolves task_handoffs_table.only (ReceiveTaskHandoffReviewRejection_sql hid owner i now)"
  "evolves task_handoffs_table.only (RecoverTaskHandoffRequester_sql hid owner i pid st now r)"
  "evolves task_handoffs_table.only (RecoverTaskHandoffReceiver_sql hid owner i pid st now r)"
  "evolves task_handoffs_table.only (RecoverTaskHandoffReview_sql hid owner i pid st)"
  "evolves task_handoffs_table.only (RequestTaskHandoff_sql hid owner oi now report)"
  unfolding CompleteTaskHandoff_sql_def
    CompleteTaskHandoffByReviewer_sql_def
    AmendTaskHandoffReport_sql_def
    ReceiveTaskHandoff_sql_def
    RequestTaskHandoffReview_sql_def
    ReceiveTaskHandoffReview_sql_def
    RejectTaskHandoffReview_sql_def
    ReceiveTaskHandoffReviewRejection_sql_def
    RecoverTaskHandoffRequester_sql_def
    RecoverTaskHandoffReceiver_sql_def
    RecoverTaskHandoffReview_sql_def
    RequestTaskHandoff_sql_def update_handoff_def request_handoff_def Let_def
  by (intro task_handoffs_table.only_rules)+

lemma task_handoffs_statements_le [le_queries]:
  "evolves store_le (CompleteTaskHandoff_sql hid owner now report)"
  "evolves store_le (CompleteTaskHandoffByReviewer_sql hid owner oi now r)"
  "evolves store_le (AmendTaskHandoffReport_sql hid owner r)"
  "evolves store_le (ReceiveTaskHandoff_sql hid owner oi now cutoff)"
  "evolves store_le (RequestTaskHandoffReview_sql hid owner i now r)"
  "evolves store_le (ReceiveTaskHandoffReview_sql hid owner i now)"
  "evolves store_le (RejectTaskHandoffReview_sql hid owner now r)"
  "evolves store_le (ReceiveTaskHandoffReviewRejection_sql hid owner i now)"
  "evolves store_le (RecoverTaskHandoffRequester_sql hid owner i pid st now r)"
  "evolves store_le (RecoverTaskHandoffReceiver_sql hid owner i pid st now r)"
  "evolves store_le (RecoverTaskHandoffReview_sql hid owner i pid st)"
  "evolves store_le (RequestTaskHandoff_sql hid owner oi now report)"
  by (intro task_handoffs_table_le task_handoffs_only task_handoff_queries_le)+

lemma goal_handoffs_only:
  "evolves goal_handoffs_table.only (CompleteGoalHandoff_sql hid owner now report)"
  "evolves goal_handoffs_table.only (CompleteGoalHandoffByReviewer_sql hid owner oi now r)"
  "evolves goal_handoffs_table.only (AmendGoalHandoffReport_sql hid owner r)"
  "evolves goal_handoffs_table.only (ReceiveGoalHandoff_sql hid owner oi now cutoff)"
  "evolves goal_handoffs_table.only (RequestGoalHandoffReview_sql hid owner i now r)"
  "evolves goal_handoffs_table.only (ReceiveGoalHandoffReview_sql hid owner i now)"
  "evolves goal_handoffs_table.only (RejectGoalHandoffReview_sql hid owner now r)"
  "evolves goal_handoffs_table.only (ReceiveGoalHandoffReviewRejection_sql hid owner i now)"
  "evolves goal_handoffs_table.only (RecoverGoalHandoffRequester_sql hid owner i pid st now r)"
  "evolves goal_handoffs_table.only (RecoverGoalHandoffReceiver_sql hid owner i pid st now r)"
  "evolves goal_handoffs_table.only (RecoverGoalHandoffReview_sql hid owner i pid st)"
  "evolves goal_handoffs_table.only (RequestGoalHandoff_sql hid owner oi now report)"
  "evolves goal_handoffs_table.only (ReReceiveGoalHandoffReview_sql hid owner i old now)"
  unfolding CompleteGoalHandoff_sql_def
    CompleteGoalHandoffByReviewer_sql_def
    AmendGoalHandoffReport_sql_def
    ReceiveGoalHandoff_sql_def
    RequestGoalHandoffReview_sql_def
    ReceiveGoalHandoffReview_sql_def
    RejectGoalHandoffReview_sql_def
    ReceiveGoalHandoffReviewRejection_sql_def
    RecoverGoalHandoffRequester_sql_def
    RecoverGoalHandoffReceiver_sql_def
    RecoverGoalHandoffReview_sql_def
    RequestGoalHandoff_sql_def
    ReReceiveGoalHandoffReview_sql_def update_handoff_def request_handoff_def Let_def
  by (intro goal_handoffs_table.only_rules)+

lemma goal_handoffs_statements_le [le_queries]:
  "evolves store_le (CompleteGoalHandoff_sql hid owner now report)"
  "evolves store_le (CompleteGoalHandoffByReviewer_sql hid owner oi now r)"
  "evolves store_le (AmendGoalHandoffReport_sql hid owner r)"
  "evolves store_le (ReceiveGoalHandoff_sql hid owner oi now cutoff)"
  "evolves store_le (RequestGoalHandoffReview_sql hid owner i now r)"
  "evolves store_le (ReceiveGoalHandoffReview_sql hid owner i now)"
  "evolves store_le (RejectGoalHandoffReview_sql hid owner now r)"
  "evolves store_le (ReceiveGoalHandoffReviewRejection_sql hid owner i now)"
  "evolves store_le (RecoverGoalHandoffRequester_sql hid owner i pid st now r)"
  "evolves store_le (RecoverGoalHandoffReceiver_sql hid owner i pid st now r)"
  "evolves store_le (RecoverGoalHandoffReview_sql hid owner i pid st)"
  "evolves store_le (RequestGoalHandoff_sql hid owner oi now report)"
  "evolves store_le (ReReceiveGoalHandoffReview_sql hid owner i old now)"
  by (intro goal_handoffs_table_le goal_handoffs_only goal_handoff_queries_le)+

lemma plans_only:
  "evolves plans_table.only (RequestPlanHandoffReview_sql hid goal i now r)"
  "evolves plans_table.only (ReceivePlanHandoffReview_sql hid goal i now)"
  "evolves plans_table.only (RejectPlanHandoffReview_sql hid goal now r)"
  "evolves plans_table.only (ReceivePlanHandoffReviewRejection_sql hid goal i now)"
  "evolves plans_table.only (CompletePlanHandoff_sql hid goal i now r)"
  "evolves plans_table.only (RecoverPlanHandoffReview_sql hid goal i pid st)"
  unfolding RequestPlanHandoffReview_sql_def
    ReceivePlanHandoffReview_sql_def
    RejectPlanHandoffReview_sql_def
    ReceivePlanHandoffReviewRejection_sql_def
    CompletePlanHandoff_sql_def
    RecoverPlanHandoffReview_sql_def plan_update_def Let_def
  by (intro plans_table.only_rules)+

lemma plans_statements_le [le_queries]:
  "evolves store_le (RequestPlanHandoffReview_sql hid goal i now r)"
  "evolves store_le (ReceivePlanHandoffReview_sql hid goal i now)"
  "evolves store_le (RejectPlanHandoffReview_sql hid goal now r)"
  "evolves store_le (ReceivePlanHandoffReviewRejection_sql hid goal i now)"
  "evolves store_le (CompletePlanHandoff_sql hid goal i now r)"
  "evolves store_le (RecoverPlanHandoffReview_sql hid goal i pid st)"
  by (intro plans_table_le plans_only plan_queries_le plan_request_le)+

lemma creates_only:
  "evolves creates_table.only (CreateTaskCreateHandoff_sql hid goal i now r)"
  "evolves creates_table.only (ReceiveTaskCreateHandoff_sql hid i now)"
  "evolves creates_table.only (CompleteTaskCreateHandoff_sql hid i now r)"
  "evolves creates_table.only (SupersedeOpenTaskCreateHandoff_sql now r goal)"
  "evolves creates_table.only (RecoverTaskCreateHandoffReceiver_sql hid goal i pid st now r)"
  "evolves creates_table.only (RecoverTaskCreateHandoffRequester_sql hid goal i pid st now r)"
  unfolding CreateTaskCreateHandoff_sql_def
    ReceiveTaskCreateHandoff_sql_def
    CompleteTaskCreateHandoff_sql_def
    SupersedeOpenTaskCreateHandoff_sql_def
    RecoverTaskCreateHandoffReceiver_sql_def
    RecoverTaskCreateHandoffRequester_sql_def create_update_def
  by (intro creates_table.only_rules)+

lemma creates_statements_le [le_queries]:
  "evolves store_le (CreateTaskCreateHandoff_sql hid goal i now r)"
  "evolves store_le (ReceiveTaskCreateHandoff_sql hid i now)"
  "evolves store_le (CompleteTaskCreateHandoff_sql hid i now r)"
  "evolves store_le (SupersedeOpenTaskCreateHandoff_sql now r goal)"
  "evolves store_le (RecoverTaskCreateHandoffReceiver_sql hid goal i pid st now r)"
  "evolves store_le (RecoverTaskCreateHandoffRequester_sql hid goal i pid st now r)"
  by (intro creates_table_le creates_only create_queries_le create_insert_le)+

lemma next_goals_only:
  "evolves next_goals_table.only (DeleteNextGoals_sql goal)"
  "evolves next_goals_table.only (InsertNextGoal_sql goal nxt now)"
  unfolding DeleteNextGoals_sql_def
    InsertNextGoal_sql_def 
  by (intro next_goals_table.only_rules)+

lemma next_goals_statements_le [le_queries]:
  "evolves store_le (DeleteNextGoals_sql goal)"
  "evolves store_le (InsertNextGoal_sql goal nxt now)"
  by (intro next_goals_table_le next_goals_only )+

lemma commits_only:
  "evolves commits_table.only (LinkTaskCommit_sql i sha subj files ins dels now)"
  unfolding LinkTaskCommit_sql_def 
  by (intro commits_table.only_rules)+

lemma commits_statements_le [le_queries]:
  "evolves store_le (LinkTaskCommit_sql i sha subj files ins dels now)"
  by (intro commits_table_le commits_only )+

lemma entry_only:
  "evolves te_table.only (CreateTaskHandoffEntry_sql hid kind body author reply now)"
  "evolves ge_table.only (CreateGoalHandoffEntry_sql hid kind body author reply now)"
  "evolves pe_table.only (CreatePlanHandoffEntry_sql hid kind body author now)"
  unfolding CreateTaskHandoffEntry_sql_def CreateGoalHandoffEntry_sql_def
    CreatePlanHandoffEntry_sql_def insert_entry_def Let_def
  by (intro te_table.only_rules ge_table.only_rules pe_table.only_rules)+

lemma entry_statements_le [le_queries]:
  "evolves store_le (CreateTaskHandoffEntry_sql hid kind body author reply now)"
  "evolves store_le (CreateGoalHandoffEntry_sql hid kind body author reply now)"
  "evolves store_le (CreatePlanHandoffEntry_sql hid kind body author now)"
  by (intro te_table_le ge_table_le pe_table_le entry_only insert_entry_logs)+

lemma append_le [le_queries]:
  "evolves store_le (appendHandoffEntryTx table hid kind body author rel allow now)"
  "evolves store_le (appendPlanHandoffEntryTx hid kind body author now)"
  unfolding appendHandoffEntryTx_def appendPlanHandoffEntryTx_def
  by (intro store_le.ev_rules le_queries store_le.ev_reads reads_intros)+

lemma Append_le [le_queries]:
  "evolves store_le (AppendTaskHandoffEntry hid kind body author rel now)"
  "evolves store_le (AppendGoalHandoffEntry hid kind body author rel now)"
  unfolding AppendTaskHandoffEntry_def AppendGoalHandoffEntry_def
  by (intro store_le.ev_rules le_queries store_le.ev_reads reads_intros)+

text \<open>Retention deletes sessions and erases them as authors.\<close>

lemma delete_sessions_le: "store_le s (delete_sessions P s)"
proof -
  have "wf_sessions s \<Longrightarrow> wf_sessions (delete_sessions P s)"
    by (rule wf_sessions_filter) simp_all
  moreover have "wf_registry s \<Longrightarrow> wf_registry (delete_sessions P s)"
    by (simp add: wf_registry_def delete_sessions_def Let_def distinct_filter_key)
  ultimately show ?thesis
    unfolding store_le_def
    by (auto simp: delete_sessions_logs keeps_def)
      (simp_all add: store_le_congs delete_sessions_def Let_def)
qed

lemma delete_expired_le [le_queries]:
  "evolves store_le (DeleteExpiredAgentSessionsExcept_sql i before)"
  unfolding DeleteExpiredAgentSessionsExcept_sql_def by (intro evolves_change delete_sessions_le)

lemma register_le [le_queries]: "evolves store_le (RegisterAgentSessionInProject pid st pr now)"
  unfolding RegisterAgentSessionInProject_def
  by (intro store_le.ev_rules le_queries)

lemma associate_le [le_queries]: "evolves store_le (AssociateAgentSessionWithProject i pr now)"
  unfolding AssociateAgentSessionWithProject_def requireAgentSessionID_def
  by (intro store_le.ev_rules le_queries)

lemma heartbeat_le [le_queries]: "evolves store_le (HeartbeatAgentSession i now)"
  unfolding HeartbeatAgentSession_def requireAgentSessionID_def
  by (intro store_le.ev_rules le_queries)

lemma development_mode_le [le_queries]: "evolves store_le (EnableDevelopmentMode i)"
  unfolding EnableDevelopmentMode_def
  by (intro store_le.ev_rules le_queries store_le.ev_reads reads_intros)

lemma identify_le [le_queries]: "evolves store_le (IdentifyAgentSession i key pid st now)"
proof (rule sessions_table_le)
  show "evolves sessions_table.only (IdentifyAgentSession i key pid st now)"
    unfolding IdentifyAgentSession_def Let_def requireAgentSessionID_def UpdateAgentSessionKey_sql_def
      UpdateAgentSessionProcessIdentity_sql_def
    by (intro sessions_table.only_rules sessions_table.frame.ev_reads reads_intros)
qed (rule identify_wf)

lemmas le_rules = store_le.ev_rules le_publish

end
