(* ===== verification/Atct_Decision.thy ===== *)
theory Atct_Decision
  imports Atct_Order "HOL-Library.Word"
begin

text \<open>
  Decisions (\<^verbatim>\<open>internal/store/decision.go\<close>): an agent asks, a human answers or
  the default settles the question after its delay, the agent collects the answer. Each operation
  is the Go function of the same name; \<open>now\<close> is the instant it reads from the clock. Timestamps
  are written with whole seconds (\<open>rfc3339\<close>).
\<close>

section \<open>Reading a row\<close>

text \<open>
  \<^verbatim>\<open>domain.Decision\<close> is the row without the prompt; its task id is 0 for NULL, which
  is \<open>None\<close> here.
\<close>

definition decisionFromRow :: "decision \<Rightarrow> decision" where
  "decisionFromRow row =
     row\<lparr>d_task_id := nullable (nz (d_task_id row)), d_answer_prompt_id := []\<rparr>"

definition workflowDecisionEvent :: "string \<Rightarrow> decision \<Rightarrow> event" where
  "workflowDecisionEvent name row = WorkflowDecisionEvent name (decisionFromRow row)"

definition convertDecisionRows :: "(decision list) store_op \<Rightarrow> (decision list) store_op" where
  "convertDecisionRows q = bnd q (\<lambda>rows. ret (map decisionFromRow rows))"

definition GetDecision :: "int \<Rightarrow> decision store_op" where
  "GetDecision i =
     bnd (map_error (\<lambda>e. if e = NoRows then DecisionE ErrDecisionNotFound else e)
           (GetDecision_sql i)) (\<lambda>row. ret (decisionFromRow row))"

definition ListOpenDecisions :: "int \<Rightarrow> (decision list) store_op" where
  "ListOpenDecisions goal = convertDecisionRows (ListOpenDecisions_sql goal)"

definition ListDecisionsForGoal :: "int \<Rightarrow> (decision list) store_op" where
  "ListDecisionsForGoal goal = convertDecisionRows (ListDecisionsForGoal_sql goal)"

definition ListAllOpenDecisions :: "(decision list) store_op" where
  "ListAllOpenDecisions = convertDecisionRows ListAllOpenDecisions_sql"

definition ListUnappliedDecisions :: "(decision list) store_op" where
  "ListUnappliedDecisions = convertDecisionRows ListUnappliedDecisions_sql"

definition ListUnappliedDecisionsForProject :: "int \<Rightarrow> (decision list) store_op" where
  "ListUnappliedDecisionsForProject project =
     convertDecisionRows (ListUnappliedDecisionsForProject_sql project)"

definition ListUnappliedDecisionsForGoal :: "int \<Rightarrow> (decision list) store_op" where
  "ListUnappliedDecisionsForGoal goal = convertDecisionRows (ListUnappliedDecisionsForGoal_sql goal)"

definition AppliedDecisionHistoryLimit :: nat where
  "AppliedDecisionHistoryLimit = 20"

definition ListAppliedDecisions :: "int \<Rightarrow> (decision list \<times> int) store_op" where
  "ListAppliedDecisions goal =
     bnd (CountAppliedDecisions_sql goal) (\<lambda>total.
     bnd (ListAppliedDecisions_sql goal AppliedDecisionHistoryLimit) (\<lambda>rows.
     (let out = map decisionFromRow rows; omitted = int total - int (length out)
      in ret (out, if omitted < 0 then 0 else omitted))))"

definition ListAppliedDecisionsForTask :: "int \<Rightarrow> int \<Rightarrow> (decision list \<times> int) store_op" where
  "ListAppliedDecisionsForTask goal task =
     bnd (CountAppliedDecisionsForTask_sql goal task) (\<lambda>total.
     bnd (ListAppliedDecisionsForTask_sql goal task AppliedDecisionHistoryLimit) (\<lambda>rows.
     (let out = map decisionFromRow rows; omitted = int total - int (length out)
      in ret (out, if omitted < 0 then 0 else omitted))))"

section \<open>Asking\<close>

record AskInput =
  ask_GoalID :: int
  ask_TaskID :: int
  ask_Kind :: DecisionKind
  ask_Question :: string
  ask_Options :: "decision_option list"
  ask_DefaultOption :: string
  ask_DefaultAfterMs :: "int option"
  ask_AgentSessionID :: int

definition validateDecisionDefault ::
  "decision_option list \<Rightarrow> string \<Rightarrow> int option \<Rightarrow> unit store_op" where
  "validateDecisionDefault options defaultOption defaultAfterMs =
     (if defaultOption = [] \<and> defaultAfterMs = None then ret ()
      else if defaultOption = [] then fail (DecisionE ErrInvalidDecisionDefault)
      else if (case defaultAfterMs of None \<Rightarrow> False | Some after \<Rightarrow> after < 0)
        then fail (DecisionE ErrInvalidDecisionDefault)
      else if list_ex (\<lambda>opt. o_label opt = defaultOption) options then ret ()
      else fail (DecisionE ErrInvalidDecisionDefault))"

definition AskDecision :: "AskInput \<Rightarrow> time \<Rightarrow> decision store_op" where
  "AskDecision inp now =
     bnd (validateDecisionDefault (ask_Options inp) (ask_DefaultOption inp) (ask_DefaultAfterMs inp)) (\<lambda>_.
     bnd (transaction
       (bnd (CreateDecision_sql (ask_GoalID inp) (nullable (ask_TaskID inp)) (ask_Kind inp)
               (ask_Question inp) (ask_Options inp) (ask_DefaultOption inp) (ask_DefaultAfterMs inp)
               (ask_AgentSessionID inp) (rfc3339 now)) (\<lambda>i.
        ret \<lparr>d_id = i, d_goal_id = ask_GoalID inp, d_task_id = nullable (ask_TaskID inp),
             d_kind = ask_Kind inp, d_question = ask_Question inp, d_options = ask_Options inp,
             d_status = DecisionOpen, d_default_option = ask_DefaultOption inp,
             d_default_after_ms = ask_DefaultAfterMs inp, d_default_applied_at = None,
             d_answer_label = [], d_answer_text = [], d_answered_at = None, d_applied_at = None,
             d_agent_session_id = ask_AgentSessionID inp, d_created_at = now, d_answered_via = [],
             d_answer_quote = [], d_answer_evidence = [], d_answer_prompt_id = []\<rparr>))) (\<lambda>d.
     bnd (notify_publish (d_id d)) (\<lambda>_.
     bnd notify_publishAll (\<lambda>_.
     bnd (publishWorkflowEvents [WorkflowDecisionEvent ''decision.created'' d]) (\<lambda>_.
     ret d)))))"

section \<open>Answering\<close>

record AnswerInput =
  DecisionID :: int
  AnswerLabel :: string
  AnswerText :: string

definition no_source :: AnswerSource where
  "no_source = \<lparr>Via = [], Quote = [], Evidence = [], PromptID = []\<rparr>"

definition answerWriteError :: "error \<Rightarrow> error" where
  "answerWriteError e = (if e = UniqueConstraintFailed then DecisionE ErrAnswerPromptReused else e)"

definition answerDecision :: "AnswerInput \<Rightarrow> AnswerSource \<Rightarrow> string \<Rightarrow> time \<Rightarrow> decision store_op" where
  "answerDecision inp src eventName now =
     bnd (transaction
       (bnd (map_error answerWriteError
               (AnswerDecision_sql (AnswerLabel inp) (AnswerText inp) (rfc3339 now) src
                 (DecisionID inp))) (\<lambda>n.
        bnd (check (n \<noteq> 0) (DecisionE ErrDecisionNotOpen)) (\<lambda>_.
        GetDecision_sql (DecisionID inp))))) (\<lambda>row.
     bnd (notify_publish (DecisionID inp)) (\<lambda>_.
     bnd notify_publishAll (\<lambda>_.
     bnd (publishWorkflowEvents [workflowDecisionEvent eventName row]) (\<lambda>_.
     ret (decisionFromRow row)))))"

definition AnswerDecisionWith :: "AnswerInput \<Rightarrow> AnswerSource \<Rightarrow> time \<Rightarrow> decision store_op" where
  "AnswerDecisionWith inp src now = answerDecision inp src ''decision.answered'' now"

definition AnswerDecision :: "AnswerInput \<Rightarrow> time \<Rightarrow> decision store_op" where
  "AnswerDecision inp now = AnswerDecisionWith inp no_source now"

section \<open>Defaults\<close>

text \<open>
  \<^verbatim>\<open>time.Duration(ms) * time.Millisecond\<close> is an int64 product: it wraps around.
\<close>

definition Duration_of_ms :: "int \<Rightarrow> int" where
  "Duration_of_ms ms = sint (word_of_int ms * 1000000 :: 64 word)"

definition default_expired :: "time \<Rightarrow> decision \<Rightarrow> bool" where
  "default_expired now d =
     (case d_default_after_ms d of None \<Rightarrow> False
      | Some ms \<Rightarrow> \<not> now < d_created_at d + Duration_of_ms ms)"

definition settled :: "time \<Rightarrow> time \<Rightarrow> decision \<Rightarrow> decision" where
  "settled answeredAt appliedAt d =
     d\<lparr>d_status := DecisionAnswered, d_answer_label := d_default_option d,
       d_answered_at := Some answeredAt, d_default_applied_at := Some appliedAt\<rparr>"

fun apply_defaults :: "time \<Rightarrow> decision list \<Rightarrow> (decision list) store_op" where
  "apply_defaults now [] = ret []"
| "apply_defaults now (d # ds) =
     bnd (ApplyDecisionDefault_sql (d_default_option d) (rfc3339 now) (d_id d)) (\<lambda>updated.
     bnd (apply_defaults now ds) (\<lambda>rest.
     ret (if updated = 0 then rest else settled now now d # rest)))"

definition ApplyExpiredDefaults :: "time \<Rightarrow> nat store_op" where
  "ApplyExpiredDefaults now =
     bnd (transaction
       (bnd (convertDecisionRows ListExpiredDecisions_sql) (\<lambda>allCandidates.
        apply_defaults now (filter (default_expired now) allCandidates)))) (\<lambda>settledDecisions.
     bnd (each (\<lambda>d. notify_publish (d_id d)) settledDecisions) (\<lambda>_.
     bnd (publishWorkflowEvents (map (WorkflowDecisionEvent ''decision.answered'') settledDecisions)) (\<lambda>_.
     bnd (if 0 < length settledDecisions then notify_publishAll else ret ()) (\<lambda>_.
     ret (length settledDecisions)))))"

section \<open>Withdrawing and collecting\<close>

definition withdrawDecisionWith :: "int \<Rightarrow> string \<Rightarrow> unit store_op" where
  "withdrawDecisionWith i reason =
     bnd (WithdrawDecision_sql reason i) (\<lambda>n. check (n \<noteq> 0) (DecisionE ErrDecisionNotOpen))"

definition WithdrawDecision :: "int \<Rightarrow> string \<Rightarrow> unit store_op" where
  "WithdrawDecision i reason =
     bnd (transaction
       (bnd (withdrawDecisionWith i reason) (\<lambda>_. GetDecision_sql i))) (\<lambda>row.
     bnd (notify_publish i) (\<lambda>_.
     bnd notify_publishAll (\<lambda>_.
     publishWorkflowEvents [workflowDecisionEvent ''decision.withdrawn'' row])))"

definition delivered :: "time \<Rightarrow> decision \<Rightarrow> decision" where
  "delivered appliedAt d = d\<lparr>d_status := DecisionApplied, d_applied_at := Some appliedAt\<rparr>"

definition PollDecisions :: "int \<Rightarrow> int \<Rightarrow> time \<Rightarrow> (decision list) store_op" where
  "PollDecisions agentSessionID decisionID now =
     bnd (transaction
       (bnd (convertDecisionRows
               (if decisionID = 0 then ListAnsweredDecisionsForAgentSession_sql agentSessionID
                else ListAnsweredDecisionForID_sql decisionID)) (\<lambda>out.
        bnd (each (\<lambda>d. bnd (MarkDecisionApplied_sql (rfc3339 now) (d_id d)) (\<lambda>_. ret ())) out) (\<lambda>_.
        ret (map (delivered now) out))))) (\<lambda>out.
     bnd (each (\<lambda>d. notify_publish (d_id d)) out) (\<lambda>_.
     bnd (publishWorkflowEvents (map (WorkflowDecisionEvent ''decision.applied'') out)) (\<lambda>_.
     bnd (if 0 < length out then notify_publishAll else ret ()) (\<lambda>_.
     ret out))))"

section \<open>Every operation moves the store forward\<close>

lemma reads_decision_ops [reads_intros]:
  "reads q \<Longrightarrow> reads (convertDecisionRows q)"
  "reads (validateDecisionDefault options label after)"
  by (auto simp: convertDecisionRows_def validateDecisionDefault_def intro!: reads_intros)

lemma apply_defaults_le [le_queries]: "evolves store_le (apply_defaults now ds)"
  by (induction now ds rule: apply_defaults.induct)
    (simp_all only: apply_defaults.simps,
      (rule le_rules le_queries | assumption | rule store_le.ev_reads, rule reads_intros)+)

lemma withdrawDecisionWith_le [le_queries]: "evolves store_le (withdrawDecisionWith i reason)"
  unfolding withdrawDecisionWith_def by (intro le_rules le_queries)

lemma decision_ops_le [le_queries]:
  "evolves store_le (AskDecision inp now)"
  "evolves store_le (answerDecision ans src name now)"
  "evolves store_le (ApplyExpiredDefaults now)"
  "evolves store_le (WithdrawDecision i reason)"
  "evolves store_le (PollDecisions session i now)"
  unfolding AskDecision_def answerDecision_def ApplyExpiredDefaults_def WithdrawDecision_def
    PollDecisions_def
  by (rule le_rules le_queries reads_intros | rule store_le.ev_reads, rule reads_intros)+

section \<open>What settling and delivering do\<close>

lemma decision_row_in: "decision_row i s = Some d \<Longrightarrow> d_id d = i \<and> d \<in> set (decisions s)"
  by (auto simp: decision_row_def dest: find_Some_in)

lemma decision_row_unique:
  "wf_decisions (decisions s) \<Longrightarrow> d \<in> set (decisions s) \<Longrightarrow> decision_row (d_id d) s = Some d"
  by (auto simp: decision_row_def wf_decisions_def dest: find_key_unique)

lemma decision_row_later:
  assumes "decisions_le s t" and "decision_row i s = Some d"
  shows "\<exists>e. decision_row i t = Some e \<and> decision_le d e"
  using assms unfolding decision_row_def decisions_le_def
  by (elim conjE) (erule (1) grows_find [where k = d_id, rotated 2], simp only: decision_le_def)

lemma decisionFromRow_simps [simp]:
  "d_id (decisionFromRow d) = d_id d" "d_status (decisionFromRow d) = d_status d"
  "d_default_option (decisionFromRow d) = d_default_option d"
  "default_expired now (decisionFromRow d) = default_expired now d"
  "d_answer_label (decisionFromRow d) = d_answer_label d"
  by (simp_all add: decisionFromRow_def default_expired_def split: option.split)

lemma settled_simps [simp]:
  "d_id (settled a b d) = d_id d" "d_status (settled a b d) = DecisionAnswered"
  "d_default_option (settled a b d) = d_default_option d"
  by (simp_all add: settled_def)

lemma delivered_simps [simp]:
  "d_id (delivered a d) = d_id d" "d_status (delivered a d) = DecisionApplied"
  by (simp_all add: delivered_def)

text \<open>The loop of \<open>PollDecisions\<close> is one UPDATE over the collected ids.\<close>

lemma mark_all_run:
  "each (\<lambda>d. bnd (MarkDecisionApplied_sql a (d_id d)) (\<lambda>_. ret ())) ds s =
     (Inr (), decisions_update (update_where
        (\<lambda>d. d_id d \<in> d_id ` set ds \<and> d_status d = DecisionAnswered) (delivered a)) s)"
proof (induction ds arbitrary: s)
  case Nil
  have "update_where (\<lambda>d. False) (delivered a) rows = rows" for rows
    by (simp add: update_where_none)
  then show ?case by (simp add: ret_def)
next
  case (Cons c ds)
  have "update_where (\<lambda>d. d_id d \<in> d_id ` set ds \<and> d_status d = DecisionAnswered) (delivered a)
        (update_where (\<lambda>d. d_id d = d_id c \<and> d_status d = DecisionAnswered) (delivered a) rows)
      = update_where (\<lambda>d. d_id d \<in> d_id ` set (c # ds) \<and> d_status d = DecisionAnswered) (delivered a) rows"
    for rows
    by (subst update_where_twice) (auto intro: update_where_cong)
  then show ?case
    using Cons.IH by (simp add: bnd_def MarkDecisionApplied_sql_def exec_update_def ret_def
        delivered_def [abs_def] comp_def)
qed

text \<open>
  The loop of \<open>ApplyExpiredDefaults\<close> is one UPDATE too, as long as the candidates carry the
  default of their row.
\<close>

lemma apply_defaults_run:
  assumes "distinct (map d_id cs)"
    and "\<forall>c\<in>set cs. \<exists>d\<in>set (decisions s). d_id d = d_id c \<and> d_status d = DecisionOpen"
    and "\<forall>c\<in>set cs. \<forall>d\<in>set (decisions s). d_id d = d_id c \<longrightarrow> d_default_option d = d_default_option c"
  shows "apply_defaults now cs s =
     (Inr (map (settled now now) cs), decisions_update (update_where
        (\<lambda>d. d_id d \<in> d_id ` set cs \<and> d_status d = DecisionOpen)
        (settled (rfc3339 now) (rfc3339 now))) s)"
  using assms
proof (induction cs arbitrary: s)
  case Nil
  have "update_where (\<lambda>d. False) f rows = rows" for rows and f :: "decision \<Rightarrow> decision"
    by (simp add: update_where_none)
  then show ?case by (simp add: ret_def)
next
  case (Cons c cs)
  let ?f = "settled (rfc3339 now) (rfc3339 now)"
  let ?P = "\<lambda>d. d_id d = d_id c \<and> d_status d = DecisionOpen"
  let ?u = "decisions_update (update_where ?P ?f) s"
  have pos: "affected ?P (decisions s) \<noteq> 0"
    using Cons.prems(2) by (auto simp: affected_0)
  have same: "update_where ?P (\<lambda>d. d\<lparr>d_status := DecisionAnswered,
        d_answer_label := d_default_option c, d_answered_at := Some (rfc3339 now),
        d_default_applied_at := Some (rfc3339 now)\<rparr>) (decisions s)
      = update_where ?P ?f (decisions s)"
    using Cons.prems(3) by (intro update_where_cong) (auto simp: settled_def)
  have step: "ApplyDecisionDefault_sql (d_default_option c) (rfc3339 now) (d_id c) s
      = (Inr (affected ?P (decisions s)), ?u)"
    using same by (simp add: ApplyDecisionDefault_sql_def exec_update_def)
  have "apply_defaults now cs ?u = (Inr (map (settled now now) cs), decisions_update (update_where
        (\<lambda>d. d_id d \<in> d_id ` set cs \<and> d_status d = DecisionOpen) ?f) ?u)"
  proof (rule Cons.IH)
    show "distinct (map d_id cs)" using Cons.prems(1) by simp
    show "\<forall>c\<in>set cs. \<exists>d\<in>set (decisions ?u). d_id d = d_id c \<and> d_status d = DecisionOpen"
    proof
      fix b assume b: "b \<in> set cs"
      then obtain d where "d \<in> set (decisions s)" "d_id d = d_id b" "d_status d = DecisionOpen"
        using Cons.prems(2) by auto
      moreover have "d_id b \<noteq> d_id c" using b Cons.prems(1) by (auto simp: image_iff)
      ultimately show "\<exists>d\<in>set (decisions ?u). d_id d = d_id b \<and> d_status d = DecisionOpen"
        by (auto simp: set_update_where intro!: rev_bexI [of d])
    qed
    show "\<forall>c\<in>set cs. \<forall>d\<in>set (decisions ?u). d_id d = d_id c \<longrightarrow> d_default_option d = d_default_option c"
      using Cons.prems(3) by (auto simp: set_update_where)
  qed
  moreover have "update_where (\<lambda>d. d_id d \<in> d_id ` set cs \<and> d_status d = DecisionOpen) ?f
        (update_where ?P ?f rows)
      = update_where (\<lambda>d. d_id d \<in> d_id ` set (c # cs) \<and> d_status d = DecisionOpen) ?f rows" for rows
    by (subst update_where_twice) (auto intro: update_where_cong)
  ultimately show ?case
    using step pos by (simp add: bnd_def ret_def comp_def)
qed

definition default_due :: "store \<Rightarrow> time \<Rightarrow> decision \<Rightarrow> bool" where
  "default_due s now d \<longleftrightarrow>
     d_status d = DecisionOpen \<and> d_default_after_ms d \<noteq> None \<and> d_default_option d \<noteq> []
   \<and> goal_visible s (d_goal_id d) \<and> default_expired now d"

lemma map_decisionFromRow_ids [simp]:
  "map d_id (map decisionFromRow ds) = map d_id ds"
  by (simp add: comp_def)

text \<open>What \<open>ApplyExpiredDefaults\<close> does to the table: it settles what is due, and nothing else.\<close>

lemma ApplyExpiredDefaults_run:
  assumes wf: "wf_decisions (decisions s)"
  shows "\<exists>t n. ApplyExpiredDefaults now s = (Inr n, t)
     \<and> n = affected (default_due s now) (decisions s)
     \<and> decisions t = update_where (default_due s now) (settled (rfc3339 now) (rfc3339 now)) (decisions s)"
proof -
  define rows where "rows = order_by d_created_at (filter (\<lambda>d. d_status d = DecisionOpen
      \<and> d_default_after_ms d \<noteq> None \<and> d_default_option d \<noteq> [] \<and> goal_visible s (d_goal_id d)) (decisions s))"
  define cs where "cs = filter (default_expired now) (map decisionFromRow rows)"
  let ?f = "settled (rfc3339 now) (rfc3339 now)"
  let ?t = "decisions_update (update_where (\<lambda>d. d_id d \<in> d_id ` set cs \<and> d_status d = DecisionOpen) ?f) s"
  have ids: "distinct (map d_id (decisions s))" using wf by (simp add: wf_decisions_def)
  have due: "filter (default_expired now) rows = order_by d_created_at (filter (default_due s now) (decisions s))"
    unfolding rows_def filter_order_by filter_filter default_due_def
    by (rule arg_cong [of _ _ "order_by d_created_at"], rule filter_cong) auto
  have cs: "cs = map decisionFromRow (filter (default_expired now) rows)"
    by (simp add: cs_def filter_map comp_def)
  have set_cs: "set cs = decisionFromRow ` {d \<in> set (decisions s). default_due s now d}"
    unfolding cs due by auto
  have in_cs: "d_id d \<in> d_id ` set cs \<longleftrightarrow> default_due s now d" if "d \<in> set (decisions s)" for d
    unfolding set_cs image_image decisionFromRow_simps
    using that ids by (auto simp: distinct_map inj_on_def)
  have run: "apply_defaults now cs s = (Inr (map (settled now now) cs), ?t)"
  proof (rule apply_defaults_run)
    show "distinct (map d_id cs)"
      unfolding cs map_decisionFromRow_ids rows_def by (intro distinct_filter_key distinct_order_by ids)
    show "\<forall>c\<in>set cs. \<exists>d\<in>set (decisions s). d_id d = d_id c \<and> d_status d = DecisionOpen"
      unfolding set_cs by (auto simp: default_due_def)
    show "\<forall>c\<in>set cs. \<forall>d\<in>set (decisions s). d_id d = d_id c \<longrightarrow> d_default_option d = d_default_option c"
      unfolding set_cs using ids by (auto simp: distinct_map inj_on_def)
  qed
  have upd: "decisions ?t = update_where (default_due s now) ?f (decisions s)"
    by simp (rule update_where_cong; auto simp: in_cs default_due_def)
  have n: "length cs = affected (default_due s now) (decisions s)"
    unfolding cs due affected_def by simp
  have list: "convertDecisionRows ListExpiredDecisions_sql s = (Inr (map decisionFromRow rows), s)"
    by (simp add: convertDecisionRows_def ListExpiredDecisions_sql_def select_decisions_def rows_def
        op_eval bnd_def)
  have "\<exists>l. ApplyExpiredDefaults now s = (Inr (length cs), published_update l ?t)"
    unfolding ApplyExpiredDefaults_def
    by (simp only: op_run list Pair_inject sum.inject prod.inject ex_simps simp_thms)
      (auto simp: run cs_def [symmetric] op_run)
  then show ?thesis
    using n upd by auto
qed

section \<open>Answering, collecting, asking\<close>

text \<open>An answer goes to an open decision and is what its row then carries.\<close>

definition answered :: "time \<Rightarrow> AnswerInput \<Rightarrow> AnswerSource \<Rightarrow> decision \<Rightarrow> decision" where
  "answered now inp src d =
     set_source src (d\<lparr>d_status := DecisionAnswered, d_answer_label := AnswerLabel inp,
       d_answer_text := AnswerText inp, d_answered_at := Some (rfc3339 now)\<rparr>)"

lemma answered_simps [simp]:
  "d_id (answered now inp src d) = d_id d" "d_status (answered now inp src d) = DecisionAnswered"
  "d_answer_label (answered now inp src d) = AnswerLabel inp"
  "d_answer_prompt_id (answered now inp src d) = PromptID src"
  by (simp_all add: answered_def set_source_def)

lemma decision_row_update:
  "(\<And>d. P d \<Longrightarrow> d_id (f d) = d_id d) \<Longrightarrow>
     decision_row i (decisions_update (update_where P f) s)
       = map_option (\<lambda>d. if P d then f d else d) (decision_row i s)"
  by (simp add: decision_row_def find_update_where_key)

lemma decision_row_published [simp]: "decision_row i (published_update l s) = decision_row i s"
  by (simp add: decision_row_def)

lemma answer_run:
  assumes run: "answerDecision inp src name now s = (Inr out, t)"
    and wf: "wf_decisions (decisions s)"
  shows "\<exists>d. decision_row (DecisionID inp) s = Some d \<and> d_status d = DecisionOpen
     \<and> decision_row (DecisionID inp) t = Some (answered now inp src d)
     \<and> decisions t = update_where (\<lambda>e. d_id e = DecisionID inp) (answered now inp src) (decisions s)
     \<and> (PromptID src \<noteq> [] \<longrightarrow> (\<forall>e\<in>set (decisions s). d_answer_prompt_id e = PromptID src \<longrightarrow> d_id e = d_id d))"
proof -
  let ?P = "\<lambda>e. d_id e = DecisionID inp \<and> d_status e = DecisionOpen"
  let ?u = "decisions_update (update_where ?P (answered now inp src)) s"
  have ids: "distinct (map d_id (decisions s))" using wf by (simp add: wf_decisions_def)
  obtain row n where upd: "AnswerDecision_sql (AnswerLabel inp) (AnswerText inp) (rfc3339 now) src
        (DecisionID inp) s = (Inr n, ?u)"
      and n: "n \<noteq> 0" and t: "decisions t = decisions ?u"
    using run
    by (auto simp: answerDecision_def op_run AnswerDecision_sql_def answer_update_def answered_def [abs_def]
        GetDecision_sql_def)
  have prompt: "affected ?P (decisions s) = 0 \<or> PromptID src = []
      \<or> list_all (\<lambda>d. d_id d = DecisionID inp \<or> d_answer_prompt_id d \<noteq> PromptID src) (decisions s)"
    and pos: "affected ?P (decisions s) \<noteq> 0"
    using upd n by (auto simp: AnswerDecision_sql_def answer_update_def op_run)
  obtain d where d: "decision_row (DecisionID inp) s = Some d" "d_status d = DecisionOpen"
    using pos affected_key [OF ids] by (auto simp: decision_row_def)
  have uniq: "e = d" if "e \<in> set (decisions s)" "d_id e = DecisionID inp" for e
    using that ids d(1) by (auto simp: decision_row_def dest: find_key_unique)
  have all: "update_where ?P (answered now inp src) (decisions s)
      = update_where (\<lambda>e. d_id e = DecisionID inp) (answered now inp src) (decisions s)"
    by (rule update_where_cong) (use uniq d in auto)
  have "decision_row (DecisionID inp) t = Some (answered now inp src d)"
    using d t decision_row_update [of ?P "answered now inp src" "DecisionID inp" s]
    by (auto simp: decision_row_def dest: find_Some_in)
  then show ?thesis
    using d t all prompt pos by (auto simp: list_all_iff decision_row_in)
qed

text \<open>A decision that is not open any more refuses an answer and a withdrawal.\<close>

lemma closed_decision_refuses:
  assumes wf: "wf_decisions (decisions s)" and row: "decision_row i s = Some d"
    and st: "d_status d \<noteq> DecisionOpen"
  shows "answerDecision \<lparr>DecisionID = i, AnswerLabel = l, AnswerText = x\<rparr> src name now s
           = (Inl (DecisionE ErrDecisionNotOpen), s)"
    and "WithdrawDecision i reason s = (Inl (DecisionE ErrDecisionNotOpen), s)"
proof -
  have "distinct (map d_id (decisions s))" using wf by (simp add: wf_decisions_def)
  then have zero: "affected (\<lambda>d. d_id d = i \<and> d_status d = DecisionOpen) (decisions s) = 0"
    using affected_key [of d_id "decisions s" i "\<lambda>d. d_status d = DecisionOpen"] row st
    by (auto simp: decision_row_def)
  show "answerDecision \<lparr>DecisionID = i, AnswerLabel = l, AnswerText = x\<rparr> src name now s
           = (Inl (DecisionE ErrDecisionNotOpen), s)"
    by (simp add: answerDecision_def AnswerDecision_sql_def answer_update_def op_run
        answerWriteError_def zero)
  show "WithdrawDecision i reason s = (Inl (DecisionE ErrDecisionNotOpen), s)"
    by (simp add: WithdrawDecision_def withdrawDecisionWith_def WithdrawDecision_sql_def op_run zero)
qed

text \<open>What a poll collects.\<close>

definition collectable :: "int \<Rightarrow> int \<Rightarrow> decision \<Rightarrow> bool" where
  "collectable session i d \<longleftrightarrow>
     d_status d = DecisionAnswered \<and> (if i = 0 then d_agent_session_id d = session else d_id d = i)"

lemma poll_run:
  assumes wf: "wf_decisions (decisions s)"
  shows "\<exists>t out. PollDecisions session i now s = (Inr out, t)
     \<and> set out = (\<lambda>d. delivered now (decisionFromRow d)) ` {d \<in> set (decisions s). collectable session i d}
     \<and> distinct (map d_id out)
     \<and> decisions t = update_where (collectable session i) (delivered (rfc3339 now)) (decisions s)"
proof -
  define rows where "rows = order_by d_answered_at (filter (collectable session i) (decisions s))"
  define ds where "ds = map decisionFromRow rows"
  let ?P = "\<lambda>d. d_id d \<in> d_id ` set ds \<and> d_status d = DecisionAnswered"
  let ?t = "decisions_update (update_where ?P (delivered (rfc3339 now))) s"
  have ids: "distinct (map d_id (decisions s))" using wf by (simp add: wf_decisions_def)
  have list: "convertDecisionRows (if i = 0 then ListAnsweredDecisionsForAgentSession_sql session
      else ListAnsweredDecisionForID_sql i) s = (Inr ds, s)"
    by (auto simp: convertDecisionRows_def ListAnsweredDecisionsForAgentSession_sql_def
        ListAnsweredDecisionForID_sql_def select_decisions_def rows_def ds_def
        collectable_def [abs_def] op_eval bnd_def)
  have "d_id d \<in> d_id ` set ds \<longleftrightarrow> collectable session i d" if "d \<in> set (decisions s)" for d
    unfolding ds_def rows_def set_map image_image decisionFromRow_simps
    using that ids by (auto simp: distinct_map inj_on_def)
  then have upd: "decisions ?t = update_where (collectable session i) (delivered (rfc3339 now)) (decisions s)"
    by simp (rule update_where_cong; auto simp: collectable_def)
  have dist: "distinct (map d_id (map (delivered now) ds))"
    unfolding ds_def rows_def
    using distinct_order_by [OF distinct_filter_key [OF ids]] by (simp add: comp_def)
  have "\<exists>l. PollDecisions session i now s = (Inr (map (delivered now) ds), published_update l ?t)"
    unfolding PollDecisions_def
    by (simp only: op_run list Pair_inject sum.inject prod.inject ex_simps simp_thms)
      (auto simp: mark_all_run op_run)
  moreover have "set (map (delivered now) ds)
      = (\<lambda>d. delivered now (decisionFromRow d)) ` {d \<in> set (decisions s). collectable session i d}"
    by (auto simp: ds_def rows_def)
  ultimately show ?thesis
    using dist upd by auto
qed

text \<open>What asking adds.\<close>

lemma validateDecisionDefault_ok:
  "validateDecisionDefault options label after s = (Inr (), t) \<longleftrightarrow>
     t = s \<and> (label = [] \<longrightarrow> after = None)
   \<and> (label \<noteq> [] \<longrightarrow> (\<exists>opt\<in>set options. o_label opt = label)
        \<and> (\<forall>ms. after = Some ms \<longrightarrow> 0 \<le> ms))"
  by (auto simp: validateDecisionDefault_def op_run list_ex_iff split: option.splits)

lemma AskDecision_run:
  assumes "AskDecision inp now s = (Inr d, t)"
  shows "d_id d = next_id d_id (decisions s)" and "d_created_at d = now"
    and "decisions t = decisions s @ [d\<lparr>d_created_at := rfc3339 now\<rparr>]"
    and "d_status d = DecisionOpen" and "d_agent_session_id d = ask_AgentSessionID inp"
    and "goal_exists (d_goal_id d) s"
    and "d_default_option d \<noteq> [] \<Longrightarrow> \<exists>opt\<in>set (d_options d). o_label opt = d_default_option d"
    and "d_default_after_ms d = Some ms \<Longrightarrow> 0 \<le> ms \<and> d_default_option d \<noteq> []"
    and "d_goal_id d = ask_GoalID inp" and "d_question d = ask_Question inp"
    and "d_options d = ask_Options inp" and "d_answered_at d = None"
    and "d_default_option d = ask_DefaultOption inp" and "d_default_after_ms d = ask_DefaultAfterMs inp"
proof -
  have val: "validateDecisionDefault (ask_Options inp) (ask_DefaultOption inp) (ask_DefaultAfterMs inp) s
      = (Inr (), s)"
    and goal: "goal_exists (ask_GoalID inp) s"
    and d: "d = \<lparr>d_id = next_id d_id (decisions s), d_goal_id = ask_GoalID inp,
             d_task_id = nullable (ask_TaskID inp),
             d_kind = ask_Kind inp, d_question = ask_Question inp, d_options = ask_Options inp,
             d_status = DecisionOpen, d_default_option = ask_DefaultOption inp,
             d_default_after_ms = ask_DefaultAfterMs inp, d_default_applied_at = None,
             d_answer_label = [], d_answer_text = [], d_answered_at = None, d_applied_at = None,
             d_agent_session_id = ask_AgentSessionID inp, d_created_at = now, d_answered_via = [],
             d_answer_quote = [], d_answer_evidence = [], d_answer_prompt_id = []\<rparr>"
    and t: "decisions t = decisions s @ [d\<lparr>d_created_at := rfc3339 now\<rparr>]"
    using assms
    by (auto simp: AskDecision_def op_run validateDecisionDefault_ok CreateDecision_sql_def)
  show "d_id d = next_id d_id (decisions s)" "d_created_at d = now" "d_status d = DecisionOpen"
    "d_agent_session_id d = ask_AgentSessionID inp" "goal_exists (d_goal_id d) s"
    using goal by (simp_all add: d)
  show "decisions t = decisions s @ [d\<lparr>d_created_at := rfc3339 now\<rparr>]" by (rule t)
  show "d_default_option d \<noteq> [] \<Longrightarrow> \<exists>opt\<in>set (d_options d). o_label opt = d_default_option d"
    and "d_default_after_ms d = Some ms \<Longrightarrow> 0 \<le> ms \<and> d_default_option d \<noteq> []"
    using val by (auto simp: validateDecisionDefault_ok d)
  show "d_goal_id d = ask_GoalID inp" "d_question d = ask_Question inp" "d_options d = ask_Options inp"
    "d_answered_at d = None" "d_default_option d = ask_DefaultOption inp"
    "d_default_after_ms d = ask_DefaultAfterMs inp"
    by (simp_all add: d)
qed

text \<open>The delay of a default is what it says as long as it fits the nanoseconds of an int64.\<close>

lemma Duration_of_ms_small:
  assumes "0 \<le> ms" and "ms * 1000000 < 2 ^ 63"
  shows "Duration_of_ms ms = ms * 1000000"
proof -
  have "(word_of_int ms * 1000000 :: 64 word) = word_of_int (ms * 1000000)"
    by simp
  then have "Duration_of_ms ms = signed_take_bit 63 (ms * 1000000)"
    unfolding Duration_of_ms_def by (simp only: signed_of_int) simp
  also have "\<dots> = ms * 1000000"
    using assms by (intro signed_take_bit_int_eq_self) auto
  finally show ?thesis .
qed

lemma Duration_of_ms_wraps: "Duration_of_ms 9223372036855 < 0"
  by (simp add: Duration_of_ms_def)

lemma default_expired_iff:
  assumes "d_default_after_ms d = Some ms" and "0 \<le> ms" and "ms * 1000000 < 2 ^ 63"
  shows "default_expired now d \<longleftrightarrow> d_created_at d + ms * 1000000 \<le> now"
  using assms by (auto simp: default_expired_def Duration_of_ms_small)

text \<open>The history shows the newest applied decisions and counts the others.\<close>

lemma applied_history_counts:
  assumes "ListAppliedDecisions goal s = (Inr (out, omitted), t)"
  shows "int (length out) + omitted
           = int (affected (\<lambda>d. d_goal_id d = goal \<and> d_status d = DecisionApplied) (decisions s))"
    and "length out \<le> AppliedDecisionHistoryLimit" and "0 < omitted \<Longrightarrow> length out = AppliedDecisionHistoryLimit"
  using assms
  by (auto simp: ListAppliedDecisions_def CountAppliedDecisions_sql_def ListAppliedDecisions_sql_def
      newest_applied_def op_run Let_def affected_def min_def split: if_splits)

end
