(* ===== verification/Atct_Guards.thy ===== *)
theory Atct_Guards
  imports Atct_Decision
begin

text \<open>
  The reads and guards the handoff, task and goal operations share: looking up one goal, task
  handoff or goal handoff, the received handoff that is open, and who may act for a goal
  (\<^verbatim>\<open>requireProjectClaimForGoal\<close>, \<^verbatim>\<open>requireGoalHandoffHolder\<close>). The Go structs
  built from a row have 0 and the empty string where the row has NULL; the model returns the row
  and reads such a field with \<^const>\<open>nz\<close>. The \<^verbatim>\<open>NextGoals\<close> of a goal and the
  \<^verbatim>\<open>GoalID\<close> of a task handoff are read by queries of their own and are not
  part of what is returned.
\<close>

section \<open>Small helpers\<close>

definition completeReportIsEmpty :: "string \<Rightarrow> bool" where
  "completeReportIsEmpty report = blank report"

definition handoffIsDelegation :: "int \<Rightarrow> int \<Rightarrow> bool" where
  "handoffIsDelegation requestedBy receivedBy \<longleftrightarrow>
     requestedBy = 0 \<or> receivedBy = 0 \<or> requestedBy \<noteq> receivedBy"

text \<open>The loops that look for the only candidate and refuse a second one.\<close>

fun pick_one :: "error \<Rightarrow> 'a list \<Rightarrow> ('a option) store_op" where
  "pick_one e [] = ret None"
| "pick_one e [x] = ret (Some x)"
| "pick_one e (x # y # xs) = fail e"

fun pick_pending :: "error \<Rightarrow> error \<Rightarrow> 'a list \<Rightarrow> 'a store_op" where
  "pick_pending none many [] = fail none"
| "pick_pending none many [x] = ret x"
| "pick_pending none many (x # y # xs) = fail many"

section \<open>Goals and projects\<close>

definition GetProject_sql :: "int \<Rightarrow> project store_op" where
  "GetProject_sql i = bnd (ask (\<lambda>s. List.find (\<lambda>p. p_id p = i) (projects s))) (need NoRows)"

definition ListNextGoals :: "int \<Rightarrow> (goal_summary list) store_op" where
  "ListNextGoals goal =
     bnd (ListNextGoals_sql goal) (\<lambda>rows.
     ret (map (\<lambda>r. r\<lparr>gs_headline := Headline (gs_headline r)\<rparr>) rows))"

definition GetGoal :: "int \<Rightarrow> goal store_op" where
  "GetGoal i =
     bnd (map_error (\<lambda>e. if e = NoRows then GoalE ErrGoalNotFound else e) (GetGoal_sql i)) (\<lambda>g.
     bnd (ListNextGoals i) (\<lambda>_. ret g))"

definition openGoalBlockersError :: error where
  "openGoalBlockersError = DecisionE ErrGoalHasOpenDecision"

definition requireProjectClaimForGoal :: "int \<Rightarrow> int \<Rightarrow> time \<Rightarrow> unit store_op" where
  "requireProjectClaimForGoal goalID requestedBy now =
     bnd (GetGoal goalID) (\<lambda>goal.
     bnd (GetProject_sql (g_project_id goal)) (\<lambda>project.
     bnd (ask (claimIsRunning (p_claimed_by project) now)) (\<lambda>running.
     check (p_claimed_by project = requestedBy \<and> p_claimed_by project \<noteq> 0 \<and> running)
       (ErrGoalHandoff NotHeld))))"

section \<open>Goal handoffs\<close>

definition GetGoalHandoff :: "string \<Rightarrow> handoff store_op" where
  "GetGoalHandoff hid =
     map_error (\<lambda>e. if e = NoRows then ErrGoalHandoff NotFound else e) (GetGoalHandoff_sql hid)"

definition ListGoalHandoffs :: "int \<Rightarrow> (handoff list) store_op" where
  "ListGoalHandoffs goal = ListGoalHandoffs_sql goal"

definition received_open :: "handoff \<Rightarrow> bool" where
  "received_open h \<longleftrightarrow>
     h_received_at h \<noteq> None \<and> h_completed_report_at h = None \<and> h_recovered_at h = None"

definition openGoalHandoff :: "int \<Rightarrow> (handoff option) store_op" where
  "openGoalHandoff goal =
     bnd (ListGoalHandoffs goal) (\<lambda>hs. pick_one (ErrGoalHandoff Ambiguous) (filter received_open hs))"

definition GoalHandoffEverReceivedBy :: "int \<Rightarrow> int \<Rightarrow> bool store_op" where
  "GoalHandoffEverReceivedBy goal session = GoalHandoffEverReceivedBy_sql goal session"

definition goalHandoffRefusal :: "string \<Rightarrow> (bool \<times> int) store_op" where
  "goalHandoffRefusal hid =
     bnd (try_op (GetGoalHandoff_sql hid)) (\<lambda>r. case r of
       Inl e \<Rightarrow> ret (False, 0)
     | Inr h \<Rightarrow> ret (h_requested_at h \<noteq> None, nz (h_received_by h)))"

definition ensureGoalHandoffGoal :: "string \<Rightarrow> int \<Rightarrow> unit store_op" where
  "ensureGoalHandoffGoal hid goal =
     bnd (map_error (\<lambda>e. if e = NoRows then ErrGoalHandoff NotFound else e)
           (GetGoalHandoffGoalID_sql hid)) (\<lambda>existing.
     check (existing = goal) (ErrGoalHandoff OwnerMismatch))"

definition ensureGoalHandoffGoalForRequest :: "string \<Rightarrow> int \<Rightarrow> unit store_op" where
  "ensureGoalHandoffGoalForRequest hid goal =
     bnd (try_op (ensureGoalHandoffGoal hid goal)) (\<lambda>r. case r of
       Inl e \<Rightarrow> if e = ErrGoalHandoff NotFound then ret () else fail e
     | Inr u \<Rightarrow> ret ())"

definition requireGoalHandoffHolder :: "int \<Rightarrow> int \<Rightarrow> time \<Rightarrow> unit store_op" where
  "requireGoalHandoffHolder goal holder now =
     bnd (openGoalHandoff goal) (\<lambda>open.
     bnd (ask (claimIsRunning holder now)) (\<lambda>running.
     check (case open of None \<Rightarrow> False
            | Some h \<Rightarrow> nz (h_received_by h) = holder \<and> holder \<noteq> 0 \<and> running)
       (ErrTaskHandoff NotHeld)))"

section \<open>Task handoffs\<close>

definition GetTaskHandoff :: "string \<Rightarrow> handoff store_op" where
  "GetTaskHandoff hid =
     bnd (map_error (\<lambda>e. if e = NoRows then ErrTaskHandoff NotFound else e)
           (GetTaskHandoff_sql hid)) (\<lambda>h.
     bnd (GetTaskGoalID_sql (h_owner h)) (\<lambda>_. ret h))"

definition ListTaskHandoffs :: "int \<Rightarrow> (handoff list) store_op" where
  "ListTaskHandoffs task =
     bnd (ListTaskHandoffs_sql task) (\<lambda>hs. bnd (GetTaskGoalID_sql task) (\<lambda>_. ret hs))"

definition openTaskHandoff :: "int \<Rightarrow> (handoff option) store_op" where
  "openTaskHandoff task =
     bnd (ListTaskHandoffs task) (\<lambda>hs. pick_one (ErrTaskHandoff Ambiguous) (filter received_open hs))"

definition taskHandoffRefusal :: "string \<Rightarrow> (bool \<times> int) store_op" where
  "taskHandoffRefusal hid =
     bnd (try_op (GetTaskHandoff_sql hid)) (\<lambda>r. case r of
       Inl e \<Rightarrow> ret (False, 0)
     | Inr h \<Rightarrow> ret (h_requested_at h \<noteq> None, nz (h_received_by h)))"

definition ensureTaskHandoffTask :: "string \<Rightarrow> int \<Rightarrow> unit store_op" where
  "ensureTaskHandoffTask hid task =
     bnd (map_error (\<lambda>e. if e = NoRows then ErrTaskHandoff NotFound else e)
           (GetTaskHandoffTaskID_sql hid)) (\<lambda>existing.
     check (existing = task) (ErrTaskHandoff OwnerMismatch))"

definition ensureTaskHandoffTaskForRequest :: "string \<Rightarrow> int \<Rightarrow> unit store_op" where
  "ensureTaskHandoffTaskForRequest hid task =
     bnd (try_op (ensureTaskHandoffTask hid task)) (\<lambda>r. case r of
       Inl e \<Rightarrow> if e = ErrTaskHandoff NotFound then ret () else fail e
     | Inr u \<Rightarrow> ret ())"

definition requireGoalHandoffForTask :: "int \<Rightarrow> int \<Rightarrow> time \<Rightarrow> unit store_op" where
  "requireGoalHandoffForTask task requestedBy now =
     bnd (GetTaskGoalID_sql task) (\<lambda>goal. requireGoalHandoffHolder goal requestedBy now)"

definition taskWorkflowEventScope :: "int \<Rightarrow> (int \<times> int) store_op" where
  "taskWorkflowEventScope task =
     bnd (GetTaskGoalID_sql task) (\<lambda>goal.
     bnd (GetGoalProjectID_sql goal) (\<lambda>project. ret (project, goal)))"

section \<open>They only read\<close>

lemma reads_pick [reads_intros]: "reads (pick_one e xs)" "reads (pick_pending e e' xs)"
  by (cases "(e, xs)" rule: pick_one.cases; simp add: reads_intros)
    (cases "(e, e', xs)" rule: pick_pending.cases; simp add: reads_intros)

lemma pick_one_run:
  "pick_one e xs s = (Inr r, t) \<longleftrightarrow>
     t = s \<and> (xs = [] \<and> r = None \<or> (\<exists>x. xs = [x] \<and> r = Some x))"
  by (cases "(e, xs)" rule: pick_one.cases) (auto simp: op_run)

lemma pick_pending_run:
  "pick_pending e e' xs s = (Inr r, t) \<longleftrightarrow> t = s \<and> xs = [r]"
  by (cases "(e, e', xs)" rule: pick_pending.cases) (auto simp: op_run)

lemma reads_handoff_sql [reads_intros]:
  "reads (GetGoalHandoff_sql hid)" "reads (GetGoalHandoffGoalID_sql hid)"
  "reads (ListGoalHandoffs_sql g)" "reads (GetTaskHandoff_sql hid)"
  "reads (GetTaskHandoffTaskID_sql hid)" "reads (ListTaskHandoffs_sql g)"
  "reads (GetProject_sql g)"
  "reads (CountTaskHandoffRequestEntries_sql hid)" "reads (CountGoalHandoffRequestEntries_sql hid)"
  by (auto simp: GetGoalHandoff_sql_def GetGoalHandoffGoalID_sql_def ListGoalHandoffs_sql_def
      GetTaskHandoff_sql_def GetTaskHandoffTaskID_sql_def ListTaskHandoffs_sql_def GetProject_sql_def
      CountTaskHandoffRequestEntries_sql_def CountGoalHandoffRequestEntries_sql_def
      intro!: reads_intros)

lemma reads_guards [reads_intros]:
  "reads (ListNextGoals g)" "reads (GetGoal g)" "reads (requireProjectClaimForGoal g i now)"
  "reads (GetGoalHandoff hid)" "reads (ListGoalHandoffs g)" "reads (openGoalHandoff g)"
  "reads (GoalHandoffEverReceivedBy g i)"
  "reads (goalHandoffRefusal hid)" "reads (ensureGoalHandoffGoal hid g)"
  "reads (ensureGoalHandoffGoalForRequest hid g)" "reads (requireGoalHandoffHolder g i now)"
  "reads (GetTaskHandoff hid)" "reads (ListTaskHandoffs g)" "reads (openTaskHandoff g)"
  "reads (taskHandoffRefusal hid)" "reads (ensureTaskHandoffTask hid g)"
  "reads (ensureTaskHandoffTaskForRequest hid g)" "reads (requireGoalHandoffForTask g i now)"
  "reads (taskWorkflowEventScope g)"
  unfolding ListNextGoals_def GetGoal_def requireProjectClaimForGoal_def GetGoalHandoff_def
    ListGoalHandoffs_def openGoalHandoff_def GoalHandoffEverReceivedBy_def goalHandoffRefusal_def
    ensureGoalHandoffGoal_def ensureGoalHandoffGoalForRequest_def requireGoalHandoffHolder_def
    GetTaskHandoff_def ListTaskHandoffs_def openTaskHandoff_def taskHandoffRefusal_def
    ensureTaskHandoffTask_def ensureTaskHandoffTaskForRequest_def requireGoalHandoffForTask_def
    taskWorkflowEventScope_def
  by (intro reads_intros)+

end
