(* ===== verification/Atct_Task_Create.thy ===== *)
theory Atct_Task_Create
  imports Atct_Guards
begin

text \<open>
  Declaring tasks: the keys that make a declaration idempotent and its loop
  (\<^verbatim>\<open>CreateTasks\<close> in \<^verbatim>\<open>task.go\<close>), and the task-create
  handoff that permits the holder of a goal to declare tasks once
  (\<^verbatim>\<open>task_create_handoff.go\<close>). Fresh UUIDs are parameters.
\<close>

section \<open>Declare keys\<close>

text \<open>\<^verbatim>\<open>strconv.Itoa\<close> and \<^verbatim>\<open>%d\<close> of an index.\<close>

fun Itoa :: "nat \<Rightarrow> string" where
  "Itoa n = (if n < 10 then [char_of (48 + n)] else Itoa (n div 10) @ [char_of (48 + n mod 10)])"

declare Itoa.simps [simp del]

definition declareKey :: "string \<Rightarrow> nat \<Rightarrow> string" where
  "declareKey key i = key @ ''#'' @ Itoa i"

lemma digit_char: "n < 10 \<Longrightarrow> digit_value (char_of (48 + n)) = int n"
proof -
  assume n: "n < 10"
  then have "(of_char (char_of (48 + n) :: char) :: nat) = 48 + n" by simp
  moreover have "digit_value (char_of (48 + n)) = int (of_char (char_of (48 + n) :: char)) - 48"
    by (simp only: digit_value_def of_nat_of_char)
  ultimately show ?thesis by (simp only: of_nat_add)
qed

lemma parse_decimal_Itoa: "parse_decimal (Itoa n) = Some (int n)"
proof (induction n rule: Itoa.induct)
  case (1 n)
  show ?case
  proof (cases "n < 10")
    case True
    then show ?thesis
      using digit_char [OF True] by (simp add: Itoa.simps [of n] parse_decimal_def is_digit_def)
  next
    case False
    let ?d = "n mod 10"
    have d: "digit_value (char_of (48 + ?d)) = int ?d" by (rule digit_char) simp
    have IH: "parse_decimal (Itoa (n div 10)) = Some (int (n div 10))" by (rule "1.IH") (rule False)
    then have "parse_decimal (Itoa (n div 10) @ [char_of (48 + ?d)])
        = Some (10 * int (n div 10) + int ?d)"
      using d by (auto simp: parse_decimal_def is_digit_def split: if_splits)
    moreover have "10 * int (n div 10) + int ?d = int n" by presburger
    ultimately show ?thesis using False by (simp add: Itoa.simps [of n])
  qed
qed

lemma Itoa_inject [simp]: "Itoa m = Itoa n \<longleftrightarrow> m = n"
  by (metis of_nat_eq_iff option.inject parse_decimal_Itoa)

lemma Itoa_digits: "Itoa n \<noteq> [] \<and> list_all is_digit (Itoa n)"
  using parse_decimal_Itoa [of n] by (auto simp: parse_decimal_def split: if_splits)

lemma ParseInt_digits:
  "is_digit c \<Longrightarrow> parse_decimal (c # r) = Some (int n) \<Longrightarrow> int n < 2 ^ 63 \<Longrightarrow>
     ParseInt (c # r) = Some (int n)"
proof -
  assume c: "is_digit c" and p: "parse_decimal (c # r) = Some (int n)" and n: "int n < 2 ^ 63"
  have "\<not> is_digit (CHR ''-'')" "\<not> is_digit (CHR ''+'')"
    by (simp_all add: is_digit_def digit_value_def)
  with c have "c \<noteq> CHR ''-''" "c \<noteq> CHR ''+''" by blast+
  then show ?thesis using p n unfolding ParseInt_def by simp
qed

lemma ParseInt_Itoa: "int n < 2 ^ 63 \<Longrightarrow> ParseInt (Itoa n) = Some (int n)"
  using Itoa_digits [of n] parse_decimal_Itoa [of n] ParseInt_digits
  by (metis list.exhaust list.pred_inject(2))

lemma declareKey_inject [simp]: "declareKey k i = declareKey k j \<longleftrightarrow> i = j"
  by (simp add: declareKey_def)

section \<open>The loop that declares\<close>

fun create_declared ::
  "int \<Rightarrow> string \<Rightarrow> string \<Rightarrow> time \<Rightarrow> int \<Rightarrow> nat \<Rightarrow> (string \<times> string) list \<Rightarrow> unit store_op" where
  "create_declared goal agent key now base i [] = ret ()"
| "create_declared goal agent key now base i ((title, description) # rest) =
     bnd (CreateTask_sql goal title description TaskTodo agent (base + int i) (declareKey key i) None
            now now) (\<lambda>_.
     create_declared goal agent key now base (Suc i) rest)"

definition ListTasks :: "int \<Rightarrow> (task list) store_op" where
  "ListTasks goal = ListTasks_sql goal"

text \<open>
  \<^verbatim>\<open>Created\<close> says whether this call added the task; tasks it does not name have no
  such flag.
\<close>

definition CreateTasks ::
  "int \<Rightarrow> string \<Rightarrow> string \<Rightarrow> string list \<Rightarrow> string list \<Rightarrow> time \<Rightarrow> ((task \<times> bool option) list) store_op" where
  "CreateTasks goalID agent idempotencyKey titles descriptions now =
     bnd (check (length descriptions = length titles) (Failure ''create tasks: descriptions count'')) (\<lambda>_.
     bnd (check (\<not> list_ex blank descriptions) (Failure ''create tasks: description is empty'')) (\<lambda>_.
     bnd (GetGoal goalID) (\<lambda>goal.
     bnd (check (g_status goal = GoalActive) (GoalE ErrGoalNotActive)) (\<lambda>_.
     bnd (transaction
       (bnd (ListTasks_sql goalID) (\<lambda>existingTasks.
        bnd (MaxTaskSortOrder_sql goalID) (\<lambda>maxSortOrder.
        bnd (create_declared goalID agent idempotencyKey (rfc3339 now) (maxSortOrder + 1) 0
               (zip titles descriptions)) (\<lambda>_.
        ret (t_declare_key ` set existingTasks)))))) (\<lambda>existingDeclareKeys.
     bnd (ListTasks goalID) (\<lambda>tasks.
     ret (map (\<lambda>t. (t, if t_declare_key t \<in> declareKey idempotencyKey ` {0..<length titles}
                        then Some (t_declare_key t \<notin> existingDeclareKeys) else None)) tasks)))))))"

section \<open>Task-create handoffs\<close>

definition GetTaskCreateHandoffForGoal :: "int \<Rightarrow> task_create_handoff store_op" where
  "GetTaskCreateHandoffForGoal goal = GetTaskCreateHandoffForGoal_sql goal"

definition ListTaskCreateHandoffs :: "int \<Rightarrow> (task_create_handoff list) store_op" where
  "ListTaskCreateHandoffs goal = ListTaskCreateHandoffs_sql goal"

definition taskCreateHandoffLookupError :: "error \<Rightarrow> error" where
  "taskCreateHandoffLookupError e = (if e = NoRows then TaskE ErrTaskCreateHandoffState else e)"

definition getTaskCreateHandoff :: "string \<Rightarrow> task_create_handoff store_op" where
  "getTaskCreateHandoff i = map_error taskCreateHandoffLookupError (GetTaskCreateHandoff_sql i)"

definition createTaskCreateHandoffTx :: "string \<Rightarrow> int \<Rightarrow> int \<Rightarrow> time \<Rightarrow> string store_op" where
  "createTaskCreateHandoffTx uuid goalID requestedBy now =
     bnd (CreateTaskCreateHandoff_sql uuid goalID requestedBy now
            ''create implementation tasks for accepted plan'') (\<lambda>_. ret uuid)"

definition ReceiveTaskCreateHandoff :: "string \<Rightarrow> int \<Rightarrow> time \<Rightarrow> task_create_handoff store_op" where
  "ReceiveTaskCreateHandoff i receivedBy now =
     bnd (requireUndiscardedSession receivedBy) (\<lambda>_.
     bnd (getTaskCreateHandoff i) (\<lambda>h.
     bnd (check (nz (c_received_by h) = 0 \<and> c_completed_at h = None \<and> c_recovered_at h = None
            \<and> nz (c_requested_by h) \<noteq> receivedBy \<and> receivedBy \<noteq> 0)
            (TaskE ErrTaskCreateHandoffState)) (\<lambda>_.
     bnd (map_error (\<lambda>_. TaskE ErrTaskCreateHandoffState) (openGoalHandoff (c_goal_id h))) (\<lambda>goalHandoff.
     bnd (check (case goalHandoff of None \<Rightarrow> False | Some g \<Rightarrow> nz (h_received_by g) = receivedBy)
            (TaskE ErrTaskCreateHandoffState)) (\<lambda>_.
     bnd (ReceiveTaskCreateHandoff_sql i receivedBy now) (\<lambda>_.
     getTaskCreateHandoff i))))))"

definition RecoverTaskCreateHandoff ::
  "string \<Rightarrow> int \<Rightarrow> int \<Rightarrow> string \<Rightarrow> string \<Rightarrow> time \<Rightarrow> task_create_handoff store_op" where
  "RecoverTaskCreateHandoff handoffID goalID callerID reason uuid now =
     bnd (requireUndiscardedSession callerID) (\<lambda>_.
     bnd (requireGoalHandoffHolder goalID callerID now) (\<lambda>_.
     bnd (getTaskCreateHandoff handoffID) (\<lambda>h.
     bnd (check (c_goal_id h = goalID \<and> c_completed_at h = None) (TaskE ErrTaskCreateHandoffState)) (\<lambda>_.
     if c_recovered_at h \<noteq> None then ret h
     else
       (let received = c_received_at h \<noteq> None;
            stale = (if received then nz (c_received_by h) else nz (c_requested_by h))
        in bnd (check (stale \<noteq> 0 \<and> stale \<noteq> callerID) (TaskE ErrTaskCreateHandoffState)) (\<lambda>_.
           bnd (transaction
             (bnd (canRecoverSessionInTx stale now) (\<lambda>sessionProof.
              bnd (GetGoalProjectID_sql goalID) (\<lambda>projectID.
              bnd (GetProject_sql projectID) (\<lambda>project.
              bnd (ask (claimIsRunning (p_claimed_by project) now)) (\<lambda>running.
              bnd (check (0 < p_claimed_by project \<and> p_claimed_by project \<noteq> stale \<and> running)
                     (TaskE ErrTaskCreateHandoffState)) (\<lambda>_.
              bnd (GetAgentSessionRecovery_sql (p_claimed_by project)) (\<lambda>replacementSession.
              bnd (check (\<not> agentSessionHasDiscardMetadata replacementSession)
                     (SessionE ErrSessionDiscarded)) (\<lambda>_.
              bnd (if received then
                     RecoverTaskCreateHandoffReceiver_sql handoffID goalID stale (proof_PID sessionProof)
                       (proof_StartedAt sessionProof) now reason
                   else
                     RecoverTaskCreateHandoffRequester_sql handoffID goalID stale (proof_PID sessionProof)
                       (proof_StartedAt sessionProof) now reason) (\<lambda>affected.
              bnd (check (affected = 1) (TaskE ErrTaskCreateHandoffState)) (\<lambda>_.
              createTaskCreateHandoffTx uuid goalID (p_claimed_by project) now))))))))))) (\<lambda>_.
           getTaskCreateHandoff handoffID)))))))"

text \<open>A replay answers with the tasks the completed handoff declared, by their index.\<close>

definition replayTasksForHandoff :: "int \<Rightarrow> string \<Rightarrow> ((task \<times> bool) list) store_op" where
  "replayTasksForHandoff goalID key =
     bnd (ListTasks goalID) (\<lambda>all.
     (let prefix = key @ ''#'';
          tagged = filter (\<lambda>t. starts_with prefix (t_declare_key t)) all;
          suffix = (\<lambda>t. drop (length prefix) (t_declare_key t));
          bad = (\<lambda>t. case ParseInt (suffix t) of None \<Rightarrow> True
                     | Some index \<Rightarrow> index < 0 \<or> Itoa (nat index) \<noteq> suffix t);
          byIndex = map_of (rev (map (\<lambda>t. (ParseInt (suffix t), t)) tagged));
          n = length (remdups (map (\<lambda>t. ParseInt (suffix t)) tagged));
          found = map (\<lambda>i. byIndex (Some (int i))) [0..<n]
      in if list_ex bad tagged then fail (TaskE ErrTaskCreateHandoffState)
         else if n = 0 then fail (TaskE ErrTaskCreateHandoffState)
         else if None \<in> set found then fail (TaskE ErrTaskCreateHandoffState)
         else ret (map (\<lambda>v. (the v, False)) found)))"

text \<open>
  The zero value of \<^verbatim>\<open>domain.Task\<close>, for a key that is not in the map; its
  status, the empty string in Go, has no constant of its own.
\<close>

definition zero_task :: task where
  "zero_task = \<lparr>t_id = 0, t_goal_id = 0, t_title = [], t_description = [], t_status = TaskTodo,
     t_agent = [], t_sort_order = 0, t_declare_key = [], t_snoozed_until = None, t_created_at = 0,
     t_updated_at = 0\<rparr>"

definition CreateTasksForHandoff ::
  "string \<Rightarrow> int \<Rightarrow> int \<Rightarrow> string \<Rightarrow> string \<Rightarrow> string list \<Rightarrow> string list \<Rightarrow> time \<Rightarrow>
   ((task \<times> bool) list) store_op" where
  "CreateTasksForHandoff handoffID sessionID goalID agent key titles descriptions now =
     bnd (requireUndiscardedSession sessionID) (\<lambda>_.
     bnd (check (handoffID \<noteq> [] \<and> key \<noteq> [] \<and> titles \<noteq> []) (TaskE ErrTaskCreateHandoffState)) (\<lambda>_.
     bnd (getTaskCreateHandoff handoffID) (\<lambda>h.
     bnd (check (c_goal_id h = goalID \<and> nz (c_received_by h) = sessionID \<and> c_recovered_at h = None)
            (TaskE ErrTaskCreateHandoffState)) (\<lambda>_.
     bnd (check (length titles = length descriptions) (Failure ''create tasks: descriptions count'')) (\<lambda>_.
     if c_completed_at h \<noteq> None then replayTasksForHandoff goalID key
     else
       bnd (transaction
         (bnd (map_error taskCreateHandoffLookupError (GetTaskCreateHandoff_sql handoffID)) (\<lambda>h.
          bnd (check (c_goal_id h = goalID \<and> nz (c_received_by h) = sessionID \<and> c_recovered_at h = None)
                 (TaskE ErrTaskCreateHandoffState)) (\<lambda>_.
          if c_completed_at h \<noteq> None then ret None
          else
            bnd (ListTasks_sql goalID) (\<lambda>existing.
            bnd (MaxTaskSortOrder_sql goalID) (\<lambda>mx.
            bnd (create_declared goalID agent key (rfc3339 now) (mx + 1) 0 (zip titles descriptions)) (\<lambda>_.
            bnd (CompleteTaskCreateHandoff_sql handoffID sessionID now ''implementation tasks created'') (\<lambda>affected.
            bnd (check (affected = 1) (TaskE ErrTaskCreateHandoffState)) (\<lambda>_.
            ret (Some (t_declare_key ` set existing))))))))))) (\<lambda>outcome. case outcome of
         None \<Rightarrow> replayTasksForHandoff goalID key
       | Some existed \<Rightarrow>
           bnd (ListTasks goalID) (\<lambda>all.
           ret (map (\<lambda>i. (case List.find (\<lambda>t. t_declare_key t = declareKey key i) (rev all) of
                             None \<Rightarrow> zero_task | Some t \<Rightarrow> t,
                           declareKey key i \<notin> existed)) [0..<length titles]))))))))"

section \<open>Every operation moves the store forward\<close>

lemma create_declared_le [le_queries]:
  "evolves store_le (create_declared goal agent key now base i rows)"
  by (induction goal agent key now base i rows rule: create_declared.induct)
    (simp_all only: create_declared.simps, (rule le_rules le_queries | assumption)+)

lemma reads_task_create [reads_intros]:
  "reads (ListTasks g)" "reads (GetTaskCreateHandoffForGoal g)" "reads (ListTaskCreateHandoffs g)"
  "reads (getTaskCreateHandoff hid)" "reads (replayTasksForHandoff g key)"
  "reads (canRecoverSessionInTx i now)" "reads (GetAgentSessionRecovery_sql i)"
  unfolding ListTasks_def GetTaskCreateHandoffForGoal_def ListTaskCreateHandoffs_def
    getTaskCreateHandoff_def replayTasksForHandoff_def Let_def
  by (intro reads_intros)+

lemma createTaskCreateHandoffTx_le [le_queries]:
  "evolves store_le (createTaskCreateHandoffTx uuid goal by now)"
  unfolding createTaskCreateHandoffTx_def by (rule le_rules le_queries)+

lemma task_create_ops_le [le_queries]:
  "evolves store_le (CreateTasks goal agent key titles descs now)"
  "evolves store_le (ReceiveTaskCreateHandoff hid i now)"
  "evolves store_le (RecoverTaskCreateHandoff hid goal i reason uuid now)"
  "evolves store_le (CreateTasksForHandoff hid i goal agent key titles descs now)"
  unfolding CreateTasks_def ReceiveTaskCreateHandoff_def RecoverTaskCreateHandoff_def
    CreateTasksForHandoff_def Let_def
  by (rule le_rules le_queries reads_intros | rule store_le.ev_reads, rule reads_intros)+

section \<open>Declaring is idempotent and never fails half-way\<close>

definition declared :: "int \<Rightarrow> string \<Rightarrow> nat \<Rightarrow> store \<Rightarrow> bool" where
  "declared goal key i s \<longleftrightarrow>
     (\<exists>t\<in>set (tasks s). t_goal_id t = goal \<and> t_declare_key t = declareKey key i)"

definition new_tasks :: "int \<Rightarrow> store \<Rightarrow> task list \<Rightarrow> store \<Rightarrow> bool" where
  "new_tasks goal s new t \<longleftrightarrow>
     tasks t = tasks s @ new \<and> goals t = goals s
   \<and> (\<forall>u\<in>set new. t_goal_id u = goal \<and> t_status u = TaskTodo)"

lemma declared_later: "tasks_le s t \<Longrightarrow> declared goal key i s \<Longrightarrow> declared goal key i t"
proof -
  assume le: "tasks_le s t" and "declared goal key i s"
  then obtain u where u: "u \<in> set (tasks s)" "t_goal_id u = goal" "t_declare_key u = declareKey key i"
    by (auto simp: declared_def)
  from le have "grows task_le (tasks s) (tasks t)" by (simp add: tasks_le_def)
  from grows_row [OF this u(1)] obtain v where "v \<in> set (tasks t)" "task_le u v" by blast
  then show "declared goal key i t"
    using u(2,3) by (auto simp: declared_def task_le_def)
qed

lemma CreateTask_sql_present:
  "declared goal key i s \<Longrightarrow>
     \<exists>x. CreateTask_sql goal title desc st agent place (declareKey key i) sn c u s = (Inr x, s)"
proof -
  assume "declared goal key i s"
  then obtain t where "List.find (\<lambda>t. t_goal_id t = goal \<and> t_declare_key t = declareKey key i) (tasks s) = Some t"
    unfolding declared_def by (metis (mono_tags, lifting) find_None_iff_all not_Some_eq)
  then show ?thesis by (simp add: CreateTask_sql_def op_eval bnd_def)
qed

lemma CreateTask_sql_fresh:
  assumes "\<not> declared goal key i s" and "goal_exists goal s"
    and "\<forall>t\<in>set (tasks s). t_goal_id t = goal \<longrightarrow> t_sort_order t < place"
  shows "\<exists>x r. CreateTask_sql goal title desc st agent place (declareKey key i) sn c u s
           = (Inr x, tasks_update (\<lambda>ts. ts @ [r]) s)
         \<and> t_goal_id r = goal \<and> t_status r = st \<and> t_sort_order r = place
         \<and> t_declare_key r = declareKey key i \<and> t_title r = title \<and> t_description r = desc"
proof -
  have find: "List.find (\<lambda>t. t_goal_id t = goal \<and> t_declare_key t = declareKey key i) (tasks s) = None"
    using assms(1) by (auto simp: declared_def find_None_iff_all)
  have "list_all (\<lambda>t. t_id t \<noteq> next_id t_id (tasks s)
      \<and> \<not> (t_goal_id t = goal \<and> t_declare_key t = declareKey key i)
      \<and> \<not> (t_goal_id t = goal \<and> t_sort_order t = place)) (tasks s)"
    using assms(1,3) next_id_fresh [of t_id "tasks s"]
    by (auto simp: declared_def list_all_iff image_iff)
  then show ?thesis
    using find assms(2)
    by (simp add: CreateTask_sql_def op_eval bnd_def checked_insert_def)
      (intro exI conjI, rule refl, simp_all)
qed

lemma create_declared_present:
  "\<forall>j<length rows. declared goal key (i + j) s \<Longrightarrow>
     create_declared goal agent key now base i rows s = (Inr (), s)"
proof (induction goal agent key now base i rows arbitrary: s rule: create_declared.induct)
  case (2 goal agent key now base i title description rest)
  have "declared goal key i s" using 2(2) by force
  then obtain x where x: "CreateTask_sql goal title description TaskTodo agent (base + int i)
      (declareKey key i) None now now s = (Inr x, s)"
    using CreateTask_sql_present by blast
  have "create_declared goal agent key now base (Suc i) rest s = (Inr (), s)"
    using 2(2) by (intro 2(1)) force
  with x show ?case by (simp add: bnd_def)
qed (simp add: ret_def)

lemma create_declared_run:
  assumes "goal_exists goal s"
    and "\<forall>t\<in>set (tasks s). t_goal_id t = goal \<longrightarrow> t_sort_order t < base + int i"
  shows "\<exists>t new. create_declared goal agent key now base i rows s = (Inr (), t) \<and> new_tasks goal s new t
     \<and> (\<forall>j<length rows. declared goal key (i + j) t)
     \<and> ((\<forall>j<length rows. \<not> declared goal key (i + j) s) \<longrightarrow>
          map (\<lambda>t. (t_title t, t_description t)) new = rows
        \<and> map t_sort_order new = map (\<lambda>j. base + int j) [i..<i + length rows])"
  using assms
proof (induction goal agent key now base i rows arbitrary: s rule: create_declared.induct)
  case (1 goal agent key now base i)
  then show ?case by (simp add: ret_def new_tasks_def)
next
  case (2 goal agent key now base i title description rest)
  define op where "op = CreateTask_sql goal title description TaskTodo agent (base + int i)
      (declareKey key i) None now now"
  have "\<exists>x u new. op s = (Inr x, u) \<and> new_tasks goal s new u \<and> declared goal key i u
      \<and> (\<forall>t\<in>set (tasks u). t_goal_id t = goal \<longrightarrow> t_sort_order t < base + int (Suc i))
      \<and> (\<forall>k. k \<noteq> i \<longrightarrow> declared goal key k u = declared goal key k s)
      \<and> (\<not> declared goal key i s \<longrightarrow> map (\<lambda>t. (t_title t, t_description t)) new = [(title, description)]
           \<and> map t_sort_order new = [base + int i])"
  proof (cases "declared goal key i s")
    case True
    then obtain x where "op s = (Inr x, s)"
      unfolding op_def using CreateTask_sql_present by blast
    then show ?thesis
      using 2(3) True by (intro exI [of _ x] exI [of _ s] exI [of _ "[]"]) (auto simp: new_tasks_def)
  next
    case False
    obtain x r where r: "op s = (Inr x, tasks_update (\<lambda>ts. ts @ [r]) s)" "t_goal_id r = goal"
        "t_status r = TaskTodo" "t_sort_order r = base + int i" "t_declare_key r = declareKey key i"
        "t_title r = title" "t_description r = description"
      unfolding op_def using CreateTask_sql_fresh [OF False 2(2,3)] by blast
    then show ?thesis
      using 2(3)
      by (intro exI [of _ x] exI [of _ "tasks_update (\<lambda>ts. ts @ [r]) s"] exI [of _ "[r]"])
        (auto simp: new_tasks_def declared_def)
  qed
  then obtain x u new where u: "op s = (Inr x, u)" "new_tasks goal s new u" "declared goal key i u"
      "\<forall>t\<in>set (tasks u). t_goal_id t = goal \<longrightarrow> t_sort_order t < base + int (Suc i)"
      "\<forall>k. k \<noteq> i \<longrightarrow> declared goal key k u = declared goal key k s"
      "\<not> declared goal key i s \<longrightarrow> map (\<lambda>t. (t_title t, t_description t)) new = [(title, description)]
           \<and> map t_sort_order new = [base + int i]"
    by (elim exE conjE) (rule that)
  have "goal_exists goal u" using 2(2) u(2) by (simp add: goal_exists_def new_tasks_def)
  then obtain t more where t: "create_declared goal agent key now base (Suc i) rest u = (Inr (), t)"
      "new_tasks goal u more t" "\<forall>j<length rest. declared goal key (Suc i + j) t"
      "(\<forall>j<length rest. \<not> declared goal key (Suc i + j) u) \<longrightarrow>
          map (\<lambda>t. (t_title t, t_description t)) more = rest
        \<and> map t_sort_order more = map (\<lambda>j. base + int j) [Suc i..<Suc i + length rest]"
    using 2(1) u(4) by blast
  have i: "declared goal key i t"
    using u(3) t(2) by (auto simp: declared_def new_tasks_def)
  have split: "(\<forall>j<length ((title, description) # rest). P (i + j)) \<longleftrightarrow>
      P i \<and> (\<forall>j<length rest. P (Suc i + j))" for P
    using less_Suc_eq_0_disj by auto
  have upt: "[i..<i + length ((title, description) # rest)] = i # [Suc i..<Suc i + length rest]"
    by (simp add: upt_rec)
  have run: "create_declared goal agent key now base i ((title, description) # rest) s = (Inr (), t)"
    using u(1) t(1) by (simp add: bnd_def op_def)
  have new: "new_tasks goal s (new @ more) t"
    using u(2) t(2) by (auto simp: new_tasks_def)
  have all: "\<forall>j<length ((title, description) # rest). declared goal key (i + j) t"
    using i t(3) by (subst split [of "\<lambda>k. declared goal key k t"]) blast
  have fresh: "map (\<lambda>t. (t_title t, t_description t)) (new @ more) = (title, description) # rest
        \<and> map t_sort_order (new @ more)
            = map (\<lambda>j. base + int j) [i..<i + length ((title, description) # rest)]"
    if none: "\<forall>j<length ((title, description) # rest). \<not> declared goal key (i + j) s"
  proof -
    have "\<not> declared goal key i s" and "\<forall>j<length rest. \<not> declared goal key (Suc i + j) u"
      using none u(5) unfolding split [of "\<lambda>k. \<not> declared goal key k s"] by auto
    then show ?thesis unfolding upt using t(4) u(6) by simp
  qed
  show ?case
    by (rule exI [of _ t], rule exI [of _ "new @ more"], intro conjI impI run new all;
        rule fresh [THEN conjunct1] fresh [THEN conjunct2]; assumption)
qed

end
