(* ===== verification/Atct_Goal_Handoff.thy ===== *)
theory Atct_Goal_Handoff
  imports Atct_Task_Create
begin

text \<open>
  Goal handoffs (\<^verbatim>\<open>internal/store/goal_handoff.go\<close>): a commander requests,
  a subcommander receives, works, submits for review; the reviewer takes the review, rejects or
  completes it; a stopped session is replaced by recovery, or its handoff is reclaimed by the next
  request. Each operation is the Go function of the same name; the writes are one transaction, the
  event is published after it.
\<close>

section \<open>Shared steps\<close>

definition goalHandoffReclaimedReport :: string where
  "goalHandoffReclaimedReport =
     [CHR 0xE3, CHR 0x82, CHR 0xBB, CHR 0xE3, CHR 0x83, CHR 0x83, CHR 0xE3, CHR 0x82, CHR 0xB7,
      CHR 0xE3, CHR 0x83, CHR 0xA7, CHR 0xE3, CHR 0x83, CHR 0xB3, CHR 0xE3, CHR 0x81, CHR 0x8C,
      CHR 0xE5, CHR 0x81, CHR 0x9C, CHR 0xE6, CHR 0xAD, CHR 0xA2, CHR 0xE3, CHR 0x81, CHR 0x97,
      CHR 0xE3, CHR 0x81, CHR 0x9F]"

definition goalHandoffReleasedReport :: string where
  "goalHandoffReleasedReport =
     [CHR 0xE3, CHR 0x82, CHR 0xB4, CHR 0xE3, CHR 0x83, CHR 0xBC, CHR 0xE3, CHR 0x83, CHR 0xAB,
      CHR 0xE3, CHR 0x82, CHR 0x92, CHR 0xE6, CHR 0x89, CHR 0x8B, CHR 0xE6, CHR 0x94, CHR 0xBE,
      CHR 0xE3, CHR 0x81, CHR 0x97, CHR 0xE3, CHR 0x81, CHR 0x9F, CHR 0xEF, CHR 0xBC, CHR 0x88,
      CHR 0xE5, CHR 0xA0, CHR 0xB1, CHR 0xE5, CHR 0x91, CHR 0x8A, CHR 0xE8, CHR 0x80, CHR 0x85,
      CHR 0xE3, CHR 0x81, CHR 0xAA, CHR 0xE3, CHR 0x81, CHR 0x97, CHR 0xEF, CHR 0xBC, CHR 0x89]"

definition goal_entry :: "string \<Rightarrow> string \<Rightarrow> string \<Rightarrow> int \<Rightarrow> time \<Rightarrow> unit store_op" where
  "goal_entry hid kind body author now =
     bnd (appendHandoffEntryTx ''goal_handoff_entries'' hid kind body author [] True now) (\<lambda>_. ret ())"

text \<open>The transaction makes the event; it is published once the transaction is committed.\<close>

definition commit_goal_handoff :: "string \<Rightarrow> event store_op \<Rightarrow> handoff store_op" where
  "commit_goal_handoff hid tx =
     bnd (transaction tx) (\<lambda>event.
     bnd (publishWorkflowEvents [event]) (\<lambda>_.
     GetGoalHandoff hid))"

definition publishGoalHandoffReported :: "handoff \<Rightarrow> unit store_op" where
  "publishGoalHandoffReported completed =
     (if \<not> handoffIsDelegation (nz (h_requested_by completed)) (nz (h_received_by completed)) then ret ()
      else bnd (try_op (GetGoal (h_owner completed))) (\<lambda>r. case r of
        Inl e \<Rightarrow> ret ()
      | Inr goal \<Rightarrow> publishEvent (HandoffReportedEvent (g_project_id goal) (h_owner completed) 0
          (h_id completed) (case h_complete_report completed of None \<Rightarrow> [] | Some v \<Rightarrow> v))))"

text \<open>
  Who can be replaced, and in which phase: the reviewer who took the review, else the receiver,
  else the requester. The task operations have the same switch.
\<close>

definition recovery_phase :: "handoff \<Rightarrow> (string \<times> int) option" where
  "recovery_phase h =
     (if h_review_received_at h \<noteq> None then Some (''review_received'', nz (h_review_received_by h))
      else if h_received_at h \<noteq> None then Some (''received'', nz (h_received_by h))
      else if h_requested_at h \<noteq> None then Some (''requested'', nz (h_requested_by h))
      else None)"

section \<open>Requesting\<close>

definition reclaimOpenGoalHandoffTx :: "string \<Rightarrow> int \<Rightarrow> time \<Rightarrow> (handoff option) store_op" where
  "reclaimOpenGoalHandoffTx handoffID goalID now =
     bnd (ListGoalHandoffs_sql goalID) (\<lambda>rows.
     bnd (pick_one (ErrGoalHandoff AlreadyOpen)
            (filter (\<lambda>h. handoff_open h \<and> h_id h \<noteq> handoffID) rows)) (\<lambda>found. case found of
       None \<Rightarrow> ret None
     | Some h \<Rightarrow>
         (let owner = (if nz (h_received_by h) = 0 then nz (h_requested_by h) else nz (h_received_by h))
          in bnd (ask (agentSessionLiveInQueries owner now)) (\<lambda>live.
             bnd (check (\<not> (owner = 0 \<or> live)) (ErrGoalHandoff AlreadyOpen)) (\<lambda>_.
             bnd (CompleteGoalHandoff_sql (h_id h) goalID now (Some goalHandoffReclaimedReport)) (\<lambda>n.
             bnd (check (n = 1) (Failure ''reclaim goal handoff was not completed'')) (\<lambda>_.
             bnd (goal_entry (h_id h) ''completed'' goalHandoffReclaimedReport (nz (h_received_by h)) now) (\<lambda>_.
             ret (Some (close_row now (Some goalHandoffReclaimedReport) h))))))))))"

definition reclaimOpenGoalHandoff :: "string \<Rightarrow> int \<Rightarrow> time \<Rightarrow> unit store_op" where
  "reclaimOpenGoalHandoff handoffID goalID now =
     bnd (transaction (reclaimOpenGoalHandoffTx handoffID goalID now)) (\<lambda>reclaimed. case reclaimed of
       None \<Rightarrow> ret () | Some h \<Rightarrow> publishGoalHandoffReported h)"

definition requestGoalHandoff ::
  "string \<Rightarrow> int \<Rightarrow> int \<Rightarrow> string \<Rightarrow> bool \<Rightarrow> time \<Rightarrow> handoff store_op" where
  "requestGoalHandoff handoffID goalID requestedBy requestReport requireLiveClaim now =
     bnd (ensureGoalHandoffGoalForRequest handoffID goalID) (\<lambda>_.
     bnd (try_op (GetGoalHandoff handoffID)) (\<lambda>r.
     bnd (case r of
            Inl e \<Rightarrow> if e = ErrGoalHandoff NotFound then ret () else fail e
          | Inr existing \<Rightarrow> check (h_recovered_at existing = None) (ErrGoalHandoff ReviewState)) (\<lambda>_.
     bnd (if requireLiveClaim then requireProjectClaimForGoal goalID requestedBy now else ret ()) (\<lambda>_.
     bnd (if blank requestReport then ret requestReport
          else normalizeHandoffEntryBody requestReport) (\<lambda>report.
     bnd (transaction
       (bnd (try_op (GetGoalHandoff_sql handoffID)) (\<lambda>r.
        bnd (case r of
               Inl e \<Rightarrow> if e = NoRows then ret () else fail e
             | Inr existing \<Rightarrow>
                 check (h_completed_report_at existing = None) (EntryE ErrHandoffEntryTerminal)) (\<lambda>_.
        bnd (reclaimOpenGoalHandoffTx handoffID goalID now) (\<lambda>reclaimed.
        bnd (CountGoalHandoffRequestEntries_sql handoffID) (\<lambda>existingEntryCount.
        bnd (RequestGoalHandoff_sql handoffID goalID (nullable requestedBy) now
               (if report = [] then None else Some report)) (\<lambda>_.
        bnd (if existingEntryCount = 0
             then goal_entry handoffID ''request'' (if blank report then ''requested'' else report)
                    requestedBy now
             else ret ()) (\<lambda>_.
        bnd (GetGoalProjectID_sql goalID) (\<lambda>projectID.
        ret (reclaimed, HandoffEvent ''goal.handoff.request'' projectID goalID 0 handoffID requestedBy
               report)))))))))) (\<lambda>(reclaimed, event).
     bnd (case reclaimed of None \<Rightarrow> ret () | Some h \<Rightarrow> publishGoalHandoffReported h) (\<lambda>_.
     bnd (publishWorkflowEvents [event]) (\<lambda>_.
     GetGoalHandoff handoffID))))))))"

definition RequestGoalHandoff :: "string \<Rightarrow> int \<Rightarrow> int \<Rightarrow> string \<Rightarrow> time \<Rightarrow> handoff store_op" where
  "RequestGoalHandoff handoffID goalID requestedBy requestReport now =
     bnd (requireUndiscardedSession requestedBy) (\<lambda>_.
     requestGoalHandoff handoffID goalID requestedBy requestReport True now)"

definition requestGoalHandoffForClaim :: "string \<Rightarrow> int \<Rightarrow> int \<Rightarrow> time \<Rightarrow> handoff store_op" where
  "requestGoalHandoffForClaim handoffID goalID requestedBy now =
     requestGoalHandoff handoffID goalID requestedBy [] False now"

section \<open>Receiving\<close>

definition ReceiveGoalHandoff ::
  "string \<Rightarrow> int \<Rightarrow> int \<Rightarrow> time \<Rightarrow> (handoff \<times> handoff_entry_page) store_op" where
  "ReceiveGoalHandoff handoffID goalID receivedBy now =
     bnd (requireUndiscardedSession receivedBy) (\<lambda>_.
     bnd (ensureGoalHandoffGoal handoffID goalID) (\<lambda>_.
     bnd (transaction
       (bnd (map_error (\<lambda>e. if e = NoRows then ErrGoalHandoff NotFound else e)
               (GetGoalHandoff_sql handoffID)) (\<lambda>current.
        bnd (check (h_owner current = goalID \<and> h_requested_at current \<noteq> None)
               (ErrGoalHandoff NotFound)) (\<lambda>_.
        if h_received_at current \<noteq> None \<and> h_received_by current = Some receivedBy then
          bnd (listHandoffEntries ''goal_handoff_entries'' handoffID 0 HandoffHistoryMaxLimit) (\<lambda>page.
          ret (page, NoEvent))
        else
          bnd (ReassignGoalDecisionsToReceiver_sql receivedBy goalID) (\<lambda>_.
          bnd (ReceiveGoalHandoff_sql handoffID goalID (nullable receivedBy) now (leaseCutoff now)) (\<lambda>n.
          bnd (if n = 0 then
                 bnd (goalHandoffRefusal handoffID) (\<lambda>(requested, receiver).
                 fail (ErrGoalHandoff (if requested \<and> receiver \<noteq> 0 then LiveReceiver else NotFound)))
               else ret ()) (\<lambda>_.
          bnd (goal_entry handoffID ''received'' ''received'' receivedBy now) (\<lambda>_.
          bnd (listHandoffEntries ''goal_handoff_entries'' handoffID 0 HandoffHistoryMaxLimit) (\<lambda>page.
          bnd (GetGoalProjectID_sql goalID) (\<lambda>projectID.
          ret (page, HandoffEvent ''goal.handoff.receive'' projectID goalID 0 handoffID receivedBy []))))))))))) (\<lambda>(page, event).
     bnd (GetGoalHandoff handoffID) (\<lambda>received.
     bnd (publishWorkflowEvents [event]) (\<lambda>_.
     ret (received, page))))))"

definition ReceiveGoalHandoffForGoal ::
  "int \<Rightarrow> int \<Rightarrow> time \<Rightarrow> (handoff \<times> handoff_entry_page) store_op" where
  "ReceiveGoalHandoffForGoal goalID receivedBy now =
     bnd (ListGoalHandoffs goalID) (\<lambda>handoffs.
     bnd (pick_pending (ErrGoalHandoff NotFound) (ErrGoalHandoff Ambiguous)
            (filter (\<lambda>h. h_requested_at h \<noteq> None \<and> h_received_at h = None \<and> h_recovered_at h = None)
               handoffs)) (\<lambda>h.
     ReceiveGoalHandoff (h_id h) goalID receivedBy now))"

section \<open>The review cycle\<close>

definition goal_review_event :: "string \<Rightarrow> int \<Rightarrow> string \<Rightarrow> int \<Rightarrow> string \<Rightarrow> event store_op" where
  "goal_review_event name goalID handoffID reviewer report =
     bnd (GetGoalProjectID_sql goalID) (\<lambda>projectID.
     ret (HandoffReviewEvent name projectID goalID 0 handoffID reviewer report))"

definition RequestGoalHandoffReview ::
  "string \<Rightarrow> int \<Rightarrow> int \<Rightarrow> string \<Rightarrow> time \<Rightarrow> handoff store_op" where
  "RequestGoalHandoffReview handoffID goalID requestedBy reviewRequestReport now =
     bnd (requireUndiscardedSession requestedBy) (\<lambda>_.
     bnd (check (\<not> completeReportIsEmpty reviewRequestReport) (ErrGoalHandoff ReviewReportEmpty)) (\<lambda>_.
     bnd (GetGoalHandoff handoffID) (\<lambda>h.
     bnd (check (h_owner h = goalID) (ErrGoalHandoff OwnerMismatch)) (\<lambda>_.
     bnd (check (h_requested_at h \<noteq> None \<and> h_received_at h \<noteq> None \<and> h_completed_report_at h = None)
            (ErrGoalHandoff ReviewState)) (\<lambda>_.
     bnd (check (nz (h_received_by h) \<noteq> 0 \<and> nz (h_received_by h) = requestedBy)
            (ErrGoalHandoff ReviewReviewerMismatch)) (\<lambda>_.
     bnd (check (h_review_requested_at h = None \<or> h_review_rejected_at h \<noteq> None)
            (ErrGoalHandoff ReviewState)) (\<lambda>_.
     commit_goal_handoff handoffID
       (bnd (CountOpenDecisionsForGoal_sql goalID) (\<lambda>open.
        bnd (check (open = 0) openGoalBlockersError) (\<lambda>_.
        bnd (RequestGoalHandoffReview_sql handoffID goalID requestedBy now reviewRequestReport) (\<lambda>affected.
        bnd (check (affected \<noteq> 0) (ErrGoalHandoff ReviewState)) (\<lambda>_.
        bnd (SupersedeOpenTaskCreateHandoff_sql now
               ''superseded: goal review re-requested without new tasks'' goalID) (\<lambda>_.
        bnd (goal_entry handoffID ''review_requested'' reviewRequestReport requestedBy now) (\<lambda>_.
        goal_review_event ''goal.handoff.review.request'' goalID handoffID requestedBy
          reviewRequestReport))))))))))))))"

definition ReceiveGoalHandoffReview :: "string \<Rightarrow> int \<Rightarrow> int \<Rightarrow> time \<Rightarrow> handoff store_op" where
  "ReceiveGoalHandoffReview handoffID goalID receivedBy now =
     bnd (requireUndiscardedSession receivedBy) (\<lambda>_.
     bnd (GetGoalHandoff handoffID) (\<lambda>h.
     bnd (check (h_owner h = goalID) (ErrGoalHandoff OwnerMismatch)) (\<lambda>_.
     (let reReceive = (h_review_received_at h \<noteq> None \<and> nz (h_review_received_by h) \<noteq> receivedBy
                       \<and> h_completed_report_at h = None \<and> h_review_rejected_at h = None
                       \<and> h_recovered_at h = None)
      in bnd (if reReceive then
                map_error (\<lambda>_. ErrGoalHandoff ReviewState)
                  (requireProjectClaimForGoal goalID receivedBy now)
              else
                check (\<not> (h_review_requested_at h = None \<or> h_completed_report_at h \<noteq> None
                           \<or> h_review_received_at h \<noteq> None \<or> h_review_rejected_at h \<noteq> None
                           \<or> h_review_rejection_received_at h \<noteq> None))
                  (ErrGoalHandoff ReviewState)) (\<lambda>_.
         bnd (if \<not> reReceive \<and> (receivedBy = 0 \<or> nz (h_requested_by h) \<noteq> receivedBy) then
                map_error (\<lambda>_. ErrGoalHandoff ReviewReviewerMismatch)
                  (requireProjectClaimForGoal goalID receivedBy now)
              else ret ()) (\<lambda>_.
         commit_goal_handoff handoffID
           (bnd (if reReceive then
                   ReReceiveGoalHandoffReview_sql handoffID goalID receivedBy
                     (nz (h_review_received_by h)) now
                 else ReceiveGoalHandoffReview_sql handoffID goalID receivedBy now) (\<lambda>affected.
            bnd (check (affected \<noteq> 0) (ErrGoalHandoff ReviewState)) (\<lambda>_.
            bnd (goal_entry handoffID ''review_received'' ''received'' receivedBy now) (\<lambda>_.
            goal_review_event ''goal.handoff.review.receive'' goalID handoffID receivedBy []))))))))))"

definition RecoverGoalHandoff ::
  "string \<Rightarrow> int \<Rightarrow> int \<Rightarrow> string \<Rightarrow> time \<Rightarrow> handoff store_op" where
  "RecoverGoalHandoff handoffID goalID callerID reason now =
     bnd (requireUndiscardedSession callerID) (\<lambda>_.
     bnd (requireProjectClaimForGoal goalID callerID now) (\<lambda>_.
     bnd (GetGoalHandoff handoffID) (\<lambda>h.
     bnd (check (h_owner h = goalID \<and> h_completed_report_at h = None) (ErrGoalHandoff ReviewState)) (\<lambda>_.
     if h_recovered_at h \<noteq> None then ret h
     else
       bnd (need (ErrGoalHandoff ReviewState) (recovery_phase h)) (\<lambda>(phase, stale).
       bnd (check (\<not> (stale = 0 \<or> stale = callerID)) (ErrGoalHandoff ReviewReviewerMismatch)) (\<lambda>_.
       bnd (transaction
         (bnd (canRecoverSessionInTx stale now) (\<lambda>proof.
          bnd (if phase = ''review_received'' then
                 RecoverGoalHandoffReview_sql handoffID goalID stale (proof_PID proof) (proof_StartedAt proof)
               else if phase = ''received'' then
                 RecoverGoalHandoffReceiver_sql handoffID goalID stale (proof_PID proof)
                   (proof_StartedAt proof) now reason
               else
                 RecoverGoalHandoffRequester_sql handoffID goalID stale (proof_PID proof)
                   (proof_StartedAt proof) now reason) (\<lambda>affected.
          bnd (check (affected = 1) (ErrGoalHandoff ReviewState)) (\<lambda>_.
          goal_entry handoffID ''request'' (''recovered: '' @ reason) callerID now))))) (\<lambda>_.
       GetGoalHandoff handoffID)))))))"

definition RejectGoalHandoffReview ::
  "string \<Rightarrow> int \<Rightarrow> int \<Rightarrow> string \<Rightarrow> string \<Rightarrow> time \<Rightarrow> handoff store_op" where
  "RejectGoalHandoffReview handoffID goalID reviewerID rejectReport uuid now =
     bnd (requireUndiscardedSession reviewerID) (\<lambda>_.
     bnd (check (\<not> completeReportIsEmpty rejectReport) (ErrGoalHandoff ReviewReportEmpty)) (\<lambda>_.
     bnd (GetGoalHandoff handoffID) (\<lambda>h.
     bnd (check (h_owner h = goalID) (ErrGoalHandoff OwnerMismatch)) (\<lambda>_.
     bnd (check (h_review_received_at h \<noteq> None \<and> h_completed_report_at h = None)
            (ErrGoalHandoff ReviewState)) (\<lambda>_.
     bnd (if nz (h_review_received_by h) \<noteq> reviewerID then
            map_error (\<lambda>_. ErrGoalHandoff ReviewReviewerMismatch)
              (requireProjectClaimForGoal goalID reviewerID now)
          else ret ()) (\<lambda>_.
     commit_goal_handoff handoffID
       (bnd (RejectGoalHandoffReview_sql handoffID goalID now rejectReport) (\<lambda>affected.
        bnd (check (affected \<noteq> 0) (ErrGoalHandoff ReviewState)) (\<lambda>_.
        bnd (goal_entry handoffID ''review_rejected'' rejectReport reviewerID now) (\<lambda>_.
        bnd (ListTaskCreateHandoffs_sql goalID) (\<lambda>existing.
        bnd (if list_ex create_open existing then ret uuid
             else createTaskCreateHandoffTx uuid goalID reviewerID now) (\<lambda>_.
        goal_review_event ''goal.handoff.review.reject'' goalID handoffID reviewerID
          rejectReport))))))))))))"

definition ReceiveGoalHandoffReviewRejection :: "string \<Rightarrow> int \<Rightarrow> int \<Rightarrow> time \<Rightarrow> handoff store_op" where
  "ReceiveGoalHandoffReviewRejection handoffID goalID receivedBy now =
     bnd (requireUndiscardedSession receivedBy) (\<lambda>_.
     bnd (GetGoalHandoff handoffID) (\<lambda>h.
     bnd (check (h_owner h = goalID) (ErrGoalHandoff OwnerMismatch)) (\<lambda>_.
     bnd (check (h_review_rejected_at h \<noteq> None \<and> h_completed_report_at h = None
            \<and> nz (h_received_by h) = receivedBy \<and> receivedBy \<noteq> 0) (ErrGoalHandoff ReviewState)) (\<lambda>_.
     commit_goal_handoff handoffID
       (bnd (ReceiveGoalHandoffReviewRejection_sql handoffID goalID receivedBy now) (\<lambda>affected.
        bnd (check (affected \<noteq> 0) (ErrGoalHandoff ReviewState)) (\<lambda>_.
        bnd (goal_entry handoffID ''received'' ''review rejection received'' receivedBy now) (\<lambda>_.
        ret NoEvent))))))))"

section \<open>Completing\<close>

definition CompleteGoalHandoffByReviewer ::
  "string \<Rightarrow> int \<Rightarrow> int \<Rightarrow> string \<Rightarrow> time \<Rightarrow> handoff store_op" where
  "CompleteGoalHandoffByReviewer handoffID goalID reviewerID completeReport now =
     bnd (requireUndiscardedSession reviewerID) (\<lambda>_.
     bnd (check (\<not> completeReportIsEmpty completeReport) (ErrGoalHandoff ReportEmpty)) (\<lambda>_.
     bnd (GetGoalHandoff handoffID) (\<lambda>h.
     bnd (check (h_owner h = goalID) (ErrGoalHandoff OwnerMismatch)) (\<lambda>_.
     bnd (check (h_review_received_at h \<noteq> None \<and> h_completed_report_at h = None)
            (ErrGoalHandoff ReviewState)) (\<lambda>_.
     bnd (check (nz (h_review_received_by h) = reviewerID) (ErrGoalHandoff ReviewReviewerMismatch)) (\<lambda>_.
     bnd (check (\<not> (nz (h_requested_by h) \<noteq> 0 \<and> nz (h_received_by h) \<noteq> 0
                    \<and> nz (h_requested_by h) \<noteq> nz (h_received_by h))) (ErrGoalHandoff ReviewState)) (\<lambda>_.
     commit_goal_handoff handoffID
       (bnd (CompleteGoalHandoffByReviewer_sql handoffID goalID (Some reviewerID) now completeReport) (\<lambda>affected.
        bnd (check (affected \<noteq> 0) (ErrGoalHandoff ReviewState)) (\<lambda>_.
        bnd (goal_entry handoffID ''completed'' completeReport reviewerID now) (\<lambda>_.
        bnd (GetGoalProjectID_sql goalID) (\<lambda>projectID.
        ret (HandoffReportedEvent projectID goalID 0 handoffID completeReport)))))))))))))"

definition CompleteGoalHandoff :: "string \<Rightarrow> int \<Rightarrow> string \<Rightarrow> time \<Rightarrow> handoff store_op" where
  "CompleteGoalHandoff handoffID goalID completeReport now =
     bnd (check (\<not> completeReportIsEmpty completeReport) (ErrGoalHandoff ReportEmpty)) (\<lambda>_.
     bnd (ensureGoalHandoffGoal handoffID goalID) (\<lambda>_.
     bnd (GetGoalHandoff handoffID) (\<lambda>h.
     bnd (check (h_recovered_at h = None) (ErrGoalHandoff ReviewState)) (\<lambda>_.
     bnd (check (\<not> (handoffIsDelegation (nz (h_requested_by h)) (nz (h_received_by h))
                    \<and> completeReport \<noteq> goalHandoffReclaimedReport
                    \<and> completeReport \<noteq> goalHandoffReleasedReport)) (ErrGoalHandoff ReviewState)) (\<lambda>_.
     bnd (transaction
       (bnd (map_error (\<lambda>e. if e = NoRows then ErrGoalHandoff NotFound else e)
               (GetGoalHandoff_sql handoffID)) (\<lambda>current.
        bnd (check (h_owner current = goalID) (ErrGoalHandoff OwnerMismatch)) (\<lambda>_.
        bnd (check (h_received_at current \<noteq> None) (EntryE ErrHandoffEntryParticipant)) (\<lambda>_.
        bnd (CompleteGoalHandoff_sql handoffID goalID now
               (if completeReport = [] then None else Some completeReport)) (\<lambda>n.
        bnd (check (n \<noteq> 0) (if h_completed_report_at h \<noteq> None then Failure ''goal handoff is already reported''
                             else ErrGoalHandoff NotFound)) (\<lambda>_.
        bnd (goal_entry handoffID ''completed'' completeReport (nz (h_received_by current)) now) (\<lambda>_.
        if handoffIsDelegation (nz (h_requested_by h)) (nz (h_received_by h)) then
          bnd (GetGoalProjectID_sql goalID) (\<lambda>projectID.
          ret (HandoffReportedEvent projectID goalID 0 handoffID completeReport))
        else ret NoEvent)))))))) (\<lambda>event.
     bnd (GetGoalHandoff handoffID) (\<lambda>completed.
     bnd (publishWorkflowEvents [event]) (\<lambda>_.
     ret completed))))))))"

definition CompleteGoalHandoffForGoal :: "int \<Rightarrow> string \<Rightarrow> time \<Rightarrow> handoff store_op" where
  "CompleteGoalHandoffForGoal goalID completeReport now =
     bnd (ListGoalHandoffs goalID) (\<lambda>handoffs.
     bnd (pick_pending (ErrGoalHandoff NotFound) (ErrGoalHandoff Ambiguous)
            (filter (\<lambda>h. h_requested_at h \<noteq> None \<and> h_received_at h \<noteq> None
                       \<and> h_completed_report_at h = None \<and> h_recovered_at h = None) handoffs)) (\<lambda>h.
     CompleteGoalHandoff (h_id h) goalID completeReport now))"

definition AmendGoalHandoffReport :: "string \<Rightarrow> int \<Rightarrow> string \<Rightarrow> time \<Rightarrow> handoff store_op" where
  "AmendGoalHandoffReport handoffID goalID completeReport now =
     bnd (check (\<not> completeReportIsEmpty completeReport) (ErrGoalHandoff ReportEmpty)) (\<lambda>_.
     bnd (ensureGoalHandoffGoal handoffID goalID) (\<lambda>_.
     commit_goal_handoff handoffID
       (bnd (map_error (\<lambda>e. if e = NoRows then ErrGoalHandoff NotFound else e)
               (GetGoalHandoff_sql handoffID)) (\<lambda>current.
        bnd (check (h_owner current = goalID) (ErrGoalHandoff OwnerMismatch)) (\<lambda>_.
        bnd (AmendGoalHandoffReport_sql handoffID goalID completeReport) (\<lambda>n.
        bnd (check (n \<noteq> 0) (Failure ''goal handoff is not yet completed'')) (\<lambda>_.
        bnd (check (0 < nz (h_received_by current)) (EntryE ErrHandoffEntryParticipant)) (\<lambda>_.
        bnd (goal_entry handoffID ''completed'' completeReport (nz (h_received_by current)) now) (\<lambda>_.
        ret NoEvent)))))))))"

section \<open>Every operation moves the store forward\<close>

lemma goal_entry_le [le_queries]: "evolves store_le (goal_entry hid kind body author now)"
  unfolding goal_entry_def by (rule le_rules le_queries)+

lemma publishGoalHandoffReported_total [total_intros]: "total_op (publishGoalHandoffReported h)"
  unfolding publishGoalHandoffReported_def by (rule total_intros)+

lemma publishGoalHandoffReported_same: "evolves same_tables (publishGoalHandoffReported h)"
  unfolding publishGoalHandoffReported_def
  by (rule same_tables.ev_rules publish_same_tables | rule same_tables.ev_reads, rule reads_intros)+

lemma publishGoalHandoffReported_le [le_queries]: "evolves store_le (publishGoalHandoffReported h)"
  using publishGoalHandoffReported_same [of h] unfolding evolves_def by (blast intro: same_tables_le)

lemma commit_goal_handoff_le [le_queries]:
  "evolves store_le tx \<Longrightarrow> evolves store_le (commit_goal_handoff hid tx)"
  unfolding commit_goal_handoff_def
  by (rule le_rules reads_intros | assumption | rule store_le.ev_reads, rule reads_intros)+

lemma reads_goal_review_event [reads_intros]: "reads (goal_review_event name g hid i report)"
  unfolding goal_review_event_def by (rule reads_intros)+

lemma reclaim_goal_le [le_queries]:
  "evolves store_le (reclaimOpenGoalHandoffTx hid goal now)"
  "evolves store_le (reclaimOpenGoalHandoff hid goal now)"
  unfolding reclaimOpenGoalHandoff_def reclaimOpenGoalHandoffTx_def Let_def
  by (rule le_rules le_queries reads_intros | rule store_le.ev_reads, rule reads_intros)+

lemma requestGoalHandoff_le [le_queries]:
  "evolves store_le (requestGoalHandoff hid goal i report live now)"
  unfolding requestGoalHandoff_def
  by (rule le_rules le_queries reads_intros | rule store_le.ev_reads, rule reads_intros)+

lemma ReceiveGoalHandoff_le [le_queries]: "evolves store_le (ReceiveGoalHandoff hid goal i now)"
  unfolding ReceiveGoalHandoff_def
  by (rule le_rules le_queries reads_intros | rule store_le.ev_reads, rule reads_intros)+

lemma CompleteGoalHandoff_le [le_queries]: "evolves store_le (CompleteGoalHandoff hid goal report now)"
  unfolding CompleteGoalHandoff_def
  by (rule le_rules le_queries reads_intros | rule store_le.ev_reads, rule reads_intros)+

lemma goal_handoff_ops_le [le_queries]:
  "evolves store_le (RequestGoalHandoff hid goal i report now)"
  "evolves store_le (requestGoalHandoffForClaim hid goal i now)"
  "evolves store_le (ReceiveGoalHandoffForGoal goal i now)"
  "evolves store_le (RequestGoalHandoffReview hid goal i report now)"
  "evolves store_le (ReceiveGoalHandoffReview hid goal i now)"
  "evolves store_le (RecoverGoalHandoff hid goal i reason now)"
  "evolves store_le (RejectGoalHandoffReview hid goal i report uuid now)"
  "evolves store_le (ReceiveGoalHandoffReviewRejection hid goal i now)"
  "evolves store_le (CompleteGoalHandoffByReviewer hid goal i report now)"
  "evolves store_le (CompleteGoalHandoffForGoal goal report now)"
  "evolves store_le (AmendGoalHandoffReport hid goal report now)"
  unfolding RequestGoalHandoff_def requestGoalHandoffForClaim_def ReceiveGoalHandoffForGoal_def
    RequestGoalHandoffReview_def ReceiveGoalHandoffReview_def RecoverGoalHandoff_def
    RejectGoalHandoffReview_def ReceiveGoalHandoffReviewRejection_def
    CompleteGoalHandoffByReviewer_def CompleteGoalHandoffForGoal_def AmendGoalHandoffReport_def Let_def
  by (rule le_rules le_queries reads_intros | rule store_le.ev_reads, rule reads_intros)+

end
