(* ===== verification/Atct_Task_Handoff.thy ===== *)
theory Atct_Task_Handoff
  imports Atct_Goal_Handoff
begin

text \<open>
  Task handoffs (\<^verbatim>\<open>internal/store/task_handoff.go\<close>): the holder of the goal handoff
  requests, a session receives and works, submits for review, and the requester (or whoever holds
  the goal now) accepts or rejects. The operations also move the status of the task: a request
  makes it todo, a receipt doing, a review request review, a rejection doing, an acceptance done.
\<close>

section \<open>Shared steps\<close>

definition taskHandoffReclaimedReport :: string where
  "taskHandoffReclaimedReport = goalHandoffReclaimedReport"

definition taskHandoffReleasedReport :: string where
  "taskHandoffReleasedReport =
     [CHR 0xE4, CHR 0xBD, CHR 0x9C, CHR 0xE6, CHR 0xA5, CHR 0xAD, CHR 0xE3, CHR 0x83, CHR 0xAD,
      CHR 0xE3, CHR 0x83, CHR 0x83, CHR 0xE3, CHR 0x82, CHR 0xAF, CHR 0xE3, CHR 0x82, CHR 0x92,
      CHR 0xE6, CHR 0x89, CHR 0x8B, CHR 0xE6, CHR 0x94, CHR 0xBE, CHR 0xE3, CHR 0x81, CHR 0x97,
      CHR 0xE3, CHR 0x81, CHR 0x9F, CHR 0xEF, CHR 0xBC, CHR 0x88, CHR 0xE5, CHR 0xA0, CHR 0xB1,
      CHR 0xE5, CHR 0x91, CHR 0x8A, CHR 0xE8, CHR 0x80, CHR 0x85, CHR 0xE3, CHR 0x81, CHR 0xAA,
      CHR 0xE3, CHR 0x81, CHR 0x97, CHR 0xEF, CHR 0xBC, CHR 0x89]"

definition task_entry :: "string \<Rightarrow> string \<Rightarrow> string \<Rightarrow> int \<Rightarrow> time \<Rightarrow> unit store_op" where
  "task_entry hid kind body author now =
     bnd (appendHandoffEntryTx ''task_handoff_entries'' hid kind body author [] True now) (\<lambda>_. ret ())"

definition set_task_status :: "TaskStatus \<Rightarrow> time \<Rightarrow> int \<Rightarrow> unit store_op" where
  "set_task_status st now taskID =
     bnd (UpdateTaskStatus_sql st now taskID) (\<lambda>affected. check (affected \<noteq> 0) (TaskE ErrTaskNotFound))"

definition commit_task_handoff :: "string \<Rightarrow> event store_op \<Rightarrow> handoff store_op" where
  "commit_task_handoff hid tx =
     bnd (transaction tx) (\<lambda>event.
     bnd (publishWorkflowEvents [event]) (\<lambda>_.
     GetTaskHandoff hid))"

definition publishTaskHandoffReported :: "handoff \<Rightarrow> unit store_op" where
  "publishTaskHandoffReported completed =
     (if \<not> handoffIsDelegation (nz (h_requested_by completed)) (nz (h_received_by completed)) then ret ()
      else bnd (try_op (GetTaskGoalID_sql (h_owner completed))) (\<lambda>r. case r of
        Inl e \<Rightarrow> ret ()
      | Inr goalID \<Rightarrow> bnd (try_op (GetGoal goalID)) (\<lambda>r. case r of
          Inl e \<Rightarrow> ret ()
        | Inr goal \<Rightarrow> publishEvent (HandoffReportedEvent (g_project_id goal) goalID (h_owner completed)
            (h_id completed) (case h_complete_report completed of None \<Rightarrow> [] | Some v \<Rightarrow> v)))))"

definition task_review_event :: "string \<Rightarrow> int \<Rightarrow> string \<Rightarrow> int \<Rightarrow> string \<Rightarrow> event store_op" where
  "task_review_event name taskID handoffID reviewer report =
     bnd (taskWorkflowEventScope taskID) (\<lambda>(projectID, goalID).
     ret (HandoffReviewEvent name projectID goalID taskID handoffID reviewer report))"

text \<open>The questions of the open decisions go into the message of the error, which is left out.\<close>

definition listOpenTaskDecisions :: "int \<Rightarrow> ((int \<times> string) list) store_op" where
  "listOpenTaskDecisions taskID =
     bnd ListAllOpenDecisions_sql (\<lambda>rows.
     ret (map (\<lambda>d. (d_id d, d_question d)) (filter (\<lambda>d. d_task_id d = Some taskID) rows)))"

definition taskHasOpenDecisionsError :: "int \<Rightarrow> (int \<times> string) list \<Rightarrow> error" where
  "taskHasOpenDecisionsError taskID ds = DecisionE ErrTaskHasOpenDecision"

definition refuse_open_decisions :: "int \<Rightarrow> unit store_op" where
  "refuse_open_decisions taskID =
     bnd (CountOpenDecisionsForTask_sql taskID) (\<lambda>open.
     if 0 < open then
       bnd (listOpenTaskDecisions taskID) (\<lambda>ds. fail (taskHasOpenDecisionsError taskID ds))
     else ret ())"

section \<open>Requesting\<close>

definition reclaimOpenTaskHandoffTx :: "string \<Rightarrow> int \<Rightarrow> time \<Rightarrow> (handoff option) store_op" where
  "reclaimOpenTaskHandoffTx handoffID taskID now =
     bnd (ListTaskHandoffs_sql taskID) (\<lambda>rows.
     bnd (pick_one (ErrTaskHandoff AlreadyOpen)
            (filter (\<lambda>h. handoff_open h \<and> h_id h \<noteq> handoffID) rows)) (\<lambda>found. case found of
       None \<Rightarrow> ret None
     | Some h \<Rightarrow>
         (let owner = (if nz (h_received_by h) = 0 then nz (h_requested_by h) else nz (h_received_by h))
          in bnd (ask (agentSessionLiveInQueries owner now)) (\<lambda>live.
             bnd (check (\<not> (owner = 0 \<or> live)) (ErrTaskHandoff AlreadyOpen)) (\<lambda>_.
             bnd (CompleteTaskHandoff_sql (h_id h) taskID now (Some taskHandoffReclaimedReport)) (\<lambda>n.
             bnd (check (n = 1) (Failure ''reclaim task handoff was not completed'')) (\<lambda>_.
             bnd (task_entry (h_id h) ''completed'' taskHandoffReclaimedReport (nz (h_received_by h)) now) (\<lambda>_.
             ret (Some (close_row now (Some taskHandoffReclaimedReport) h))))))))))"

definition reclaimOpenTaskHandoff :: "string \<Rightarrow> int \<Rightarrow> time \<Rightarrow> unit store_op" where
  "reclaimOpenTaskHandoff handoffID taskID now =
     bnd (transaction (reclaimOpenTaskHandoffTx handoffID taskID now)) (\<lambda>reclaimed. case reclaimed of
       None \<Rightarrow> ret () | Some h \<Rightarrow> publishTaskHandoffReported h)"

definition requestTaskHandoff ::
  "string \<Rightarrow> int \<Rightarrow> int \<Rightarrow> string \<Rightarrow> bool \<Rightarrow> time \<Rightarrow> handoff store_op" where
  "requestTaskHandoff handoffID taskID requestedBy requestReport requireLiveClaim now =
     bnd (requireUndiscardedSession requestedBy) (\<lambda>_.
     bnd (ensureTaskHandoffTaskForRequest handoffID taskID) (\<lambda>_.
     bnd (try_op (GetTaskHandoff handoffID)) (\<lambda>r.
     bnd (case r of
            Inl e \<Rightarrow> if e = ErrTaskHandoff NotFound then ret () else fail e
          | Inr existing \<Rightarrow> check (h_recovered_at existing = None) (ErrTaskHandoff RecoveryState)) (\<lambda>_.
     bnd (if requireLiveClaim then requireGoalHandoffForTask taskID requestedBy now else ret ()) (\<lambda>_.
     bnd (if blank requestReport then ret requestReport
          else normalizeHandoffEntryBody requestReport) (\<lambda>report.
     bnd (transaction
       (bnd (try_op (GetTaskHandoff_sql handoffID)) (\<lambda>r.
        bnd (case r of
               Inl e \<Rightarrow> if e = NoRows then ret () else fail e
             | Inr existing \<Rightarrow>
                 check (h_completed_report_at existing = None) (EntryE ErrHandoffEntryTerminal)) (\<lambda>_.
        bnd (reclaimOpenTaskHandoffTx handoffID taskID now) (\<lambda>reclaimed.
        bnd (CountTaskHandoffRequestEntries_sql handoffID) (\<lambda>existingEntryCount.
        bnd (RequestTaskHandoff_sql handoffID taskID (nullable requestedBy) now
               (if report = [] then None else Some report)) (\<lambda>_.
        bnd (if existingEntryCount = 0
             then task_entry handoffID ''request'' (if blank report then ''requested'' else report)
                    requestedBy now
             else ret ()) (\<lambda>_.
        bnd (set_task_status TaskTodo now taskID) (\<lambda>_.
        bnd (taskWorkflowEventScope taskID) (\<lambda>(projectID, goalID).
        ret (reclaimed, HandoffEvent ''task.handoff.request'' projectID goalID taskID handoffID
               requestedBy report))))))))))) (\<lambda>(reclaimed, event).
     bnd (case reclaimed of None \<Rightarrow> ret () | Some h \<Rightarrow> publishTaskHandoffReported h) (\<lambda>_.
     bnd (publishWorkflowEvents [event]) (\<lambda>_.
     GetTaskHandoff handoffID)))))))))"

definition RequestTaskHandoff :: "string \<Rightarrow> int \<Rightarrow> int \<Rightarrow> string \<Rightarrow> time \<Rightarrow> handoff store_op" where
  "RequestTaskHandoff handoffID taskID requestedBy requestReport now =
     requestTaskHandoff handoffID taskID requestedBy requestReport True now"

definition requestTaskHandoffForClaim :: "string \<Rightarrow> int \<Rightarrow> int \<Rightarrow> time \<Rightarrow> handoff store_op" where
  "requestTaskHandoffForClaim handoffID taskID requestedBy now =
     requestTaskHandoff handoffID taskID requestedBy [] False now"

section \<open>Receiving\<close>

definition ReceiveTaskHandoff ::
  "string \<Rightarrow> int \<Rightarrow> int \<Rightarrow> time \<Rightarrow> (handoff \<times> handoff_entry_page) store_op" where
  "ReceiveTaskHandoff handoffID taskID receivedBy now =
     bnd (requireUndiscardedSession receivedBy) (\<lambda>_.
     bnd (ensureTaskHandoffTask handoffID taskID) (\<lambda>_.
     bnd (transaction
       (bnd (map_error (\<lambda>e. if e = NoRows then ErrTaskHandoff NotFound else e)
               (GetTaskHandoff_sql handoffID)) (\<lambda>current.
        bnd (check (h_owner current = taskID \<and> h_requested_at current \<noteq> None)
               (ErrTaskHandoff NotFound)) (\<lambda>_.
        if h_received_at current \<noteq> None \<and> h_received_by current = Some receivedBy then
          bnd (listHandoffEntries ''task_handoff_entries'' handoffID 0 HandoffHistoryMaxLimit) (\<lambda>page.
          ret (page, NoEvent))
        else
          bnd (ReceiveTaskHandoff_sql handoffID taskID (nullable receivedBy) now (leaseCutoff now)) (\<lambda>n.
          bnd (if n = 0 then
                 bnd (taskHandoffRefusal handoffID) (\<lambda>(requested, receiver).
                 fail (ErrTaskHandoff (if requested \<and> receiver \<noteq> 0 then LiveReceiver else NotFound)))
               else ret ()) (\<lambda>_.
          bnd (task_entry handoffID ''received'' ''received'' receivedBy now) (\<lambda>_.
          bnd (listHandoffEntries ''task_handoff_entries'' handoffID 0 HandoffHistoryMaxLimit) (\<lambda>page.
          bnd (set_task_status TaskDoing now taskID) (\<lambda>_.
          bnd (taskWorkflowEventScope taskID) (\<lambda>(projectID, goalID).
          ret (page, HandoffEvent ''task.handoff.receive'' projectID goalID taskID handoffID
                 receivedBy []))))))))))) (\<lambda>(page, event).
     bnd (GetTaskHandoff handoffID) (\<lambda>received.
     bnd (publishWorkflowEvents [event]) (\<lambda>_.
     ret (received, page))))))"

definition ReceiveTaskHandoffForTask ::
  "int \<Rightarrow> int \<Rightarrow> time \<Rightarrow> (handoff \<times> handoff_entry_page) store_op" where
  "ReceiveTaskHandoffForTask taskID receivedBy now =
     bnd (ListTaskHandoffs taskID) (\<lambda>handoffs.
     bnd (pick_pending (ErrTaskHandoff NotFound) (ErrTaskHandoff Ambiguous)
            (filter (\<lambda>h. h_requested_at h \<noteq> None \<and> h_received_at h = None \<and> h_recovered_at h = None)
               handoffs)) (\<lambda>h.
     ReceiveTaskHandoff (h_id h) taskID receivedBy now))"

section \<open>The review cycle\<close>

definition RequestTaskHandoffReview ::
  "string \<Rightarrow> int \<Rightarrow> int \<Rightarrow> string \<Rightarrow> time \<Rightarrow> handoff store_op" where
  "RequestTaskHandoffReview handoffID taskID requestedBy reviewRequestReport now =
     bnd (requireUndiscardedSession requestedBy) (\<lambda>_.
     bnd (check (\<not> completeReportIsEmpty reviewRequestReport) (ErrTaskHandoff ReviewReportEmpty)) (\<lambda>_.
     bnd (GetTaskHandoff handoffID) (\<lambda>h.
     bnd (check (h_owner h = taskID) (ErrTaskHandoff OwnerMismatch)) (\<lambda>_.
     bnd (check (h_requested_at h \<noteq> None \<and> h_received_at h \<noteq> None \<and> h_completed_report_at h = None
            \<and> h_recovered_at h = None) (ErrTaskHandoff ReviewState)) (\<lambda>_.
     bnd (check (nz (h_received_by h) \<noteq> 0 \<and> nz (h_received_by h) = requestedBy)
            (ErrTaskHandoff ReviewReviewerMismatch)) (\<lambda>_.
     bnd (check (h_review_requested_at h = None \<or> h_review_rejected_at h \<noteq> None)
            (ErrTaskHandoff ReviewState)) (\<lambda>_.
     commit_task_handoff handoffID
       (bnd (RequestTaskHandoffReview_sql handoffID taskID requestedBy now reviewRequestReport) (\<lambda>affected.
        bnd (check (affected \<noteq> 0) (ErrTaskHandoff ReviewState)) (\<lambda>_.
        bnd (set_task_status TaskReview now taskID) (\<lambda>_.
        bnd (task_entry handoffID ''review_requested'' reviewRequestReport requestedBy now) (\<lambda>_.
        task_review_event ''task.handoff.review.request'' taskID handoffID requestedBy
          reviewRequestReport))))))))))))"

definition ReceiveTaskHandoffReview :: "string \<Rightarrow> int \<Rightarrow> int \<Rightarrow> time \<Rightarrow> handoff store_op" where
  "ReceiveTaskHandoffReview handoffID taskID receivedBy now =
     bnd (requireUndiscardedSession receivedBy) (\<lambda>_.
     bnd (GetTaskHandoff handoffID) (\<lambda>h.
     bnd (check (h_owner h = taskID) (ErrTaskHandoff OwnerMismatch)) (\<lambda>_.
     bnd (check (\<not> (h_review_requested_at h = None \<or> h_completed_report_at h \<noteq> None
                    \<or> h_recovered_at h \<noteq> None \<or> h_review_received_at h \<noteq> None))
            (ErrTaskHandoff ReviewState)) (\<lambda>_.
     bnd (if receivedBy = 0 \<or> nz (h_requested_by h) \<noteq> receivedBy then
            map_error (\<lambda>_. ErrTaskHandoff ReviewReviewerMismatch)
              (requireGoalHandoffForTask taskID receivedBy now)
          else ret ()) (\<lambda>_.
     commit_task_handoff handoffID
       (bnd (ReceiveTaskHandoffReview_sql handoffID taskID receivedBy now) (\<lambda>affected.
        bnd (check (affected \<noteq> 0) (ErrTaskHandoff ReviewState)) (\<lambda>_.
        bnd (task_entry handoffID ''review_received'' ''received'' receivedBy now) (\<lambda>_.
        task_review_event ''task.handoff.review.receive'' taskID handoffID receivedBy [])))))))))"

definition RecoverTaskHandoff ::
  "string \<Rightarrow> int \<Rightarrow> int \<Rightarrow> string \<Rightarrow> time \<Rightarrow> handoff store_op" where
  "RecoverTaskHandoff handoffID taskID callerID reason now =
     bnd (requireUndiscardedSession callerID) (\<lambda>_.
     bnd (requireGoalHandoffForTask taskID callerID now) (\<lambda>_.
     bnd (GetTaskHandoff handoffID) (\<lambda>h.
     bnd (check (h_owner h = taskID \<and> h_completed_report_at h = None) (ErrTaskHandoff RecoveryState)) (\<lambda>_.
     if h_recovered_at h \<noteq> None then ret h
     else
       bnd (need (ErrTaskHandoff RecoveryState) (recovery_phase h)) (\<lambda>(phase, stale).
       bnd (check (\<not> (stale = 0 \<or> stale = callerID)) (ErrTaskHandoff ReviewReviewerMismatch)) (\<lambda>_.
       bnd (transaction
         (bnd (canRecoverSessionInTx stale now) (\<lambda>proof.
          bnd (if phase = ''review_received'' then
                 RecoverTaskHandoffReview_sql handoffID taskID stale (proof_PID proof) (proof_StartedAt proof)
               else if phase = ''received'' then
                 RecoverTaskHandoffReceiver_sql handoffID taskID stale (proof_PID proof)
                   (proof_StartedAt proof) now reason
               else
                 RecoverTaskHandoffRequester_sql handoffID taskID stale (proof_PID proof)
                   (proof_StartedAt proof) now reason) (\<lambda>affected.
          bnd (check (affected = 1) (ErrTaskHandoff RecoveryState)) (\<lambda>_.
          task_entry handoffID ''request'' (''recovered: '' @ reason) callerID now))))) (\<lambda>_.
       GetTaskHandoff handoffID)))))))"

definition RejectTaskHandoffReview ::
  "string \<Rightarrow> int \<Rightarrow> int \<Rightarrow> string \<Rightarrow> time \<Rightarrow> handoff store_op" where
  "RejectTaskHandoffReview handoffID taskID reviewerID rejectReport now =
     bnd (requireUndiscardedSession reviewerID) (\<lambda>_.
     bnd (check (\<not> completeReportIsEmpty rejectReport) (ErrTaskHandoff ReviewReportEmpty)) (\<lambda>_.
     bnd (GetTaskHandoff handoffID) (\<lambda>h.
     bnd (check (h_owner h = taskID) (ErrTaskHandoff OwnerMismatch)) (\<lambda>_.
     bnd (check (h_review_received_at h \<noteq> None \<and> h_completed_report_at h = None
            \<and> h_recovered_at h = None) (ErrTaskHandoff ReviewState)) (\<lambda>_.
     bnd (check (nz (h_review_received_by h) = reviewerID) (ErrTaskHandoff ReviewReviewerMismatch)) (\<lambda>_.
     commit_task_handoff handoffID
       (bnd (RejectTaskHandoffReview_sql handoffID taskID now rejectReport) (\<lambda>affected.
        bnd (check (affected \<noteq> 0) (ErrTaskHandoff ReviewState)) (\<lambda>_.
        bnd (set_task_status TaskDoing now taskID) (\<lambda>_.
        bnd (task_entry handoffID ''review_rejected'' rejectReport reviewerID now) (\<lambda>_.
        task_review_event ''task.handoff.review.reject'' taskID handoffID reviewerID rejectReport)))))))))))"

definition ReceiveTaskHandoffReviewRejection :: "string \<Rightarrow> int \<Rightarrow> int \<Rightarrow> time \<Rightarrow> handoff store_op" where
  "ReceiveTaskHandoffReviewRejection handoffID taskID receivedBy now =
     bnd (requireUndiscardedSession receivedBy) (\<lambda>_.
     bnd (GetTaskHandoff handoffID) (\<lambda>h.
     bnd (check (h_owner h = taskID) (ErrTaskHandoff OwnerMismatch)) (\<lambda>_.
     bnd (check (h_review_rejected_at h \<noteq> None \<and> h_completed_report_at h = None \<and> h_recovered_at h = None
            \<and> nz (h_received_by h) = receivedBy \<and> receivedBy \<noteq> 0) (ErrTaskHandoff ReviewState)) (\<lambda>_.
     commit_task_handoff handoffID
       (bnd (ReceiveTaskHandoffReviewRejection_sql handoffID taskID receivedBy now) (\<lambda>affected.
        bnd (check (affected \<noteq> 0) (ErrTaskHandoff ReviewState)) (\<lambda>_.
        bnd (task_entry handoffID ''received'' ''review rejection received'' receivedBy now) (\<lambda>_.
        ret NoEvent))))))))"

section \<open>Completing\<close>

definition CompleteTaskHandoffByReviewer ::
  "string \<Rightarrow> int \<Rightarrow> int \<Rightarrow> string \<Rightarrow> time \<Rightarrow> handoff store_op" where
  "CompleteTaskHandoffByReviewer handoffID taskID reviewerID completeReport now =
     bnd (requireUndiscardedSession reviewerID) (\<lambda>_.
     bnd (check (\<not> completeReportIsEmpty completeReport) (ErrTaskHandoff ReportEmpty)) (\<lambda>_.
     bnd (GetTaskHandoff handoffID) (\<lambda>h.
     bnd (check (h_owner h = taskID) (ErrTaskHandoff OwnerMismatch)) (\<lambda>_.
     bnd (check (h_review_received_at h \<noteq> None \<and> h_completed_report_at h = None
            \<and> h_recovered_at h = None) (ErrTaskHandoff ReviewState)) (\<lambda>_.
     bnd (check (nz (h_review_received_by h) = reviewerID) (ErrTaskHandoff ReviewReviewerMismatch)) (\<lambda>_.
     commit_task_handoff handoffID
       (bnd (refuse_open_decisions taskID) (\<lambda>_.
        bnd (CompleteTaskHandoffByReviewer_sql handoffID taskID (Some reviewerID) now completeReport) (\<lambda>affected.
        bnd (check (affected \<noteq> 0) (ErrTaskHandoff ReviewState)) (\<lambda>_.
        bnd (task_entry handoffID ''completed'' completeReport reviewerID now) (\<lambda>_.
        bnd (set_task_status TaskDone now taskID) (\<lambda>_.
        bnd (taskWorkflowEventScope taskID) (\<lambda>(projectID, goalID).
        ret (HandoffReportedEvent projectID goalID taskID handoffID completeReport))))))))))))))"

definition CompleteTaskHandoff :: "string \<Rightarrow> int \<Rightarrow> string \<Rightarrow> time \<Rightarrow> handoff store_op" where
  "CompleteTaskHandoff handoffID taskID completeReport now =
     bnd (check (\<not> completeReportIsEmpty completeReport) (ErrTaskHandoff ReportEmpty)) (\<lambda>_.
     bnd (ensureTaskHandoffTask handoffID taskID) (\<lambda>_.
     bnd (GetTaskHandoff handoffID) (\<lambda>h.
     bnd (check (\<not> (h_review_requested_at h \<noteq> None
                    \<and> completeReport \<noteq> taskHandoffReclaimedReport
                    \<and> completeReport \<noteq> taskHandoffReleasedReport)) (ErrTaskHandoff ReviewState)) (\<lambda>_.
     bnd (transaction
       (bnd (map_error (\<lambda>e. if e = NoRows then ErrTaskHandoff NotFound else e)
               (GetTaskHandoff_sql handoffID)) (\<lambda>current.
        bnd (check (h_owner current = taskID) (ErrTaskHandoff OwnerMismatch)) (\<lambda>_.
        bnd (check (h_received_at current \<noteq> None) (EntryE ErrHandoffEntryParticipant)) (\<lambda>_.
        bnd (CompleteTaskHandoff_sql handoffID taskID now
               (if completeReport = [] then None else Some completeReport)) (\<lambda>n.
        bnd (check (n \<noteq> 0) (if h_completed_report_at h \<noteq> None then Failure ''task handoff is already reported''
                             else ErrTaskHandoff NotFound)) (\<lambda>_.
        bnd (task_entry handoffID ''completed'' completeReport (nz (h_received_by current)) now) (\<lambda>_.
        if handoffIsDelegation (nz (h_requested_by h)) (nz (h_received_by h)) then
          bnd (taskWorkflowEventScope taskID) (\<lambda>(projectID, goalID).
          ret (HandoffReportedEvent projectID goalID taskID handoffID completeReport))
        else ret NoEvent)))))))) (\<lambda>event.
     bnd (GetTaskHandoff handoffID) (\<lambda>completed.
     bnd (publishWorkflowEvents [event]) (\<lambda>_.
     ret completed)))))))"

definition CompleteTaskHandoffForTask :: "int \<Rightarrow> string \<Rightarrow> time \<Rightarrow> handoff store_op" where
  "CompleteTaskHandoffForTask taskID completeReport now =
     bnd (ListTaskHandoffs taskID) (\<lambda>handoffs.
     bnd (pick_pending (ErrTaskHandoff NotFound) (ErrTaskHandoff Ambiguous)
            (filter (\<lambda>h. h_requested_at h \<noteq> None \<and> h_received_at h \<noteq> None
                       \<and> h_completed_report_at h = None \<and> h_recovered_at h = None) handoffs)) (\<lambda>h.
     CompleteTaskHandoff (h_id h) taskID completeReport now))"

definition AmendTaskHandoffReport :: "string \<Rightarrow> int \<Rightarrow> string \<Rightarrow> time \<Rightarrow> handoff store_op" where
  "AmendTaskHandoffReport handoffID taskID completeReport now =
     bnd (check (\<not> completeReportIsEmpty completeReport) (ErrTaskHandoff ReportEmpty)) (\<lambda>_.
     bnd (ensureTaskHandoffTask handoffID taskID) (\<lambda>_.
     commit_task_handoff handoffID
       (bnd (map_error (\<lambda>e. if e = NoRows then ErrTaskHandoff NotFound else e)
               (GetTaskHandoff_sql handoffID)) (\<lambda>current.
        bnd (check (h_owner current = taskID) (ErrTaskHandoff OwnerMismatch)) (\<lambda>_.
        bnd (AmendTaskHandoffReport_sql handoffID taskID completeReport) (\<lambda>n.
        bnd (check (n \<noteq> 0) (Failure ''task handoff is not yet completed'')) (\<lambda>_.
        bnd (check (0 < nz (h_received_by current)) (EntryE ErrHandoffEntryParticipant)) (\<lambda>_.
        bnd (task_entry handoffID ''completed'' completeReport (nz (h_received_by current)) now) (\<lambda>_.
        ret NoEvent)))))))))"

section \<open>Lists\<close>

text \<open>The Go maps keyed by the task or goal keep the last row of each.\<close>

definition by_owner :: "handoff list \<Rightarrow> int \<Rightarrow> handoff option" where
  "by_owner hs i = List.find (\<lambda>h. h_owner h = i) (rev hs)"

definition ListOpenTaskHandoffsForGoal :: "int \<Rightarrow> (int \<Rightarrow> handoff option) store_op" where
  "ListOpenTaskHandoffsForGoal goalID =
     bnd (ListOpenTaskHandoffsForGoal_sql goalID) (\<lambda>rows. ret (by_owner rows))"

definition ListOpenTaskHandoffsForAllGoals :: "(int \<Rightarrow> handoff option) store_op" where
  "ListOpenTaskHandoffsForAllGoals = bnd ListOpenTaskHandoffs_sql (\<lambda>rows. ret (by_owner rows))"

definition ListOpenGoalHandoffs :: "(int \<Rightarrow> handoff option) store_op" where
  "ListOpenGoalHandoffs = bnd ListOpenGoalHandoffs_sql (\<lambda>rows. ret (by_owner rows))"

section \<open>Every operation moves the store forward\<close>

lemma reads_task_handoff [reads_intros]:
  "reads (task_review_event name i hid r report)" "reads (listOpenTaskDecisions i)"
  "reads (refuse_open_decisions i)"
  unfolding task_review_event_def listOpenTaskDecisions_def refuse_open_decisions_def
  by (rule reads_intros)+

lemma task_entry_le [le_queries]:
  "evolves store_le (task_entry hid kind body author now)"
  "evolves store_le (set_task_status st now i)"
  unfolding task_entry_def set_task_status_def by (rule le_rules le_queries)+

lemma publishTaskHandoffReported_total [total_intros]: "total_op (publishTaskHandoffReported h)"
  unfolding publishTaskHandoffReported_def by (rule total_intros)+

lemma publishTaskHandoffReported_same: "evolves same_tables (publishTaskHandoffReported h)"
  unfolding publishTaskHandoffReported_def
  by (rule same_tables.ev_rules publish_same_tables | rule same_tables.ev_reads, rule reads_intros)+

lemma publishTaskHandoffReported_le [le_queries]: "evolves store_le (publishTaskHandoffReported h)"
  using publishTaskHandoffReported_same [of h] unfolding evolves_def by (blast intro: same_tables_le)

lemma commit_task_handoff_le [le_queries]:
  "evolves store_le tx \<Longrightarrow> evolves store_le (commit_task_handoff hid tx)"
  unfolding commit_task_handoff_def
  by (rule le_rules reads_intros | assumption | rule store_le.ev_reads, rule reads_intros)+

lemma reclaim_task_le [le_queries]:
  "evolves store_le (reclaimOpenTaskHandoffTx hid i now)"
  "evolves store_le (reclaimOpenTaskHandoff hid i now)"
  unfolding reclaimOpenTaskHandoff_def reclaimOpenTaskHandoffTx_def Let_def
  by (rule le_rules le_queries reads_intros | rule store_le.ev_reads, rule reads_intros)+

lemma requestTaskHandoff_le [le_queries]:
  "evolves store_le (requestTaskHandoff hid i u report live now)"
  unfolding requestTaskHandoff_def
  by (rule le_rules le_queries reads_intros | rule store_le.ev_reads, rule reads_intros)+

lemma ReceiveTaskHandoff_le [le_queries]: "evolves store_le (ReceiveTaskHandoff hid i u now)"
  unfolding ReceiveTaskHandoff_def
  by (rule le_rules le_queries reads_intros | rule store_le.ev_reads, rule reads_intros)+

lemma CompleteTaskHandoff_le [le_queries]: "evolves store_le (CompleteTaskHandoff hid i report now)"
  unfolding CompleteTaskHandoff_def
  by (rule le_rules le_queries reads_intros | rule store_le.ev_reads, rule reads_intros)+

lemma task_handoff_ops_le [le_queries]:
  "evolves store_le (RequestTaskHandoff hid i u report now)"
  "evolves store_le (requestTaskHandoffForClaim hid i u now)"
  "evolves store_le (ReceiveTaskHandoffForTask i u now)"
  "evolves store_le (RequestTaskHandoffReview hid i u report now)"
  "evolves store_le (ReceiveTaskHandoffReview hid i u now)"
  "evolves store_le (RecoverTaskHandoff hid i u reason now)"
  "evolves store_le (RejectTaskHandoffReview hid i u report now)"
  "evolves store_le (ReceiveTaskHandoffReviewRejection hid i u now)"
  "evolves store_le (CompleteTaskHandoffByReviewer hid i u report now)"
  "evolves store_le (CompleteTaskHandoffForTask i report now)"
  "evolves store_le (AmendTaskHandoffReport hid i report now)"
  unfolding RequestTaskHandoff_def requestTaskHandoffForClaim_def ReceiveTaskHandoffForTask_def
    RequestTaskHandoffReview_def ReceiveTaskHandoffReview_def RecoverTaskHandoff_def
    RejectTaskHandoffReview_def ReceiveTaskHandoffReviewRejection_def
    CompleteTaskHandoffByReviewer_def CompleteTaskHandoffForTask_def AmendTaskHandoffReport_def
  by (rule le_rules le_queries reads_intros | rule store_le.ev_reads, rule reads_intros)+

end
