(* ===== verification/Atct_Plan_Handoff.thy ===== *)
theory Atct_Plan_Handoff
  imports Atct_Task_Handoff
begin

text \<open>
  The plan review (the second half of \<^verbatim>\<open>internal/store/goal_handoff.go\<close>) and the
  check that a plan is written out and not only pointed to
  (\<^verbatim>\<open>internal/store/spec_plan_reference.go\<close>). The receiver of the goal handoff
  submits the plan, the commander who holds the project takes the review, rejects or accepts it;
  acceptance opens the task-create handoff.
\<close>

section \<open>Plans that are only a reference\<close>

text \<open>
  Ranging over a Go string gives its runes; a byte that is not part of a UTF-8 encoding gives
  U+FFFD.
\<close>

fun runes :: "string \<Rightarrow> nat list" where
  "runes [] = []"
| "runes (a # s) =
     (let n = of_char a :: nat in
      if n < 128 then n # runes s
      else case s of
        [] \<Rightarrow> [65533]
      | b # s1 \<Rightarrow>
          if 194 \<le> n \<and> n \<le> 223 \<and> continuation 128 191 b
          then (64 * (n - 192) + (of_char b - 128)) # runes s1
          else case s1 of
            [] \<Rightarrow> 65533 # runes s
          | c # s2 \<Rightarrow>
              if 224 \<le> n \<and> n \<le> 239
                \<and> continuation (if n = 224 then 160 else 128) (if n = 237 then 159 else 191) b
                \<and> continuation 128 191 c
              then (4096 * (n - 224) + 64 * (of_char b - 128) + (of_char c - 128)) # runes s2
              else case s2 of
                [] \<Rightarrow> 65533 # runes s
              | d # s3 \<Rightarrow>
                  if 240 \<le> n \<and> n \<le> 244
                    \<and> continuation (if n = 240 then 144 else 128) (if n = 244 then 143 else 191) b
                    \<and> continuation 128 191 c \<and> continuation 128 191 d
                  then (262144 * (n - 240) + 4096 * (of_char b - 128) + 64 * (of_char c - 128)
                         + (of_char d - 128)) # runes s3
                  else 65533 # runes s)"

definition IsSpace :: "nat \<Rightarrow> bool" where
  "IsSpace r \<longleftrightarrow>
     9 \<le> r \<and> r \<le> 13 \<or> 8192 \<le> r \<and> r \<le> 8202 \<or> r \<in> {32, 133, 160, 5760, 8232, 8233, 8239, 8287, 12288}"

text \<open>
  The pattern is \<^verbatim>\<open>(?i)[\w./-]*\b(?:docs?/(?:specs|plans)|docs/superpowers)/[\w./-]*\<close>.
  A text matches when one of the directories starts at a word boundary somewhere. Every literal of
  the pattern is in the class \<open>[\w./-]\<close>, so a leftmost match is a whole maximal run of the
  class, and replacing is a scan over the runs. Under \<open>(?i)\<close> the class also has U+017F and U+212A, the other spellings
  of \<open>s\<close> and \<open>k\<close>; a word boundary looks at ASCII word characters.
\<close>

definition ascii_word :: "nat \<Rightarrow> bool" where
  "ascii_word r \<longleftrightarrow>
     48 \<le> r \<and> r \<le> 57 \<or> 65 \<le> r \<and> r \<le> 90 \<or> 97 \<le> r \<and> r \<le> 122 \<or> r = 95"

definition path_rune :: "nat \<Rightarrow> bool" where
  "path_rune r \<longleftrightarrow> ascii_word r \<or> r \<in> {383, 8490, 46, 47, 45}"

definition fold_rune :: "nat \<Rightarrow> nat" where
  "fold_rune r = (if 65 \<le> r \<and> r \<le> 90 then r + 32 else if r = 383 then 115 else if r = 8490 then 107 else r)"

definition spec_plan_dirs :: "nat list list" where
  "spec_plan_dirs = map (map of_char)
     [''doc/specs/'', ''docs/specs/'', ''doc/plans/'', ''docs/plans/'', ''docs/superpowers/'']"

fun names_dir :: "bool \<Rightarrow> nat list \<Rightarrow> bool" where
  "names_dir boundary [] = False"
| "names_dir boundary (r # rs) =
     (boundary \<and> list_ex (\<lambda>d. take (length d) (map fold_rune (r # rs)) = d) spec_plan_dirs
      \<or> names_dir (\<not> ascii_word r) rs)"

function remove_paths :: "nat list \<Rightarrow> nat list" where
  "remove_paths [] = []"
| "remove_paths (r # rs) =
     (if path_rune r then
        (let path = r # takeWhile path_rune rs
         in (if names_dir True path then [] else path) @ remove_paths (dropWhile path_rune rs))
      else r # remove_paths rs)"
  by pat_completeness auto
termination
  by (relation "measure length") (auto simp: le_imp_less_Suc length_dropWhile_le)

definition specPlanReferenceOnly :: "string \<Rightarrow> bool" where
  "specPlanReferenceOnly txt =
     (if \<not> names_dir True (runes txt) then False
      else length (filter (\<lambda>r. \<not> IsSpace r) (remove_paths (runes txt))) < 200)"

definition checkSpecPlanNotReferenceOnly :: "string \<Rightarrow> string \<Rightarrow> unit store_op" where
  "checkSpecPlanNotReferenceOnly spec plan =
     (if specPlanReferenceOnly spec \<or> specPlanReferenceOnly plan
      then fail (ErrPlanHandoff SpecPlanReferenceOnly) else ret ())"

section \<open>The operations\<close>

definition GetPlanHandoff :: "string \<Rightarrow> plan_handoff store_op" where
  "GetPlanHandoff hid =
     map_error (\<lambda>e. if e = NoRows then ErrPlanHandoff NotFound else e) (GetPlanHandoff_sql hid)"

definition ListPlanHandoffs :: "int \<Rightarrow> (plan_handoff list) store_op" where
  "ListPlanHandoffs goalID = ListPlanHandoffs_sql goalID"

definition commit_plan_handoff :: "string \<Rightarrow> event store_op \<Rightarrow> plan_handoff store_op" where
  "commit_plan_handoff hid tx =
     bnd (transaction tx) (\<lambda>event.
     bnd (publishWorkflowEvents [event]) (\<lambda>_.
     GetPlanHandoff hid))"

definition RequestPlanHandoffReview ::
  "string \<Rightarrow> int \<Rightarrow> int \<Rightarrow> string \<Rightarrow> time \<Rightarrow> plan_handoff store_op" where
  "RequestPlanHandoffReview handoffID goalID requestedBy reviewRequestReport now =
     bnd (requireUndiscardedSession requestedBy) (\<lambda>_.
     bnd (check (\<not> completeReportIsEmpty reviewRequestReport) (ErrPlanHandoff ReviewReportEmpty)) (\<lambda>_.
     bnd (openGoalHandoff goalID) (\<lambda>goalHandoff.
     bnd (check (case goalHandoff of None \<Rightarrow> False
                 | Some h \<Rightarrow> nz (h_received_by h) \<noteq> 0 \<and> nz (h_received_by h) = requestedBy)
            (ErrPlanHandoff ReviewReviewerMismatch)) (\<lambda>_.
     bnd (GetGoal goalID) (\<lambda>goal.
     bnd (check (\<not> (completeReportIsEmpty (g_spec goal) \<or> completeReportIsEmpty (g_plan goal)))
            (ErrPlanHandoff GoalArtifactsEmpty)) (\<lambda>_.
     bnd (checkSpecPlanNotReferenceOnly (g_spec goal) (g_plan goal)) (\<lambda>_.
     bnd (try_op (GetPlanHandoff handoffID)) (\<lambda>r.
     bnd (case r of
            Inl e \<Rightarrow> if e = ErrPlanHandoff NotFound then ret () else fail e
          | Inr existing \<Rightarrow>
              bnd (check (pl_goal_id existing = goalID) (ErrPlanHandoff OwnerMismatch)) (\<lambda>_.
              bnd (check (pl_completed_report_at existing = None) (ErrPlanHandoff ReviewState)) (\<lambda>_.
              check (\<not> (pl_review_requested_at existing \<noteq> None \<and> pl_review_rejected_at existing = None))
                (ErrPlanHandoff ReviewState)))) (\<lambda>_.
     commit_plan_handoff handoffID
       (bnd (RequestPlanHandoffReview_sql handoffID goalID requestedBy now reviewRequestReport) (\<lambda>affected.
        bnd (check (affected \<noteq> 0) (ErrPlanHandoff ReviewState)) (\<lambda>_.
        bnd (appendPlanHandoffEntryTx handoffID ''review_requested'' reviewRequestReport requestedBy now) (\<lambda>_.
        goal_review_event ''plan.handoff.review.request'' goalID handoffID requestedBy
          reviewRequestReport)))))))))))))"

definition ReceivePlanHandoffReview :: "string \<Rightarrow> int \<Rightarrow> int \<Rightarrow> time \<Rightarrow> plan_handoff store_op" where
  "ReceivePlanHandoffReview handoffID goalID receivedBy now =
     bnd (requireUndiscardedSession receivedBy) (\<lambda>_.
     bnd (GetPlanHandoff handoffID) (\<lambda>h.
     bnd (check (pl_goal_id h = goalID) (ErrPlanHandoff OwnerMismatch)) (\<lambda>_.
     bnd (check (\<not> (pl_review_requested_at h = None \<or> pl_review_received_at h \<noteq> None
                    \<or> pl_completed_report_at h \<noteq> None)) (ErrPlanHandoff ReviewState)) (\<lambda>_.
     bnd (map_error (\<lambda>_. ErrPlanHandoff ReviewReviewerMismatch)
            (requireProjectClaimForGoal goalID receivedBy now)) (\<lambda>_.
     commit_plan_handoff handoffID
       (bnd (ReceivePlanHandoffReview_sql handoffID goalID receivedBy now) (\<lambda>affected.
        bnd (check (affected \<noteq> 0) (ErrPlanHandoff ReviewState)) (\<lambda>_.
        goal_review_event ''plan.handoff.review.receive'' goalID handoffID receivedBy []))))))))"

definition RecoverPlanHandoff ::
  "string \<Rightarrow> int \<Rightarrow> int \<Rightarrow> string \<Rightarrow> time \<Rightarrow> plan_handoff store_op" where
  "RecoverPlanHandoff handoffID goalID callerID reason now =
     bnd (requireUndiscardedSession callerID) (\<lambda>_.
     bnd (requireProjectClaimForGoal goalID callerID now) (\<lambda>_.
     bnd (GetPlanHandoff handoffID) (\<lambda>h.
     bnd (check (\<not> (pl_goal_id h \<noteq> goalID \<or> pl_review_received_at h = None
                    \<or> nz (pl_review_received_by h) = 0 \<or> pl_completed_report_at h \<noteq> None))
            (ErrPlanHandoff ReviewState)) (\<lambda>_.
     bnd (check (nz (pl_review_received_by h) \<noteq> callerID) (ErrPlanHandoff ReviewReviewerMismatch)) (\<lambda>_.
     bnd (transaction
       (bnd (canRecoverSessionInTx (nz (pl_review_received_by h)) now) (\<lambda>proof.
        bnd (RecoverPlanHandoffReview_sql handoffID goalID (nz (pl_review_received_by h))
               (proof_PID proof) (proof_StartedAt proof)) (\<lambda>affected.
        check (affected = 1) (ErrPlanHandoff ReviewState))))) (\<lambda>_.
     GetPlanHandoff handoffID))))))"

definition RejectPlanHandoffReview ::
  "string \<Rightarrow> int \<Rightarrow> int \<Rightarrow> string \<Rightarrow> time \<Rightarrow> plan_handoff store_op" where
  "RejectPlanHandoffReview handoffID goalID reviewerID rejectReport now =
     bnd (requireUndiscardedSession reviewerID) (\<lambda>_.
     bnd (check (\<not> completeReportIsEmpty rejectReport) (ErrPlanHandoff ReviewReportEmpty)) (\<lambda>_.
     bnd (GetPlanHandoff handoffID) (\<lambda>h.
     bnd (check (pl_goal_id h = goalID) (ErrPlanHandoff OwnerMismatch)) (\<lambda>_.
     bnd (check (pl_review_received_at h \<noteq> None \<and> pl_completed_report_at h = None)
            (ErrPlanHandoff ReviewState)) (\<lambda>_.
     bnd (check (nz (pl_review_received_by h) = reviewerID) (ErrPlanHandoff ReviewReviewerMismatch)) (\<lambda>_.
     commit_plan_handoff handoffID
       (bnd (RejectPlanHandoffReview_sql handoffID goalID now rejectReport) (\<lambda>affected.
        bnd (check (affected \<noteq> 0) (ErrPlanHandoff ReviewState)) (\<lambda>_.
        bnd (appendPlanHandoffEntryTx handoffID ''review_rejected'' rejectReport reviewerID now) (\<lambda>_.
        goal_review_event ''plan.handoff.review.reject'' goalID handoffID reviewerID rejectReport))))))))))"

definition ReceivePlanHandoffReviewRejection ::
  "string \<Rightarrow> int \<Rightarrow> int \<Rightarrow> time \<Rightarrow> plan_handoff store_op" where
  "ReceivePlanHandoffReviewRejection handoffID goalID receivedBy now =
     bnd (requireUndiscardedSession receivedBy) (\<lambda>_.
     bnd (GetPlanHandoff handoffID) (\<lambda>h.
     bnd (check (pl_goal_id h = goalID) (ErrPlanHandoff OwnerMismatch)) (\<lambda>_.
     bnd (check (\<not> (pl_review_rejected_at h = None \<or> pl_completed_report_at h \<noteq> None \<or> receivedBy = 0))
            (ErrPlanHandoff ReviewState)) (\<lambda>_.
     bnd (ReceivePlanHandoffReviewRejection_sql handoffID goalID receivedBy now) (\<lambda>affected.
     bnd (check (affected \<noteq> 0) (ErrPlanHandoff ReviewState)) (\<lambda>_.
     GetPlanHandoff handoffID))))))"

definition CompletePlanHandoff ::
  "string \<Rightarrow> int \<Rightarrow> int \<Rightarrow> string \<Rightarrow> string \<Rightarrow> time \<Rightarrow> plan_handoff store_op" where
  "CompletePlanHandoff handoffID goalID reviewerID completeReport uuid now =
     bnd (requireUndiscardedSession reviewerID) (\<lambda>_.
     bnd (check (\<not> completeReportIsEmpty completeReport) (ErrPlanHandoff ReviewReportEmpty)) (\<lambda>_.
     bnd (GetPlanHandoff handoffID) (\<lambda>h.
     bnd (check (pl_goal_id h = goalID) (ErrPlanHandoff OwnerMismatch)) (\<lambda>_.
     bnd (check (pl_review_received_at h \<noteq> None \<and> pl_completed_report_at h = None)
            (ErrPlanHandoff ReviewState)) (\<lambda>_.
     bnd (check (nz (pl_review_received_by h) = reviewerID) (ErrPlanHandoff ReviewReviewerMismatch)) (\<lambda>_.
     commit_plan_handoff handoffID
       (bnd (CompletePlanHandoff_sql handoffID goalID reviewerID now completeReport) (\<lambda>affected.
        bnd (check (affected \<noteq> 0) (ErrPlanHandoff ReviewState)) (\<lambda>_.
        bnd (createTaskCreateHandoffTx uuid (pl_goal_id h) reviewerID now) (\<lambda>_.
        goal_review_event ''plan.handoff.complete'' goalID handoffID reviewerID completeReport))))))))))"

section \<open>Sessions of a goal\<close>

record goal_session =
  gs_SessionKey :: string
  gs_Role :: string
  gs_HandoffOpen :: bool

text \<open>
  The rows of the common table expression: session key, rank of the role (0 for the receiver of the
  goal, 1 for the receiver of a task), whether the handoff is open; grouped by the key.
\<close>

definition session_key_of :: "int option \<Rightarrow> store \<Rightarrow> string" where
  "session_key_of v s = (case v of None \<Rightarrow> [] | Some i \<Rightarrow>
     (case session_row i s of None \<Rightarrow> [] | Some r \<Rightarrow> s_session_key r))"

definition goal_session_rows :: "int \<Rightarrow> store \<Rightarrow> (string \<times> nat \<times> bool) list" where
  "goal_session_rows goal s = filter (\<lambda>(key, _). key \<noteq> [])
     (map (\<lambda>h. (session_key_of (h_received_by h) s, 0, handoff_open h))
        (filter (\<lambda>h. h_owner h = goal) (goal_handoffs s))
      @ map (\<lambda>h. (session_key_of (h_received_by h) s, 1, handoff_open h))
        (filter (\<lambda>h. list_ex (\<lambda>t. t_id t = h_owner h \<and> t_goal_id t = goal) (tasks s)) (task_handoffs s)))"

definition ListGoalSessionKeys_sql :: "int \<Rightarrow> (goal_session list) store_op" where
  "ListGoalSessionKeys_sql goal = ask (\<lambda>s.
     let rows = goal_session_rows goal s;
         rank = (\<lambda>key. if list_ex (\<lambda>(k, r, _). k = key \<and> r = 0) rows then 0 else 1 :: nat)
     in map (\<lambda>key. \<lparr>gs_SessionKey = key,
               gs_Role = (if rank key = 0 then ''subcommander'' else ''executor''),
               gs_HandoffOpen = list_ex (\<lambda>(k, _, open). k = key \<and> open) rows\<rparr>)
          (order_by (\<lambda>key. (rank key, key)) (remdups (map fst rows))))"

definition ListGoalSessions :: "int \<Rightarrow> (goal_session list) store_op" where
  "ListGoalSessions goal = ListGoalSessionKeys_sql goal"

section \<open>Every operation moves the store forward\<close>

lemma reads_plan_ops [reads_intros]:
  "reads (GetPlanHandoff hid)" "reads (ListPlanHandoffs g)" "reads (checkSpecPlanNotReferenceOnly a b)"
  "reads (ListGoalSessions g)"
  unfolding GetPlanHandoff_def ListPlanHandoffs_def checkSpecPlanNotReferenceOnly_def
    ListGoalSessions_def ListGoalSessionKeys_sql_def
  by (rule reads_intros)+

lemma commit_plan_handoff_le [le_queries]:
  "evolves store_le tx \<Longrightarrow> evolves store_le (commit_plan_handoff hid tx)"
  unfolding commit_plan_handoff_def
  by (rule le_rules reads_intros | assumption | rule store_le.ev_reads, rule reads_intros)+

lemma plan_handoff_ops_le [le_queries]:
  "evolves store_le (RequestPlanHandoffReview hid g i report now)"
  "evolves store_le (ReceivePlanHandoffReview hid g i now)"
  "evolves store_le (RecoverPlanHandoff hid g i report now)"
  "evolves store_le (RejectPlanHandoffReview hid g i report now)"
  "evolves store_le (ReceivePlanHandoffReviewRejection hid g i now)"
  "evolves store_le (CompletePlanHandoff hid g i report uuid now)"
  unfolding RequestPlanHandoffReview_def ReceivePlanHandoffReview_def RecoverPlanHandoff_def
    RejectPlanHandoffReview_def ReceivePlanHandoffReviewRejection_def CompletePlanHandoff_def
  by (rule le_rules le_queries reads_intros | rule store_le.ev_reads, rule reads_intros)+

section \<open>Replacing the paths\<close>

text \<open>A run that is left alone names no directory, so nothing is replaced twice.\<close>

definition dir_at :: "nat list \<Rightarrow> bool" where
  "dir_at rs \<longleftrightarrow> list_ex (\<lambda>d. take (length d) (map fold_rune rs) = d) spec_plan_dirs"

lemma names_dir_Cons: "names_dir b (r # rs) \<longleftrightarrow> b \<and> dir_at (r # rs) \<or> names_dir (\<not> ascii_word r) rs"
  by (simp add: dir_at_def)

declare names_dir.simps(2) [simp del]

lemma dir_letters: "list_all (list_all (\<lambda>x. x = 47 \<or> 97 \<le> x \<and> x \<le> 122)) spec_plan_dirs"
  by code_simp

lemma dir_runes: "d \<in> set spec_plan_dirs \<Longrightarrow> fold_rune r \<in> set d \<Longrightarrow> path_rune r"
proof -
  assume "d \<in> set spec_plan_dirs" and "fold_rune r \<in> set d"
  then have "fold_rune r = 47 \<or> 97 \<le> fold_rune r \<and> fold_rune r \<le> 122"
    using dir_letters by (auto simp: list_all_iff)
  then show "path_rune r"
    unfolding fold_rune_def path_rune_def ascii_word_def by (auto split: if_splits)
qed

lemma dir_at_append:
  assumes "\<not> path_rune y"
  shows "dir_at (xs @ y # ys) \<longleftrightarrow> dir_at xs"
proof -
  have "take (length d) (map fold_rune (xs @ y # ys)) = d \<longleftrightarrow> take (length d) (map fold_rune xs) = d"
    if d: "d \<in> set spec_plan_dirs" for d
  proof (cases "length d \<le> length xs")
    case False
    have "d ! length xs = fold_rune y" if "take (length d) (map fold_rune (xs @ y # ys)) = d"
      using arg_cong [OF that, of "\<lambda>l. l ! length xs"] False by (simp add: nth_append)
    then have "take (length d) (map fold_rune (xs @ y # ys)) \<noteq> d"
      using False assms dir_runes [OF d, of y] by (metis not_le nth_mem)
    moreover have "take (length d) (map fold_rune xs) \<noteq> d"
      using False by (auto dest: arg_cong [where f = length])
    ultimately show ?thesis by blast
  qed simp
  then show ?thesis by (auto simp: dir_at_def list_ex_iff)
qed

lemma dir_at_Nil: "\<not> dir_at []"
  by (simp add: dir_at_def spec_plan_dirs_def)

lemma names_dir_split:
  "\<not> path_rune y \<Longrightarrow> names_dir b (xs @ y # ys) \<longleftrightarrow> names_dir b xs \<or> names_dir True ys"
proof (induction xs arbitrary: b)
  case Nil
  have "\<not> ascii_word y" using Nil by (auto simp: path_rune_def)
  then show ?case using dir_at_append [OF Nil, of "[]" ys] by (simp add: names_dir_Cons dir_at_Nil)
next
  case (Cons x xs)
  then show ?case using dir_at_append [of y "x # xs" ys] by (simp add: names_dir_Cons)
qed

lemma names_dir_other: "\<not> path_rune y \<Longrightarrow> names_dir b (y # ys) \<longleftrightarrow> names_dir True ys"
  using names_dir_split [of y b "[]" ys] by simp

lemma remove_paths_rest:
  "remove_paths (dropWhile path_rune rs) = []
   \<or> (\<exists>y ys. remove_paths (dropWhile path_rune rs) = y # ys \<and> \<not> path_rune y)"
proof (cases "dropWhile path_rune rs")
  case (Cons y ys)
  then have "\<not> path_rune y" by (metis hd_dropWhile list.discI list.sel(1))
  then show ?thesis using Cons by auto
next
  case Nil
  show ?thesis unfolding Nil by simp
qed

lemma remove_paths_clean: "\<not> names_dir True (remove_paths rs)"
proof (induction rs rule: remove_paths.induct)
  case (2 r rs)
  show ?case
  proof (cases "path_rune r")
    case True
    let ?p = "r # takeWhile path_rune rs"
    have IH: "\<not> names_dir True (remove_paths (dropWhile path_rune rs))"
      using "2.IH"(1) [OF True refl] .
    have "\<not> names_dir True (?p @ remove_paths (dropWhile path_rune rs))" if "\<not> names_dir True ?p"
      using remove_paths_rest [of rs] that IH names_dir_split [of _ True ?p] names_dir_other
      by (metis append_Nil2)
    then show ?thesis using True IH by (simp add: Let_def)
  next
    case False
    then show ?thesis using "2.IH"(2) by (simp add: names_dir_other)
  qed
qed simp

lemma remove_paths_id: "\<not> names_dir True rs \<Longrightarrow> remove_paths rs = rs"
proof (induction rs rule: remove_paths.induct)
  case (2 r rs)
  show ?case
  proof (cases "path_rune r")
    case True
    let ?p = "r # takeWhile path_rune rs" and ?q = "dropWhile path_rune rs"
    have rs: "r # rs = ?p @ ?q" by simp
    have "\<not> names_dir True ?p \<and> \<not> names_dir True ?q"
    proof (cases ?q)
      case Nil
      then show ?thesis using "2.prems" rs by (metis append_Nil2 names_dir.simps(1))
    next
      case (Cons y ys)
      then have y: "\<not> path_rune y" by (metis hd_dropWhile list.discI list.sel(1))
      have "\<not> names_dir True (?p @ y # ys)" using "2.prems" rs Cons by metis
      then show ?thesis
        unfolding names_dir_split [OF y] Cons names_dir_other [OF y] by blast
    qed
    then show ?thesis using "2.IH"(1) [OF True refl] True by (simp add: Let_def)
  next
    case False
    then show ?thesis using 2 by (simp add: names_dir_other)
  qed
qed simp

end
