(* ===== verification/Atct_Task.thy ===== *)
theory Atct_Task
  imports Atct_Plan_Handoff
begin

text \<open>
  The operations on tasks (\<^verbatim>\<open>internal/store/task.go\<close>): claiming, changing the status
  and the content, snoozing, linking commits (\<^verbatim>\<open>commit.go\<close>, where running git is a
  parameter), and the ids of the transport (\<^verbatim>\<open>id.go\<close>).
\<close>

section \<open>Ids\<close>

definition resolveID :: "string \<Rightarrow> int store_op" where
  "resolveID value0 =
     (let v = TrimSpace value0 in
      if v = [] then fail (Failure ''id is required'')
      else case ParseInt v of
        Some i \<Rightarrow> if 0 < i then ret i else fail (Failure ''id must be a number'')
      | None \<Rightarrow> fail (Failure ''id must be a number''))"

section \<open>Commits\<close>

text \<open>\<^verbatim>\<open>int\<close> is 64 bits wide and its sums wrap around.\<close>

definition add_int :: "int \<Rightarrow> int \<Rightarrow> int" where
  "add_int a b = signed_take_bit 63 (a + b)"

fun split_on :: "char \<Rightarrow> string \<Rightarrow> string list" where
  "split_on c [] = [[]]"
| "split_on c (x # xs) =
     (if x = c then [] # split_on c xs
      else case split_on c xs of [] \<Rightarrow> [[x]] | w # ws \<Rightarrow> (x # w) # ws)"

fun split_n :: "nat \<Rightarrow> char \<Rightarrow> string \<Rightarrow> string list" where
  "split_n (Suc (Suc n)) c s =
     (if c \<in> set s then takeWhile (\<lambda>x. x \<noteq> c) s # split_n (Suc n) c (tl (dropWhile (\<lambda>x. x \<noteq> c) s))
      else [s])"
| "split_n n c s = [s]"

definition TrimSuffix :: "string \<Rightarrow> string \<Rightarrow> string" where
  "TrimSuffix s suffix =
     (if length suffix \<le> length s \<and> drop (length s - length suffix) s = suffix
      then take (length s - length suffix) s else s)"

record commitStats =
  FilesChanged :: int
  Insertions :: int
  Deletions :: int

definition numstat_count :: "string \<Rightarrow> int option" where
  "numstat_count field = (if field = ''-'' then Some 0 else ParseInt field)"

fun numstat_lines :: "string list \<Rightarrow> commitStats \<Rightarrow> error + commitStats" where
  "numstat_lines [] stats = Inr stats"
| "numstat_lines (line0 # rest) stats =
     (let line = TrimSuffix line0 [CHR 0x0D] in
      if line = [] then numstat_lines rest stats
      else case split_n 3 (CHR 0x09) line of
        [a, b, _] \<Rightarrow>
          (case (numstat_count a, numstat_count b) of
             (Some ins, Some dels) \<Rightarrow>
               numstat_lines rest \<lparr>FilesChanged = add_int (FilesChanged stats) 1,
                 Insertions = add_int (Insertions stats) ins, Deletions = add_int (Deletions stats) dels\<rparr>
           | _ \<Rightarrow> Inl (Failure ''numstat count''))
      | _ \<Rightarrow> Inl (Failure ''numstat line''))"

definition parseCommitNumstat :: "string \<Rightarrow> error + commitStats" where
  "parseCommitNumstat output =
     numstat_lines (split_on (CHR 0x0A) output) \<lparr>FilesChanged = 0, Insertions = 0, Deletions = 0\<rparr>"

text \<open>\<open>git\<close> is what the git command prints for some arguments in the project; None is a failure.\<close>

definition ResolveCommit ::
  "(string list \<Rightarrow> string option) \<Rightarrow> string \<Rightarrow> error + (string \<times> string \<times> commitStats)" where
  "ResolveCommit git sha =
     (case git [''show'', ''--no-patch'', ''--format=%H%x00%s'', sha] of
        None \<Rightarrow> Inl (Failure ''unknown commit'')
      | Some out \<Rightarrow>
          (case split_n 2 (CHR 0x00) (TrimSuffix out [CHR 0x0A]) of
             [hash, subject] \<Rightarrow>
               if hash = [] then Inl (Failure ''commit metadata'')
               else (case git [''show'', ''--numstat'', ''--format='', sha] of
                 None \<Rightarrow> Inl (Failure ''commit statistics'')
               | Some numstat \<Rightarrow>
                   (case parseCommitNumstat numstat of
                      Inl e \<Rightarrow> Inl e
                    | Inr stats \<Rightarrow> Inr (hash, subject, stats)))
           | _ \<Rightarrow> Inl (Failure ''commit metadata'')))"

definition LinkTaskCommit :: "int \<Rightarrow> task_commit \<Rightarrow> unit store_op" where
  "LinkTaskCommit taskID c =
     LinkTaskCommit_sql taskID (tc_sha c) (tc_subject c) (tc_files_changed c) (tc_insertions c)
       (tc_deletions c) (tc_created_at c)"

definition ListTaskCommits :: "int \<Rightarrow> (task_commit list) store_op" where
  "ListTaskCommits taskID = ListTaskCommits_sql taskID"

section \<open>Reading tasks\<close>

definition GetTaskGoalID :: "int \<Rightarrow> int store_op" where
  "GetTaskGoalID taskID =
     map_error (\<lambda>e. if e = NoRows then TaskE ErrTaskNotFound else e) (GetTaskGoalID_sql taskID)"

definition ListTasksForAllGoals :: "(int \<Rightarrow> task list) store_op" where
  "ListTasksForAllGoals =
     bnd ListTasksForAllGoals_sql (\<lambda>rows. ret (\<lambda>goal. filter (\<lambda>t. t_goal_id t = goal) rows))"

definition find_task :: "int \<Rightarrow> task list \<Rightarrow> task store_op" where
  "find_task taskID ts = need (TaskE ErrTaskNotFound) (List.find (\<lambda>t. t_id t = taskID) ts)"

definition loadTask :: "int \<Rightarrow> task store_op" where
  "loadTask taskID =
     bnd (GetTaskGoalID taskID) (\<lambda>goalID. bnd (ListTasks goalID) (find_task taskID))"

definition ProjectIDForTask :: "int \<Rightarrow> int store_op" where
  "ProjectIDForTask taskID =
     bnd (map_error (\<lambda>e. if e = NoRows then Failure ''task is not found'' else e)
            (GetTaskProjectID_sql taskID)) (\<lambda>projectID.
     bnd (check (projectID \<noteq> 0) (Failure ''task is not associated with a project'')) (\<lambda>_.
     ret projectID))"

fun claimed_by :: "int \<Rightarrow> task list \<Rightarrow> (task list) store_op" where
  "claimed_by agentSessionID [] = ret []"
| "claimed_by agentSessionID (t # ts) =
     (if t_status t = TaskDone then claimed_by agentSessionID ts
      else bnd (openTaskHandoff (t_id t)) (\<lambda>h.
        bnd (claimed_by agentSessionID ts) (\<lambda>rest.
        ret (case h of None \<Rightarrow> rest
             | Some h \<Rightarrow> if nz (h_received_by h) \<noteq> agentSessionID then rest else t # rest))))"

definition ListOpenTasksClaimedBy :: "int \<Rightarrow> int \<Rightarrow> (task list) store_op" where
  "ListOpenTasksClaimedBy goalID agentSessionID =
     (if agentSessionID = 0 then ret [] else bnd (ListTasks goalID) (claimed_by agentSessionID))"

section \<open>Changing tasks\<close>

definition SnoozeTask :: "int \<Rightarrow> time option \<Rightarrow> time \<Rightarrow> task store_op" where
  "SnoozeTask taskID until now =
     bnd (UpdateTaskSnooze_sql until (rfc3339 now) taskID) (\<lambda>n.
     bnd (if n = 0 then
            bnd (map_error (\<lambda>e. if e = NoRows then TaskE ErrTaskNotFound else e) (TaskExists_sql taskID)) (\<lambda>_.
            fail (Failure ''snooze task affected no rows''))
          else ret ()) (\<lambda>_.
     loadTask taskID))"

definition authorizeTaskStatusRelease ::
  "int \<Rightarrow> TaskStatus \<Rightarrow> int \<Rightarrow> handoff option \<Rightarrow> time \<Rightarrow> unit store_op" where
  "authorizeTaskStatusRelease taskID status agentSessionID releaseHandoff now =
     bnd (map_error (\<lambda>e. if e = NoRows then TaskE ErrTaskNotFound else e) (GetTaskForClaim_sql taskID)) (\<lambda>_.
     case releaseHandoff of
       None \<Rightarrow> ret ()
     | Some h \<Rightarrow>
         (let owner = nz (h_received_by h) in
          if agentSessionID \<noteq> 0 \<and> owner = agentSessionID then ret ()
          else bnd (ProjectIDForTask taskID) (\<lambda>taskProjectID.
            bnd (try_op (ProjectIDForAgentSession agentSessionID)) (\<lambda>caller.
            if caller = Inr taskProjectID then ret ()
            else if status \<in> {TaskDone, TaskDropped} then fail (Failure ''task has a work lock'')
            else bnd (ask (claimIsRunning owner now)) (\<lambda>running.
              check (\<not> (owner = 0 \<or> running)) (Failure ''task has a work lock''))))))"

definition updateTask :: "int \<Rightarrow> TaskStatus \<Rightarrow> handoff option \<Rightarrow> time \<Rightarrow> task store_op" where
  "updateTask taskID status releaseHandoff now =
     bnd (transaction
       (bnd (if status = TaskDone then refuse_open_decisions taskID else ret ()) (\<lambda>_.
        bnd (UpdateTaskStatus_sql status (rfc3339 now) taskID) (\<lambda>n.
        bnd (if n = 0 then
               bnd (map_error (\<lambda>e. if e = NoRows then TaskE ErrTaskNotFound else e) (TaskExists_sql taskID)) (\<lambda>_.
               fail (Failure ''task claim changed while updating''))
             else ret ()) (\<lambda>_.
        case releaseHandoff of
          None \<Rightarrow> ret ()
        | Some h \<Rightarrow>
            bnd (CompleteTaskHandoff_sql (h_id h) taskID now (Some taskHandoffReleasedReport)) (\<lambda>released.
            bnd (check (released = 1) (Failure ''complete task handoff after release'')) (\<lambda>_.
            task_entry (h_id h) ''completed'' taskHandoffReleasedReport (nz (h_received_by h)) now))))))) (\<lambda>_.
     bnd (case releaseHandoff of
            None \<Rightarrow> ret ()
          | Some h \<Rightarrow> bnd (GetTaskHandoff (h_id h)) (\<lambda>completed. publishTaskHandoffReported completed)) (\<lambda>_.
     bnd (GetTaskGoalID_sql taskID) (\<lambda>goalID.
     bnd (ListTasks goalID) (find_task taskID))))"

definition UpdateTask :: "int \<Rightarrow> TaskStatus \<Rightarrow> int \<Rightarrow> time \<Rightarrow> task store_op" where
  "UpdateTask taskID status agentSessionID now =
     (if status \<in> {TaskTodo, TaskDone, TaskDropped} then
        bnd (openTaskHandoff taskID) (\<lambda>releaseHandoff.
        bnd (authorizeTaskStatusRelease taskID status agentSessionID releaseHandoff now) (\<lambda>_.
        updateTask taskID status releaseHandoff now))
      else updateTask taskID status None now)"

definition ReleaseTaskForHuman :: "int \<Rightarrow> time \<Rightarrow> task store_op" where
  "ReleaseTaskForHuman taskID now =
     bnd (openTaskHandoff taskID) (\<lambda>releaseHandoff. updateTask taskID TaskTodo releaseHandoff now)"

definition ReleaseTaskAs :: "int \<Rightarrow> int \<Rightarrow> time \<Rightarrow> task store_op" where
  "ReleaseTaskAs taskID agentSessionID now = UpdateTask taskID TaskTodo agentSessionID now"

definition authorizeTaskContentUpdate :: "int \<Rightarrow> int \<Rightarrow> time \<Rightarrow> unit store_op" where
  "authorizeTaskContentUpdate taskID agentSessionID now =
     bnd (GetTaskGoalID taskID) (\<lambda>goalID.
     bnd (openTaskHandoff taskID) (\<lambda>taskHandoff.
     if (case taskHandoff of None \<Rightarrow> False
         | Some h \<Rightarrow> nz (h_received_by h) = agentSessionID \<and> agentSessionID \<noteq> 0) then ret ()
     else bnd (try_op (requireGoalHandoffForTask taskID agentSessionID now)) (\<lambda>r. case r of
       Inr u \<Rightarrow> ret ()
     | Inl e \<Rightarrow>
         bnd (check (e = ErrTaskHandoff NotHeld) e) (\<lambda>_.
         bnd (openGoalHandoff goalID) (\<lambda>goalHandoff.
         check (taskHandoff = None \<and> goalHandoff = None) (TaskE ErrTaskContentNotOwned))))))"

definition UpdateTaskContent ::
  "int \<Rightarrow> string option \<Rightarrow> string option \<Rightarrow> int \<Rightarrow> time \<Rightarrow> task store_op" where
  "UpdateTaskContent taskID title description agentSessionID now =
     bnd (check (\<not> (title = None \<and> description = None))
            (Failure ''task content update requires at least one field'')) (\<lambda>_.
     bnd (check (taskID \<noteq> 0) (TaskE ErrTaskNotFound)) (\<lambda>_.
     bnd (authorizeTaskContentUpdate taskID agentSessionID now) (\<lambda>_.
     bnd (UpdateTaskContent_sql title description (rfc3339 now) taskID) (\<lambda>affected.
     bnd (if affected = 0 then bnd (loadTask taskID) (\<lambda>_. fail (TaskE ErrTaskNotEditable)) else ret ()) (\<lambda>_.
     loadTask taskID)))))"

section \<open>Claiming\<close>

definition mapTaskClaimHandoffError :: "error \<Rightarrow> error" where
  "mapTaskClaimHandoffError e =
     (if e = ErrTaskHandoff AlreadyOpen \<or> e = UniqueConstraintFailed then TaskE ErrTaskAlreadyClaimed
      else e)"

definition ClaimTask :: "int \<Rightarrow> int \<Rightarrow> string \<Rightarrow> time \<Rightarrow> task store_op" where
  "ClaimTask taskID agentSessionID uuid now =
     bnd (map_error (\<lambda>e. if e = NoRows then TaskE ErrTaskNotFound else e)
            (GetTaskForClaim_sql taskID)) (\<lambda>(t, goalStatus).
     bnd (check (goalStatus = GoalActive) (GoalE ErrGoalNotActive)) (\<lambda>_.
     bnd (map_error mapTaskClaimHandoffError
            (requestTaskHandoffForClaim uuid taskID agentSessionID now)) (\<lambda>_.
     bnd (ReceiveTaskHandoff uuid taskID agentSessionID now) (\<lambda>_.
     loadTask taskID))))"

section \<open>Every operation moves the store forward\<close>

lemma reads_claimed_by [reads_intros]: "reads (claimed_by i ts)"
  by (induction i ts rule: claimed_by.induct) (auto simp: split: option.split intro!: reads_intros)

lemma reads_task_ops [reads_intros]:
  "reads (resolveID v)" "reads (ListTaskCommits i)" "reads (GetTaskGoalID i)"
  "reads ListTasksForAllGoals" "reads (find_task i ts)" "reads (loadTask i)" "reads (ProjectIDForTask i)"
  "reads (ListOpenTasksClaimedBy g i)" "reads (authorizeTaskStatusRelease i st a h now)"
  "reads (authorizeTaskContentUpdate i a now)"
  unfolding resolveID_def ListTaskCommits_def GetTaskGoalID_def ListTasksForAllGoals_def find_task_def
    loadTask_def ProjectIDForTask_def ListOpenTasksClaimedBy_def authorizeTaskStatusRelease_def
    authorizeTaskContentUpdate_def Let_def
  by (rule reads_intros)+

lemma updateTask_le [le_queries]: "evolves store_le (updateTask i st h now)"
  unfolding updateTask_def
  by (rule le_rules le_queries reads_intros | rule store_le.ev_reads, rule reads_intros)+

lemma UpdateTask_le [le_queries]: "evolves store_le (UpdateTask i st a now)"
  unfolding UpdateTask_def
  by (rule le_rules le_queries reads_intros | rule store_le.ev_reads, rule reads_intros)+

lemma task_ops_le [le_queries]:
  "evolves store_le (LinkTaskCommit i c)"
  "evolves store_le (SnoozeTask i until now)"
  "evolves store_le (ReleaseTaskForHuman i now)"
  "evolves store_le (ReleaseTaskAs i a now)"
  "evolves store_le (UpdateTaskContent i title desc a now)"
  "evolves store_le (ClaimTask i a uuid now)"
  unfolding LinkTaskCommit_def SnoozeTask_def ReleaseTaskForHuman_def ReleaseTaskAs_def
    UpdateTaskContent_def ClaimTask_def
  by (rule le_rules le_queries reads_intros | rule store_le.ev_reads, rule reads_intros)+

end
