(* ===== verification/Atct_Goal.thy ===== *)
theory Atct_Goal
  imports Atct_Task
begin

text \<open>
  The operations on goals (\<^verbatim>\<open>internal/store/goal.go\<close>): creating, claiming,
  deriving one goal from another, the human review of a finished goal and its finalization, and
  withdrawing a goal with its open work.
\<close>

section \<open>Creating, reading, claiming\<close>

definition normalizeGoalCreator :: "string list \<Rightarrow> string" where
  "normalizeGoalCreator input =
     (case input of [] \<Rightarrow> ''human''
      | x # _ \<Rightarrow> if TrimSpace x = ''human'' then ''human'' else ''agent'')"

definition nullableGoalID :: "int \<Rightarrow> int option" where
  "nullableGoalID i = nullable i"

definition CreateGoal :: "int \<Rightarrow> string \<Rightarrow> string \<Rightarrow> int list \<Rightarrow> time \<Rightarrow> goal store_op" where
  "CreateGoal projectID content creator0 derivedFrom now =
     bnd (check (\<not> blank content) (Failure ''goal content must not be blank'')) (\<lambda>_.
     bnd (check (length derivedFrom \<le> 1) (Failure ''goal can have at most one derived-from goal'')) (\<lambda>_.
     (let parentID = (case derivedFrom of [] \<Rightarrow> 0 | p # _ \<Rightarrow> p);
          creator = normalizeGoalCreator [creator0]
      in bnd (if parentID \<noteq> 0 then bnd (GetGoal parentID) (\<lambda>_. ret ()) else ret ()) (\<lambda>_.
         bnd (transaction
           (bnd (CreateGoal_sql projectID (nullableGoalID parentID) content GoalActive creator
                   (rfc3339 now) (rfc3339 now)) (\<lambda>i.
            ret \<lparr>g_id = i, g_project_id = projectID, g_derived_from = nullableGoalID parentID,
                 g_content = content, g_spec = [], g_plan = [], g_status = GoalActive,
                 g_creator = creator, g_result_summary = [], g_work_done = [], g_now_possible = [],
                 g_how_to_verify = [], g_surprises = [], g_needs_review = [],
                 g_created_at = now, g_updated_at = now\<rparr>))) (\<lambda>g.
         bnd (publishWorkflowEvents [GoalCreatedEvent g]) (\<lambda>_.
         ret g))))))"

definition UpdateGoalRequestReport :: "int \<Rightarrow> string \<Rightarrow> string \<Rightarrow> time \<Rightarrow> goal store_op" where
  "UpdateGoalRequestReport goalID spec plan now =
     bnd (checkSpecPlanNotReferenceOnly spec plan) (\<lambda>_.
     bnd (UpdateGoalRequestReport_sql spec plan (rfc3339 now) goalID) (\<lambda>affected.
     bnd (check (affected \<noteq> 0) (GoalE ErrGoalNotFound)) (\<lambda>_.
     GetGoal goalID)))"

definition ReleaseGoal :: "int \<Rightarrow> time \<Rightarrow> unit store_op" where
  "ReleaseGoal goalID now =
     bnd (check (goalID \<noteq> 0) (GoalE ErrGoalNotFound)) (\<lambda>_.
     bnd (CompleteGoalHandoffForGoal goalID goalHandoffReleasedReport now) (\<lambda>_. ret ()))"

definition mapGoalClaimHandoffError :: "error \<Rightarrow> error" where
  "mapGoalClaimHandoffError e =
     (if e = ErrGoalHandoff AlreadyOpen \<or> e = UniqueConstraintFailed then GoalE ErrGoalAlreadyClaimed
      else e)"

definition ClaimGoal :: "int \<Rightarrow> int \<Rightarrow> string \<Rightarrow> time \<Rightarrow> goal store_op" where
  "ClaimGoal goalID agentSessionID uuid now =
     bnd (check (goalID \<noteq> 0) (GoalE ErrGoalNotFound)) (\<lambda>_.
     if agentSessionID = 0 then bnd (ReleaseGoal goalID now) (\<lambda>_. GetGoal goalID)
     else
       bnd (GetGoal goalID) (\<lambda>_.
       bnd (openGoalHandoff goalID) (\<lambda>open.
       if (case open of None \<Rightarrow> False
           | Some h \<Rightarrow> (if nz (h_received_by h) = 0 then nz (h_requested_by h) else nz (h_received_by h))
                        = agentSessionID)
       then GetGoal goalID
       else
         bnd (map_error mapGoalClaimHandoffError
                (requestGoalHandoffForClaim uuid goalID agentSessionID now)) (\<lambda>_.
         bnd (ReceiveGoalHandoff uuid goalID agentSessionID now) (\<lambda>_.
         GetGoal goalID)))))"

definition ListGoals :: "int \<Rightarrow> (goal list) store_op" where
  "ListGoals projectID = ListGoals_sql projectID"

definition ListAllGoals :: "(goal list) store_op" where
  "ListAllGoals = ListAllGoals_sql"

definition inbox_goal :: "goal \<Rightarrow> goal" where
  "inbox_goal g =
     (if g_status g = GoalActive then g
      else g\<lparr>g_content := takeWhile (\<lambda>c. c \<noteq> newline) (g_content g), g_spec := [], g_plan := [],
             g_result_summary := [], g_work_done := [], g_now_possible := [], g_how_to_verify := [],
             g_surprises := [], g_needs_review := []\<rparr>)"

definition ListAllGoalsForInbox_sql :: "(goal list) store_op" where
  "ListAllGoalsForInbox_sql = bnd ListAllGoals_sql (\<lambda>gs. ret (map inbox_goal gs))"

definition ListAllGoalsForInbox :: "(goal list) store_op" where
  "ListAllGoalsForInbox = ListAllGoalsForInbox_sql"

definition ListDerivedGoals :: "int \<Rightarrow> (goal list) store_op" where
  "ListDerivedGoals derivedFrom = ListDerivedGoals_sql (nullableGoalID derivedFrom)"

definition ListNextGoalIDs :: "int \<Rightarrow> (int list) store_op" where
  "ListNextGoalIDs goalID = ListNextGoalIDs_sql goalID"

section \<open>Deriving a goal\<close>

lemma GetGoal_value:
  "fst (GetGoal i s) =
     (case goal_row i s of None \<Rightarrow> Inl (GoalE ErrGoalNotFound)
      | Some g \<Rightarrow> Inr (g\<lparr>g_derived_from := nullable (nz (g_derived_from g))\<rparr>))"
  by (cases "goal_row i s")
    (simp_all add: GetGoal_def GetGoal_sql_def ListNextGoals_def ListNextGoals_sql_def bnd_def ask_def
      need_def map_error_def ret_def fail_def)

text \<open>
  The walk up the parents. It only reads, so it is a function of the store; every round looks up a
  goal it has not seen, so it ends after at most as many rounds as there are goals.
\<close>

function walk :: "store \<Rightarrow> int \<Rightarrow> int list \<Rightarrow> int \<Rightarrow> error option" where
  "walk s goalID seen current =
     (if current = 0 then None
      else if current = goalID then Some (GoalE ErrGoalDerivationCycle)
      else if current \<in> set seen then Some (GoalE ErrGoalDerivationCycle)
      else case fst (GetGoal current s) of
             Inl e \<Rightarrow> Some e
           | Inr parent \<Rightarrow> walk s goalID (current # seen) (nz (g_derived_from parent)))"
  by pat_completeness auto

termination
proof (relation "measure (\<lambda>(s, goalID, seen, current). card (g_id ` set (goals s) - set seen))")
  fix s goalID seen current parent
  assume new: "current \<notin> set seen" and found: "fst (GetGoal current s) = Inr parent"
  then have "current \<in> g_id ` set (goals s)"
    by (auto simp: GetGoal_value goal_row_def split: option.splits dest!: find_Some_in)
  then have "card (g_id ` set (goals s) - set (current # seen)) < card (g_id ` set (goals s) - set seen)"
    using new by (intro psubset_card_mono) auto
  then show "((s, goalID, current # seen, nz (g_derived_from parent)), s, goalID, seen, current)
      \<in> measure (\<lambda>(s, goalID, seen, current). card (g_id ` set (goals s) - set seen))"
    by simp
qed simp

declare walk.simps [simp del]

definition SetGoalDerivedFrom :: "int \<Rightarrow> int \<Rightarrow> time \<Rightarrow> unit store_op" where
  "SetGoalDerivedFrom goalID parentID now =
     bnd (check (goalID \<noteq> 0) (GoalE ErrGoalNotFound)) (\<lambda>_.
     bnd (check (\<not> (parentID \<noteq> 0 \<and> goalID = parentID)) (GoalE ErrGoalSelfReference)) (\<lambda>_.
     bnd (if parentID \<noteq> 0 then
            bnd (GetGoal parentID) (\<lambda>_.
            bnd (ask (\<lambda>s. walk s goalID [] parentID)) (\<lambda>r. case r of
              None \<Rightarrow> ret () | Some e \<Rightarrow> fail e))
          else ret ()) (\<lambda>_.
     bnd (SetGoalDerivedFrom_sql (nullableGoalID parentID) (rfc3339 now) goalID) (\<lambda>affected.
     check (affected \<noteq> 0) (GoalE ErrGoalNotFound)))))"

section \<open>Completion reports\<close>

fun validateNextGoalIDs :: "goal \<Rightarrow> int list \<Rightarrow> int list \<Rightarrow> unit store_op" where
  "validateNextGoalIDs source seen [] = ret ()"
| "validateNextGoalIDs source seen (i # ids) =
     (if i = g_id source then fail (GoalE ErrNextGoalSelfReference)
      else if i \<in> set seen then fail (GoalE ErrNextGoalDuplicate)
      else bnd (map_error (\<lambda>e. if e = NoRows then GoalE ErrNextGoalNotFound else e)
                  (GetGoalProjectID_sql i)) (\<lambda>projectID.
           bnd (check (projectID = g_project_id source) (GoalE ErrNextGoalProjectMismatch)) (\<lambda>_.
           validateNextGoalIDs source (i # seen) ids)))"

definition replaceNextGoals :: "int \<Rightarrow> int list \<Rightarrow> time \<Rightarrow> unit store_op" where
  "replaceNextGoals goalID ids createdAt =
     bnd (DeleteNextGoals_sql goalID) (\<lambda>_. each (\<lambda>i. InsertNextGoal_sql goalID i createdAt) ids)"

definition completionReportFields :: "completion_report \<Rightarrow> string list" where
  "completionReportFields report =
     [WorkDone report, NowPossible report, HowToVerify report, Surprises report, NeedsReview report]"

definition completionReportMaxLength :: nat where
  "completionReportMaxLength = 2000"

definition validateCompletionReport :: "completion_report \<Rightarrow> unit store_op" where
  "validateCompletionReport report =
     (if list_ex blank (completionReportFields report)
      then fail (Failure ''completion report fields are empty'')
      else if list_ex (\<lambda>v. completionReportMaxLength < length (runes v)) (completionReportFields report)
      then fail (Failure ''completion report field is too long'')
      else ret ())"

definition completionReportFromGoal :: "goal \<Rightarrow> completion_report" where
  "completionReportFromGoal g =
     \<lparr>WorkDone = g_work_done g, NowPossible = g_now_possible g, HowToVerify = g_how_to_verify g,
      Surprises = g_surprises g, NeedsReview = g_needs_review g, NextGoalIDs = []\<rparr>"

definition goalNotActiveForCompletionError :: error where
  "goalNotActiveForCompletionError = GoalE ErrGoalNotActive"

section \<open>The review of a goal\<close>

definition HasGoalReview :: "int \<Rightarrow> bool store_op" where
  "HasGoalReview goalID = HasGoalReview_sql goalID"

definition latestGoalReview :: "int \<Rightarrow> (decision option) store_op" where
  "latestGoalReview goalID =
     bnd (try_op (GetLatestGoalReviewID_sql goalID)) (\<lambda>r. case r of
       Inl e \<Rightarrow> if e = NoRows then ret None else fail e
     | Inr i \<Rightarrow> bnd (GetDecision i) (\<lambda>d. ret (Some d)))"

fun latest_delegated :: "handoff option \<Rightarrow> handoff list \<Rightarrow> handoff option" where
  "latest_delegated latest [] = latest"
| "latest_delegated latest (c # cs) =
     (if \<not> handoffIsDelegation (nz (h_requested_by c)) (nz (h_received_by c)) then latest_delegated latest cs
      else latest_delegated
        (case latest of None \<Rightarrow> Some c
         | Some l \<Rightarrow> (case h_requested_at c of None \<Rightarrow> latest
            | Some cr \<Rightarrow> (case h_requested_at l of None \<Rightarrow> Some c
               | Some lr \<Rightarrow> if lr < cr then Some c else latest))) cs)"

definition latestDelegatedGoalHandoff :: "handoff list \<Rightarrow> handoff option" where
  "latestDelegatedGoalHandoff handoffs = latest_delegated None handoffs"

definition goalHandoffHasCommanderReviewReceipt :: "handoff \<Rightarrow> bool" where
  "goalHandoffHasCommanderReviewReceipt h \<longleftrightarrow>
     h_requested_at h \<noteq> None \<and> h_received_at h \<noteq> None \<and> h_review_requested_at h \<noteq> None
   \<and> h_review_received_at h \<noteq> None \<and> nz (h_review_requested_by h) \<noteq> 0
   \<and> nz (h_review_requested_by h) = nz (h_received_by h) \<and> nz (h_review_received_by h) \<noteq> 0"

definition goalHandoffHasCommanderReviewCompletion :: "handoff \<Rightarrow> bool" where
  "goalHandoffHasCommanderReviewCompletion h \<longleftrightarrow>
     goalHandoffHasCommanderReviewReceipt h \<and> h_completed_report_at h \<noteq> None
   \<and> h_complete_report h \<noteq> Some goalHandoffReclaimedReport
   \<and> h_complete_report h \<noteq> Some goalHandoffReleasedReport"

definition latestGoalHandoffForReview :: "int \<Rightarrow> int \<Rightarrow> bool \<Rightarrow> time \<Rightarrow> handoff store_op" where
  "latestGoalHandoffForReview goalID callerID requireReceiver now =
     bnd (ListGoalHandoffs goalID) (\<lambda>handoffs.
     bnd (need (GoalE ErrGoalReviewHandoffIncomplete) (latestDelegatedGoalHandoff handoffs)) (\<lambda>latest.
     bnd (check (\<not> (\<not> goalHandoffHasCommanderReviewReceipt latest \<or> h_completed_report_at latest \<noteq> None
                    \<or> requireReceiver \<and> nz (h_review_received_by latest) \<noteq> callerID))
            (GoalE ErrGoalReviewHandoffIncomplete)) (\<lambda>_.
     bnd (map_error (\<lambda>_. GoalE ErrGoalReviewHandoffIncomplete)
            (requireProjectClaimForGoal goalID callerID now)) (\<lambda>_.
     ret latest))))"

definition rejected_since :: "decision \<Rightarrow> handoff \<Rightarrow> bool" where
  "rejected_since previous latest \<longleftrightarrow>
     d_status previous = DecisionAnswered \<and> d_answer_label previous = ''reject''
   \<and> (case (d_answered_at previous, h_review_requested_at latest) of
        (Some at, Some since) \<Rightarrow> \<not> at < since
      | _ \<Rightarrow> True)"

definition requireLatestGoalHandoffForReview :: "int \<Rightarrow> int \<Rightarrow> decision option \<Rightarrow> time \<Rightarrow> unit store_op" where
  "requireLatestGoalHandoffForReview goalID callerID previous now =
     bnd (latestGoalHandoffForReview goalID callerID True now) (\<lambda>latest.
     check (case previous of None \<Rightarrow> True | Some d \<Rightarrow> \<not> rejected_since d latest)
       (GoalE ErrGoalReviewHandoffIncomplete))"

definition review_options :: "decision_option list" where
  "review_options =
     [\<lparr>o_label = ''approve'', o_description = ''Approve the reviewed goal'',
       o_consequence = ''The commander may merge and complete the goal''\<rparr>,
      \<lparr>o_label = ''reject'', o_description = ''Reject the reviewed goal'',
       o_consequence = ''The goal remains active and the commander returns the handoff for revision''\<rparr>]"

definition RequestGoalReview :: "int \<Rightarrow> int \<Rightarrow> completion_report list \<Rightarrow> time \<Rightarrow> decision store_op" where
  "RequestGoalReview goalID agentSessionID reports now =
     (case reports of
        [] \<Rightarrow> fail (Failure ''goal review requires a completion report'')
      | _ # _ # _ \<Rightarrow> fail (Failure ''goal review accepts exactly one completion report'')
      | [report] \<Rightarrow>
     bnd (validateCompletionReport report) (\<lambda>_.
     bnd (GetGoal goalID) (\<lambda>goal.
     bnd (check (g_status goal = GoalActive) goalNotActiveForCompletionError) (\<lambda>_.
     bnd (validateNextGoalIDs goal [] (NextGoalIDs report)) (\<lambda>_.
     bnd (latestGoalReview goalID) (\<lambda>previous.
     bnd (check (case previous of None \<Rightarrow> True | Some d \<Rightarrow> d_status d \<noteq> DecisionOpen)
            (GoalE ErrGoalReviewOpen)) (\<lambda>_.
     bnd (requireLatestGoalHandoffForReview goalID agentSessionID previous now) (\<lambda>_.
     bnd (transaction
       (bnd (CountOpenDecisionsForGoal_sql goalID) (\<lambda>open.
        bnd (check (open = 0) openGoalBlockersError) (\<lambda>_.
        bnd (CreateDecision_sql goalID None KindGoalReview ''Approve this goal review?'' review_options []
               None agentSessionID (rfc3339 now)) (\<lambda>decisionID.
        bnd (UpdateGoalCompletionReport_sql (WorkDone report) report (rfc3339 now) goalID) (\<lambda>affected.
        bnd (check (affected = 1) goalNotActiveForCompletionError) (\<lambda>_.
        bnd (replaceNextGoals goalID (NextGoalIDs report) now) (\<lambda>_.
        bnd (GetDecision_sql decisionID) (\<lambda>row.
        ret (decisionFromRow row)))))))))) (\<lambda>d.
     bnd (notify_publish (d_id d)) (\<lambda>_.
     bnd notify_publishAll (\<lambda>_.
     bnd (publishWorkflowEvents [WorkflowDecisionEvent ''decision.created'' d]) (\<lambda>_.
     ret d))))))))))))"

definition ApproveGoalReviewWith :: "int \<Rightarrow> AnswerSource \<Rightarrow> time \<Rightarrow> goal store_op" where
  "ApproveGoalReviewWith decisionID src now =
     bnd (transaction
       (bnd (map_error (\<lambda>e. if e = NoRows then DecisionE ErrDecisionNotOpen else e)
               (GetOpenGoalReviewGoalID_sql decisionID)) (\<lambda>goalID.
        bnd (GetGoalStatus_sql goalID) (\<lambda>status.
        bnd (check (status = GoalActive) goalNotActiveForCompletionError) (\<lambda>_.
        bnd (map_error answerWriteError (ApproveGoalReviewDecision_sql (rfc3339 now) src decisionID)) (\<lambda>affected.
        bnd (check (affected = 1) (DecisionE ErrDecisionNotOpen)) (\<lambda>_.
        bnd (GetDecision_sql decisionID) (\<lambda>row.
        ret (goalID, workflowDecisionEvent ''decision.approved'' row))))))))) (\<lambda>(goalID, event).
     bnd (notify_publish decisionID) (\<lambda>_.
     bnd notify_publishAll (\<lambda>_.
     bnd (publishWorkflowEvents [event]) (\<lambda>_.
     GetGoal goalID))))"

definition ApproveGoalReview :: "int \<Rightarrow> time \<Rightarrow> goal store_op" where
  "ApproveGoalReview decisionID now = ApproveGoalReviewWith decisionID no_source now"

definition RejectGoalReviewWith :: "int \<Rightarrow> string \<Rightarrow> AnswerSource \<Rightarrow> time \<Rightarrow> unit store_op" where
  "RejectGoalReviewWith decisionID reason src now =
     bnd (transaction
       (bnd (map_error answerWriteError (RejectGoalReviewDecision_sql reason now src decisionID)) (\<lambda>affected.
        bnd (check (affected = 1) (DecisionE ErrDecisionNotOpen)) (\<lambda>_.
        bnd (GetDecision_sql decisionID) (\<lambda>row.
        ret (workflowDecisionEvent ''decision.rejected'' row)))))) (\<lambda>event.
     bnd (notify_publish decisionID) (\<lambda>_.
     bnd notify_publishAll (\<lambda>_.
     publishWorkflowEvents [event])))"

definition RejectGoalReview :: "int \<Rightarrow> string \<Rightarrow> time \<Rightarrow> unit store_op" where
  "RejectGoalReview decisionID reason now = RejectGoalReviewWith decisionID reason no_source now"

definition FinalizeGoalReview :: "int \<Rightarrow> int \<Rightarrow> time \<Rightarrow> goal store_op" where
  "FinalizeGoalReview goalID commanderID now =
     bnd (GetGoal goalID) (\<lambda>goal.
     bnd (check (g_status goal = GoalActive) goalNotActiveForCompletionError) (\<lambda>_.
     bnd (validateCompletionReport (completionReportFromGoal goal)) (\<lambda>_.
     bnd (latestGoalHandoffForReview goalID commanderID False now) (\<lambda>h.
     (let report = (case h_review_request_report h of None \<Rightarrow> [] | Some r \<Rightarrow> r) in
     bnd (check (\<not> completeReportIsEmpty report) (ErrGoalHandoff ReportEmpty)) (\<lambda>_.
     bnd (transaction
       (bnd (CountOpenDecisionsForGoal_sql goalID) (\<lambda>open.
        bnd (check (open = 0) openGoalBlockersError) (\<lambda>_.
        bnd (CountApprovedGoalReviewsForGoal_sql goalID) (\<lambda>approved.
        bnd (check (approved \<noteq> 0) (GoalE ErrGoalReviewNotApproved)) (\<lambda>_.
        bnd (CompleteGoalHandoffByReviewer_sql (h_id h) goalID (Some (nz (h_review_received_by h))) now
               report) (\<lambda>affected.
        bnd (check (affected = 1) (ErrGoalHandoff ReviewState)) (\<lambda>_.
        bnd (goal_entry (h_id h) ''completed'' report commanderID now) (\<lambda>_.
        bnd (FinalizeGoalReview_sql (rfc3339 now) goalID) (\<lambda>affected.
        check (affected = 1) goalNotActiveForCompletionError)))))))))) (\<lambda>_.
     GetGoal goalID)))))))"

section \<open>Withdrawing a goal\<close>

definition close_withdrawn_handoff :: "string \<Rightarrow> time \<Rightarrow> handoff \<Rightarrow> unit store_op" where
  "close_withdrawn_handoff reason now h =
     bnd (CompleteTaskHandoff_sql (h_id h) (h_owner h) (rfc3339 now)
            (if reason = [] then None else Some reason)) (\<lambda>_.
     task_entry (h_id h) ''completed'' reason (nz (h_received_by h)) now)"

fun withdrawn_events :: "decision list \<Rightarrow> (event list) store_op" where
  "withdrawn_events [] = ret []"
| "withdrawn_events (d # ds) =
     bnd (GetDecision_sql (d_id d)) (\<lambda>row.
     bnd (withdrawn_events ds) (\<lambda>rest.
     ret (workflowDecisionEvent ''decision.withdrawn'' row # rest)))"

definition WithdrawActiveGoal :: "int \<Rightarrow> string \<Rightarrow> time \<Rightarrow> unit store_op" where
  "WithdrawActiveGoal goalID reason now =
     bnd (check (\<not> blank reason) (Failure ''withdrawal reason is required'')) (\<lambda>_.
     bnd (transaction
       (bnd (GetGoalProjectID_sql goalID) (\<lambda>projectID.
        bnd (GetGoalStatus_sql goalID) (\<lambda>status.
        bnd (check (status = GoalActive) (GoalE ErrGoalNotActive)) (\<lambda>_.
        bnd (WithdrawActiveGoal_sql reason (rfc3339 now) goalID) (\<lambda>rows.
        bnd (check (rows = 1) (GoalE ErrGoalNotActive)) (\<lambda>_.
        bnd (ListOpenDecisions_sql goalID) (\<lambda>openDecisions.
        bnd (each (\<lambda>d. withdrawDecisionWith (d_id d) reason) openDecisions) (\<lambda>_.
        bnd (ListTasks_sql goalID) (\<lambda>ts.
        bnd (DropOpenTasksForGoal_sql (rfc3339 now) goalID) (\<lambda>_.
        bnd (ListOpenTaskHandoffsForGoal_sql goalID) (\<lambda>openTaskHandoffs.
        bnd (each (close_withdrawn_handoff reason now) openTaskHandoffs) (\<lambda>_.
        bnd (withdrawn_events openDecisions) (\<lambda>events.
        ret (openDecisions,
             GoalWithdrawnEvent goalID projectID reason
               (map t_id (filter (\<lambda>t. t_status t \<in> {TaskTodo, TaskDoing}) ts))
               (map h_id (filter (\<lambda>h. handoffIsDelegation (nz (h_requested_by h)) (nz (h_received_by h)))
                  openTaskHandoffs))
               (map d_id openDecisions) # events))))))))))))))) (\<lambda>(openDecisions, events).
     bnd (each (\<lambda>d. notify_publish (d_id d)) openDecisions) (\<lambda>_.
     bnd (publishWorkflowEvents events) (\<lambda>_.
     notify_publishAll))))"

section \<open>Every operation moves the store forward\<close>

lemma reads_validateNextGoalIDs [reads_intros]: "reads (validateNextGoalIDs g seen ids)"
  by (induction g seen ids rule: validateNextGoalIDs.induct) (auto intro!: reads_intros)

lemma reads_withdrawn_events [reads_intros]: "reads (withdrawn_events ds)"
  by (induction ds rule: withdrawn_events.induct) (auto intro!: reads_intros)

lemma reads_goal_ops [reads_intros]:
  "reads (ListGoals i)" "reads ListAllGoals" "reads ListAllGoalsForInbox" "reads (ListDerivedGoals i)"
  "reads (ListNextGoalIDs i)" "reads (validateCompletionReport r)" "reads (HasGoalReview i)"
  "reads (GetDecision j)" "reads (latestGoalReview i)" "reads (latestGoalHandoffForReview i c b now)"
  "reads (requireLatestGoalHandoffForReview i c p now)"
  unfolding ListGoals_def ListAllGoals_def ListAllGoalsForInbox_def ListAllGoalsForInbox_sql_def
    ListDerivedGoals_def ListNextGoalIDs_def validateCompletionReport_def HasGoalReview_def GetDecision_def
    latestGoalReview_def latestGoalHandoffForReview_def requireLatestGoalHandoffForReview_def
  by (rule reads_intros)+

lemma goal_parts_le [le_queries]:
  "evolves store_le (replaceNextGoals i ids now)"
  "evolves store_le (close_withdrawn_handoff reason now h)"
  "evolves store_le (ReleaseGoal i now)"
  unfolding replaceNextGoals_def close_withdrawn_handoff_def ReleaseGoal_def
  by (rule le_rules le_queries reads_intros | rule store_le.ev_reads, rule reads_intros)+

lemma RequestGoalReview_le [le_queries]: "evolves store_le (RequestGoalReview i c reports now)"
  unfolding RequestGoalReview_def
  by (simp split: list.split, intro conjI allI impI;
      (rule le_rules le_queries reads_intros | rule store_le.ev_reads, rule reads_intros)+)

lemma goal_ops_le [le_queries]:
  "evolves store_le (CreateGoal p content creator derived now)"
  "evolves store_le (UpdateGoalRequestReport i spec plan now)"
  "evolves store_le (ClaimGoal i c uuid now)"
  "evolves store_le (SetGoalDerivedFrom i parent now)"
  "evolves store_le (ApproveGoalReviewWith d src now)"
  "evolves store_le (RejectGoalReviewWith d reason src now)"
  "evolves store_le (FinalizeGoalReview i c now)"
  "evolves store_le (WithdrawActiveGoal i reason now)"
  unfolding CreateGoal_def UpdateGoalRequestReport_def ClaimGoal_def SetGoalDerivedFrom_def
    ApproveGoalReviewWith_def RejectGoalReviewWith_def FinalizeGoalReview_def WithdrawActiveGoal_def Let_def
  by (rule le_rules le_queries reads_intros | rule store_le.ev_reads, rule reads_intros)+

end
