(* ===== verification/Atct_Paths.thy ===== *)
theory Atct_Paths
  imports Atct_Prelude
begin

text \<open>
  The lexical part of Go's \<^verbatim>\<open>path/filepath\<close> on Unix and the functions of
  \<^verbatim>\<open>strings\<close> the program cuts paths and lines with. What the operating system and git
  answer is a parameter: the record \<open>world\<close>.
\<close>

section \<open>Cutting texts\<close>

text \<open>\<^verbatim>\<open>strings.Split(s, sep)\<close> for a separator of one byte.\<close>

fun split_char :: "char \<Rightarrow> string \<Rightarrow> string list" where
  "split_char c [] = [[]]"
| "split_char c (a # s) =
     (if a = c then [] # split_char c s
      else case split_char c s of [] \<Rightarrow> [[a]] | w # ws \<Rightarrow> (a # w) # ws)"

fun join_char :: "char \<Rightarrow> string list \<Rightarrow> string" where
  "join_char c [] = []"
| "join_char c [w] = w"
| "join_char c (w # v # ws) = w @ c # join_char c (v # ws)"

definition TrimRight :: "char \<Rightarrow> string \<Rightarrow> string" where
  "TrimRight c s = rev (dropWhile (\<lambda>a. a = c) (rev s))"

definition ends_with :: "string \<Rightarrow> string \<Rightarrow> bool" where
  "ends_with s t \<longleftrightarrow> starts_with (rev t) (rev s)"

definition TrimSuffix_of :: "string \<Rightarrow> string \<Rightarrow> string" where
  "TrimSuffix_of s t = (if ends_with s t then take (length s - length t) s else s)"

text \<open>\<^verbatim>\<open>strings.Cut\<close> at the first occurrence of a byte.\<close>

definition Cut :: "char \<Rightarrow> string \<Rightarrow> (string \<times> string) option" where
  "Cut c s = (if c \<in> set s then Some (takeWhile (\<lambda>a. a \<noteq> c) s, tl (dropWhile (\<lambda>a. a \<noteq> c) s)) else None)"

lemma split_char_not_Nil [simp]: "split_char c s \<noteq> []"
  by (induction s) (auto split: list.splits)

lemma join_split_char: "join_char c (split_char c s) = s"
proof (induction s)
  case (Cons a s)
  obtain v vs where vs: "split_char c s = v # vs" by (cases "split_char c s") simp_all
  with Cons show ?case by (cases vs) auto
qed simp

lemma split_char_parts: "w \<in> set (split_char c s) \<Longrightarrow> c \<notin> set w"
proof (induction s arbitrary: w)
  case (Cons a s)
  obtain v vs where vs: "split_char c s = v # vs" by (cases "split_char c s") simp_all
  have "c \<notin> set x" if "x = v \<or> x \<in> set vs" for x using Cons.IH [of x] that by (simp add: vs)
  then show ?case using Cons.prems by (cases "a = c") (auto simp: vs)
qed simp

lemma split_char_single: "c \<notin> set w \<Longrightarrow> split_char c w = [w]"
  by (induction w) auto

lemma split_char_append: "split_char c (w @ c # s) = w # split_char c s" if "c \<notin> set w"
  using that by (induction w) auto

lemma split_join_char: "ws \<noteq> [] \<Longrightarrow> \<forall>w\<in>set ws. c \<notin> set w \<Longrightarrow> split_char c (join_char c ws) = ws"
  by (induction ws rule: join_char.induct) (auto simp: split_char_append split_char_single)

section \<open>Paths\<close>

definition slash :: char where "slash = CHR ''/''"

definition dot :: string where "dot = ''.''"

definition dotdot :: string where "dotdot = ''..''"

lemma dots: "dot \<noteq> []" "dotdot \<noteq> []" "dot \<noteq> dotdot" "dotdot \<noteq> dot" "slash \<notin> set dotdot"
  by (simp_all add: dot_def dotdot_def slash_def)

definition IsAbs :: "string \<Rightarrow> bool" where
  "IsAbs p \<longleftrightarrow> starts_with [slash] p"

text \<open>
  \<^verbatim>\<open>filepath.Clean\<close>: empty and \<open>.\<close> elements are dropped, \<open>..\<close> takes the
  element before it away, and at the root it is dropped. The stack is kept reversed.
\<close>

fun clean_parts :: "bool \<Rightarrow> string list \<Rightarrow> string list \<Rightarrow> string list" where
  "clean_parts rooted stack [] = rev stack"
| "clean_parts rooted stack (e # es) =
     (if e = [] \<or> e = dot then clean_parts rooted stack es
      else if e = dotdot then
        (case stack of
           [] \<Rightarrow> clean_parts rooted (if rooted then [] else [dotdot]) es
         | x # xs \<Rightarrow> if x = dotdot then clean_parts rooted (dotdot # stack) es
                    else clean_parts rooted xs es)
      else clean_parts rooted (e # stack) es)"

definition path_parts :: "string \<Rightarrow> string list" where
  "path_parts p = clean_parts (IsAbs p) [] (split_char slash p)"

definition Clean :: "string \<Rightarrow> string" where
  "Clean p =
     (if IsAbs p then slash # join_char slash (path_parts p)
      else if path_parts p = [] then dot else join_char slash (path_parts p))"

definition Base :: "string \<Rightarrow> string" where
  "Base p =
     (if p = [] then dot
      else let q = TrimRight slash p in if q = [] then [slash] else last (split_char slash q))"

text \<open>\<^verbatim>\<open>filepath.Dir\<close>: all but the last element, cleaned.\<close>

definition Dir :: "string \<Rightarrow> string" where
  "Dir p = Clean (rev (dropWhile (\<lambda>a. a \<noteq> slash) (rev p)))"

definition Join :: "string list \<Rightarrow> string" where
  "Join es =
     (let ws = dropWhile (\<lambda>e. e = []) es in if ws = [] then [] else Clean (join_char slash ws))"

text \<open>
  \<^verbatim>\<open>filepath.Rel\<close> on the elements of the two cleaned paths, where a rooted path starts
  with an empty element; None is its error.
\<close>

fun drop_common :: "string list \<Rightarrow> string list \<Rightarrow> string list \<times> string list" where
  "drop_common (b # bs) (t # ts) = (if b = t then drop_common bs ts else (b # bs, t # ts))"
| "drop_common bs ts = (bs, ts)"

definition rel_parts :: "string \<Rightarrow> string list" where
  "rel_parts p = (if IsAbs p then [] # path_parts p else path_parts p)"

definition Rel :: "string \<Rightarrow> string \<Rightarrow> string option" where
  "Rel base targ =
     (if Clean base = Clean targ then Some dot
      else if IsAbs base \<noteq> IsAbs targ then None
      else case drop_common (rel_parts base) (if Clean targ = dot then [dot] else rel_parts targ) of
        (bs, ts) \<Rightarrow>
          if bs \<noteq> [] \<and> hd bs = dotdot then None
          else Some (join_char slash (replicate (length bs) dotdot @ ts)))"

section \<open>The operating system and git\<close>

text \<open>
  \<open>w_evalSymlinks\<close> is \<^verbatim>\<open>filepath.EvalSymlinks\<close>, \<open>w_cwd\<close> the working
  directory \<^verbatim>\<open>filepath.Abs\<close> completes a relative path with, and \<open>w_git dir args\<close>
  what \<^verbatim>\<open>git -C dir args\<close> prints; None is an error.
\<close>

record world =
  w_evalSymlinks :: "string \<Rightarrow> string option"
  w_cwd :: "string option"
  w_git :: "string \<Rightarrow> string list \<Rightarrow> string option"

definition Abs :: "world \<Rightarrow> string \<Rightarrow> string option" where
  "Abs w p =
     (if IsAbs p then Some (Clean p) else map_option (\<lambda>d. Join [d, p]) (w_cwd w))"

section \<open>What the functions promise\<close>

definition clean_element :: "string \<Rightarrow> bool" where
  "clean_element e \<longleftrightarrow> e \<noteq> [] \<and> e \<noteq> dot \<and> slash \<notin> set e"

text \<open>Reading one element only changes the stack.\<close>

lemma clean_parts_step:
  "\<exists>stack'. set stack' \<subseteq> insert e (insert dotdot (set stack))
     \<and> (e = [] \<or> e = dot \<longrightarrow> set stack' \<subseteq> set stack)
     \<and> (rooted \<and> dotdot \<notin> set stack \<longrightarrow> dotdot \<notin> set stack')
     \<and> clean_parts rooted stack (e # es) = clean_parts rooted stack' es"
proof -
  consider "e = [] \<or> e = dot" | "e = dotdot" | "e \<noteq> []" "e \<noteq> dot" "e \<noteq> dotdot" by blast
  then show ?thesis
  proof cases
    case 1
    then show ?thesis by (intro exI [of _ stack]) auto
  next
    case 2
    then show ?thesis
      using dots
      by (intro exI [of _ "case stack of [] \<Rightarrow> (if rooted then [] else [dotdot])
            | x # xs \<Rightarrow> if x = dotdot then dotdot # stack else xs"])
        (auto split: list.splits)
  next
    case 3
    then show ?thesis by (intro exI [of _ "e # stack"]) auto
  qed
qed

lemma clean_parts_elements:
  "\<forall>e\<in>set stack. clean_element e \<Longrightarrow> \<forall>e\<in>set es. slash \<notin> set e \<Longrightarrow>
     \<forall>e\<in>set (clean_parts rooted stack es). clean_element e"
proof (induction es arbitrary: stack)
  case (Cons e es)
  obtain st where st: "set st \<subseteq> insert e (insert dotdot (set stack))"
    "e = [] \<or> e = dot \<longrightarrow> set st \<subseteq> set stack" "clean_parts rooted stack (e # es) = clean_parts rooted st es"
    using clean_parts_step by metis
  have "clean_element dotdot" by (simp add: clean_element_def dots)
  moreover have "e = [] \<or> e = dot \<or> clean_element e" using Cons.prems(2) by (auto simp: clean_element_def)
  ultimately have "\<forall>e\<in>set st. clean_element e" using st(1,2) Cons.prems(1) by blast
  then show ?case using Cons.IH [of st] Cons.prems(2) st(3) by simp
qed simp

lemma path_parts_elements: "e \<in> set (path_parts p) \<Longrightarrow> clean_element e"
  using clean_parts_elements [of "[]" "split_char slash p" "IsAbs p"]
  by (auto simp: path_parts_def dest: split_char_parts)

text \<open>Elements that are clean already are kept as they are.\<close>

lemma clean_parts_plain:
  "\<forall>e\<in>set es. clean_element e \<and> e \<noteq> dotdot \<Longrightarrow> clean_parts rooted stack es = rev stack @ es"
  by (induction es arbitrary: stack) (auto simp: clean_element_def)

text \<open>Above the root there is nothing: a rooted path never keeps an \<open>..\<close>.\<close>

lemma clean_parts_rooted:
  "dotdot \<notin> set stack \<Longrightarrow> rooted \<Longrightarrow> dotdot \<notin> set (clean_parts rooted stack es)"
proof (induction es arbitrary: stack)
  case (Cons e es)
  then show ?case using clean_parts_step [of e stack rooted es] by metis
qed simp

lemma path_parts_rooted: "IsAbs p \<Longrightarrow> dotdot \<notin> set (path_parts p)"
  by (simp add: path_parts_def clean_parts_rooted)

lemma split_rooted:
  "\<forall>e\<in>set es. slash \<notin> set e \<Longrightarrow> split_char slash (slash # join_char slash es) = [] # (if es = [] then [[]] else es)"
  by (cases "es = []") (simp_all add: split_join_char)

lemma Clean_rooted_idem:
  assumes "IsAbs p"
  shows "Clean (Clean p) = Clean p" "IsAbs (Clean p)" "path_parts (Clean p) = path_parts p"
proof -
  let ?es = "path_parts p"
  have cl: "Clean p = slash # join_char slash ?es" using assms by (simp add: Clean_def)
  show abs: "IsAbs (Clean p)" by (simp add: cl IsAbs_def starts_with_def)
  have plain: "\<forall>e\<in>set ?es. clean_element e \<and> e \<noteq> dotdot"
    using path_parts_elements path_parts_rooted [OF assms] by metis
  then have sl: "\<forall>e\<in>set ?es. slash \<notin> set e" by (simp add: clean_element_def)
  show parts: "path_parts (Clean p) = path_parts p"
  proof -
    have "path_parts (Clean p) = clean_parts True [] ([] # (if ?es = [] then [[]] else ?es))"
      unfolding path_parts_def [of "Clean p"] using abs by (simp only: cl split_rooted [OF sl])
    also have "\<dots> = ?es" using clean_parts_plain [OF plain, of True "[]"] by simp
    finally show ?thesis .
  qed
  show "Clean (Clean p) = Clean p"
    using abs parts assms by (simp add: Clean_def)
qed

end
