(* ===== verification/Atct_Projects.thy ===== *)
theory Atct_Projects
  imports Atct_Goal Atct_Paths
begin

text \<open>
  Projects (\<^verbatim>\<open>internal/store/project.go\<close> and \<^verbatim>\<open>project.sql.go\<close>):
  registering a root, claiming and releasing a project, archiving it, and finding the project of a
  working directory. What git and the file system answer is the parameter \<open>w\<close>.
\<close>

section \<open>Queries\<close>

text \<open>
  The two unique indexes are checked newest first, so a project that repeats both the root and the
  name is refused for its root.
\<close>

definition rootPathConflict :: error where
  "rootPathConflict = Failure ''UNIQUE constraint failed: projects.root_path''"

definition nameConflict :: error where
  "nameConflict = Failure ''UNIQUE constraint failed: projects.name''"

definition CreateProject_sql :: "string \<Rightarrow> string \<Rightarrow> time \<Rightarrow> int store_op" where
  "CreateProject_sql name rootPath createdAt =
     bnd (ask (\<lambda>s. next_id p_id (projects s))) (\<lambda>i.
     bnd (checked_insert
       (\<lambda>s. [(list_all (\<lambda>p. p_root_path p \<noteq> rootPath) (projects s), rootPathConflict),
             (list_all (\<lambda>p. p_name p \<noteq> name) (projects s), nameConflict)])
       projects_update
       \<lparr>p_id = i, p_name = name, p_root_path = rootPath, p_created_at = createdAt, p_claimed_by = 0,
        p_claimed_at = None, p_archived_at = None\<rparr>) (\<lambda>_. ret i))"

definition ClaimProject_sql :: "int \<Rightarrow> time option \<Rightarrow> int \<Rightarrow> nat store_op" where
  "ClaimProject_sql session claimedAt i =
     exec_update projects projects_update (\<lambda>p. p_id p = i)
       (\<lambda>p. p\<lparr>p_claimed_by := session, p_claimed_at := claimedAt\<rparr>)"

definition ReleaseProject_sql :: "int \<Rightarrow> nat store_op" where
  "ReleaseProject_sql i =
     exec_update projects projects_update (\<lambda>p. p_id p = i)
       (\<lambda>p. p\<lparr>p_claimed_by := 0, p_claimed_at := None\<rparr>)"

definition ArchiveProject_sql :: "time \<Rightarrow> int \<Rightarrow> nat store_op" where
  "ArchiveProject_sql now i =
     exec_update projects projects_update (\<lambda>p. p_id p = i)
       (\<lambda>p. p\<lparr>p_archived_at := (case p_archived_at p of None \<Rightarrow> Some now | Some t \<Rightarrow> Some t)\<rparr>)"

definition UnarchiveProject_sql :: "int \<Rightarrow> nat store_op" where
  "UnarchiveProject_sql i =
     exec_update projects projects_update (\<lambda>p. p_id p = i) (\<lambda>p. p\<lparr>p_archived_at := None\<rparr>)"

definition ListProjects_sql :: "(project list) store_op" where
  "ListProjects_sql = ask (\<lambda>s. order_by p_created_at (projects s))"

text \<open>
  \<^verbatim>\<open>x LIKE pattern\<close>: a percent sign stands for any text, an underscore for any
  character, and ASCII letters match in either case.
\<close>

definition like_lower :: "nat \<Rightarrow> nat" where
  "like_lower r = (if 65 \<le> r \<and> r \<le> 90 then r + 32 else r)"

fun sql_like :: "nat list \<Rightarrow> nat list \<Rightarrow> bool" where
  "sql_like [] s = (s = [])"
| "sql_like (p # ps) s =
     (if p = 37 then sql_like ps s \<or> (case s of [] \<Rightarrow> False | _ # t \<Rightarrow> sql_like (p # ps) t)
      else case s of [] \<Rightarrow> False
           | c # t \<Rightarrow> (p = 95 \<or> like_lower p = like_lower c) \<and> sql_like ps t)"

definition captures :: "string \<Rightarrow> project \<Rightarrow> bool" where
  "captures cwd p \<longleftrightarrow> cwd = p_root_path p \<or> sql_like (runes (p_root_path p @ ''/%'')) (runes cwd)"

definition ResolveProject_sql :: "string \<Rightarrow> project store_op" where
  "ResolveProject_sql cwd =
     bnd (ask (\<lambda>s. order_by (\<lambda>p. - int (sql_length (p_root_path p)))
       (filter (\<lambda>p. captures cwd p \<and> (p_archived_at p = None \<or> p_root_path p = cwd)) (projects s))))
     (\<lambda>ps. case ps of [] \<Rightarrow> fail NoRows | p # _ \<Rightarrow> ret p)"

section \<open>Roots\<close>

definition normalizeProjectPath :: "world \<Rightarrow> string \<Rightarrow> string" where
  "normalizeProjectPath w path =
     (let p = TrimRight slash path in case w_evalSymlinks w p of Some r \<Rightarrow> r | None \<Rightarrow> p)"

text \<open>
  A linked worktree has a git directory of its own below the common one; its root is then the
  directory that holds \<^verbatim>\<open>.git\<close>. Every failure gives the path back as it is.
\<close>

definition git_path :: "world \<Rightarrow> string \<Rightarrow> string \<Rightarrow> string option" where
  "git_path w cwd arg =
     (case w_git w cwd [''rev-parse'', arg] of None \<Rightarrow> None
      | Some out \<Rightarrow> if TrimSpace out = [] then None else Some (TrimSpace out))"

definition normalizeWorktreePath :: "world \<Rightarrow> string \<Rightarrow> string" where
  "normalizeWorktreePath w cwd =
     (case (git_path w cwd ''--show-toplevel'', git_path w cwd ''--git-common-dir'', git_path w cwd ''--git-dir'') of
        (Some _, Some commonDir, Some gitDir) \<Rightarrow>
          (case (Abs w (if IsAbs gitDir then gitDir else Join [cwd, gitDir]),
                 Abs w (if IsAbs commonDir then commonDir else Join [cwd, commonDir])) of
             (Some gitDir, Some commonDir) \<Rightarrow>
               (let gitDir = normalizeProjectPath w gitDir; commonDir = normalizeProjectPath w commonDir
                in if Clean gitDir = Clean commonDir then cwd
                   else if Base commonDir \<noteq> ''.git'' then cwd else Dir commonDir)
           | _ \<Rightarrow> cwd)
      | _ \<Rightarrow> cwd)"

definition NormalizeRoot :: "world \<Rightarrow> string \<Rightarrow> string" where
  "NormalizeRoot w path = normalizeWorktreePath w path"

definition githubRepoFromRemote :: "string \<Rightarrow> string option" where
  "githubRepoFromRemote remote =
     (case List.find (\<lambda>p. starts_with p remote)
         [''https://github.com/'', ''ssh://git@github.com/'', ''git@github.com:''] of
        None \<Rightarrow> None
      | Some prefix \<Rightarrow>
          (let path = TrimSuffix_of (TrimRight slash (drop (length prefix) remote)) ''.git''
           in case Cut slash path of None \<Rightarrow> None
              | Some (org, repo) \<Rightarrow>
                  if org = [] \<or> repo = [] \<or> slash \<in> set repo then None else Some (org @ slash # repo)))"

definition DefaultProjectName :: "world \<Rightarrow> string \<Rightarrow> string" where
  "DefaultProjectName w rootPath =
     (case w_git w rootPath [''rev-parse'', ''--show-toplevel''] of None \<Rightarrow> Base rootPath
      | Some out \<Rightarrow>
          (let topLevel = TrimSpace out
           in case w_git w topLevel [''config'', ''--get'', ''remote.origin.url''] of None \<Rightarrow> Base rootPath
              | Some remote \<Rightarrow>
                  (case githubRepoFromRemote (TrimSpace remote) of None \<Rightarrow> Base rootPath
                   | Some repo \<Rightarrow>
                       (case Rel topLevel (normalizeProjectPath w rootPath) of None \<Rightarrow> repo
                        | Some rel \<Rightarrow> if rel = dot then repo else repo @ slash # rel))))"

section \<open>Operations\<close>

definition CreateProject :: "world \<Rightarrow> string \<Rightarrow> string \<Rightarrow> time \<Rightarrow> project store_op" where
  "CreateProject w name rootPath now =
     (let root = normalizeProjectPath w rootPath
      in bnd (CreateProject_sql name root (rfc3339 now)) (\<lambda>i.
         ret \<lparr>p_id = i, p_name = name, p_root_path = root, p_created_at = now, p_claimed_by = 0,
              p_claimed_at = None, p_archived_at = None\<rparr>))"

definition lookup_project :: "int \<Rightarrow> project store_op" where
  "lookup_project i = map_error (\<lambda>e. if e = NoRows then ProjectE ErrProjectNotFound else e) (GetProject_sql i)"

definition claimProject :: "int \<Rightarrow> int \<Rightarrow> bool \<Rightarrow> time \<Rightarrow> project store_op" where
  "claimProject projectID session force now =
     bnd (lookup_project projectID) (\<lambda>current.
     bnd (ask (claimIsRunning (p_claimed_by current) now)) (\<lambda>running.
     bnd (check (force \<or> session = 0 \<or> p_claimed_by current = 0 \<or> p_claimed_by current = session \<or> \<not> running)
            (ProjectE ErrProjectAlreadyClaimed)) (\<lambda>_.
     bnd (transaction
       (bnd (lookup_project projectID) (\<lambda>project.
        bnd (check (force \<or> session = 0 \<or> p_claimed_by project = p_claimed_by current \<or> p_claimed_by project = 0)
               (ProjectE ErrProjectAlreadyClaimed)) (\<lambda>_.
        bnd (ClaimProject_sql session (if session \<noteq> 0 then Some (rfc3339 now) else None) projectID) (\<lambda>n.
        check (n \<noteq> 0) (ProjectE ErrProjectNotFound)))))) (\<lambda>_.
     lookup_project projectID))))"

definition ClaimProject :: "int \<Rightarrow> int \<Rightarrow> time \<Rightarrow> project store_op" where
  "ClaimProject projectID session now = claimProject projectID session False now"

definition ForceClaimProject :: "int \<Rightarrow> int \<Rightarrow> time \<Rightarrow> project store_op" where
  "ForceClaimProject projectID session now = claimProject projectID session True now"

definition ReleaseProject :: "int \<Rightarrow> unit store_op" where
  "ReleaseProject projectID =
     transaction (bnd (ReleaseProject_sql projectID) (\<lambda>n. check (n \<noteq> 0) (ProjectE ErrProjectNotFound)))"

definition ListProjects :: "(project list) store_op" where
  "ListProjects = ListProjects_sql"

definition ResolveProject :: "world \<Rightarrow> string \<Rightarrow> project store_op" where
  "ResolveProject w cwd =
     map_error (\<lambda>e. if e = NoRows then ProjectE ErrProjectNotFound else e)
       (ResolveProject_sql (normalizeProjectPath w (normalizeWorktreePath w cwd)))"

definition setArchived :: "int \<Rightarrow> bool \<Rightarrow> time \<Rightarrow> project store_op" where
  "setArchived projectID archived now =
     bnd (if archived then ArchiveProject_sql (rfc3339 now) projectID else UnarchiveProject_sql projectID) (\<lambda>n.
     bnd (check (n \<noteq> 0) (ProjectE ErrProjectNotFound)) (\<lambda>_.
     GetProject_sql projectID))"

definition ArchiveProject :: "int \<Rightarrow> time \<Rightarrow> project store_op" where
  "ArchiveProject projectID now = setArchived projectID True now"

definition UnarchiveProject :: "int \<Rightarrow> time \<Rightarrow> project store_op" where
  "UnarchiveProject projectID now = setArchived projectID False now"

definition EnsureProjectActive :: "int \<Rightarrow> unit store_op" where
  "EnsureProjectActive projectID =
     bnd (lookup_project projectID) (\<lambda>row. check (p_archived_at row = None) (ProjectE ErrProjectArchived))"

section \<open>Every operation moves the store forward\<close>

lemma reads_projects [reads_intros]:
  "reads ListProjects" "reads (lookup_project i)" "reads (ResolveProject w cwd)" "reads (EnsureProjectActive i)"
  unfolding ListProjects_def ListProjects_sql_def lookup_project_def ResolveProject_def ResolveProject_sql_def
    EnsureProjectActive_def lookup_project_def
  by (intro reads_intros)+

lemma project_registry_update:
  assumes "\<And>p. p_id (f p) = p_id p" "\<And>p. p_name (f p) = p_name p" "\<And>p. p_root_path (f p) = p_root_path p"
  shows "evolves (keeps wf_registry) (exec_update projects projects_update P f)"
  by (rule evolves_exec_update) (use assms in \<open>simp add: keeps_def wf_registry_def map_update_where\<close>)

lemma create_project_registry: "evolves (keeps wf_registry) (CreateProject_sql name root now)"
  by (auto simp: CreateProject_sql_def evolves_def keeps_def bnd_def ask_def checked_insert_def ret_def
      first_violated_None wf_registry_def next_id_fresh list_all_iff split: option.splits)

lemma projects_statements_le [le_queries]:
  "evolves store_le (CreateProject_sql name root now)" "evolves store_le (ClaimProject_sql i at p)"
  "evolves store_le (ReleaseProject_sql p)" "evolves store_le (ArchiveProject_sql now p)"
  "evolves store_le (UnarchiveProject_sql p)"
  unfolding CreateProject_sql_def ClaimProject_sql_def ReleaseProject_sql_def ArchiveProject_sql_def
    UnarchiveProject_sql_def
  by (intro projects_table_le projects_table.only_rules
      create_project_registry [unfolded CreateProject_sql_def] project_registry_update; simp)+

lemma projects_le [le_queries]:
  "evolves store_le (CreateProject w name root now)" "evolves store_le (ClaimProject p i now)"
  "evolves store_le (ForceClaimProject p i now)" "evolves store_le (ReleaseProject p)"
  "evolves store_le (ArchiveProject p now)" "evolves store_le (UnarchiveProject p now)"
  unfolding CreateProject_def Let_def ClaimProject_def ForceClaimProject_def claimProject_def ReleaseProject_def
    ArchiveProject_def UnarchiveProject_def setArchived_def
  by (rule le_rules le_queries reads_intros | rule store_le.ev_reads, rule reads_intros)+

end
