(* ===== verification/Atct_Timestamp.thy ===== *)
theory Atct_Timestamp
  imports Atct_Prelude "HOL-Library.List_Lexorder" "HOL-Library.Char_ord"
begin

text \<open>
  \<^verbatim>\<open>internal/store/timestamp.go\<close>. Timestamps are stored as text and SQLite compares
  text byte by byte, so every \<^verbatim>\<open>ORDER BY\<close> and every cutoff comparison of the store
  rests on the spelling. This theory models the spelling of a UTC time and proves that text order
  is the order of the instants; the other theories then work with instants.
\<close>

section \<open>UTC times and the instants they denote\<close>

datatype utc =
  UTC (u_year: nat) (u_month: nat) (u_day: nat) (u_hour: nat) (u_min: nat) (u_sec: nat) (u_nano: nat)

definition leap :: "nat \<Rightarrow> bool" where
  "leap y \<longleftrightarrow> y mod 4 = 0 \<and> (y mod 100 \<noteq> 0 \<or> y mod 400 = 0)"

definition month_lengths :: "nat \<Rightarrow> nat list" where
  "month_lengths y = [31, if leap y then 29 else 28, 31, 30, 31, 30, 31, 31, 30, 31, 30, 31]"

text \<open>Days before the given month of the year; months count from 1.\<close>

definition days_before_month :: "nat \<Rightarrow> nat \<Rightarrow> nat" where
  "days_before_month y m = sum_list (take (m - 1) (month_lengths y))"

fun days_before_year :: "nat \<Rightarrow> nat" where
  "days_before_year 0 = 0"
| "days_before_year (Suc y) = days_before_year y + sum_list (month_lengths y)"

text \<open>The years a four-digit layout can spell, and the ranges of the other fields.\<close>

definition valid_utc :: "utc \<Rightarrow> bool" where
  "valid_utc u \<longleftrightarrow>
     u_year u < 10000 \<and> 1 \<le> u_month u \<and> u_month u \<le> 12 \<and>
     1 \<le> u_day u \<and> u_day u \<le> month_lengths (u_year u) ! (u_month u - 1) \<and>
     u_hour u < 24 \<and> u_min u < 60 \<and> u_sec u < 60 \<and> u_nano u < 1000000000"

definition utc_days :: "utc \<Rightarrow> nat" where
  "utc_days u = days_before_year (u_year u) + days_before_month (u_year u) (u_month u) + (u_day u - 1)"

text \<open>Nanoseconds since the start of year 0: the instant a UTC time denotes.\<close>

definition instant :: "utc \<Rightarrow> nat" where
  "instant u =
     (((utc_days u * 24 + u_hour u) * 60 + u_min u) * 60 + u_sec u) * 1000000000 + u_nano u"

section \<open>The spelling\<close>

fun pad :: "nat \<Rightarrow> nat \<Rightarrow> string" where
  "pad 0 n = []"
| "pad (Suc w) n = pad w (n div 10) @ [char_of (48 + n mod 10)]"

text \<open>
  \<^verbatim>\<open>timestampLayout = "2006-01-02T15:04:05.000000000Z07:00"\<close> on a UTC time: the zone
  is spelled \<open>Z\<close> and the fraction always has nine digits.
\<close>

definition date_time :: "utc \<Rightarrow> string" where
  "date_time u =
     pad 4 (u_year u) @ ''-'' @ pad 2 (u_month u) @ ''-'' @ pad 2 (u_day u) @ ''T'' @
     pad 2 (u_hour u) @ '':'' @ pad 2 (u_min u) @ '':'' @ pad 2 (u_sec u)"

definition formatTimestamp :: "utc \<Rightarrow> string" where
  "formatTimestamp u = date_time u @ ''.'' @ pad 9 (u_nano u) @ ''Z''"

text \<open>The layout it replaced: \<^verbatim>\<open>RFC3339Nano\<close> drops trailing zeros of the fraction.\<close>

definition formatRFC3339Nano :: "utc \<Rightarrow> string" where
  "formatRFC3339Nano u =
     (let frac = rev (dropWhile (\<lambda>c. c = CHR ''0'') (rev (pad 9 (u_nano u))))
      in date_time u @ (if frac = [] then [] else ''.'' @ frac) @ ''Z'')"

declare pad.simps [simp del]

lemmas pad_unfold = pad.simps

section \<open>Fixed width digits keep the order\<close>

lemma length_pad [simp]: "length (pad w n) = w"
  by (induction w arbitrary: n) (auto simp: pad_unfold)

lemma less_append_same_length:
  fixes a b c d :: string
  assumes "length a = length b"
  shows "a @ c < b @ d \<longleftrightarrow> a < b \<or> a = b \<and> c < d"
  using assms by (induction a b rule: list_induct2) auto

lemma radix_less:
  fixes a b c d k :: nat
  assumes "b < k" and "d < k"
  shows "a * k + b < c * k + d \<longleftrightarrow> a < c \<or> a = c \<and> b < d"
proof -
  have up: "x * k + y < z * k + w" if "x < z" "y < k" for x y z w
  proof -
    from that have "Suc x * k \<le> z * k" by (intro mult_le_mono1) simp
    with that show ?thesis by simp
  qed
  show ?thesis
    using up [of a c b d] up [of c a d b] assms by (cases a c rule: linorder_cases) auto
qed

lemma radix_eq:
  fixes a b c d k :: nat
  assumes "b < k" and "d < k"
  shows "a * k + b = c * k + d \<longleftrightarrow> a = c \<and> b = d"
  using radix_less [OF assms, of a c] radix_less [OF assms(2,1), of c a] assms
  by (cases a c rule: linorder_cases) auto

lemma list_less_simps_same: "(c # a < c # b) = (a < (b :: string))"
  by simp

lemma string_less_irrefl: "\<not> a < (a :: string)"
  by simp

lemma digit_less:
  "m < 10 \<Longrightarrow> n < 10 \<Longrightarrow> (char_of (48 + m) :: char) < char_of (48 + n) \<longleftrightarrow> m < (n::nat)"
  by (simp add: less_char_def of_char_of)

lemma digit_eq:
  "m < 10 \<Longrightarrow> n < 10 \<Longrightarrow> (char_of (48 + m) :: char) = char_of (48 + n) \<longleftrightarrow> m = (n::nat)"
  using digit_less [of m n] digit_less [of n m] by (metis less_irrefl linorder_neqE_nat)

lemma pad_less_eq:
  "m < 10 ^ w \<Longrightarrow> n < 10 ^ w \<Longrightarrow> (pad w m < pad w n \<longleftrightarrow> m < n) \<and> (pad w m = pad w n \<longleftrightarrow> m = n)"
proof (induction w arbitrary: m n)
  case 0
  then show ?case by (simp add: pad_unfold)
next
  case (Suc w)
  have bounds: "m div 10 < 10 ^ w" "n div 10 < 10 ^ w"
    using Suc.prems by (simp_all add: less_mult_imp_div_less)
  have lt: "m < n \<longleftrightarrow> m div 10 < n div 10 \<or> m div 10 = n div 10 \<and> m mod 10 < n mod 10"
    using radix_less [of "m mod 10" 10 "n mod 10" "m div 10" "n div 10"] by simp
  have eq: "m = n \<longleftrightarrow> m div 10 = n div 10 \<and> m mod 10 = n mod 10"
    using radix_eq [of "m mod 10" 10 "n mod 10" "m div 10" "n div 10"] by simp
  have "pad (Suc w) m < pad (Suc w) n \<longleftrightarrow>
      pad w (m div 10) < pad w (n div 10) \<or> pad w (m div 10) = pad w (n div 10) \<and>
      (char_of (48 + m mod 10) :: char) < char_of (48 + n mod 10)"
    by (simp add: less_append_same_length pad_unfold)
  moreover have "(char_of (48 + m mod 10) :: char) < char_of (48 + n mod 10) \<longleftrightarrow> m mod 10 < n mod 10"
    and "(char_of (48 + m mod 10) :: char) = char_of (48 + n mod 10) \<longleftrightarrow> m mod 10 = n mod 10"
    by (simp_all only: digit_less digit_eq mod_less_divisor zero_less_numeral)
  ultimately show ?case
    using Suc.IH [OF bounds] lt eq by (simp add: pad_unfold)
qed

lemmas pad_less = pad_less_eq [THEN conjunct1]
  and pad_eq = pad_less_eq [THEN conjunct2]

section \<open>Instants follow the fields\<close>

lemma days_before_year_mono: "y < z \<Longrightarrow> days_before_year y + sum_list (month_lengths y) \<le> days_before_year z"
proof (induction z)
  case 0
  then show ?case by simp
next
  case (Suc z)
  then show ?case by (cases "y = z") auto
qed

lemma length_month_lengths [simp]: "length (month_lengths y) = 12"
  by (simp add: month_lengths_def)

lemma sum_list_take_mono:
  fixes xs :: "nat list"
  shows "i < j \<Longrightarrow> j \<le> length xs \<Longrightarrow> sum_list (take i xs) + xs ! i \<le> sum_list (take j xs)"
proof (induction j)
  case 0
  then show ?case by simp
next
  case (Suc j)
  then show ?case
    by (cases "i = j") (auto simp: take_Suc_conv_app_nth)
qed

lemma days_in_month_bound:
  assumes "valid_utc u" and "u_month u < m" and "m \<le> 12"
  shows "days_before_month (u_year u) (u_month u) + (u_day u - 1) < days_before_month (u_year u) m"
proof -
  from assms have "u_month u - 1 < m - 1" "m - 1 \<le> length (month_lengths (u_year u))"
    by (auto simp: valid_utc_def)
  from sum_list_take_mono [OF this] assms show ?thesis
    by (auto simp: valid_utc_def days_before_month_def)
qed

lemma days_in_year_bound:
  assumes "valid_utc u"
  shows "days_before_month (u_year u) (u_month u) + (u_day u - 1) < sum_list (month_lengths (u_year u))"
proof -
  from assms have "u_month u - 1 < 12" "12 \<le> length (month_lengths (u_year u))"
    by (auto simp: valid_utc_def)
  from sum_list_take_mono [OF this] assms show ?thesis
    by (auto simp: valid_utc_def days_before_month_def)
qed

text \<open>The calendar as one order: year, then month, then day.\<close>

definition date_less :: "utc \<Rightarrow> utc \<Rightarrow> bool" where
  "date_less u v \<longleftrightarrow> u_year u < u_year v \<or> u_year u = u_year v \<and>
     (u_month u < u_month v \<or> u_month u = u_month v \<and> u_day u < u_day v)"

definition same_date :: "utc \<Rightarrow> utc \<Rightarrow> bool" where
  "same_date u v \<longleftrightarrow> u_year u = u_year v \<and> u_month u = u_month v \<and> u_day u = u_day v"

lemma utc_days_less:
  assumes "valid_utc u" and "valid_utc v" and "date_less u v"
  shows "utc_days u < utc_days v"
proof (cases "u_year u < u_year v")
  case True
  from days_before_year_mono [OF True] days_in_year_bound [OF assms(1)] show ?thesis
    by (simp add: utc_days_def)
next
  case False
  with assms(3) have y: "u_year u = u_year v" by (simp add: date_less_def)
  show ?thesis
  proof (cases "u_month u < u_month v")
    case True
    have "u_month v \<le> 12" using assms(2) by (simp add: valid_utc_def)
    from days_in_month_bound [OF assms(1) True this] y show ?thesis
      unfolding utc_days_def by simp
  next
    case False
    with assms y show ?thesis by (auto simp: utc_days_def date_less_def valid_utc_def)
  qed
qed

definition clock_nanos :: "utc \<Rightarrow> nat" where
  "clock_nanos u = ((u_hour u * 60 + u_min u) * 60 + u_sec u) * 1000000000 + u_nano u"

lemma instant_split: "instant u = utc_days u * 86400000000000 + clock_nanos u"
  by (simp add: instant_def clock_nanos_def algebra_simps)

lemma clock_nanos_bound: "valid_utc u \<Longrightarrow> clock_nanos u < 86400000000000"
  by (simp add: valid_utc_def clock_nanos_def)

lemma instant_less_dates:
  assumes "valid_utc u" and "valid_utc v" and "date_less u v"
  shows "instant u < instant v"
  using utc_days_less [OF assms] clock_nanos_bound [OF assms(1)]
  unfolding instant_split by linarith

lemma clock_less:
  assumes "valid_utc u" and "valid_utc v"
  shows "clock_nanos u < clock_nanos v \<longleftrightarrow>
    u_hour u < u_hour v \<or> u_hour u = u_hour v \<and> (u_min u < u_min v \<or> u_min u = u_min v \<and>
      (u_sec u < u_sec v \<or> u_sec u = u_sec v \<and> u_nano u < u_nano v))"
proof -
  have b: "u_min u < 60" "u_min v < 60" "u_sec u < 60" "u_sec v < 60"
    "u_nano u < 1000000000" "u_nano v < 1000000000"
    using assms by (auto simp: valid_utc_def)
  show ?thesis
    unfolding clock_nanos_def radix_less [OF b(5,6)] radix_less [OF b(3,4)] radix_eq [OF b(3,4)]
      radix_less [OF b(1,2)] radix_eq [OF b(1,2)]
    by blast
qed

lemma utc_trichotomy: "date_less u v \<or> same_date u v \<or> date_less v u"
  by (auto simp: date_less_def same_date_def)

lemma utc_days_same: "same_date u v \<Longrightarrow> utc_days u = utc_days v"
  by (simp add: same_date_def utc_days_def)

section \<open>Text order is time order\<close>

lemma field_bounds:
  assumes "valid_utc u"
  shows "u_year u < 10 ^ 4" "u_month u < 10 ^ 2" "u_day u < 10 ^ 2" "u_hour u < 10 ^ 2"
    "u_min u < 10 ^ 2" "u_sec u < 10 ^ 2" "u_nano u < 10 ^ 9"
proof -
  have "\<forall>x\<in>set (month_lengths (u_year u)). x \<le> 31"
    by (simp add: month_lengths_def)
  moreover have "month_lengths (u_year u) ! (u_month u - 1) \<in> set (month_lengths (u_year u))"
    using assms by (intro nth_mem) (auto simp: valid_utc_def)
  ultimately show "u_day u < 10 ^ 2"
    using assms by (fastforce simp: valid_utc_def)
qed (use assms in \<open>auto simp: valid_utc_def\<close>)

lemma formatTimestamp_less_fields:
  assumes "valid_utc u" and "valid_utc v"
  shows "formatTimestamp u < formatTimestamp v \<longleftrightarrow>
    date_less u v \<or> same_date u v \<and> clock_nanos u < clock_nanos v"
proof -
  note bu = field_bounds [OF assms(1)] and bv = field_bounds [OF assms(2)]
  note digits = pad_less [OF bu(1) bv(1)] pad_eq [OF bu(1) bv(1)] pad_less [OF bu(2) bv(2)]
    pad_eq [OF bu(2) bv(2)] pad_less [OF bu(3) bv(3)] pad_eq [OF bu(3) bv(3)]
    pad_less [OF bu(4) bv(4)] pad_eq [OF bu(4) bv(4)] pad_less [OF bu(5) bv(5)]
    pad_eq [OF bu(5) bv(5)] pad_less [OF bu(6) bv(6)] pad_eq [OF bu(6) bv(6)]
    pad_less [OF bu(7) bv(7)] pad_eq [OF bu(7) bv(7)]
  have "formatTimestamp u < formatTimestamp v \<longleftrightarrow>
     u_year u < u_year v \<or> u_year u = u_year v \<and> (u_month u < u_month v \<or> u_month u = u_month v \<and>
     (u_day u < u_day v \<or> u_day u = u_day v \<and> (u_hour u < u_hour v \<or> u_hour u = u_hour v \<and>
     (u_min u < u_min v \<or> u_min u = u_min v \<and> (u_sec u < u_sec v \<or> u_sec u = u_sec v \<and>
      u_nano u < u_nano v)))))"
    unfolding formatTimestamp_def date_time_def append_assoc
    by (simp only: less_append_same_length length_pad digits append.simps list_less_simps_same
        string_less_irrefl simp_thms)
  then show ?thesis
    unfolding clock_less [OF assms] date_less_def same_date_def by blast
qed

lemma formatTimestamp_order:
  assumes "valid_utc u" and "valid_utc v"
  shows "formatTimestamp u < formatTimestamp v \<longleftrightarrow> instant u < instant v"
proof -
  note spelled = formatTimestamp_less_fields [OF assms]
  consider "date_less u v" | "same_date u v" | "date_less v u"
    using utc_trichotomy by blast
  then show ?thesis
  proof cases
    case 1
    then show ?thesis unfolding spelled using instant_less_dates [OF assms 1] by blast
  next
    case 2
    then have "\<not> date_less u v" by (auto simp: date_less_def same_date_def)
    with 2 show ?thesis unfolding spelled instant_split utc_days_same [OF 2] by simp
  next
    case 3
    then have "\<not> date_less u v" "\<not> same_date u v"
      by (auto simp: date_less_def same_date_def)
    then show ?thesis unfolding spelled using instant_less_dates [OF assms(2,1) 3] by simp
  qed
qed

lemma formatTimestamp_inject:
  assumes "valid_utc u" and "valid_utc v" and "formatTimestamp u = formatTimestamp v"
  shows "u = v"
proof -
  note bu = field_bounds [OF assms(1)] and bv = field_bounds [OF assms(2)]
  note digits = pad_eq [OF bu(1) bv(1)] pad_eq [OF bu(2) bv(2)] pad_eq [OF bu(3) bv(3)]
    pad_eq [OF bu(4) bv(4)] pad_eq [OF bu(5) bv(5)] pad_eq [OF bu(6) bv(6)] pad_eq [OF bu(7) bv(7)]
  from assms(3) show ?thesis
    unfolding formatTimestamp_def date_time_def append_assoc
    by (intro utc.expand) (simp add: append_eq_append_conv digits)
qed

end
