(* ===== verification/Atct_Monitors.thy ===== *)
theory Atct_Monitors
  imports Atct_Projects Atct_Timestamp
begin

text \<open>
  Monitors, the processes that deliver events to sessions: what they report of themselves
  (\<^verbatim>\<open>store.go\<close>, \<^verbatim>\<open>monitor_live.go\<close>), the session a monitor's token is
  bound to and the lease it renews (\<^verbatim>\<open>monitor_assignment.go\<close>,
  \<^verbatim>\<open>runtime_lease.go\<close>), and the role of a session, which the daemon's authorization
  is built on. Also the locale of the user interface (\<^verbatim>\<open>ui_settings.go\<close>).
\<close>

definition MonitorHealthLease :: time where
  "MonitorHealthLease = 75 * second"

definition monitorHealthRetention :: time where
  "monitorHealthRetention = 24 * 3600 * second"

definition MonitorRearmGrace :: time where
  "MonitorRearmGrace = 300 * second"

section \<open>Queries\<close>

definition binding_row :: "string \<Rightarrow> store \<Rightarrow> monitor_binding option" where
  "binding_row token s = List.find (\<lambda>b. mb_token b = token) (monitor_bindings s)"

definition GetMonitorBindingAgentSessionID_sql :: "string \<Rightarrow> int store_op" where
  "GetMonitorBindingAgentSessionID_sql token =
     bnd (ask (binding_row token)) (\<lambda>v. bnd (need NoRows v) (\<lambda>b. ret (mb_agent_session_id b)))"

definition GetMonitorBindingLastReconciledAt_sql :: "string \<Rightarrow> (time option) store_op" where
  "GetMonitorBindingLastReconciledAt_sql token =
     bnd (ask (binding_row token)) (\<lambda>v. bnd (need NoRows v) (\<lambda>b. ret (mb_last_reconciled_at b)))"

text \<open>An INSERT that becomes an UPDATE when the token is bound already; the watermark stays.\<close>

definition BindMonitorToken_sql :: "string \<Rightarrow> int \<Rightarrow> time \<Rightarrow> unit store_op" where
  "BindMonitorToken_sql token session now =
     bnd (ask (\<lambda>s. (session_exists session s, binding_row token s))) (\<lambda>(ok, found).
     bnd (check ok ForeignKeyConstraintFailed) (\<lambda>_.
     if found = None
     then exec_insert monitor_bindings_update
            \<lparr>mb_token = token, mb_agent_session_id = session, mb_created_at = now, mb_last_reconciled_at = None\<rparr>
     else change (monitor_bindings_update (update_where (\<lambda>b. mb_token b = token)
            (\<lambda>b. b\<lparr>mb_agent_session_id := session, mb_created_at := now\<rparr>)))))"

definition AdvanceMonitorBindingLastReconciledAt_sql :: "time \<Rightarrow> string \<Rightarrow> unit store_op" where
  "AdvanceMonitorBindingLastReconciledAt_sql at token =
     change (monitor_bindings_update (update_where (\<lambda>b. mb_token b = token)
       (\<lambda>b. b\<lparr>mb_last_reconciled_at := (case mb_last_reconciled_at b of
               None \<Rightarrow> Some at | Some old \<Rightarrow> Some (if old < at then at else old))\<rparr>)))"

definition PruneMonitorHealth_sql :: "time \<Rightarrow> unit store_op" where
  "PruneMonitorHealth_sql cutoff =
     change (monitor_health_rows_update (filter (\<lambda>h. \<not> (mh_last_seen_at h < cutoff
       \<or> (case mh_stopped_at h of None \<Rightarrow> False | Some t \<Rightarrow> t < cutoff)))))"

definition UpsertMonitorHealth_sql :: "monitor_health \<Rightarrow> unit store_op" where
  "UpsertMonitorHealth_sql row =
     change (monitor_health_rows_update (\<lambda>rows.
       if list_ex (\<lambda>h. mh_monitor_id h = mh_monitor_id row) rows
       then update_where (\<lambda>h. mh_monitor_id h = mh_monitor_id row) (\<lambda>_. row\<lparr>mh_stopped_at := None\<rparr>) rows
       else rows @ [row\<lparr>mh_stopped_at := None\<rparr>]))"

definition StopMonitorHealth_sql :: "time \<Rightarrow> string \<Rightarrow> nat store_op" where
  "StopMonitorHealth_sql at monitorID =
     exec_update monitor_health_rows monitor_health_rows_update (\<lambda>h. mh_monitor_id h = monitorID)
       (\<lambda>h. h\<lparr>mh_state := ''stopped'', mh_reason := ''stopped'', mh_stopped_at := Some at,
              mh_transitioned_at := at, mh_last_seen_at := at\<rparr>)"

definition ListMonitorHealth_sql :: "int \<Rightarrow> time \<Rightarrow> (monitor_health list) store_op" where
  "ListMonitorHealth_sql project cutoff =
     ask (\<lambda>s. order_by (\<lambda>h. (- mh_transitioned_at h, mh_monitor_id h))
       (filter (\<lambda>h. mh_project_id h = project \<and> cutoff \<le> mh_last_seen_at h \<and> mh_stopped_at h = None)
         (monitor_health_rows s)))"

definition ListMonitorHealthHistory_sql :: "int \<Rightarrow> (monitor_health list) store_op" where
  "ListMonitorHealthHistory_sql project =
     ask (\<lambda>s. order_by (\<lambda>h. (- mh_last_seen_at h, mh_monitor_id h))
       (filter (\<lambda>h. mh_project_id h = project) (monitor_health_rows s)))"

definition CountLiveMonitorsForScope_sql ::
  "int \<Rightarrow> string \<Rightarrow> int option \<Rightarrow> time \<Rightarrow> bool \<Rightarrow> nat store_op" where
  "CountLiveMonitorsForScope_sql project role goal cutoff excludeRearming =
     ask (\<lambda>s. affected (\<lambda>h. mh_project_id h = project \<and> mh_role h = role \<and> mh_goal_id h = goal
       \<and> cutoff \<le> mh_last_seen_at h \<and> mh_stopped_at h = None
       \<and> (\<not> excludeRearming \<or> mh_state h \<noteq> ''rearming'')) (monitor_health_rows s))"

definition CountLiveMonitorsForTaskScope_sql :: "int \<Rightarrow> int \<Rightarrow> int \<Rightarrow> time \<Rightarrow> nat store_op" where
  "CountLiveMonitorsForTaskScope_sql project goal task cutoff =
     ask (\<lambda>s. affected (\<lambda>h. mh_project_id h = project \<and> mh_role h = ''executor'' \<and> mh_goal_id h = Some goal
       \<and> mh_task_id h = Some task \<and> cutoff \<le> mh_last_seen_at h \<and> mh_stopped_at h = None)
       (monitor_health_rows s))"

definition GetMonitorCommanderProjectID_sql :: "int \<Rightarrow> int store_op" where
  "GetMonitorCommanderProjectID_sql session =
     bnd (ask (\<lambda>s. List.find (\<lambda>p. p_claimed_by p = session)
       (order_by (\<lambda>p. (p_created_at p, p_id p)) (projects s)))) (\<lambda>v.
     bnd (need NoRows v) (\<lambda>p. ret (p_id p)))"

text \<open>A handoff the session received and that is neither completed nor recovered.\<close>

definition held_by :: "int \<Rightarrow> handoff \<Rightarrow> bool" where
  "held_by session h \<longleftrightarrow> h_received_by h = Some session \<and> h_received_at h \<noteq> None
     \<and> h_completed_report_at h = None \<and> h_recovered_at h = None"

definition GetMonitorSubcommanderAssignment_sql :: "int \<Rightarrow> (int \<times> int) store_op" where
  "GetMonitorSubcommanderAssignment_sql session =
     bnd (ask (\<lambda>s. List.find (\<lambda>g. list_ex (\<lambda>h. h_owner h = g_id g \<and> held_by session h) (goal_handoffs s))
       (order_by (\<lambda>g. (g_created_at g, g_id g)) (goals s)))) (\<lambda>v.
     bnd (need NoRows v) (\<lambda>g. ret (g_project_id g, g_id g)))"

record MonitorScope =
  ms_ProjectID :: int
  ms_GoalID :: int
  ms_TaskID :: int

definition ListMonitorExecutorAssignments_sql :: "int \<Rightarrow> (MonitorScope list) store_op" where
  "ListMonitorExecutorAssignments_sql session =
     ask (\<lambda>s. concat (map (\<lambda>h. case task_row (h_owner h) s of None \<Rightarrow> []
         | Some t \<Rightarrow> (case goal_row (t_goal_id t) s of None \<Rightarrow> []
           | Some g \<Rightarrow> [\<lparr>ms_ProjectID = g_project_id g, ms_GoalID = t_goal_id t, ms_TaskID = h_owner h\<rparr>]))
       (order_by h_owner (filter (held_by session) (task_handoffs s)))))"

definition GetLatestAgentSessionID_sql :: "int option \<Rightarrow> int store_op" where
  "GetLatestAgentSessionID_sql project =
     bnd (ask (\<lambda>s. order_by (\<lambda>r. (- s_registered_at r, - s_id r))
       (filter (\<lambda>r. project \<noteq> None \<and> s_project_id r = project) (agent_sessions s))))
     (\<lambda>rs. case rs of [] \<Rightarrow> fail NoRows | r # _ \<Rightarrow> ret (s_id r))"

section \<open>Bindings and leases\<close>

definition BindMonitorToken :: "string \<Rightarrow> int \<Rightarrow> time \<Rightarrow> unit store_op" where
  "BindMonitorToken token session now =
     (if TrimSpace token = [] \<or> session \<le> 0 then fail (Failure ''monitor token and agent session id are required'')
      else BindMonitorToken_sql (TrimSpace token) session now)"

definition MonitorBindingAgentSessionID :: "string \<Rightarrow> int store_op" where
  "MonitorBindingAgentSessionID token =
     (if TrimSpace token = [] then fail (Failure ''monitor token is required'')
      else map_error (\<lambda>e. if e = NoRows then MonitorE ErrMonitorBindingNotFound else e)
        (GetMonitorBindingAgentSessionID_sql (TrimSpace token)))"

definition MonitorBindingLastReconciledAt :: "string \<Rightarrow> (time option) store_op" where
  "MonitorBindingLastReconciledAt token =
     (if TrimSpace token = [] then fail (Failure ''monitor token is required'')
      else map_error (\<lambda>e. if e = NoRows then MonitorE ErrMonitorBindingNotFound else e)
        (GetMonitorBindingLastReconciledAt_sql (TrimSpace token)))"

definition RenewMonitorLease :: "string \<Rightarrow> time \<Rightarrow> unit store_op" where
  "RenewMonitorLease token now =
     bnd (MonitorBindingAgentSessionID token) (\<lambda>session.
     bnd (RenewAgentSessionLease_sql now session (now - RuntimeLeaseDuration div 3)) (\<lambda>_. ret ()))"

definition AgentSessionKey :: "int \<Rightarrow> string store_op" where
  "AgentSessionKey i = GetAgentSessionKey_sql i"

definition AgentSessionUnidentified :: "int \<Rightarrow> bool store_op" where
  "AgentSessionUnidentified i =
     bnd (try_op (GetAgentSessionKey_sql i)) (\<lambda>r. case r of
       Inr key \<Rightarrow> ret (key = []) | Inl e \<Rightarrow> if e = NoRows then ret False else fail e)"

definition LatestAgentSessionID :: "int \<Rightarrow> int store_op" where
  "LatestAgentSessionID projectID =
     bnd (try_op (GetLatestAgentSessionID_sql (Some projectID))) (\<lambda>r. case r of
       Inr i \<Rightarrow> ret i | Inl e \<Rightarrow> if e = NoRows then ret 0 else fail e)"

section \<open>The role of a session\<close>

record MonitorAssignment =
  ma_Role :: string
  ma_ProjectID :: int
  ma_GoalID :: int
  ma_Tasks :: "MonitorScope list"

definition no_assignment :: MonitorAssignment where
  "no_assignment = \<lparr>ma_Role = ''executor'', ma_ProjectID = 0, ma_GoalID = 0, ma_Tasks = []\<rparr>"

definition MonitorAssignment :: "int \<Rightarrow> MonitorAssignment store_op" where
  "MonitorAssignment session =
     (if session = 0 then ret no_assignment
      else bnd (try_op (GetMonitorCommanderProjectID_sql session)) (\<lambda>commander. case commander of
        Inr projectID \<Rightarrow> ret (no_assignment\<lparr>ma_Role := ''commander'', ma_ProjectID := projectID\<rparr>)
      | Inl e \<Rightarrow>
          if e \<noteq> NoRows then fail e
          else bnd (try_op (GetMonitorSubcommanderAssignment_sql session)) (\<lambda>subcommander. case subcommander of
            Inr (projectID, goalID) \<Rightarrow>
              ret (no_assignment\<lparr>ma_Role := ''subcommander'', ma_ProjectID := projectID, ma_GoalID := goalID\<rparr>)
          | Inl e \<Rightarrow>
              if e \<noteq> NoRows then fail e
              else bnd (ListMonitorExecutorAssignments_sql session) (\<lambda>ts.
                ret (no_assignment\<lparr>ma_Tasks := ts,
                  ma_ProjectID := (case ts of [] \<Rightarrow> 0 | t # _ \<Rightarrow> ms_ProjectID t)\<rparr>)))))"

text \<open>\<^verbatim>\<open>MonitorBinding\<close>: the assignment of the session a token is bound to.\<close>

definition MonitorBinding :: "string \<Rightarrow> MonitorAssignment store_op" where
  "MonitorBinding token =
     bnd (MonitorBindingAgentSessionID token) (\<lambda>session. MonitorAssignment session)"

section \<open>Health\<close>

text \<open>
  What a monitor reports. A time that may be Go's zero time is an option; the start of the process
  is a UTC time because its spelling is part of the monitor's id.
\<close>

record MonitorHealth =
  mi_MonitorID :: string
  mi_MonitorToken :: string
  mi_AgentKey :: string
  mi_ScopeKey :: string
  mi_AgentSessionID :: int
  mi_CWD :: string
  mi_Role :: string
  mi_State :: string
  mi_Reason :: string
  mi_ProjectID :: int
  mi_GoalID :: "int option"
  mi_TaskID :: "int option"
  mi_PID :: int
  mi_ProcessStartedAt :: "utc option"
  mi_TransitionedAt :: "time option"
  mi_LastSeenAt :: "time option"

definition Itoa_int :: "int \<Rightarrow> string" where
  "Itoa_int i = (if i < 0 then CHR ''-'' # Itoa (nat (- i)) else Itoa (nat i))"

text \<open>
  \<open>sha256\<close> is the digest in hexadecimal. The id is empty when the working directory is unknown.
\<close>

definition MonitorHealthID :: "world \<Rightarrow> (string \<Rightarrow> string) \<Rightarrow> string \<Rightarrow> string \<Rightarrow> int \<Rightarrow> int option \<Rightarrow>
    int option \<Rightarrow> int \<Rightarrow> utc \<Rightarrow> string \<Rightarrow> string" where
  "MonitorHealthID w sha256 cwd role projectID goalID taskID pid startedAt scopeKey =
     (case Abs w (Clean (TrimSpace cwd)) of None \<Rightarrow> []
      | Some absCWD \<Rightarrow>
          (let z = [CHR 0x00];
               selector = role @ z @ Itoa_int projectID @ z
                 @ (case goalID of None \<Rightarrow> [] | Some g \<Rightarrow> ''goal:'' @ Itoa_int g @ z)
                 @ (case taskID of None \<Rightarrow> [] | Some t \<Rightarrow> ''task:'' @ Itoa_int t @ z)
                 @ (if TrimSpace scopeKey = [] then [] else ''scope:'' @ TrimSpace scopeKey @ z)
           in ''monitor-'' @ sha256
                (absCWD @ z @ selector @ z @ ''pid:'' @ Itoa_int pid @ z @ formatTimestamp startedAt)))"

definition validateMonitorHealth :: "world \<Rightarrow> (string \<Rightarrow> string) \<Rightarrow> MonitorHealth \<Rightarrow> error option" where
  "validateMonitorHealth w sha256 h =
     (let bad = (\<lambda>m. Some (Failure m)) in
      if blank (mi_MonitorID h) \<or> blank (mi_CWD h) \<or> blank (mi_Role h) then bad ''monitor identity is required''
      else if mi_Role h \<notin> {''commander'', ''subcommander'', ''executor''} then bad ''monitor role is not eligible''
      else if mi_ProjectID h \<le> 0 \<or> mi_PID h \<le> 0 \<or> mi_ProcessStartedAt h = None
      then bad ''monitor project, pid, and process start are required''
      else if mi_Role h = ''commander'' \<and> (mi_GoalID h \<noteq> None \<or> mi_TaskID h \<noteq> None)
      then bad ''commander monitor cannot carry goal or task selector''
      else if mi_Role h = ''subcommander'' \<and> mi_TaskID h \<noteq> None
      then bad ''subcommander monitor cannot carry task selector''
      else if mi_Role h = ''executor'' \<and> mi_TaskID h = None then bad ''executor monitor requires task selector''
      else if mi_Role h \<noteq> ''commander'' \<and> mi_GoalID h = None then bad ''monitor goal selector is required''
      else if MonitorHealthID w sha256 (mi_CWD h) (mi_Role h) (mi_ProjectID h) (mi_GoalID h) (mi_TaskID h)
                (mi_PID h) (the (mi_ProcessStartedAt h)) (mi_ScopeKey h) \<noteq> mi_MonitorID h
      then bad ''monitor identity does not match its process and scope''
      else None)"

text \<open>The row an accepted report is stored as.\<close>

definition health_row :: "MonitorHealth \<Rightarrow> int \<Rightarrow> time \<Rightarrow> time \<Rightarrow> monitor_health" where
  "health_row h session transitionedAt lastSeenAt =
     \<lparr>mh_monitor_id = mi_MonitorID h, mh_agent_key = mi_AgentKey h, mh_scope_key = mi_ScopeKey h,
      mh_agent_session_id = session, mh_cwd = mi_CWD h, mh_role = mi_Role h,
      mh_project_id = mi_ProjectID h, mh_goal_id = mi_GoalID h, mh_task_id = mi_TaskID h, mh_pid = mi_PID h,
      mh_process_started_at = (case mi_ProcessStartedAt h of None \<Rightarrow> 0 | Some u \<Rightarrow> int (instant u)),
      mh_state = mi_State h, mh_reason = mi_Reason h, mh_transitioned_at = transitionedAt,
      mh_last_seen_at = lastSeenAt, mh_stopped_at = None\<rparr>"

text \<open>The session behind the report: the one its token is bound to, if it is bound.\<close>

definition reporting_session :: "MonitorHealth \<Rightarrow> int store_op" where
  "reporting_session h =
     (if TrimSpace (mi_MonitorToken h) = [] then ret (mi_AgentSessionID h)
      else bnd (try_op (GetMonitorBindingAgentSessionID_sql (TrimSpace (mi_MonitorToken h)))) (\<lambda>r. case r of
        Inr i \<Rightarrow> ret i | Inl e \<Rightarrow> if e = NoRows then ret (mi_AgentSessionID h) else fail e))"

definition UpsertMonitorHealth :: "world \<Rightarrow> (string \<Rightarrow> string) \<Rightarrow> MonitorHealth \<Rightarrow> time \<Rightarrow> unit store_op" where
  "UpsertMonitorHealth w sha256 h now =
     (case validateMonitorHealth w sha256 h of Some e \<Rightarrow> fail e
      | None \<Rightarrow>
        bnd (reporting_session h) (\<lambda>session.
        (let rearming = mi_State h = ''rearming'';
             lastSeenAt = (if rearming then now + (MonitorRearmGrace - MonitorHealthLease)
                           else case mi_LastSeenAt h of None \<Rightarrow> now | Some t \<Rightarrow> t);
             transitionedAt = (case mi_TransitionedAt h of None \<Rightarrow> now | Some t \<Rightarrow> t)
         in transaction
          (bnd (PruneMonitorHealth_sql (now - monitorHealthRetention)) (\<lambda>_.
           bnd (UpsertMonitorHealth_sql (health_row h session transitionedAt lastSeenAt)) (\<lambda>_.
           bnd (if rearming \<and> 0 < session
                then bnd (HeartbeatAgentSession_sql (now + (MonitorRearmGrace - RuntimeLeaseDuration)) session)
                       (\<lambda>_. ret ())
                else ret ()) (\<lambda>_.
           if TrimSpace (mi_MonitorToken h) \<noteq> [] \<and> mi_State h = ''healthy'' \<and> mi_Role h = ''commander''
             \<and> mi_GoalID h = None \<and> mi_TaskID h = None
           then AdvanceMonitorBindingLastReconciledAt_sql lastSeenAt (TrimSpace (mi_MonitorToken h))
           else ret ())))))))"

definition StopMonitorHealth :: "string \<Rightarrow> time option \<Rightarrow> time \<Rightarrow> unit store_op" where
  "StopMonitorHealth monitorID stoppedAt now =
     (case stoppedAt of None \<Rightarrow> fail (Failure ''monitor stop identity and time are required'')
      | Some at \<Rightarrow>
        if blank monitorID then fail (Failure ''monitor stop identity and time are required'')
        else transaction
          (bnd (StopMonitorHealth_sql at monitorID) (\<lambda>n.
           bnd (check (n \<noteq> 0) NoRows) (\<lambda>_.
           PruneMonitorHealth_sql (now - monitorHealthRetention)))))"

definition ListMonitorHealth :: "int \<Rightarrow> time \<Rightarrow> (monitor_health list) store_op" where
  "ListMonitorHealth projectID now =
     (if projectID \<le> 0 then fail (Failure ''project_id is required'')
      else ListMonitorHealth_sql projectID (now - MonitorHealthLease))"

definition ListMonitorHealthHistory :: "int \<Rightarrow> (monitor_health list) store_op" where
  "ListMonitorHealthHistory projectID =
     (if projectID \<le> 0 then fail (Failure ''project_id is required'')
      else ListMonitorHealthHistory_sql projectID)"

record MonitorLiveScope =
  ls_ProjectID :: int
  ls_Role :: string
  ls_GoalID :: "int option"
  ls_ExcludeRearming :: bool

definition HasLiveMonitorForScope :: "MonitorLiveScope \<Rightarrow> time \<Rightarrow> bool store_op" where
  "HasLiveMonitorForScope scope now =
     (if ls_ProjectID scope \<le> 0 then fail (Failure ''project_id is required'')
      else if ls_Role scope = [] then fail (Failure ''role is required'')
      else bnd (CountLiveMonitorsForScope_sql (ls_ProjectID scope) (ls_Role scope) (ls_GoalID scope)
                  (now - MonitorHealthLease) (ls_ExcludeRearming scope)) (\<lambda>n. ret (0 < n)))"

definition hasLiveExecutorMonitor :: "int \<Rightarrow> int \<Rightarrow> int \<Rightarrow> time \<Rightarrow> bool store_op" where
  "hasLiveExecutorMonitor projectID goalID taskID now =
     bnd (CountLiveMonitorsForTaskScope_sql projectID goalID taskID (now - MonitorHealthLease)) (\<lambda>n. ret (0 < n))"

definition HasLiveExecutorMonitorForTask :: "int \<Rightarrow> int \<Rightarrow> int \<Rightarrow> time \<Rightarrow> bool store_op" where
  "HasLiveExecutorMonitorForTask projectID goalID taskID now = hasLiveExecutorMonitor projectID goalID taskID now"

fun MonitorLastSeenAt :: "monitor_health list \<Rightarrow> int \<Rightarrow> time option" where
  "MonitorLastSeenAt [] goalID = None"
| "MonitorLastSeenAt (h # hs) goalID =
     (let rest = MonitorLastSeenAt hs goalID in
      if goalID \<noteq> 0 \<and> (mh_role h \<noteq> ''subcommander'' \<or> mh_goal_id h \<noteq> Some goalID) then rest
      else case rest of None \<Rightarrow> Some (mh_last_seen_at h) | Some t \<Rightarrow> Some (max t (mh_last_seen_at h)))"

section \<open>The locale of the user interface\<close>

definition defaultUILocale :: string where
  "defaultUILocale = ''en''"

definition isSupportedUILocale :: "string \<Rightarrow> bool" where
  "isSupportedUILocale l \<longleftrightarrow> l = ''en'' \<or> l = ''ja''"

definition GetUILocale :: "string store_op" where
  "GetUILocale =
     ask (\<lambda>s. case ui_locale s of None \<Rightarrow> defaultUILocale
       | Some l \<Rightarrow> if isSupportedUILocale l then l else defaultUILocale)"

definition SetUILocale :: "string \<Rightarrow> unit store_op" where
  "SetUILocale l =
     (if \<not> isSupportedUILocale l then fail (MonitorE ErrUnsupportedUILocale)
      else bnd (ask ui_locale) (\<lambda>row.
        if row = None then fail NoRows else change (ui_locale_update (\<lambda>_. Some l))))"

section \<open>Reads and writes\<close>

lemma reads_monitors [reads_intros]:
  "reads (GetMonitorBindingAgentSessionID_sql t)" "reads (MonitorBindingAgentSessionID t)"
  "reads (MonitorBindingLastReconciledAt t)" "reads (MonitorAssignment i)" "reads (MonitorBinding t)"
  "reads (AgentSessionKey i)" "reads (AgentSessionUnidentified i)" "reads (LatestAgentSessionID p)"
  "reads (ListMonitorHealth p now)" "reads (ListMonitorHealthHistory p)"
  "reads (HasLiveMonitorForScope sc now)" "reads (hasLiveExecutorMonitor p g k now)"
  "reads (HasLiveExecutorMonitorForTask p g k now)" "reads GetUILocale" "reads (reporting_session h)"
  unfolding GetMonitorBindingAgentSessionID_sql_def MonitorBindingAgentSessionID_def
    MonitorBindingLastReconciledAt_def GetMonitorBindingLastReconciledAt_sql_def MonitorAssignment_def
    GetMonitorCommanderProjectID_sql_def GetMonitorSubcommanderAssignment_sql_def
    ListMonitorExecutorAssignments_sql_def MonitorBinding_def AgentSessionKey_def GetAgentSessionKey_sql_def
    AgentSessionUnidentified_def LatestAgentSessionID_def GetLatestAgentSessionID_sql_def
    ListMonitorHealth_def ListMonitorHealth_sql_def ListMonitorHealthHistory_def
    ListMonitorHealthHistory_sql_def HasLiveMonitorForScope_def CountLiveMonitorsForScope_sql_def
    hasLiveExecutorMonitor_def CountLiveMonitorsForTaskScope_sql_def HasLiveExecutorMonitorForTask_def
    GetUILocale_def reporting_session_def
  by (intro reads_intros)+

lemma monitors_only:
  "evolves bindings_table.only (BindMonitorToken_sql t i now)"
  "evolves bindings_table.only (AdvanceMonitorBindingLastReconciledAt_sql at t)"
  "evolves health_table.only (PruneMonitorHealth_sql at)" "evolves health_table.only (UpsertMonitorHealth_sql row)"
  "evolves health_table.only (StopMonitorHealth_sql at m)"
  unfolding BindMonitorToken_sql_def AdvanceMonitorBindingLastReconciledAt_sql_def PruneMonitorHealth_sql_def
    UpsertMonitorHealth_sql_def StopMonitorHealth_sql_def
  by (intro health_table.only_rules bindings_table.only_rules)+

lemma binding_row_key: "binding_row token s = None \<longleftrightarrow> token \<notin> mb_token ` set (monitor_bindings s)"
  by (auto simp: binding_row_def find_None_iff_all)

lemma monitors_registry:
  "evolves (keeps wf_registry) (BindMonitorToken_sql t i now)"
  "evolves (keeps wf_registry) (AdvanceMonitorBindingLastReconciledAt_sql at t)"
  "evolves (keeps wf_registry) (PruneMonitorHealth_sql at)"
  "evolves (keeps wf_registry) (UpsertMonitorHealth_sql row)"
  "evolves (keeps wf_registry) (StopMonitorHealth_sql at m)"
proof -
  show "evolves (keeps wf_registry) (BindMonitorToken_sql t i now)"
    by (auto simp: BindMonitorToken_sql_def evolves_def keeps_def bnd_def ask_def check_def exec_insert_def change_def
        ret_def fail_def wf_registry_def map_update_where binding_row_key [symmetric] split: if_splits)
  show "evolves (keeps wf_registry) (AdvanceMonitorBindingLastReconciledAt_sql at t)"
    unfolding AdvanceMonitorBindingLastReconciledAt_sql_def
    by (rule evolves_change) (simp add: keeps_def wf_registry_def map_update_where)
  show "evolves (keeps wf_registry) (PruneMonitorHealth_sql at)"
    unfolding PruneMonitorHealth_sql_def
    by (rule evolves_change) (simp add: keeps_def wf_registry_def distinct_filter_key)
  have "map mh_monitor_id (update_where (\<lambda>h. mh_monitor_id h = mh_monitor_id row)
      (\<lambda>_. row\<lparr>mh_stopped_at := None\<rparr>) rows) = map mh_monitor_id rows" for rows
    by (simp add: update_where_def)
  then show "evolves (keeps wf_registry) (UpsertMonitorHealth_sql row)"
    unfolding UpsertMonitorHealth_sql_def
    by (intro evolves_change) (auto simp: keeps_def wf_registry_def list_ex_iff)
  show "evolves (keeps wf_registry) (StopMonitorHealth_sql at m)"
    unfolding StopMonitorHealth_sql_def
    by (rule evolves_exec_update) (simp add: keeps_def wf_registry_def map_update_where)
qed

lemma monitors_statements_le [le_queries]:
  "evolves store_le (BindMonitorToken_sql t i now)"
  "evolves store_le (AdvanceMonitorBindingLastReconciledAt_sql at t)"
  "evolves store_le (PruneMonitorHealth_sql at)" "evolves store_le (UpsertMonitorHealth_sql row)"
  "evolves store_le (StopMonitorHealth_sql at m)"
  by (intro monitors_table_le monitors_only monitors_registry)+

lemma monitors_le [le_queries]:
  "evolves store_le (BindMonitorToken t i now)" "evolves store_le (RenewMonitorLease t now)"
  "evolves store_le (UpsertMonitorHealth w sha h now)" "evolves store_le (StopMonitorHealth m at now)"
  unfolding BindMonitorToken_def RenewMonitorLease_def UpsertMonitorHealth_def Let_def StopMonitorHealth_def
  by (rule le_rules le_queries reads_intros | rule store_le.ev_reads, rule reads_intros)+

lemma locale_le [le_queries]: "evolves store_le (SetUILocale l)"
proof -
  have "store_le s (ui_locale_update f s)" for f s
    unfolding store_le_def by (simp add: store_le_congs)
  then show ?thesis
    unfolding SetUILocale_def
    by (intro store_le.ev_rules evolves_change) simp
qed

end
