(* ===== verification/Atct_Discard.thy ===== *)
theory Atct_Discard
  imports Atct_Monitors
begin

text \<open>
  Revoking sessions. A commander asks the human to approve the discard of a session and carries it
  out (\<^verbatim>\<open>internal/store/handoff_recovery.go\<close>); sessions nobody needs any more are
  discarded or deleted by the maintenance of the daemon
  (\<^verbatim>\<open>agent_session_reclaim.go\<close> and its queries).
\<close>

section \<open>Discards the human approves\<close>

record SessionDiscardRequest =
  dr_ProjectID :: int
  dr_GoalID :: int
  dr_TargetSessionID :: int
  dr_RequestedBy :: int
  dr_Reason :: string

record sessionDiscardDecisionPayload =
  dp_ProjectID :: int
  dp_TargetSessionID :: int
  dp_Reason :: string

definition DiscardAgentSession_sql :: "time \<Rightarrow> int \<Rightarrow> int \<Rightarrow> string \<Rightarrow> int \<Rightarrow> int \<Rightarrow> nat store_op" where
  "DiscardAgentSession_sql now by decision reason i project =
     exec_update agent_sessions agent_sessions_update
       (\<lambda>r. s_id r = i \<and> s_project_id r = Some project \<and> s_discarded_at r = None)
       (\<lambda>r. r\<lparr>s_discarded_at := Some now, s_discarded_by := Some by, s_discarded_decision_id := Some decision,
              s_discard_reason := reason\<rparr>)"

definition discard_forbidden :: error where
  "discard_forbidden = SessionE ErrSessionDiscardForbidden"

definition requireProjectCommander :: "int \<Rightarrow> int \<Rightarrow> time \<Rightarrow> unit store_op" where
  "requireProjectCommander projectID sessionID now =
     (if projectID \<le> 0 \<or> sessionID \<le> 0 then fail discard_forbidden
      else bnd (map_error (\<lambda>e. if e = NoRows then discard_forbidden else e) (GetProject_sql projectID)) (\<lambda>project.
        bnd (ask (claimIsRunning sessionID now)) (\<lambda>running.
        bnd (check (p_claimed_by project = sessionID \<and> running) discard_forbidden) (\<lambda>_.
        bnd (map_error (\<lambda>e. if e = NoRows then discard_forbidden else e) (GetAgentSessionRecovery_sql sessionID))
          (\<lambda>commander.
        bnd (check (\<not> agentSessionHasDiscardMetadata commander) discard_forbidden) (\<lambda>_.
        check (s_project_id commander \<noteq> None) discard_forbidden))))))"

text \<open>
  The request is kept in the question of the decision as JSON. \<open>encode\<close> and \<open>decode\<close>
  are \<^verbatim>\<open>encoding/json\<close> on the payload; None is its error.
\<close>

definition sessionDiscardPayload :: "(string \<Rightarrow> sessionDiscardDecisionPayload option) \<Rightarrow> int \<Rightarrow> int \<Rightarrow> int \<Rightarrow> int \<Rightarrow>
    sessionDiscardDecisionPayload store_op" where
  "sessionDiscardPayload decode decisionID projectID target commander =
     bnd (map_error (\<lambda>e. if e = NoRows then SessionE ErrSessionDiscardNotFound else e)
            (GetDecision_sql decisionID)) (\<lambda>d.
     bnd (check (d_kind d = SessionDiscardDecisionKind \<and> d_agent_session_id d = commander
                 \<and> d_status d = DecisionApplied \<and> d_answer_label d = ''approve'')
            (SessionE ErrSessionDiscardPending)) (\<lambda>_.
     bnd (GetGoalProjectID_sql (d_goal_id d)) (\<lambda>goalProjectID.
     bnd (check (goalProjectID = projectID) discard_forbidden) (\<lambda>_.
     bnd (check (CHR 0x7B \<in> set (d_question d)) (SessionE ErrSessionDiscardPending)) (\<lambda>_.
     bnd (need (SessionE ErrSessionDiscardPending)
            (decode (dropWhile (\<lambda>c. c \<noteq> CHR 0x7B) (d_question d)))) (\<lambda>payload.
     bnd (check (dp_ProjectID payload = projectID \<and> dp_TargetSessionID payload = target
                 \<and> \<not> blank (dp_Reason payload)) discard_forbidden) (\<lambda>_.
     ret payload)))))))"

definition discard_options :: "decision_option list" where
  "discard_options =
     [\<lparr>o_label = ''approve'', o_description = ''Discard the target agent session'',
       o_consequence = ''The session can no longer mutate handoffs''\<rparr>,
      \<lparr>o_label = ''reject'', o_description = ''Keep the target agent session'',
       o_consequence = ''No session state changes''\<rparr>]"

definition RequestSessionDiscard :: "(sessionDiscardDecisionPayload \<Rightarrow> string) \<Rightarrow> SessionDiscardRequest \<Rightarrow> time \<Rightarrow>
    decision store_op" where
  "RequestSessionDiscard encode inp now =
     (if dr_ProjectID inp \<le> 0 \<or> dr_GoalID inp \<le> 0 \<or> dr_TargetSessionID inp \<le> 0 \<or> dr_RequestedBy inp \<le> 0
       \<or> blank (dr_Reason inp) then fail discard_forbidden
      else bnd (requireProjectCommander (dr_ProjectID inp) (dr_RequestedBy inp) now) (\<lambda>_.
        bnd (GetGoalProjectID_sql (dr_GoalID inp)) (\<lambda>goalProjectID.
        bnd (check (goalProjectID = dr_ProjectID inp) discard_forbidden) (\<lambda>_.
        bnd (map_error (\<lambda>e. if e = NoRows then SessionE ErrAgentSessionNotRegistered else e)
               (GetAgentSessionRecovery_sql (dr_TargetSessionID inp))) (\<lambda>target.
        bnd (check (s_project_id target = Some (dr_ProjectID inp)) discard_forbidden) (\<lambda>_.
        bnd (check (\<not> agentSessionHasDiscardMetadata target) (SessionE ErrSessionDiscarded)) (\<lambda>_.
        AskDecision
          \<lparr>ask_GoalID = dr_GoalID inp, ask_TaskID = 0, ask_Kind = SessionDiscardDecisionKind,
           ask_Question = ''Approve this session discard? '' @ encode
             \<lparr>dp_ProjectID = dr_ProjectID inp, dp_TargetSessionID = dr_TargetSessionID inp,
              dp_Reason = dr_Reason inp\<rparr>,
           ask_Options = discard_options, ask_DefaultOption = [], ask_DefaultAfterMs = None,
           ask_AgentSessionID = dr_RequestedBy inp\<rparr> now)))))))"

definition DiscardSession :: "(string \<Rightarrow> sessionDiscardDecisionPayload option) \<Rightarrow> int \<Rightarrow> int \<Rightarrow> int \<Rightarrow> int \<Rightarrow> time \<Rightarrow>
    unit store_op" where
  "DiscardSession decode projectID targetID decisionID commanderID now =
     (if projectID \<le> 0 \<or> targetID \<le> 0 \<or> decisionID \<le> 0 \<or> commanderID \<le> 0 then fail discard_forbidden
      else bnd (requireProjectCommander projectID commanderID now) (\<lambda>_. transaction
        (bnd (requireProjectCommander projectID commanderID now) (\<lambda>_.
         bnd (sessionDiscardPayload decode decisionID projectID targetID commanderID) (\<lambda>payload.
         bnd (map_error (\<lambda>e. if e = NoRows then SessionE ErrAgentSessionNotRegistered else e)
                (GetAgentSessionRecovery_sql targetID)) (\<lambda>target.
         bnd (check (s_project_id target = Some projectID) discard_forbidden) (\<lambda>_.
         bnd (check (\<not> agentSessionHasDiscardMetadata target) (SessionE ErrSessionDiscarded)) (\<lambda>_.
         bnd (DiscardAgentSession_sql now commanderID decisionID (dp_Reason payload) targetID projectID) (\<lambda>n.
         check (n = 1) (SessionE ErrSessionDiscarded))))))))))"

section \<open>Reclaiming idle sessions\<close>

definition agentSessionIdleAfter :: time where
  "agentSessionIdleAfter = 24 * 3600 * second"

definition reclaimMonitorStoppedAfter :: time where
  "reclaimMonitorStoppedAfter = 7 * 24 * 3600 * second"

definition reclaimRowBudget :: int where
  "reclaimRowBudget = 50"

text \<open>
  \<open>protectedSessionRefs\<close>: a handoff the session takes part in, a handoff entry it wrote, or the
  claim of a project. \<open>heldSessionRefs\<close>: a decision, a monitor, or a discard it decided.
\<close>

definition protected_session :: "store \<Rightarrow> int \<Rightarrow> bool" where
  "protected_session s i \<longleftrightarrow>
     list_ex (handoff_names i) (task_handoffs s) \<or> list_ex (handoff_names i) (goal_handoffs s)
   \<or> list_ex (\<lambda>h. Some i \<in> {pl_review_requested_by h, pl_review_received_by h,
                                 pl_review_rejection_received_by h}) (plan_handoffs s)
   \<or> list_ex (\<lambda>h. Some i \<in> {c_requested_by h, c_received_by h, c_completed_by h}) (task_create_handoffs s)
   \<or> list_ex (\<lambda>e. e_author_session_id e = Some i) (task_handoff_entries s)
   \<or> list_ex (\<lambda>e. e_author_session_id e = Some i) (goal_handoff_entries s)
   \<or> list_ex (\<lambda>e. e_author_session_id e = Some i) (plan_handoff_entries s)
   \<or> list_ex (\<lambda>p. p_claimed_by p = i) (projects s)"

definition held_session :: "store \<Rightarrow> int \<Rightarrow> bool" where
  "held_session s i \<longleftrightarrow>
     list_ex (\<lambda>d. d_agent_session_id d = i) (decisions s)
   \<or> list_ex (\<lambda>b. mb_agent_session_id b = i) (monitor_bindings s)
   \<or> list_ex (\<lambda>h. mh_agent_session_id h = i) (monitor_health_rows s)
   \<or> list_ex (\<lambda>r. s_discarded_by r = Some i) (agent_sessions s)"

definition live_monitor_of :: "store \<Rightarrow> time \<Rightarrow> int \<Rightarrow> bool" where
  "live_monitor_of s leaseAfter i \<longleftrightarrow>
     list_ex (\<lambda>h. mh_agent_session_id h = i \<and> mh_stopped_at h = None \<and> leaseAfter \<le> mh_last_seen_at h)
       (monitor_health_rows s)"

definition idle_session :: "time \<Rightarrow> agent_session \<Rightarrow> bool" where
  "idle_session idleBefore r \<longleftrightarrow>
     (case s_last_heartbeat_at r of None \<Rightarrow> s_registered_at r | Some t \<Rightarrow> t) < idleBefore \<and> s_session_key r = []"

text \<open>\<^verbatim>\<open>LIMIT\<close>: the first rows of the table; a negative limit is none.\<close>

definition sql_limit :: "int \<Rightarrow> 'a list \<Rightarrow> 'a list" where
  "sql_limit n rows = (if n < 0 then rows else take (nat n) rows)"

definition ReclaimDiscardReferencedSessions_sql :: "time \<Rightarrow> string \<Rightarrow> time \<Rightarrow> time \<Rightarrow> int \<Rightarrow> nat store_op" where
  "ReclaimDiscardReferencedSessions_sql now reason idleBefore leaseAfter limit =
     bnd (ask (\<lambda>s. map s_id (sql_limit limit (filter (\<lambda>r. idle_session idleBefore r \<and> s_discarded_at r = None
         \<and> \<not> protected_session s (s_id r) \<and> \<not> live_monitor_of s leaseAfter (s_id r) \<and> held_session s (s_id r))
       (agent_sessions s))))) (\<lambda>ids.
     exec_update agent_sessions agent_sessions_update (\<lambda>r. s_id r \<in> set ids)
       (\<lambda>r. r\<lparr>s_discarded_at := Some now, s_discard_reason := reason\<rparr>))"

definition ReclaimDeleteUnreferencedSessions_sql :: "time \<Rightarrow> time \<Rightarrow> int \<Rightarrow> nat store_op" where
  "ReclaimDeleteUnreferencedSessions_sql idleBefore leaseAfter limit =
     bnd (ask (\<lambda>s. map s_id (sql_limit limit (filter (\<lambda>r. idle_session idleBefore r \<and> s_discarded_by r = None
         \<and> s_discarded_decision_id r = None \<and> \<not> protected_session s (s_id r)
         \<and> \<not> live_monitor_of s leaseAfter (s_id r) \<and> \<not> held_session s (s_id r))
       (agent_sessions s))))) (\<lambda>ids.
     bnd (change (delete_sessions (\<lambda>r. s_id r \<in> set ids))) (\<lambda>_. ret (length ids)))"

definition ReclaimDeleteDeadMonitorHealth_sql :: "time \<Rightarrow> time \<Rightarrow> int \<Rightarrow> nat store_op" where
  "ReclaimDeleteDeadMonitorHealth_sql leaseAfter weekBefore limit =
     bnd (ask (\<lambda>s. map mh_monitor_id (sql_limit limit (filter (\<lambda>h.
         \<not> (mh_stopped_at h = None \<and> leaseAfter \<le> mh_last_seen_at h)
       \<and> ((case mh_stopped_at h of None \<Rightarrow> False | Some t \<Rightarrow> t < weekBefore)
          \<or> (0 < mh_agent_session_id h \<and> \<not> session_exists (mh_agent_session_id h) s)))
       (monitor_health_rows s))))) (\<lambda>ids.
     bnd (change (monitor_health_rows_update (filter (\<lambda>h. mh_monitor_id h \<notin> set ids)))) (\<lambda>_. ret (length ids)))"

definition ReclaimDeleteDeadMonitorBindings_sql :: "time \<Rightarrow> int \<Rightarrow> nat store_op" where
  "ReclaimDeleteDeadMonitorBindings_sql weekBefore limit =
     bnd (ask (\<lambda>s. map mb_token (sql_limit limit (filter (\<lambda>b.
         \<not> session_exists (mb_agent_session_id b) s
       \<or> (list_ex (\<lambda>r. s_id r = mb_agent_session_id b \<and> s_discarded_at r \<noteq> None) (agent_sessions s)
          \<and> (case mb_last_reconciled_at b of None \<Rightarrow> mb_created_at b | Some t \<Rightarrow> t) < weekBefore))
       (monitor_bindings s))))) (\<lambda>tokens.
     bnd (change (monitor_bindings_update (filter (\<lambda>b. mb_token b \<notin> set tokens)))) (\<lambda>_. ret (length tokens)))"

record ReclaimResult =
  SessionsDiscarded :: int
  SessionsDeleted :: int
  rr_MonitorHealth :: int
  rr_MonitorBindings :: int

definition reclaim_Total :: "ReclaimResult \<Rightarrow> int" where
  "reclaim_Total r = SessionsDiscarded r + SessionsDeleted r + rr_MonitorHealth r + rr_MonitorBindings r"

definition reclaimAgentSessionsWithBudget :: "time \<Rightarrow> int \<Rightarrow> ReclaimResult store_op" where
  "reclaimAgentSessionsWithBudget now budget = transaction
     (let idleBefore = now - agentSessionIdleAfter;
          leaseAfter = now - RuntimeLeaseDuration;
          weekBefore = now - reclaimMonitorStoppedAfter
      in bnd (ReclaimDiscardReferencedSessions_sql now ''reclaimed: idle with no heartbeat, still referenced''
               idleBefore leaseAfter budget) (\<lambda>discarded.
         bnd (ReclaimDeleteUnreferencedSessions_sql idleBefore leaseAfter (budget - int discarded)) (\<lambda>deleted.
         bnd (ReclaimDeleteDeadMonitorHealth_sql leaseAfter weekBefore (budget - int discarded - int deleted))
           (\<lambda>health.
         bnd (ReclaimDeleteDeadMonitorBindings_sql weekBefore
               (budget - int discarded - int deleted - int health)) (\<lambda>bindings.
         ret \<lparr>SessionsDiscarded = int discarded, SessionsDeleted = int deleted,
              rr_MonitorHealth = int health, rr_MonitorBindings = int bindings\<rparr>)))))"

definition ReclaimAgentSessions :: "time \<Rightarrow> ReclaimResult store_op" where
  "ReclaimAgentSessions now = reclaimAgentSessionsWithBudget now reclaimRowBudget"

section \<open>Every operation moves the store forward\<close>

lemma reads_discard [reads_intros]:
  "reads (requireProjectCommander p i now)" "reads (sessionDiscardPayload dec d p t c)"
  unfolding requireProjectCommander_def sessionDiscardPayload_def
  by (intro reads_intros)+

lemma discard_statements_le [le_queries]:
  "evolves store_le (DiscardAgentSession_sql now c d reason i p)"
  "evolves store_le (ReclaimDiscardReferencedSessions_sql now reason idle lease n)"
  unfolding DiscardAgentSession_sql_def ReclaimDiscardReferencedSessions_sql_def
  by (intro sessions_table_le sessions_table.only_rules keeps.ev_rules evolves_exec_update;
      auto simp: keeps_def intro!: wf_sessions_update)+

lemma reclaim_statements_le [le_queries]:
  "evolves store_le (ReclaimDeleteUnreferencedSessions_sql idle lease n)"
  "evolves store_le (ReclaimDeleteDeadMonitorHealth_sql lease week n)"
  "evolves store_le (ReclaimDeleteDeadMonitorBindings_sql week n)"
proof -
  show "evolves store_le (ReclaimDeleteUnreferencedSessions_sql idle lease n)"
    unfolding ReclaimDeleteUnreferencedSessions_sql_def
    by (intro store_le.ev_rules evolves_change delete_sessions_le)
  show "evolves store_le (ReclaimDeleteDeadMonitorHealth_sql lease week n)"
    "evolves store_le (ReclaimDeleteDeadMonitorBindings_sql week n)"
    unfolding ReclaimDeleteDeadMonitorHealth_sql_def ReclaimDeleteDeadMonitorBindings_sql_def
    by (intro monitors_table_le health_table.only_rules bindings_table.only_rules keeps.ev_rules evolves_change;
        simp add: keeps_def wf_registry_def distinct_filter_key)+
qed

lemma discard_le [le_queries]:
  "evolves store_le (RequestSessionDiscard enc inp now)" "evolves store_le (DiscardSession dec p t d c now)"
  "evolves store_le (ReclaimAgentSessions now)"
  unfolding RequestSessionDiscard_def DiscardSession_def ReclaimAgentSessions_def
    reclaimAgentSessionsWithBudget_def Let_def
  by (rule le_rules le_queries reads_intros | rule store_le.ev_reads, rule reads_intros)+

end
