(* ===== verification/Atct_System.thy ===== *)
theory Atct_System
  imports Atct_Discard
begin

text \<open>
  The store as a state machine. A step is one call of one exported operation of
  \<^verbatim>\<open>Store\<close> that can write, with any arguments, whether it returns or fails; the calls
  are serialized by the single database connection. Every step moves the store along
  \<open>store_le\<close>, so what the component theories prove about one statement holds along every
  run of the daemon.
\<close>

section \<open>Steps\<close>

inductive store_step :: "store \<Rightarrow> store \<Rightarrow> bool" where
  register: "store_step s (snd (RegisterAgentSessionInProject pid st project now s))"
| identify: "store_step s (snd (IdentifyAgentSession i key pid st now s))"
| associate: "store_step s (snd (AssociateAgentSessionWithProject i project now s))"
| heartbeat: "store_step s (snd (HeartbeatAgentSession i now s))"
| development_mode: "store_step s (snd (EnableDevelopmentMode i s))"
| append_task_entry: "store_step s (snd (AppendTaskHandoffEntry hid kind body author rel now s))"
| append_goal_entry: "store_step s (snd (AppendGoalHandoffEntry hid kind body author rel now s))"
| ask_decision: "store_step s (snd (AskDecision inp now s))"
| answer_decision: "store_step s (snd (AnswerDecisionWith ans src now s))"
| expire_decisions: "store_step s (snd (ApplyExpiredDefaults now s))"
| withdraw_decision: "store_step s (snd (WithdrawDecision i reason s))"
| poll_decisions: "store_step s (snd (PollDecisions session i now s))"
| create_tasks: "store_step s (snd (CreateTasks goal agent key titles descriptions now s))"
| receive_task_create: "store_step s (snd (ReceiveTaskCreateHandoff hid i now s))"
| recover_task_create: "store_step s (snd (RecoverTaskCreateHandoff hid goal i reason uuid now s))"
| create_tasks_for_handoff: "store_step s (snd (CreateTasksForHandoff hid i goal agent key titles descriptions now s))"
| request_goal_handoff: "store_step s (snd (RequestGoalHandoff hid goal i report now s))"
| receive_goal_handoff: "store_step s (snd (ReceiveGoalHandoff hid goal i now s))"
| receive_goal_handoff_for_goal: "store_step s (snd (ReceiveGoalHandoffForGoal goal i now s))"
| request_goal_review: "store_step s (snd (RequestGoalHandoffReview hid goal i report now s))"
| receive_goal_review: "store_step s (snd (ReceiveGoalHandoffReview hid goal i now s))"
| recover_goal_handoff: "store_step s (snd (RecoverGoalHandoff hid goal i reason now s))"
| reject_goal_review: "store_step s (snd (RejectGoalHandoffReview hid goal i report uuid now s))"
| receive_goal_rejection: "store_step s (snd (ReceiveGoalHandoffReviewRejection hid goal i now s))"
| complete_goal_by_reviewer: "store_step s (snd (CompleteGoalHandoffByReviewer hid goal i report now s))"
| complete_goal_handoff: "store_step s (snd (CompleteGoalHandoff hid goal report now s))"
| complete_goal_handoff_for_goal: "store_step s (snd (CompleteGoalHandoffForGoal goal report now s))"
| amend_goal_report: "store_step s (snd (AmendGoalHandoffReport hid goal report now s))"
| request_task_handoff: "store_step s (snd (RequestTaskHandoff hid task i report now s))"
| receive_task_handoff: "store_step s (snd (ReceiveTaskHandoff hid task i now s))"
| receive_task_handoff_for_task: "store_step s (snd (ReceiveTaskHandoffForTask task i now s))"
| request_task_review: "store_step s (snd (RequestTaskHandoffReview hid task i report now s))"
| receive_task_review: "store_step s (snd (ReceiveTaskHandoffReview hid task i now s))"
| recover_task_handoff: "store_step s (snd (RecoverTaskHandoff hid task i reason now s))"
| reject_task_review: "store_step s (snd (RejectTaskHandoffReview hid task i report now s))"
| receive_task_rejection: "store_step s (snd (ReceiveTaskHandoffReviewRejection hid task i now s))"
| complete_task_by_reviewer: "store_step s (snd (CompleteTaskHandoffByReviewer hid task i report now s))"
| complete_task_handoff: "store_step s (snd (CompleteTaskHandoff hid task report now s))"
| complete_task_handoff_for_task: "store_step s (snd (CompleteTaskHandoffForTask task report now s))"
| amend_task_report: "store_step s (snd (AmendTaskHandoffReport hid task report now s))"
| request_plan_review: "store_step s (snd (RequestPlanHandoffReview hid goal i report now s))"
| receive_plan_review: "store_step s (snd (ReceivePlanHandoffReview hid goal i now s))"
| recover_plan_handoff: "store_step s (snd (RecoverPlanHandoff hid goal i reason now s))"
| reject_plan_review: "store_step s (snd (RejectPlanHandoffReview hid goal i report now s))"
| receive_plan_rejection: "store_step s (snd (ReceivePlanHandoffReviewRejection hid goal i now s))"
| complete_plan_handoff: "store_step s (snd (CompletePlanHandoff hid goal i report uuid now s))"
| link_task_commit: "store_step s (snd (LinkTaskCommit task commit s))"
| snooze_task: "store_step s (snd (SnoozeTask task until now s))"
| update_task: "store_step s (snd (UpdateTask task status i now s))"
| release_task_for_human: "store_step s (snd (ReleaseTaskForHuman task now s))"
| release_task_as: "store_step s (snd (ReleaseTaskAs task i now s))"
| update_task_content: "store_step s (snd (UpdateTaskContent task title desc i now s))"
| claim_task: "store_step s (snd (ClaimTask task i uuid now s))"
| create_goal: "store_step s (snd (CreateGoal project content creator derived now s))"
| update_goal_request_report: "store_step s (snd (UpdateGoalRequestReport goal spec plan now s))"
| claim_goal: "store_step s (snd (ClaimGoal goal i uuid now s))"
| release_goal: "store_step s (snd (ReleaseGoal goal now s))"
| set_goal_derived_from: "store_step s (snd (SetGoalDerivedFrom goal parent now s))"
| request_goal_result_review: "store_step s (snd (RequestGoalReview goal i reports now s))"
| approve_goal_review: "store_step s (snd (ApproveGoalReviewWith decision src now s))"
| reject_goal_result_review: "store_step s (snd (RejectGoalReviewWith decision reason src now s))"
| finalize_goal_review: "store_step s (snd (FinalizeGoalReview goal i now s))"
| withdraw_active_goal: "store_step s (snd (WithdrawActiveGoal goal reason now s))"
| create_project: "store_step s (snd (CreateProject w name root now s))"
| claim_project: "store_step s (snd (ClaimProject project i now s))"
| force_claim_project: "store_step s (snd (ForceClaimProject project i now s))"
| release_project: "store_step s (snd (ReleaseProject project s))"
| archive_project: "store_step s (snd (ArchiveProject project now s))"
| unarchive_project: "store_step s (snd (UnarchiveProject project now s))"
| bind_monitor: "store_step s (snd (BindMonitorToken token i now s))"
| renew_monitor_lease: "store_step s (snd (RenewMonitorLease token now s))"
| monitor_health: "store_step s (snd (UpsertMonitorHealth w sha256 health now s))"
| stop_monitor: "store_step s (snd (StopMonitorHealth monitor stopped now s))"
| request_discard: "store_step s (snd (RequestSessionDiscard encode request now s))"
| discard_session: "store_step s (snd (DiscardSession decode project target decision i now s))"
| reclaim_sessions: "store_step s (snd (ReclaimAgentSessions now s))"
| set_locale: "store_step s (snd (SetUILocale l s))"

abbreviation steps :: "store \<Rightarrow> store \<Rightarrow> bool" where
  "steps \<equiv> store_step\<^sup>*\<^sup>*"

lemma AnswerDecisionWith_le [le_queries]: "evolves store_le (AnswerDecisionWith ans src now)"
  unfolding AnswerDecisionWith_def by (rule le_queries)

lemma evolves_snd: "evolves R m \<Longrightarrow> R s (snd (m s))"
  by (simp add: evolves_def)

lemmas le_runs = le_queries [THEN evolves_snd]

lemma store_step_le: "store_step s t \<Longrightarrow> store_le s t"
  by (induction rule: store_step.induct) (rule le_runs)+

lemma steps_le: "steps s t \<Longrightarrow> store_le s t"
  by (induction rule: rtranclp_induct) (blast intro: store_le.refl store_le.trans store_step_le)+

text \<open>What a run of the store says about each table.\<close>

lemma steps_tables:
  assumes "steps s t"
  shows "logs_extend s t" "table_le (task_handoffs s) (task_handoffs t)"
    "table_le (goal_handoffs s) (goal_handoffs t)" "decisions_le s t" "goals_le s t" "tasks_le s t"
    "plans_le s t" "creates_le s t" "wf_sessions s \<Longrightarrow> wf_sessions t"
    "wf_registry s \<Longrightarrow> wf_registry t"
  using steps_le [OF assms]
  by (simp_all add: store_le_def task_handoff.le_def goal_handoff.le_def keeps_def)

section \<open>The invariant\<close>

definition wf_store :: "store \<Rightarrow> bool" where
  "wf_store s \<longleftrightarrow>
     wf_sessions s \<and> wf_logs s \<and> wf_table (task_handoffs s) \<and> wf_table (goal_handoffs s)
   \<and> wf_decisions (decisions s) \<and> wf_goals (goals s) \<and> wf_tasks (tasks s) \<and> wf_plans (plan_handoffs s)
   \<and> wf_registry s"

lemma wf_store_parts:
  assumes "wf_store s"
  shows "wf_sessions s" "wf_logs s" "wf_table (task_handoffs s)" "wf_table (goal_handoffs s)"
    "wf_decisions (decisions s)" "wf_goals (goals s)" "wf_tasks (tasks s)" "wf_plans (plan_handoffs s)"
    "wf_registry s"
  using assms by (simp_all add: wf_store_def)

lemma wf_store_empty: "wf_store empty_store"
  by (simp add: wf_store_def empty_store_def wf_sessions_def wf_logs_def wf_table_def wf_handoffs_def
      one_open_def wf_decisions_def wf_goals_def wf_tasks_def wf_plans_def wf_entries_def wf_registry_def)

lemma wf_logs_extend: "logs_extend s t \<Longrightarrow> wf_logs s \<Longrightarrow> wf_logs t"
  by (simp add: logs_extend_def)

lemma wf_store_step: "steps s t \<Longrightarrow> wf_store s \<Longrightarrow> wf_store t"
  using steps_tables [of s t]
  by (auto simp: wf_store_def decisions_le_def goals_le_def tasks_le_def plans_le_def table_le_def
      intro: wf_logs_extend)

text \<open>A handoff, looked up later.\<close>

lemma handoff_later:
  assumes le: "table_le gs hs" and wf: "wf_table gs" and g: "List.find (\<lambda>h. h_id h = i) gs = Some g"
  shows "\<exists>h. List.find (\<lambda>h. h_id h = i) hs = Some h \<and> handoff_le g h \<and> wf_row g"
proof -
  have "wf_row g" using wf find_Some_in [OF g] by (simp add: wf_table_def)
  moreover have "\<exists>h. List.find (\<lambda>h. h_id h = i) hs = Some h \<and> handoff_le g h"
    using le g unfolding table_le_def by (elim conjE) (erule (1) grows_find [where k = h_id, rotated 2], simp add: handoff_le_id)
  ultimately show ?thesis by blast
qed

section \<open>Runs\<close>

text \<open>The result of an operation that returns.\<close>

lemma run_ok: "\<not> isl (fst r) \<Longrightarrow> r = (Inr (projr (fst r)), snd r)"
  by (cases r) (auto simp: isl_def split: sum.splits)

lemma one_step: "store_step s t \<Longrightarrow> steps s t"
  by (rule r_into_rtranclp)

text \<open>A closed decision, looked up later.\<close>

lemma status_steps_answered:
  "status_step\<^sup>*\<^sup>* DecisionAnswered st \<Longrightarrow> st = DecisionAnswered \<or> st = DecisionApplied"
  by (induction rule: rtranclp_induct) (auto elim: status_stepE)

lemma decision_steps:
  assumes "steps s t" and "decision_row i s = Some d"
  shows "\<exists>e. decision_row i t = Some e \<and> decision_le d e"
  using decision_row_later [OF steps_tables(4) [OF assms(1)] assms(2)] .

lemma answered_steps:
  assumes run: "AnswerDecisionWith ans src now s = (Inr d, t)" and wf: "wf_decisions (decisions s)"
    and later: "steps t u"
  shows "\<exists>c e. decision_row (DecisionID ans) u = Some e \<and> decision_le (answered now ans src c) e"
proof -
  obtain c where "decision_row (DecisionID ans) t = Some (answered now ans src c)"
    using answer_run [OF run [unfolded AnswerDecisionWith_def] wf] by blast
  then show ?thesis using decision_steps [OF later] by blast
qed

end
