(* ===== verification/Atct_Example.thy ===== *)
theory Atct_Example
  imports Atct_System
begin

text \<open>
  One small store on which the properties are instantiated, with the calls the instances use.
\<close>

section \<open>A store to try things on\<close>

text \<open>
  The instances below apply the properties to one small store: project 1 claimed by the
  commander's session 1, goal 1 requested by session 1 and received by session 2, task 1 handed to
  session 3, one open decision with a default and one answered decision. The clock reads 100
  seconds; sessions 1 to 3 have just sent a heartbeat, session 4 stopped long ago.
\<close>

definition sec :: "int \<Rightarrow> time" where
  "sec n = n * 1000000000"

definition a_session :: "int \<Rightarrow> string \<Rightarrow> time \<Rightarrow> agent_session" where
  "a_session i key hb = \<lparr>s_id = i, s_project_id = Some 1, s_registered_at = 0, s_pid = 10 + i,
     s_started_at = ''boot'', s_session_key = key, s_discarded_at = None, s_discarded_by = None,
     s_discarded_decision_id = None, s_discard_reason = [], s_development_mode = False,
     s_last_heartbeat_at = Some hb\<rparr>"

definition a_goal :: "int \<Rightarrow> goal" where
  "a_goal i = \<lparr>g_id = i, g_project_id = 1, g_derived_from = None, g_content = ''goal'', g_spec = ''spec'',
     g_plan = ''plan'', g_status = GoalActive, g_creator = ''user'', g_result_summary = [],
     g_work_done = [], g_now_possible = [], g_how_to_verify = [], g_surprises = [],
     g_needs_review = [], g_created_at = 0, g_updated_at = 0\<rparr>"

definition a_task :: "int \<Rightarrow> task" where
  "a_task i = \<lparr>t_id = i, t_goal_id = 1, t_title = ''task'', t_description = ''do it'',
     t_status = TaskDoing, t_agent = ''agent'', t_sort_order = i, t_declare_key = declareKey ''k'' (nat i),
     t_snoozed_until = None, t_created_at = 0, t_updated_at = 0\<rparr>"

definition a_decision :: "int \<Rightarrow> decision" where
  "a_decision i = \<lparr>d_id = i, d_goal_id = 1, d_task_id = None, d_kind = KindDecision, d_question = ''which?'',
     d_options = [], d_status = DecisionOpen, d_default_option = ''a'', d_default_after_ms = Some 5000,
     d_default_applied_at = None, d_answer_label = [], d_answer_text = [], d_answered_at = None,
     d_applied_at = None, d_agent_session_id = 2, d_created_at = 0, d_answered_via = [],
     d_answer_quote = [], d_answer_evidence = [], d_answer_prompt_id = []\<rparr>"

definition example :: store where
  "example = empty_store
     \<lparr>projects := [\<lparr>p_id = 1, p_name = ''p'', p_root_path = ''/p'', p_created_at = 0, p_claimed_by = 1,
        p_claimed_at = Some 0, p_archived_at = None\<rparr>],
      agent_sessions := [a_session 1 ''one'' (sec 95), a_session 2 ''two'' (sec 95),
        a_session 3 ''three'' (sec 95), a_session 4 ''four'' (sec 1)],
      goals := [a_goal 1],
      tasks := [a_task 1],
      decisions := [a_decision 1, (a_decision 2)\<lparr>d_status := DecisionAnswered,
        d_answer_label := ''b'', d_answered_at := Some (sec 50)\<rparr>],
      goal_handoffs := [receive_row (Some 2) (sec 2) (new_handoff ''gh'' 1 (Some 1) (sec 1) None)],
      task_handoffs := [receive_row (Some 3) (sec 4) (new_handoff ''th'' 1 (Some 2) (sec 3) None)],
      goal_handoff_entries := [\<lparr>e_id = 1, e_handoff_id = ''gh'', e_kind = ''request'',
        e_body = ''requested'', e_author_session_id = Some 1, e_in_reply_to_id = None, e_created_at = sec 1\<rparr>]\<rparr>"

definition an_answer :: AnswerInput where
  "an_answer = \<lparr>DecisionID = 1, AnswerLabel = ''a'', AnswerText = ''go''\<rparr>"

definition a_question :: AskInput where
  "a_question = \<lparr>ask_GoalID = 1, ask_TaskID = 1, ask_Kind = KindDecision, ask_Question = ''now?'',
     ask_Options = [\<lparr>o_label = ''yes'', o_description = [], o_consequence = []\<rparr>],
     ask_DefaultOption = ''yes'', ask_DefaultAfterMs = Some 0, ask_AgentSessionID = 3\<rparr>"

lemma wf_example: "wf_store example"
  by code_simp

text \<open>
  Later states of the store: the open decision withdrawn; the task submitted by session 3 and taken
  for review by session 2; the task held by session 4, whose lease has lapsed.
\<close>

definition undecided :: store where
  "undecided = example\<lparr>decisions := [(a_decision 1)\<lparr>d_status := DecisionWithdrawn, d_answer_text := ''moot''\<rparr>]\<rparr>"

definition under_review :: store where
  "under_review = example
     \<lparr>tasks := [(a_task 1)\<lparr>t_status := TaskReview\<rparr>],
      task_handoffs := [review_receive_row (Some 2) (sec 100) (review_request_row (Some 3) (sec 99) ''done''
        (receive_row (Some 3) (sec 4) (new_handoff ''th'' 1 (Some 2) (sec 3) None)))]\<rparr>"

definition abandoned :: store where
  "abandoned = example\<lparr>task_handoffs :=
     [receive_row (Some 4) (sec 4) (new_handoff ''th'' 1 (Some 2) (sec 3) None)]\<rparr>"

lemma wf_later_examples: "wf_store undecided" "wf_store under_review" "wf_store abandoned"
  by code_simp+

end
