(* ===== verification/Atct_Decision_Facts.thy ===== *)
theory Atct_Decision_Facts
  imports Atct_Example
begin

text \<open>
  What the decisions of a store go through: asking, answering once, expiry of defaults, delivery to
  the asking session, and what a run of the store can change of a decision.
\<close>

section \<open>An answer is final\<close>

text \<open>
  Property C3. An answer is final. Once an answer has been accepted, the decision carries that
  answer, its text, its instant and its provenance in every later state of the store, whatever
  operations run in between, and it is answered or delivered, never open or withdrawn.
\<close>

theorem answer_is_final:
  assumes wf: "wf_decisions (decisions s)"
    and run: "AnswerDecisionWith ans src now s = (Inr d, t)" and later: "steps t u"
  shows "\<exists>e. decision_row (DecisionID ans) u = Some e
     \<and> d_status e \<in> {DecisionAnswered, DecisionApplied}
     \<and> d_answer_label e = AnswerLabel ans \<and> d_answer_text e = AnswerText ans
     \<and> d_answered_at e = Some (rfc3339 now) \<and> d_answered_via e = Via src
     \<and> d_answer_quote e = Quote src \<and> d_answer_evidence e = Evidence src
     \<and> d_answer_prompt_id e = PromptID src"
  using answered_steps [OF run wf later]
  by (auto simp: decision_le_def answered_def set_source_def dest: status_steps_answered)

lemma example_answer_ok: "\<not> isl (fst (AnswerDecisionWith an_answer no_source (sec 100) example))"
  by code_simp

theorem answer_is_final_witness:
  "\<exists>e. decision_row 1 (snd (ApplyExpiredDefaults (sec 200)
           (snd (AnswerDecisionWith an_answer no_source (sec 100) example)))) = Some e
     \<and> d_status e \<in> {DecisionAnswered, DecisionApplied} \<and> d_answer_label e = ''a''"
  using answer_is_final [OF wf_store_parts(5) [OF wf_example] run_ok [OF example_answer_ok]
      one_step [OF store_step.expire_decisions]]
  by (auto simp: an_answer_def)

text \<open>
  Property C37. The first answer wins. After an accepted answer, every later answer to the same
  decision and every withdrawal of it is refused with \<open>ErrDecisionNotOpen\<close> and changes nothing.
\<close>

theorem first_answer_wins:
  assumes "wf_decisions (decisions s)"
    and "AnswerDecisionWith ans src now s = (Inr d, t)" and "steps t u"
  shows "AnswerDecisionWith (ans\<lparr>AnswerLabel := label, AnswerText := txt\<rparr>) src' now' u
           = (Inl (DecisionE ErrDecisionNotOpen), u)
       \<and> WithdrawDecision (DecisionID ans) reason u = (Inl (DecisionE ErrDecisionNotOpen), u)"
proof -
  obtain c e where e: "decision_row (DecisionID ans) u = Some e" "decision_le (answered now ans src c) e"
    using answered_steps [OF assms(2,1,3)] by blast
  have "d_status e \<noteq> DecisionOpen"
    using e(2) by (auto simp: decision_le_def dest: status_steps_answered)
  moreover have "wf_decisions (decisions t)"
    using evolvesD [OF AnswerDecisionWith_le assms(2)] assms(1) by (simp add: store_le_def decisions_le_def)
  then have "wf_decisions (decisions u)"
    using steps_tables(4) [OF assms(3)] by (simp add: decisions_le_def)
  ultimately show ?thesis
    using closed_decision_refuses [OF _ e(1)]
    by (cases ans) (simp add: AnswerDecisionWith_def)
qed

theorem first_answer_wins_witness:
  "WithdrawDecision 1 ''late'' (snd (AnswerDecisionWith an_answer no_source (sec 100) example))
     = (Inl (DecisionE ErrDecisionNotOpen), snd (AnswerDecisionWith an_answer no_source (sec 100) example))"
  using first_answer_wins [OF wf_store_parts(5) [OF wf_example] run_ok [OF example_answer_ok]
      rtranclp.rtrancl_refl, of "[]" "[]" no_source 0 "''late''"]
  by (simp add: an_answer_def)

text \<open>
  When the default of a decision is due, on the rows alone: the decision is open, has a default, belongs to a
  goal whose project is not archived, and as many milliseconds as it says have gone by since it was asked.
\<close>

definition delay_has_passed :: "store \<Rightarrow> time \<Rightarrow> decision \<Rightarrow> bool" where
  "delay_has_passed s now d \<longleftrightarrow> d_status d = DecisionOpen \<and> d_default_option d \<noteq> []
   \<and> (\<exists>g \<in> set (goals s). g_id g = d_goal_id d \<and> \<not> project_archived (g_project_id g) s)
   \<and> (\<exists>ms. d_default_after_ms d = Some ms \<and> d_created_at d + ms * 1000000 \<le> now)"

lemma default_due_delay:
  assumes "\<And>ms. d_default_after_ms d = Some ms \<Longrightarrow> 0 \<le> ms \<and> ms < 9223372036855"
  shows "default_due s now d \<longleftrightarrow> delay_has_passed s now d"
proof (cases "d_default_after_ms d")
  case (Some ms)
  with assms [OF Some] default_expired_iff [OF Some, of now]
  show ?thesis by (auto simp: default_due_def delay_has_passed_def goal_visible_def list_ex_iff)
qed (simp add: default_due_def delay_has_passed_def)

text \<open>
  Property C40. What a run of \<open>ApplyExpiredDefaults\<close> does to the decisions, as long as no open decision of
  the table has a delay that a duration cannot hold (negative, or more than 292 years: those wrap around).
  Exactly the open decisions with a default, of goals of projects that are not archived, whose delay in
  milliseconds has passed since their creation are settled: each becomes answered, with its default as the
  label and the instant of the run as the time of the answer and of the default. Every other decision is left
  as it is, and the number settled is returned. It never fails on a well-formed table.
\<close>

theorem expired_defaults_settle_what_is_due:
  assumes wf: "wf_decisions (decisions s)"
    and range: "\<forall>d \<in> set (decisions s). \<forall>ms. d_status d = DecisionOpen \<and> d_default_after_ms d = Some ms
      \<longrightarrow> 0 \<le> ms \<and> ms < 9223372036855"
  shows "\<exists>t. ApplyExpiredDefaults now s = (Inr (length (filter (delay_has_passed s now) (decisions s))), t)
     \<and> decisions t = map (\<lambda>d. if delay_has_passed s now d
         then d\<lparr>d_status := DecisionAnswered, d_answer_label := d_default_option d,
                d_answered_at := Some (rfc3339 now), d_default_applied_at := Some (rfc3339 now)\<rparr>
         else d) (decisions s)"
proof -
  have same: "default_due s now d \<longleftrightarrow> delay_has_passed s now d" if "d \<in> set (decisions s)" for d
  proof (cases "d_status d = DecisionOpen")
    case True
    with range that show ?thesis by (intro default_due_delay) blast
  qed (simp add: default_due_def delay_has_passed_def)
  then have "filter (default_due s now) (decisions s) = filter (delay_has_passed s now) (decisions s)"
    by (intro filter_cong) auto
  with ApplyExpiredDefaults_run [OF wf, of now] same show ?thesis
    by (auto simp: affected_def update_where_def settled_def)
qed

theorem expired_defaults_settle_what_is_due_witness:
  "(\<exists>t. ApplyExpiredDefaults (sec 5) example = (Inr 1, t) \<and> map d_answer_label (decisions t) = [''a'', ''b''])
   \<and> (\<exists>t. ApplyExpiredDefaults (sec 5 - 1) example = (Inr 0, t) \<and> decisions t = decisions example)"
proof -
  have range: "\<forall>d \<in> set (decisions example). \<forall>ms. d_status d = DecisionOpen \<and> d_default_after_ms d = Some ms
      \<longrightarrow> 0 \<le> ms \<and> ms < 9223372036855"
    by (simp add: example_def a_decision_def)
  note run = expired_defaults_settle_what_is_due [OF wf_store_parts(5) [OF wf_example] range]
  have rows: "decisions example = [a_decision 1, (a_decision 2)\<lparr>d_status := DecisionAnswered,
      d_answer_label := ''b'', d_answered_at := Some (sec 50)\<rparr>]"
    by (simp add: example_def)
  have "\<not> delay_has_passed example now ((a_decision 2)\<lparr>d_status := DecisionAnswered, d_answer_label := ''b'',
      d_answered_at := Some (sec 50)\<rparr>)" "delay_has_passed example now (a_decision 1) \<longleftrightarrow> sec 5 \<le> now" for now
    by (simp_all add: delay_has_passed_def example_def a_decision_def a_goal_def project_archived_def sec_def)
  with run [of "sec 5"] run [of "sec 5 - 1"] show ?thesis
    unfolding rows by (auto simp: a_decision_def)
qed

text \<open>
  The delay of a default counts from the creation of the decision, to the
  nanosecond, as long as the delay fits an int64 of nanoseconds (292 years).
\<close>

theorem default_delay:
  assumes "d_default_after_ms d = Some ms" and "0 \<le> ms" and "ms < 9223372036855"
  shows "default_expired now d \<longleftrightarrow> d_created_at d + ms * 1000000 \<le> now"
  using default_expired_iff [OF assms(1,2)] assms(3) by simp

theorem default_delay_witness: "\<not> default_expired (sec 5 - 1) (a_decision 1) \<and> default_expired (sec 5) (a_decision 1)"
  using default_delay [of "a_decision 1" 5000 "sec 5 - 1"] default_delay [of "a_decision 1" 5000 "sec 5"]
  by (simp add: a_decision_def sec_def)

text \<open>
  The conversion of the delay wraps around: a delay of 9223372036855 milliseconds,
  which \<open>validateDecisionDefault\<close> accepts, becomes negative, so the default of a decision
  that has just been asked is settled at once.
\<close>

theorem default_delay_overflows:
  "Duration_of_ms 9223372036855 < 0
   \<and> validateDecisionDefault [opt\<lparr>o_label := ''a''\<rparr>] ''a'' (Some 9223372036855) s = (Inr (), s)
   \<and> default_expired (d_created_at d) (d\<lparr>d_default_after_ms := Some 9223372036855\<rparr>)"
  using Duration_of_ms_wraps by (simp add: validateDecisionDefault_def op_eval default_expired_def)

section \<open>The life of a decision\<close>

text \<open>
  Property C16. A decision is never deleted and never rephrased. Along any run of the store its
  question, options, default, goal, task, kind and creation stay what they were, and its status
  moves only from open to answered, applied or withdrawn and from answered to applied.
\<close>

theorem decision_life:
  assumes "steps s t" and "decision_row i s = Some d"
  shows "\<exists>e. decision_row i t = Some e \<and> status_step\<^sup>*\<^sup>* (d_status d) (d_status e)
     \<and> d_question e = d_question d \<and> d_options e = d_options d \<and> d_kind e = d_kind d
     \<and> d_goal_id e = d_goal_id d \<and> d_task_id e = d_task_id d
     \<and> d_default_option e = d_default_option d \<and> d_default_after_ms e = d_default_after_ms d
     \<and> d_created_at e = d_created_at d"
  using decision_steps [OF assms] by (auto simp: decision_le_def)

theorem decision_life_witness:
  "\<exists>e. decision_row 2 (snd (PollDecisions 2 0 (sec 100) example)) = Some e
     \<and> status_step\<^sup>*\<^sup>* DecisionAnswered (d_status e) \<and> d_question e = ''which?''"
proof -
  have row: "decision_row 2 example
      = Some ((a_decision 2)\<lparr>d_status := DecisionAnswered, d_answer_label := ''b'', d_answered_at := Some (sec 50)\<rparr>)"
    by code_simp
  show ?thesis
    using decision_life [OF one_step [OF store_step.poll_decisions [of example 2 0 "sec 100"]] row] by (auto simp: a_decision_def)
qed

section \<open>Asking\<close>

text \<open>
  What a question that is accepted records: one new open decision with a fresh id,
  for an existing goal, holding exactly what was asked, unanswered. If it has a default, the
  default is the label of one of its options and the delay is not negative; a delay without a
  default is never stored. Every other decision is left as it is.
\<close>

theorem ask_records_the_question:
  assumes run: "AskDecision inp now s = (Inr d, t)"
  shows "decisions t = decisions s @ [d\<lparr>d_created_at := rfc3339 now\<rparr>]
     \<and> (\<forall>e\<in>set (decisions s). d_id e \<noteq> d_id d)
     \<and> goal_exists (ask_GoalID inp) s \<and> d_goal_id d = ask_GoalID inp
     \<and> d_status d = DecisionOpen \<and> d_question d = ask_Question inp \<and> d_options d = ask_Options inp
     \<and> d_agent_session_id d = ask_AgentSessionID inp \<and> d_answered_at d = None
     \<and> (d_default_option d \<noteq> [] \<longrightarrow> d_default_option d \<in> o_label ` set (d_options d))
     \<and> (\<forall>ms. d_default_after_ms d = Some ms \<longrightarrow> 0 \<le> ms \<and> d_default_option d \<noteq> [])"
proof -
  note ran = AskDecision_run [OF run]
  have "\<forall>e\<in>set (decisions s). d_id e \<noteq> d_id d"
    using next_id_fresh [of d_id "decisions s"] by (metis image_eqI ran(1))
  moreover have "goal_exists (ask_GoalID inp) s"
    using ran(6) by (simp add: ran(9))
  moreover have "d_default_option d \<noteq> [] \<longrightarrow> d_default_option d \<in> o_label ` set (d_options d)"
    using ran(7) by (auto simp: image_iff intro: sym)
  moreover have "\<forall>ms. d_default_after_ms d = Some ms \<longrightarrow> 0 \<le> ms \<and> d_default_option d \<noteq> []"
    using ran(8) by blast
  ultimately show ?thesis
    using ran(3,4,5) ran(9-14) by blast
qed

lemma example_ask_ok: "\<not> isl (fst (AskDecision a_question (sec 100) example))"
  by code_simp

theorem ask_records_the_question_witness:
  "map d_question (decisions (snd (AskDecision a_question (sec 100) example))) = [''which?'', ''which?'', ''now?'']"
proof -
  have old: "map d_question (decisions example) = [''which?'', ''which?'']" by code_simp
  show ?thesis
    using ask_records_the_question [OF run_ok [OF example_ask_ok]] old
    by (simp only: map_append) (simp add: a_question_def)
qed

section \<open>Delivery\<close>

lemma delivered_stays:
  assumes later: "steps t u" and row: "decision_row i t = Some d" and st: "d_status d = DecisionApplied"
    and wf: "wf_decisions (decisions u)" and e: "e \<in> set (decisions u)" "d_id e = i"
  shows "d_status e = DecisionApplied"
proof -
  obtain f where f: "decision_row i u = Some f" "decision_le d f"
    using decision_steps [OF later row] by blast
  then have "d_status f = DecisionApplied"
    using st status_steps_final by (auto simp: decision_le_def)
  moreover have "decision_row i u = Some e"
    using decision_row_unique [OF wf e(1)] e(2) by simp
  ultimately show ?thesis using f(1) by simp
qed

text \<open>
  Property C19. An answer is delivered exactly once. A poll always returns; it returns precisely
  the answered, undelivered decisions it asks for, and none of them is ever returned by a later
  poll, by whichever session and however it asks.
\<close>

theorem poll_delivers_once:
  assumes wf: "wf_decisions (decisions s)"
  shows "\<exists>out t. PollDecisions session i now s = (Inr out, t)
     \<and> d_id ` set out = set (map d_id (filter (\<lambda>d. d_status d = DecisionAnswered
           \<and> (if i = 0 then d_agent_session_id d = session else d_id d = i)) (decisions s)))
     \<and> (\<forall>u session' j now' out' v. steps t u \<and> PollDecisions session' j now' u = (Inr out', v)
           \<longrightarrow> d_id ` set out \<inter> d_id ` set out' = {})"
proof -
  obtain t out where run: "PollDecisions session i now s = (Inr out, t)"
    and out: "set out = (\<lambda>d. delivered now (decisionFromRow d)) ` {d \<in> set (decisions s). collectable session i d}"
    and t: "decisions t = update_where (collectable session i) (delivered (rfc3339 now)) (decisions s)"
    using poll_run [OF wf, of session i now] by blast
  have wf_t: "wf_decisions (decisions t)"
    using steps_tables(4) [OF one_step [OF store_step.poll_decisions [of s session i now]]] wf
    by (simp add: run decisions_le_def)
  have once: "d_id ` set out \<inter> d_id ` set out' = {}"
    if later: "steps t u" and again: "PollDecisions session' j now' u = (Inr out', v)" for u session' j now' out' v
  proof -
    have wf_u: "wf_decisions (decisions u)"
      using steps_tables(4) [OF later] wf_t by (simp add: decisions_le_def)
    have "d_status e = DecisionAnswered \<and> d_status e = DecisionApplied"
      if d: "d \<in> set (decisions s)" "collectable session i d"
        and e: "e \<in> set (decisions u)" "collectable session' j e" "d_id e = d_id d" for d e
    proof
      have "delivered (rfc3339 now) d \<in> set (decisions t)"
        using d by (auto simp: t set_update_where)
      from decision_row_unique [OF wf_t this]
      show "d_status e = DecisionApplied"
        using delivered_stays [OF later _ _ wf_u e(1)] e(3) by simp
    qed (use e in \<open>simp add: collectable_def\<close>)
    then show ?thesis
      using poll_run [OF wf_u, of session' j now'] again by (fastforce simp: out)
  qed
  have "d_id ` set out = set (map d_id (filter (\<lambda>d. d_status d = DecisionAnswered
           \<and> (if i = 0 then d_agent_session_id d = session else d_id d = i)) (decisions s)))"
    by (cases "i = 0"; simp add: out image_image; simp add: collectable_def set_eq_iff image_iff; blast)
  with run once show ?thesis by blast
qed

theorem poll_delivers_once_witness:
  "\<exists>out t. PollDecisions 2 0 (sec 100) example = (Inr out, t) \<and> d_id ` set out = {2}
     \<and> (\<forall>out' v. PollDecisions 2 2 (sec 101) t = (Inr out', v) \<longrightarrow> 2 \<notin> d_id ` set out')"
proof -
  have ids: "set (map d_id (filter (\<lambda>d. d_status d = DecisionAnswered
      \<and> (if (0::int) = 0 then d_agent_session_id d = 2 else d_id d = 0)) (decisions example))) = {2}"
    by code_simp
  show ?thesis
    using poll_delivers_once [OF wf_store_parts(5) [OF wf_example], of 2 0 "sec 100"] unfolding ids
    by (blast intro: rtranclp.rtrancl_refl)
qed

section \<open>Histories\<close>

text \<open>
  The history of applied decisions of a goal shows at most twenty and says how many it
  leaves out: what is shown and what is omitted always add up to the number applied, and nothing is
  omitted unless the history is full.
\<close>

theorem applied_history_is_complete:
  assumes "ListAppliedDecisions goal s = (Inr (out, omitted), t)"
  shows "int (length out) + omitted
           = int (length (filter (\<lambda>d. d_goal_id d = goal \<and> d_status d = DecisionApplied) (decisions s)))
       \<and> length out \<le> 20 \<and> (0 < omitted \<longrightarrow> length out = 20)"
  using applied_history_counts [OF assms] by (simp add: AppliedDecisionHistoryLimit_def affected_def)

theorem applied_history_is_complete_witness:
  "\<exists>out omitted. fst (ListAppliedDecisions 1 example) = Inr (out, omitted) \<and> int (length out) + omitted = 0"
proof -
  have "fst (ListAppliedDecisions 1 example) = Inr ([], 0)" by code_simp
  then have "ListAppliedDecisions 1 example = (Inr ([], 0), snd (ListAppliedDecisions 1 example))"
    by (metis prod.collapse)
  from applied_history_is_complete [OF this] show ?thesis
    using \<open>fst (ListAppliedDecisions 1 example) = Inr ([], 0)\<close> by simp
qed

end
