(* ===== verification/Atct_Post.thy ===== *)
theory Atct_Post
  imports Atct_System
begin

text \<open>
  Postconditions. \<open>post m s Q\<close>: if \<open>m\<close> returns when run on \<open>s\<close>, its result and the state it
  leaves satisfy \<open>Q\<close>. One rule per combinator walks through an operation in the order of its
  statements and leaves the conditions of the branch taken as hypotheses; a statement contributes
  the table it writes, and an update of a handoff that is required to hit a row contributes the
  row, its guard and its new contents.
\<close>

section \<open>The combinators\<close>

definition post :: "'a store_op \<Rightarrow> store \<Rightarrow> ('a \<Rightarrow> store \<Rightarrow> bool) \<Rightarrow> bool" where
  "post m s Q \<longleftrightarrow> (\<forall>x t. m s = (Inr x, t) \<longrightarrow> Q x t)"

lemma postD: "post m s Q \<Longrightarrow> m s = (Inr x, t) \<Longrightarrow> Q x t"
  by (simp add: post_def)

lemma postI: "(\<And>x t. m s = (Inr x, t) \<Longrightarrow> Q x t) \<Longrightarrow> post m s Q"
  by (simp add: post_def)

lemma post_mono: "post m s P \<Longrightarrow> (\<And>x t. P x t \<Longrightarrow> Q x t) \<Longrightarrow> post m s Q"
  by (simp add: post_def)

named_theorems post_rules "walking through an operation"

lemma post_bnd: "post m s (\<lambda>x t. post (f x) t Q) \<Longrightarrow> post (bnd m f) s Q"
  by (auto simp: post_def op_run)

lemma post_ret [post_rules]: "Q x s \<Longrightarrow> post (ret x) s Q"
  by (simp add: post_def op_run)

lemma post_fail [post_rules]: "post (fail e) s Q"
  by (simp add: post_def op_run)

lemma post_ask [post_rules]: "Q (f s) s \<Longrightarrow> post (ask f) s Q"
  by (simp add: post_def op_run)

lemma post_check [post_rules]: "(b \<Longrightarrow> Q () s) \<Longrightarrow> post (check b e) s Q"
  by (simp add: post_def op_run)

lemma post_need [post_rules]: "(\<And>x. v = Some x \<Longrightarrow> Q x s) \<Longrightarrow> post (need e v) s Q"
  by (simp add: post_def op_run)

lemma post_transaction [post_rules]: "post m s Q \<Longrightarrow> post (transaction m) s Q"
  by (simp add: post_def op_run)

lemma post_map_error [post_rules]: "post m s Q \<Longrightarrow> post (map_error g m) s Q"
  by (simp add: post_def op_run)

lemma post_if [post_rules]:
  "(b \<Longrightarrow> post m s Q) \<Longrightarrow> (\<not> b \<Longrightarrow> post n s Q) \<Longrightarrow> post (if b then m else n) s Q"
  by simp

lemma post_option [post_rules]:
  "(v = None \<Longrightarrow> post m s Q) \<Longrightarrow> (\<And>x. v = Some x \<Longrightarrow> post (f x) s Q) \<Longrightarrow>
     post (case v of None \<Rightarrow> m | Some x \<Rightarrow> f x) s Q"
  by (cases v) auto

lemma post_sum [post_rules]:
  "(\<And>x. v = Inl x \<Longrightarrow> post (g x) s Q) \<Longrightarrow> (\<And>x. v = Inr x \<Longrightarrow> post (f x) s Q) \<Longrightarrow>
     post (case v of Inl x \<Rightarrow> g x | Inr x \<Rightarrow> f x) s Q"
  by (cases v) auto

lemma post_prod [post_rules]:
  "(\<And>x y. p = (x, y) \<Longrightarrow> post (f x y) s Q) \<Longrightarrow> post (case p of (x, y) \<Rightarrow> f x y) s Q"
  by (cases p) auto

lemma post_publish [post_rules]:
  "(\<And>l. Q () (s\<lparr>published := l\<rparr>)) \<Longrightarrow> post (notify_publish i) s Q"
  "(\<And>l. Q () (s\<lparr>published := l\<rparr>)) \<Longrightarrow> post notify_publishAll s Q"
  "(\<And>l. Q () (s\<lparr>published := l\<rparr>)) \<Longrightarrow> post (publishEvent e) s Q"
  "(\<And>l. Q () (s\<lparr>published := l\<rparr>)) \<Longrightarrow> post (publishWorkflowEvents evs) s Q"
  using publish_same_tables publishWorkflowEvents_same_tables
  by (auto simp: post_def same_tables_def dest!: evolvesD [rotated])

lemma post_each_publish [post_rules]:
  "(\<And>l. Q () (s\<lparr>published := l\<rparr>)) \<Longrightarrow> post (each (\<lambda>d. notify_publish (k d)) ds) s Q"
  using same_tables.ev_each [OF publish_same_tables(1)]
  by (auto simp: post_def same_tables_def dest!: evolvesD [rotated])

text \<open>What only reads leaves the state alone; what it read is a hypothesis.\<close>

lemma post_reads: "reads m \<Longrightarrow> (\<And>x. fst (m s) = Inr x \<Longrightarrow> Q x s) \<Longrightarrow> post m s Q"
  by (auto simp: post_def reads_run)

lemma post_try_reads: "reads m \<Longrightarrow> Q (fst (m s)) s \<Longrightarrow> post (try_op m) s Q"
  by (auto simp: post_def op_run reads_run)

section \<open>Statements\<close>

lemma post_exec_update [post_rules]:
  "Q (affected P (get s)) (upd (update_where P f) s) \<Longrightarrow> post (exec_update get upd P f) s Q"
  by (simp add: post_def exec_update_def)

lemma post_checked_update [post_rules]:
  "(first_violated (cs s) = None \<Longrightarrow> Q (affected P (get s)) (upd (update_where P f) s)) \<Longrightarrow>
     post (checked_update cs get upd P f) s Q"
  by (auto simp: post_def checked_update_def exec_update_def split: option.splits)

lemma post_checked_insert [post_rules]:
  "(first_violated (cs s) = None \<Longrightarrow> Q () (upd (\<lambda>rows. rows @ [r]) s)) \<Longrightarrow>
     post (checked_insert cs upd r) s Q"
  by (auto simp: post_def checked_insert_def split: option.splits)

context one_table
begin

lemma post_only: "evolves only m \<Longrightarrow> (\<And>x f. Q x (upd f s)) \<Longrightarrow> post m s Q"
  unfolding only_def by (auto simp: post_def dest!: evolvesD [rotated])

end

text \<open>An update that is required to hit: the row it hits, the guard it satisfies, the row it leaves.\<close>

definition set_row :: "handoff \<Rightarrow> handoff list \<Rightarrow> handoff list" where
  "set_row h hs = update_where (\<lambda>r. h_id r = h_id h) (\<lambda>_. h) hs"

lemma find_set_row [simp]:
  "List.find (\<lambda>r. h_id r = i) (set_row h hs) =
     (if i = h_id h then map_option (\<lambda>_. h) (List.find (\<lambda>r. h_id r = i) hs)
      else List.find (\<lambda>r. h_id r = i) hs)"
  unfolding set_row_def by (induction hs) auto

lemma set_row_found:
  assumes "distinct (map h_id hs)" and "List.find (\<lambda>r. h_id r = i) hs = Some h"
    and "P h" and "h_id (f h) = h_id h"
  shows "update_where (\<lambda>r. h_id r = i \<and> P r) f hs = set_row (f h) hs"
  using assms find_Some_in [OF assms(2)] unfolding set_row_def
  by (intro update_where_cong) (auto simp: distinct_map inj_on_def)

context handoff_table
begin

lemma post_update_hit:
  assumes wf: "wf_table (hs s)" and key: "\<And>r. h_id (f r) = h_id r"
    and miss: "\<And>u. post (F 0) u (\<lambda>_ _. False)"
    and rest: "\<And>h n. List.find (\<lambda>r. h_id r = hid) (hs s) = Some h \<Longrightarrow> h_owner h = owner \<Longrightarrow> guard h \<Longrightarrow>
      n \<noteq> 0 \<Longrightarrow> post (F n) (upd (\<lambda>_. set_row (f h) (hs s)) s) Q"
  shows "post (update_handoff hs upd hid owner refs guard f) s (\<lambda>n t. post (F n) t Q)"
proof (rule postI)
  fix n u
  let ?P = "\<lambda>h. h_id h = hid \<and> h_owner h = owner \<and> guard h"
  assume run: "update_handoff hs upd hid owner refs guard f s = (Inr n, u)"
  show "post (F n) u Q"
  proof (cases "n = 0")
    case True
    then show ?thesis using miss [of u] by (auto simp: post_def)
  next
    case False
    from update_found [OF run this wf] obtain h
      where h: "List.find (\<lambda>r. h_id r = hid) (hs s) = Some h" "h_owner h = owner" "guard h"
      by blast
    have "update_where ?P f (hs s) = set_row (f h) (hs s)"
      by (rule set_row_found) (use wf h key in \<open>auto simp: wf_table_def wf_handoffs_def\<close>)
    then have "u = upd (\<lambda>_. set_row (f h) (hs s)) s"
      using update_result(2) [OF run] upd_value [of "update_where ?P f" s] by simp
    with rest [OF h False] show ?thesis by simp
  qed
qed

end

lemma nz_Some: "nz v = i \<Longrightarrow> i \<noteq> 0 \<Longrightarrow> v = Some i"
  by (auto simp: nz_def split: option.splits)

lemma goal_row_id: "goal_row i s = Some g \<Longrightarrow> g_id g = i"
  unfolding goal_row_def by (auto dest: find_Some_in)

lemma goal_row_update:
  "(\<And>g. P g \<Longrightarrow> g_id (f g) = g_id g) \<Longrightarrow>
     goal_row i (goals_update (update_where P f) s) = map_option (\<lambda>g. if P g then f g else g) (goal_row i s)"
  by (simp add: goal_row_def find_update_where_key)

lemma goal_row_frame [simp]:
  "goal_row i (goal_handoffs_update f s) = goal_row i s"
  "goal_row i (goal_handoff_entries_update e s) = goal_row i s"
  "goal_row i (task_handoffs_update f s) = goal_row i s"
  "goal_row i (task_handoff_entries_update e s) = goal_row i s"
  "goal_row i (tasks_update k s) = goal_row i s"
  "goal_row i (decisions_update d s) = goal_row i s"
  "goal_row i (published_update l s) = goal_row i s"
  by (simp_all add: goal_row_def)

text \<open>Operations that never return from here.\<close>

lemma post_False:
  "post (fail e) s (\<lambda>_ _. False)"
  "post (bnd (fail e) f) s (\<lambda>_ _. False)"
  "\<not> b \<Longrightarrow> post (bnd (check b e) f) s (\<lambda>_ _. False)"
  "post m s (\<lambda>_ _. False) \<Longrightarrow> post (bnd m f) s (\<lambda>_ _. False)"
  by (auto simp: post_def op_run)

end
