(* ===== verification/Atct_Goal_Effects.thy ===== *)
theory Atct_Goal_Effects
  imports Atct_Post
begin

text \<open>
  What each operation on goal handoffs does to the handoff it names: one lemma per operation,
  obtained by walking through the operation with the rules of \<open>Atct_Post\<close>.
\<close>

section \<open>Frames\<close>

lemma goal_entry_only: "evolves ge_table.only (goal_entry hid kind body author now)"
  unfolding goal_entry_def appendHandoffEntryTx_def CreateGoalHandoffEntry_sql_def insert_entry_def Let_def
  by (simp only: if_True simp_thms, (rule ge_table.only_rules | rule ge_table.frame.ev_reads, rule reads_intros)+)

lemma createTaskCreateHandoffTx_only: "evolves creates_table.only (createTaskCreateHandoffTx uuid goal i now)"
  unfolding createTaskCreateHandoffTx_def by (rule creates_table.frame.ev_rules creates_only)+

lemmas goal_statements_post [post_rules] =
  creates_table.post_only [OF createTaskCreateHandoffTx_only]
  ge_table.post_only [OF goal_entry_only]
  decisions_table.post_only [OF decisions_only(8)]
  creates_table.post_only [OF creates_only(4)]

lemma goal_review_event_post [post_rules]: "(\<And>e. Q e s) \<Longrightarrow> post (goal_review_event name g hid i r) s Q"
  by (rule post_reads [OF reads_goal_review_event])

text \<open>The updates of one goal handoff, when they are required to hit.\<close>

lemmas goal_hit = goal_handoff.post_update_hit [folded goal_handoff_row_def]

lemma goal_hits:
  assumes "wf_table (goal_handoffs s)" and "\<And>u. post (F 0) u (\<lambda>_ _. False)"
  shows
    "(\<And>h n. goal_handoff_row hid s = Some h \<Longrightarrow> h_owner h = owner \<Longrightarrow> close_guard h \<Longrightarrow>
        post (F n) (goal_handoffs_update (\<lambda>_. set_row (close_row now oreport h) (goal_handoffs s)) s) Q) \<Longrightarrow>
      post (CompleteGoalHandoff_sql hid owner now oreport) s (\<lambda>n t. post (F n) t Q)"
    and "(\<And>h n. goal_handoff_row hid s = Some h \<Longrightarrow> h_owner h = owner \<Longrightarrow> reviewer_close_guard oi h \<Longrightarrow>
        post (F n) (goal_handoffs_update (\<lambda>_. set_row (close_row now (Some report) h) (goal_handoffs s)) s) Q) \<Longrightarrow>
      post (CompleteGoalHandoffByReviewer_sql hid owner oi now report) s (\<lambda>n t. post (F n) t Q)"
    and "(\<And>h n. goal_handoff_row hid s = Some h \<Longrightarrow> h_owner h = owner \<Longrightarrow> amend_guard h \<Longrightarrow>
        post (F n) (goal_handoffs_update (\<lambda>_. set_row (amend_row report h) (goal_handoffs s)) s) Q) \<Longrightarrow>
      post (AmendGoalHandoffReport_sql hid owner report) s (\<lambda>n t. post (F n) t Q)"
    and "(\<And>h n. goal_handoff_row hid s = Some h \<Longrightarrow> h_owner h = owner \<Longrightarrow> h_recovered_at h = None \<Longrightarrow> receive_guard oi (\<lambda>i. lease_held i cutoff s) h \<Longrightarrow>
        post (F n) (goal_handoffs_update (\<lambda>_. set_row (receive_row oi now h) (goal_handoffs s)) s) Q) \<Longrightarrow>
      post (ReceiveGoalHandoff_sql hid owner oi now cutoff) s (\<lambda>n t. post (F n) t Q)"
    and "(\<And>h n. goal_handoff_row hid s = Some h \<Longrightarrow> h_owner h = owner \<Longrightarrow> review_request_guard h \<Longrightarrow>
        post (F n) (goal_handoffs_update (\<lambda>_. set_row (review_request_row (Some i) now report h) (goal_handoffs s)) s) Q) \<Longrightarrow>
      post (RequestGoalHandoffReview_sql hid owner i now report) s (\<lambda>n t. post (F n) t Q)"
    and "(\<And>h n. goal_handoff_row hid s = Some h \<Longrightarrow> h_owner h = owner \<Longrightarrow> review_receive_guard h \<Longrightarrow>
        post (F n) (goal_handoffs_update (\<lambda>_. set_row (review_receive_row (Some i) now h) (goal_handoffs s)) s) Q) \<Longrightarrow>
      post (ReceiveGoalHandoffReview_sql hid owner i now) s (\<lambda>n t. post (F n) t Q)"
    and "(\<And>h n. goal_handoff_row hid s = Some h \<Longrightarrow> h_owner h = owner \<Longrightarrow> review_rereceive_guard (Some old) h \<Longrightarrow>
        post (F n) (goal_handoffs_update (\<lambda>_. set_row (review_receive_row (Some i) now h) (goal_handoffs s)) s) Q) \<Longrightarrow>
      post (ReReceiveGoalHandoffReview_sql hid owner i old now) s (\<lambda>n t. post (F n) t Q)"
    and "(\<And>h n. goal_handoff_row hid s = Some h \<Longrightarrow> h_owner h = owner \<Longrightarrow> review_reject_guard h \<Longrightarrow>
        post (F n) (goal_handoffs_update (\<lambda>_. set_row (review_reject_row now report h) (goal_handoffs s)) s) Q) \<Longrightarrow>
      post (RejectGoalHandoffReview_sql hid owner now report) s (\<lambda>n t. post (F n) t Q)"
    and "(\<And>h n. goal_handoff_row hid s = Some h \<Longrightarrow> h_owner h = owner \<Longrightarrow> rejection_receive_guard (Some i) h \<Longrightarrow>
        post (F n) (goal_handoffs_update (\<lambda>_. set_row (rejection_receive_row (Some i) now h) (goal_handoffs s)) s) Q) \<Longrightarrow>
      post (ReceiveGoalHandoffReviewRejection_sql hid owner i now) s (\<lambda>n t. post (F n) t Q)"
    and "(\<And>h n. goal_handoff_row hid s = Some h \<Longrightarrow> h_owner h = owner \<Longrightarrow> recover_requester_guard i (\<lambda>i. process_is i pid st s) h \<Longrightarrow>
        post (F n) (goal_handoffs_update (\<lambda>_. set_row (recover_row now report h) (goal_handoffs s)) s) Q) \<Longrightarrow>
      post (RecoverGoalHandoffRequester_sql hid owner i pid st now report) s (\<lambda>n t. post (F n) t Q)"
    and "(\<And>h n. goal_handoff_row hid s = Some h \<Longrightarrow> h_owner h = owner \<Longrightarrow> recover_receiver_guard i (\<lambda>i. process_is i pid st s) h \<Longrightarrow>
        post (F n) (goal_handoffs_update (\<lambda>_. set_row (recover_row now report h) (goal_handoffs s)) s) Q) \<Longrightarrow>
      post (RecoverGoalHandoffReceiver_sql hid owner i pid st now report) s (\<lambda>n t. post (F n) t Q)"
    and "(\<And>h n. goal_handoff_row hid s = Some h \<Longrightarrow> h_owner h = owner \<Longrightarrow> recover_review_guard i (\<lambda>i. process_is i pid st s) h \<Longrightarrow>
        post (F n) (goal_handoffs_update (\<lambda>_. set_row (recover_review_row h) (goal_handoffs s)) s) Q) \<Longrightarrow>
      post (RecoverGoalHandoffReview_sql hid owner i pid st) s (\<lambda>n t. post (F n) t Q)"
  unfolding CompleteGoalHandoff_sql_def CompleteGoalHandoffByReviewer_sql_def AmendGoalHandoffReport_sql_def ReceiveGoalHandoff_sql_def RequestGoalHandoffReview_sql_def ReceiveGoalHandoffReview_sql_def ReReceiveGoalHandoffReview_sql_def RejectGoalHandoffReview_sql_def ReceiveGoalHandoffReviewRejection_sql_def RecoverGoalHandoffRequester_sql_def RecoverGoalHandoffReceiver_sql_def RecoverGoalHandoffReview_sql_def
  by ((rule post_bnd, rule post_ask)?, rule goal_hit; simp add: assms handoff_updates)+

lemma GetGoalHandoff_sql_value [simp]: "fst (GetGoalHandoff_sql hid s) = Inr h \<longleftrightarrow> goal_handoff_row hid s = Some h"
  by (simp add: GetGoalHandoff_sql_def bnd_def ask_def need_def ret_def fail_def split: option.splits)

lemma GetGoalHandoff_value [simp]: "fst (GetGoalHandoff hid s) = Inr h \<longleftrightarrow> goal_handoff_row hid s = Some h"
  by (simp add: GetGoalHandoff_def GetGoalHandoff_sql_def bnd_def ask_def need_def map_error_def ret_def
      fail_def split: option.splits)

lemma goal_handoff_row_update [simp]:
  "goal_handoff_row i (goal_handoffs_update (\<lambda>_. set_row h (goal_handoffs s)) u)
     = (if i = h_id h then map_option (\<lambda>_. h) (goal_handoff_row i s) else goal_handoff_row i s)"
  "goal_handoff_row i (published_update l s) = goal_handoff_row i s"
  "goal_handoff_row i (decisions_update d s) = goal_handoff_row i s"
  "goal_handoff_row i (goal_handoff_entries_update e s) = goal_handoff_row i s"
  "goal_handoff_row i (task_create_handoffs_update c s) = goal_handoff_row i s"
  by (simp_all add: goal_handoff_row_def)

lemma goal_handoff_row_id: "goal_handoff_row i s = Some h \<Longrightarrow> h_id h = i"
  unfolding goal_handoff_row_def by (auto dest: find_Some_in)

lemma CountOpenDecisionsForGoal_value [simp]:
  "fst (CountOpenDecisionsForGoal_sql g s)
     = Inr (affected (\<lambda>d. d_goal_id d = g \<and> d_status d = DecisionOpen) (decisions s))"
  by (simp add: CountOpenDecisionsForGoal_sql_def ask_def)

section \<open>What each operation does\<close>

text \<open>
  An operation that returns has found the handoff, satisfied the guard of its statement, rewritten
  that one row and returned it.
\<close>

lemma RequestGoalHandoffReview_post:
  assumes wf: "wf_table (goal_handoffs s)"
  shows "post (RequestGoalHandoffReview hid goal i report now) s (\<lambda>r t. \<exists>h. goal_handoff_row hid s = Some h \<and> h_owner h = goal
     \<and> h_received_by h = Some i \<and> review_request_guard h
     \<and> r = review_request_row (Some i) now report h \<and> goal_handoff_row hid t = Some r
     \<and> affected (\<lambda>d. d_goal_id d = goal \<and> d_status d = DecisionOpen) (decisions s) = 0)"
  unfolding RequestGoalHandoffReview_def commit_goal_handoff_def Let_def
  by ((rule goal_hits, simp add: wf,
          ((rule post_bnd post_rules | rule post_reads, rule reads_intros | (simp; fail))+)[1]
        | rule post_rules post_bnd | rule post_reads, rule reads_intros
        | (auto simp: handoff_updates handoff_guards nz_Some dest: goal_handoff_row_id; fail))+)

lemmas RequestGoalHandoffReview_effect = RequestGoalHandoffReview_post [THEN postD]

lemma RejectGoalHandoffReview_post:
  assumes wf: "wf_table (goal_handoffs s)"
  shows "post (RejectGoalHandoffReview hid goal i report uuid now) s (\<lambda>r t. \<exists>h. goal_handoff_row hid s = Some h \<and> h_owner h = goal
     \<and> review_reject_guard h
     \<and> r = review_reject_row now report h \<and> goal_handoff_row hid t = Some r)"
  unfolding RejectGoalHandoffReview_def commit_goal_handoff_def Let_def
  by ((rule goal_hits, simp add: wf,
          ((rule post_bnd post_rules | rule post_reads, rule reads_intros | (simp; fail))+)[1]
        | rule post_rules post_bnd | rule post_reads, rule reads_intros
        | (auto simp: handoff_updates handoff_guards nz_Some dest: goal_handoff_row_id; fail))+)

lemmas RejectGoalHandoffReview_effect = RejectGoalHandoffReview_post [THEN postD]

lemma ReceiveGoalHandoffReviewRejection_post:
  assumes wf: "wf_table (goal_handoffs s)"
  shows "post (ReceiveGoalHandoffReviewRejection hid goal i now) s (\<lambda>r t. \<exists>h. goal_handoff_row hid s = Some h \<and> h_owner h = goal
     \<and> h_received_by h = Some i \<and> rejection_receive_guard (Some i) h
     \<and> r = rejection_receive_row (Some i) now h \<and> goal_handoff_row hid t = Some r)"
  unfolding ReceiveGoalHandoffReviewRejection_def commit_goal_handoff_def Let_def
  by ((rule goal_hits, simp add: wf,
          ((rule post_bnd post_rules | rule post_reads, rule reads_intros | (simp; fail))+)[1]
        | rule post_rules post_bnd | rule post_reads, rule reads_intros
        | (auto simp: handoff_updates handoff_guards nz_Some dest: goal_handoff_row_id; fail))+)

lemmas ReceiveGoalHandoffReviewRejection_effect = ReceiveGoalHandoffReviewRejection_post [THEN postD]

lemma CompleteGoalHandoffByReviewer_post:
  assumes wf: "wf_table (goal_handoffs s)"
  shows "post (CompleteGoalHandoffByReviewer hid goal i report now) s (\<lambda>r t. \<exists>h. goal_handoff_row hid s = Some h \<and> h_owner h = goal
     \<and> reviewer_close_guard (Some i) h
     \<and> r = close_row now (Some report) h \<and> goal_handoff_row hid t = Some r)"
  unfolding CompleteGoalHandoffByReviewer_def commit_goal_handoff_def Let_def
  by ((rule goal_hits, simp add: wf,
          ((rule post_bnd post_rules | rule post_reads, rule reads_intros | (simp; fail))+)[1]
        | rule post_rules post_bnd | rule post_reads, rule reads_intros
        | (auto simp: handoff_updates handoff_guards nz_Some dest: goal_handoff_row_id; fail))+)

lemmas CompleteGoalHandoffByReviewer_effect = CompleteGoalHandoffByReviewer_post [THEN postD]

lemma CompleteGoalHandoff_post:
  assumes wf: "wf_table (goal_handoffs s)"
  shows "post (CompleteGoalHandoff hid goal report now) s (\<lambda>r t. \<exists>h. goal_handoff_row hid s = Some h \<and> h_owner h = goal
     \<and> close_guard h \<and> h_received_at h \<noteq> None
     \<and> r = close_row now (if report = [] then None else Some report) h \<and> goal_handoff_row hid t = Some r)"
  unfolding CompleteGoalHandoff_def commit_goal_handoff_def Let_def
  by ((rule goal_hits, simp add: wf,
          ((rule post_bnd post_rules | rule post_reads, rule reads_intros | (simp; fail))+)[1]
        | rule post_rules post_bnd | rule post_reads, rule reads_intros
        | (auto simp: handoff_updates handoff_guards nz_Some dest: goal_handoff_row_id; fail))+)

lemmas CompleteGoalHandoff_effect = CompleteGoalHandoff_post [THEN postD]

lemma ReceiveGoalHandoff_post:
  assumes wf: "wf_table (goal_handoffs s)"
  shows "post (ReceiveGoalHandoff hid goal i now) s (\<lambda>(r, page) t. \<exists>h. goal_handoff_row hid s = Some h \<and> h_owner h = goal
     \<and> (h_received_at h \<noteq> None \<and> h_received_by h = Some i \<and> r = h
       \<or> h_recovered_at h = None \<and> receive_guard (nullable i) (\<lambda>i. lease_held i (leaseCutoff now) s) h
          \<and> r = receive_row (nullable i) now h)
     \<and> r = r \<and> goal_handoff_row hid t = Some r)"
  unfolding ReceiveGoalHandoff_def commit_goal_handoff_def Let_def
  by ((rule goal_hits, simp add: wf,
          ((rule post_bnd post_rules | rule post_reads, rule reads_intros | (simp; fail))+)[1]
        | rule post_rules post_bnd | rule post_reads, rule reads_intros
        | (auto simp: handoff_updates handoff_guards nz_Some lease_held_def dest: goal_handoff_row_id; fail))+)

lemmas ReceiveGoalHandoff_effect = ReceiveGoalHandoff_post [THEN postD]

lemma ReceiveGoalHandoffReview_post:
  assumes wf: "wf_table (goal_handoffs s)"
  shows "post (ReceiveGoalHandoffReview hid goal i now) s (\<lambda>r t. \<exists>h. goal_handoff_row hid s = Some h \<and> h_owner h = goal
     \<and> (review_receive_guard h \<or> review_rereceive_guard (h_review_received_by h) h)
     \<and> r = review_receive_row (Some i) now h \<and> goal_handoff_row hid t = Some r)"
  unfolding ReceiveGoalHandoffReview_def commit_goal_handoff_def Let_def
  by ((rule goal_hits, simp add: wf,
          ((rule post_bnd post_rules | rule post_reads, rule reads_intros | (simp; fail))+)[1]
        | rule post_rules post_bnd | rule post_reads, rule reads_intros
        | (auto simp: handoff_updates handoff_guards nz_Some dest: goal_handoff_row_id; fail))+)

lemmas ReceiveGoalHandoffReview_effect = ReceiveGoalHandoffReview_post [THEN postD]

lemma RecoverGoalHandoff_post:
  assumes wf: "wf_table (goal_handoffs s)"
  shows "post (RecoverGoalHandoff hid goal i reason now) s (\<lambda>r t. \<exists>h. goal_handoff_row hid s = Some h \<and> h_owner h = goal
     \<and> h_completed_report_at h = None \<and> (h_recovered_at h \<noteq> None \<and> r = h
       \<or> h_recovered_at h = None \<and> (\<exists>ph stale p. recovery_phase h = Some (ph, stale) \<and> stale \<noteq> i
          \<and> fst (canRecoverSessionInTx stale now s) = Inr p
          \<and> r = (if ph = ''review_received'' then recover_review_row h else recover_row now reason h)))
     \<and> r = r \<and> goal_handoff_row hid t = Some r)"
  unfolding RecoverGoalHandoff_def commit_goal_handoff_def Let_def
  by ((rule goal_hits, simp add: wf,
          ((rule post_bnd post_rules | rule post_reads, rule reads_intros | (simp; fail))+)[1]
        | rule post_rules post_bnd | rule post_reads, rule reads_intros
        | (auto simp: handoff_updates handoff_guards nz_Some dest: goal_handoff_row_id; fail))+)

lemmas RecoverGoalHandoff_effect = RecoverGoalHandoff_post [THEN postD]

end
