(* ===== verification/Atct_Task_Effects.thy ===== *)
theory Atct_Task_Effects
  imports Atct_Post
begin

text \<open>
  What each operation on task handoffs does to the handoff it names and to the status of its task:
  one lemma per operation, obtained by walking through the operation with the rules of
  \<open>Atct_Post\<close>.
\<close>

section \<open>Frames\<close>

lemma task_entry_only: "evolves te_table.only (task_entry hid kind body author now)"
  unfolding task_entry_def appendHandoffEntryTx_def CreateTaskHandoffEntry_sql_def insert_entry_def Let_def
  by (simp only: list.inject char.inject simp_thms if_False,
      (rule te_table.only_rules | rule te_table.frame.ev_reads, rule reads_intros)+)

lemmas task_statements_post [post_rules] = te_table.post_only [OF task_entry_only]

lemma task_review_event_post [post_rules]: "(\<And>e. Q e s) \<Longrightarrow> post (task_review_event name i hid u r) s Q"
  by (rule post_reads [OF reads_task_handoff(1)])

lemma set_task_status_post [post_rules]:
  "(\<And>k. task_row i s = Some k \<Longrightarrow>
      Q () (tasks_update (update_where (\<lambda>t. t_id t = i) (\<lambda>t. t\<lparr>t_status := st, t_updated_at := now\<rparr>)) s)) \<Longrightarrow>
    post (set_task_status st now i) s Q"
  by (rule postI, cases "task_row i s")
    (auto simp: set_task_status_def UpdateTaskStatus_sql_def exec_update_def op_run affected_pos
      task_row_def find_None_iff_all)

lemma task_row_status [simp]:
  "task_row i (tasks_update (update_where (\<lambda>t. t_id t = i) (\<lambda>t. t\<lparr>t_status := st, t_updated_at := now\<rparr>)) s)
     = map_option (\<lambda>t. t\<lparr>t_status := st, t_updated_at := now\<rparr>) (task_row i s)"
  unfolding task_row_def
  by (cases "List.find (\<lambda>t. t_id t = i) (tasks s)") (auto simp: find_update_where_key dest: find_Some_in)

lemma task_row_frame [simp]:
  "task_row i (task_handoffs_update f s) = task_row i s"
  "task_row i (published_update l s) = task_row i s"
  "task_row i (task_handoff_entries_update e s) = task_row i s"
  by (simp_all add: task_row_def)

lemma task_handoff_row_update [simp]:
  "task_handoff_row i (task_handoffs_update (\<lambda>_. set_row h (task_handoffs s)) u)
     = (if i = h_id h then map_option (\<lambda>_. h) (task_handoff_row i s) else task_handoff_row i s)"
  "task_handoff_row i (published_update l s) = task_handoff_row i s"
  "task_handoff_row i (tasks_update d s) = task_handoff_row i s"
  "task_handoff_row i (task_handoff_entries_update e s) = task_handoff_row i s"
  by (simp_all add: task_handoff_row_def)

lemma task_handoff_row_id: "task_handoff_row i s = Some h \<Longrightarrow> h_id h = i"
  unfolding task_handoff_row_def by (auto dest: find_Some_in)

lemma GetTaskHandoff_value [simp]:
  "fst (GetTaskHandoff_sql hid s) = Inr h \<longleftrightarrow> task_handoff_row hid s = Some h"
  "fst (GetTaskHandoff hid s) = Inr h \<longleftrightarrow>
     task_handoff_row hid s = Some h \<and> (\<exists>k. task_row (h_owner h) s = Some k)"
  by (auto simp: GetTaskHandoff_def GetTaskHandoff_sql_def GetTaskGoalID_sql_def bnd_def ask_def need_def
      map_error_def ret_def fail_def split: option.splits)

lemma refuse_open_decisions_post [post_rules]:
  "(affected (\<lambda>d. d_task_id d = Some i \<and> d_status d = DecisionOpen) (decisions s) = 0 \<Longrightarrow> Q () s) \<Longrightarrow>
     post (refuse_open_decisions i) s Q"
  by (auto simp: post_def refuse_open_decisions_def CountOpenDecisionsForTask_sql_def
      listOpenTaskDecisions_def op_run reads_run)

text \<open>The updates of one task handoff, when they are required to hit.\<close>

lemmas task_hit = task_handoff.post_update_hit [folded task_handoff_row_def]

lemma task_hits:
  assumes "wf_table (task_handoffs s)" and "\<And>u. post (F 0) u (\<lambda>_ _. False)"
  shows
    "(\<And>h n. task_handoff_row hid s = Some h \<Longrightarrow> h_owner h = owner \<Longrightarrow> close_guard h \<Longrightarrow>
        post (F n) (task_handoffs_update (\<lambda>_. set_row (close_row now oreport h) (task_handoffs s)) s) Q) \<Longrightarrow>
      post (CompleteTaskHandoff_sql hid owner now oreport) s (\<lambda>n t. post (F n) t Q)"
    and "(\<And>h n. task_handoff_row hid s = Some h \<Longrightarrow> h_owner h = owner \<Longrightarrow> reviewer_close_guard oi h \<Longrightarrow>
        post (F n) (task_handoffs_update (\<lambda>_. set_row (close_row now (Some report) h) (task_handoffs s)) s) Q) \<Longrightarrow>
      post (CompleteTaskHandoffByReviewer_sql hid owner oi now report) s (\<lambda>n t. post (F n) t Q)"
    and "(\<And>h n. task_handoff_row hid s = Some h \<Longrightarrow> h_owner h = owner \<Longrightarrow> amend_guard h \<Longrightarrow>
        post (F n) (task_handoffs_update (\<lambda>_. set_row (amend_row report h) (task_handoffs s)) s) Q) \<Longrightarrow>
      post (AmendTaskHandoffReport_sql hid owner report) s (\<lambda>n t. post (F n) t Q)"
    and "(\<And>h n. task_handoff_row hid s = Some h \<Longrightarrow> h_owner h = owner \<Longrightarrow> receive_guard oi (\<lambda>i. lease_held i cutoff s) h \<Longrightarrow>
        post (F n) (task_handoffs_update (\<lambda>_. set_row (receive_row oi now h) (task_handoffs s)) s) Q) \<Longrightarrow>
      post (ReceiveTaskHandoff_sql hid owner oi now cutoff) s (\<lambda>n t. post (F n) t Q)"
    and "(\<And>h n. task_handoff_row hid s = Some h \<Longrightarrow> h_owner h = owner \<Longrightarrow> review_request_guard h \<Longrightarrow>
        post (F n) (task_handoffs_update (\<lambda>_. set_row (review_request_row (Some i) now report h) (task_handoffs s)) s) Q) \<Longrightarrow>
      post (RequestTaskHandoffReview_sql hid owner i now report) s (\<lambda>n t. post (F n) t Q)"
    and "(\<And>h n. task_handoff_row hid s = Some h \<Longrightarrow> h_owner h = owner \<Longrightarrow> review_receive_guard h \<Longrightarrow>
        post (F n) (task_handoffs_update (\<lambda>_. set_row (review_receive_row (Some i) now h) (task_handoffs s)) s) Q) \<Longrightarrow>
      post (ReceiveTaskHandoffReview_sql hid owner i now) s (\<lambda>n t. post (F n) t Q)"
    and "(\<And>h n. task_handoff_row hid s = Some h \<Longrightarrow> h_owner h = owner \<Longrightarrow> review_reject_guard h \<Longrightarrow>
        post (F n) (task_handoffs_update (\<lambda>_. set_row (review_reject_row now report h) (task_handoffs s)) s) Q) \<Longrightarrow>
      post (RejectTaskHandoffReview_sql hid owner now report) s (\<lambda>n t. post (F n) t Q)"
    and "(\<And>h n. task_handoff_row hid s = Some h \<Longrightarrow> h_owner h = owner \<Longrightarrow> rejection_receive_guard (Some i) h \<Longrightarrow>
        post (F n) (task_handoffs_update (\<lambda>_. set_row (rejection_receive_row (Some i) now h) (task_handoffs s)) s) Q) \<Longrightarrow>
      post (ReceiveTaskHandoffReviewRejection_sql hid owner i now) s (\<lambda>n t. post (F n) t Q)"
    and "(\<And>h n. task_handoff_row hid s = Some h \<Longrightarrow> h_owner h = owner \<Longrightarrow> recover_requester_guard i (\<lambda>i. process_is i pid st s) h \<Longrightarrow>
        post (F n) (task_handoffs_update (\<lambda>_. set_row (recover_row now report h) (task_handoffs s)) s) Q) \<Longrightarrow>
      post (RecoverTaskHandoffRequester_sql hid owner i pid st now report) s (\<lambda>n t. post (F n) t Q)"
    and "(\<And>h n. task_handoff_row hid s = Some h \<Longrightarrow> h_owner h = owner \<Longrightarrow> recover_receiver_guard i (\<lambda>i. process_is i pid st s) h \<Longrightarrow>
        post (F n) (task_handoffs_update (\<lambda>_. set_row (recover_row now report h) (task_handoffs s)) s) Q) \<Longrightarrow>
      post (RecoverTaskHandoffReceiver_sql hid owner i pid st now report) s (\<lambda>n t. post (F n) t Q)"
    and "(\<And>h n. task_handoff_row hid s = Some h \<Longrightarrow> h_owner h = owner \<Longrightarrow> recover_review_guard i (\<lambda>i. process_is i pid st s) h \<Longrightarrow>
        post (F n) (task_handoffs_update (\<lambda>_. set_row (recover_review_row h) (task_handoffs s)) s) Q) \<Longrightarrow>
      post (RecoverTaskHandoffReview_sql hid owner i pid st) s (\<lambda>n t. post (F n) t Q)"
  unfolding CompleteTaskHandoff_sql_def CompleteTaskHandoffByReviewer_sql_def AmendTaskHandoffReport_sql_def ReceiveTaskHandoff_sql_def RequestTaskHandoffReview_sql_def ReceiveTaskHandoffReview_sql_def RejectTaskHandoffReview_sql_def ReceiveTaskHandoffReviewRejection_sql_def RecoverTaskHandoffRequester_sql_def RecoverTaskHandoffReceiver_sql_def RecoverTaskHandoffReview_sql_def
  by ((rule post_bnd, rule post_ask)?, rule task_hit; simp add: assms handoff_updates)+

section \<open>What each operation does\<close>

lemma RequestTaskHandoffReview_post:
  assumes wf: "wf_table (task_handoffs s)"
  shows "post (RequestTaskHandoffReview hid task i report now) s (\<lambda>r t. \<exists>h. task_handoff_row hid s = Some h \<and> h_owner h = task
     \<and> h_received_by h = Some i \<and> review_request_guard h
     \<and> r = review_request_row (Some i) now report h \<and> task_handoff_row hid t = Some r
     \<and> map_option t_status (task_row task t) = Some TaskReview)"
  unfolding RequestTaskHandoffReview_def commit_task_handoff_def Let_def
  by ((rule task_hits, simp add: wf,
          ((rule post_bnd post_rules | rule post_reads, rule reads_intros | (simp; fail))+)[1]
        | rule post_rules post_bnd | rule post_reads, rule reads_intros
        | (auto simp: handoff_updates handoff_guards nz_Some lease_held_def dest: task_handoff_row_id; fail))+)

lemmas RequestTaskHandoffReview_effect = RequestTaskHandoffReview_post [THEN postD]

lemma RejectTaskHandoffReview_post:
  assumes wf: "wf_table (task_handoffs s)"
  shows "post (RejectTaskHandoffReview hid task i report now) s (\<lambda>r t. \<exists>h. task_handoff_row hid s = Some h \<and> h_owner h = task
     \<and> nz (h_review_received_by h) = i \<and> review_reject_guard h
     \<and> r = review_reject_row now report h \<and> task_handoff_row hid t = Some r
     \<and> map_option t_status (task_row task t) = Some TaskDoing)"
  unfolding RejectTaskHandoffReview_def commit_task_handoff_def Let_def
  by ((rule task_hits, simp add: wf,
          ((rule post_bnd post_rules | rule post_reads, rule reads_intros | (simp; fail))+)[1]
        | rule post_rules post_bnd | rule post_reads, rule reads_intros
        | (auto simp: handoff_updates handoff_guards nz_Some lease_held_def dest: task_handoff_row_id; fail))+)

lemmas RejectTaskHandoffReview_effect = RejectTaskHandoffReview_post [THEN postD]

lemma ReceiveTaskHandoffReviewRejection_post:
  assumes wf: "wf_table (task_handoffs s)"
  shows "post (ReceiveTaskHandoffReviewRejection hid task i now) s (\<lambda>r t. \<exists>h. task_handoff_row hid s = Some h \<and> h_owner h = task
     \<and> h_received_by h = Some i \<and> rejection_receive_guard (Some i) h
     \<and> r = rejection_receive_row (Some i) now h \<and> task_handoff_row hid t = Some r)"
  unfolding ReceiveTaskHandoffReviewRejection_def commit_task_handoff_def Let_def
  by ((rule task_hits, simp add: wf,
          ((rule post_bnd post_rules | rule post_reads, rule reads_intros | (simp; fail))+)[1]
        | rule post_rules post_bnd | rule post_reads, rule reads_intros
        | (auto simp: handoff_updates handoff_guards nz_Some lease_held_def dest: task_handoff_row_id; fail))+)

lemmas ReceiveTaskHandoffReviewRejection_effect = ReceiveTaskHandoffReviewRejection_post [THEN postD]

lemma CompleteTaskHandoffByReviewer_post:
  assumes wf: "wf_table (task_handoffs s)"
  shows "post (CompleteTaskHandoffByReviewer hid task i report now) s (\<lambda>r t. \<exists>h. task_handoff_row hid s = Some h \<and> h_owner h = task
     \<and> reviewer_close_guard (Some i) h
     \<and> r = close_row now (Some report) h \<and> task_handoff_row hid t = Some r
     \<and> map_option t_status (task_row task t) = Some TaskDone
     \<and> affected (\<lambda>d. d_task_id d = Some task \<and> d_status d = DecisionOpen) (decisions s) = 0)"
  unfolding CompleteTaskHandoffByReviewer_def commit_task_handoff_def Let_def
  by ((rule task_hits, simp add: wf,
          ((rule post_bnd post_rules | rule post_reads, rule reads_intros | (simp; fail))+)[1]
        | rule post_rules post_bnd | rule post_reads, rule reads_intros
        | (auto simp: handoff_updates handoff_guards nz_Some lease_held_def dest: task_handoff_row_id; fail))+)

lemmas CompleteTaskHandoffByReviewer_effect = CompleteTaskHandoffByReviewer_post [THEN postD]

lemma CompleteTaskHandoff_post:
  assumes wf: "wf_table (task_handoffs s)"
  shows "post (CompleteTaskHandoff hid task report now) s (\<lambda>r t. \<exists>h. task_handoff_row hid s = Some h \<and> h_owner h = task
     \<and> close_guard h \<and> h_received_at h \<noteq> None
     \<and> r = close_row now (if report = [] then None else Some report) h \<and> task_handoff_row hid t = Some r)"
  unfolding CompleteTaskHandoff_def commit_task_handoff_def Let_def
  by ((rule task_hits, simp add: wf,
          ((rule post_bnd post_rules | rule post_reads, rule reads_intros | (simp; fail))+)[1]
        | rule post_rules post_bnd | rule post_reads, rule reads_intros
        | (auto simp: handoff_updates handoff_guards nz_Some lease_held_def dest: task_handoff_row_id; fail))+)

lemmas CompleteTaskHandoff_effect = CompleteTaskHandoff_post [THEN postD]

lemma ReceiveTaskHandoff_post:
  assumes wf: "wf_table (task_handoffs s)"
  shows "post (ReceiveTaskHandoff hid task i now) s (\<lambda>(r, page) t. \<exists>h. task_handoff_row hid s = Some h \<and> h_owner h = task
     \<and> (h_received_at h \<noteq> None \<and> h_received_by h = Some i \<and> r = h
       \<or> receive_guard (nullable i) (\<lambda>i. lease_held i (leaseCutoff now) s) h
          \<and> r = receive_row (nullable i) now h
     \<and> map_option t_status (task_row task t) = Some TaskDoing)
     \<and> r = r \<and> task_handoff_row hid t = Some r)"
  unfolding ReceiveTaskHandoff_def commit_task_handoff_def Let_def
  by ((rule task_hits, simp add: wf,
          ((rule post_bnd post_rules | rule post_reads, rule reads_intros | (simp; fail))+)[1]
        | rule post_rules post_bnd | rule post_reads, rule reads_intros
        | (auto simp: handoff_updates handoff_guards nz_Some lease_held_def dest: task_handoff_row_id; fail))+)

lemmas ReceiveTaskHandoff_effect = ReceiveTaskHandoff_post [THEN postD]

lemma ReceiveTaskHandoffReview_post:
  assumes wf: "wf_table (task_handoffs s)"
  shows "post (ReceiveTaskHandoffReview hid task i now) s (\<lambda>r t. \<exists>h. task_handoff_row hid s = Some h \<and> h_owner h = task
     \<and> review_receive_guard h
     \<and> r = review_receive_row (Some i) now h \<and> task_handoff_row hid t = Some r)"
  unfolding ReceiveTaskHandoffReview_def commit_task_handoff_def Let_def
  by ((rule task_hits, simp add: wf,
          ((rule post_bnd post_rules | rule post_reads, rule reads_intros | (simp; fail))+)[1]
        | rule post_rules post_bnd | rule post_reads, rule reads_intros
        | (auto simp: handoff_updates handoff_guards nz_Some lease_held_def dest: task_handoff_row_id; fail))+)

lemmas ReceiveTaskHandoffReview_effect = ReceiveTaskHandoffReview_post [THEN postD]

lemma RecoverTaskHandoff_post:
  assumes wf: "wf_table (task_handoffs s)"
  shows "post (RecoverTaskHandoff hid task i reason now) s (\<lambda>r t. \<exists>h. task_handoff_row hid s = Some h \<and> h_owner h = task
     \<and> h_completed_report_at h = None \<and> (h_recovered_at h \<noteq> None \<and> r = h
       \<or> h_recovered_at h = None \<and> (\<exists>ph stale p. recovery_phase h = Some (ph, stale) \<and> stale \<noteq> i
          \<and> fst (canRecoverSessionInTx stale now s) = Inr p
          \<and> r = (if ph = ''review_received'' then recover_review_row h else recover_row now reason h)))
     \<and> r = r \<and> task_handoff_row hid t = Some r)"
  unfolding RecoverTaskHandoff_def commit_task_handoff_def Let_def
  by ((rule task_hits, simp add: wf,
          ((rule post_bnd post_rules | rule post_reads, rule reads_intros | (simp; fail))+)[1]
        | rule post_rules post_bnd | rule post_reads, rule reads_intros
        | (auto simp: handoff_updates handoff_guards nz_Some lease_held_def dest: task_handoff_row_id; fail))+)

lemmas RecoverTaskHandoff_effect = RecoverTaskHandoff_post [THEN postD]

end
