(* ===== verification/Atct_Handoff_Facts.thy ===== *)
theory Atct_Handoff_Facts
  imports Atct_Goal_Effects Atct_Task_Effects Atct_Example
begin

text \<open>
  The properties of goal and task handoffs: their life along a run of the store, who may receive,
  submit, judge, close and recover one, and what closing one does to its task.
\<close>

section \<open>Helpers\<close>

lemma handoff_row_wf:
  "wf_table (goal_handoffs s) \<Longrightarrow> goal_handoff_row i s = Some h \<Longrightarrow> wf_row h"
  "wf_table (task_handoffs s) \<Longrightarrow> task_handoff_row i s = Some h \<Longrightarrow> wf_row h"
  unfolding goal_handoff_row_def task_handoff_row_def wf_table_def by (auto dest: find_Some_in)

lemma live_lease_held: "agentSessionLiveInQueries i now s \<Longrightarrow> lease_held i (leaseCutoff now) s"
  by (auto simp: agentSessionLiveInQueries_def agentSessionLiveAt_def lease_held_def leaseCutoff_def
      list_ex_iff split: if_splits option.splits dest!: session_row_id intro!: bexI)

lemma submit_phase:
  "wf_row h \<Longrightarrow> review_request_guard h \<Longrightarrow>
     phase h \<in> {Working, Rework} \<and> phase (review_request_row (Some i) now report h) = AwaitingReview"
  by (auto simp: review_request_guard_def review_request_row_def phase_def wf_row_def)

lemma close_phase:
  "reviewer_close_guard by h \<Longrightarrow> wf_row h \<Longrightarrow> phase h = InReview \<and> phase (close_row now report h) = Completed"
  by (auto simp: reviewer_close_guard_def close_row_def phase_def wf_row_def)

section \<open>The life of a handoff\<close>

text \<open>
  Property C4. A handoff is never lost and only moves forward. Along any run of the store a goal
  handoff and a task handoff keep their id, their owner and the time of their request; the phase
  moves only along the life of a handoff (requested, working, awaiting review, in review, rejected,
  rework, and completed or recovered at the end), and a closed one stays exactly as closed as it
  was: its completion or recovery time never changes.
\<close>

theorem handoff_life:
  assumes wf: "wf_store s" and later: "steps s t"
    and row: "row = goal_handoff_row \<or> row = task_handoff_row" and g: "row hid s = Some g"
  shows "\<exists>h. row hid t = Some h \<and> h_owner h = h_owner g \<and> h_requested_at h = h_requested_at g
     \<and> phase_step\<^sup>*\<^sup>* (phase g) (phase h)
     \<and> (phase g \<in> {Completed, Recovered} \<longrightarrow> phase h = phase g
          \<and> h_completed_report_at h = h_completed_report_at g \<and> h_recovered_at h = h_recovered_at g)"
proof -
  have "\<exists>h. row hid t = Some h \<and> handoff_le g h \<and> wf_row g"
    using row g handoff_later [OF steps_tables(3) [OF later] wf_store_parts(4) [OF wf]]
      handoff_later [OF steps_tables(2) [OF later] wf_store_parts(3) [OF wf]]
    unfolding goal_handoff_row_def [abs_def] task_handoff_row_def [abs_def] by fastforce
  then obtain h where h: "row hid t = Some h" "handoff_le g h" "wf_row g" by blast
  note le = h(2) [unfolded handoff_le_def]
  have steps: "phase_step\<^sup>*\<^sup>* (phase g) (phase h)" and wf_h: "wf_row h" using le h(3) by auto
  moreover have "phase g \<in> {Completed, Recovered} \<Longrightarrow> phase h = phase g"
    using closed_phase_final [OF steps] by auto
  moreover have "phase g \<in> {Completed, Recovered} \<Longrightarrow> phase h = phase g \<Longrightarrow>
      h_completed_report_at h = h_completed_report_at g \<and> h_recovered_at h = h_recovered_at g"
    using le h(3) wf_h by (auto simp: phase_def wf_row_def split: if_splits)
  ultimately show ?thesis using h(1) le h(3) by blast
qed

theorem handoff_life_witness:
  "\<exists>h. task_handoff_row ''th'' (snd (RequestTaskHandoffReview ''th'' 1 3 ''done'' (sec 100) example)) = Some h
     \<and> phase_step\<^sup>*\<^sup>* Working (phase h)"
proof -
  have "task_handoff_row ''th'' example = Some (receive_row (Some 3) (sec 4) (new_handoff ''th'' 1 (Some 2) (sec 3) None))"
    and ph: "phase (receive_row (Some 3) (sec 4) (new_handoff ''th'' 1 (Some 2) (sec 3) None)) = Working"
    by code_simp+
  then show ?thesis
    using handoff_life [OF wf_example one_step [OF store_step.request_task_review [of example "''th''" 1 3 "''done''" "sec 100"]]
        disjI2 [OF refl], of "''th''"] by auto
qed

section \<open>Receiving\<close>

lemma held_receive_guard:
  "receive_guard (nullable i) (\<lambda>i. lease_held i (leaseCutoff now) s) h \<Longrightarrow> h_received_at h \<noteq> None \<Longrightarrow>
     h_received_by h = Some j \<Longrightarrow> i \<noteq> j \<Longrightarrow> \<not> agentSessionLiveInQueries j now s"
  by (auto simp: receive_guard_def nullable_def dest: live_lease_held split: if_splits)

text \<open>
  Property C9. A live receiver is never displaced. As long as the session that received a goal
  handoff or a task handoff holds its heartbeat lease, no other session can receive it: the call
  does not return a handoff.
\<close>

theorem live_receiver_keeps_its_handoff:
  assumes wf: "wf_store s" and live: "agentSessionLiveInQueries j now s" and other: "i \<noteq> j"
    and h: "h_received_at h \<noteq> None" "h_received_by h = Some j"
  shows "(goal_handoff_row hid s = Some h \<longrightarrow> isl (fst (ReceiveGoalHandoff hid goal i now s)))
       \<and> (task_handoff_row hid s = Some h \<longrightarrow> isl (fst (ReceiveTaskHandoff hid task i now s)))"
proof (intro conjI impI; rule ccontr)
  assume row: "goal_handoff_row hid s = Some h" and ok: "\<not> isl (fst (ReceiveGoalHandoff hid goal i now s))"
  show False
    using ReceiveGoalHandoff_effect [OF wf_store_parts(4) [OF wf] run_ok [OF ok]] row other h
      held_receive_guard [OF _ h other, of now s] live by (auto split: prod.splits)
next
  assume row: "task_handoff_row hid s = Some h" and ok: "\<not> isl (fst (ReceiveTaskHandoff hid task i now s))"
  show False
    using ReceiveTaskHandoff_effect [OF wf_store_parts(3) [OF wf] run_ok [OF ok]] row other h
      held_receive_guard [OF _ h other, of now s] live by (auto split: prod.splits)
qed

theorem live_receiver_keeps_its_handoff_witness:
  "isl (fst (ReceiveTaskHandoff ''th'' 1 2 (sec 100) example))"
proof -
  have "task_handoff_row ''th'' example = Some (receive_row (Some 3) (sec 4) (new_handoff ''th'' 1 (Some 2) (sec 3) None))"
    and "agentSessionLiveInQueries 3 (sec 100) example"
    by code_simp+
  then show ?thesis
    using live_receiver_keeps_its_handoff [OF wf_example, of 3 "sec 100" 2
        "receive_row (Some 3) (sec 4) (new_handoff ''th'' 1 (Some 2) (sec 3) None)" "''th''"]
    by (simp add: receive_row_def)
qed

section \<open>The review of a goal handoff\<close>

text \<open>
  Property C14. Submitting a goal for review. When \<open>RequestGoalHandoffReview\<close> returns, the caller
  was the session that received the handoff, the handoff was being worked on (for the first time
  or again after a rejection it has taken note of), no decision of the goal was open, and the
  handoff now awaits review with the caller's report and without any earlier verdict.
\<close>

theorem goal_review_submission:
  assumes "wf_store s" and "RequestGoalHandoffReview hid goal i report now s = (Inr r, t)"
  shows "\<exists>h. goal_handoff_row hid s = Some h \<and> h_owner h = goal \<and> h_received_by h = Some i
     \<and> phase h \<in> {Working, Rework} \<and> goal_handoff_row hid t = Some r \<and> phase r = AwaitingReview
     \<and> h_review_request_report r = Some report \<and> h_review_rejected_at r = None
     \<and> (\<forall>d\<in>set (decisions s). d_goal_id d = goal \<longrightarrow> d_status d \<noteq> DecisionOpen)"
proof -
  note wf = wf_store_parts(4) [OF assms(1)]
  obtain h where h: "goal_handoff_row hid s = Some h" "h_owner h = goal" "h_received_by h = Some i"
    "review_request_guard h" "r = review_request_row (Some i) now report h" "goal_handoff_row hid t = Some r"
    "affected (\<lambda>d. d_goal_id d = goal \<and> d_status d = DecisionOpen) (decisions s) = 0"
    using RequestGoalHandoffReview_effect [OF wf assms(2)] by blast
  then show ?thesis
    using submit_phase [OF handoff_row_wf(1) [OF wf h(1)] h(4), of i now report]
    by (auto simp: affected_0 review_request_row_def)
qed

lemma example_submission_ok:
  "\<not> isl (fst (RequestGoalHandoffReview ''gh'' 1 2 ''done'' (sec 100) undecided))"
  by code_simp

theorem goal_review_submission_witness:
  "\<exists>h. goal_handoff_row ''gh'' undecided = Some h \<and> h_received_by h = Some 2 \<and> phase h \<in> {Working, Rework}
     \<and> (\<forall>d\<in>set (decisions undecided). d_goal_id d = 1 \<longrightarrow> d_status d \<noteq> DecisionOpen)"
  using goal_review_submission [OF wf_later_examples(1) run_ok [OF example_submission_ok]] by blast

section \<open>The verdict on a task handoff\<close>

text \<open>
  Property C15. Closing a reviewed task. When \<open>CompleteTaskHandoffByReviewer\<close> returns, the
  handoff was in review by the caller, it is now completed with the caller's report, its task is
  done, and no decision of the task was open.
\<close>

theorem task_review_completion:
  assumes "wf_store s" and "CompleteTaskHandoffByReviewer hid task i report now s = (Inr r, t)"
  shows "\<exists>h. task_handoff_row hid s = Some h \<and> h_owner h = task \<and> phase h = InReview
     \<and> h_review_received_by h = Some i \<and> task_handoff_row hid t = Some r \<and> phase r = Completed
     \<and> h_complete_report r = Some report \<and> map_option t_status (task_row task t) = Some TaskDone
     \<and> (\<forall>d\<in>set (decisions s). d_task_id d = Some task \<longrightarrow> d_status d \<noteq> DecisionOpen)"
proof -
  note wf = wf_store_parts(3) [OF assms(1)]
  obtain h where h: "task_handoff_row hid s = Some h" "h_owner h = task"
    "reviewer_close_guard (Some i) h" "r = close_row now (Some report) h" "task_handoff_row hid t = Some r"
    "map_option t_status (task_row task t) = Some TaskDone"
    "affected (\<lambda>d. d_task_id d = Some task \<and> d_status d = DecisionOpen) (decisions s) = 0"
    using CompleteTaskHandoffByReviewer_effect [OF wf assms(2)] by blast
  have "phase h = InReview" "phase r = Completed"
    using close_phase [OF h(3) handoff_row_wf(2) [OF wf h(1)]] by (simp_all add: h(4))
  then show ?thesis
    using h by (auto simp: affected_0 close_row_def reviewer_close_guard_def)
qed

lemma example_completion_ok:
  "\<not> isl (fst (CompleteTaskHandoffByReviewer ''th'' 1 2 ''good'' (sec 101) under_review))"
  by code_simp

theorem task_review_completion_witness:
  "map_option t_status (task_row 1 (snd (CompleteTaskHandoffByReviewer ''th'' 1 2 ''good'' (sec 101) under_review)))
     = Some TaskDone"
  using task_review_completion [OF wf_later_examples(2) run_ok [OF example_completion_ok]] by blast

section \<open>Recovery\<close>

lemma recovery_proof_of:
  assumes "fst (canRecoverSessionInTx stale now s) = Inr p"
  shows "\<exists>q. session_row stale s = Some q
     \<and> (\<not> agentSessionLiveInQueries stale now s \<or> s_discarded_at q \<noteq> None \<and> s_discarded_decision_id q \<noteq> None)"
proof -
  have "canRecoverSessionInTx stale now s = (Inr p, s)"
    using assms reads_sessions(8) [of stale now] by (metis prod.collapse reads_def)
  then show ?thesis
    by (auto simp: canRecoverSessionInTx_def op_run agentSessionLease_held nz_def split: if_splits option.splits)
qed

text \<open>
  Property C13. A handoff is taken from a session only with proof. When \<open>RecoverGoalHandoff\<close> or
  \<open>RecoverTaskHandoff\<close> changes a handoff, the session that held it (its reviewer, its receiver or
  its requester, by phase) is not the caller and is registered, and either it no longer holds its
  heartbeat lease or it has been discarded by an answered decision.
\<close>

theorem recovery_needs_proof:
  assumes wf: "wf_store s"
    and run: "RecoverGoalHandoff hid goal i reason now s = (Inr r, t) \<and> goal_handoff_row hid s = Some h
      \<or> RecoverTaskHandoff hid task i reason now s = (Inr r, t) \<and> task_handoff_row hid s = Some h"
    and changed: "r \<noteq> h"
  shows "\<exists>ph stale q. recovery_phase h = Some (ph, stale) \<and> stale \<noteq> i
     \<and> session_row stale s = Some q
     \<and> (\<not> agentSessionLiveInQueries stale now s
        \<or> s_discarded_at q \<noteq> None \<and> s_discarded_decision_id q \<noteq> None)"
proof -
  obtain ph stale p where "recovery_phase h = Some (ph, stale)" "stale \<noteq> i"
    "fst (canRecoverSessionInTx stale now s) = Inr p"
    using run
  proof (elim disjE conjE)
    assume "RecoverGoalHandoff hid goal i reason now s = (Inr r, t)" and "goal_handoff_row hid s = Some h"
    from RecoverGoalHandoff_effect [OF wf_store_parts(4) [OF wf] this(1)] this(2) changed that
    show ?thesis by auto
  next
    assume "RecoverTaskHandoff hid task i reason now s = (Inr r, t)" and "task_handoff_row hid s = Some h"
    from RecoverTaskHandoff_effect [OF wf_store_parts(3) [OF wf] this(1)] this(2) changed that
    show ?thesis by auto
  qed
  with recovery_proof_of [OF this(3)] show ?thesis by blast
qed


lemma example_recovery_ok:
  "\<not> isl (fst (RecoverTaskHandoff ''th'' 1 2 ''gone'' (sec 100) abandoned))"
  "task_handoff_row ''th'' abandoned = Some (receive_row (Some 4) (sec 4) (new_handoff ''th'' 1 (Some 2) (sec 3) None))"
  "projr (fst (RecoverTaskHandoff ''th'' 1 2 ''gone'' (sec 100) abandoned))
     \<noteq> receive_row (Some 4) (sec 4) (new_handoff ''th'' 1 (Some 2) (sec 3) None)"
  by code_simp+

theorem recovery_needs_proof_witness:
  "\<exists>stale q. recovery_phase (receive_row (Some 4) (sec 4) (new_handoff ''th'' 1 (Some 2) (sec 3) None))
       = Some (''received'', stale) \<and> session_row stale abandoned = Some q \<and> stale \<noteq> 2"
  using recovery_needs_proof [OF wf_later_examples(3) disjI2 [OF conjI [OF run_ok [OF example_recovery_ok(1)]
        example_recovery_ok(2)]] example_recovery_ok(3)]
  by (auto simp: recovery_phase_def receive_row_def new_handoff_def)
end
