(* ===== verification/Atct_Goal_Facts.thy ===== *)
theory Atct_Goal_Facts
  imports Atct_Goal_Effects Atct_Example
begin

text \<open>
  The properties of goals: deriving one goal from another never closes a cycle, a goal is finished
  only after a human has approved it and its handoff has been reviewed, and what withdrawing a
  goal closes.
\<close>

section \<open>Derivation\<close>

definition derives :: "store \<Rightarrow> (int \<times> int) set" where
  "derives s = {(i, p). \<exists>g\<in>set (goals s). g_id g = i \<and> g_derived_from g = Some p \<and> p \<noteq> 0}"

lemma goal_row_unique: "wf_goals (goals s) \<Longrightarrow> g \<in> set (goals s) \<Longrightarrow> goal_row (g_id g) s = Some g"
  unfolding goal_row_def wf_goals_def by (blast intro: find_key_unique)

lemma walk_avoids:
  "wf_goals (goals s) \<Longrightarrow> walk s goal seen current = None \<Longrightarrow> current \<noteq> 0 \<Longrightarrow>
     (current, goal) \<notin> (derives s)\<^sup>*"
proof (induction s goal seen current rule: walk.induct)
  case (1 s goal seen current)
  have cur: "current \<noteq> goal" "current \<notin> set seen"
    using "1.prems" by (auto simp: walk.simps [of s goal] split: if_splits)
  obtain g where g: "goal_row current s = Some g"
    using "1.prems" cur by (auto simp: walk.simps [of s goal] GetGoal_value split: option.splits)
  let ?up = "nz (g_derived_from (g\<lparr>g_derived_from := nullable (nz (g_derived_from g))\<rparr>))"
  have up: "?up = nz (g_derived_from g)"
    by (simp add: nz_def nullable_def)
  have rest: "walk s goal (current # seen) (nz (g_derived_from g)) = None"
    using "1.prems" cur g up by (auto simp: walk.simps [of s goal seen] GetGoal_value split: if_splits)
  show ?case
  proof
    assume "(current, goal) \<in> (derives s)\<^sup>*"
    then obtain p where p: "(current, p) \<in> derives s" "(p, goal) \<in> (derives s)\<^sup>*"
      using cur(1) by (metis converse_rtranclE)
    then obtain h where "h \<in> set (goals s)" "g_id h = current" "g_derived_from h = Some p" "p \<noteq> 0"
      by (auto simp: derives_def)
    moreover from this have "h = g"
      using goal_row_unique [OF "1.prems"(1)] g by fastforce
    ultimately have "nz (g_derived_from g) = p" "p \<noteq> 0" by (auto simp: nz_def)
    then show False
      using "1.IH" [OF _ cur _ "1.prems"(1)] "1.prems"(3) rest p(2) g up by (simp add: GetGoal_value)
  qed
qed

lemma SetGoalDerivedFrom_run:
  assumes "SetGoalDerivedFrom goal parent now s = (r, t)"
  shows "goals t = goals s \<or> (parent \<noteq> 0 \<longrightarrow> walk s goal [] parent = None)
     \<and> goals t = update_where (\<lambda>g. g_id g = goal)
         (\<lambda>g. g\<lparr>g_derived_from := nullable parent, g_updated_at := rfc3339 now\<rparr>) (goals s)"
  using assms
  by (cases r) (auto simp: SetGoalDerivedFrom_def SetGoalDerivedFrom_sql_def nullableGoalID_def op_run
      dest!: readsD [OF reads_guards(2)] split: if_splits)

lemma derives_update:
  assumes "goals t = update_where (\<lambda>g. g_id g = goal)
      (\<lambda>g. g\<lparr>g_derived_from := nullable parent, g_updated_at := u\<rparr>) (goals s)"
  shows "derives t \<subseteq> derives s \<union> (if parent = 0 then {} else {(goal, parent)})"
  by (auto simp: derives_def assms set_update_where nullable_def split: if_splits)

lemma walk_refuses_cycles:
  "walk s goal seen current = Some (GoalE ErrGoalDerivationCycle) \<Longrightarrow>
     \<forall>v\<in>set seen. (v, current) \<in> (derives s)\<^sup>+ \<Longrightarrow>
     (current, goal) \<in> (derives s)\<^sup>* \<or> \<not> acyclic (derives s)"
proof (induction s goal seen current rule: walk.induct)
  case (1 s goal seen current)
  show ?case
  proof (cases "current = goal \<or> current \<in> set seen")
    case True
    then show ?thesis using "1.prems"(2) by (auto simp: acyclic_def)
  next
    case False
    then obtain g where g: "goal_row current s = Some g" "current \<noteq> 0"
      using "1.prems"(1) by (auto simp: walk.simps [of s goal] GetGoal_value split: option.splits if_splits)
    define p where "p = nz (g_derived_from g)"
    have rest: "walk s goal (current # seen) p = Some (GoalE ErrGoalDerivationCycle)"
      using "1.prems"(1) False g
      by (auto simp: p_def walk.simps [of s goal seen] GetGoal_value nz_def nullable_def split: if_splits)
    then have "p \<noteq> 0" by (auto simp: walk.simps [of s goal _ 0])
    then have edge: "(current, p) \<in> derives s"
      using g(1) by (auto simp: derives_def p_def nz_def goal_row_def dest!: find_Some_in split: option.splits)
    then have "\<forall>v\<in>set (current # seen). (v, p) \<in> (derives s)\<^sup>+"
      using "1.prems"(2) by (auto intro: trancl_into_trancl)
    then have "(p, goal) \<in> (derives s)\<^sup>* \<or> \<not> acyclic (derives s)"
      using "1.IH" [of "g\<lparr>g_derived_from := nullable (nz (g_derived_from g))\<rparr>"] False g rest
      by (simp add: GetGoal_value p_def)
    then show ?thesis using edge by (auto intro: converse_rtrancl_into_rtrancl)
  qed
qed

lemma derivation_refused:
  assumes "fst (SetGoalDerivedFrom goal parent now s) = Inl (GoalE ErrGoalDerivationCycle)"
  shows "\<not> acyclic (insert (goal, parent) (derives s))"
proof -
  obtain t where "SetGoalDerivedFrom goal parent now s = (Inl (GoalE ErrGoalDerivationCycle), t)"
    using assms by (metis prod.collapse)
  then have "walk s goal [] parent = Some (GoalE ErrGoalDerivationCycle)"
    by (auto simp: SetGoalDerivedFrom_def SetGoalDerivedFrom_sql_def op_run reads_run [OF reads_guards(2)]
        GetGoal_value split: option.splits if_splits)
  from walk_refuses_cycles [OF this] show ?thesis
    by (auto simp: acyclic_insert intro: acyclic_subset)
qed

text \<open>
  Property C8. The check that keeps derivations free of cycles is exact, and always ends
  (\<open>walk\<close> is total even on a store whose goals already form a cycle): if the goals of the store
  are acyclic they are acyclic after \<open>SetGoalDerivedFrom\<close>, whether it returns or fails, and it is
  refused as a cycle only when the new derivation would close one.
\<close>

theorem derivation_stays_acyclic:
  assumes wf: "wf_goals (goals s)" and acyclic: "acyclic (derives s)"
  shows "acyclic (derives (snd (SetGoalDerivedFrom goal parent now s)))
     \<and> (fst (SetGoalDerivedFrom goal parent now s) = Inl (GoalE ErrGoalDerivationCycle)
          \<longrightarrow> \<not> acyclic (insert (goal, parent) (derives s)))"
proof -
  obtain r t where run: "SetGoalDerivedFrom goal parent now s = (r, t)" by (metis surj_pair)
  consider "goals t = goals s" | "parent = 0" "derives t \<subseteq> derives s"
    | "parent \<noteq> 0" "walk s goal [] parent = None" "derives t \<subseteq> insert (goal, parent) (derives s)"
    using SetGoalDerivedFrom_run [OF run] derives_update [of t goal "rfc3339 now" parent s] by (cases "parent = 0") auto
  then have "acyclic (derives t)"
  proof cases
    case 1
    then show ?thesis using acyclic by (simp add: derives_def)
  next
    case 2
    then show ?thesis using acyclic by (blast intro: acyclic_subset)
  next
    case 3
    have "acyclic (insert (goal, parent) (derives s))"
      using acyclic walk_avoids [OF wf 3(2,1)] by (simp add: acyclic_insert)
    then show ?thesis using 3(3) by (rule acyclic_subset)
  qed
  then show ?thesis using derivation_refused [of goal parent now s] by (simp add: run)
qed

definition family :: store where
  "family = example\<lparr>goals := [a_goal 1, (a_goal 2)\<lparr>g_derived_from := Some 1\<rparr>]\<rparr>"

lemma derives_family: "derives family = {(2, 1)}"
  by (auto simp: derives_def family_def a_goal_def)

theorem derivation_stays_acyclic_witness:
  "fst (SetGoalDerivedFrom 1 2 0 family) = Inl (GoalE ErrGoalDerivationCycle)
   \<and> \<not> acyclic (insert (1, 2) (derives family)) \<and> acyclic (derives (snd (SetGoalDerivedFrom 1 2 0 family)))"
proof -
  have "fst (SetGoalDerivedFrom 1 2 0 family) = Inl (GoalE ErrGoalDerivationCycle)"
    and wf: "wf_goals (goals family)" by code_simp+
  moreover have "acyclic (derives family)"
    by (simp add: derives_family acyclic_def trancl_insert)
  ultimately show ?thesis
    using derivation_stays_acyclic [OF wf, of 1 2 0] by blast
qed

section \<open>Finishing a goal\<close>

lemma latest_delegated_in:
  "latest_delegated l hs = Some h \<Longrightarrow>
     (\<forall>x. l = Some x \<longrightarrow> handoffIsDelegation (nz (h_requested_by x)) (nz (h_received_by x))) \<Longrightarrow>
     (h \<in> set hs \<or> l = Some h) \<and> handoffIsDelegation (nz (h_requested_by h)) (nz (h_received_by h))"
proof (induction hs arbitrary: l)
  case (Cons c cs)
  let ?n = "case l of None \<Rightarrow> Some c
         | Some l' \<Rightarrow> (case h_requested_at c of None \<Rightarrow> l
            | Some cr \<Rightarrow> (case h_requested_at l' of None \<Rightarrow> Some c
               | Some lr \<Rightarrow> if lr < cr then Some c else l))"
  have next_is: "?n = l \<or> ?n = Some c" by (simp split: option.splits)
  show ?case
  proof (cases "handoffIsDelegation (nz (h_requested_by c)) (nz (h_received_by c))")
    case True
    then have "latest_delegated ?n cs = Some h" using Cons.prems(1) by simp
    from Cons.IH [OF this] next_is Cons.prems(2) True show ?thesis by (elim disjE) auto
  next
    case False
    then show ?thesis using Cons by simp
  qed
qed simp

lemma latestGoalHandoffForReview_value:
  assumes "fst (latestGoalHandoffForReview goal i b now s) = Inr h"
  shows "h \<in> set (goal_handoffs s) \<and> h_owner h = goal
     \<and> handoffIsDelegation (nz (h_requested_by h)) (nz (h_received_by h))
     \<and> goalHandoffHasCommanderReviewReceipt h \<and> h_completed_report_at h = None
     \<and> (b \<longrightarrow> nz (h_review_received_by h) = i)"
proof -
  have "latestGoalHandoffForReview goal i b now s = (Inr h, s)"
    using assms reads_goal_ops(10) [of goal i b now] by (metis prod.collapse reads_def)
  then have "latestDelegatedGoalHandoff (order_by h_id (filter (\<lambda>h. h_owner h = goal) (goal_handoffs s))) = Some h"
    and "goalHandoffHasCommanderReviewReceipt h \<and> h_completed_report_at h = None
       \<and> (b \<longrightarrow> nz (h_review_received_by h) = i)"
    by (auto simp: latestGoalHandoffForReview_def ListGoalHandoffs_def ListGoalHandoffs_sql_def op_run)
  then show ?thesis
    unfolding latestDelegatedGoalHandoff_def by (auto dest: latest_delegated_in)
qed

lemma GetGoal_Inr: "fst (GetGoal i s) = Inr g \<Longrightarrow> \<exists>r. goal_row i s = Some r \<and> g_status g = g_status r"
  by (auto simp: GetGoal_value split: option.splits)

lemma goal_handoff_row_unique:
  "wf_table (goal_handoffs s) \<Longrightarrow> h \<in> set (goal_handoffs s) \<Longrightarrow> goal_handoff_row (h_id h) s = Some h"
  unfolding goal_handoff_row_def wf_table_def wf_handoffs_def by (blast intro: find_key_unique)

lemma goal_handoff_row_goals [simp]: "goal_handoff_row i (goals_update f s) = goal_handoff_row i s"
  by (simp add: goal_handoff_row_def)

lemma FinalizeGoalReview_post:
  assumes wf: "wf_table (goal_handoffs s)" "wf_goals (goals s)"
  shows "post (FinalizeGoalReview goal i now) s (\<lambda>g t. \<exists>r h.
       goal_row goal s = Some r \<and> g_status r = GoalActive \<and> g_status g = GoalDone
     \<and> goal_handoff_row (h_id h) s = Some h \<and> h_owner h = goal
     \<and> handoffIsDelegation (nz (h_requested_by h)) (nz (h_received_by h))
     \<and> reviewer_close_guard (h_review_received_by h) h
     \<and> goal_handoff_row (h_id h) t = Some (close_row now (h_review_request_report h) h)
     \<and> affected (\<lambda>d. d_goal_id d = goal \<and> d_status d = DecisionOpen) (decisions s) = 0
     \<and> affected (\<lambda>d. d_goal_id d = goal \<and> d_kind d = KindGoalReview
          \<and> d_status d = DecisionApplied \<and> d_answer_label d = ''approve'') (decisions s) \<noteq> 0)"
  unfolding FinalizeGoalReview_def FinalizeGoalReview_sql_def CountApprovedGoalReviewsForGoal_sql_def Let_def
  apply ((rule goal_hits, simp (no_asm) add: wf, rule post_False, simp (no_asm)
        | rule post_rules post_bnd | rule post_reads, rule reads_intros)+)
  subgoal premises p for x _ h _ k
  proof -
    note latest = latestGoalHandoffForReview_value [OF p(4)]
    have kh: "k = h"
      using goal_handoff_row_unique [OF wf(1)] latest p(9) by fastforce
    obtain report where report: "h_review_request_report h = Some report"
      using p(5) by (auto simp: completeReportIsEmpty_def split: option.splits)
    obtain r where r: "goal_row goal s = Some r" "g_status r = GoalActive"
      using GetGoal_Inr [OF p(1)] p(2) by auto
    have rb: "Some (nz (h_review_received_by h)) = h_review_received_by h"
      using p(11) by (auto simp: kh reviewer_close_guard_def)
    show ?thesis
      by (rule exI [of _ r], rule exI [of _ h])
        (use r p(6-8) p(9,10,11) latest rb report kh GetGoal_Inr [OF p(15)] in
          \<open>auto simp: goal_row_update close_row_def dest: goal_handoff_row_id goal_row_id\<close>)
  qed
  done

text \<open>
  Property C11. A goal is finished only after its review. When \<open>FinalizeGoalReview\<close> returns, the
  goal was active and is now done, no decision of it was open, some review of it had been approved
  by a human, and its delegated handoff, which was in review, is closed with the report that was
  submitted for review.
\<close>

theorem goal_finalization:
  assumes "wf_store s" and "FinalizeGoalReview goal i now s = (Inr g, t)"
  shows "g_status g = GoalDone
     \<and> (\<exists>r. goal_row goal s = Some r \<and> g_status r = GoalActive)
     \<and> (\<forall>d\<in>set (decisions s). d_goal_id d = goal \<longrightarrow> d_status d \<noteq> DecisionOpen)
     \<and> (\<exists>d\<in>set (decisions s). d_goal_id d = goal \<and> d_kind d = KindGoalReview \<and> d_answer_label d = ''approve'')
     \<and> (\<exists>h k. h_owner h = goal \<and> goal_handoff_row (h_id h) s = Some h \<and> phase h = InReview
          \<and> goal_handoff_row (h_id h) t = Some k \<and> phase k = Completed
          \<and> h_complete_report k = h_review_request_report h)"
proof -
  note wf = wf_store_parts(4,6) [OF assms(1)]
  obtain r h where f: "goal_row goal s = Some r" "g_status r = GoalActive" "g_status g = GoalDone"
    "goal_handoff_row (h_id h) s = Some h" "h_owner h = goal" "reviewer_close_guard (h_review_received_by h) h"
    "goal_handoff_row (h_id h) t = Some (close_row now (h_review_request_report h) h)"
    "affected (\<lambda>d. d_goal_id d = goal \<and> d_status d = DecisionOpen) (decisions s) = 0"
    "affected (\<lambda>d. d_goal_id d = goal \<and> d_kind d = KindGoalReview
          \<and> d_status d = DecisionApplied \<and> d_answer_label d = ''approve'') (decisions s) \<noteq> 0"
    using FinalizeGoalReview_post [OF wf, THEN postD, OF assms(2)] by blast
  have "wf_row h"
    using wf(1) f(4) unfolding goal_handoff_row_def wf_table_def by (auto dest: find_Some_in)
  then have "phase h = InReview \<and> phase (close_row now (h_review_request_report h) h) = Completed"
    using f(6) by (auto simp: reviewer_close_guard_def close_row_def phase_def wf_row_def)
  then show ?thesis
    using f by (auto simp: affected_0 affected_pos close_row_def)
qed

definition review_decision :: "int \<Rightarrow> DecisionStatus \<Rightarrow> string \<Rightarrow> time \<Rightarrow> decision" where
  "review_decision i st label at = (a_decision i)\<lparr>d_kind := KindGoalReview, d_status := st,
     d_answer_label := label, d_answered_at := Some at,
     d_applied_at := (if st = DecisionApplied then Some at else None)\<rparr>"

text \<open>
  A goal whose report was approved once, submitted again and then rejected; its handoff has been
  submitted once more and taken for review by the commander, session 1.
\<close>

definition judged :: "decision list \<Rightarrow> store" where
  "judged ds = example\<lparr>decisions := ds,
     goals := [(a_goal 1)\<lparr>g_work_done := ''w'', g_now_possible := ''n'', g_how_to_verify := ''h'',
       g_surprises := ''s'', g_needs_review := ''r''\<rparr>],
     goal_handoffs := [review_receive_row (Some 1) (sec 96) (review_request_row (Some 2) (sec 95) ''all done''
       (receive_row (Some 2) (sec 2) (new_handoff ''gh'' 1 (Some 1) (sec 1) None)))]\<rparr>"

lemma judged_ok:
  "wf_store (judged [review_decision 1 DecisionApplied ''approve'' (sec 90)])"
  "\<not> isl (fst (FinalizeGoalReview 1 1 (sec 100) (judged [review_decision 1 DecisionApplied ''approve'' (sec 90)])))"
  by code_simp+

theorem goal_finalization_witness:
  "g_status (projr (fst (FinalizeGoalReview 1 1 (sec 100)
     (judged [review_decision 1 DecisionApplied ''approve'' (sec 90)])))) = GoalDone"
  using goal_finalization [OF judged_ok(1) run_ok [OF judged_ok(2)]] by blast

text \<open>
  An approval outlives a later rejection. The check of \<open>FinalizeGoalReview\<close> counts
  every approved review of the goal, not the latest one: a goal that was approved, submitted again
  with a new report and then rejected by the human can still be finished, without a new approval.
\<close>

theorem earlier_approval_outlives_rejection:
  "\<exists>s. wf_store s
     \<and> map (\<lambda>d. (d_answer_label d, d_answered_at d)) (filter (\<lambda>d. d_kind d = KindGoalReview) (decisions s))
         = [(''approve'', Some (sec 90)), (''reject'', Some (sec 94))]
     \<and> (\<exists>g. fst (FinalizeGoalReview 1 1 (sec 100) s) = Inr g \<and> g_status g = GoalDone)"
proof (intro exI conjI)
  let ?s = "judged [review_decision 1 DecisionApplied ''approve'' (sec 90),
      review_decision 2 DecisionAnswered ''reject'' (sec 94)]"
  show wf: "wf_store ?s" by code_simp
  show "map (\<lambda>d. (d_answer_label d, d_answered_at d)) (filter (\<lambda>d. d_kind d = KindGoalReview) (decisions ?s))
         = [(''approve'', Some (sec 90)), (''reject'', Some (sec 94))]" by code_simp
  have ok: "\<not> isl (fst (FinalizeGoalReview 1 1 (sec 100) ?s))" by code_simp
  from run_ok [OF ok] show "fst (FinalizeGoalReview 1 1 (sec 100) ?s) = Inr (projr (fst (FinalizeGoalReview 1 1 (sec 100) ?s)))"
    by (metis fst_conv)
  show "g_status (projr (fst (FinalizeGoalReview 1 1 (sec 100) ?s))) = GoalDone" by code_simp
qed

end
