(* ===== verification/Atct_Withdrawal.thy ===== *)
theory Atct_Withdrawal
  imports Atct_Task_Effects Atct_Example
begin

text \<open>
  What withdrawing an active goal does to its decisions, its tasks and the handoffs of its tasks.
\<close>

section \<open>The loops\<close>

lemma post_each:
  "(\<And>x ys u. I (x # ys) u \<Longrightarrow> post (f x) u (\<lambda>_. I ys)) \<Longrightarrow> I xs s \<Longrightarrow> post (each f xs) s (\<lambda>_. I [])"
proof (induction xs arbitrary: s)
  case (Cons x xs)
  have "post (f x) s (\<lambda>_. I xs)" by (rule Cons.prems(1)) (rule Cons.prems(2))
  then have "post (f x) s (\<lambda>_ t. post (each f xs) t (\<lambda>_. I []))"
    by (rule post_mono) (rule Cons.IH [OF Cons.prems(1)])
  then show ?case by (simp add: post_bnd)
qed (simp add: post_ret)

text \<open>The decisions still to be withdrawn contain every open decision of the goal.\<close>

definition withdrawing :: "int \<Rightarrow> store \<Rightarrow> decision list \<Rightarrow> store \<Rightarrow> bool" where
  "withdrawing goal s ds u \<longleftrightarrow> (\<exists>f. u = decisions_update f s)
     \<and> (\<forall>d\<in>set (decisions u). d_goal_id d = goal \<and> d_status d = DecisionOpen \<longrightarrow> d_id d \<in> d_id ` set ds)"

lemma withdraw_all:
  "withdrawing goal s ds s \<Longrightarrow>
     post (each (\<lambda>d. withdrawDecisionWith (d_id d) reason) ds) s (\<lambda>_. withdrawing goal s [])"
proof (rule post_each [where I = "withdrawing goal s"])
  fix d ys u
  assume u: "withdrawing goal s (d # ys) u"
  show "post (withdrawDecisionWith (d_id d) reason) u (\<lambda>_. withdrawing goal s ys)"
    unfolding withdrawDecisionWith_def WithdrawDecision_sql_def
    by (rule post_bnd, rule post_exec_update, rule post_check)
      (use u in \<open>auto simp: withdrawing_def set_update_where intro: exI\<close>)
qed

text \<open>The handoffs still to be closed contain every open handoff of a task of the goal.\<close>

definition of_goal :: "int \<Rightarrow> store \<Rightarrow> handoff \<Rightarrow> bool" where
  "of_goal goal s h \<longleftrightarrow> (\<exists>k\<in>set (tasks s). t_id k = h_owner h \<and> t_goal_id k = goal)"

definition closing :: "int \<Rightarrow> store \<Rightarrow> handoff list \<Rightarrow> store \<Rightarrow> bool" where
  "closing goal s hs u \<longleftrightarrow> (\<exists>f g. u = task_handoff_entries_update f (task_handoffs_update g s))
     \<and> wf_table (task_handoffs u)
     \<and> (\<forall>h\<in>set (task_handoffs u). handoff_open h \<and> of_goal goal s h \<longrightarrow>
          (\<exists>x\<in>set hs. h_id x = h_id h \<and> h_owner x = h_owner h))"

lemma close_all:
  "closing goal s hs s \<Longrightarrow> post (each (close_withdrawn_handoff reason now) hs) s (\<lambda>_. closing goal s [])"
proof (rule post_each [where I = "closing goal s"])
  fix h ys u
  assume u: "closing goal s (h # ys) u"
  let ?P = "\<lambda>x. h_id x = h_id h \<and> h_owner x = h_owner h \<and> close_guard x"
  let ?f = "close_row (rfc3339 now) (if reason = [] then None else Some reason)"
  have le: "table_le (task_handoffs u) (update_where ?P ?f (task_handoffs u))"
    by (intro table_le_update) (auto intro: handoff_moves)
  have "closing goal s ys (task_handoff_entries_update e (task_handoffs_update (update_where ?P ?f) u))" for e
  proof -
    have "\<exists>f g. task_handoff_entries_update e (task_handoffs_update (update_where ?P ?f) u)
        = task_handoff_entries_update f (task_handoffs_update g s)"
    proof -
      obtain f g where "u = task_handoff_entries_update f (task_handoffs_update g s)"
        using u by (auto simp: closing_def)
      then have "task_handoff_entries_update e (task_handoffs_update (update_where ?P ?f) u)
        = task_handoff_entries_update (e \<circ> f) (task_handoffs_update (update_where ?P ?f \<circ> g) s)"
        by simp
      then show ?thesis by blast
    qed
    moreover have "wf_table (update_where ?P ?f (task_handoffs u))"
      using u le by (simp add: closing_def table_le_def)
    moreover have "\<exists>z\<in>set ys. h_id z = h_id x \<and> h_owner z = h_owner x"
      if x: "x \<in> set (update_where ?P ?f (task_handoffs u))" "handoff_open x" "of_goal goal s x" for x
    proof -
      obtain y where y: "y \<in> set (task_handoffs u)" "x = (if ?P y then ?f y else y)"
        using x(1) by (auto simp: set_update_where)
      have "\<not> ?P y" using x(2) y(2) by (auto simp: close_row_def handoff_open_def)
      then have xy: "x = y" using y(2) by (simp only: if_False)
      have "h_requested_at y \<noteq> None" using u y(1) by (auto simp: closing_def wf_table_def wf_row_def)
      then have "\<not> (h_id y = h_id h \<and> h_owner y = h_owner h)"
        using \<open>\<not> ?P y\<close> x(2) xy by (auto simp: close_guard_def handoff_open_def)
      then show ?thesis using u y(1) x xy by (auto simp: closing_def)
    qed
    ultimately show ?thesis by (simp add: closing_def)
  qed
  then show "post (close_withdrawn_handoff reason now h) u (\<lambda>_. closing goal s ys)"
    unfolding close_withdrawn_handoff_def CompleteTaskHandoff_sql_def update_handoff_def Let_def
    by (intro post_bnd post_rules) auto
qed

lemma withdraw_all_post:
  assumes "fst (ListOpenDecisions_sql goal s) = Inr ds"
    and "\<And>f. \<forall>d\<in>set (f (decisions s)). d_goal_id d = goal \<longrightarrow> d_status d \<noteq> DecisionOpen \<Longrightarrow>
      Q () (decisions_update f s)"
  shows "post (each (\<lambda>d. withdrawDecisionWith (d_id d) reason) ds) s Q"
proof (rule post_mono [OF withdraw_all])
  show "withdrawing goal s ds s"
    using assms(1) by (auto simp: withdrawing_def ListOpenDecisions_sql_def select_decisions_def ask_def
        intro: exI [of _ id])
  show "Q x t" if "withdrawing goal s [] t" for x t
    using that assms(2) by (auto simp: withdrawing_def)
qed

lemma close_all_post:
  assumes "wf_table (task_handoffs s)" and "fst (ListOpenTaskHandoffsForGoal_sql goal s) = Inr hs"
    and "\<And>f g. \<forall>h\<in>set (g (task_handoffs s)). of_goal goal s h \<longrightarrow> \<not> handoff_open h \<Longrightarrow>
      Q () (task_handoff_entries_update f (task_handoffs_update g s))"
  shows "post (each (close_withdrawn_handoff reason now) hs) s Q"
proof (rule post_mono [OF close_all])
  have "\<exists>f g. s = task_handoff_entries_update f (task_handoffs_update g s)"
    by (rule exI [of _ id], rule exI [of _ id]) simp
  then show "closing goal s hs s"
    using assms(1,2) unfolding closing_def of_goal_def
    by (fastforce simp: ListOpenTaskHandoffsForGoal_sql_def ask_def list_ex_iff)
  show "Q x t" if "closing goal s [] t" for x t
    using that assms(3) unfolding closing_def by fastforce
qed

lemma task_goals_kept:
  "of_goal goal (task_handoff_entries_update f (task_handoffs_update g s)) h \<longleftrightarrow> of_goal goal s h"
  "of_goal goal (published_update l s) h \<longleftrightarrow> of_goal goal s h"
  by (simp_all add: of_goal_def)

section \<open>Withdrawing\<close>

text \<open>
  Property C12. What withdrawing an active goal closes. When \<open>WithdrawActiveGoal\<close> returns, the goal
  was active and is dropped with the reason as its summary; none of its decisions is open, none of
  its tasks is to do or being done, and no handoff of its tasks is open.
\<close>

theorem withdrawal_closes_open_work:
  assumes "wf_store s" and "WithdrawActiveGoal goal reason now s = (Inr (), t)"
  shows "(\<exists>g. goal_row goal s = Some g \<and> g_status g = GoalActive)
     \<and> (\<exists>g. goal_row goal t = Some g \<and> g_status g = GoalDropped \<and> g_result_summary g = reason)
     \<and> (\<forall>d\<in>set (decisions t). d_goal_id d = goal \<longrightarrow> d_status d \<noteq> DecisionOpen)
     \<and> (\<forall>k\<in>set (tasks t). t_goal_id k = goal \<longrightarrow> t_status k \<notin> {TaskTodo, TaskDoing})
     \<and> (\<forall>h\<in>set (task_handoffs t). of_goal goal t h \<longrightarrow> \<not> handoff_open h)"
proof -
  have "post (WithdrawActiveGoal goal reason now) s (\<lambda>_ t.
      (\<exists>g. goal_row goal s = Some g \<and> g_status g = GoalActive)
     \<and> (\<exists>g. goal_row goal t = Some g \<and> g_status g = GoalDropped \<and> g_result_summary g = reason)
     \<and> (\<forall>d\<in>set (decisions t). d_goal_id d = goal \<longrightarrow> d_status d \<noteq> DecisionOpen)
     \<and> (\<forall>k\<in>set (tasks t). t_goal_id k = goal \<longrightarrow> t_status k \<notin> {TaskTodo, TaskDoing})
     \<and> (\<forall>h\<in>set (task_handoffs t). of_goal goal t h \<longrightarrow> \<not> handoff_open h))"
    unfolding WithdrawActiveGoal_def WithdrawActiveGoal_sql_def DropOpenTasksForGoal_sql_def
    apply (rule withdraw_all_post, assumption
        | rule close_all_post, simp (no_asm) add: wf_store_parts [OF assms(1)], assumption
        | rule post_rules post_bnd | rule post_reads, rule reads_intros)+
    subgoal premises p for _ st
    proof -
      obtain g where g: "goal_row goal s = Some g" "g_status g = GoalActive"
        using p(3,4) by (auto simp: GetGoalStatus_sql_def bnd_def ask_def need_def ret_def fail_def split: option.splits)
      show ?thesis
        using g p(7,10) goal_row_id [OF g(1)]
        by (auto simp: goal_row_update task_goals_kept set_update_where)
    qed
    done
  then show ?thesis using assms(2) by (rule postD)
qed

lemma example_withdrawal_ok: "\<not> isl (fst (WithdrawActiveGoal 1 ''moot'' (sec 100) example))"
  by code_simp

theorem withdrawal_closes_open_work_witness:
  "\<exists>g. goal_row 1 (snd (WithdrawActiveGoal 1 ''moot'' (sec 100) example)) = Some g
     \<and> g_status g = GoalDropped \<and> g_result_summary g = ''moot''"
proof -
  have "WithdrawActiveGoal 1 ''moot'' (sec 100) example = (Inr (), snd (WithdrawActiveGoal 1 ''moot'' (sec 100) example))"
    using run_ok [OF example_withdrawal_ok] by simp
  from withdrawal_closes_open_work [OF wf_example this] show ?thesis by blast
qed

text \<open>
  What withdrawing leaves open. A task that is in review when its goal is withdrawn
  stays in review for good, although its handoff is closed, and the handoff of the goal itself
  stays open.
\<close>

theorem withdrawal_leaves_reviews_open:
  "case WithdrawActiveGoal 1 ''moot'' (sec 102) under_review of (r, t) \<Rightarrow>
     r = Inr () \<and> map g_status (goals t) = [GoalDropped] \<and> map t_status (tasks t) = [TaskReview]
   \<and> map handoff_open (task_handoffs t) = [False] \<and> map handoff_open (goal_handoffs t) = [True]"
  by code_simp

end
