(* ===== verification/Atct_Entry_Facts.thy ===== *)
theory Atct_Entry_Facts
  imports Atct_Example
begin

text \<open>
  Properties of the threads of handoff entries: what an appended entry is, that a thread is only
  ever extended, that reading one page by page ends and yields all of it, and that the watermark
  by which the daemon notices new entries misses none.
\<close>

text \<open>
  An appended entry. When \<open>AppendTaskHandoffEntry\<close> returns, the handoff exists and is
  not completed, the author is its requester or its receiver, and exactly one entry was added at
  the end of the table: for this handoff, by this author, of a kind of the vocabulary, with the
  trimmed body, which is neither empty nor longer than the limit.
\<close>

theorem appended_entry:
  assumes run: "AppendTaskHandoffEntry hid kind body author rel now s = (Inr e, t)"
  shows "task_handoff_entries t = task_handoff_entries s @ [e] \<and> e_handoff_id e = hid
     \<and> e_body e = TrimSpace body \<and> e_body e \<noteq> [] \<and> length (e_body e) \<le> 16384
     \<and> validHandoffEntryKind (e_kind e) \<and> e_author_session_id e = Some author
     \<and> (\<exists>h. task_handoff_row hid s = Some h \<and> h_completed_report_at h = None
           \<and> (h_requested_by h = Some author \<or> h_received_by h = Some author))"
  using AppendTaskHandoffEntry_effect [OF run] by (simp add: HandoffEntryBodyMaxBytes_def)

text \<open>The example with an entry appended by the session that holds the task.\<close>

definition new_entry :: handoff_entry where
  "new_entry = \<lparr>e_id = 1, e_handoff_id = ''th'', e_kind = ''review_requested'', e_body = ''half way'',
     e_author_session_id = Some 3, e_in_reply_to_id = None, e_created_at = sec 100\<rparr>"

definition appended :: store where
  "appended = example\<lparr>task_handoff_entries := [new_entry]\<rparr>"

lemma half_way: "TrimSpace ''  half way '' = ''half way''" "TrimSpace ''half way'' = ''half way''"
  by code_simp+

lemma append_half_way:
  "AppendTaskHandoffEntry ''th'' ''review_requested'' ''  half way '' 3 [] (sec 100) example = (Inr new_entry, appended)"
  by code_simp

lemma appended_later: "steps example appended"
  using one_step [OF store_step.append_task_entry
      [of example "''th''" "''review_requested''" "''  half way ''" 3 "[]" "sec 100"]] by (simp add: append_half_way)

theorem appended_entry_witness:
  "e_body (projr (fst (AppendTaskHandoffEntry ''th'' ''review_requested'' ''  half way '' 3 [] (sec 100) example))) = ''half way''"
  using appended_entry [OF append_half_way] by (simp add: append_half_way half_way(1))

lemma entries_prefix:
  assumes "entries_extend es es'" and "i < length es"
  shows "i < length es' \<and> entry_core (es' ! i) = entry_core (es ! i)"
proof -
  obtain new where new: "map entry_core es' = map entry_core es @ new"
    using assms(1) by (auto simp: entries_extend_def)
  then have "length es \<le> length es'" by (metis length_append length_map le_add1)
  moreover have "map entry_core es' ! i = map entry_core es ! i"
    using new assms(2) by (simp add: nth_append)
  ultimately show ?thesis using assms(2) by simp
qed

text \<open>
  Property C20. A thread is append-only. Along any run of the store every entry of a task handoff, of
  a goal handoff and of a plan handoff stays at its place in the table, with its id, its handoff, its
  kind, its body, the entry it replies to and its time; new entries come after it, with higher ids.
  (The author may be forgotten when its session is deleted.)
\<close>

theorem threads_are_append_only:
  assumes wf: "wf_store s" and later: "steps s t"
    and table: "entries = task_handoff_entries \<or> entries = goal_handoff_entries \<or> entries = plan_handoff_entries"
    and i: "i < length (entries s)"
  shows "i < length (entries t)
     \<and> (entries t ! i)\<lparr>e_author_session_id := None\<rparr> = (entries s ! i)\<lparr>e_author_session_id := None\<rparr>
     \<and> (\<forall>j. i < j \<and> j < length (entries t) \<longrightarrow> e_id (entries t ! i) < e_id (entries t ! j))"
proof -
  have ext: "entries_extend (entries s) (entries t)"
    using steps_tables(1) [OF later] table by (auto simp: logs_extend_def)
  have "wf_entries (entries t)"
    using wf_store_parts(2) [OF wf_store_step [OF later wf]] table by (auto simp: wf_logs_def)
  then have "sorted_wrt (<) (map e_id (entries t))" by (simp add: wf_entries_def)
  then have "\<forall>j. i < j \<and> j < length (entries t) \<longrightarrow> e_id (entries t ! i) < e_id (entries t ! j)"
    unfolding sorted_wrt_iff_nth_less by simp
  with entries_prefix [OF ext i] show ?thesis by (simp add: entry_core_def)
qed

theorem threads_are_append_only_witness:
  "e_body (goal_handoff_entries (snd (WithdrawActiveGoal 1 ''moot'' (sec 102) example)) ! 0) = ''requested''"
proof -
  have later: "steps example (snd (WithdrawActiveGoal 1 ''moot'' (sec 102) example))"
    by (rule one_step) (rule store_step.withdraw_active_goal)
  have first: "0 < length (goal_handoff_entries example)" by code_simp
  have body: "e_body (goal_handoff_entries example ! 0) = ''requested''" by code_simp
  let ?e = "goal_handoff_entries (snd (WithdrawActiveGoal 1 ''moot'' (sec 102) example)) ! 0"
  have "?e\<lparr>e_author_session_id := None\<rparr> = (goal_handoff_entries example ! 0)\<lparr>e_author_session_id := None\<rparr>"
    using threads_are_append_only [of example _ goal_handoff_entries, OF wf_example later _ first] by blast
  then have "e_body (?e\<lparr>e_author_session_id := None\<rparr>)
      = e_body ((goal_handoff_entries example ! 0)\<lparr>e_author_session_id := None\<rparr>)"
    by (rule arg_cong)
  then show ?thesis using body by simp
qed

text \<open>The example with a correspondence on the handoff of the task.\<close>

definition an_entry :: "int \<Rightarrow> handoff_entry" where
  "an_entry i = \<lparr>e_id = i, e_handoff_id = ''th'', e_kind = ''request'', e_body = ''text'',
     e_author_session_id = Some 2, e_in_reply_to_id = None, e_created_at = sec 1\<rparr>"

definition corresponded :: store where
  "corresponded = example\<lparr>task_handoff_entries := [an_entry 1, an_entry 2]\<rparr>"

text \<open>
  A thread is read to its end. The loop that collects the history of a task handoff
  page by page (\<open>appendHandoffEntryRecords\<close> over \<open>ListTaskHandoffEntries\<close>) has no bound of its own,
  yet it returns, with any page size the store accepts, and what it returns is the whole thread of
  the handoff: each entry once, in the order of the ids, after those collected before.
\<close>

theorem thread_is_read_whole:
  assumes wf: "wf_store s" and row: "task_handoff_row hid s = Some h" and lim: "0 < lim" "lim \<le> 200"
  shows "appendHandoffEntryRecords (\<lambda>c. fst (ListTaskHandoffEntries hid c lim s)) 0 acc
     = Some (Inr (acc @ filter (\<lambda>e. e_handoff_id e = hid) (task_handoff_entries s)))"
proof -
  have es: "wf_entries (task_handoff_entries s)"
    using wf_store_parts(2) [OF wf] by (simp add: wf_logs_def)
  then have "thread_after hid 0 (task_handoff_entries s) = filter (\<lambda>e. e_handoff_id e = hid) (task_handoff_entries s)"
    by (auto simp: thread_after_sorted wf_entries_def intro: filter_cong)
  moreover have "appendHandoffEntryRecords (\<lambda>c. fst (ListTaskHandoffEntries hid c lim s)) 0 acc
      = Some (Inr (acc @ thread_after hid 0 (task_handoff_entries s)))"
    using lim by (intro read_thread [OF es lim(1)] ListTaskHandoffEntries_page [OF row])
      (simp_all add: HandoffHistoryMaxLimit_def)
  ultimately show ?thesis by simp
qed

theorem thread_is_read_whole_witness:
  "appendHandoffEntryRecords (\<lambda>c. fst (ListTaskHandoffEntries ''th'' c 1 corresponded)) 0 [] = Some (Inr [an_entry 1, an_entry 2])"
proof -
  have wf: "wf_store corresponded" by code_simp
  have "task_handoff_row ''th'' corresponded = Some (hd (task_handoffs corresponded))" by code_simp
  note read = thread_is_read_whole [OF wf this, of 1 "[]"]
  show ?thesis
    unfolding read [OF zero_less_one one_le_numeral] by (simp add: corresponded_def an_entry_def)
qed

text \<open>
  The watermark misses nothing. The sum of the highest ids of the task and of the goal
  entries, by which the daemon decides whether there is anything to send, is the same at two times
  of a run exactly when no entry was appended to either table in between.
\<close>

theorem watermark_misses_nothing:
  assumes "wf_store s" and "steps s t"
  shows "fst (HandoffEntryWatermark s) = fst (HandoffEntryWatermark t) \<longleftrightarrow>
     length (task_handoff_entries s) = length (task_handoff_entries t)
   \<and> length (goal_handoff_entries s) = length (goal_handoff_entries t)"
proof -
  have same: "map e_id es = map e_id es' \<longleftrightarrow> length es = length es'" if "entries_extend es es'" for es es'
  proof -
    note ids = entries_extend_ids [OF that]
    obtain new where new: "map e_id es' = map e_id es @ new" using ids by blast
    have "length es' = length es + length new" using arg_cong [OF new, of length] by simp
    with new show ?thesis by simp
  qed
  have ext: "logs_extend s t" by (rule steps_tables(1) [OF assms(2)])
  then show ?thesis
    unfolding watermark_detects [OF ext wf_store_parts(2) [OF assms(1)]]
    by (auto simp: logs_extend_def same)
qed

theorem watermark_misses_nothing_witness:
  "fst (HandoffEntryWatermark example) \<noteq> fst (HandoffEntryWatermark appended)"
proof -
  have "length (task_handoff_entries example) = 0" by (simp add: example_def empty_store_def)
  moreover have "length (task_handoff_entries appended) = 1" by (simp add: appended_def)
  ultimately show ?thesis using watermark_misses_nothing [OF wf_example appended_later] by simp
qed

end
