(* ===== verification/Atct_Task_Facts.thy ===== *)
theory Atct_Task_Facts
  imports Atct_Task_Effects Atct_Example
begin

text \<open>
  Properties of the operations on tasks: declaring the tasks of a goal, changing the status of a
  task, claiming one.
\<close>

section \<open>Declaring tasks\<close>

lemma reads_same: "reads m \<Longrightarrow> snd (m s) = s"
  by (simp add: reads_def)

lemma snd_bnd_reads: "reads m \<Longrightarrow> (\<And>x. fst (m s) = Inr x \<Longrightarrow> snd (f x s) = s) \<Longrightarrow> snd (bnd m f s) = s"
  by (cases "m s") (auto simp: bnd_def reads_def split: sum.splits prod.splits dest: spec [of _ s])

lemma CreateTasks_again:
  assumes "\<forall>j<length titles. declared goal key j s"
  shows "snd (CreateTasks goal agent key titles descs now s) = s"
proof -
  have loop: "create_declared goal agent key (rfc3339 now) base 0 (zip titles descs) s = (Inr (), s)" for base
    using assms by (intro create_declared_present) auto
  have tx: "snd (transaction (bnd (ListTasks_sql goal) (\<lambda>ex. bnd (MaxTaskSortOrder_sql goal) (\<lambda>mx.
      bnd (create_declared goal agent key (rfc3339 now) (mx + 1) 0 (zip titles descs)) (\<lambda>_.
      ret (t_declare_key ` set ex))))) s) = s"
    by (simp add: ListTasks_sql_def MaxTaskSortOrder_sql_def op_eval op_eval_defs loop)
  have rest: "snd (bnd m f s) = s" if "snd (m s) = s" and "\<And>x. reads (f x)" for m and f :: "'b \<Rightarrow> 'c store_op"
    using that by (cases "m s") (auto simp: bnd_def reads_def split: sum.splits)
  show ?thesis
    unfolding CreateTasks_def
    by (intro snd_bnd_reads rest tx reads_intros)
qed

lemma max_sort_order:
  "t \<in> set ts \<Longrightarrow> t_sort_order t \<le> foldr (\<lambda>t m. max (t_sort_order t) m) ts (- 1)"
  by (induction ts) auto

lemma CreateTasks_run:
  assumes g: "goal_row goal s = Some g" "g_status g = GoalActive"
    and rows: "length descs = length titles" "\<not> list_ex blank descs"
  shows "\<exists>out t new. CreateTasks goal agent key titles descs now s = (Inr out, t) \<and> tasks t = tasks s @ new
     \<and> (\<forall>j<length titles. declared goal key j t)
     \<and> ((\<forall>j<length titles. \<not> declared goal key j s) \<longrightarrow>
          map (\<lambda>t. (t_title t, t_description t)) new = zip titles descs)"
proof -
  define base where "base = foldr (\<lambda>t m. max (t_sort_order t) m) (filter (\<lambda>t. t_goal_id t = goal) (tasks s)) (- 1) + 1"
  have "goal_exists goal s"
    using g(1) by (auto simp: goal_row_def goal_exists_def dest!: find_Some_in)
  moreover have "\<forall>t\<in>set (tasks s). t_goal_id t = goal \<longrightarrow> t_sort_order t < base + int 0"
    using max_sort_order [of _ "filter (\<lambda>t. t_goal_id t = goal) (tasks s)"] by (fastforce simp: base_def)
  ultimately obtain t new where loop:
      "create_declared goal agent key (rfc3339 now) base 0 (zip titles descs) s = (Inr (), t)"
      "new_tasks goal s new t" "\<forall>j<length (zip titles descs). declared goal key j t"
      "(\<forall>j<length (zip titles descs). \<not> declared goal key j s) \<longrightarrow>
          map (\<lambda>t. (t_title t, t_description t)) new = zip titles descs"
    using create_declared_run [of goal s base 0 agent key "rfc3339 now" "zip titles descs"] by auto
  have goal: "GetGoal goal s = (Inr (g\<lparr>g_derived_from := nullable (nz (g_derived_from g))\<rparr>), s)"
    using GetGoal_value [of goal s] g reads_same [of "GetGoal goal" s] by (cases "GetGoal goal s") (auto intro: reads_intros)
  obtain out where "CreateTasks goal agent key titles descs now s = (Inr out, t)"
    using rows loop(1)
    by (simp add: CreateTasks_def bnd_def check_def goal g ret_def ListTasks_sql_def ListTasks_def MaxTaskSortOrder_sql_def
        transaction_def ask_def base_def)
  with loop show ?thesis using rows by (auto simp: new_tasks_def)
qed

text \<open>
  Property C32. Declaring the tasks of a goal. For an active goal \<open>CreateTasks\<close> always succeeds; it
  only appends tasks, and afterwards every row of the declaration has its task. If the key is new,
  the tasks it appends are the declared ones in their order. And it can be retried at any time: at
  any later point of the run the same key with as many rows or fewer, whatever they say, changes
  nothing.
\<close>

theorem declaring_tasks_is_idempotent:
  assumes "goal_row goal s = Some g" and "g_status g = GoalActive"
    and "length descs = length titles" and "\<not> list_ex blank descs"
  shows "\<exists>out t new. CreateTasks goal agent key titles descs now s = (Inr out, t) \<and> tasks t = tasks s @ new
     \<and> ((\<forall>j<length titles. \<not> declared goal key j s) \<longrightarrow>
          map (\<lambda>t. (t_title t, t_description t)) new = zip titles descs)
     \<and> (\<forall>j<length titles. declared goal key j t)
     \<and> (\<forall>u agent2 titles2 descs2 now2. steps t u \<longrightarrow> length titles2 \<le> length titles \<longrightarrow>
          snd (CreateTasks goal agent2 key titles2 descs2 now2 u) = u)"
proof -
  obtain out t new where run: "CreateTasks goal agent key titles descs now s = (Inr out, t)" "tasks t = tasks s @ new"
      "\<forall>j<length titles. declared goal key j t"
      "(\<forall>j<length titles. \<not> declared goal key j s) \<longrightarrow>
          map (\<lambda>t. (t_title t, t_description t)) new = zip titles descs"
    using CreateTasks_run [OF assms, of agent key now] by (elim exE conjE) (rule that)
  have again: "snd (CreateTasks goal agent2 key titles2 descs2 now2 u) = u"
    if later: "steps t u" and fewer: "length titles2 \<le> length titles" for u agent2 titles2 descs2 now2
  proof (intro CreateTasks_again allI impI)
    fix j assume "j < length titles2"
    with fewer run(3) show "declared goal key j u"
      by (intro declared_later [OF steps_tables(6) [OF later]]) simp
  qed
  show ?thesis
    by (intro exI conjI, rule run(1), rule run(2), rule run(4), rule run(3)) (intro allI impI, rule again)
qed

theorem declaring_tasks_is_idempotent_witness:
  "tasks (snd (CreateTasks 1 ''agent'' ''plan'' [''x'', ''y''] [''do x'', ''do y''] 7 example)) = tasks example
     @ drop 1 (tasks (snd (CreateTasks 1 ''agent'' ''plan'' [''x'', ''y''] [''do x'', ''do y''] 7 example)))"
proof -
  have g: "goal_row 1 example = Some (a_goal 1)" "g_status (a_goal 1) = GoalActive" "length (tasks example) = 1"
    by code_simp+
  have "length [''do x'', ''do y''] = length [''x'', ''y'']" "\<not> list_ex blank [''do x'', ''do y'']" by code_simp+
  from declaring_tasks_is_idempotent [OF g(1,2) this, of "''agent''" "''plan''" 7] show ?thesis
    using g(3) by auto
qed

section \<open>Changing the status\<close>

lemma task_handoffs_frame [simp]:
  "task_handoffs (tasks_update f s) = task_handoffs s"
  "task_handoffs (task_handoff_entries_update g s) = task_handoffs s"
  by simp_all

lemma affected_task: "affected (\<lambda>t. t_id t = i) (tasks s) = 0 \<longleftrightarrow> task_row i s = None"
  by (auto simp: affected_0 task_row_def find_None_iff_all)

lemma updateTask_post:
  assumes wf: "wf_table (task_handoffs s)"
  shows "post (updateTask task st held now) s (\<lambda>r t.
     map_option t_status (task_row task t) = Some st
   \<and> (st = TaskDone \<longrightarrow> affected (\<lambda>d. d_task_id d = Some task \<and> d_status d = DecisionOpen) (decisions s) = 0)
   \<and> (case held of None \<Rightarrow> task_handoffs t = task_handoffs s
      | Some h0 \<Rightarrow> \<exists>h. task_handoff_row (h_id h0) s = Some h \<and> h_owner h = task \<and> close_guard h
          \<and> task_handoffs t = set_row (close_row now (Some taskHandoffReleasedReport) h) (task_handoffs s)))"
  unfolding updateTask_def UpdateTaskStatus_sql_def publishTaskHandoffReported_def
  apply ((rule task_hits, simp (no_asm) add: wf, rule post_False, simp (no_asm)
        | rule post_rules post_bnd | rule post_reads, ((rule reads_intros)+)[1]
        | rule post_try_reads, ((rule reads_intros)+)[1]
        | (auto simp: affected_task; fail))+)
  done

lemma openTaskHandoff_value:
  assumes "fst (openTaskHandoff task s) = Inr v" and "h \<in> set (task_handoffs s)" and "h_owner h = task"
    and "received_open h"
  shows "v = Some h"
proof -
  let ?hs = "filter received_open (order_by h_id (filter (\<lambda>h. h_owner h = task) (task_handoffs s)))"
  have "openTaskHandoff task s = (Inr v, s)"
    using assms(1) reads_run [of "openTaskHandoff task" s "Inr v"] by (cases "openTaskHandoff task s") (auto intro: reads_intros)
  then have "?hs = [] \<and> v = None \<or> (\<exists>x. ?hs = [x] \<and> v = Some x)"
    by (auto simp: openTaskHandoff_def ListTaskHandoffs_def ListTaskHandoffs_sql_def op_run reads_run pick_one_run)
  moreover have "h \<in> set ?hs" using assms by simp
  ultimately show ?thesis by (elim disjE exE conjE) (simp_all only: list.set insert_iff empty_iff simp_thms)
qed

lemma released:
  assumes "fst (openTaskHandoff task s) = Inr held" and h: "h \<in> set (task_handoffs t)" "h_owner h = task" "received_open h"
    and t: "case held of None \<Rightarrow> task_handoffs t = task_handoffs s
      | Some h0 \<Rightarrow> \<exists>k. task_handoff_row (h_id h0) s = Some k \<and> h_owner k = task \<and> close_guard k
          \<and> task_handoffs t = set_row (close_row now report k) (task_handoffs s)"
  shows False
proof (cases held)
  case None
  then show False using openTaskHandoff_value [OF assms(1)] h t by simp
next
  case (Some h0)
  then obtain k where k: "task_handoff_row (h_id h0) s = Some k" "task_handoffs t = set_row (close_row now report k) (task_handoffs s)"
    using t by auto
  then have "h \<in> set (task_handoffs s) \<and> h_id h \<noteq> h_id k"
    using h by (auto simp: set_row_def set_update_where close_row_def received_open_def split: if_splits)
  then show False
    using openTaskHandoff_value [OF assms(1) _ h(2,3)] Some task_handoff_row_id [OF k(1)] by auto
qed

lemma authorized_release:
  assumes "fst (authorizeTaskStatusRelease task st i (Some h) now s) = Inr ()" and "st \<in> {TaskDone, TaskDropped}"
  shows "h_received_by h = Some i \<or> (\<exists>p. fst (ProjectIDForTask task s) = Inr p \<and> fst (ProjectIDForAgentSession i s) = Inr p)"
proof -
  have "post (authorizeTaskStatusRelease task st i (Some h) now) s (\<lambda>_ _.
     h_received_by h = Some i \<or> (\<exists>p. fst (ProjectIDForTask task s) = Inr p \<and> fst (ProjectIDForAgentSession i s) = Inr p))"
    unfolding authorizeTaskStatusRelease_def Let_def
    by ((rule post_rules post_bnd | rule post_try_reads, ((rule reads_intros)+)[1]
        | rule post_reads, ((rule reads_intros)+)[1]
        | (use assms(2) in \<open>auto simp: nz_Some\<close>; fail))+)
  then show ?thesis using assms(1) by (cases "authorizeTaskStatusRelease task st i (Some h) now s") (auto simp: post_def)
qed

text \<open>
  Property C33. Changing the status of a task. When \<open>UpdateTask\<close> returns, the task has the status
  asked for. It becomes done only when none of its decisions is open. It leaves work (to do, done,
  dropped) only together with the handoff under which it was worked on, which is closed; and a
  task somebody holds is finished or dropped only by the session that holds it or by one of the same project.
\<close>

theorem task_status_change:
  assumes "wf_store s" and run: "UpdateTask task st i now s = (Inr r, t)"
  shows "map_option t_status (task_row task t) = Some st
     \<and> (st = TaskDone \<longrightarrow> (\<forall>d\<in>set (decisions s). d_task_id d = Some task \<longrightarrow> d_status d \<noteq> DecisionOpen))
     \<and> (st \<in> {TaskTodo, TaskDone, TaskDropped} \<longrightarrow>
          (\<forall>h\<in>set (task_handoffs t). h_owner h = task \<longrightarrow> \<not> received_open h))
     \<and> (\<forall>h\<in>set (task_handoffs s). h_owner h = task \<and> received_open h \<and> st \<in> {TaskDone, TaskDropped} \<longrightarrow>
          h_received_by h = Some i
        \<or> (\<exists>p. fst (ProjectIDForTask task s) = Inr p \<and> fst (ProjectIDForAgentSession i s) = Inr p))"
proof -
  note wf = wf_store_parts(3) [OF assms(1)]
  let ?Q = "\<lambda>held t. map_option t_status (task_row task t) = Some st
   \<and> (st = TaskDone \<longrightarrow> affected (\<lambda>d. d_task_id d = Some task \<and> d_status d = DecisionOpen) (decisions s) = 0)
   \<and> (case held of None \<Rightarrow> task_handoffs t = task_handoffs s
      | Some h0 \<Rightarrow> \<exists>h. task_handoff_row (h_id h0) s = Some h \<and> h_owner h = task \<and> close_guard h
          \<and> task_handoffs t = set_row (close_row now (Some taskHandoffReleasedReport) h) (task_handoffs s))"
  have "post (UpdateTask task st i now) s (\<lambda>_ t. \<exists>held. ?Q held t
     \<and> (st \<in> {TaskTodo, TaskDone, TaskDropped} \<longrightarrow> fst (openTaskHandoff task s) = Inr held
          \<and> fst (authorizeTaskStatusRelease task st i held now s) = Inr ()))"
    unfolding UpdateTask_def
    by (rule post_rules post_bnd | rule post_reads, rule reads_intros
        | rule post_mono [OF updateTask_post [OF wf]], rule exI, rule conjI, assumption,
          (intro impI conjI; (assumption | simp (no_asm_simp); fail | erule (1) notE)))+
  from postD [OF this run] obtain held where held: "?Q held t"
     "st \<in> {TaskTodo, TaskDone, TaskDropped} \<Longrightarrow> fst (openTaskHandoff task s) = Inr held
          \<and> fst (authorizeTaskStatusRelease task st i held now s) = Inr ()" by (elim exE conjE) (rule that; blast)
  show ?thesis
  proof (intro conjI ballI impI)
    show "map_option t_status (task_row task t) = Some st" using held(1) by (rule conjunct1)
    show "d_status d \<noteq> DecisionOpen" if "st = TaskDone" "d \<in> set (decisions s)" "d_task_id d = Some task" for d
      using held(1) that by (auto simp: affected_0)
    show "\<not> received_open h" if "st \<in> {TaskTodo, TaskDone, TaskDropped}" "h \<in> set (task_handoffs t)" "h_owner h = task" for h
      using held(1) held(2) [OF that(1)] that(2,3) by (auto elim!: released)
    show "h_received_by h = Some i
        \<or> (\<exists>p. fst (ProjectIDForTask task s) = Inr p \<and> fst (ProjectIDForAgentSession i s) = Inr p)"
      if "h \<in> set (task_handoffs s)" "h_owner h = task \<and> received_open h \<and> st \<in> {TaskDone, TaskDropped}" for h
    proof -
      have st: "st \<in> {TaskDone, TaskDropped}" using that(2) by blast
      then have "held = Some h" "fst (authorizeTaskStatusRelease task st i held now s) = Inr ()"
        using openTaskHandoff_value that held(2) by auto
      then show ?thesis using authorized_release [OF _ st] by simp
    qed
  qed
qed

theorem task_status_change_witness:
  "map_option t_status (task_row 1 (snd (UpdateTask 1 TaskDone 3 (sec 100) example))) = Some TaskDone"
proof -
  have ok: "\<not> isl (fst (UpdateTask 1 TaskDone 3 (sec 100) example))" by code_simp
  show ?thesis using task_status_change [OF wf_example run_ok [OF ok]] by blast
qed

section \<open>Receiving what was recovered\<close>

definition recovered :: store where
  "recovered = example\<lparr>tasks := [(a_task 1)\<lparr>t_status := TaskTodo\<rparr>], task_handoffs :=
     [recover_row (sec 60) ''lost'' (receive_row (Some 4) (sec 4) (new_handoff ''th'' 1 (Some 2) (sec 3) None))],
     goal_handoffs :=
     [recover_row (sec 60) ''lost'' (receive_row (Some 4) (sec 2) (new_handoff ''gh'' 1 (Some 1) (sec 1) None))]\<rparr>"

text \<open>
  A recovered handoff of a task can be received again. Recovery closes a handoff for
  good (its task can be handed over anew), but the statement behind \<open>ReceiveTaskHandoff\<close> does not
  ask whether the handoff was recovered, as the one behind \<open>ReceiveGoalHandoff\<close> does: any session
  may still receive the closed handoff and set its task to being done, while no open handoff of the
  task exists.
\<close>

theorem recovered_task_handoff_is_received_again:
  "wf_store recovered
   \<and> (case ReceiveTaskHandoff ''th'' 1 3 (sec 100) recovered of (r, t) \<Rightarrow>
        \<not> isl r \<and> map h_received_by (task_handoffs t) = [Some 3] \<and> map handoff_open (task_handoffs t) = [False]
      \<and> map t_status (tasks t) = [TaskDoing])
   \<and> isl (fst (ReceiveGoalHandoff ''gh'' 1 3 (sec 100) recovered))"
  by (intro conjI) code_simp+

end
