(* ===== verification/Atct_Claims.thy ===== *)
theory Atct_Claims
  imports Atct_Goal_Effects Atct_Example
begin

text \<open>
  Properties of claiming a goal: what a claim that returns means, and what one that fails may leave.
\<close>

text \<open>The example with a goal nobody holds, and a session that was discarded by a decision.\<close>

definition unclaimed :: store where
  "unclaimed = example\<lparr>goal_handoffs := [], task_handoffs := [], decisions := [], tasks := [],
     goal_handoff_entries := [],
     agent_sessions := [a_session 1 ''one'' (sec 95), (a_session 4 ''four'' (sec 95))
       \<lparr>s_discarded_at := Some (sec 97), s_discarded_by := Some 1, s_discarded_decision_id := Some 2,
        s_discard_reason := ''gone''\<rparr>]\<rparr>"

definition blocked :: store where
  "blocked = unclaimed\<lparr>goal_handoffs := [new_handoff ''new'' 1 (Some 4) (sec 100) None],
     goal_handoff_entries := [\<lparr>e_id = 1, e_handoff_id = ''new'', e_kind = ''request'', e_body = ''requested'',
       e_author_session_id = Some 4, e_in_reply_to_id = None, e_created_at = sec 100\<rparr>],
     published := [PublishEvent (HandoffEvent ''goal.handoff.request'' 1 1 0 ''new'' 4 [])]\<rparr>"

lemma discarded_claim: "ClaimGoal 1 4 ''new'' (sec 100) unclaimed = (Inl (SessionE ErrSessionDiscarded), blocked)"
  by code_simp

lemma blocked_claim: "fst (ClaimGoal 1 1 ''other'' (sec 101) blocked) = Inl (GoalE ErrGoalAlreadyClaimed)"
  by code_simp

text \<open>
  A claim that fails can block its goal. \<open>ClaimGoal\<close> requests a handoff and then
  receives it, in two transactions, and only the second asks whether the session was discarded. The
  claim of a discarded session fails and leaves a requested handoff behind, and after that the
  claim of a session in good standing is refused because the goal is already claimed.
\<close>

theorem failed_claim_blocks_the_goal:
  "wf_store unclaimed
   \<and> (case ClaimGoal 1 4 ''new'' (sec 100) unclaimed of (r, t) \<Rightarrow>
        r = Inl (SessionE ErrSessionDiscarded)
      \<and> map (\<lambda>h. (h_requested_by h, h_received_by h)) (goal_handoffs t) = [(Some 4, None)]
      \<and> fst (ClaimGoal 1 1 ''other'' (sec 101) t) = Inl (GoalE ErrGoalAlreadyClaimed))
   \<and> \<not> isl (fst (ClaimGoal 1 1 ''other'' (sec 101) unclaimed))"
proof (intro conjI)
  show "wf_store unclaimed" by code_simp
  show "\<not> isl (fst (ClaimGoal 1 1 ''other'' (sec 101) unclaimed))" by code_simp
  have "map (\<lambda>h. (h_requested_by h, h_received_by h)) (goal_handoffs blocked) = [(Some 4, None)]" by code_simp
  then show "case ClaimGoal 1 4 ''new'' (sec 100) unclaimed of (r, t) \<Rightarrow>
        r = Inl (SessionE ErrSessionDiscarded)
      \<and> map (\<lambda>h. (h_requested_by h, h_received_by h)) (goal_handoffs t) = [(Some 4, None)]
      \<and> fst (ClaimGoal 1 1 ''other'' (sec 101) t) = Inl (GoalE ErrGoalAlreadyClaimed)"
    by (simp add: discarded_claim blocked_claim)
qed

end
