(* ===== verification/Atct_Text_Facts.thy ===== *)
theory Atct_Text_Facts
  imports Atct_Example Atct_Timestamp
begin

text \<open>
  Properties of the texts the store writes and reads: stored times, ids, specs and plans.
\<close>

section \<open>Times\<close>

text \<open>
  Property C38. Comparing stored times as text is comparing instants. SQLite compares the
  timestamps as strings; for any two times of the years 0 to 9999 the order of their spellings is
  the order of the instants, to the nanosecond, and two times are spelled alike only if they are
  equal.
\<close>

theorem stored_times_sort_as_instants:
  assumes "valid_utc u" and "valid_utc v"
  shows "(formatTimestamp u < formatTimestamp v \<longleftrightarrow> instant u < instant v)
     \<and> (formatTimestamp u = formatTimestamp v \<longleftrightarrow> u = v)"
  using formatTimestamp_order [OF assms] formatTimestamp_inject [OF assms] by blast

theorem stored_times_sort_as_instants_witness:
  "formatTimestamp (UTC 2024 2 29 23 59 59 999999999) < formatTimestamp (UTC 2024 3 1 0 0 0 0)"
proof -
  have valid: "valid_utc (UTC 2024 2 29 23 59 59 999999999)" "valid_utc (UTC 2024 3 1 0 0 0 0)"
    by (simp_all add: valid_utc_def month_lengths_def leap_def)
  have "instant (UTC 2024 2 29 23 59 59 999999999) < instant (UTC 2024 3 1 0 0 0 0)"
    by (simp add: instant_def utc_days_def days_before_month_def month_lengths_def leap_def take_Cons')
  then show ?thesis using stored_times_sort_as_instants [OF valid] by blast
qed

section \<open>Ids\<close>

lemma strip_all_other:
  assumes "\<forall>p\<in>set seps. p \<noteq> [] \<and> hd p \<noteq> c"
  shows "strip_all seps (c # s) = c # s"
proof (rule strip_all_stuck)
  have "\<forall>p\<in>set seps. \<not> (p \<noteq> [] \<and> starts_with p (c # s))"
    using assms by (auto simp: starts_with_def take_Cons' neq_Nil_conv)
  then have "List.find (\<lambda>p. p \<noteq> [] \<and> starts_with p (c # s)) seps = None"
    by (simp only: find_None_iff_all)
  then show "strip_one seps (c # s) = None" by (simp add: strip_one_def)
qed

lemma space_not_digit:
  "\<forall>p\<in>set space_runes. p \<noteq> [] \<and> \<not> is_digit (hd p)" "\<forall>p\<in>set (map rev space_runes). p \<noteq> [] \<and> \<not> is_digit (hd p)"
  by code_simp+

lemma TrimSpace_digits: "list_all is_digit s \<Longrightarrow> TrimSpace s = s"
proof (cases s)
  case (Cons c r)
  assume s: "list_all is_digit s"
  have "strip_all space_runes s = s"
    unfolding Cons by (rule strip_all_other) (use s Cons space_not_digit(1) in force)
  moreover obtain d q where d: "rev s = d # q" using Cons by (cases "rev s") auto
  moreover have "d \<in> set (rev s)" unfolding d by simp
  then have "is_digit d" using s by (simp add: list_all_iff)
  ultimately have "strip_all (map rev space_runes) (rev s) = rev s"
    unfolding d by (intro strip_all_other) (use space_not_digit(2) in force)
  then show ?thesis using \<open>strip_all space_runes s = s\<close> by (simp add: TrimSpace_def)
next
  case Nil
  have "TrimSpace [] = []" by code_simp
  then show ?thesis by (simp only: Nil)
qed

text \<open>
  Ids survive their spelling. \<open>resolveID\<close> reads back every id the store can assign, and
  whatever text it accepts stands for a positive id of 63 bits; it never changes the store.
\<close>

theorem ids_round_trip:
  "(0 < n \<and> n < 2 ^ 63 \<longrightarrow> resolveID (Itoa n) s = (Inr (int n), s))
   \<and> (resolveID v s = (Inr i, t) \<longrightarrow> t = s \<and> 0 < i \<and> i < 2 ^ 63)"
proof (intro conjI impI)
  assume n: "0 < n \<and> n < 2 ^ 63"
  then have "ParseInt (Itoa n) = Some (int n)" by (intro ParseInt_Itoa) (auto dest: of_nat_less_numeral_power_cancel_iff [THEN iffD2])
  with n Itoa_digits [of n] show "resolveID (Itoa n) s = (Inr (int n), s)"
    by (simp add: resolveID_def TrimSpace_digits ret_def)
next
  assume "resolveID v s = (Inr i, t)"
  then have run: "t = s" "0 < i" "ParseInt (TrimSpace v) = Some i"
    by (auto simp: resolveID_def Let_def op_run split: if_splits option.splits)
  then show "t = s" "0 < i" "i < 2 ^ 63"
    by (auto simp: ParseInt_def split: if_splits option.splits)
qed

theorem ids_round_trip_witness:
  "resolveID ''42'' example = (Inr 42, example)"
proof -
  have "Itoa 42 = ''42''" by code_simp
  then show ?thesis using ids_round_trip [of 42 example] by simp
qed

section \<open>Specs and plans\<close>

text \<open>
  A spec or a plan that only points elsewhere is refused. \<open>checkSpecPlanNotReferenceOnly\<close>
  returns exactly when neither text names a file of the spec and plan directories, or what it says
  besides the paths has at least 200 characters other than white space. Taking the paths out is
  exact: what is left names no such file, and a text that names none is left as it is, so taking
  them out twice is the same as once.
\<close>

theorem reference_only_plans_are_refused:
  "(fst (checkSpecPlanNotReferenceOnly spec plan s) = Inr () \<longleftrightarrow>
     (\<forall>txt\<in>{spec, plan}. names_dir True (runes txt) \<longrightarrow>
        200 \<le> length (filter (\<lambda>r. \<not> IsSpace r) (remove_paths (runes txt)))))
   \<and> \<not> names_dir True (remove_paths rs) \<and> (\<not> names_dir True rs \<longrightarrow> remove_paths rs = rs)
   \<and> remove_paths (remove_paths rs) = remove_paths rs"
  using remove_paths_clean [of rs] remove_paths_id
  by (auto simp: checkSpecPlanNotReferenceOnly_def specPlanReferenceOnly_def ret_def fail_def)

theorem reference_only_plans_are_refused_witness:
  "fst (checkSpecPlanNotReferenceOnly ''as agreed'' ''docs/plans/x'' example) \<noteq> Inr ()"
proof -
  have runes: "runes ''docs/plans/x'' = map of_char ''docs/plans/x''" by simp
  have "names_dir True (runes ''docs/plans/x'')"
    unfolding runes by (simp add: names_dir.simps spec_plan_dirs_def fold_rune_def)
  moreover from this have "remove_paths (runes ''docs/plans/x'') = []"
    unfolding runes by (simp add: path_rune_def ascii_word_def)
  ultimately have "names_dir True (runes ''docs/plans/x'')"
    "\<not> 200 \<le> length (filter (\<lambda>r. \<not> IsSpace r) (remove_paths (runes ''docs/plans/x'')))" by simp_all
  then show ?thesis
    using reference_only_plans_are_refused [of "''as agreed''" "''docs/plans/x''" example] by blast
qed

end
