(* ===== verification/Atct_Session_Facts.thy ===== *)
theory Atct_Session_Facts
  imports Atct_Example
begin

text \<open>
  Properties of agent sessions: the lease a heartbeat gives, the identity a session key gives, when
  a session counts as recoverable and when it is forgotten.
\<close>

text \<open>
  Property C36. A heartbeat gives a lease of thirty seconds. After \<open>HeartbeatAgentSession\<close>, and after
  the registration of a session, that session is live exactly until thirty seconds later, the last
  nanosecond included; and a registered session gets an id no session had.
\<close>

theorem lease_lasts_thirty_seconds:
  "(HeartbeatAgentSession i t0 s = (Inr (), t) \<longrightarrow>
      (agentSessionLiveInQueries i now t \<longleftrightarrow> now \<le> t0 + 30000000000))
   \<and> (RegisterAgentSessionInProject pid st project t0 s = (Inr i, t) \<longrightarrow>
      (agentSessionLiveInQueries i now t \<longleftrightarrow> now \<le> t0 + 30000000000) \<and> \<not> session_exists i s)"
  using heartbeat_lease [of i t0 s t now] register_live [of pid st project t0 s i t]
  by (auto simp: RuntimeLeaseDuration_def second_def)

theorem lease_lasts_thirty_seconds_witness:
  "\<not> agentSessionLiveInQueries 4 (sec 100) (snd (HeartbeatAgentSession 4 (sec 69) example))
   \<and> agentSessionLiveInQueries 4 (sec 100) (snd (HeartbeatAgentSession 4 (sec 70) example))"
proof -
  have ok: "fst (HeartbeatAgentSession 4 (sec 69) example) = Inr ()"
    "fst (HeartbeatAgentSession 4 (sec 70) example) = Inr ()" by code_simp+
  then have run: "HeartbeatAgentSession 4 (sec 69) example = (Inr (), snd (HeartbeatAgentSession 4 (sec 69) example))"
    "HeartbeatAgentSession 4 (sec 70) example = (Inr (), snd (HeartbeatAgentSession 4 (sec 70) example))"
    by (metis prod.collapse)+
  show ?thesis
    using lease_lasts_thirty_seconds [THEN conjunct1, THEN mp, OF run(1), of "sec 100"]
      lease_lasts_thirty_seconds [THEN conjunct1, THEN mp, OF run(2), of "sec 100"]
    by (simp add: sec_def)
qed

lemma reidentify:
  assumes "IdentifyAgentSession i key pid st now s = (Inr (c, back), t)" and "wf_sessions s"
    and "IdentifyAgentSession j key2 pid2 st2 now2 t = (Inr (c2, back2), u)" and "TrimSpace key2 = TrimSpace key"
  shows "c2 = c"
proof -
  have wf: "wf_sessions t"
    using identify_wf [of i key pid st now] assms(1,2) by (auto simp: evolves_def keeps_def dest: spec [of _ s])
  obtain r where r: "session_row c t = Some r" "s_session_key r = TrimSpace key" "TrimSpace key \<noteq> []"
    using identify_result(1,3) [OF assms(1,2)] by blast
  have "r \<in> set (agent_sessions t)" "s_id r = c" using session_row_id [OF r(1)] by auto
  then obtain q where q: "List.find (\<lambda>r. s_session_key r = TrimSpace key2) (agent_sessions t) = Some q"
    using r(2) assms(4) by (metis (mono_tags, lifting) find_None_iff_all not_Some_eq)
  then have "s_session_key q = TrimSpace key" "q \<in> set (agent_sessions t)"
    using find_Some_in [OF q] assms(4) by auto
  then have "q = r"
    using wf r \<open>r \<in> set (agent_sessions t)\<close>
    by (auto simp: wf_sessions_def filter_map distinct_map inj_on_def comp_def)
  then show ?thesis using identify_result(4) [OF assms(3) wf q] \<open>s_id r = c\<close> by simp
qed

text \<open>
  A session key names one session. When \<open>IdentifyAgentSession\<close> returns, the session it
  returns carries the trimmed key, was not discarded and has been renewed now; it is another session
  than the caller's only if it says so; and whoever identifies with the same key next gets the same
  session.
\<close>

theorem key_names_one_session:
  assumes run: "IdentifyAgentSession i key pid st now s = (Inr (c, back), t)" and wf: "wf_store s"
  shows "(\<exists>r. session_row c t = Some r \<and> s_session_key r = TrimSpace key \<and> TrimSpace key \<noteq> []
           \<and> s_registered_at r = now \<and> \<not> agentSessionHasDiscardMetadata r)
     \<and> (back \<longleftrightarrow> c \<noteq> i)
     \<and> (\<forall>j key2 pid2 st2 now2 c2 back2 u. TrimSpace key2 = TrimSpace key \<longrightarrow>
          IdentifyAgentSession j key2 pid2 st2 now2 t = (Inr (c2, back2), u) \<longrightarrow> c2 = c)"
  using identify_result(1,2,3) [OF run wf_store_parts(1) [OF wf]] reidentify [OF run wf_store_parts(1) [OF wf]]
  by blast

theorem key_names_one_session_witness:
  "fst (IdentifyAgentSession 4 '' one '' 9 ''boot'' (sec 100) example) = Inr (1, True)
   \<and> (\<exists>r. session_row 1 (snd (IdentifyAgentSession 4 '' one '' 9 ''boot'' (sec 100) example)) = Some r
        \<and> s_session_key r = TrimSpace '' one '')"
proof -
  have ok: "fst (IdentifyAgentSession 4 '' one '' 9 ''boot'' (sec 100) example) = Inr (1, True)" by code_simp
  then have "IdentifyAgentSession 4 '' one '' 9 ''boot'' (sec 100) example
      = (Inr (1, True), snd (IdentifyAgentSession 4 '' one '' 9 ''boot'' (sec 100) example))"
    by (metis prod.collapse)
  from key_names_one_session [OF this wf_example] ok show ?thesis by blast
qed

text \<open>
  Which sessions can be recovered from. A session that carries no mark of a discard is
  proved recoverable exactly when it is registered and does not hold its lease. That holds also of a session
  that never sent a heartbeat, although the comments on \<^verbatim>\<open>RecoveryProof\<close> and on the lease say that an
  unknown one proves nothing.
\<close>

theorem recoverable_without_lease:
  assumes "session_row i s = Some r" and "\<not> agentSessionHasDiscardMetadata r"
  shows "snd (CanRecoverSession i now s) = s
     \<and> (\<not> isl (fst (CanRecoverSession i now s)) \<longleftrightarrow> 0 < i \<and> \<not> agentSessionLiveInQueries i now s)
     \<and> (s_last_heartbeat_at r = None \<longrightarrow> \<not> agentSessionLiveInQueries i now s)"
  using assms
  by (auto simp: CanRecoverSession_def canRecoverSessionInTx_def op_eval op_eval_defs agentSessionLease_held
      agentSessionLiveInQueries_def agentSessionLiveAt_def isl_def split: option.splits)

theorem recoverable_without_lease_witness:
  "\<not> isl (fst (CanRecoverSession 4 (sec 100) example)) \<and> isl (fst (CanRecoverSession 2 (sec 100) example))"
proof -
  have row: "session_row 4 example = Some (a_session 4 ''four'' (sec 1))"
      "session_row 2 example = Some (a_session 2 ''two'' (sec 95))"
    and marks: "\<not> agentSessionHasDiscardMetadata (a_session 4 ''four'' (sec 1))"
      "\<not> agentSessionHasDiscardMetadata (a_session 2 ''two'' (sec 95))"
    and live: "\<not> agentSessionLiveInQueries 4 (sec 100) example" "agentSessionLiveInQueries 2 (sec 100) example"
    by code_simp+
  show ?thesis
    using recoverable_without_lease [OF row(1) marks(1)] recoverable_without_lease [OF row(2) marks(2)] live
    by fastforce
qed

text \<open>The example a month later: session 1 still sends heartbeats and holds the claim of its project.\<close>

definition a_month_later :: store where
  "a_month_later = example\<lparr>goal_handoffs := [], task_handoffs := [],
     agent_sessions := [a_session 1 ''one'' (sec 2999999)]\<rparr>"

text \<open>
  Retention does not look at the lease. A session registered more than thirty days ago
  is deleted when another one registers, even if it sent a heartbeat within the last seconds and
  holds the claim of its project, unless a handoff or a discard names it.
\<close>

theorem retention_forgets_a_live_session:
  "agentSessionLiveInQueries 1 (sec 3000000) a_month_later
   \<and> map p_claimed_by (projects a_month_later) = [1]
   \<and> (case RegisterAgentSessionInProject 20 ''boot'' 1 (sec 3000000) a_month_later of (r, t) \<Rightarrow>
        r = Inr 2 \<and> map s_id (agent_sessions t) = [2] \<and> map p_claimed_by (projects t) = [1])"
  by (intro conjI) code_simp+

end
