(* ===== verification/Atct_Failures.thy ===== *)
theory Atct_Failures
  imports Atct_System
begin

text \<open>
  What a call that fails leaves behind. An operation that only reads before its transaction, and
  after it only publishes and returns, leaves nothing: the transaction is rolled back.
\<close>

lemma atomic_failed: "atomic_op m \<Longrightarrow> fst (m s) = Inl e \<Longrightarrow> snd (m s) = s"
  by (metis atomic_op_def prod.collapse)

lemma decisions_atomic:
  "atomic_op (AskDecision inp now)" "atomic_op (AnswerDecisionWith ans src now)"
  "atomic_op (WithdrawDecision i reason)" "atomic_op (PollDecisions session i now)"
  unfolding AskDecision_def AnswerDecisionWith_def answerDecision_def WithdrawDecision_def PollDecisions_def
  by (intro atomic_intros total_intros reads_intros)+

lemma sessions_atomic:
  "atomic_op (RegisterAgentSessionInProject pid st project now)" "atomic_op (IdentifyAgentSession i key pid st now)"
  "atomic_op (AssociateAgentSessionWithProject i project now)"
  unfolding RegisterAgentSessionInProject_def IdentifyAgentSession_def AssociateAgentSessionWithProject_def Let_def
  by (intro atomic_intros total_intros reads_intros)+

lemma entries_atomic:
  "atomic_op (AppendTaskHandoffEntry hid kind body i rel now)" "atomic_op (AppendGoalHandoffEntry hid kind body i rel now)"
  unfolding AppendTaskHandoffEntry_def AppendGoalHandoffEntry_def
  by (intro atomic_intros total_intros reads_intros)+

lemma ListTasks_total [total_intros]: "total_op (ListTasks goal)"
  unfolding ListTasks_def ListTasks_sql_def by (rule total_intros)

lemma CreateTasks_atomic: "atomic_op (CreateTasks goal agent key titles descs now)"
  unfolding CreateTasks_def
  by (rule atomic_bnd_reads, (rule reads_intros))+
    (rule atomic_bnd_total [OF atomic_transaction], intro total_intros)

lemma total_case_prod: "(\<And>x y. total_op (f x y)) \<Longrightarrow> total_op (case_prod f p)"
  by (rule total_prod)

lemma WithdrawActiveGoal_atomic: "atomic_op (WithdrawActiveGoal goal reason now)"
  unfolding WithdrawActiveGoal_def
  by (rule atomic_bnd_reads, rule reads_intros, rule atomic_bnd_total [OF atomic_transaction], rule total_case_prod)
    (intro total_intros)

end
