(* ===== verification/Atct_Next_Action.thy ===== *)
theory Atct_Next_Action
  imports Atct_Goal
begin

text \<open>
  The step a goal waits for (\<^verbatim>\<open>internal/store/goal_next_action.go\<close> and
  \<^verbatim>\<open>goal_pending_state.go\<close>): derived from the rows of one goal, and for all active goals
  at once from one read per table.
\<close>

section \<open>Steps and who takes them\<close>

record NextAction =
  na_Code :: string
  na_Actor :: string
  na_Call :: string
  na_DecisionID :: int
  na_TaskCount :: nat

definition no_action :: NextAction where
  "no_action = \<lparr>na_Code = [], na_Actor = [], na_Call = [], na_DecisionID = 0, na_TaskCount = 0\<rparr>"

definition NextActionSpecs :: "(string \<times> string \<times> string) list" where
  "NextActionSpecs =
     [(''done'', [], []),
      (''withdrawn'', [], []),
      (''human_review'', ''human'', []),
      (''human_decision'', ''human'', []),
      (''commander_complete'', ''commander'', ''atct_goal_review_complete''),
      (''commander_reject_handoff'', ''commander'', ''atct_goal_handoff_review_reject''),
      (''commander_request_handoff'', ''commander'', ''atct_goal_handoff_request''),
      (''subcommander_receive_handoff'', ''subcommander'', ''atct_goal_handoff_receive''),
      (''subcommander_receive_rejection'', ''subcommander'', ''atct_goal_handoff_review_reject_receive''),
      (''commander_receive_goal_review'', ''commander'', ''atct_goal_handoff_review_receive''),
      (''commander_review_goal'', ''commander'', ''atct_goal_review_request''),
      (''subcommander_plan'', ''subcommander'', ''atct_plan_handoff_review_request''),
      (''subcommander_receive_plan_rejection'', ''subcommander'', ''atct_plan_handoff_review_reject_receive''),
      (''commander_receive_plan_review'', ''commander'', ''atct_plan_handoff_review_receive''),
      (''commander_review_plan'', ''commander'', ''atct_plan_handoff_complete''),
      (''subcommander_receive_task_create'', ''subcommander'', ''atct_task_create_handoff_receive''),
      (''subcommander_create_tasks'', ''subcommander'', ''atct_task_create''),
      (''subcommander_review_task'', ''subcommander'', ''atct_task_handoff_review_receive''),
      (''subcommander_delegate_task'', ''subcommander'', ''atct_task_handoff_request''),
      (''executor_receive_task'', ''executor'', ''atct_task_handoff_receive''),
      (''executor_implement'', ''executor'', ''atct_task_handoff_review_request''),
      (''subcommander_request_goal_review'', ''subcommander'', ''atct_goal_handoff_review_request''),
      (''executor_work'', ''subcommander'', ''atct_goal_handoff_review_request'')]"

definition newNextAction :: "string \<Rightarrow> NextAction" where
  "newNextAction code =
     (case map_of NextActionSpecs code of
        None \<Rightarrow> no_action\<lparr>na_Code := code\<rparr>
      | Some (actor, call) \<Rightarrow> no_action\<lparr>na_Code := code, na_Actor := actor, na_Call := call\<rparr>)"

section \<open>The pending state of an answered review\<close>

definition GoalPendingApprovedComplete :: string where
  "GoalPendingApprovedComplete = ''approved_pending_complete''"

definition GoalPendingRejectedHandoffReject :: string where
  "GoalPendingRejectedHandoffReject = ''rejected_pending_handoff_reject''"

text \<open>
  The loop over the decisions: None when a review was approved, which returns at once, otherwise
  the latest review.
\<close>

fun review_scan :: "decision option \<Rightarrow> decision list \<Rightarrow> decision option option" where
  "review_scan latest [] = Some latest"
| "review_scan latest (d # ds) =
     (if d_kind d \<noteq> KindGoalReview then review_scan latest ds
      else if d_status d = DecisionApplied \<and> d_answer_label d = ''approve'' then None
      else review_scan (Some d) ds)"

definition rejection_owed :: "decision \<Rightarrow> handoff \<Rightarrow> bool" where
  "rejection_owed latest h \<longleftrightarrow>
     (let resubmitted = (case (d_answered_at latest, h_review_requested_at h) of
          (Some at, Some requested) \<Rightarrow> at < requested | _ \<Rightarrow> False)
      in h_review_requested_at h \<noteq> None \<and> h_review_received_at h \<noteq> None \<and> h_review_rejected_at h = None
       \<and> h_completed_report_at h = None \<and> h_recovered_at h = None \<and> \<not> resubmitted)"

definition goalPendingState :: "decision list \<Rightarrow> (handoff list) store_op \<Rightarrow> string store_op" where
  "goalPendingState ds goalHandoffs =
     (case review_scan None ds of
        None \<Rightarrow> ret GoalPendingApprovedComplete
      | Some None \<Rightarrow> ret []
      | Some (Some latest) \<Rightarrow>
          if d_status latest \<noteq> DecisionAnswered \<or> d_answer_label latest \<noteq> ''reject'' then ret []
          else bnd goalHandoffs (\<lambda>handoffs.
            ret (if list_ex (rejection_owed latest) handoffs then GoalPendingRejectedHandoffReject else [])))"

definition GoalPendingState :: "int \<Rightarrow> string store_op" where
  "GoalPendingState goalID =
     bnd (ListDecisionsForGoal goalID) (\<lambda>ds. goalPendingState ds (ListGoalHandoffs goalID))"

section \<open>Deriving the step\<close>

record nextActionInput =
  in_Status :: GoalStatus
  in_OpenDecision :: "decision option"
  in_PendingState :: string
  in_GoalHandoff :: "handoff option"
  in_PlanHandoff :: "plan_handoff option"
  in_TaskCreate :: "task_create_handoff option"
  in_Tasks :: "task list"
  in_TaskHandoffs :: "int \<Rightarrow> handoff option"

definition derivePlanNextAction :: "nextActionInput \<Rightarrow> NextAction" where
  "derivePlanNextAction inp =
     (case in_PlanHandoff inp of
        None \<Rightarrow> newNextAction ''subcommander_plan''
      | Some p \<Rightarrow>
          if pl_completed_report_at p = None then
            (if pl_review_requested_at p = None \<or> pl_review_rejection_received_at p \<noteq> None
             then newNextAction ''subcommander_plan''
             else if pl_review_rejected_at p \<noteq> None then newNextAction ''subcommander_receive_plan_rejection''
             else if pl_review_received_at p = None then newNextAction ''commander_receive_plan_review''
             else newNextAction ''commander_review_plan'')
          else newNextAction ''executor_work'')"

text \<open>
  The counters of the loop over the tasks: in review; to do without a handoff; to do with a handoff
  not yet received; being done; done.
\<close>

definition deriveTaskNextAction :: "task list \<Rightarrow> (int \<Rightarrow> handoff option) \<Rightarrow> NextAction" where
  "deriveTaskNextAction active handoffs =
     (let count = (\<lambda>P. length (filter P active));
          review = count (\<lambda>t. t_status t = TaskReview);
          delegate = count (\<lambda>t. t_status t = TaskTodo \<and> handoffs (t_id t) = None);
          receive = count (\<lambda>t. t_status t = TaskTodo
            \<and> (case handoffs (t_id t) of None \<Rightarrow> False | Some h \<Rightarrow> h_received_at h = None));
          doing = count (\<lambda>t. t_status t = TaskDoing);
          done = count (\<lambda>t. t_status t = TaskDone);
          steps = [(''subcommander_review_task'', review), (''subcommander_delegate_task'', delegate),
                   (''executor_receive_task'', receive), (''executor_implement'', doing)]
      in case List.find (\<lambda>(code, n). 0 < n) steps of
           Some (code, n) \<Rightarrow> (newNextAction code)\<lparr>na_TaskCount := n\<rparr>
         | None \<Rightarrow>
             if done = length active
             then (newNextAction ''subcommander_request_goal_review'')\<lparr>na_TaskCount := done\<rparr>
             else no_action)"

text \<open>The tasks of the goal once its handoff is in the hands of its receiver.\<close>

definition derive_work :: "nextActionInput \<Rightarrow> NextAction" where
  "derive_work inp =
     (let active = filter (\<lambda>t. t_status t \<noteq> TaskDropped) (in_Tasks inp)
      in if active = [] then derivePlanNextAction inp
         else deriveTaskNextAction active (in_TaskHandoffs inp))"

definition deriveNextAction :: "nextActionInput \<Rightarrow> NextAction" where
  "deriveNextAction inp =
     (if in_Status inp = GoalDone then newNextAction ''done''
      else if in_Status inp = GoalDropped then newNextAction ''withdrawn''
      else case in_OpenDecision inp of
        Some d \<Rightarrow>
          (newNextAction (if d_kind d = KindGoalReview then ''human_review'' else ''human_decision''))
            \<lparr>na_DecisionID := d_id d\<rparr>
      | None \<Rightarrow>
          if in_PendingState inp = GoalPendingApprovedComplete then newNextAction ''commander_complete''
          else if in_PendingState inp = GoalPendingRejectedHandoffReject
          then newNextAction ''commander_reject_handoff''
          else case in_GoalHandoff inp of
            None \<Rightarrow> newNextAction ''commander_request_handoff''
          | Some h \<Rightarrow>
              if h_received_at h = None then newNextAction ''subcommander_receive_handoff''
              else if h_review_rejected_at h \<noteq> None \<and> h_review_rejection_received_at h = None
              then newNextAction ''subcommander_receive_rejection''
              else if h_review_rejection_received_at h = None
                \<and> h_review_requested_at h \<noteq> None \<and> h_review_received_at h = None
              then newNextAction ''commander_receive_goal_review''
              else if h_review_rejection_received_at h = None \<and> h_review_received_at h \<noteq> None
              then newNextAction ''commander_review_goal''
              else derive_work inp)"

section \<open>From the rows of a goal\<close>

record goalRows =
  r_openDecisions :: "decision list"
  r_decisions :: "decision list"
  r_goalHandoffs :: "handoff list"
  r_planHandoffs :: "plan_handoff list"
  r_taskCreates :: "task_create_handoff list"
  r_tasks :: "task list"
  r_taskHandoffs :: "int \<Rightarrow> handoff option"

definition no_rows :: goalRows where
  "no_rows = \<lparr>r_openDecisions = [], r_decisions = [], r_goalHandoffs = [], r_planHandoffs = [],
     r_taskCreates = [], r_tasks = [], r_taskHandoffs = (\<lambda>_. None)\<rparr>"

definition nextActionFor :: "goal \<Rightarrow> goalRows \<Rightarrow> NextAction store_op" where
  "nextActionFor goal rows =
     (let inp = \<lparr>in_Status = g_status goal, in_OpenDecision = None, in_PendingState = [],
                 in_GoalHandoff = None, in_PlanHandoff = None, in_TaskCreate = None, in_Tasks = [],
                 in_TaskHandoffs = (\<lambda>_. None)\<rparr>
      in if g_status goal = GoalDone \<or> g_status goal = GoalDropped then ret (deriveNextAction inp)
         else bnd (goalPendingState (r_decisions rows) (ret (r_goalHandoffs rows))) (\<lambda>pending.
           ret (deriveNextAction (inp
             \<lparr>in_OpenDecision := (case r_openDecisions rows of [] \<Rightarrow> None | d # _ \<Rightarrow> Some d),
              in_PendingState := pending,
              in_GoalHandoff := List.find (\<lambda>h. h_completed_report_at h = None \<and> h_recovered_at h = None)
                (rev (r_goalHandoffs rows)),
              in_PlanHandoff := (if r_planHandoffs rows = [] then None else Some (last (r_planHandoffs rows))),
              in_TaskCreate := List.find (\<lambda>c. c_completed_at c = None \<and> c_recovered_at c = None)
                (rev (r_taskCreates rows)),
              in_Tasks := r_tasks rows,
              in_TaskHandoffs := r_taskHandoffs rows\<rparr>))))"

definition GoalNextAction :: "goal \<Rightarrow> NextAction store_op" where
  "GoalNextAction goal =
     (if g_status goal = GoalDone \<or> g_status goal = GoalDropped then nextActionFor goal no_rows
      else bnd (ListOpenDecisions (g_id goal)) (\<lambda>openDecisions.
        bnd (ListDecisionsForGoal (g_id goal)) (\<lambda>ds.
        bnd (ListGoalHandoffs (g_id goal)) (\<lambda>goalHandoffs.
        bnd (ListPlanHandoffs (g_id goal)) (\<lambda>planHandoffs.
        bnd (ListTaskCreateHandoffs (g_id goal)) (\<lambda>taskCreates.
        bnd (ListTasks (g_id goal)) (\<lambda>ts.
        bnd (ListOpenTaskHandoffsForGoal (g_id goal)) (\<lambda>taskHandoffs.
        nextActionFor goal
          \<lparr>r_openDecisions = openDecisions, r_decisions = ds, r_goalHandoffs = goalHandoffs,
           r_planHandoffs = planHandoffs, r_taskCreates = taskCreates, r_tasks = ts,
           r_taskHandoffs = taskHandoffs\<rparr>))))))))"

section \<open>For all active goals\<close>

definition ListGoalReviewDecisionsForActiveGoals_sql :: "(decision list) store_op" where
  "ListGoalReviewDecisionsForActiveGoals_sql =
     select_decisions (\<lambda>d. (d_goal_id d, d_id d))
       (\<lambda>s d. d_kind d = KindGoalReview \<and> goal_active s (d_goal_id d))"

definition ListGoalHandoffsForActiveGoals_sql :: "(handoff list) store_op" where
  "ListGoalHandoffsForActiveGoals_sql =
     ask (\<lambda>s. order_by (\<lambda>h. (h_owner h, h_id h)) (filter (\<lambda>h. goal_active s (h_owner h)) (goal_handoffs s)))"

definition ListPlanHandoffsForActiveGoals_sql :: "(plan_handoff list) store_op" where
  "ListPlanHandoffsForActiveGoals_sql =
     ask (\<lambda>s. order_by (\<lambda>p. (pl_goal_id p, pl_id p)) (filter (\<lambda>p. goal_active s (pl_goal_id p)) (plan_handoffs s)))"

definition ListTaskCreateHandoffsForActiveGoals_sql :: "(task_create_handoff list) store_op" where
  "ListTaskCreateHandoffsForActiveGoals_sql =
     ask (\<lambda>s. order_by (\<lambda>c. (c_goal_id c, c_requested_at c, c_id c))
       (filter (\<lambda>c. goal_active s (c_goal_id c)) (task_create_handoffs s)))"

record allGoalRows =
  a_openDecisions :: "int \<Rightarrow> decision list"
  a_decisions :: "int \<Rightarrow> decision list"
  a_goalHandoffs :: "int \<Rightarrow> handoff list"
  a_planHandoffs :: "int \<Rightarrow> plan_handoff list"
  a_taskCreates :: "int \<Rightarrow> task_create_handoff list"
  a_tasks :: "int \<Rightarrow> task list"
  a_taskHandoffs :: "int \<Rightarrow> handoff option"

definition groupByGoal :: "'a list \<Rightarrow> ('a \<Rightarrow> int) \<Rightarrow> int \<Rightarrow> 'a list" where
  "groupByGoal rows goalID = (\<lambda>i. filter (\<lambda>r. goalID r = i) rows)"

definition loadAllGoalRows :: "allGoalRows store_op" where
  "loadAllGoalRows =
     bnd ListAllOpenDecisions (\<lambda>open.
     bnd (convertDecisionRows ListGoalReviewDecisionsForActiveGoals_sql) (\<lambda>ds.
     bnd ListGoalHandoffsForActiveGoals_sql (\<lambda>goalHandoffs.
     bnd ListPlanHandoffsForActiveGoals_sql (\<lambda>planHandoffs.
     bnd ListTaskCreateHandoffsForActiveGoals_sql (\<lambda>taskCreates.
     bnd ListTasksForAllGoals (\<lambda>ts.
     bnd ListOpenTaskHandoffsForAllGoals (\<lambda>taskHandoffs.
     ret \<lparr>a_openDecisions = groupByGoal open d_goal_id, a_decisions = groupByGoal ds d_goal_id,
          a_goalHandoffs = groupByGoal goalHandoffs h_owner,
          a_planHandoffs = groupByGoal planHandoffs pl_goal_id,
          a_taskCreates = groupByGoal taskCreates c_goal_id, a_tasks = ts,
          a_taskHandoffs = taskHandoffs\<rparr>)))))))"

fun next_actions :: "allGoalRows \<Rightarrow> goal list \<Rightarrow> (int \<rightharpoonup> NextAction) \<Rightarrow> (int \<rightharpoonup> NextAction) store_op" where
  "next_actions all [] out = ret out"
| "next_actions all (goal # gs) out =
     bnd (nextActionFor goal
       \<lparr>r_openDecisions = a_openDecisions all (g_id goal), r_decisions = a_decisions all (g_id goal),
        r_goalHandoffs = a_goalHandoffs all (g_id goal), r_planHandoffs = a_planHandoffs all (g_id goal),
        r_taskCreates = a_taskCreates all (g_id goal), r_tasks = a_tasks all (g_id goal),
        r_taskHandoffs = a_taskHandoffs all\<rparr>) (\<lambda>next.
     next_actions all gs (out(g_id goal \<mapsto> next)))"

definition GoalNextActions :: "goal list \<Rightarrow> (int \<rightharpoonup> NextAction) store_op" where
  "GoalNextActions gs = bnd loadAllGoalRows (\<lambda>all. next_actions all gs Map.empty)"

definition GoalsAwaitingHandoffReview :: "(int \<Rightarrow> bool) store_op" where
  "GoalsAwaitingHandoffReview =
     bnd ListGoalHandoffsForActiveGoals_sql (\<lambda>goalHandoffs.
     bnd ListPlanHandoffsForActiveGoals_sql (\<lambda>planHandoffs.
     ret (\<lambda>i. list_ex (\<lambda>h. h_owner h = i \<and> h_review_requested_at h \<noteq> None \<and> h_review_received_at h = None
              \<and> h_review_rejected_at h = None \<and> h_completed_report_at h = None \<and> h_recovered_at h = None)
              goalHandoffs
            \<or> list_ex (\<lambda>p. pl_goal_id p = i \<and> pl_review_requested_at p \<noteq> None
              \<and> pl_review_received_at p = None \<and> pl_review_rejected_at p = None
              \<and> pl_completed_report_at p = None) planHandoffs)))"

end
