(* ===== verification/Atct_Next_Action_Facts.thy ===== *)
theory Atct_Next_Action_Facts
  imports Atct_Next_Action Atct_Goal_Facts Atct_Example
begin

text \<open>
  Properties of the step a goal waits for: reading all goals at once gives what reading one goal
  gives, except for goals of archived projects, and the step to complete a goal is shown exactly
  when its completion is no longer held back by its review.
\<close>

section \<open>The step is a function of the rows\<close>

definition derived :: "goal \<Rightarrow> goalRows \<Rightarrow> NextAction" where
  "derived goal rows = projr (fst (nextActionFor goal rows empty_store))"

lemma goalPendingState_ret:
  "\<exists>p. \<forall>s. goalPendingState ds (ret hs) s = (Inr p, s)"
  by (auto simp: goalPendingState_def op_eval op_eval_defs split: option.splits)

lemma nextActionFor_value: "nextActionFor goal rows s = (Inr (derived goal rows), s)"
proof -
  obtain p where "\<forall>s. goalPendingState (r_decisions rows) (ret (r_goalHandoffs rows)) s = (Inr p, s)"
    using goalPendingState_ret by blast
  then show ?thesis by (simp add: derived_def nextActionFor_def Let_def bnd_def ret_def)
qed

lemma derived_input:
  assumes "g_status goal = GoalActive"
  shows "\<exists>inp. derived goal rows = deriveNextAction inp \<and> in_Status inp = GoalActive
     \<and> in_OpenDecision inp = (case r_openDecisions rows of [] \<Rightarrow> None | d # _ \<Rightarrow> Some d)
     \<and> in_Tasks inp = r_tasks rows \<and> in_TaskHandoffs inp = r_taskHandoffs rows"
proof -
  obtain p where "goalPendingState (r_decisions rows) (ret (r_goalHandoffs rows)) empty_store = (Inr p, empty_store)"
    using goalPendingState_ret by blast
  then show ?thesis
    using assms
    by (intro exI [of _ "\<lparr>in_Status = GoalActive,
      in_OpenDecision = (case r_openDecisions rows of [] \<Rightarrow> None | d # _ \<Rightarrow> Some d), in_PendingState = p,
      in_GoalHandoff = List.find (\<lambda>h. h_completed_report_at h = None \<and> h_recovered_at h = None) (rev (r_goalHandoffs rows)),
      in_PlanHandoff = (if r_planHandoffs rows = [] then None else Some (last (r_planHandoffs rows))),
      in_TaskCreate = List.find (\<lambda>c. c_completed_at c = None \<and> c_recovered_at c = None) (rev (r_taskCreates rows)),
      in_Tasks = r_tasks rows, in_TaskHandoffs = r_taskHandoffs rows\<rparr>"])
      (simp add: derived_def nextActionFor_def Let_def bnd_def ret_def)
qed

lemma review_scan_filter: "review_scan v (filter (\<lambda>d. d_kind d = KindGoalReview) ds) = review_scan v ds"
  by (induction v ds rule: review_scan.induct) auto

lemma goalPendingState_filter:
  "goalPendingState (filter (\<lambda>d. d_kind d = KindGoalReview) ds) = goalPendingState ds"
  by (simp add: goalPendingState_def fun_eq_iff review_scan_filter)

lemma deriveTaskNextAction_cong:
  "(\<And>t. t \<in> set ts \<Longrightarrow> f (t_id t) = g (t_id t)) \<Longrightarrow> deriveTaskNextAction ts f = deriveTaskNextAction ts g"
proof -
  assume eq: "\<And>t. t \<in> set ts \<Longrightarrow> f (t_id t) = g (t_id t)"
  then have "filter (\<lambda>t. t_status t = TaskTodo \<and> f (t_id t) = None) ts = filter (\<lambda>t. t_status t = TaskTodo \<and> g (t_id t) = None) ts"
    "filter (\<lambda>t. t_status t = TaskTodo \<and> (case f (t_id t) of None \<Rightarrow> False | Some h \<Rightarrow> h_received_at h = None)) ts
      = filter (\<lambda>t. t_status t = TaskTodo \<and> (case g (t_id t) of None \<Rightarrow> False | Some h \<Rightarrow> h_received_at h = None)) ts"
    by (auto intro!: filter_cong)
  then show ?thesis by (simp add: deriveTaskNextAction_def Let_def)
qed

lemma deriveNextAction_handoffs:
  assumes "\<And>t. t \<in> set (in_Tasks inp) \<Longrightarrow> in_TaskHandoffs inp (t_id t) = f (t_id t)"
  shows "deriveNextAction inp = deriveNextAction (inp\<lparr>in_TaskHandoffs := f\<rparr>)"
proof -
  have "deriveTaskNextAction (filter P (in_Tasks inp)) (in_TaskHandoffs inp) = deriveTaskNextAction (filter P (in_Tasks inp)) f" for P
    using assms by (intro deriveTaskNextAction_cong) auto
  then have "derive_work (inp\<lparr>in_TaskHandoffs := f\<rparr>) = derive_work inp"
    by (simp add: derive_work_def derivePlanNextAction_def Let_def cong: option.case_cong)
  then show ?thesis by (simp add: deriveNextAction_def split: option.split)
qed

lemma derived_cong:
  assumes "r_openDecisions rows = r_openDecisions rows2"
    and "filter (\<lambda>d. d_kind d = KindGoalReview) (r_decisions rows) = filter (\<lambda>d. d_kind d = KindGoalReview) (r_decisions rows2)"
    and "r_goalHandoffs rows = r_goalHandoffs rows2" and "r_planHandoffs rows = r_planHandoffs rows2"
    and "r_taskCreates rows = r_taskCreates rows2" and "r_tasks rows = r_tasks rows2"
    and "\<And>t. t \<in> set (r_tasks rows2) \<Longrightarrow> r_taskHandoffs rows (t_id t) = r_taskHandoffs rows2 (t_id t)"
  shows "derived goal rows = derived goal rows2"
proof -
  have pending: "goalPendingState (r_decisions rows) = goalPendingState (r_decisions rows2)"
    using arg_cong [OF assms(2), of goalPendingState] by (simp only: goalPendingState_filter)
  show ?thesis
    unfolding derived_def nextActionFor_def Let_def pending assms(1,3,4,5,6)
    by (subst deriveNextAction_handoffs [of _ "r_taskHandoffs rows2"]) (use assms(7) in simp_all)
qed

section \<open>One goal and all goals\<close>

definition rows_of :: "int \<Rightarrow> store \<Rightarrow> goalRows" where
  "rows_of i s =
     \<lparr>r_openDecisions = map decisionFromRow (order_by d_created_at (filter (\<lambda>d. d_goal_id d = i \<and> d_status d = DecisionOpen) (decisions s))),
      r_decisions = map decisionFromRow (order_by d_id (filter (\<lambda>d. d_goal_id d = i) (decisions s))),
      r_goalHandoffs = order_by h_id (filter (\<lambda>h. h_owner h = i) (goal_handoffs s)),
      r_planHandoffs = order_by pl_id (filter (\<lambda>p. pl_goal_id p = i) (plan_handoffs s)),
      r_taskCreates = order_by (\<lambda>c. (c_requested_at c, c_id c)) (filter (\<lambda>c. c_goal_id c = i) (task_create_handoffs s)),
      r_tasks = order_by (\<lambda>t. (t_sort_order t, t_id t)) (filter (\<lambda>t. t_goal_id t = i) (tasks s)),
      r_taskHandoffs = by_owner (order_by h_id (filter (\<lambda>h. handoff_open h
         \<and> list_ex (\<lambda>t. t_id t = h_owner h \<and> t_goal_id t = i) (tasks s)) (task_handoffs s)))\<rparr>"

lemma GoalNextAction_value:
  "g_status g = GoalActive \<Longrightarrow> GoalNextAction g s = (Inr (derived g (rows_of (g_id g) s)), s)"
  by (simp add: GoalNextAction_def nextActionFor_value rows_of_def ListOpenDecisions_def ListOpenDecisions_sql_def
      ListDecisionsForGoal_def ListDecisionsForGoal_sql_def convertDecisionRows_def select_decisions_def
      ListGoalHandoffs_def ListGoalHandoffs_sql_def ListPlanHandoffs_def ListPlanHandoffs_sql_def
      ListTaskCreateHandoffs_def ListTaskCreateHandoffs_sql_def ListTasks_def ListTasks_sql_def
      ListOpenTaskHandoffsForGoal_def ListOpenTaskHandoffsForGoal_sql_def op_eval op_eval_defs)

lemma order_by_key_cong:
  "(\<And>x y. x \<in> set xs \<Longrightarrow> y \<in> set xs \<Longrightarrow> k x \<le> k y \<longleftrightarrow> m x \<le> m y) \<Longrightarrow> order_by k xs = order_by m xs"
proof -
  have ins: "insort_by k x ys = insort_by m x ys" if "\<And>y. y \<in> set ys \<Longrightarrow> k x \<le> k y \<longleftrightarrow> m x \<le> m y" for x ys
    using that by (induction ys) auto
  show "(\<And>x y. x \<in> set xs \<Longrightarrow> y \<in> set xs \<Longrightarrow> k x \<le> k y \<longleftrightarrow> m x \<le> m y) \<Longrightarrow> ?thesis"
    by (induction xs) (auto intro!: ins)
qed

text \<open>The rows of one goal in a list ordered by the goal first are its rows in their own order.\<close>

lemma group_of_goal:
  fixes k :: "'a \<Rightarrow> int" and m :: "'a \<Rightarrow> 'b::linorder"
  shows "filter (\<lambda>r. k r = i) (order_by (\<lambda>r. (k r, m r)) rows) = order_by m (filter (\<lambda>r. k r = i) rows)"
  unfolding filter_order_by by (rule order_by_key_cong) (auto simp: less_eq_prod_def)

definition all_rows_of :: "int \<Rightarrow> store \<Rightarrow> goalRows" where
  "all_rows_of i s = (rows_of i s)
     \<lparr>r_decisions := filter (\<lambda>d. d_kind d = KindGoalReview) (r_decisions (rows_of i s)),
      r_taskHandoffs := by_owner (order_by h_id (filter handoff_open (task_handoffs s)))\<rparr>"

lemma decisionFromRow_key [simp]:
  "d_goal_id (decisionFromRow d) = d_goal_id d" "d_kind (decisionFromRow d) = d_kind d"
  by (simp_all add: decisionFromRow_def)

lemma filter_map_key: "(\<And>x. P (f x) = P x) \<Longrightarrow> filter P (map f xs) = map f (filter P xs)"
  by (induction xs) auto

lemma order_filter_cong:
  "(\<And>x. x \<in> set xs \<Longrightarrow> P x = Q x) \<Longrightarrow> order_by k (filter P xs) = order_by k (filter Q xs)"
  by (rule arg_cong [where f = "order_by k"]) (rule filter_cong; simp)

lemma by_owner_filter: "P i \<Longrightarrow> by_owner (filter (\<lambda>h. P (h_owner h)) hs) i = by_owner hs i"
proof -
  have "P i \<Longrightarrow> List.find (\<lambda>h. h_owner h = i) (filter (\<lambda>h. P (h_owner h)) gs) = List.find (\<lambda>h. h_owner h = i) gs" for gs
    by (induction gs) auto
  then show "P i \<Longrightarrow> ?thesis" by (simp add: by_owner_def rev_filter)
qed

lemma derived_all_rows:
  "derived g (all_rows_of i s) = derived g (rows_of i s)"
proof (rule derived_cong)
  fix t assume "t \<in> set (r_tasks (rows_of i s))"
  then have t: "list_ex (\<lambda>k. t_id k = t_id t \<and> t_goal_id k = i) (tasks s)"
    by (auto simp: rows_of_def list_ex_iff)
  have "order_by h_id (filter (\<lambda>h. handoff_open h \<and> list_ex (\<lambda>t. t_id t = h_owner h \<and> t_goal_id t = i) (tasks s)) (task_handoffs s))
      = filter (\<lambda>h. list_ex (\<lambda>t. t_id t = h_owner h \<and> t_goal_id t = i) (tasks s)) (order_by h_id (filter handoff_open (task_handoffs s)))"
    by (simp add: filter_order_by conj_commute)
  then show "r_taskHandoffs (all_rows_of i s) (t_id t) = r_taskHandoffs (rows_of i s) (t_id t)"
    using by_owner_filter [of "\<lambda>j. list_ex (\<lambda>k. t_id k = j \<and> t_goal_id k = i) (tasks s)" "t_id t"
        "order_by h_id (filter handoff_open (task_handoffs s))"] t
    by (simp add: all_rows_of_def rows_of_def)
qed (simp_all add: all_rows_of_def)

lemma loadAllGoalRows_value:
  "\<exists>all. loadAllGoalRows s = (Inr all, s) \<and> (\<forall>i. goal_active s i \<and> goal_visible s i \<longrightarrow>
     \<lparr>r_openDecisions = a_openDecisions all i, r_decisions = a_decisions all i,
      r_goalHandoffs = a_goalHandoffs all i, r_planHandoffs = a_planHandoffs all i,
      r_taskCreates = a_taskCreates all i, r_tasks = a_tasks all i, r_taskHandoffs = a_taskHandoffs all\<rparr>
     = all_rows_of i s)"
  apply (simp add: loadAllGoalRows_def ListAllOpenDecisions_def ListAllOpenDecisions_sql_def
        ListGoalReviewDecisionsForActiveGoals_sql_def convertDecisionRows_def select_decisions_def
        ListGoalHandoffsForActiveGoals_sql_def ListPlanHandoffsForActiveGoals_sql_def
        ListTaskCreateHandoffsForActiveGoals_sql_def ListTasksForAllGoals_def ListTasksForAllGoals_sql_def
        ListOpenTaskHandoffsForAllGoals_def ListOpenTaskHandoffs_sql_def op_eval op_eval_defs groupByGoal_def
        all_rows_of_def rows_of_def filter_map_key group_of_goal filter_order_by)
  apply (intro allI impI conjI arg_cong [where f = "map decisionFromRow"] order_filter_cong; auto)
  done

text \<open>
  Property C25. One goal and all goals. \<open>GoalNextActions\<close>, which reads every table once, gives for
  each of the active goals it is asked about the step \<open>GoalNextAction\<close> derives from the rows of
  that goal alone, as long as the goals are not in an archived project; neither ever fails.
\<close>

theorem next_actions_agree:
  assumes gs: "distinct (map g_id gs)"
    and active: "\<forall>g\<in>set gs. g_status g = GoalActive \<and> goal_active s (g_id g) \<and> goal_visible s (g_id g)"
  shows "\<exists>out. GoalNextActions gs s = (Inr out, s) \<and> dom out = g_id ` set gs
     \<and> (\<forall>g\<in>set gs. GoalNextAction g s = (Inr (the (out (g_id g))), s))"
proof -
  obtain all where all: "loadAllGoalRows s = (Inr all, s)" "\<And>i. goal_active s i \<Longrightarrow> goal_visible s i \<Longrightarrow>
     \<lparr>r_openDecisions = a_openDecisions all i, r_decisions = a_decisions all i,
      r_goalHandoffs = a_goalHandoffs all i, r_planHandoffs = a_planHandoffs all i,
      r_taskCreates = a_taskCreates all i, r_tasks = a_tasks all i, r_taskHandoffs = a_taskHandoffs all\<rparr>
     = all_rows_of i s"
    using loadAllGoalRows_value [of s] by blast
  have loop: "\<exists>out. next_actions all hs m s = (Inr out, s)
      \<and> (\<forall>i. out i = (case List.find (\<lambda>g. g_id g = i) hs of
           None \<Rightarrow> m i | Some g \<Rightarrow> Some (derived g (rows_of (g_id g) s))))"
    if "set hs \<subseteq> set gs" "distinct (map g_id hs)" for hs m
    using that
  proof (induction hs arbitrary: m)
    case (Cons g hs)
    then have g: "goal_active s (g_id g)" "goal_visible s (g_id g)" using active by auto
    let ?m = "m(g_id g \<mapsto> derived g (rows_of (g_id g) s))"
    have "next_actions all (g # hs) m s = next_actions all hs ?m s"
      by (simp add: bnd_def nextActionFor_value all(2) [OF g] derived_all_rows)
    moreover have "set hs \<subseteq> set gs" "distinct (map g_id hs)" using Cons.prems by auto
    from Cons.IH [OF this, of ?m] obtain out where out: "next_actions all hs ?m s = (Inr out, s)"
      "\<forall>i. out i = (case List.find (\<lambda>g. g_id g = i) hs of
           None \<Rightarrow> ?m i | Some g \<Rightarrow> Some (derived g (rows_of (g_id g) s)))" by (elim exE conjE) (rule that)
    moreover have "out i = (case List.find (\<lambda>g. g_id g = i) (g # hs) of
           None \<Rightarrow> m i | Some g \<Rightarrow> Some (derived g (rows_of (g_id g) s)))" for i
    proof (cases "g_id g = i")
      case True
      have "i \<notin> g_id ` set hs" using Cons.prems(2) True by simp
      then have "List.find (\<lambda>h. g_id h = i) hs = None" unfolding find_None_iff_all by blast
      then show ?thesis using out(2) True by simp
    qed (use out(2) in \<open>simp split: option.split\<close>)
    ultimately show ?case by simp
  qed (simp add: ret_def)
  obtain out where out: "next_actions all gs Map.empty s = (Inr out, s)"
      "\<And>i. out i = (case List.find (\<lambda>g. g_id g = i) gs of
           None \<Rightarrow> None | Some g \<Rightarrow> Some (derived g (rows_of (g_id g) s)))"
    using loop [of gs Map.empty] gs by auto
  have some: "out (g_id g) = Some (derived g (rows_of (g_id g) s))" if "g \<in> set gs" for g
    using find_key_unique [OF gs that refl] out(2) by simp
  have none: "out i = None" if "i \<notin> g_id ` set gs" for i
  proof -
    have "List.find (\<lambda>g. g_id g = i) gs = None" using that unfolding find_None_iff_all by blast
    then show ?thesis using out(2) by simp
  qed
  have "dom out = g_id ` set gs"
  proof (rule set_eqI)
    show "i \<in> dom out \<longleftrightarrow> i \<in> g_id ` set gs" for i
      using some none by (cases "i \<in> g_id ` set gs") (auto simp: domIff)
  qed
  moreover have "GoalNextAction g s = (Inr (the (out (g_id g))), s)" if "g \<in> set gs" for g
    using GoalNextAction_value [of g s] some [OF that] active that by simp
  moreover have "GoalNextActions gs s = (Inr out, s)"
    using out(1) all(1) by (simp add: GoalNextActions_def bnd_def)
  ultimately show ?thesis by blast
qed

theorem next_actions_agree_witness:
  "\<exists>out. GoalNextActions [a_goal 1] example = (Inr out, example)
     \<and> map_option na_Code (out 1) = Some ''human_decision''"
proof -
  have gs: "distinct (map g_id [a_goal 1])"
    and act: "\<forall>g\<in>set [a_goal 1]. g_status g = GoalActive \<and> goal_active example (g_id g) \<and> goal_visible example (g_id g)"
    by code_simp+
  obtain out where out: "GoalNextActions [a_goal 1] example = (Inr out, example)" "dom out = {1}"
     "GoalNextAction (a_goal 1) example = (Inr (the (out 1)), example)"
    using next_actions_agree [OF gs act] by (auto simp: a_goal_def)
  have "map_sum id na_Code (fst (GoalNextAction (a_goal 1) example)) = Inr ''human_decision''" by code_simp
  moreover obtain na where "out 1 = Some na" using out(2) by blast
  ultimately show ?thesis using out(1,3) by auto
qed

text \<open>The example with its project archived.\<close>

definition archived :: store where
  "archived = example\<lparr>projects := [(hd (projects example))\<lparr>p_archived_at := Some (sec 90)\<rparr>]\<rparr>"

text \<open>
  They can disagree. When the project of a goal is archived, \<open>GoalNextActions\<close> does
  not see the open decisions of the goal: alone, the goal waits for a human decision; together with
  the others, it waits for the executor.
\<close>

theorem archived_goals_disagree:
  "(case GoalNextAction (a_goal 1) archived of (r, _) \<Rightarrow> map_sum id na_Code r = Inr ''human_decision'')
   \<and> (case GoalNextActions [a_goal 1] archived of (r, _) \<Rightarrow>
        map_sum id (\<lambda>out. map_option na_Code (out 1)) r = Inr (Some ''executor_implement''))"
  by (intro conjI) code_simp+

section \<open>The step and the gate of the review\<close>

lemma review_scan_approved:
  "review_scan v ds = None \<longleftrightarrow>
     (\<exists>d\<in>set ds. d_kind d = KindGoalReview \<and> d_status d = DecisionApplied \<and> d_answer_label d = ''approve'')"
  by (induction v ds rule: review_scan.induct) auto

lemma review_scan_latest:
  "review_scan v ds = Some (Some d) \<Longrightarrow> v = Some d \<or> d \<in> set ds \<and> d_kind d = KindGoalReview"
  by (induction v ds rule: review_scan.induct) (auto split: if_splits)

lemma rejection_owedD:
  "rejection_owed d h \<Longrightarrow> handoff_open h \<and> h_review_received_at h \<noteq> None \<and> h_review_rejected_at h = None"
  by (simp add: rejection_owed_def Let_def handoff_open_def)

lemma pending_texts:
  "GoalPendingApprovedComplete \<noteq> []" "GoalPendingRejectedHandoffReject \<noteq> []"
  "GoalPendingApprovedComplete \<noteq> GoalPendingRejectedHandoffReject"
  "GoalPendingRejectedHandoffReject \<noteq> GoalPendingApprovedComplete"
  "[] \<noteq> GoalPendingApprovedComplete" "[] \<noteq> GoalPendingRejectedHandoffReject"
  by (simp_all add: GoalPendingApprovedComplete_def GoalPendingRejectedHandoffReject_def)

text \<open>
  The pending state tells the truth. \<open>GoalPendingState\<close> always returns; it says that
  a goal is approved and waits for its completion exactly when \<open>FinalizeGoalReview\<close> would find an
  approved review, and it says that a rejection is still to be passed on only when the latest review
  was rejected and a handoff of the goal is in review.
\<close>

theorem pending_state_is_the_review_gate:
  "\<exists>p. GoalPendingState goal s = (Inr p, s)
     \<and> (p = GoalPendingApprovedComplete \<longleftrightarrow>
          (\<exists>n. CountApprovedGoalReviewsForGoal_sql goal s = (Inr n, s) \<and> n \<noteq> 0))
     \<and> (p = GoalPendingRejectedHandoffReject \<longrightarrow>
          (\<exists>h\<in>set (goal_handoffs s). h_owner h = goal \<and> handoff_open h \<and> h_review_received_at h \<noteq> None
             \<and> h_review_rejected_at h = None)
        \<and> (\<exists>d\<in>set (decisions s). d_goal_id d = goal \<and> d_kind d = KindGoalReview \<and> d_status d = DecisionAnswered
             \<and> d_answer_label d = ''reject''))"
proof -
  let ?ds = "map decisionFromRow (order_by d_id (filter (\<lambda>d. d_goal_id d = goal) (decisions s)))"
  have run: "GoalPendingState goal s = goalPendingState ?ds (ListGoalHandoffs goal) s"
    by (simp add: GoalPendingState_def ListDecisionsForGoal_def ListDecisionsForGoal_sql_def convertDecisionRows_def
        select_decisions_def op_eval op_eval_defs)
  have count: "(\<exists>n. CountApprovedGoalReviewsForGoal_sql goal s = (Inr n, s) \<and> n \<noteq> 0) \<longleftrightarrow> review_scan None ?ds = None"
    by (auto simp: CountApprovedGoalReviewsForGoal_sql_def op_eval review_scan_approved affected_pos)
  show ?thesis
  proof (cases "review_scan None ?ds")
    case None
    then have "\<exists>n. CountApprovedGoalReviewsForGoal_sql goal s = (Inr n, s) \<and> n \<noteq> 0" using count by blast
    then show ?thesis
      by (simp add: run goalPendingState_def ret_def pending_texts None)
  next
    case (Some v)
    have "(case v of None \<Rightarrow> True | Some d \<Rightarrow> d \<in> set ?ds \<and> d_kind d = KindGoalReview)"
      using Some review_scan_latest [of None ?ds] by (cases v) auto
    then show ?thesis
      using count Some
      by (auto simp: run goalPendingState_def op_eval op_eval_defs pending_texts ListGoalHandoffs_def
          ListGoalHandoffs_sql_def list_ex_iff split: option.splits dest!: rejection_owedD)
  qed
qed

theorem pending_state_is_the_review_gate_witness:
  "let s = judged [review_decision 1 DecisionAnswered ''reject'' (sec 98)]
   in (\<exists>h\<in>set (goal_handoffs s). h_owner h = 1 \<and> handoff_open h \<and> h_review_received_at h \<noteq> None
        \<and> h_review_rejected_at h = None)
    \<and> CountApprovedGoalReviewsForGoal_sql 1 s = (Inr 0, s)"
proof -
  let ?s = "judged [review_decision 1 DecisionAnswered ''reject'' (sec 98)]"
  have owed: "fst (GoalPendingState 1 ?s) = Inr GoalPendingRejectedHandoffReject" by code_simp
  have none: "CountApprovedGoalReviewsForGoal_sql 1 ?s = (Inr 0, ?s)"
    by (simp add: CountApprovedGoalReviewsForGoal_sql_def op_eval judged_def review_decision_def a_decision_def)
  from pending_state_is_the_review_gate [of 1 ?s] owed none show ?thesis
    unfolding Let_def by (elim exE conjE) simp
qed

section \<open>Who acts next\<close>

lemma newNextAction_parts [simp]:
  "na_Code (newNextAction code) = code"
  by (simp add: newNextAction_def no_action_def split: option.split)

lemma newNextAction_human:
  "na_Actor (newNextAction code) = ''human'' \<longleftrightarrow> code = ''human_review'' \<or> code = ''human_decision''"
  by (simp add: newNextAction_def no_action_def NextActionSpecs_def)

lemma derivePlanNextAction_code:
  "na_Code (derivePlanNextAction inp) \<noteq> []" "na_Actor (derivePlanNextAction inp) \<noteq> ''human''"
  by (simp_all add: derivePlanNextAction_def newNextAction_human split: option.split)

lemma deriveTaskNextAction_code:
  "na_Actor (deriveTaskNextAction ts f) \<noteq> ''human''"
  "na_Code (deriveTaskNextAction ts f) = [] \<Longrightarrow> (\<forall>t\<in>set ts. t_status t \<noteq> TaskDropped) \<Longrightarrow>
     \<exists>t\<in>set ts. t_status t = TaskTodo \<and> (\<exists>h. f (t_id t) = Some h \<and> h_received_at h \<noteq> None)"
proof -
  show "na_Actor (deriveTaskNextAction ts f) \<noteq> ''human''"
    by (simp add: deriveTaskNextAction_def Let_def newNextAction_human no_action_def)
  assume none: "na_Code (deriveTaskNextAction ts f) = []" and act: "\<forall>t\<in>set ts. t_status t \<noteq> TaskDropped"
  have empty: "filter (\<lambda>t. t_status t = TaskReview) ts = []"
      "filter (\<lambda>t. t_status t = TaskTodo \<and> f (t_id t) = None) ts = []"
      "filter (\<lambda>t. t_status t = TaskTodo \<and> (case f (t_id t) of None \<Rightarrow> False | Some h \<Rightarrow> h_received_at h = None)) ts = []"
      "filter (\<lambda>t. t_status t = TaskDoing) ts = []"
      and undone: "length (filter (\<lambda>t. t_status t = TaskDone) ts) \<noteq> length ts"
    using none by (auto simp: deriveTaskNextAction_def Let_def split: if_splits)
  from undone obtain t where t: "t \<in> set ts" "t_status t \<noteq> TaskDone"
    using filter_id_conv [of "\<lambda>t. t_status t = TaskDone" ts] by auto
  then have "t_status t = TaskTodo" using empty(1,4) act by (cases "t_status t") (auto simp: filter_empty_conv)
  moreover have "\<exists>h. f (t_id t) = Some h \<and> h_received_at h \<noteq> None"
    using empty(2,3) t(1) \<open>t_status t = TaskTodo\<close> by (cases "f (t_id t)") (auto simp: filter_empty_conv)
  ultimately show "\<exists>t\<in>set ts. t_status t = TaskTodo \<and> (\<exists>h. f (t_id t) = Some h \<and> h_received_at h \<noteq> None)"
    using t(1) by blast
qed

lemma deriveNextAction_human:
  "in_Status inp = GoalActive \<Longrightarrow> na_Actor (deriveNextAction inp) = ''human'' \<longleftrightarrow> in_OpenDecision inp \<noteq> None"
  by (simp add: deriveNextAction_def derive_work_def Let_def newNextAction_human derivePlanNextAction_code(2)
      deriveTaskNextAction_code(1) split: option.split)

lemma deriveNextAction_none:
  assumes "in_Status inp = GoalActive" and "na_Code (deriveNextAction inp) = []"
  shows "\<exists>t\<in>set (in_Tasks inp). t_status t = TaskTodo
     \<and> (\<exists>h. in_TaskHandoffs inp (t_id t) = Some h \<and> h_received_at h \<noteq> None)"
proof -
  have "na_Code (derive_work inp) = []"
    using assms by (simp add: deriveNextAction_def split: option.splits if_splits)
  then have "na_Code (deriveTaskNextAction (filter (\<lambda>t. t_status t \<noteq> TaskDropped) (in_Tasks inp)) (in_TaskHandoffs inp)) = []"
    by (simp add: derive_work_def Let_def derivePlanNextAction_code(1) split: if_splits)
  from deriveTaskNextAction_code(2) [OF this] show ?thesis by auto
qed

text \<open>
  Property C26. Who acts next. For an active goal \<open>GoalNextAction\<close> always returns a step; it is a step
  of the human exactly when the goal has an open decision; and it is empty only when a task of the
  goal is to do although its open handoff was received.
\<close>

theorem who_acts_next:
  assumes active: "g_status g = GoalActive"
  shows "\<exists>na. GoalNextAction g s = (Inr na, s)
     \<and> (na_Actor na = ''human'' \<longleftrightarrow> (\<exists>d\<in>set (decisions s). d_goal_id d = g_id g \<and> d_status d = DecisionOpen))
     \<and> (na_Code na = [] \<longrightarrow> (\<exists>t\<in>set (tasks s). t_goal_id t = g_id g \<and> t_status t = TaskTodo
          \<and> (\<exists>h\<in>set (task_handoffs s). h_owner h = t_id t \<and> handoff_open h \<and> h_received_at h \<noteq> None)))"
proof -
  let ?rows = "rows_of (g_id g) s"
  obtain inp where inp: "derived g ?rows = deriveNextAction inp" "in_Status inp = GoalActive"
    "in_OpenDecision inp = (case r_openDecisions ?rows of [] \<Rightarrow> None | d # _ \<Rightarrow> Some d)"
    "in_Tasks inp = r_tasks ?rows" "in_TaskHandoffs inp = r_taskHandoffs ?rows"
    using derived_input [OF active] by blast
  have "(in_OpenDecision inp \<noteq> None) \<longleftrightarrow> set (r_openDecisions ?rows) \<noteq> {}"
    unfolding inp(3) by (cases "r_openDecisions ?rows") auto
  also have "\<dots> \<longleftrightarrow> (\<exists>d\<in>set (decisions s). d_goal_id d = g_id g \<and> d_status d = DecisionOpen)"
    by (auto simp: rows_of_def)
  finally have human: "na_Actor (derived g ?rows) = ''human'' \<longleftrightarrow>
      (\<exists>d\<in>set (decisions s). d_goal_id d = g_id g \<and> d_status d = DecisionOpen)"
    using deriveNextAction_human [OF inp(2)] inp(1) by simp
  have "\<exists>t\<in>set (tasks s). t_goal_id t = g_id g \<and> t_status t = TaskTodo
      \<and> (\<exists>h\<in>set (task_handoffs s). h_owner h = t_id t \<and> handoff_open h \<and> h_received_at h \<noteq> None)"
    if none: "na_Code (derived g ?rows) = []"
  proof -
    obtain t h where "t \<in> set (r_tasks ?rows)" "t_status t = TaskTodo"
      "r_taskHandoffs ?rows (t_id t) = Some h" "h_received_at h \<noteq> None"
      using deriveNextAction_none [OF inp(2)] none unfolding inp by blast
    then show ?thesis
      by (intro bexI [of _ t] conjI bexI [of _ h]) (auto simp: rows_of_def by_owner_def dest!: find_Some_in)
  qed
  with human GoalNextAction_value [OF active] show ?thesis by blast
qed

theorem who_acts_next_witness:
  "na_Actor (projr (fst (GoalNextAction (a_goal 1) example))) = ''human''"
proof -
  have "g_status (a_goal 1) = GoalActive" by (simp add: a_goal_def)
  from who_acts_next [OF this, of example] obtain na where "GoalNextAction (a_goal 1) example = (Inr na, example)"
    "na_Actor na = ''human'' \<longleftrightarrow> (\<exists>d\<in>set (decisions example). d_goal_id d = g_id (a_goal 1) \<and> d_status d = DecisionOpen)"
    by blast
  then show ?thesis by (simp add: example_def a_decision_def a_goal_def)
qed

end
