(* ===== verification/Atct_Wakeup.thy ===== *)
theory Atct_Wakeup
  imports Atct_Discard
begin

text \<open>
  What wakes an agent up (\<^verbatim>\<open>internal/store/wakeup.go\<close>) and which claims belong to
  sessions that are still running (\<^verbatim>\<open>internal/store/claim_liveness.go\<close>). Both only
  read. The theorems compare the counts with the tasks they count.
\<close>

section \<open>Claims and the sessions behind them\<close>

definition ListOpenTaskHandoffClaims_sql :: "int \<Rightarrow> ((task \<times> handoff) list) store_op" where
  "ListOpenTaskHandoffClaims_sql project =
     ask (\<lambda>s. map (\<lambda>(g, t, h). (t, h))
       (order_by (\<lambda>(g, t, h). (g_created_at g, g_id g, t_sort_order t, t_id t))
         [(g, t, h). h \<leftarrow> task_handoffs s, t \<leftarrow> tasks s, g \<leftarrow> goals s,
            t_id t = h_owner h \<and> g_id g = t_goal_id t \<and> g_project_id g = project
            \<and> h_completed_report_at h = None \<and> h_recovered_at h = None]))"

definition ListOpenGoalHandoffClaims_sql :: "int \<Rightarrow> ((goal \<times> handoff) list) store_op" where
  "ListOpenGoalHandoffClaims_sql project =
     ask (\<lambda>s. order_by (\<lambda>(g, h). (g_created_at g, g_id g))
       [(g, h). h \<leftarrow> goal_handoffs s, g \<leftarrow> goals s,
          g_id g = h_owner h \<and> g_project_id g = project
          \<and> h_completed_report_at h = None \<and> h_recovered_at h = None])"

text \<open>Until the receipt the requester is the only session that is known.\<close>

definition claiming_session :: "handoff \<Rightarrow> int" where
  "claiming_session h = (if nz (h_received_by h) = 0 then nz (h_requested_by h) else nz (h_received_by h))"

definition claims_by_liveness :: "time \<Rightarrow> ('a \<times> handoff) list \<Rightarrow> store \<Rightarrow> 'a list \<times> 'a list" where
  "claims_by_liveness now claims s =
     (map fst (filter (\<lambda>(_, h). claimIsRunning (claiming_session h) now s) claims),
      map fst (filter (\<lambda>(_, h). \<not> claimIsRunning (claiming_session h) now s) claims))"

definition ClaimLiveness :: "int \<Rightarrow> time \<Rightarrow> (task list \<times> task list) store_op" where
  "ClaimLiveness projectID now =
     (if projectID = 0 then fail (Failure ''project id is required'')
      else bnd (ListOpenTaskHandoffClaims_sql projectID) (\<lambda>claims. ask (claims_by_liveness now claims)))"

definition GoalClaimLiveness :: "int \<Rightarrow> time \<Rightarrow> (goal list \<times> goal list) store_op" where
  "GoalClaimLiveness projectID now =
     (if projectID = 0 then fail (Failure ''project id is required'')
      else bnd (ListOpenGoalHandoffClaims_sql projectID) (\<lambda>claims. ask (claims_by_liveness now claims)))"

section \<open>The evaluation\<close>

record WakeupState =
  wk_ActionableGoalCount :: nat
  wk_UnassignedGoalIDs :: "int list"
  wk_UnstartedTaskCount :: nat
  wk_WaitingAnswerTaskCount :: nat
  wk_UntouchedTaskCount :: nat
  wk_WaitingAnswerCount :: nat
  wk_Tasks :: "task list"
  wk_CompletedGoals :: "goal list"
  wk_DroppedGoals :: "goal list"
  wk_UnclaimedDoingTasks :: "task list"
  wk_CommitlessGoals :: "goal list"
  wk_HandoffsAwaitingReceipt :: "handoff list"
  wk_HandoffsAwaitingReport :: "handoff list"
  wk_UndelegatedClaims :: "task list"
  wk_AnsweredUnappliedDecisions :: "decision list"
  wk_DefaultUnappliedDecisions :: "decision list"
  wk_StaleClaims :: "task list"

text \<open>
  \<^verbatim>\<open>UnassignedGoalCount\<close> and \<^verbatim>\<open>DelegatedTaskCount\<close> are the
  lengths of two of the lists, \<^verbatim>\<open>UndeclaredGoals\<close> is always empty.
\<close>

definition wk_UnassignedGoalCount :: "WakeupState \<Rightarrow> nat" where
  "wk_UnassignedGoalCount st = length (wk_UnassignedGoalIDs st)"

definition wk_DelegatedTaskCount :: "WakeupState \<Rightarrow> nat" where
  "wk_DelegatedTaskCount st = length (wk_HandoffsAwaitingReport st)"

definition no_wakeup :: WakeupState where
  "no_wakeup = \<lparr>wk_ActionableGoalCount = 0, wk_UnassignedGoalIDs = [], wk_UnstartedTaskCount = 0,
     wk_WaitingAnswerTaskCount = 0, wk_UntouchedTaskCount = 0, wk_WaitingAnswerCount = 0, wk_Tasks = [],
     wk_CompletedGoals = [], wk_DroppedGoals = [], wk_UnclaimedDoingTasks = [], wk_CommitlessGoals = [],
     wk_HandoffsAwaitingReceipt = [], wk_HandoffsAwaitingReport = [], wk_UndelegatedClaims = [],
     wk_AnsweredUnappliedDecisions = [], wk_DefaultUnappliedDecisions = [], wk_StaleClaims = []\<rparr>"

definition classifyWakeupDecisions :: "decision list \<Rightarrow> int set \<Rightarrow> decision list \<times> decision list" where
  "classifyWakeupDecisions ds projectGoalIDs =
     (let mine = filter (\<lambda>d. d_status d = DecisionAnswered \<and> d_applied_at d = None \<and> d_goal_id d \<in> projectGoalIDs) ds
      in (filter (\<lambda>d. d_default_applied_at d = None) mine, filter (\<lambda>d. d_default_applied_at d \<noteq> None) mine))"

text \<open>A handoff that was received and not completed is a claim of its owner.\<close>

definition claims_owner :: "handoff \<Rightarrow> bool" where
  "claims_owner h \<longleftrightarrow> h_received_at h \<noteq> None \<and> h_completed_report_at h = None"

definition isDelegated :: "handoff \<Rightarrow> bool" where
  "isDelegated h \<longleftrightarrow> h_requested_at h \<noteq> None
     \<and> (h_received_at h = None \<or> nz (h_requested_by h) \<noteq> nz (h_received_by h))"

definition commanderClaim :: "project list \<Rightarrow> handoff list \<Rightarrow> bool" where
  "commanderClaim ps hs =
     (case List.find claims_owner hs of None \<Rightarrow> False
      | Some h \<Rightarrow> nz (h_received_by h) \<noteq> 0 \<and> list_ex (\<lambda>p. p_claimed_by p = nz (h_received_by h)) ps)"

definition unstarted :: "time \<Rightarrow> task \<times> handoff list \<Rightarrow> bool" where
  "unstarted now = (\<lambda>(t, hs). t_status t = TaskTodo \<and> \<not> list_ex claims_owner hs
     \<and> (case t_snoozed_until t of None \<Rightarrow> True | Some u \<Rightarrow> u \<le> now))"

text \<open>
  One round of the loop over the active goals: what it adds to the state. The second part is skipped
  for a goal without unstarted tasks.
\<close>

definition linked_commit :: "task list \<Rightarrow> bool store_op" where
  "linked_commit ts =
     bnd (search (\<lambda>t. bnd (ListTaskCommits (t_id t)) (\<lambda>cs. ret (if cs = [] then None else Some ()))) ts)
       (\<lambda>v. ret (v \<noteq> None))"

definition wakeup_goal :: "project list \<Rightarrow> time \<Rightarrow> goal \<Rightarrow> WakeupState store_op" where
  "wakeup_goal ps now g =
     bnd (ListTasks (g_id g)) (\<lambda>ts.
     bnd (ListOpenDecisions (g_id g)) (\<lambda>openDecisions.
     bnd (ListGoalHandoffs (g_id g)) (\<lambda>goalHandoffs.
     bnd (collect (\<lambda>t. bnd (ListTaskHandoffs (t_id t)) (\<lambda>hs. ret (t, hs))) ts) (\<lambda>work.
     (let allDone = list_all (\<lambda>t. t_status t = TaskDone) ts;
          allDropped = list_all (\<lambda>t. t_status t = TaskDropped) ts;
          allTerminal = list_all (\<lambda>t. t_status t \<in> {TaskDone, TaskDropped}) ts;
          hasDoneTask = list_ex (\<lambda>t. t_status t = TaskDone) ts;
          todo = map fst (filter (unstarted now) work);
          waiting = (\<lambda>t. list_ex (\<lambda>d. d_task_id d \<noteq> None \<and> nz (d_task_id d) \<noteq> 0 \<and> nz (d_task_id d) = t_id t) openDecisions)
      in bnd (if ts \<noteq> [] \<and> allTerminal \<and> hasDoneTask then linked_commit ts else ret True) (\<lambda>hasLinkedCommit.
         ret (no_wakeup\<lparr>
           wk_UnclaimedDoingTasks :=
             map fst (filter (\<lambda>(t, hs). t_status t = TaskDoing \<and> \<not> list_ex claims_owner hs) work),
           wk_CompletedGoals := (if ts \<noteq> [] \<and> allDone then [g] else []),
           wk_DroppedGoals := (if ts \<noteq> [] \<and> \<not> allDone \<and> allDropped then [g] else []),
           wk_CommitlessGoals := (if hasLinkedCommit then [] else [g]),
           wk_HandoffsAwaitingReceipt :=
             concat (map (\<lambda>(t, hs). filter (\<lambda>h. isDelegated h \<and> h_received_at h = None) hs) work),
           wk_HandoffsAwaitingReport :=
             concat (map (\<lambda>(t, hs). filter (\<lambda>h. isDelegated h \<and> claims_owner h) hs) work),
           wk_UndelegatedClaims :=
             map fst (filter (\<lambda>(t, hs). list_ex claims_owner hs \<and> \<not> list_ex isDelegated hs
               \<and> \<not> commanderClaim ps hs) work),
           wk_WaitingAnswerCount := length openDecisions,
           wk_ActionableGoalCount := (if todo = [] then 0 else 1),
           wk_UnassignedGoalIDs := (if todo = [] \<or> list_ex claims_owner goalHandoffs then [] else [g_id g]),
           wk_UnstartedTaskCount := length todo,
           wk_WaitingAnswerTaskCount := length (filter waiting todo),
           wk_UntouchedTaskCount := length (filter (\<lambda>t. \<not> waiting t) todo),
           wk_Tasks := filter (\<lambda>t. \<not> waiting t) todo\<rparr>)))))))"

definition wk_add :: "WakeupState \<Rightarrow> WakeupState \<Rightarrow> WakeupState" where
  "wk_add a b =
     \<lparr>wk_ActionableGoalCount = wk_ActionableGoalCount a + wk_ActionableGoalCount b,
      wk_UnassignedGoalIDs = wk_UnassignedGoalIDs a @ wk_UnassignedGoalIDs b,
      wk_UnstartedTaskCount = wk_UnstartedTaskCount a + wk_UnstartedTaskCount b,
      wk_WaitingAnswerTaskCount = wk_WaitingAnswerTaskCount a + wk_WaitingAnswerTaskCount b,
      wk_UntouchedTaskCount = wk_UntouchedTaskCount a + wk_UntouchedTaskCount b,
      wk_WaitingAnswerCount = wk_WaitingAnswerCount a + wk_WaitingAnswerCount b,
      wk_Tasks = wk_Tasks a @ wk_Tasks b,
      wk_CompletedGoals = wk_CompletedGoals a @ wk_CompletedGoals b,
      wk_DroppedGoals = wk_DroppedGoals a @ wk_DroppedGoals b,
      wk_UnclaimedDoingTasks = wk_UnclaimedDoingTasks a @ wk_UnclaimedDoingTasks b,
      wk_CommitlessGoals = wk_CommitlessGoals a @ wk_CommitlessGoals b,
      wk_HandoffsAwaitingReceipt = wk_HandoffsAwaitingReceipt a @ wk_HandoffsAwaitingReceipt b,
      wk_HandoffsAwaitingReport = wk_HandoffsAwaitingReport a @ wk_HandoffsAwaitingReport b,
      wk_UndelegatedClaims = wk_UndelegatedClaims a @ wk_UndelegatedClaims b,
      wk_AnsweredUnappliedDecisions = wk_AnsweredUnappliedDecisions a @ wk_AnsweredUnappliedDecisions b,
      wk_DefaultUnappliedDecisions = wk_DefaultUnappliedDecisions a @ wk_DefaultUnappliedDecisions b,
      wk_StaleClaims = wk_StaleClaims a @ wk_StaleClaims b\<rparr>"

definition EvaluateWakeup :: "int \<Rightarrow> time \<Rightarrow> WakeupState store_op" where
  "EvaluateWakeup projectID now =
     bnd (ListGoals projectID) (\<lambda>gs.
     bnd ListProjects (\<lambda>ps.
     bnd ListUnappliedDecisions (\<lambda>ds.
     bnd (ClaimLiveness projectID now) (\<lambda>(_, staleClaimedTasks).
     (let active = filter (\<lambda>g. g_status g = GoalActive) gs;
          (humanAnswered, defaultApplied) = classifyWakeupDecisions ds (g_id ` set gs)
      in bnd (collect (wakeup_goal ps now) active) (\<lambda>parts.
         let st = foldl wk_add no_wakeup parts
         in ret (st\<lparr>wk_AnsweredUnappliedDecisions := humanAnswered,
                    wk_DefaultUnappliedDecisions := defaultApplied,
                    wk_StaleClaims := filter (\<lambda>t. t_goal_id t \<in> g_id ` set active) staleClaimedTasks,
                    wk_UnassignedGoalIDs := sort (wk_UnassignedGoalIDs st)\<rparr>)))))))"

definition CountUnstartedTasks :: "int \<Rightarrow> time \<Rightarrow> nat store_op" where
  "CountUnstartedTasks projectID now =
     bnd (ListGoals projectID) (\<lambda>gs.
     bnd (collect (\<lambda>g.
       bnd (ListOpenDecisions (g_id g)) (\<lambda>openDecisions.
       if openDecisions \<noteq> [] then ret 0
       else bnd (ListTasks (g_id g)) (\<lambda>ts.
         bnd (collect (\<lambda>t. bnd (ListTaskHandoffs (t_id t)) (\<lambda>hs. ret (t, hs))) ts) (\<lambda>work.
         ret (length (filter (unstarted now) work))))))
       (filter (\<lambda>g. g_status g = GoalActive) gs)) (\<lambda>counts. ret (sum_list counts)))"

definition CountUnstartedTasksForWakeup :: "int \<Rightarrow> time \<Rightarrow> nat store_op" where
  "CountUnstartedTasksForWakeup projectID now =
     bnd (EvaluateWakeup projectID now) (\<lambda>st. ret (wk_UnstartedTaskCount st))"

lemma reads_wakeup [reads_intros]:
  "reads (ClaimLiveness p now)" "reads (GoalClaimLiveness p now)" "reads (wakeup_goal ps now g)"
  "reads (EvaluateWakeup p now)" "reads (CountUnstartedTasks p now)" "reads (CountUnstartedTasksForWakeup p now)"
  unfolding ClaimLiveness_def GoalClaimLiveness_def ListOpenTaskHandoffClaims_sql_def
    ListOpenGoalHandoffClaims_sql_def wakeup_goal_def linked_commit_def EvaluateWakeup_def CountUnstartedTasks_def
    CountUnstartedTasksForWakeup_def ListProjects_def ListProjects_sql_def Let_def
    ListGoals_def ListUnappliedDecisions_def ListOpenDecisions_def ListTasks_def ListTaskCommits_def ListGoalHandoffs_def
  by (rule reads_intros)+

end
