(* ===== verification/Atct_Roles.thy ===== *)
theory Atct_Roles
  imports Atct_Wakeup
begin

text \<open>
  The role boundary of the daemon (\<^verbatim>\<open>internal/daemon/handler.go\<close>, the part before
  \<^verbatim>\<open>dispatch\<close>): the role a session has, what a role may do, and the reads the
  answers of the RPC methods share. The store checks claims and handoffs itself; here the role an
  operation is open to is checked before the store is called.
\<close>

section \<open>Texts\<close>

text \<open>\<^verbatim>\<open>string([]rune)\<close>: the UTF-8 encoding of a rune.\<close>

definition encode_rune :: "nat \<Rightarrow> string" where
  "encode_rune r =
     map char_of
       (if r < 128 then [r]
        else if r < 2048 then [192 + r div 64, 128 + r mod 64]
        else if r < 65536 then [224 + r div 4096, 128 + r div 64 mod 64, 128 + r mod 64]
        else [240 + r div 262144, 128 + r div 4096 mod 64, 128 + r div 64 mod 64, 128 + r mod 64])"

definition utf8 :: "nat list \<Rightarrow> string" where
  "utf8 rs = concat (map encode_rune rs)"

definition ellipsis :: string where
  "ellipsis = [CHR 0xE2, CHR 0x80, CHR 0xA6]"

fun summary_of :: "string list \<Rightarrow> string" where
  "summary_of [] = []"
| "summary_of (l # ls) =
     (let line = TrimSpace l; rs = runes line
      in if line = [] then summary_of ls
         else if 120 < length rs then utf8 (take 120 rs) @ ellipsis else line)"

definition summaryLine :: "string \<Rightarrow> string" where
  "summaryLine content = summary_of (split_on newline content)"

section \<open>Roles\<close>

record roleAssignment =
  ra_Role :: string
  ra_ProjectID :: int
  ra_GoalID :: int
  ra_HasTasks :: bool

record claimEvidence =
  ce_Scope :: string
  ce_AgentSessionID :: int
  ce_ProjectID :: int
  ce_GoalID :: int
  ce_TaskID :: int
  ce_HandoffID :: string

text \<open>
  The answer to \<^verbatim>\<open>session.role\<close>. The Go code has one type per role; the ids a role
  does not show are None.
\<close>

record role_response =
  rr_Role :: string
  rr_ProjectID :: "int option"
  rr_GoalID :: "int option"
  rr_Does :: "string list"
  rr_DoesNot :: "string list"
  rr_UILocale :: string

definition visibleRole :: "string \<Rightarrow> bool \<Rightarrow> string" where
  "visibleRole internalRole hasTasks =
     (if internalRole = ''commander'' then ''commander''
      else if internalRole = ''subcommander'' then ''executor''
      else if hasTasks then ''task_worker'' else ''none'')"

definition roleBoundaries :: "string \<Rightarrow> string list \<times> string list" where
  "roleBoundaries role =
     (if role = ''commander'' then
        ([''triage incoming work'', ''split goals'', ''prepare a working area'', ''review landed changes'',
          ''publish'', ''resolve conflicts'', ''clean up''],
         [''design the goal'', ''implement the goal'', ''edit executor deliverables''])
      else if role = ''executor'' then
        ([''design the goal'', ''implement and test the goal'' @ [CHR 0x27] @ ''s work'', ''use sub-agents as it sees fit'',
          ''report completion for the goal'', ''ask the commander to file decisions for the human'',
          ''commit the goal'' @ [CHR 0x27] @ ''s work''],
         [''inspect or manage other goals'', ''publish'', ''claim the project'',
          ''file decisions to the human directly''])
      else ([], []))"

definition roleResponseFor :: "roleAssignment \<Rightarrow> string \<Rightarrow> role_response" where
  "roleResponseFor a uiLocale =
     (let visible = visibleRole (ra_Role a) (ra_HasTasks a); (does, doesNot) = roleBoundaries visible
      in \<lparr>rr_Role = visible,
          rr_ProjectID = (if visible = ''commander'' then Some (ra_ProjectID a) else None),
          rr_GoalID = (if visible = ''executor'' then Some (ra_GoalID a) else None),
          rr_Does = does, rr_DoesNot = doesNot, rr_UILocale = uiLocale\<rparr>)"

definition deriveSessionRole :: "int \<Rightarrow> roleAssignment store_op" where
  "deriveSessionRole session =
     bnd (MonitorAssignment session) (\<lambda>a.
     ret \<lparr>ra_Role = ma_Role a, ra_ProjectID = ma_ProjectID a, ra_GoalID = ma_GoalID a,
          ra_HasTasks = ma_Tasks a \<noteq> []\<rparr>)"

section \<open>Who holds a handoff\<close>

definition taskHandoffClaimedBy :: "handoff option \<Rightarrow> int" where
  "taskHandoffClaimedBy h = (case h of None \<Rightarrow> 0 | Some h \<Rightarrow> claiming_session h)"

definition goalHandoffClaimedBy :: "handoff option \<Rightarrow> int" where
  "goalHandoffClaimedBy h = (case h of None \<Rightarrow> 0 | Some h \<Rightarrow> claiming_session h)"

definition taskHandoffClaimedAt :: "handoff option \<Rightarrow> time option" where
  "taskHandoffClaimedAt h =
     (case h of None \<Rightarrow> None
      | Some h \<Rightarrow> if h_received_at h \<noteq> None then h_received_at h else h_requested_at h)"

section \<open>Authorization\<close>

definition role_unauthorized :: error where
  "role_unauthorized = DaemonE ErrRoleUnauthorized"

definition DevelopmentModeEnabled_sql :: "int \<Rightarrow> bool store_op" where
  "DevelopmentModeEnabled_sql i =
     bnd (ask (session_row i)) (\<lambda>r. bnd (need NoRows r) (\<lambda>r. ret (s_development_mode r)))"

definition DevelopmentModeEnabled :: "int \<Rightarrow> bool store_op" where
  "DevelopmentModeEnabled i = DevelopmentModeEnabled_sql i"

text \<open>One round of the loop over the allowed roles.\<close>

definition role_granted :: "roleAssignment \<Rightarrow> bool \<Rightarrow> int \<Rightarrow> int \<Rightarrow> int \<Rightarrow> int \<Rightarrow> string \<Rightarrow> bool store_op" where
  "role_granted a developmentMode projectID goalID taskID session role =
     (if developmentMode \<and> ra_Role a = ''commander'' \<and> role = ''subcommander'' \<and> ra_ProjectID a = projectID
      then ret True
      else if developmentMode \<and> ra_Role a = ''subcommander'' \<and> role = ''executor'' \<and> ra_GoalID a = goalID
      then ret True
      else if ra_Role a \<noteq> role then ret False
      else if role = ''commander'' then ret (ra_ProjectID a = projectID)
      else if role = ''subcommander'' then ret (ra_GoalID a = goalID)
      else if role = ''executor'' then
        (if taskID = 0 then ret False
         else bnd (ListTaskHandoffs taskID) (\<lambda>hs.
           ret (list_ex (\<lambda>h. nz (h_received_by h) = session \<and> h_received_at h \<noteq> None
                             \<and> h_completed_report_at h = None) hs)))
      else ret False)"

definition authorizeRole :: "string list \<Rightarrow> int \<Rightarrow> int \<Rightarrow> int \<Rightarrow> int \<Rightarrow> unit store_op" where
  "authorizeRole allowed projectID goalID taskID session =
     (if session = 0 then fail role_unauthorized
      else bnd (if taskID \<noteq> 0 \<and> goalID = 0 then GetTaskGoalID taskID else ret goalID) (\<lambda>goalID.
        bnd (if goalID \<noteq> 0 \<and> projectID = 0 then bnd (GetGoal goalID) (\<lambda>g. ret (g_project_id g))
             else ret projectID) (\<lambda>projectID.
        bnd (deriveSessionRole session) (\<lambda>a.
        bnd (DevelopmentModeEnabled session) (\<lambda>developmentMode.
        bnd (search (\<lambda>role. bnd (role_granted a developmentMode projectID goalID taskID session role)
               (\<lambda>b. ret (if b then Some () else None))) allowed) (\<lambda>granted.
        check (granted \<noteq> None) role_unauthorized))))))"

definition authorizeCommander :: "int \<Rightarrow> int \<Rightarrow> int \<Rightarrow> unit store_op" where
  "authorizeCommander goalID projectID session = authorizeRole [''commander''] projectID goalID 0 session"

definition authorizeGoalHandoffHolder :: "int \<Rightarrow> int \<Rightarrow> unit store_op" where
  "authorizeGoalHandoffHolder goalID session =
     bnd (authorizeRole [''subcommander''] 0 goalID 0 session) (\<lambda>_.
     bnd (ListGoalHandoffs goalID) (\<lambda>hs.
     check (list_ex (\<lambda>h. h_received_at h \<noteq> None \<and> h_completed_report_at h = None
                        \<and> nz (h_received_by h) = session) hs)
       (Failure ''caller is not the received goal-handoff holder'')))"

definition ensureAgentSessionProject :: "int \<Rightarrow> int \<Rightarrow> time \<Rightarrow> unit store_op" where
  "ensureAgentSessionProject session targetProjectID now =
     (if session = 0 then ret ()
      else bnd (try_op (ProjectIDForAgentSession session)) (\<lambda>r. case r of
        Inl e \<Rightarrow> if e = SessionE ErrAgentSessionNotAssociated
                 then AssociateAgentSessionWithProject session targetProjectID now else fail e
      | Inr assigned \<Rightarrow>
          if assigned = targetProjectID then ret ()
          else bnd ListProjects (\<lambda>_. fail (Failure ''agent session project scope violation''))))"

section \<open>Finding or registering the project of a directory\<close>

definition parentBaseName :: "string \<Rightarrow> string" where
  "parentBaseName rootPath = Join [Base (Dir rootPath), Base rootPath]"

definition isProjectNameConflict :: "error \<Rightarrow> bool" where
  "isProjectNameConflict e \<longleftrightarrow> e = nameConflict"

definition resolveOrRegisterProject :: "world \<Rightarrow> string \<Rightarrow> time \<Rightarrow> project store_op" where
  "resolveOrRegisterProject w cwd now =
     bnd (try_op (ResolveProject w cwd)) (\<lambda>r. case r of
       Inr p \<Rightarrow> ret p
     | Inl e \<Rightarrow>
         if e \<noteq> ProjectE ErrProjectNotFound then fail e
         else (let rootPath = NormalizeRoot w cwd
               in bnd (try_op (CreateProject w (DefaultProjectName w rootPath) rootPath now)) (\<lambda>r. case r of
                    Inr p \<Rightarrow> ret p
                  | Inl _ \<Rightarrow>
                      bnd (try_op (ResolveProject w cwd)) (\<lambda>r. case r of
                        Inr p \<Rightarrow> ret p
                      | Inl e \<Rightarrow>
                          if e \<noteq> ProjectE ErrProjectNotFound then fail e
                          else CreateProject w (parentBaseName rootPath) rootPath now))))"

section \<open>Answers to pass on\<close>

definition DecisionRoutesToCommander :: "decision \<Rightarrow> bool" where
  "DecisionRoutesToCommander d \<longleftrightarrow> d_kind d = KindGoalReview \<or> d_agent_session_id d = 0"

definition unappliedDecisionNotificationsExcept :: "decision list \<Rightarrow> int list \<Rightarrow> (int \<times> string) list" where
  "unappliedDecisionNotificationsExcept ds excluded =
     map (\<lambda>d. (d_id d, d_question d)) (filter (\<lambda>d. d_id d \<notin> set excluded) ds)"

definition unappliedDecisionNotifications :: "decision list \<Rightarrow> (int \<times> string) list" where
  "unappliedDecisionNotifications ds = unappliedDecisionNotificationsExcept ds []"

definition unappliedDecisionsForSession :: "int \<Rightarrow> int \<Rightarrow> (decision list) store_op" where
  "unappliedDecisionsForSession goalID session =
     (if goalID = 0 then ret []
      else bnd (GetGoal goalID) (\<lambda>g.
        bnd (deriveSessionRole session) (\<lambda>role.
        if ra_Role role = ''commander'' then ListUnappliedDecisionsForProject (g_project_id g)
        else if ra_Role role = ''subcommander'' \<and> ra_GoalID role \<noteq> 0
        then ListUnappliedDecisionsForGoal (ra_GoalID role)
        else ListUnappliedDecisionsForGoal goalID)))"

record decisionScopeNotice =
  sn_Scope :: string
  sn_GoalID :: int
  sn_Role :: string

definition unappliedDecisionsForRecovery :: "int \<Rightarrow> int \<Rightarrow> (decision list \<times> decisionScopeNotice) store_op" where
  "unappliedDecisionsForRecovery projectID session =
     bnd (deriveSessionRole session) (\<lambda>role.
     if ra_Role role = ''commander''
     then bnd (ListUnappliedDecisionsForProject projectID) (\<lambda>ds.
       ret (ds, \<lparr>sn_Scope = ''project'', sn_GoalID = 0, sn_Role = ''commander''\<rparr>))
     else if ra_Role role = ''subcommander'' \<and> ra_GoalID role \<noteq> 0
     then bnd (ListUnappliedDecisionsForGoal (ra_GoalID role)) (\<lambda>ds.
       ret (ds, \<lparr>sn_Scope = ''goal'', sn_GoalID = ra_GoalID role, sn_Role = ''executor''\<rparr>))
     else bnd (ListUnappliedDecisionsForProject projectID) (\<lambda>ds.
       ret (ds, \<lparr>sn_Scope = ''project'', sn_GoalID = 0, sn_Role = visibleRole (ra_Role role) (ra_HasTasks role)\<rparr>)))"

definition scopedUnapplied :: "int \<Rightarrow> int \<Rightarrow> int list \<Rightarrow> ((int \<times> string) list) store_op" where
  "scopedUnapplied goalID session excluded =
     bnd (unappliedDecisionsForSession goalID session) (\<lambda>ds.
     ret (unappliedDecisionNotificationsExcept ds excluded))"

definition appendCommanderRoutedDecisions :: "int \<Rightarrow> decision list \<Rightarrow> time \<Rightarrow> (decision list) store_op" where
  "appendCommanderRoutedDecisions session ds now =
     bnd (deriveSessionRole session) (\<lambda>role.
     if ra_Role role \<noteq> ''commander'' then ret ds
     else bnd (ListUnappliedDecisionsForProject (ra_ProjectID role)) (\<lambda>unapplied.
       bnd (collect (\<lambda>d. PollDecisions session (d_id d) now)
              (filter (\<lambda>d. DecisionRoutesToCommander d \<and> d_agent_session_id d \<noteq> session) unapplied)) (\<lambda>polled.
       ret (ds @ concat polled))))"

text \<open>
  The first three tasks of a project that can be claimed. The loop stops at the third; later goals are
  then not read, which changes nothing, because reading does not fail for a goal that is listed.
\<close>

definition claimable_task :: "int \<Rightarrow> (int \<Rightarrow> handoff option) \<Rightarrow> task \<Rightarrow> bool" where
  "claimable_task excluded handoffs t \<longleftrightarrow>
     t_id t \<noteq> excluded \<and> t_status t = TaskTodo \<and> handoffs (t_id t) = None"

fun claimable_tasks :: "int \<Rightarrow> nat \<Rightarrow> goal list \<Rightarrow> (task list) store_op" where
  "claimable_tasks excluded n [] = ret []"
| "claimable_tasks excluded n (g # gs) =
     (if n = 0 then ret []
      else bnd (ListTasks (g_id g)) (\<lambda>ts.
        bnd (ListOpenTaskHandoffsForGoal (g_id g)) (\<lambda>handoffs.
        (let found = take n (filter (claimable_task excluded handoffs) ts)
         in bnd (claimable_tasks excluded (n - length found) gs) (\<lambda>rest. ret (found @ rest))))))"

definition listClaimableTasks :: "int \<Rightarrow> int \<Rightarrow> (task list) store_op" where
  "listClaimableTasks projectID excluded =
     bnd (ListGoals projectID) (\<lambda>gs. claimable_tasks excluded 3 gs)"

text \<open>
  A declare key is the idempotency key of the call, a hash sign and the position; the key itself may
  contain hash signs.
\<close>

definition before_last :: "char \<Rightarrow> string \<Rightarrow> string option" where
  "before_last c s = (if c \<in> set s then Some (rev (tl (dropWhile (\<lambda>x. x \<noteq> c) (rev s)))) else None)"

definition tasksCreatedWithIdempotencyKey :: "(task \<times> 'a) list \<Rightarrow> string \<Rightarrow> (task \<times> 'a) list" where
  "tasksCreatedWithIdempotencyKey ts key =
     filter (\<lambda>(t, _). before_last (CHR ''#'') (t_declare_key t) = Some key) ts"

section \<open>Evidence of a role\<close>

definition receiveRoleEvidence :: "int \<Rightarrow> int \<Rightarrow> int \<Rightarrow> int \<Rightarrow> string \<Rightarrow> (string \<times> claimEvidence) store_op" where
  "receiveRoleEvidence session projectID goalID taskID handoffID =
     bnd (if taskID \<noteq> 0 \<and> goalID = 0 then GetTaskGoalID taskID else ret goalID) (\<lambda>goalID.
     bnd (if goalID \<noteq> 0 \<and> projectID = 0 then bnd (GetGoal goalID) (\<lambda>g. ret (g_project_id g))
          else ret projectID) (\<lambda>projectID.
     bnd (MonitorAssignment session) (\<lambda>a.
     (let e = \<lparr>ce_Scope = [], ce_AgentSessionID = session, ce_ProjectID = projectID, ce_GoalID = goalID,
               ce_TaskID = taskID, ce_HandoffID = handoffID\<rparr>;
          e = (if ma_Role a = ''commander'' then e\<lparr>ce_Scope := ''project'', ce_ProjectID := ma_ProjectID a\<rparr>
               else if ma_Role a = ''subcommander''
               then e\<lparr>ce_Scope := ''goal'', ce_ProjectID := ma_ProjectID a, ce_GoalID := ma_GoalID a\<rparr>
               else if ma_Role a = ''executor'' \<and> taskID \<noteq> 0 then e\<lparr>ce_Scope := ''task''\<rparr> else e)
      in ret (visibleRole (ma_Role a) (ma_Tasks a \<noteq> []), e)))))"

section \<open>Reads\<close>

lemma reads_lists [reads_intros]:
  "reads (ListTasks g)" "reads (ListGoals p)" "reads (ListOpenTaskHandoffsForGoal g)" "reads ListOpenGoalHandoffs"
  "reads (ListGoalHandoffs g)" "reads (ListUnappliedDecisionsForProject p)" "reads (ListUnappliedDecisionsForGoal g)"
  unfolding ListTasks_def ListGoals_def ListOpenTaskHandoffsForGoal_def ListOpenGoalHandoffs_def
    ListGoalHandoffs_def ListUnappliedDecisionsForProject_def ListUnappliedDecisionsForGoal_def
  by (rule reads_intros)+

lemma reads_claimable_tasks [reads_intros]: "reads (claimable_tasks excluded n gs)"
proof (induction gs arbitrary: n)
  case (Cons g gs)
  show ?case unfolding claimable_tasks.simps Let_def by (rule reads_intros Cons.IH)+
qed (simp add: reads_ret)

lemma reads_roles [reads_intros]:
  "reads (deriveSessionRole i)" "reads (role_granted a dm p g t i role)" "reads (authorizeRole rs p g t i)"
  "reads (authorizeCommander g p i)" "reads (authorizeGoalHandoffHolder g i)"
  "reads (unappliedDecisionsForSession g i)" "reads (unappliedDecisionsForRecovery p i)"
  "reads (scopedUnapplied g i ex)" "reads (listClaimableTasks p t)" "reads (receiveRoleEvidence i p g t h)"
  unfolding deriveSessionRole_def role_granted_def authorizeRole_def authorizeCommander_def
    authorizeGoalHandoffHolder_def unappliedDecisionsForSession_def unappliedDecisionsForRecovery_def
    scopedUnapplied_def listClaimableTasks_def receiveRoleEvidence_def DevelopmentModeEnabled_def
    DevelopmentModeEnabled_sql_def Let_def
  by (rule reads_intros)+

lemma reads_development_mode [reads_intros]: "reads (DevelopmentModeEnabled i)"
  unfolding DevelopmentModeEnabled_def DevelopmentModeEnabled_sql_def by (rule reads_intros)+

end
