(* ===== verification/Atct_Review_Exchange.thy ===== *)
theory Atct_Review_Exchange
  imports Atct_Roles
begin

text \<open>
  The history of a review (\<^verbatim>\<open>internal/store/review_exchange.go\<close> and
  \<^verbatim>\<open>review_exchange.sql.go\<close>): every rejection of a goal, a plan or a task with the
  submission that answered it. The theorem says which submission that is.
\<close>

section \<open>Queries\<close>

definition review_entries :: "string list \<Rightarrow> (handoff_entry \<Rightarrow> bool) \<Rightarrow> handoff_entry list \<Rightarrow> handoff_entry list" where
  "review_entries kinds P es =
     order_by (\<lambda>e. (e_created_at e, e_id e)) (filter (\<lambda>e. P e \<and> e_kind e \<in> set kinds) es)"

definition ListGoalReviewExchangeEntries_sql :: "int \<Rightarrow> (handoff_entry list) store_op" where
  "ListGoalReviewExchangeEntries_sql goal = ask (\<lambda>s. review_entries [''review_requested'', ''review_rejected'']
     (\<lambda>e. list_ex (\<lambda>h. h_id h = e_handoff_id e \<and> h_owner h = goal) (goal_handoffs s)) (goal_handoff_entries s))"

definition ListPlanReviewExchangeEntries_sql :: "int \<Rightarrow> (handoff_entry list) store_op" where
  "ListPlanReviewExchangeEntries_sql goal = ask (\<lambda>s. order_by (\<lambda>e. (e_created_at e, e_id e))
     (filter (\<lambda>e. list_ex (\<lambda>h. pl_id h = e_handoff_id e \<and> pl_goal_id h = goal) (plan_handoffs s))
       (plan_handoff_entries s)))"

text \<open>A handoff id names one row, so the join with the handoff gives each entry its task.\<close>

definition task_of_handoff :: "store \<Rightarrow> string \<Rightarrow> int option" where
  "task_of_handoff s hid = map_option h_owner (List.find (\<lambda>h. h_id h = hid) (task_handoffs s))"

definition in_task_scope :: "store \<Rightarrow> int \<Rightarrow> int \<Rightarrow> string \<Rightarrow> bool" where
  "in_task_scope s goal task hid \<longleftrightarrow>
     (case task_of_handoff s hid of None \<Rightarrow> False
      | Some i \<Rightarrow> (task = 0 \<or> i = task) \<and> list_ex (\<lambda>t. t_id t = i \<and> t_goal_id t = goal) (tasks s))"

definition ListTaskReviewExchangeEntries_sql :: "int \<Rightarrow> int \<Rightarrow> ((int \<times> handoff_entry) list) store_op" where
  "ListTaskReviewExchangeEntries_sql goal task = ask (\<lambda>s.
     map (\<lambda>e. (nz (task_of_handoff s (e_handoff_id e)), e))
       (review_entries [''review_requested'', ''review_rejected'']
         (\<lambda>e. in_task_scope s goal task (e_handoff_id e)) (task_handoff_entries s)))"

definition ListGoalReviewDecisions_sql :: "int \<Rightarrow> (decision list) store_op" where
  "ListGoalReviewDecisions_sql goal = ask (\<lambda>s. order_by d_id
     (filter (\<lambda>d. d_goal_id d = goal \<and> d_kind d = KindGoalReview
               \<and> (d_answer_label d = ''reject'' \<or> d_status d = DecisionWithdrawn)) (decisions s)))"

definition first_entry_at :: "(handoff_entry \<Rightarrow> bool) \<Rightarrow> string \<Rightarrow> handoff_entry list \<Rightarrow> time option" where
  "first_entry_at P hid es =
     (case map e_created_at (filter (\<lambda>e. e_handoff_id e = hid \<and> P e) es) of [] \<Rightarrow> None
      | t # ts \<Rightarrow> Some (foldl min t ts))"

definition in_review :: "handoff_entry \<Rightarrow> bool" where
  "in_review e \<longleftrightarrow> e_kind e \<in> set [''review_requested'', ''review_received'', ''review_rejected'']"

definition gap_rows :: "string \<Rightarrow> (string \<Rightarrow> bool) \<Rightarrow> handoff_gap list \<Rightarrow> string list" where
  "gap_rows scope P gs = order_by (\<lambda>i. i) (map gap_handoff_id (filter (\<lambda>g. gap_scope g = scope \<and> P (gap_handoff_id g)) gs))"

definition ListGoalReviewGaps_sql :: "int \<Rightarrow> ((string \<times> time option) list) store_op" where
  "ListGoalReviewGaps_sql goal = ask (\<lambda>s.
     map (\<lambda>i. (i, first_entry_at in_review i (goal_handoff_entries s)))
       (gap_rows ''goal'' (\<lambda>i. list_ex (\<lambda>h. h_id h = i \<and> h_owner h = goal) (goal_handoffs s)) (handoff_history_gaps s)))"

definition ListPlanReviewGaps_sql :: "int \<Rightarrow> ((string \<times> time option) list) store_op" where
  "ListPlanReviewGaps_sql goal = ask (\<lambda>s.
     map (\<lambda>i. (i, first_entry_at (\<lambda>_. True) i (plan_handoff_entries s)))
       (gap_rows ''plan'' (\<lambda>i. list_ex (\<lambda>h. pl_id h = i \<and> pl_goal_id h = goal) (plan_handoffs s)) (handoff_history_gaps s)))"

definition ListTaskReviewGaps_sql :: "int \<Rightarrow> int \<Rightarrow> ((string \<times> int \<times> time option) list) store_op" where
  "ListTaskReviewGaps_sql goal task = ask (\<lambda>s.
     map (\<lambda>i. (i, nz (task_of_handoff s i), first_entry_at in_review i (task_handoff_entries s)))
       (gap_rows ''task'' (in_task_scope s goal task) (handoff_history_gaps s)))"

section \<open>Pairing\<close>

record ReviewRejection =
  rj_Source :: string
  rj_At :: time
  rj_ActorSessionID :: int
  rj_DecisionID :: int
  rj_Reason :: string

record ReviewResponse =
  rs_At :: time
  rs_AuthorSessionID :: int
  rs_HandoffID :: string
  rs_Report :: string

record ReviewExchange =
  rx_Scope :: string
  rx_TaskID :: int
  rx_HandoffID :: string
  rx_Rejection :: ReviewRejection
  rx_Response :: "ReviewResponse option"

record ReviewExchangeGap =
  rg_Scope :: string
  rg_HandoffID :: string
  rg_TaskID :: int
  rg_BeforeAt :: time

datatype reviewEvent = Rejected ReviewExchange | Submitted ReviewResponse

fun event_at :: "reviewEvent \<Rightarrow> time" where
  "event_at (Rejected x) = rj_At (rx_Rejection x)"
| "event_at (Submitted r) = rs_At r"

text \<open>At equal times a rejection comes first.\<close>

fun event_key :: "reviewEvent \<Rightarrow> time \<times> nat" where
  "event_key (Rejected x) = (rj_At (rx_Rejection x), 0)"
| "event_key (Submitted r) = (rs_At r, 1)"

fun first_submission :: "reviewEvent list \<Rightarrow> ReviewResponse option" where
  "first_submission [] = None"
| "first_submission (Submitted r # es) = Some r"
| "first_submission (Rejected x # es) = first_submission es"

fun pair_events :: "reviewEvent list \<Rightarrow> ReviewExchange list" where
  "pair_events [] = []"
| "pair_events (Rejected x # es) = x\<lparr>rx_Response := first_submission es\<rparr> # pair_events es"
| "pair_events (Submitted r # es) = pair_events es"

definition pairReviewStream :: "reviewEvent list \<Rightarrow> ReviewExchange list" where
  "pairReviewStream es = pair_events (order_by event_key es)"

section \<open>The history\<close>

definition entryEvent :: "string \<Rightarrow> int \<Rightarrow> handoff_entry \<Rightarrow> reviewEvent" where
  "entryEvent scope task e =
     (if e_kind e = ''review_requested''
      then Submitted \<lparr>rs_At = e_created_at e, rs_AuthorSessionID = nz (e_author_session_id e),
             rs_HandoffID = e_handoff_id e, rs_Report = e_body e\<rparr>
      else Rejected \<lparr>rx_Scope = scope, rx_TaskID = task, rx_HandoffID = e_handoff_id e,
             rx_Rejection = \<lparr>rj_Source = ''handoff'', rj_At = e_created_at e,
               rj_ActorSessionID = nz (e_author_session_id e), rj_DecisionID = 0, rj_Reason = e_body e\<rparr>,
             rx_Response = None\<rparr>)"

definition decisionEvent :: "decision \<Rightarrow> reviewEvent" where
  "decisionEvent d =
     Rejected \<lparr>rx_Scope = ''goal'', rx_TaskID = 0, rx_HandoffID = [],
       rx_Rejection = \<lparr>rj_Source = (if d_answer_label d = ''reject'' then ''human'' else ''withdrawn''),
         rj_At = (case d_answered_at d of None \<Rightarrow> d_created_at d | Some t \<Rightarrow> t), rj_ActorSessionID = 0,
         rj_DecisionID = d_id d, rj_Reason = d_answer_text d\<rparr>,
       rx_Response = None\<rparr>"

text \<open>The streams in the order in which their first events were added.\<close>

definition streams :: "('k \<times> reviewEvent) list \<Rightarrow> reviewEvent list list" where
  "streams xs = map (\<lambda>k. map snd (filter (\<lambda>(i, _). i = k) xs)) (rev (remdups (rev (map fst xs))))"

definition listReviewGaps :: "int \<Rightarrow> int \<Rightarrow> (ReviewExchangeGap list) store_op" where
  "listReviewGaps goalID taskID =
     bnd (if taskID = 0 then bnd (ListGoalReviewGaps_sql goalID) (\<lambda>gs. bnd (ListPlanReviewGaps_sql goalID) (\<lambda>ps.
            ret (map (\<lambda>(i, t). (''goal'', i, 0, t)) gs @ map (\<lambda>(i, t). (''plan'', i, 0, t)) ps)))
          else ret []) (\<lambda>wide.
     bnd (ListTaskReviewGaps_sql goalID taskID) (\<lambda>ts.
     ret (order_by rg_BeforeAt
       [\<lparr>rg_Scope = scope, rg_HandoffID = i, rg_TaskID = task, rg_BeforeAt = t\<rparr>.
          (scope, i, task, Some t) \<leftarrow> wide @ map (\<lambda>(i, task, t). (''task'', i, task, t)) ts])))"

definition ListReviewExchanges :: "int \<Rightarrow> int \<Rightarrow> (ReviewExchange list \<times> ReviewExchangeGap list) store_op" where
  "ListReviewExchanges goalID taskID =
     bnd (GetGoal goalID) (\<lambda>_.
     bnd (if 0 < taskID
          then bnd (map_error (\<lambda>e. if e = NoRows then TaskE ErrTaskNotFound else e) (GetTaskGoalID_sql taskID)) (\<lambda>owner.
            check (owner = goalID) (ErrTaskHandoff OwnerMismatch))
          else ret ()) (\<lambda>_.
     bnd (if taskID = 0 then
            bnd (ListGoalReviewExchangeEntries_sql goalID) (\<lambda>gs.
            bnd (ListGoalReviewDecisions_sql goalID) (\<lambda>ds.
            bnd (ListPlanReviewExchangeEntries_sql goalID) (\<lambda>ps.
            ret (map (\<lambda>e. ((''goal'', 0), entryEvent ''goal'' 0 e)) gs @ map (\<lambda>d. ((''goal'', 0), decisionEvent d)) ds
                 @ map (\<lambda>e. ((''plan'', 0), entryEvent ''plan'' 0 e)) ps))))
          else ret []) (\<lambda>wide.
     bnd (ListTaskReviewExchangeEntries_sql goalID taskID) (\<lambda>ts.
     bnd (listReviewGaps goalID taskID) (\<lambda>gaps.
     ret (order_by (\<lambda>x. (rj_At (rx_Rejection x), rx_Scope x))
            (concat (map pairReviewStream
              (streams (wide @ map (\<lambda>(task, e). ((''task'', task), entryEvent ''task'' task e)) ts)))), gaps))))))"

lemma reads_review_exchanges [reads_intros]: "reads (ListReviewExchanges g t)"
  unfolding ListReviewExchanges_def listReviewGaps_def ListGoalReviewExchangeEntries_sql_def
    ListGoalReviewDecisions_sql_def ListPlanReviewExchangeEntries_sql_def ListTaskReviewExchangeEntries_sql_def
    ListGoalReviewGaps_sql_def ListPlanReviewGaps_sql_def ListTaskReviewGaps_sql_def
  by (rule reads_intros)+

section \<open>Which submission answers a rejection\<close>

definition rejections :: "reviewEvent list \<Rightarrow> ReviewExchange list" where
  "rejections es = [x. Rejected x \<leftarrow> es]"

definition submissions :: "reviewEvent list \<Rightarrow> ReviewResponse list" where
  "submissions es = [r. Submitted r \<leftarrow> es]"

lemma stream_parts [simp]:
  "rejections [] = []" "rejections (Rejected x # es) = x # rejections es" "rejections (Submitted r # es) = rejections es"
  "submissions [] = []" "submissions (Rejected x # es) = submissions es" "submissions (Submitted r # es) = r # submissions es"
  by (simp_all add: rejections_def submissions_def)

lemma first_submission_eq: "first_submission es = (case submissions es of [] \<Rightarrow> None | r # _ \<Rightarrow> Some r)"
  by (induction es rule: first_submission.induct) auto

lemma set_stream_parts:
  "r \<in> set (submissions es) \<longleftrightarrow> Submitted r \<in> set es"
  "x \<in> set (rejections es) \<longleftrightarrow> Rejected x \<in> set es"
  by (induction es rule: pair_events.induct) auto

lemma submissions_append: "submissions (es @ ds) = submissions es @ submissions ds"
  by (simp add: submissions_def)

lemma pair_events_later:
  assumes "sorted (map event_key (pre @ es))"
  shows "pair_events es = map (\<lambda>x. x\<lparr>rx_Response :=
     (case filter (\<lambda>r. rj_At (rx_Rejection x) \<le> rs_At r) (submissions (pre @ es)) of [] \<Rightarrow> None | r # _ \<Rightarrow> Some r)\<rparr>)
     (rejections es)"
  using assms
proof (induction es arbitrary: pre rule: pair_events.induct)
  case (2 x es)
  have split: "submissions (pre @ Rejected x # es) = submissions pre @ submissions es"
    by (simp add: submissions_append)
  have before: "event_key e \<le> event_key (Rejected x)" if "e \<in> set pre" for e
    using 2(2) that by (auto simp: sorted_append)
  have behind: "event_key (Rejected x) \<le> event_key e" if "e \<in> set es" for e
    using 2(2) that by (auto simp: sorted_append)
  have "filter (\<lambda>r. rj_At (rx_Rejection x) \<le> rs_At r) (submissions pre) = []"
    by (auto simp: filter_empty_conv set_stream_parts less_eq_prod_def dest!: before)
  moreover have "filter (\<lambda>r. rj_At (rx_Rejection x) \<le> rs_At r) (submissions es) = submissions es"
    by (auto simp: filter_id_conv set_stream_parts less_eq_prod_def dest!: behind)
  ultimately show ?case
    using 2(1) [of "pre @ [Rejected x]"] 2(2) by (simp add: split first_submission_eq)
next
  case (3 r es)
  then show ?case using 3(1) [of "pre @ [Submitted r]"] by simp
qed simp

lemma insort_by_least: "(\<And>y. y \<in> set ys \<Longrightarrow> k x \<le> k y) \<Longrightarrow> insort_by k x ys = x # ys"
  by (cases ys) auto

lemma rejections_insort:
  "sorted (map event_key es) \<Longrightarrow> rejections (insort_by event_key e es) =
    (case e of Rejected x \<Rightarrow> insort_by (\<lambda>x. rj_At (rx_Rejection x)) x (rejections es) | Submitted _ \<Rightarrow> rejections es)"
proof (induction es)
  case (Cons d es)
  show ?case
  proof (cases "event_key e \<le> event_key d")
    case True
    then have "rj_At (rx_Rejection x) \<le> rj_At (rx_Rejection y)"
      if "e = Rejected x" "y \<in> set (rejections (d # es))" for x y
      using that Cons.prems by (auto simp: set_stream_parts less_eq_prod_def dest!: bspec [of _ _ "Rejected y"])
    with True show ?thesis by (cases e) (simp_all add: insort_by_least)
  next
    case False
    with Cons show ?thesis by (cases d; cases e) (auto simp: less_eq_prod_def)
  qed
qed (cases e; simp)

lemma rejections_order: "rejections (order_by event_key es) = order_by (\<lambda>x. rj_At (rx_Rejection x)) (rejections es)"
proof (induction es)
  case (Cons e es)
  then show ?case by (cases e) (simp_all add: rejections_insort sorted_order_by)
qed simp

lemma submissions_insort:
  "sorted (map event_key es) \<Longrightarrow> submissions (insort_by event_key e es) =
    (case e of Submitted r \<Rightarrow> insort_by rs_At r (submissions es) | Rejected _ \<Rightarrow> submissions es)"
proof (induction es)
  case (Cons d es)
  show ?case
  proof (cases "event_key e \<le> event_key d")
    case True
    then have "rs_At x \<le> rs_At y"
      if "e = Submitted x" "y \<in> set (submissions (d # es))" for x y
      using that Cons.prems by (auto simp: set_stream_parts less_eq_prod_def dest!: bspec [of _ _ "Submitted y"])
    with True show ?thesis by (cases e) (simp_all add: insort_by_least)
  next
    case False
    with Cons show ?thesis by (cases d; cases e) (auto simp: less_eq_prod_def)
  qed
qed (cases e; simp)

lemma submissions_order: "submissions (order_by event_key es) = order_by rs_At (submissions es)"
proof (induction es)
  case (Cons e es)
  then show ?case by (cases e) (simp_all add: submissions_insort sorted_order_by)
qed simp

text \<open>The submissions of a stream that can answer a rejection of time t, the earliest first.\<close>

definition answers_after :: "time \<Rightarrow> reviewEvent list \<Rightarrow> ReviewResponse list" where
  "answers_after t es = order_by rs_At (filter (\<lambda>r. t \<le> rs_At r) (submissions es))"

lemma pairing_spec:
  "pairReviewStream es = map (\<lambda>x. x\<lparr>rx_Response :=
     (case answers_after (rj_At (rx_Rejection x)) es of [] \<Rightarrow> None | r # _ \<Rightarrow> Some r)\<rparr>)
     (order_by (\<lambda>x. rj_At (rx_Rejection x)) (rejections es))"
  using pair_events_later [of "[]" "order_by event_key es"]
  by (simp add: pairReviewStream_def sorted_order_by rejections_order submissions_order answers_after_def filter_order_by)

end
