(* ===== verification/Atct_Reconcile.thy ===== *)
theory Atct_Reconcile
  imports Atct_Review_Exchange
begin

text \<open>
  The snapshot a watcher starts from (\<^verbatim>\<open>internal/store/workflow_events.go\<close>): the goals,
  tasks, handoffs and decisions in the scope of the watcher, each decision with the role it is
  addressed to and each task handoff in work with whether its monitor is lost.
\<close>

record WorkflowEventQuery =
  wq_ProjectID :: int
  wq_GoalID :: int
  wq_TaskID :: int

record WorkflowReconciliation =
  wr_Goals :: "goal list"
  wr_Tasks :: "task list"
  wr_Decisions :: "(decision \<times> string) list"
  wr_GoalHandoffs :: "handoff list"
  wr_PlanHandoffs :: "plan_handoff list"
  wr_TaskHandoffs :: "(handoff \<times> bool) list"
  wr_TaskCreateHandoffs :: "task_create_handoff list"

text \<open>The sessions that are commanders, and those that are subcommanders.\<close>

type_synonym decisionRoles = "int list \<times> int list"

definition loadDecisionRoles :: "decisionRoles store_op" where
  "loadDecisionRoles =
     bnd ListProjects (\<lambda>ps.
     bnd ListOpenGoalHandoffs (\<lambda>handoffs.
     bnd ListAllGoals (\<lambda>gs.
     ret (map p_claimed_by ps,
          [nz (h_received_by h). g \<leftarrow> gs, Some h \<leftarrow> [handoffs (g_id g)], h_received_at h \<noteq> None]))))"

definition targetRole :: "decisionRoles \<Rightarrow> decision \<Rightarrow> string" where
  "targetRole roles d =
     (if DecisionRoutesToCommander d \<or> d_agent_session_id d \<in> set (fst roles) then ''commander''
      else if d_agent_session_id d \<in> set (snd roles) then ''subcommander'' else ''executor'')"

text \<open>A task handoff that was received and not closed has lost its monitor when none is live.\<close>

definition monitorLost :: "goal \<Rightarrow> int \<Rightarrow> time \<Rightarrow> handoff \<Rightarrow> (handoff \<times> bool) store_op" where
  "monitorLost g task now h =
     (if h_received_at h \<noteq> None \<and> h_completed_report_at h = None \<and> h_recovered_at h = None
      then bnd (hasLiveExecutorMonitor (g_project_id g) (g_id g) task now) (\<lambda>live. ret (h, \<not> live))
      else ret (h, False))"

text \<open>The project and the goal the query names, after the query has been completed.\<close>

definition reconcile_scope :: "WorkflowEventQuery \<Rightarrow> (int \<times> int) store_op" where
  "reconcile_scope q =
     bnd (if wq_GoalID q \<noteq> 0
          then bnd (GetGoal (wq_GoalID q)) (\<lambda>g.
            if wq_ProjectID q = 0 then ret (g_project_id g)
            else bnd (check (g_project_id g = wq_ProjectID q) (Failure ''goal does not belong to project''))
                   (\<lambda>_. ret (wq_ProjectID q)))
          else ret (wq_ProjectID q)) (\<lambda>projectID.
     bnd (check (0 < projectID) (Failure ''workflow reconciliation project_id is required'')) (\<lambda>_.
     bnd (if wq_TaskID q \<noteq> 0
          then bnd (GetTaskGoalID_sql (wq_TaskID q)) (\<lambda>taskGoalID.
            if wq_GoalID q = 0 then ret taskGoalID
            else bnd (check (wq_GoalID q = taskGoalID) (Failure ''task does not belong to goal''))
                   (\<lambda>_. ret (wq_GoalID q)))
          else ret (wq_GoalID q)) (\<lambda>goalID.
     ret (projectID, goalID))))"

definition reconcile_goal :: "int \<Rightarrow> time \<Rightarrow> goal \<Rightarrow> WorkflowReconciliation store_op" where
  "reconcile_goal taskID now g =
     bnd (ListTasks (g_id g)) (\<lambda>all.
     (let ts = filter (\<lambda>t. taskID = 0 \<or> t_id t = taskID) all
      in bnd (collect (\<lambda>t. bnd (ListTaskHandoffs (t_id t)) (\<lambda>hs. collect (monitorLost g (t_id t) now) hs)) ts) (\<lambda>ths.
         bnd (ListGoalHandoffs (g_id g)) (\<lambda>ghs.
         bnd (ListPlanHandoffs (g_id g)) (\<lambda>phs.
         bnd (ListTaskCreateHandoffs (g_id g)) (\<lambda>chs.
         bnd (ListDecisionsForGoal (g_id g)) (\<lambda>all.
         (let ds = filter (\<lambda>d. taskID = 0 \<or> nz (d_task_id d) = taskID) all
          in bnd (if ds = [] then ret ([], []) else loadDecisionRoles) (\<lambda>roles.
             ret \<lparr>wr_Goals = [], wr_Tasks = ts, wr_Decisions = map (\<lambda>d. (d, targetRole roles d)) ds,
                  wr_GoalHandoffs = ghs, wr_PlanHandoffs = phs, wr_TaskHandoffs = concat ths,
                  wr_TaskCreateHandoffs = chs\<rparr>)))))))))"

definition wr_all :: "goal list \<Rightarrow> WorkflowReconciliation list \<Rightarrow> WorkflowReconciliation" where
  "wr_all gs rs =
     \<lparr>wr_Goals = gs, wr_Tasks = concat (map wr_Tasks rs), wr_Decisions = concat (map wr_Decisions rs),
      wr_GoalHandoffs = concat (map wr_GoalHandoffs rs), wr_PlanHandoffs = concat (map wr_PlanHandoffs rs),
      wr_TaskHandoffs = concat (map wr_TaskHandoffs rs),
      wr_TaskCreateHandoffs = concat (map wr_TaskCreateHandoffs rs)\<rparr>"

definition ReconcileWorkflow :: "WorkflowEventQuery \<Rightarrow> time \<Rightarrow> WorkflowReconciliation store_op" where
  "ReconcileWorkflow q now =
     bnd (reconcile_scope q) (\<lambda>(projectID, goalID).
     bnd (ListGoals projectID) (\<lambda>all.
     (let gs = filter (\<lambda>g. goalID = 0 \<or> g_id g = goalID) all
      in bnd (check (wq_TaskID q = 0 \<or> gs \<noteq> []) (Failure ''task is outside project'')) (\<lambda>_.
         bnd (collect (reconcile_goal (wq_TaskID q) now) gs) (\<lambda>rs. ret (wr_all gs rs))))))"

definition ReconcileWorkflowEvents :: "WorkflowEventQuery \<Rightarrow> time \<Rightarrow> WorkflowReconciliation store_op" where
  "ReconcileWorkflowEvents q now = ReconcileWorkflow q now"

definition ProjectIDOr :: "WorkflowEventQuery \<Rightarrow> int \<Rightarrow> int" where
  "ProjectIDOr q fallback = (if wq_ProjectID q \<noteq> 0 then wq_ProjectID q else fallback)"

lemma reads_reconcile [reads_intros]:
  "reads loadDecisionRoles" "reads (monitorLost g t now h)" "reads (reconcile_scope q)" "reads (reconcile_goal t now g)"
  "reads (ReconcileWorkflow q now)"
  unfolding loadDecisionRoles_def monitorLost_def reconcile_scope_def reconcile_goal_def ReconcileWorkflow_def Let_def
    ListAllGoals_def ListDecisionsForGoal_def
  by (rule reads_intros)+

end
