(* ===== verification/Atct_Daemon.thy ===== *)
theory Atct_Daemon
  imports Atct_Reconcile
begin

text \<open>
  The state of the daemon process and the two credentials it keeps in memory:
  the one-request capability of a monitored caller (\<^verbatim>\<open>internal/daemon/capability.go\<close>)
  and the binding of a tool call to a session (\<^verbatim>\<open>tool_use_binding.go\<close>). An operation
  of the store is an operation of the daemon that leaves the rest of its state alone.
\<close>

section \<open>State and surroundings\<close>

record capability =
  cp_AgentSessionID :: int
  cp_ExpiresAt :: time
  cp_PeerID :: nat
  cp_Used :: bool

record toolUseBinding =
  tu_ID :: string
  tu_SessionKey :: string
  tu_ExpiresAt :: time

text \<open>
  \<open>dm_stopBlocked\<close> and \<open>dm_stopNoWatch\<close> are what the stop check remembers of a session.
\<close>

record daemon =
  dm_store :: store
  dm_capabilities :: "string \<Rightarrow> capability option"
  dm_toolUse :: "toolUseBinding list"
  dm_stopBlocked :: "int \<Rightarrow> string option"
  dm_stopNoWatch :: "int \<Rightarrow> nat option"

type_synonym 'a daemon_op = "(daemon, error, 'a) op"

definition on_store :: "'a store_op \<Rightarrow> 'a daemon_op" where
  "on_store m = (\<lambda>d. case m (dm_store d) of (r, s) \<Rightarrow> (r, d\<lparr>dm_store := s\<rparr>))"

section \<open>Capabilities\<close>

definition MonitoredCallerCapabilityTTL :: time where
  "MonitoredCallerCapabilityTTL = 30 * second"

definition newMonitoredCallerCapability :: "time \<Rightarrow> int \<Rightarrow> nat \<Rightarrow> capability" where
  "newMonitoredCallerCapability now session peer =
     \<lparr>cp_AgentSessionID = session, cp_ExpiresAt = now + MonitoredCallerCapabilityTTL, cp_PeerID = peer, cp_Used = False\<rparr>"

text \<open>\<open>token\<close> is the random text; issuing it again would replace the capability.\<close>

definition issueMonitoredCallerCapability :: "string \<Rightarrow> int \<Rightarrow> nat \<Rightarrow> time \<Rightarrow> (string \<times> capability) daemon_op" where
  "issueMonitoredCallerCapability token session peer now =
     (if session \<le> 0 then fail (DaemonE ErrMonitoredCallerRequired)
      else (let c = newMonitoredCallerCapability now session peer
            in bnd (change (dm_capabilities_update (\<lambda>m. m(token \<mapsto> c)))) (\<lambda>_. ret (token, c))))"

definition consumeMonitoredCallerCapability :: "string \<Rightarrow> nat \<Rightarrow> time \<Rightarrow> int daemon_op" where
  "consumeMonitoredCallerCapability token0 peer now =
     (let token = TrimSpace token0
      in if token = [] then fail (DaemonE ErrMonitoredCallerRequired)
         else bnd (ask (\<lambda>d. dm_capabilities d token)) (\<lambda>found.
           bnd (need (DaemonE ErrCapabilityInvalid) found) (\<lambda>c.
           bnd (check (\<not> cp_Used c) (DaemonE ErrCapabilityReplay)) (\<lambda>_.
           bnd (check (now < cp_ExpiresAt c) (DaemonE ErrCapabilityExpired)) (\<lambda>_.
           bnd (check (cp_PeerID c = peer) (DaemonE ErrCapabilityPeerMismatch)) (\<lambda>_.
           bnd (change (dm_capabilities_update (\<lambda>m. m(token \<mapsto> c\<lparr>cp_Used := True\<rparr>)))) (\<lambda>_.
           ret (cp_AgentSessionID c))))))))"

text \<open>The three fields of a request that may carry the token; the first that is not blank counts.\<close>

type_synonym capabilityFields = "string list"

definition capabilityValue :: "capabilityFields \<Rightarrow> string" where
  "capabilityValue cfs =
     (case List.find (\<lambda>v. v \<noteq> []) (map TrimSpace cfs) of None \<Rightarrow> [] | Some v \<Rightarrow> v)"

definition sessionFromCapability :: "capabilityFields \<Rightarrow> int \<Rightarrow> nat \<Rightarrow> time \<Rightarrow> int daemon_op" where
  "sessionFromCapability cfs session peer now =
     (let token = capabilityValue cfs
      in if token = [] then ret session
         else bnd (consumeMonitoredCallerCapability token peer now) (\<lambda>owner.
           bnd (check (session = 0 \<or> session = owner) (DaemonE ErrCapabilityPeerMismatch)) (\<lambda>_. ret owner)))"

section \<open>Tool calls\<close>

definition toolUseBindingTTL :: time where
  "toolUseBindingTTL = 30 * 60 * second"

definition toolUseBindingLimit :: nat where
  "toolUseBindingLimit = 1024"

text \<open>The entry with the earliest end; of several the first.\<close>

fun oldest :: "toolUseBinding \<Rightarrow> toolUseBinding list \<Rightarrow> toolUseBinding" where
  "oldest b [] = b"
| "oldest b (c # bs) = oldest (if tu_ExpiresAt c < tu_ExpiresAt b then c else b) bs"

lemma oldest_in: "oldest b bs \<in> set (b # bs)"
proof (induction bs arbitrary: b)
  case (Cons c bs)
  from Cons [of "if tu_ExpiresAt c < tu_ExpiresAt b then c else b"] show ?case by (auto split: if_splits)
qed simp

function evict :: "nat \<Rightarrow> toolUseBinding list \<Rightarrow> toolUseBinding list" where
  "evict limit [] = []"
| "evict limit (b # bs) =
     (if limit < length (b # bs) then evict limit (filter (\<lambda>c. tu_ID c \<noteq> tu_ID (oldest b bs)) (b # bs)) else b # bs)"
  by pat_completeness auto
termination
proof (relation "measure (\<lambda>(limit, bs). length bs)", simp)
  fix limit :: nat and b :: toolUseBinding and bs
  assume "limit < length (b # bs)"
  have "length (filter (\<lambda>c. tu_ID c \<noteq> tu_ID (oldest b bs)) (b # bs)) < length (b # bs)"
    by (rule length_filter_less [OF oldest_in]) simp
  then show "((limit, filter (\<lambda>c. tu_ID c \<noteq> tu_ID (oldest b bs)) (b # bs)), limit, b # bs)
      \<in> measure (\<lambda>(limit, bs). length bs)" by simp
qed

definition tool_use_add :: "time \<Rightarrow> string \<Rightarrow> string \<Rightarrow> toolUseBinding list \<Rightarrow> toolUseBinding list" where
  "tool_use_add now toolUseID sessionKey bs =
     evict toolUseBindingLimit (filter (\<lambda>b. now < tu_ExpiresAt b)
       (filter (\<lambda>b. tu_ID b \<noteq> toolUseID) bs
        @ [\<lparr>tu_ID = toolUseID, tu_SessionKey = sessionKey, tu_ExpiresAt = now + toolUseBindingTTL\<rparr>]))"

definition tool_use_take :: "time \<Rightarrow> string \<Rightarrow> (string option) daemon_op" where
  "tool_use_take now toolUseID =
     bnd (ask (\<lambda>d. List.find (\<lambda>b. tu_ID b = toolUseID) (dm_toolUse d))) (\<lambda>found.
     bnd (change (dm_toolUse_update (filter (\<lambda>b. tu_ID b \<noteq> toolUseID)))) (\<lambda>_.
     ret (case found of None \<Rightarrow> None
          | Some b \<Rightarrow> if now < tu_ExpiresAt b then Some (tu_SessionKey b) else None)))"

definition bindToolUse :: "string \<Rightarrow> string \<Rightarrow> time \<Rightarrow> bool daemon_op" where
  "bindToolUse sessionKey toolUseID now =
     (if blank toolUseID then ret False
      else bnd (try_op (on_store (AgentSessionIDByKey sessionKey))) (\<lambda>r. case r of
        Inl _ \<Rightarrow> ret False
      | Inr _ \<Rightarrow>
          bnd (change (dm_toolUse_update (tool_use_add now (TrimSpace toolUseID) (TrimSpace sessionKey)))) (\<lambda>_.
          ret True)))"

definition resolveToolUse :: "int \<Rightarrow> string \<Rightarrow> int \<Rightarrow> string \<Rightarrow> time \<Rightarrow> int daemon_op" where
  "resolveToolUse session toolUseID pid startedAt now =
     bnd (tool_use_take now (TrimSpace toolUseID)) (\<lambda>found. case found of
       None \<Rightarrow> ret 0
     | Some sessionKey \<Rightarrow>
         bnd (on_store (AgentSessionIDByKey sessionKey)) (\<lambda>canonical.
         if canonical = session then ret canonical
         else bnd (on_store (IdentifyAgentSession session sessionKey pid startedAt now)) (\<lambda>(i, _). ret i)))"

section \<open>Store operations in the daemon\<close>

lemma on_store_ret [simp]: "on_store (ret x) = ret x"
  by (simp add: on_store_def ret_def fun_eq_iff)

lemma on_store_run: "on_store m d = (r, e) \<longleftrightarrow> (\<exists>s. m (dm_store d) = (r, s) \<and> e = d\<lparr>dm_store := s\<rparr>)"
  by (auto simp: on_store_def split: prod.split)

lemma on_store_value: "m (dm_store d) = (r, s) \<Longrightarrow> on_store m d = (r, d\<lparr>dm_store := s\<rparr>)"
  by (simp add: on_store_def)

lemma reads_on_store [reads_intros]: "reads m \<Longrightarrow> reads (on_store m)"
proof -
  assume m: "reads m"
  have "d\<lparr>dm_store := s\<rparr> = d" if "m (dm_store d) = (r, s)" for d r s
    using readsD [OF m that] by simp
  then show ?thesis by (auto simp: reads_def on_store_def split: prod.split)
qed

end
