(* ===== verification/Atct_Stop_Check.thy ===== *)
theory Atct_Stop_Check
  imports Atct_Daemon
begin

text \<open>
  May a session stop, may it work, may it arm a Monitor
  (\<^verbatim>\<open>internal/daemon/stop_check.go\<close>, \<^verbatim>\<open>monitor_check.go\<close>,
  \<^verbatim>\<open>monitor_form_check.go\<close>). A stop is blocked while the session still has work or
  waits for an answer without a watch; the daemon remembers what it blocked so that the same state is
  not reported twice in a row and a session that cannot arm a watch is let go in the end.
\<close>

section \<open>The print of a state\<close>

text \<open>
  Every row a decision was made from is one line of text; two stops are the same when their prints
  are. A missing time is 0, otherwise the nanoseconds of the instant.
\<close>

definition space :: string where
  "space = '' ''"

definition print_line :: "string list \<Rightarrow> string" where
  "print_line ws = join_char (CHR '' '') ws @ [newline]"

definition stamp :: "time option \<Rightarrow> string" where
  "stamp t = Itoa_int (case t of None \<Rightarrow> 0 | Some t \<Rightarrow> t)"

definition show_bool :: "bool \<Rightarrow> string" where
  "show_bool b = (if b then ''true'' else ''false'')"

fun GoalStatus_string :: "GoalStatus \<Rightarrow> string" where
  "GoalStatus_string GoalActive = ''active''"
| "GoalStatus_string GoalDone = ''done''"
| "GoalStatus_string GoalDropped = ''dropped''"

fun DecisionStatus_string :: "DecisionStatus \<Rightarrow> string" where
  "DecisionStatus_string DecisionOpen = ''open''"
| "DecisionStatus_string DecisionAnswered = ''answered''"
| "DecisionStatus_string DecisionApplied = ''applied''"
| "DecisionStatus_string DecisionWithdrawn = ''withdrawn''"

definition print_goal :: "goal \<Rightarrow> string" where
  "print_goal g = print_line [''goal'', Itoa_int (g_id g), GoalStatus_string (g_status g)]"

definition print_live :: "string \<Rightarrow> bool \<Rightarrow> string" where
  "print_live scope live = print_line [''live'', scope, show_bool live]"

definition print_goalHandoffs :: "handoff list \<Rightarrow> string" where
  "print_goalHandoffs hs = concat (map (\<lambda>h. print_line
     ([''gh'', h_id h, Itoa_int (nz (h_requested_by h)), Itoa_int (nz (h_received_by h))]
      @ map stamp [h_requested_at h, h_received_at h, h_review_requested_at h, h_review_received_at h,
          h_review_rejected_at h, h_completed_report_at h, h_recovered_at h])) hs)"

definition print_planHandoffs :: "plan_handoff list \<Rightarrow> string" where
  "print_planHandoffs hs = concat (map (\<lambda>h. print_line
     ([''ph'', pl_id h, Itoa_int (nz (pl_review_rejection_received_by h))]
      @ map stamp [pl_review_requested_at h, pl_review_received_at h, pl_review_rejected_at h,
          pl_completed_report_at h])) hs)"

definition print_createHandoffs :: "task_create_handoff list \<Rightarrow> string" where
  "print_createHandoffs hs = concat (map (\<lambda>h. print_line
     ([''ch'', c_id h, Itoa_int (nz (c_received_by h))]
      @ map stamp [c_requested_at h, c_received_at h, c_completed_at h, c_recovered_at h])) hs)"

definition print_tasks :: "task list \<Rightarrow> string" where
  "print_tasks ts = concat (map (\<lambda>t. print_line [''task'', Itoa_int (t_id t), TaskStatus_string (t_status t)]) ts)"

definition print_taskHandoffs :: "handoff list \<Rightarrow> string" where
  "print_taskHandoffs hs = concat (map (\<lambda>h. print_line
     ([''th'', h_id h, Itoa_int (nz (h_requested_by h)), Itoa_int (nz (h_received_by h))]
      @ map stamp [h_requested_at h, h_received_at h, h_review_requested_at h, h_review_received_at h,
          h_review_rejected_at h, h_completed_report_at h, h_recovered_at h, h_review_rejection_received_at h])) hs)"

definition print_decisions :: "decision list \<Rightarrow> string" where
  "print_decisions ds = concat (map (\<lambda>d. print_line
     [''decision'', Itoa_int (d_id d), DecisionStatus_string (d_status d),
      show_bool (d_answered_at d \<noteq> None), show_bool (d_applied_at d \<noteq> None)]) ds)"

section \<open>What a role still has to do\<close>

text \<open>
  Each check gives the detail of the first work it finds, or the empty text, and the print of what it
  looked at up to there.
\<close>

definition handoff_live :: "handoff \<Rightarrow> bool" where
  "handoff_live h \<longleftrightarrow> h_completed_report_at h = None \<and> h_recovered_at h = None"

fun executor_work :: "task list \<Rightarrow> string \<Rightarrow> (bool \<times> string) store_op" where
  "executor_work [] fp = ret (False, fp)"
| "executor_work (t # ts) fp =
     bnd (ListTaskHandoffs (t_id t)) (\<lambda>hs.
     (let fp = fp @ print_taskHandoffs hs
      in if list_ex (\<lambda>h. h_requested_at h \<noteq> None \<and> h_received_at h \<noteq> None \<and> handoff_live h) hs
         then ret (True, fp) else executor_work ts fp))"

definition commander_detail :: "string \<Rightarrow> goal \<Rightarrow> string" where
  "commander_detail what g = ''commander '' @ what @ '' goal '' @ Itoa_int (g_id g) @ '': '' @ Headline (g_content g)"

text \<open>The checks of a goal that its handoffs and decisions decide.\<close>

definition commander_reviews :: "goal \<Rightarrow> handoff list \<Rightarrow> plan_handoff list \<Rightarrow> decision list \<Rightarrow> string" where
  "commander_reviews g ghs phs ds =
     (let reviews = filter (\<lambda>d. d_kind d = KindGoalReview) ds
      in if list_ex (\<lambda>d. d_status d = DecisionApplied \<and> d_answer_label d = ''approve'') reviews
         then commander_detail ''has approved goal review for active'' g
         else if reviews \<noteq> [] \<and> d_status (last reviews) = DecisionAnswered \<and> d_answer_label (last reviews) = ''reject''
           \<and> list_ex (\<lambda>h. h_requested_at h \<noteq> None \<and> h_received_at h \<noteq> None \<and> h_review_requested_at h \<noteq> None
                \<and> h_review_received_at h \<noteq> None \<and> h_review_rejected_at h = None \<and> handoff_live h) ghs
         then commander_detail ''must return rejected goal review for active'' g
         else if list_ex (\<lambda>h. h_requested_at h \<noteq> None \<and> h_review_requested_at h \<noteq> None
                \<and> h_review_received_at h = None \<and> h_review_rejected_at h = None \<and> handoff_live h) ghs
         then commander_detail ''has unreceived goal review for active'' g
         else if list_ex (\<lambda>h. pl_review_requested_at h \<noteq> None \<and> pl_review_received_at h = None
                \<and> pl_review_rejected_at h = None \<and> pl_completed_report_at h = None) phs
         then commander_detail ''has unreceived plan review for active'' g
         else [])"

fun commander_goals :: "goal list \<Rightarrow> string \<Rightarrow> (string \<times> string) store_op" where
  "commander_goals [] fp = ret ([], fp)"
| "commander_goals (g # gs) fp =
     (if g_status g \<noteq> GoalActive then commander_goals gs fp
      else bnd (ListGoalHandoffs (g_id g)) (\<lambda>ghs.
        bnd (ListPlanHandoffs (g_id g)) (\<lambda>phs.
        bnd (ListDecisionsForGoal (g_id g)) (\<lambda>ds.
        (let fp = fp @ print_goal g @ print_goalHandoffs ghs @ print_planHandoffs phs @ print_decisions ds;
             detail = commander_reviews g ghs phs ds
         in if detail \<noteq> [] then ret (detail, fp)
            else if list_ex (\<lambda>d. d_status d = DecisionOpen) ds then commander_goals gs fp
            else bnd (ListTasks (g_id g)) (\<lambda>ts.
              bnd (executor_work ts (fp @ print_tasks ts)) (\<lambda>(hasExecutorWork, fp).
              if hasExecutorWork
                \<or> list_ex (\<lambda>h. h_requested_at h \<noteq> None \<and> nz (h_requested_by h) \<noteq> nz (h_received_by h)
                     \<and> handoff_live h) ghs
              then commander_goals gs fp
              else ret (commander_detail ''has active'' g, fp))))))))"

definition stopCheckCommander :: "int \<Rightarrow> time \<Rightarrow> (string \<times> string) store_op" where
  "stopCheckCommander projectID now =
     bnd (ListGoals projectID) (\<lambda>gs.
     bnd (try_op (HasLiveMonitorForScope
       \<lparr>ls_ProjectID = projectID, ls_Role = ''commander'', ls_GoalID = None, ls_ExcludeRearming = False\<rparr> now)) (\<lambda>live.
     commander_goals gs (print_live ''commander'' (live = Inr True))))"

text \<open>
  The only thing the session holds is an answer it waits for: a review of its goal or of its plan
  that is not answered, or a task somebody is starting or working on.
\<close>

definition subcommanderWaiting :: "int \<Rightarrow> goal \<Rightarrow> handoff list \<Rightarrow> bool \<Rightarrow> bool store_op" where
  "subcommanderWaiting session g ghs live =
     (if \<not> live then ret False
      else if list_ex (\<lambda>h. nz (h_received_by h) = session \<and> h_review_requested_at h \<noteq> None
          \<and> h_review_rejected_at h = None \<and> handoff_live h) ghs then ret True
      else bnd (ListPlanHandoffs (g_id g)) (\<lambda>phs.
        if list_ex (\<lambda>h. pl_review_requested_at h \<noteq> None \<and> pl_review_rejected_at h = None
             \<and> pl_completed_report_at h = None) phs then ret True
        else bnd (ListTasks (g_id g)) (\<lambda>ts.
          bnd (search (\<lambda>t. bnd (ListTaskHandoffs (t_id t)) (\<lambda>hs.
            ret (if list_ex (\<lambda>h. h_requested_at h \<noteq> None \<and> handoff_live h
                   \<and> (h_review_requested_at h = None \<or> h_review_rejected_at h \<noteq> None)) hs then Some () else None))) ts)
            (\<lambda>found. ret (found \<noteq> None)))))"

text \<open>The first task handoff that needs the session, with the print so far.\<close>

definition task_needs :: "bool \<Rightarrow> handoff \<Rightarrow> string" where
  "task_needs live h =
     (if \<not> live \<and> h_requested_at h \<noteq> None \<and> h_received_at h = None \<and> handoff_live h
      then ''executor has unreceived task handoff ''
      else if h_review_requested_at h \<noteq> None \<and> h_review_rejected_at h = None \<and> handoff_live h
      then ''executor has task review handoff '' else [])"

fun subcommander_tasks :: "bool \<Rightarrow> task list \<Rightarrow> string \<Rightarrow> (string \<times> string) store_op" where
  "subcommander_tasks live [] fp = ret ([], fp)"
| "subcommander_tasks live (t # ts) fp =
     bnd (ListTaskHandoffs (t_id t)) (\<lambda>hs.
     (let fp = fp @ print_taskHandoffs hs
      in case List.find (\<lambda>h. task_needs live h \<noteq> []) hs of
           None \<Rightarrow> subcommander_tasks live ts fp
         | Some h \<Rightarrow> ret (task_needs live h @ h_id h @ '' for task '' @ Itoa_int (t_id t), fp)))"

definition waits_without_watch :: string where
  "waits_without_watch = '': waiting for an answer but this session has no live watch; start `atct watch --monitor --token <monitor_token> --once` in a Bash with run_in_background, then stop''"

definition subcommander_holds :: "int \<Rightarrow> goal \<Rightarrow> handoff list \<Rightarrow> bool \<Rightarrow> string store_op" where
  "subcommander_holds session g ghs live =
     bnd (subcommanderWaiting session g ghs live) (\<lambda>waiting.
     bnd (if live then ret False else subcommanderWaiting session g ghs True) (\<lambda>waitingWithWatch.
     ret (case List.find (\<lambda>h. nz (h_received_by h) = session \<and> h_received_at h \<noteq> None \<and> handoff_live h) ghs of
            None \<Rightarrow> []
          | Some h \<Rightarrow> if waiting then []
                      else ''executor has open goal handoff '' @ h_id h
                        @ (if waitingWithWatch then waits_without_watch else []))))"

definition subcommander_work :: "int \<Rightarrow> goal \<Rightarrow> handoff list \<Rightarrow> bool \<Rightarrow> (string \<times> string) store_op" where
  "subcommander_work session g ghs live =
     bnd (ListPlanHandoffs (g_id g)) (\<lambda>phs.
     bnd (ListDecisionsForGoal (g_id g)) (\<lambda>ds.
     (let fp = print_goal g @ print_live ''subcommander'' live @ print_goalHandoffs ghs @ print_planHandoffs phs
                 @ print_decisions ds
      in case List.find (\<lambda>h. nz (pl_review_rejection_received_by h) = session \<and> pl_completed_report_at h = None) phs of
           Some h \<Rightarrow> ret (''executor has rejected plan handoff '' @ pl_id h, fp)
         | None \<Rightarrow>
             bnd (ListTaskCreateHandoffs (g_id g)) (\<lambda>chs.
             (let fp = fp @ print_createHandoffs chs
              in case List.find (\<lambda>h. nz (c_received_by h) = session \<and> c_completed_at h = None \<and> c_recovered_at h = None) chs of
                   Some h \<Rightarrow> ret (''executor has open task-create handoff '' @ c_id h, fp)
                 | None \<Rightarrow>
                     bnd (ListTasks (g_id g)) (\<lambda>ts.
                     bnd (subcommander_tasks live ts (fp @ print_tasks ts)) (\<lambda>(detail, fp).
                     if detail \<noteq> [] then ret (detail, fp)
                     else bnd (subcommander_holds session g ghs live) (\<lambda>detail. ret (detail, fp)))))))))"

definition subcommanderStopDetail :: "int \<Rightarrow> int \<Rightarrow> bool option \<Rightarrow> time \<Rightarrow> (string \<times> string) store_op" where
  "subcommanderStopDetail session goalID forceLive now =
     bnd (GetGoal goalID) (\<lambda>g.
     bnd (try_op (EnsureProjectActive (g_project_id g))) (\<lambda>active. case active of
       Inl e \<Rightarrow> if e = ProjectE ErrProjectArchived then ret ([], []) else fail e
     | Inr _ \<Rightarrow>
         bnd (ListGoalHandoffs goalID) (\<lambda>ghs.
         bnd (case forceLive of Some live \<Rightarrow> ret live
              | None \<Rightarrow> bnd (try_op (HasLiveMonitorForScope
                  \<lparr>ls_ProjectID = g_project_id g, ls_Role = ''subcommander'', ls_GoalID = Some goalID,
                   ls_ExcludeRearming = False\<rparr> now)) (\<lambda>r. ret (r = Inr True))) (\<lambda>live.
         subcommander_work session g ghs live))))"

definition stopCheckSubcommander :: "int \<Rightarrow> int \<Rightarrow> time \<Rightarrow> (string \<times> string) store_op" where
  "stopCheckSubcommander session goalID now = subcommanderStopDetail session goalID None now"

text \<open>The own handoffs of one goal; one that only waits for its review with a live monitor is passed over.\<close>

fun executor_handoffs :: "goal \<Rightarrow> (task \<times> handoff) list \<Rightarrow> time \<Rightarrow> string \<Rightarrow> (string \<times> string) store_op" where
  "executor_handoffs g [] now fp = ret ([], fp)"
| "executor_handoffs g ((t, h) # rest) now fp =
     (let fp = fp @ print_taskHandoffs [h];
          detail = ''open task handoff '' @ h_id h @ '' for task '' @ Itoa_int (t_id t)
      in if h_received_at h = None \<or> \<not> handoff_live h then executor_handoffs g rest now fp
         else if h_review_requested_at h \<noteq> None \<and> h_review_rejected_at h = None
         then bnd (try_op (HasLiveExecutorMonitorForTask (g_project_id g) (g_id g) (t_id t) now)) (\<lambda>live.
           (let fp = fp @ print_live (''executor '' @ Itoa_int (t_id t)) (live = Inr True)
            in if live = Inr True then executor_handoffs g rest now fp else ret (detail, fp)))
         else ret (detail, fp))"

fun executor_goals :: "int \<Rightarrow> goal list \<Rightarrow> time \<Rightarrow> string \<Rightarrow> (string \<times> string) store_op" where
  "executor_goals session [] now fp = ret ([], fp)"
| "executor_goals session (g # gs) now fp =
     bnd (ListTasks (g_id g)) (\<lambda>ts.
     bnd (collect (\<lambda>t. bnd (ListTaskHandoffs (t_id t)) (\<lambda>hs. ret (map (\<lambda>h. (t, h)) hs))) ts) (\<lambda>all.
     (let own = filter (\<lambda>(t, h). nz (h_received_by h) = session) (concat all)
      in if own = [] then executor_goals session gs now fp
         else bnd (ListDecisionsForGoal (g_id g)) (\<lambda>ds.
           bnd (executor_handoffs g own now (fp @ print_goal g @ print_tasks ts @ print_decisions ds)) (\<lambda>(detail, fp).
           if detail \<noteq> [] then ret (detail, fp) else executor_goals session gs now fp)))))"

definition stopCheckExecutor :: "int \<Rightarrow> time \<Rightarrow> (string \<times> string) store_op" where
  "stopCheckExecutor session now = bnd ListAllGoals (\<lambda>gs. executor_goals session gs now [])"

section \<open>The stop check\<close>

text \<open>The answer: None lets the session stop, Some is the reason of the block.\<close>

type_synonym stopCheckResponse = "string option"

definition stopNoWatchLimit :: nat where
  "stopNoWatchLimit = 3"

definition no_watch_reason :: string where
  "no_watch_reason = ''ATCT: this session has pending work but no live watch, so an answer sent to it would never arrive. ''
     @ ''Arm the watch as `atct:atct` ## Watch says before replying: the Monitor tool with `atct watch --monitor --token <monitor_token>` and `persistent: true` (the monitor_token SessionStart printed); ''
     @ ''if you hold only an answer you are waiting for, Bash with `run_in_background` and `atct watch --monitor --token <monitor_token> --once` instead. ''
     @ ''A text-only reply does not arm it.''"

text \<open>
  Whether the session has pending work, and the scope a live watch of it would have; None when the
  role is neither commander nor subcommander, or the project of the goal is archived.
\<close>

definition watch_scope :: "int \<Rightarrow> roleAssignment \<Rightarrow> ((bool \<times> MonitorLiveScope) option) store_op" where
  "watch_scope session role =
     (if ra_Role role = ''commander'' then
        bnd (ListGoals (ra_ProjectID role)) (\<lambda>gs.
        ret (Some (list_ex (\<lambda>g. g_status g = GoalActive) gs,
          \<lparr>ls_ProjectID = ra_ProjectID role, ls_Role = ''commander'', ls_GoalID = None, ls_ExcludeRearming = True\<rparr>)))
      else if ra_Role role = ''subcommander'' then
        bnd (GetGoal (ra_GoalID role)) (\<lambda>g.
        bnd (try_op (EnsureProjectActive (g_project_id g))) (\<lambda>active. case active of
          Inl _ \<Rightarrow> ret None
        | Inr _ \<Rightarrow>
            bnd (ListGoalHandoffs (g_id g)) (\<lambda>hs.
            ret (Some (list_ex (\<lambda>h. g_status g = GoalActive \<and> nz (h_received_by h) = session
                              \<and> h_received_at h \<noteq> None \<and> handoff_live h) hs,
              \<lparr>ls_ProjectID = g_project_id g, ls_Role = ''subcommander'', ls_GoalID = Some (g_id g),
               ls_ExcludeRearming = True\<rparr>)))))
      else ret None)"

text \<open>A live monitor is only looked for when there is work; a failed look counts as live.\<close>

definition watch_live :: "bool \<Rightarrow> MonitorLiveScope \<Rightarrow> time \<Rightarrow> bool store_op" where
  "watch_live pending scope now =
     (if pending then bnd (try_op (HasLiveMonitorForScope scope now))
        (\<lambda>r. ret (case r of Inl _ \<Rightarrow> True | Inr live \<Rightarrow> live))
      else ret False)"

definition watch_answer :: "int \<Rightarrow> bool \<Rightarrow> bool \<Rightarrow> stopCheckResponse daemon_op" where
  "watch_answer session pending live =
     bnd (ask (\<lambda>d. case dm_stopNoWatch d session of None \<Rightarrow> 0 | Some n \<Rightarrow> n)) (\<lambda>blocked.
     if \<not> pending \<or> live \<or> stopNoWatchLimit \<le> blocked
     then bnd (change (dm_stopNoWatch_update (\<lambda>m. m(session := None)))) (\<lambda>_. ret None)
     else bnd (change (dm_stopNoWatch_update (\<lambda>m. m(session \<mapsto> Suc blocked)))) (\<lambda>_.
       ret (Some no_watch_reason)))"

definition stopCheckWatch :: "int \<Rightarrow> roleAssignment \<Rightarrow> time \<Rightarrow> stopCheckResponse daemon_op" where
  "stopCheckWatch session role now =
     bnd (on_store (watch_scope session role)) (\<lambda>v. case v of
       None \<Rightarrow> ret None
     | Some (pending, scope) \<Rightarrow> bnd (on_store (watch_live pending scope now)) (watch_answer session pending))"

definition work_detail :: "int \<Rightarrow> roleAssignment \<Rightarrow> time \<Rightarrow> (string \<times> string) store_op" where
  "work_detail session role now =
     (if ra_Role role = ''commander'' then stopCheckCommander (ra_ProjectID role) now
      else if ra_Role role = ''subcommander'' then stopCheckSubcommander session (ra_GoalID role) now
      else stopCheckExecutor session now)"

definition stopCheckWork :: "int \<Rightarrow> roleAssignment \<Rightarrow> time \<Rightarrow> stopCheckResponse daemon_op" where
  "stopCheckWork session role now =
     bnd (on_store (work_detail session role now)) (\<lambda>(detail, fp).
     if detail = [] then bnd (change (dm_stopBlocked_update (\<lambda>m. m(session := None)))) (\<lambda>_. ret None)
     else (let reason = ''ATCT work remains: '' @ detail; key = reason @ CHR 0x00 # fp
           in bnd (ask (\<lambda>d. dm_stopBlocked d session)) (\<lambda>last.
              if last = Some key then ret None
              else bnd (change (dm_stopBlocked_update (\<lambda>m. m(session \<mapsto> key)))) (\<lambda>_. ret (Some reason)))))"

definition stopCheck :: "string \<Rightarrow> bool \<Rightarrow> time \<Rightarrow> stopCheckResponse daemon_op" where
  "stopCheck sessionKey stopHookActive now =
     bnd (on_store (AgentSessionIDByKey sessionKey)) (\<lambda>session.
     bnd (on_store (deriveSessionRole session)) (\<lambda>role.
     if stopHookActive then stopCheckWatch session role now
     else bnd (stopCheckWork session role now) (\<lambda>response.
       if response \<noteq> None then ret response else stopCheckWatch session role now)))"

section \<open>The Monitor checks\<close>

text \<open>The answer of both checks is whether the call is blocked; the text of the block is fixed.\<close>

definition monitorCheck :: "string \<Rightarrow> time \<Rightarrow> bool store_op" where
  "monitorCheck sessionKey now =
     bnd (AgentSessionIDByKey sessionKey) (\<lambda>session.
     bnd (MonitorAssignment session) (\<lambda>a.
     if ma_ProjectID a \<le> 0 \<or> ma_Role a = [] then ret False
     else if ma_Role a = ''executor'' then
       bnd (search (\<lambda>t.
         if ms_ProjectID t \<le> 0 \<or> ms_GoalID t \<le> 0 \<or> ms_TaskID t \<le> 0 then ret None
         else bnd (HasLiveExecutorMonitorForTask (ms_ProjectID t) (ms_GoalID t) (ms_TaskID t) now)
                (\<lambda>live. ret (if live then Some () else None))) (ma_Tasks a)) (\<lambda>found. ret (found = None))
     else bnd (HasLiveMonitorForScope
         \<lparr>ls_ProjectID = ma_ProjectID a, ls_Role = ma_Role a,
          ls_GoalID = (if ma_GoalID a \<noteq> 0 then Some (ma_GoalID a) else None), ls_ExcludeRearming = False\<rparr> now)
         (\<lambda>live. ret (\<not> live))))"

text \<open>Every failure lets the Monitor be armed.\<close>

definition monitorFormCheckFor :: "int \<Rightarrow> time \<Rightarrow> bool store_op" where
  "monitorFormCheckFor session now =
     bnd (try_op
       (bnd (deriveSessionRole session) (\<lambda>role.
        bnd (check (ra_Role role = ''subcommander'' \<and> ra_GoalID role \<noteq> 0) NoRows) (\<lambda>_.
        bnd (GetGoal (ra_GoalID role)) (\<lambda>g.
        bnd (EnsureProjectActive (g_project_id g)) (\<lambda>_.
        bnd (subcommanderStopDetail session (g_id g) (Some True) now) (\<lambda>(detail, _).
        bnd (check (detail = []) NoRows) (\<lambda>_.
        bnd (ListGoalHandoffs (g_id g)) (\<lambda>ghs.
        subcommanderWaiting session g ghs True))))))))) (\<lambda>r. ret (r = Inr True))"

definition monitorFormCheck :: "string \<Rightarrow> time \<Rightarrow> bool store_op" where
  "monitorFormCheck sessionKey now =
     bnd (try_op (AgentSessionIDByKey sessionKey)) (\<lambda>r. case r of
       Inl _ \<Rightarrow> ret False | Inr session \<Rightarrow> monitorFormCheckFor session now)"

section \<open>The checks only read the store\<close>

lemma reads_more_lists [reads_intros]:
  "reads (ListPlanHandoffs g)" "reads (ListDecisionsForGoal g)" "reads (ListTaskCreateHandoffs g)" "reads ListAllGoals"
  unfolding ListPlanHandoffs_def ListDecisionsForGoal_def ListTaskCreateHandoffs_def ListAllGoals_def
  by (rule reads_intros)+

lemma reads_stop_loops [reads_intros]:
  "reads (executor_work ts fp)" "reads (commander_goals gs fp)" "reads (subcommander_tasks live ts fp)"
  "reads (executor_handoffs g ths now fp)" "reads (executor_goals i gs now fp)"
proof -
  show work: "reads (executor_work ts fp)" for ts fp
    by (induction ts arbitrary: fp) (unfold executor_work.simps Let_def, (rule reads_intros | assumption)+)
  show "reads (commander_goals gs fp)" for gs fp
    by (induction gs arbitrary: fp) (unfold commander_goals.simps Let_def, (rule reads_intros work | assumption)+)
  show "reads (subcommander_tasks live ts fp)" for ts fp
    by (induction ts arbitrary: fp) (unfold subcommander_tasks.simps Let_def, (rule reads_intros | assumption)+)
  show handoffs: "reads (executor_handoffs g ths now fp)" for g ths fp
    by (induction ths arbitrary: fp) (simp_all only: split_paired_all executor_handoffs.simps Let_def, (rule reads_intros | assumption)+)
  show "reads (executor_goals i gs now fp)" for gs fp
    by (induction gs arbitrary: fp) (unfold executor_goals.simps Let_def, (rule reads_intros handoffs | assumption)+)
qed

lemma reads_AgentSessionIDByKey [reads_intros]: "reads (AgentSessionIDByKey k)"
  unfolding AgentSessionIDByKey_def Let_def by (rule reads_intros)+

lemma reads_watch_live [reads_intros]: "reads (watch_live pending scope now)"
  unfolding watch_live_def by (rule reads_intros)+

lemma reads_stop_checks [reads_intros]:
  "reads (subcommanderWaiting i g hs live)" "reads (subcommander_holds i g hs live)" "reads (subcommander_work i g hs live)"
  "reads (subcommanderStopDetail i goal force now)" "reads (work_detail i role now)" "reads (watch_scope i role)"
  "reads (monitorCheck k now)" "reads (monitorFormCheckFor i now)" "reads (monitorFormCheck k now)"
  unfolding subcommanderWaiting_def subcommander_holds_def subcommander_work_def subcommanderStopDetail_def
    work_detail_def watch_scope_def stopCheckCommander_def stopCheckSubcommander_def stopCheckExecutor_def
    monitorCheck_def monitorFormCheckFor_def monitorFormCheck_def Let_def
  by (rule reads_intros)+

end
