(* ===== verification/Atct_Chat_Answer.thy ===== *)
theory Atct_Chat_Answer
  imports Atct_Stop_Check
begin

text \<open>
  Answering a decision from the chat (\<^verbatim>\<open>internal/daemon/decision_answer.go\<close>). An agent
  passes on the words of the human; the daemon looks for them in the transcript the harness wrote for
  the session, at the place the harness writes it, and accepts the answer only when a message the human
  typed after the question was asked holds the quote as a whole line and has answered nothing else.
\<close>

section \<open>The file system and the transcripts\<close>

datatype file_kind = Missing | Unreadable | RegularFile | Directory | OtherFile

text \<open>
  What the daemon reads of the outside: environment variables (empty when unset), the home directory,
  \<^verbatim>\<open>Lstat\<close>, \<^verbatim>\<open>ReadDir\<close> (None when the folder exists but cannot
  be listed, empty when it is missing; every entry with whether it is a folder),
  \<^verbatim>\<open>EvalSymlinks\<close> and the content of a regular file opened without following a
  symlink. The two decoders are \<^verbatim>\<open>encoding/json\<close> on a line of a transcript, with the
  time stamp parsed; None is an error of either. \<open>hn_alnum\<close> is the Unicode table of letters and
  digits.
\<close>

datatype message_content = ContentText string | ContentParts "(string \<times> string) list" | ContentOther

record transcriptEntry =
  te_Type :: string
  te_UUID :: string
  te_At :: "time option"
  te_OriginKind :: string
  te_Content :: message_content

record codexRolloutEntry =
  cx_At :: "time option"
  cx_Type :: string
  cx_PayloadType :: string
  cx_ItemID :: string
  cx_ItemType :: string
  cx_ClientID :: string
  cx_Content :: message_content

record harness =
  hn_getenv :: "string \<Rightarrow> string"
  hn_home :: "string option"
  hn_lstat :: "string \<Rightarrow> file_kind"
  hn_readdir :: "string \<Rightarrow> (string \<times> bool) list option"
  hn_evalSymlinks :: "string \<Rightarrow> string option"
  hn_read :: "string \<Rightarrow> string option"
  hn_claude :: "string \<Rightarrow> transcriptEntry option"
  hn_codex :: "string \<Rightarrow> codexRolloutEntry option"
  hn_alnum :: "nat \<Rightarrow> bool"

definition unverified :: error where
  "unverified = DaemonE ErrHumanQuoteUnverified"

section \<open>Quotes\<close>

text \<open>
  \<^verbatim>\<open>strings.Fields\<close>. A space rune cannot start inside the encoding of another rune, so
  the text is scanned byte by byte.
\<close>

fun take_field :: "string \<Rightarrow> string \<times> string" where
  "take_field [] = ([], [])"
| "take_field (c # s) =
     (if strip_one space_runes (c # s) \<noteq> None then ([], c # s)
      else case take_field s of (f, rest) \<Rightarrow> (c # f, rest))"

lemma take_field_length: "length (snd (take_field s)) \<le> length s"
  by (induction s) (auto split: prod.split)

lemma strip_all_length: "length (strip_all seps s) \<le> length s"
  using strip_all_drop [of seps s] by (auto)

function text_fields :: "string \<Rightarrow> string list" where
  "text_fields s =
     (let t = strip_all space_runes s
      in if t = [] then [] else fst (take_field t) # text_fields (snd (take_field t)))"
  by pat_completeness auto
termination
proof (relation "measure length", simp)
  fix s t :: string
  assume t: "t = strip_all space_runes s" and nonempty: "t \<noteq> []"
  from nonempty obtain c u where cu: "t = c # u" by (meson neq_Nil_conv)
  have "strip_one space_runes (c # u) = None"
    using strip_one_strip_all [of space_runes s] t cu by simp
  then have "length (snd (take_field t)) < length t"
    using take_field_length [of u] by (cases "take_field u") (simp add: cu)
  also have "length t \<le> length s" using t strip_all_length by simp
  finally show "(snd (take_field t), s) \<in> measure length" by simp
qed

declare text_fields.simps [simp del]

definition normalizeQuoteText :: "string \<Rightarrow> string" where
  "normalizeQuoteText s = join_char (CHR '' '') (text_fields s)"

definition quoteLineMatches :: "string \<Rightarrow> string \<Rightarrow> bool" where
  "quoteLineMatches txt needle \<longleftrightarrow> list_ex (\<lambda>line. normalizeQuoteText line = needle) (split_char newline txt)"

definition hasLetterOrDigit :: "harness \<Rightarrow> string \<Rightarrow> bool" where
  "hasLetterOrDigit hn s = list_ex (hn_alnum hn) (runes s)"

definition truncateRunes :: "string \<Rightarrow> nat \<Rightarrow> string" where
  "truncateRunes s n = (if n < length (runes s) then utf8 (take n (runes s)) else s)"

definition humanEvidenceMaxRunes :: nat where
  "humanEvidenceMaxRunes = 8000"

text \<open>\<^verbatim>\<open>strings.ReplaceAll(s, " #", "#")\<close>\<close>

fun close_hash :: "string \<Rightarrow> string" where
  "close_hash [] = []"
| "close_hash (c # s) =
     (if c = CHR '' '' \<and> (case s of [] \<Rightarrow> False | d # _ \<Rightarrow> d = CHR ''#'') then close_hash s else c # close_hash s)"

text \<open>
  \<^verbatim>\<open>strings.EqualFold\<close> against a fixed form: the runes of the forms have no case variants
  but those \<open>fold_rune\<close> knows.
\<close>

definition equal_fold :: "string \<Rightarrow> string \<Rightarrow> bool" where
  "equal_fold s form \<longleftrightarrow> map fold_rune (runes s) = map fold_rune (runes form)"

definition approve_ja :: string where
  "approve_ja = [CHR 0xE6, CHR 0x89, CHR 0xBF, CHR 0xE8, CHR 0xAA, CHR 0x8D]"

definition reject_ja :: string where
  "reject_ja = [CHR 0xE5, CHR 0x8D, CHR 0xB4, CHR 0xE4, CHR 0xB8, CHR 0x8B]"

definition goalReviewForms :: "decision \<Rightarrow> string \<Rightarrow> string list" where
  "goalReviewForms d answer =
     (let i = '' #'' @ Itoa_int (d_id d)
      in if answer = ''approve'' then [''approve'' @ i, approve_ja @ i] else [''reject'' @ i, reject_ja @ i])"

definition goalReviewQuoteMatches :: "decision \<Rightarrow> string \<Rightarrow> string \<Rightarrow> bool" where
  "goalReviewQuoteMatches d answer quote \<longleftrightarrow>
     list_ex (\<lambda>form. equal_fold (close_hash (normalizeQuoteText quote)) (close_hash (normalizeQuoteText form)))
       (goalReviewForms d answer)"

section \<open>Where a transcript may be\<close>

definition configSubdirs :: "harness \<Rightarrow> string \<Rightarrow> string \<Rightarrow> string \<Rightarrow> string list" where
  "configSubdirs hn var defaultDir sub =
     (if hn_getenv hn var \<noteq> [] then [Join [hn_getenv hn var, sub]]
      else case hn_home hn of None \<Rightarrow> [] | Some home \<Rightarrow> [Join [home, defaultDir, sub]])"

fun resolved_roots :: "harness \<Rightarrow> string list \<Rightarrow> string list \<Rightarrow> string list" where
  "resolved_roots hn seen [] = []"
| "resolved_roots hn seen (root # roots) =
     (case hn_evalSymlinks hn root of None \<Rightarrow> resolved_roots hn seen roots
      | Some r \<Rightarrow> if r \<in> set seen then resolved_roots hn seen roots
                  else r # resolved_roots hn (r # seen) roots)"

definition resolvedRoots :: "harness \<Rightarrow> string list \<Rightarrow> string list" where
  "resolvedRoots hn roots = resolved_roots hn [] roots"

definition claudeProjectsRoots :: "harness \<Rightarrow> string list" where
  "claudeProjectsRoots hn = resolvedRoots hn (configSubdirs hn ''CLAUDE_CONFIG_DIR'' ''.claude'' ''projects'')"

definition codexSessionsRoots :: "harness \<Rightarrow> string list" where
  "codexSessionsRoots hn = resolvedRoots hn (configSubdirs hn ''CODEX_HOME'' ''.codex'' ''sessions'')"

definition jsonl_name :: "string \<Rightarrow> string" where
  "jsonl_name sessionKey = sessionKey @ ''.jsonl''"

text \<open>The regular expressions match whole texts: digits of fixed number and literals.\<close>

definition digits :: "nat \<Rightarrow> string \<Rightarrow> bool" where
  "digits n s \<longleftrightarrow> length s = n \<and> list_all is_digit s"

definition codexYearDir :: "string \<Rightarrow> bool" where
  "codexYearDir s \<longleftrightarrow> digits 4 s"

definition codexMonthDir :: "string \<Rightarrow> bool" where
  "codexMonthDir s \<longleftrightarrow> digits 2 s"

definition codexDayDir :: "string \<Rightarrow> bool" where
  "codexDayDir s \<longleftrightarrow> digits 2 s"

text \<open>A digit of the pattern is written as the character \<open>0\<close>.\<close>

definition like_pattern :: "string \<Rightarrow> string \<Rightarrow> bool" where
  "like_pattern p s \<longleftrightarrow> list_all2 (\<lambda>a c. if a = CHR ''0'' then is_digit c else a = c) p s"

definition codexRolloutName :: "string \<Rightarrow> string \<Rightarrow> bool" where
  "codexRolloutName sessionKey name \<longleftrightarrow>
     (let p = ''rollout-0000-00-00T00-00-00-''
      in like_pattern p (take (length p) name) \<and> drop (length p) name = jsonl_name sessionKey)"

definition isHarnessTranscriptPath :: "string \<Rightarrow> string \<Rightarrow> bool" where
  "isHarnessTranscriptPath path sessionKey \<longleftrightarrow>
     sessionKey \<noteq> [] \<and> IsAbs path \<and> Clean path = path \<and> Base path = jsonl_name sessionKey
   \<and> Base (Dir (Dir path)) = ''projects''"

definition isCodexRolloutPath :: "string \<Rightarrow> string \<Rightarrow> bool" where
  "isCodexRolloutPath path sessionKey \<longleftrightarrow>
     sessionKey \<noteq> [] \<and> IsAbs path \<and> Clean path = path \<and> codexRolloutName sessionKey (Base path)"

text \<open>The path below a root, resolved, with its parts checked.\<close>

definition inside_roots :: "harness \<Rightarrow> string list \<Rightarrow> (string list \<Rightarrow> bool) \<Rightarrow> string \<Rightarrow> bool" where
  "inside_roots hn roots ok path \<longleftrightarrow>
     hn_lstat hn path = RegularFile
   \<and> (case hn_evalSymlinks hn path of None \<Rightarrow> False
      | Some resolved \<Rightarrow> list_ex (\<lambda>root. case Rel root resolved of None \<Rightarrow> False
                                         | Some rel \<Rightarrow> ok (split_char slash rel)) roots)"

definition insideClaudeProjects :: "harness \<Rightarrow> string \<Rightarrow> string \<Rightarrow> bool" where
  "insideClaudeProjects hn path sessionKey \<longleftrightarrow>
     inside_roots hn (claudeProjectsRoots hn)
       (\<lambda>parts. length parts = 2 \<and> parts ! 0 \<noteq> dotdot \<and> parts ! 1 = jsonl_name sessionKey) path"

definition insideCodexSessions :: "harness \<Rightarrow> string \<Rightarrow> string \<Rightarrow> bool" where
  "insideCodexSessions hn path sessionKey \<longleftrightarrow>
     inside_roots hn (codexSessionsRoots hn)
       (\<lambda>parts. length parts = 4 \<and> codexYearDir (parts ! 0) \<and> codexMonthDir (parts ! 1) \<and> codexMonthDir (parts ! 2)
          \<and> codexRolloutName sessionKey (parts ! 3)) path"

text \<open>
  The candidates; None when a folder or a file on the way cannot be looked at.
\<close>

definition all_listed :: "'a list option list \<Rightarrow> 'a list option" where
  "all_listed xs = (if list_ex (\<lambda>x. x = None) xs then None else Some (concat (map the xs)))"

definition sub_folders :: "harness \<Rightarrow> (string \<Rightarrow> bool) \<Rightarrow> string \<Rightarrow> string list option" where
  "sub_folders hn P dir =
     map_option (\<lambda>es. [Join [dir, name]. (name, isDir) \<leftarrow> es, isDir \<and> P name]) (hn_readdir hn dir)"

definition down :: "(string \<Rightarrow> string list option) \<Rightarrow> string list option \<Rightarrow> string list option" where
  "down f ds = Option.bind ds (\<lambda>ds. all_listed (map f ds))"

definition claude_candidates :: "harness \<Rightarrow> string \<Rightarrow> string list option" where
  "claude_candidates hn sessionKey =
     down (\<lambda>project. let path = Join [project, jsonl_name sessionKey]
                     in case hn_lstat hn path of Missing \<Rightarrow> Some [] | Unreadable \<Rightarrow> None | Directory \<Rightarrow> Some []
                        | _ \<Rightarrow> Some [path])
       (down (sub_folders hn (\<lambda>_. True)) (Some (claudeProjectsRoots hn)))"

definition codex_candidates :: "harness \<Rightarrow> string \<Rightarrow> string list option" where
  "codex_candidates hn sessionKey =
     down (\<lambda>day. map_option (\<lambda>es. [Join [day, name]. (name, isDir) \<leftarrow> es, \<not> isDir \<and> codexRolloutName sessionKey name])
              (hn_readdir hn day))
       (down (sub_folders hn codexDayDir) (down (sub_folders hn codexMonthDir)
         (down (sub_folders hn codexYearDir) (Some (codexSessionsRoots hn)))))"

definition transcriptCandidates :: "harness \<Rightarrow> string \<Rightarrow> string list option" where
  "transcriptCandidates hn sessionKey =
     (case claude_candidates hn sessionKey of None \<Rightarrow> None
      | Some a \<Rightarrow> map_option (\<lambda>b. a @ b) (codex_candidates hn sessionKey))"

text \<open>The one transcript, and whether it is a Codex rollout.\<close>

definition harnessTranscript :: "harness \<Rightarrow> string \<Rightarrow> string list \<Rightarrow> error + string \<times> bool" where
  "harnessTranscript hn sessionKey candidates =
     (if list_ex (\<lambda>c. hn_lstat hn c = Unreadable) candidates then Inl unverified
      else case filter (\<lambda>c. hn_lstat hn c \<noteq> Missing) candidates of
        [path] \<Rightarrow>
          if isCodexRolloutPath path sessionKey
          then (if insideCodexSessions hn path sessionKey then Inr (path, True) else Inl unverified)
          else if isHarnessTranscriptPath path sessionKey \<and> insideClaudeProjects hn path sessionKey
          then Inr (path, False) else Inl unverified
      | _ \<Rightarrow> Inl unverified)"

section \<open>Words of the human\<close>

record humanEvidence =
  he_ID :: string
  he_Text :: string

definition contains :: "string \<Rightarrow> string \<Rightarrow> bool" where
  "contains sub s \<longleftrightarrow> list_ex (\<lambda>n. starts_with sub (drop n s)) [0..<Suc (length s)]"

text \<open>A content that is neither a text nor a list of parts has no text; other kinds of parts are left out.\<close>

fun messageText :: "message_content \<Rightarrow> string" where
  "messageText (ContentText s) = s"
| "messageText (ContentParts ps) = concat [txt. (ty, txt) \<leftarrow> ps, ty = ''text'']"
| "messageText ContentOther = []"

fun codexMessageText :: "message_content \<Rightarrow> string" where
  "codexMessageText (ContentParts ps) = join_char newline [txt. (ty, txt) \<leftarrow> ps, ty = ''text'']"
| "codexMessageText _ = []"

definition human_word :: string where
  "human_word = [CHR 0x22] @ ''human'' @ [CHR 0x22]"

definition not_before :: "time option \<Rightarrow> time \<Rightarrow> bool" where
  "not_before at since = (case at of None \<Rightarrow> False | Some t \<Rightarrow> since \<le> t)"

definition transcriptLineHumanQuote :: "harness \<Rightarrow> string \<Rightarrow> time \<Rightarrow> string \<Rightarrow> humanEvidence option" where
  "transcriptLineHumanQuote hn needle since line =
     (if \<not> contains human_word line then None
      else case hn_claude hn line of None \<Rightarrow> None
      | Some e \<Rightarrow>
          if te_Type e = ''user'' \<and> te_UUID e \<noteq> [] \<and> te_OriginKind e = ''human'' \<and> not_before (te_At e) since
            \<and> quoteLineMatches (messageText (te_Content e)) needle
          then Some \<lparr>he_ID = te_UUID e, he_Text = messageText (te_Content e)\<rparr> else None)"

definition atctClientMessagePrefix :: string where
  "atctClientMessagePrefix = ''atct:''"

definition codexLineHumanQuote :: "harness \<Rightarrow> string \<Rightarrow> time \<Rightarrow> string \<Rightarrow> humanEvidence option" where
  "codexLineHumanQuote hn needle since line =
     (if \<not> contains ''UserMessage'' line then None
      else case hn_codex hn line of None \<Rightarrow> None
      | Some e \<Rightarrow>
          if cx_Type e = ''event_msg'' \<and> cx_PayloadType e = ''item_completed'' \<and> cx_ItemType e = ''UserMessage''
            \<and> cx_ItemID e \<noteq> [] \<and> cx_ClientID e \<noteq> [] \<and> \<not> starts_with atctClientMessagePrefix (cx_ClientID e)
            \<and> not_before (cx_At e) since \<and> quoteLineMatches (codexMessageText (cx_Content e)) needle
          then Some \<lparr>he_ID = cx_ItemID e, he_Text = codexMessageText (cx_Content e)\<rparr> else None)"

definition maxTranscriptLine :: nat where
  "maxTranscriptLine = 1048576"

text \<open>The lines with their line ends; the last one has none and may be empty.\<close>

fun raw_lines :: "string list \<Rightarrow> string list" where
  "raw_lines [] = []"
| "raw_lines [l] = [l]"
| "raw_lines (l # m # ls) = (l @ [newline]) # raw_lines (m # ls)"

definition scanTranscript :: "harness \<Rightarrow> string \<Rightarrow> (string \<Rightarrow> humanEvidence option) \<Rightarrow> humanEvidence list option" where
  "scanTranscript hn path match =
     map_option (\<lambda>content. List.map_filter match
         (filter (\<lambda>l. length l \<le> maxTranscriptLine) (raw_lines (split_char newline content))))
       (hn_read hn path)"

definition verifyHumanQuote :: "harness \<Rightarrow> int \<Rightarrow> decision \<Rightarrow> string \<Rightarrow> (humanEvidence list) store_op" where
  "verifyHumanQuote hn session d quote =
     (let needle = normalizeQuoteText quote
      in if \<not> hasLetterOrDigit hn needle then fail unverified
         else bnd (AgentSessionKey session) (\<lambda>sessionKey.
           bnd (check (sessionKey \<noteq> []) unverified) (\<lambda>_.
           bnd (need unverified (transcriptCandidates hn sessionKey)) (\<lambda>candidates.
           case harnessTranscript hn sessionKey candidates of
             Inl e \<Rightarrow> fail e
           | Inr (path, codex) \<Rightarrow>
               (let since = d_created_at d + second;
                    match = (if codex then codexLineHumanQuote hn needle since
                             else transcriptLineHumanQuote hn needle since)
                in bnd (need unverified (scanTranscript hn path match)) (\<lambda>found.
                   bnd (check (found \<noteq> []) unverified) (\<lambda>_. ret (rev found))))))))"

section \<open>The answer\<close>

record decisionAnswerParams =
  da_DecisionID :: int
  da_Answer :: string
  da_AnswerText :: string
  da_HumanQuote :: string
  da_AgentSessionID :: int

definition ensureCanAnswerFromChat :: "int \<Rightarrow> decision \<Rightarrow> unit store_op" where
  "ensureCanAnswerFromChat session d =
     (if d_kind d \<noteq> KindGoalReview \<and> d_agent_session_id d = session then ret ()
      else bnd (deriveSessionRole session) (\<lambda>role.
        bnd (if ra_Role role = ''commander''
             then bnd (GetGoal (d_goal_id d)) (\<lambda>g.
               if g_project_id g \<noteq> ra_ProjectID role then ret False
               else if DecisionRoutesToCommander d then ret True
               else GoalHandoffEverReceivedBy (d_goal_id d) (d_agent_session_id d))
             else ret False) (\<lambda>allowed.
        check allowed (Failure ''decision is owned by another agent session''))))"

text \<open>
  The kind \<^verbatim>\<open>completion\<close>, which the code still refuses, belongs to an older schema
  and is not a kind of the model.
\<close>

definition validateChatAnswer :: "decision \<Rightarrow> decisionAnswerParams \<Rightarrow> unit store_op" where
  "validateChatAnswer d p =
     (if d_kind d = KindGoalReview then
        bnd (check (da_Answer p \<in> set [''approve'', ''reject'']) (Failure ''goal_review accepts answer approve or reject'')) (\<lambda>_.
        check (goalReviewQuoteMatches d (da_Answer p) (da_HumanQuote p)) unverified)
      else if da_Answer p \<noteq> [] then
        check (list_ex (\<lambda>opt. o_label opt = da_Answer p) (d_options d)) (Failure ''answer is not one of the option labels'')
      else check (\<not> blank (da_AnswerText p)) (Failure ''an answer label or answer_text is required''))"

definition writeChatAnswer :: "decision \<Rightarrow> decisionAnswerParams \<Rightarrow> AnswerSource \<Rightarrow> time \<Rightarrow> unit store_op" where
  "writeChatAnswer d p src now =
     (if d_kind d = KindGoalReview \<and> da_Answer p = ''approve''
      then bnd (ApproveGoalReviewWith (d_id d) src now) (\<lambda>_. ret ())
      else if d_kind d = KindGoalReview then RejectGoalReviewWith (d_id d) (da_AnswerText p) src now
      else bnd (AnswerDecisionWith \<lparr>DecisionID = d_id d, AnswerLabel = da_Answer p, AnswerText = da_AnswerText p\<rparr> src now)
             (\<lambda>_. ret ()))"

definition chat_source :: "decisionAnswerParams \<Rightarrow> humanEvidence \<Rightarrow> AnswerSource" where
  "chat_source p human =
     \<lparr>Via = ''chat'', Quote = TrimSpace (da_HumanQuote p),
      Evidence = truncateRunes (he_Text human) humanEvidenceMaxRunes, PromptID = he_ID human\<rparr>"

text \<open>A message that already answered another decision is passed over.\<close>

fun answer_with :: "decision \<Rightarrow> decisionAnswerParams \<Rightarrow> time \<Rightarrow> humanEvidence list \<Rightarrow> decision store_op" where
  "answer_with d p now [] = fail unverified"
| "answer_with d p now (human # rest) =
     bnd (try_op (writeChatAnswer d p (chat_source p human) now)) (\<lambda>r. case r of
       Inr _ \<Rightarrow> GetDecision (d_id d)
     | Inl e \<Rightarrow> if e = DecisionE ErrAnswerPromptReused then answer_with d p now rest else fail e)"

definition answerDecisionFromChat :: "harness \<Rightarrow> decisionAnswerParams \<Rightarrow> time \<Rightarrow> decision store_op" where
  "answerDecisionFromChat hn p now =
     (if da_AgentSessionID p = 0 then fail (Failure ''agent_session_id is required to answer a decision from the chat'')
      else bnd (GetDecision (da_DecisionID p)) (\<lambda>d.
        bnd (check (d_status d = DecisionOpen) (DecisionE ErrDecisionNotOpen)) (\<lambda>_.
        bnd (ensureCanAnswerFromChat (da_AgentSessionID p) d) (\<lambda>_.
        bnd (validateChatAnswer d p) (\<lambda>_.
        bnd (verifyHumanQuote hn (da_AgentSessionID p) d (da_HumanQuote p)) (\<lambda>found.
        answer_with d p now found))))))"

lemma reads_chat [reads_intros]:
  "reads (ensureCanAnswerFromChat i d)" "reads (validateChatAnswer d p)" "reads (verifyHumanQuote hn i d quote)"
  unfolding ensureCanAnswerFromChat_def validateChatAnswer_def verifyHumanQuote_def AgentSessionKey_def Let_def
    GoalHandoffEverReceivedBy_def
  by (rule reads_intros)+

end
