(* ===== verification/Atct_Findings.thy ===== *)
theory Atct_Findings
  imports Atct_Chat_Answer
begin

text \<open>
  What the daemon finds in the working copy of a goal when a review is requested
  (\<^verbatim>\<open>internal/daemon/report_findings.go\<close> and \<^verbatim>\<open>spec_files.go\<close>):
  changes that are not committed, a branch that lacks the main branch or carries spec and plan files.
  Git is the parameter \<open>w_git\<close>, its exit status \<open>git_exit\<close> and whether a path is a
  directory \<open>is_dir\<close>. A git that fails finds nothing, so it never blocks a review.
\<close>

section \<open>The branch of a goal\<close>

definition goalBranchName :: "int \<Rightarrow> string" where
  "goalBranchName goalID = ''wt/goal-'' @ Itoa_int goalID"

definition git_verify :: "world \<Rightarrow> string \<Rightarrow> string \<Rightarrow> bool" where
  "git_verify w root ref \<longleftrightarrow>
     w_git w root [''rev-parse'', ''--verify'', ''--quiet'', ref @ ''^{commit}''] \<noteq> None"

definition git_base :: "world \<Rightarrow> string \<Rightarrow> string option" where
  "git_base w root =
     List.find (git_verify w root)
       [''refs/heads/main'', ''refs/remotes/origin/main'', ''refs/heads/master'', ''refs/remotes/origin/master'']"

definition goal_ref :: "int \<Rightarrow> string" where
  "goal_ref goalID = ''refs/heads/'' @ goalBranchName goalID"

text \<open>The verified branch of a goal together with the base it is compared to.\<close>

definition branch_and_base :: "world \<Rightarrow> string \<Rightarrow> int \<Rightarrow> (string \<times> string) option" where
  "branch_and_base w root goalID =
     (if git_verify w root (goal_ref goalID) then map_option (\<lambda>b. (goal_ref goalID, b)) (git_base w root) else None)"

definition specFilePrefixes :: "string list" where
  "specFilePrefixes = [''doc/specs/'', ''doc/plans/'', ''docs/superpowers/'']"

definition goalBranchAddedSpecFiles :: "world \<Rightarrow> string \<Rightarrow> int \<Rightarrow> string list" where
  "goalBranchAddedSpecFiles w root goalID =
     (case branch_and_base w root goalID of None \<Rightarrow> []
      | Some (branch, base) \<Rightarrow>
          (case w_git w root [''diff'', ''--name-only'', ''--diff-filter=A'', ''-z'', base @ ''...'' @ branch] of
             None \<Rightarrow> []
           | Some out \<Rightarrow> order_by (\<lambda>f. f)
               (filter (\<lambda>f. list_ex (\<lambda>p. starts_with p f) specFilePrefixes) (split_char (CHR 0x00) out))))"

definition goalBranchMissingBase :: "world \<Rightarrow> (string \<Rightarrow> string list \<Rightarrow> int option) \<Rightarrow> string \<Rightarrow> int \<Rightarrow> string option" where
  "goalBranchMissingBase w git_exit root goalID =
     (case branch_and_base w root goalID of None \<Rightarrow> None
      | Some (branch, base) \<Rightarrow>
          if git_exit root [''merge-base'', ''--is-ancestor'', base, branch] = Some 1 then Some base else None)"

definition refuseGoalBranchProblems :: "world \<Rightarrow> (string \<Rightarrow> string list \<Rightarrow> int option) \<Rightarrow> int \<Rightarrow> unit store_op" where
  "refuseGoalBranchProblems w git_exit goalID =
     bnd (GetGoal goalID) (\<lambda>g.
     bnd ListProjects (\<lambda>ps.
     each (\<lambda>p.
       bnd (check (goalBranchMissingBase w git_exit (p_root_path p) goalID = None)
              (Failure ''branch does not contain the base'')) (\<lambda>_.
       check (goalBranchAddedSpecFiles w (p_root_path p) goalID = []) (Failure ''branch adds spec/plan files'')))
       (filter (\<lambda>p. p_id p = g_project_id g) ps)))"

section \<open>The working copy\<close>

definition findingsListMax :: nat where
  "findingsListMax = 10"

text \<open>
  The output of \<^verbatim>\<open>git status --porcelain -z\<close>: two status characters, a space and a
  path; after a rename or a copy the next piece is the original path.
\<close>

fun status_entries :: "string list \<Rightarrow> string list \<times> string list" where
  "status_entries [] = ([], [])"
| "status_entries (e # es) =
     (if length e < 4 then status_entries es
      else if take 2 e = ''??'' then (case status_entries es of (tr, un) \<Rightarrow> (tr, drop 3 e # un))
      else if list_ex (\<lambda>c. c = CHR ''R'' \<or> c = CHR ''C'') (take 2 e)
      then (case status_entries (tl es) of (tr, un) \<Rightarrow> (drop 3 e # tr, un))
      else (case status_entries es of (tr, un) \<Rightarrow> (drop 3 e # tr, un)))"

definition goal_worktree :: "string \<Rightarrow> int \<Rightarrow> string" where
  "goal_worktree root goalID = Join [root, ''.worktrees'', Itoa_int goalID]"

definition worktreeStatus :: "world \<Rightarrow> (string \<Rightarrow> bool) \<Rightarrow> string \<Rightarrow> int \<Rightarrow> (string list \<times> string list) option" where
  "worktreeStatus w is_dir root goalID =
     (if \<not> is_dir (goal_worktree root goalID) then None
      else map_option (\<lambda>out. status_entries (split_char (CHR 0x00) out))
             (w_git w (goal_worktree root goalID) [''status'', ''--porcelain'', ''-z'']))"

definition branchNotAheadOfBase :: "world \<Rightarrow> string \<Rightarrow> int \<Rightarrow> bool" where
  "branchNotAheadOfBase w root goalID =
     (case branch_and_base w root goalID of None \<Rightarrow> False
      | Some (branch, base) \<Rightarrow>
          (case w_git w root [''rev-list'', ''--count'', base @ ''..'' @ branch] of
             None \<Rightarrow> False | Some out \<Rightarrow> TrimSpace out = ''0''))"

definition goalProjectRoot :: "int \<Rightarrow> string store_op" where
  "goalProjectRoot goalID =
     bnd (GetGoal goalID) (\<lambda>g.
     bnd ListProjects (\<lambda>ps.
     bnd (need (Failure ''project not found for goal'') (List.find (\<lambda>p. p_id p = g_project_id g) ps)) (\<lambda>p.
     ret (p_root_path p))))"

definition comma_space :: "string list \<Rightarrow> string" where
  "comma_space ws = (case ws of [] \<Rightarrow> [] | w # rest \<Rightarrow> w @ concat (map (\<lambda>v. '', '' @ v) rest))"

definition firstPaths :: "string list \<Rightarrow> string" where
  "firstPaths paths = comma_space (take findingsListMax paths)"

text \<open>The notes are Japanese, written here as the bytes of their UTF-8 encoding.\<close>

definition untracked_note :: "string list \<Rightarrow> string" where
  "untracked_note paths =
     ''- worktree '' @ [CHR 0xE3, CHR 0x81, CHR 0xAB, CHR 0xE6, CHR 0x9C, CHR 0xAA, CHR 0xE8, CHR 0xBF,
      CHR 0xBD, CHR 0xE8, CHR 0xB7, CHR 0xA1, CHR 0xE3, CHR 0x83, CHR 0x95, CHR 0xE3, CHR 0x82,
      CHR 0xA1, CHR 0xE3, CHR 0x82, CHR 0xA4, CHR 0xE3, CHR 0x83, CHR 0xAB, CHR 0xE3, CHR 0x81, CHR 0x8C] @ '' '' @ Itoa (length paths)
     @ '' '' @ [CHR 0xE4, CHR 0xBB, CHR 0xB6, CHR 0xE3, CHR 0x81, CHR 0x82, CHR 0xE3, CHR 0x82, CHR 0x8B] @ '': '' @ firstPaths paths
     @ '' ('' @ [CHR 0xE5, CHR 0x85, CHR 0x88, CHR 0xE9, CHR 0xA0, CHR 0xAD] @ '' '' @ Itoa findingsListMax
     @ '' '' @ [CHR 0xE4, CHR 0xBB, CHR 0xB6] @ '')''"

definition not_ahead_note :: string where
  "not_ahead_note = ''- done '' @ [CHR 0xE3, CHR 0x81, CHR 0xAE] @ '' task '' @ [CHR 0xE3, CHR 0x81, CHR 0x8C,
      CHR 0xE3, CHR 0x81, CHR 0x82, CHR 0xE3, CHR 0x82, CHR 0x8B, CHR 0xE3, CHR 0x81, CHR 0x8C,
      CHR 0xE3, CHR 0x80, CHR 0x81] @ ''branch '' @ [CHR 0xE3, CHR 0x81, CHR 0xAB] @ '' main '' @ [CHR 0xE3, CHR 0x82, CHR 0x88, CHR 0xE3, CHR 0x82, CHR 0x8A, CHR 0xE6, CHR 0x96, CHR 0xB0,
      CHR 0xE3, CHR 0x81, CHR 0x97, CHR 0xE3, CHR 0x81, CHR 0x84] @ '' commit ''
       @ [CHR 0xE3, CHR 0x81, CHR 0x8C, CHR 0xE7, CHR 0x84, CHR 0xA1, CHR 0xE3, CHR 0x81, CHR 0x84]"

definition uncommitted_note :: "string list \<Rightarrow> string" where
  "uncommitted_note paths =
     ''- worktree '' @ [CHR 0xE3, CHR 0x81, CHR 0xAB, CHR 0xE6, CHR 0x9C, CHR 0xAA, CHR 0xE3, CHR 0x82,
      CHR 0xB3, CHR 0xE3, CHR 0x83, CHR 0x9F, CHR 0xE3, CHR 0x83, CHR 0x83, CHR 0xE3, CHR 0x83,
      CHR 0x88, CHR 0xE3, CHR 0x81, CHR 0xAE, CHR 0xE5, CHR 0xA4, CHR 0x89, CHR 0xE6, CHR 0x9B,
      CHR 0xB4, CHR 0xE3, CHR 0x81, CHR 0xBE, CHR 0xE3, CHR 0x81, CHR 0x9F, CHR 0xE3, CHR 0x81,
      CHR 0xAF, CHR 0xE6, CHR 0x9C, CHR 0xAA, CHR 0xE8, CHR 0xBF, CHR 0xBD, CHR 0xE8, CHR 0xB7,
      CHR 0xA1, CHR 0xE3, CHR 0x83, CHR 0x95, CHR 0xE3, CHR 0x82, CHR 0xA1, CHR 0xE3, CHR 0x82,
      CHR 0xA4, CHR 0xE3, CHR 0x83, CHR 0xAB, CHR 0xE3, CHR 0x81, CHR 0x8C] @ '' '' @ Itoa (length paths)
     @ '' '' @ [CHR 0xE4, CHR 0xBB, CHR 0xB6, CHR 0xE3, CHR 0x81, CHR 0x82, CHR 0xE3, CHR 0x82, CHR 0x8B] @ '': '' @ firstPaths paths
     @ '' ('' @ [CHR 0xE5, CHR 0x85, CHR 0x88, CHR 0xE9, CHR 0xA0, CHR 0xAD] @ '' '' @ Itoa findingsListMax
     @ '' '' @ [CHR 0xE4, CHR 0xBB, CHR 0xB6] @ '')''"

definition findings_heading :: string where
  "findings_heading = [CHR 0x0A, CHR 0x0A] @ ''---'' @ [CHR 0x0A] @ ''ATCT ''
       @ [CHR 0xE6, CHR 0xA4, CHR 0x9C, CHR 0xE5, CHR 0x87, CHR 0xBA, CHR 0xEF, CHR 0xBC, CHR 0x88] @ ''daemon '' @ [CHR 0xE8, CHR 0xA8, CHR 0x98, CHR 0xE9, CHR 0x8C, CHR 0xB2, CHR 0xE3, CHR 0x80, CHR 0x82,
      CHR 0xE5, CHR 0xA0, CHR 0xB1, CHR 0xE5, CHR 0x91, CHR 0x8A, CHR 0xE8, CHR 0x80, CHR 0x85,
      CHR 0xE3, CHR 0x81, CHR 0xAE, CHR 0xE8, CHR 0xA8, CHR 0x98, CHR 0xE8, CHR 0xBF, CHR 0xB0,
      CHR 0xE3, CHR 0x81, CHR 0xA7, CHR 0xE3, CHR 0x81, CHR 0xAF, CHR 0xE3, CHR 0x81, CHR 0xAA,
      CHR 0xE3, CHR 0x81, CHR 0x84, CHR 0xEF, CHR 0xBC, CHR 0x89] @ '':'' @ [CHR 0x0A]"

text \<open>The note for the report of a goal review; uncommitted changes to tracked files refuse the request.\<close>

definition goalReviewGate :: "world \<Rightarrow> (string \<Rightarrow> bool) \<Rightarrow> int \<Rightarrow> string store_op" where
  "goalReviewGate w is_dir goalID =
     bnd (goalProjectRoot goalID) (\<lambda>root.
     case worktreeStatus w is_dir root goalID of None \<Rightarrow> ret []
     | Some (tracked, untracked) \<Rightarrow>
         bnd (check (tracked = []) (Failure ''goal worktree has uncommitted changes to tracked files'')) (\<lambda>_.
         bnd (try_op (ListTasks goalID)) (\<lambda>r.
         ret (join_char newline
           ((if untracked \<noteq> [] then [untracked_note untracked] else [])
            @ (if (case r of Inl _ \<Rightarrow> False | Inr ts \<Rightarrow> list_ex (\<lambda>t. t_status t = TaskDone) ts)
                 \<and> branchNotAheadOfBase w root goalID then [not_ahead_note] else []))))))"

definition taskReviewNote :: "world \<Rightarrow> (string \<Rightarrow> bool) \<Rightarrow> int \<Rightarrow> string store_op" where
  "taskReviewNote w is_dir taskID =
     bnd (try_op (bnd (GetTaskGoalID taskID) (\<lambda>goalID. bnd (goalProjectRoot goalID) (\<lambda>root. ret (goalID, root)))))
       (\<lambda>r. ret (case r of Inl _ \<Rightarrow> []
         | Inr (goalID, root) \<Rightarrow>
             (case worktreeStatus w is_dir root goalID of None \<Rightarrow> []
              | Some (tracked, untracked) \<Rightarrow>
                  if tracked @ untracked = [] then [] else uncommitted_note (tracked @ untracked))))"

definition appendFindings :: "string \<Rightarrow> string \<Rightarrow> string" where
  "appendFindings report note = (if note = [] \<or> blank report then report else report @ findings_heading @ note)"

lemma reads_findings [reads_intros]:
  "reads (goalProjectRoot g)" "reads (refuseGoalBranchProblems w ge g)" "reads (goalReviewGate w isd g)"
  "reads (taskReviewNote w isd t)"
  unfolding goalProjectRoot_def refuseGoalBranchProblems_def goalReviewGate_def taskReviewNote_def
  by (rule reads_intros)+

end
