(* ===== verification/Atct_Rpc.thy ===== *)
theory Atct_Rpc
  imports Atct_Findings
begin

text \<open>
  Requests and answers of the daemon (\<^verbatim>\<open>internal/rpc/rpc.go\<close>,
  \<^verbatim>\<open>internal/daemon/handler.go\<close>, \<^verbatim>\<open>next_step.go\<close>). A request is a
  method and a JSON value, or none; the methods read its fields as
  \<^verbatim>\<open>encoding/json\<close> reads a struct: a missing field and null are the zero value, a value
  of another type is an error. The names of the fields are matched exactly. An answer is the value the
  code marshals.
\<close>

section \<open>Requests\<close>

datatype json = JNull | JBool bool | JInt int | JString string | JList "json list"
  | JObject "(string \<times> json) list" | JOther

record request =
  rq_Method :: string
  rq_Params :: "json option"

text \<open>Of two fields with one name the later counts.\<close>

type_synonym fields = "(string \<times> json) list"

definition field :: "fields \<Rightarrow> string \<Rightarrow> json" where
  "field fs k = (case map_of (rev fs) k of None \<Rightarrow> JNull | Some v \<Rightarrow> v)"

definition bad_params :: error where
  "bad_params = Failure ''cannot unmarshal params''"

definition int64 :: "int \<Rightarrow> bool" where
  "int64 i \<longleftrightarrow> - (2 ^ 63) \<le> i \<and> i < 2 ^ 63"

text \<open>The types a field of a struct of parameters has, and the values \<^verbatim>\<open>Unmarshal\<close> takes for them.\<close>

datatype field_type = IntF | StringF | BoolF | IntsF | StringsF | OptionsF

type_synonym struct = "(string \<times> field_type) list"

fun is_int :: "json \<Rightarrow> bool" where
  "is_int JNull = True" | "is_int (JInt i) = int64 i" | "is_int _ = False"

fun is_string :: "json \<Rightarrow> bool" where
  "is_string JNull = True" | "is_string (JString s) = True" | "is_string _ = False"

fun is_bool :: "json \<Rightarrow> bool" where
  "is_bool JNull = True" | "is_bool (JBool b) = True" | "is_bool _ = False"

fun is_option :: "json \<Rightarrow> bool" where
  "is_option JNull = True"
| "is_option (JObject fs) = list_all (\<lambda>k. is_string (field fs k)) [''label'', ''description'', ''consequence'']"
| "is_option _ = False"

fun is_list :: "(json \<Rightarrow> bool) \<Rightarrow> json \<Rightarrow> bool" where
  "is_list f JNull = True" | "is_list f (JList vs) = list_all f vs" | "is_list f _ = False"

fun has_type :: "field_type \<Rightarrow> json \<Rightarrow> bool" where
  "has_type IntF = is_int" | "has_type StringF = is_string" | "has_type BoolF = is_bool"
| "has_type IntsF = is_list is_int" | "has_type StringsF = is_list is_string" | "has_type OptionsF = is_list is_option"

text \<open>The value of a field; a field of a pointer type is None when it is missing or null.\<close>

fun int_of_json :: "json \<Rightarrow> int" where
  "int_of_json (JInt i) = i" | "int_of_json _ = 0"

fun string_of_json :: "json \<Rightarrow> string" where
  "string_of_json (JString s) = s" | "string_of_json _ = []"

fun elements :: "json \<Rightarrow> json list" where
  "elements (JList vs) = vs" | "elements _ = []"

fun fields_of :: "json \<Rightarrow> fields" where
  "fields_of (JObject fs) = fs" | "fields_of _ = []"

definition int_arg :: "fields \<Rightarrow> string \<Rightarrow> int" where
  "int_arg fs k = int_of_json (field fs k)"

definition string_arg :: "fields \<Rightarrow> string \<Rightarrow> string" where
  "string_arg fs k = string_of_json (field fs k)"

definition bool_arg :: "fields \<Rightarrow> string \<Rightarrow> bool" where
  "bool_arg fs k \<longleftrightarrow> field fs k = JBool True"

definition int_pointer :: "fields \<Rightarrow> string \<Rightarrow> int option" where
  "int_pointer fs k = (if field fs k = JNull then None else Some (int_arg fs k))"

definition string_pointer :: "fields \<Rightarrow> string \<Rightarrow> string option" where
  "string_pointer fs k = (if field fs k = JNull then None else Some (string_arg fs k))"

definition strings_arg :: "fields \<Rightarrow> string \<Rightarrow> string list" where
  "strings_arg fs k = map string_of_json (elements (field fs k))"

definition ints_arg :: "fields \<Rightarrow> string \<Rightarrow> int list" where
  "ints_arg fs k = map int_of_json (elements (field fs k))"

definition options_arg :: "fields \<Rightarrow> string \<Rightarrow> decision_option list" where
  "options_arg fs k =
     map (\<lambda>v. let o_fs = fields_of v
              in \<lparr>o_label = string_arg o_fs ''label'', o_description = string_arg o_fs ''description'',
                  o_consequence = string_arg o_fs ''consequence''\<rparr>) (elements (field fs k))"

text \<open>
  \<^verbatim>\<open>json.Unmarshal\<close> into a struct, and \<^verbatim>\<open>decodeStrictJSON\<close>, for which
  a field the struct does not have is an error.
\<close>

definition object_fields :: "json option \<Rightarrow> fields option" where
  "object_fields ps = (case ps of Some JNull \<Rightarrow> Some [] | Some (JObject fs) \<Rightarrow> Some fs | _ \<Rightarrow> None)"

definition decode :: "struct \<Rightarrow> json option \<Rightarrow> (fields \<Rightarrow> ('s, error, 'a) op) \<Rightarrow> ('s, error, 'a) op" where
  "decode sig ps f =
     (case object_fields ps of
        None \<Rightarrow> fail bad_params
      | Some fs \<Rightarrow> if list_all (\<lambda>(k, ty). has_type ty (field fs k)) sig then f fs else fail bad_params)"

definition decode_strict :: "struct \<Rightarrow> json option \<Rightarrow> (fields \<Rightarrow> ('s, error, 'a) op) \<Rightarrow> ('s, error, 'a) op" where
  "decode_strict sig ps f =
     decode sig ps (\<lambda>fs. bnd (check (list_all (\<lambda>(k, _). k \<in> fst ` set sig) fs) bad_params) (\<lambda>_. f fs))"

section \<open>Answers\<close>

record goalListTask =
  lt_ID :: int
  lt_GoalID :: int
  lt_Title :: string
  lt_Description :: string
  lt_Status :: TaskStatus
  lt_ClaimedBy :: int
  lt_Order :: int

record goalListTaskCounts =
  tc_Todo :: nat
  tc_Doing :: nat
  tc_Done :: nat
  tc_Dropped :: nat

record goalListResponse =
  gl_ID :: int
  gl_DerivedFromGoalID :: int
  gl_Title :: string
  gl_ContentChars :: nat
  gl_TaskCounts :: goalListTaskCounts
  gl_Status :: GoalStatus
  gl_ClaimedBy :: int
  gl_PendingState :: string
  gl_CreatedAt :: time
  gl_Tasks :: "goalListTask list"

record goalReviewProjection =
  gp_DecisionID :: int
  gp_Status :: DecisionStatus
  gp_AnswerLabel :: string
  gp_AnswerText :: string
  gp_AnsweredAt :: "time option"
  gp_AppliedAt :: "time option"
  gp_NextCommanderAction :: string

datatype data =
    NullData | OkData
  | RegisteredData int "(string \<times> capability) option"
  | CapabilityData string capability
  | IdentifiedData int bool MonitorAssignment
  | RoleData role_response
  | StopData "string option" | MonitorData bool | ToolBoundData bool | ToolSessionData int
  | ProjectData project | ProjectsData "project list"
  | GoalListData project "goalListResponse list" nat "decision list" "decision list" decisionScopeNotice
  | GoalGetData goal "task list" "goalReviewProjection option"
  | GoalData goal | SessionsData "goal_session list"
  | TaskData task | TasksData "(task \<times> bool option) list"
  | HandoffData handoff | ReceivedData handoff handoff_entry_page
  | PlanHandoffData plan_handoff | CreateHandoffData task_create_handoff
  | EntryData handoff_entry | PageData handoff_entry_page
  | ReviewsData "ReviewExchange list" "ReviewExchangeGap list"
  | DecisionData decision | DecisionsData "decision list"
  | ParkedData int | AnsweredData decision

text \<open>
  \<open>rp_Unapplied\<close> is None when the request did not ask for the unapplied answers: then the data is
  the whole answer, otherwise it is a field of it.
\<close>

record response =
  rp_Data :: data
  rp_Unapplied :: "(int \<times> string) list option"
  rp_Claimable :: "task list"
  rp_Role :: "(string \<times> claimEvidence) option"
  rp_NextStep :: "(string \<times> string \<times> string) list"

definition plain :: "data \<Rightarrow> response" where
  "plain x = \<lparr>rp_Data = x, rp_Unapplied = None, rp_Claimable = [], rp_Role = None, rp_NextStep = []\<rparr>"

text \<open>The answer with the unapplied answers of the scope, when the request asks for them.\<close>

definition answer_scoped :: "bool \<Rightarrow> data \<Rightarrow> int \<Rightarrow> int \<Rightarrow> int list \<Rightarrow> response store_op" where
  "answer_scoped inc x goalID session excluded =
     (if \<not> inc then ret (plain x)
      else bnd (scopedUnapplied goalID session excluded) (\<lambda>ns. ret ((plain x)\<lparr>rp_Unapplied := Some ns\<rparr>)))"

definition with_evidence :: "data \<Rightarrow> string \<times> claimEvidence \<Rightarrow> response" where
  "with_evidence x evidence = (plain x)\<lparr>rp_Role := Some evidence\<rparr>"

section \<open>The next step\<close>

text \<open>The condition that selects a step, the call and a note, by the method that was answered.\<close>

definition nextStepAfter :: "string \<Rightarrow> (string \<times> string \<times> string) list" where
  "nextStepAfter m =
     (if m = ''goal.handoff.request'' then
        [('''', ''atct_goal_handoff_receive'', ''wake the executor; it receives with this handoff_id and its SessionStart session_key.'')]
     else if m = ''goal.handoff.receive'' then
        [('''', ''atct_plan_handoff_review_request'', ''design the goal first and save spec and plan with atct_goal_update_request_report.'')]
     else if m = ''plan.handoff.review.request'' then
        [('''', ''atct_plan_handoff_review_receive'', ''the commander receives the review. Nothing else is left for you: stop your Monitor with TaskStop and wait on Bash with run_in_background running `atct watch --monitor --token <monitor_token> --once`; a Monitor would only expire every 30 minutes and wake you for nothing.'')]
     else if m = ''plan.handoff.review.receive'' then
        [(''the plan is acceptable'', ''atct_plan_handoff_complete'', ''''),
         (''the plan needs changes'', ''atct_plan_handoff_review_reject'', '''')]
     else if m = ''plan.handoff.review.reject'' then
        [('''', ''atct_plan_handoff_review_reject_receive'', ''the executor receives the rejection.'')]
     else if m = ''plan.handoff.review.reject.receive'' then
        [('''', ''atct_plan_handoff_review_request'', ''fix the plan, then request review on this same handoff_id. Do not create a new one.'')]
     else if m = ''plan.handoff.complete'' then
        [('''', ''atct_goal_handoff_review_request'', ''the executor implements and verifies, then requests the goal review.'')]
     else if m = ''task.create_handoff.receive'' then
        [('''', ''atct_task_create'', ''pass this handoff_id and the tasks you intend to do.'')]
     else if m = ''task.create'' then
        [('''', ''atct_task_handoff_request'', ''one per task; wake one task worker per task after each request succeeds.'')]
     else if m = ''task.handoff.request'' then
        [('''', ''atct_task_handoff_receive'', ''wake the task worker; it receives with this handoff_id and task_id. If no other task is left to delegate, do the same: stop your Monitor with TaskStop and wait on Bash with run_in_background running `atct watch --monitor --token <monitor_token> --once`.'')]
     else if m = ''task.handoff.receive'' then
        [('''', ''atct_task_handoff_review_request'', ''implement and run the verification named in the handoff first.'')]
     else if m = ''task.handoff.review.request'' then
        [('''', ''atct_task_handoff_review_receive'', ''the executor receives the review.'')]
     else if m = ''task.handoff.review.receive'' then
        [(''the work is acceptable'', ''atct_task_handoff_complete'', ''''),
         (''the work needs changes'', ''atct_task_handoff_review_reject'', '''')]
     else if m = ''task.handoff.review.reject'' then
        [('''', ''atct_task_handoff_review_reject_receive'', ''the task worker receives the rejection.'')]
     else if m = ''task.handoff.review.reject.receive'' then
        [('''', ''atct_task_handoff_review_request'', ''fix the work, then request review on this same handoff_id. Do not create a new one.'')]
     else if m = ''task.handoff.complete'' then
        [(''a task of this goal is still undelegated'', ''atct_task_handoff_request'', ''''),
         (''every task is done'', ''atct_goal_handoff_review_request'', ''close the task workers and commit first.'')]
     else if m = ''goal.handoff.review.request'' then
        [('''', ''atct_goal_handoff_review_receive'', ''the commander receives the review. Nothing else is left for you: stop your Monitor with TaskStop and wait on Bash with run_in_background running `atct watch --monitor --token <monitor_token> --once`; a Monitor would only expire every 30 minutes and wake you for nothing.'')]
     else if m = ''goal.handoff.review.receive'' then
        [(''the goal is acceptable'', ''atct_goal_review_request'', ''leave this handoff open; the human reviews next.''),
         (''the goal needs changes'', ''atct_goal_handoff_review_reject'', '''')]
     else if m = ''goal.handoff.review.reject'' then
        [('''', ''atct_goal_handoff_review_reject_receive'', ''the executor receives the rejection, fixes the work, then requests review again on this same handoff.'')]
     else if m = ''goal.handoff.review.reject.receive'' then
        [('''', ''atct_goal_handoff_review_request'', ''fix the work, then request review on this same handoff_id. Do not create a new one.'')]
     else if m = ''goal.review.request'' then
        [(''the human approves'', ''atct_goal_review_complete'', ''merge to main first.''),
         (''the human rejects'', ''atct_goal_handoff_review_reject'', ''pass the reason down on the existing handoff; do not create a new one.'')]
     else if m = ''goal.review.complete'' then
        [('''', ''atct_goal_handoff_request'', ''the goal handoff and the goal closed together. Clean up the worktree and the executor, then take the next goal.'')]
      else [])"

text \<open>An answer is a JSON object unless it is null or an array.\<close>

definition is_object :: "response \<Rightarrow> bool" where
  "is_object r \<longleftrightarrow> rp_Unapplied r \<noteq> None
     \<or> (case rp_Data r of NullData \<Rightarrow> False | ProjectsData _ \<Rightarrow> False | TasksData _ \<Rightarrow> False
        | DecisionsData _ \<Rightarrow> False | _ \<Rightarrow> True)"

definition withNextStep :: "response \<Rightarrow> (string \<times> string \<times> string) list \<Rightarrow> response" where
  "withNextStep r steps = (if steps = [] \<or> \<not> is_object r then r else r\<lparr>rp_NextStep := steps\<rparr>)"

section \<open>The surroundings of a request\<close>

text \<open>
  The clock, git and the file system, the fresh identifiers a request may need, the start time of a
  process, the transcripts, \<^verbatim>\<open>encoding/json\<close> on the payload of a discard.
  \<open>en_wait\<close> is what other requests do to the store while the request waits for an answer, and
  \<open>en_woken\<close> whether a notification ended the wait and not its timeout.
\<close>

record env =
  en_now :: time
  en_world :: world
  en_uuid :: string
  en_token :: string
  en_started :: "int \<Rightarrow> string"
  en_encode :: "sessionDiscardDecisionPayload \<Rightarrow> string"
  en_decode :: "string \<Rightarrow> sessionDiscardDecisionPayload option"
  en_git_exit :: "string \<Rightarrow> string list \<Rightarrow> int option"
  en_is_dir :: "string \<Rightarrow> bool"
  en_harness :: harness
  en_pid :: int
  en_wait :: "store \<Rightarrow> store"
  en_woken :: bool

lemma reads_answers [reads_intros]: "reads (answer_scoped inc x g i ex)"
  unfolding answer_scoped_def by (rule reads_intros)+

end
