(* ===== verification/Atct_Rpc_Session.thy ===== *)
theory Atct_Rpc_Session
  imports Atct_Rpc
begin

text \<open>
  The methods about sessions, monitors and projects (the cases of
  \<^verbatim>\<open>dispatchMethodWithPeer\<close> in \<^verbatim>\<open>internal/daemon/handler.go\<close>
  from \<^verbatim>\<open>run.register\<close> to \<^verbatim>\<open>project.release\<close>). Every definition is
  one case, its fields already decoded.
\<close>

definition run_register :: "env \<Rightarrow> nat \<Rightarrow> int \<Rightarrow> string \<Rightarrow> bool \<Rightarrow> response daemon_op" where
  "run_register en peer pid cwd monitored =
     bnd (if cwd = [] then ret 0
          else bnd (try_op (on_store (ResolveProject (en_world en) cwd))) (\<lambda>r. case r of
            Inr p \<Rightarrow> ret (p_id p)
          | Inl e \<Rightarrow> if e = ProjectE ErrProjectNotFound then ret 0 else fail e)) (\<lambda>projectID.
     bnd (on_store (RegisterAgentSessionInProject pid (en_started en pid) projectID (en_now en))) (\<lambda>session.
     if \<not> monitored then ret (plain (RegisteredData session None))
     else bnd (issueMonitoredCallerCapability (en_token en) session peer (en_now en)) (\<lambda>c.
       ret (plain (RegisteredData session (Some c))))))"

definition capability_issue :: "env \<Rightarrow> nat \<Rightarrow> int \<Rightarrow> bool \<Rightarrow> response daemon_op" where
  "capability_issue en peer session monitored =
     bnd (check monitored (DaemonE ErrMonitoredCallerRequired)) (\<lambda>_.
     bnd (issueMonitoredCallerCapability (en_token en) session peer (en_now en)) (\<lambda>(token, c).
     ret (plain (CapabilityData token c))))"

definition session_identify :: "env \<Rightarrow> int \<Rightarrow> string \<Rightarrow> string \<Rightarrow> string \<Rightarrow> response store_op" where
  "session_identify en session sessionKey monitorToken cwd0 =
     bnd (IdentifyAgentSession session sessionKey (en_pid en) (en_started en (en_pid en)) (en_now en))
       (\<lambda>(canonical, reattached).
     bnd (if blank monitorToken then ret () else BindMonitorToken monitorToken canonical (en_now en)) (\<lambda>_.
     (let cwd = TrimSpace cwd0
      in bnd (if cwd = [] then ret ()
              else bnd (try_op (ResolveProject (en_world en) cwd)) (\<lambda>r. case r of
                Inr p \<Rightarrow> ensureAgentSessionProject canonical (p_id p) (en_now en)
              | Inl e \<Rightarrow> if e = ProjectE ErrProjectNotFound then ret () else fail e)) (\<lambda>_.
         bnd (MonitorAssignment canonical) (\<lambda>a.
         ret (plain (IdentifiedData canonical reattached
           (a\<lparr>ma_Role := visibleRole (ma_Role a) (ma_Tasks a \<noteq> [])\<rparr>))))))))"

definition development_start :: "int \<Rightarrow> response store_op" where
  "development_start session = bnd (EnableDevelopmentMode session) (\<lambda>_. ret (plain OkData))"

definition session_discard_request :: "env \<Rightarrow> int \<Rightarrow> int \<Rightarrow> int \<Rightarrow> string \<Rightarrow> int \<Rightarrow> response store_op" where
  "session_discard_request en projectID goalID target reason session =
     bnd (RequestSessionDiscard (en_encode en)
       \<lparr>dr_ProjectID = projectID, dr_GoalID = goalID, dr_TargetSessionID = target, dr_RequestedBy = session,
        dr_Reason = reason\<rparr> (en_now en)) (\<lambda>d. ret (plain (DecisionData d)))"

definition session_discard :: "env \<Rightarrow> int \<Rightarrow> int \<Rightarrow> int \<Rightarrow> int \<Rightarrow> response store_op" where
  "session_discard en projectID target decisionID session =
     bnd (DiscardSession (en_decode en) projectID target decisionID session (en_now en)) (\<lambda>_. ret (plain OkData))"

definition recoverHandoff :: "env \<Rightarrow> string \<Rightarrow> string \<Rightarrow> int \<Rightarrow> int \<Rightarrow> string \<Rightarrow> int \<Rightarrow> response store_op" where
  "recoverHandoff en kind handoffID goalID taskID reason session =
     bnd (check (0 < session) (Failure ''handoff recovery requires agent_session_id'')) (\<lambda>_.
     bnd (check (\<not> blank kind \<and> \<not> blank handoffID \<and> \<not> blank reason)
            (Failure ''handoff_kind, handoff_id, and reason are required'')) (\<lambda>_.
     bnd (check (\<not> (goalID \<noteq> 0 \<and> taskID \<noteq> 0))
            (Failure ''handoff recovery accepts either goal_id or task_id, not both'')) (\<lambda>_.
     if kind = ''goal'' then
       bnd (check (\<not> (goalID \<le> 0 \<or> taskID \<noteq> 0)) (Failure ''goal recovery requires goal_id'')) (\<lambda>_.
       bnd (RecoverGoalHandoff handoffID goalID session reason (en_now en)) (\<lambda>h. ret (plain (HandoffData h))))
     else if kind = ''plan'' then
       bnd (check (\<not> (goalID \<le> 0 \<or> taskID \<noteq> 0)) (Failure ''plan recovery requires goal_id'')) (\<lambda>_.
       bnd (RecoverPlanHandoff handoffID goalID session reason (en_now en)) (\<lambda>h. ret (plain (PlanHandoffData h))))
     else if kind = ''task'' then
       bnd (check (\<not> (taskID \<le> 0 \<or> goalID \<noteq> 0)) (Failure ''task recovery requires task_id'')) (\<lambda>_.
       bnd (RecoverTaskHandoff handoffID taskID session reason (en_now en)) (\<lambda>h. ret (plain (HandoffData h))))
     else if kind = ''task_create'' then
       bnd (check (\<not> (goalID \<le> 0 \<or> taskID \<noteq> 0)) (Failure ''task_create recovery requires goal_id'')) (\<lambda>_.
       bnd (RecoverTaskCreateHandoff handoffID goalID session reason (en_uuid en) (en_now en)) (\<lambda>h.
       ret (plain (CreateHandoffData h))))
     else fail (Failure ''unsupported handoff_kind''))))"

definition session_role :: "int \<Rightarrow> bool \<Rightarrow> response store_op" where
  "session_role session requireIdentified =
     bnd (deriveSessionRole session) (\<lambda>role.
     bnd (if requireIdentified \<and> ra_Role role = ''executor'' \<and> ra_ProjectID role = 0
          then bnd (AgentSessionUnidentified session) (\<lambda>u. check (\<not> u) (DaemonE ErrSessionNotIdentified))
          else ret ()) (\<lambda>_.
     bnd GetUILocale (\<lambda>uiLocale. ret (plain (RoleData (roleResponseFor role uiLocale))))))"

definition project_create :: "env \<Rightarrow> string \<Rightarrow> string \<Rightarrow> response store_op" where
  "project_create en name rootPath0 =
     (let w = en_world en; rootPath = NormalizeRoot w rootPath0
      in bnd (if name \<noteq> [] then CreateProject w name rootPath (en_now en)
              else bnd (try_op (CreateProject w (DefaultProjectName w rootPath) rootPath (en_now en))) (\<lambda>r. case r of
                Inr p \<Rightarrow> ret p
              | Inl e \<Rightarrow> if isProjectNameConflict e then CreateProject w (parentBaseName rootPath) rootPath (en_now en)
                         else fail e)) (\<lambda>p. ret (plain (ProjectData p))))"

definition project_list :: "response store_op" where
  "project_list = bnd ListProjects (\<lambda>ps. ret (plain (ProjectsData ps)))"

definition project_archive :: "env \<Rightarrow> bool \<Rightarrow> int \<Rightarrow> response store_op" where
  "project_archive en archive projectID =
     bnd (if archive then ArchiveProject projectID (en_now en) else UnarchiveProject projectID (en_now en)) (\<lambda>p.
     ret (plain (ProjectData p)))"

definition project_claim :: "env \<Rightarrow> int \<Rightarrow> int \<Rightarrow> bool \<Rightarrow> response store_op" where
  "project_claim en projectID session force =
     bnd (ensureAgentSessionProject session projectID (en_now en)) (\<lambda>_.
     bnd (map_error (\<lambda>e. if e = ProjectE ErrProjectAlreadyClaimed then DaemonE DaemonProjectAlreadyClaimed else e)
            (if force then ForceClaimProject projectID session (en_now en)
             else ClaimProject projectID session (en_now en))) (\<lambda>p. ret (plain (ProjectData p))))"

definition project_release :: "int \<Rightarrow> int \<Rightarrow> response store_op" where
  "project_release projectID session =
     bnd (check (session \<noteq> 0) (Failure ''project release requires agent_session_id'')) (\<lambda>_.
     bnd ListProjects (\<lambda>ps.
     bnd (try_op (ProjectIDForAgentSession session)) (\<lambda>caller.
     (let isHolder = (case List.find (\<lambda>p. p_id p = projectID) ps of None \<Rightarrow> False
                      | Some p \<Rightarrow> p_claimed_by p = session)
      in bnd (check (isHolder \<or> caller = Inr projectID) (Failure ''project release denied'')) (\<lambda>_.
         bnd (ReleaseProject projectID) (\<lambda>_. ret (plain NullData)))))))"

end
