(* ===== verification/Atct_Rpc_Goal.thy ===== *)
theory Atct_Rpc_Goal
  imports Atct_Rpc_Session Atct_Next_Action
begin

text \<open>
  The methods about goals, their handoffs and their reviews (the cases
  \<^verbatim>\<open>goal.*\<close> and \<^verbatim>\<open>plan.handoff.*\<close> of
  \<^verbatim>\<open>internal/daemon/handler.go\<close>).
\<close>

section \<open>Reading goals\<close>

definition task_counts :: "task list \<Rightarrow> goalListTaskCounts" where
  "task_counts ts =
     (let n = (\<lambda>st. length (filter (\<lambda>t. t_status t = st) ts))
      in \<lparr>tc_Todo = n TaskTodo, tc_Doing = n TaskDoing, tc_Done = n TaskDone, tc_Dropped = n TaskDropped\<rparr>)"

definition list_task :: "(int \<Rightarrow> handoff option) \<Rightarrow> task \<Rightarrow> goalListTask" where
  "list_task handoffs t =
     \<lparr>lt_ID = t_id t, lt_GoalID = t_goal_id t, lt_Title = t_title t, lt_Description = summaryLine (t_description t),
      lt_Status = t_status t, lt_ClaimedBy = taskHandoffClaimedBy (handoffs (t_id t)), lt_Order = t_sort_order t\<rparr>"

text \<open>
  One round of the loop over the goals: nothing for a goal that is over, whether it waits for its
  approval, or its line.
\<close>

datatype listed_goal = Hidden | AwaitingApproval | Visible goalListResponse

definition list_goal :: "(int \<Rightarrow> handoff option) \<Rightarrow> goal \<Rightarrow> listed_goal store_op" where
  "list_goal goalHandoffs g =
     (if g_status g = GoalDone \<or> g_status g = GoalDropped then ret Hidden
      else bnd (ListOpenDecisions (g_id g)) (\<lambda>ds.
        if list_ex (\<lambda>d. d_kind d = KindGoalReview) ds then ret AwaitingApproval
        else bnd (ListTasks (g_id g)) (\<lambda>ts.
          bnd (ListOpenTaskHandoffsForGoal (g_id g)) (\<lambda>taskHandoffs.
          bnd (GoalPendingState (g_id g)) (\<lambda>pendingState.
          ret (Visible
            \<lparr>gl_ID = g_id g, gl_DerivedFromGoalID = nz (g_derived_from g), gl_Title = summaryLine (g_content g),
             gl_ContentChars = length (runes (g_content g)), gl_TaskCounts = task_counts ts,
             gl_Status = g_status g, gl_ClaimedBy = goalHandoffClaimedBy (goalHandoffs (g_id g)),
             gl_PendingState = pendingState, gl_CreatedAt = g_created_at g,
             gl_Tasks = map (list_task taskHandoffs)
               (filter (\<lambda>t. t_status t \<in> {TaskTodo, TaskDoing}) ts)\<rparr>))))))"

definition goal_list :: "env \<Rightarrow> string \<Rightarrow> int \<Rightarrow> bool \<Rightarrow> response store_op" where
  "goal_list en cwd session inc =
     bnd (resolveOrRegisterProject (en_world en) cwd (en_now en)) (\<lambda>p.
     bnd (if session \<noteq> 0 then AssociateAgentSessionWithProject session (p_id p) (en_now en) else ret ()) (\<lambda>_.
     bnd (ListGoals (p_id p)) (\<lambda>gs.
     bnd ListOpenGoalHandoffs (\<lambda>goalHandoffs.
     bnd (collect (list_goal goalHandoffs) gs) (\<lambda>listed.
     bnd (PollDecisions session 0 (en_now en)) (\<lambda>mine.
     bnd (unappliedDecisionsForRecovery (p_id p) session) (\<lambda>(orphaned, scope).
     ret ((plain (GoalListData p [l. Visible l \<leftarrow> listed]
                    (length (filter (\<lambda>x. x = AwaitingApproval) listed)) mine orphaned scope))
          \<lparr>rp_Unapplied := if inc then Some (unappliedDecisionNotifications orphaned) else None\<rparr>))))))))"

definition review_projection :: "goal \<Rightarrow> decision \<Rightarrow> goalReviewProjection" where
  "review_projection g d =
     \<lparr>gp_DecisionID = d_id d, gp_Status = d_status d, gp_AnswerLabel = d_answer_label d,
      gp_AnswerText = d_answer_text d, gp_AnsweredAt = d_answered_at d, gp_AppliedAt = d_applied_at d,
      gp_NextCommanderAction =
        (if g_status g = GoalActive \<and> d_status d = DecisionApplied \<and> d_answer_label d = ''approve''
         then ''goal.review.complete'' else [])\<rparr>"

text \<open>The last review of the goal is shown: each overwrites the one before.\<close>

definition goal_get :: "int \<Rightarrow> response store_op" where
  "goal_get goalID =
     bnd (GetGoal goalID) (\<lambda>g.
     bnd (ListTasks goalID) (\<lambda>ts.
     bnd (ListDecisionsForGoal goalID) (\<lambda>ds.
     (let reviews = filter (\<lambda>d. nz (d_task_id d) = 0 \<and> d_kind d = KindGoalReview) ds
      in ret (plain (GoalGetData g ts
           (if reviews = [] then None else Some (review_projection g (last reviews)))))))))"

definition goal_sessions :: "int \<Rightarrow> response store_op" where
  "goal_sessions goalID =
     bnd (ListGoalSessions goalID) (\<lambda>ss.
     ret (plain (SessionsData
       (map (\<lambda>x. x\<lparr>gs_Role := visibleRole (gs_Role x) (gs_Role x = ''executor'')\<rparr>) ss))))"

section \<open>Goals\<close>

definition goal_create :: "env \<Rightarrow> string \<Rightarrow> string \<Rightarrow> string \<Rightarrow> response store_op" where
  "goal_create en cwd content creator =
     bnd (ResolveProject (en_world en) cwd) (\<lambda>p.
     bnd (CreateGoal (p_id p) content creator [] (en_now en)) (\<lambda>g. ret (plain (GoalData g))))"

definition goal_claim :: "env \<Rightarrow> int \<Rightarrow> int \<Rightarrow> bool \<Rightarrow> response store_op" where
  "goal_claim en goalID session inc =
     bnd (GetGoal goalID) (\<lambda>g.
     bnd (ensureAgentSessionProject session (g_project_id g) (en_now en)) (\<lambda>_.
     bnd (map_error (\<lambda>e. if e = GoalE ErrGoalAlreadyClaimed then DaemonE DaemonGoalAlreadyClaimed else e)
            (ClaimGoal goalID session (en_uuid en) (en_now en))) (\<lambda>claimed.
     answer_scoped inc (GoalData claimed) goalID session [])))"

definition goal_release :: "env \<Rightarrow> int \<Rightarrow> response store_op" where
  "goal_release en goalID = bnd (ReleaseGoal goalID (en_now en)) (\<lambda>_. ret (plain NullData))"

definition goal_withdraw :: "env \<Rightarrow> int \<Rightarrow> int \<Rightarrow> string \<Rightarrow> response store_op" where
  "goal_withdraw en goalID session reason =
     bnd (authorizeRole [''commander''] 0 goalID 0 session) (\<lambda>_.
     bnd (WithdrawActiveGoal goalID reason (en_now en)) (\<lambda>_.
     bnd (GetGoal goalID) (\<lambda>g. ret (plain (GoalData g)))))"

definition goal_update_request_report :: "env \<Rightarrow> int \<Rightarrow> string \<Rightarrow> string \<Rightarrow> int \<Rightarrow> response store_op" where
  "goal_update_request_report en goalID spec plan session =
     bnd (GetGoal goalID) (\<lambda>g.
     bnd (ensureAgentSessionProject session (g_project_id g) (en_now en)) (\<lambda>_.
     bnd (authorizeGoalHandoffHolder goalID session) (\<lambda>_.
     bnd (UpdateGoalRequestReport goalID spec plan (en_now en)) (\<lambda>g. ret (plain (GoalData g))))))"

definition goal_set_derived_from :: "env \<Rightarrow> int \<Rightarrow> int \<Rightarrow> int \<Rightarrow> bool \<Rightarrow> response store_op" where
  "goal_set_derived_from en goalID parentID session inc =
     bnd (GetGoal goalID) (\<lambda>g.
     bnd (ensureAgentSessionProject session (g_project_id g) (en_now en)) (\<lambda>_.
     bnd (SetGoalDerivedFrom goalID parentID (en_now en)) (\<lambda>_.
     bnd (GetGoal goalID) (\<lambda>g. answer_scoped inc (GoalData g) goalID session []))))"

section \<open>Handoffs of goals\<close>

definition requestGoalHandoff_rpc :: "env \<Rightarrow> string \<Rightarrow> int \<Rightarrow> int \<Rightarrow> string \<Rightarrow> response store_op" where
  "requestGoalHandoff_rpc en handoffID goalID requestedBy report =
     bnd (authorizeRole [''commander''] 0 goalID 0 requestedBy) (\<lambda>_.
     bnd (RequestGoalHandoff handoffID goalID requestedBy report (en_now en)) (\<lambda>h. ret (plain (HandoffData h))))"

definition receiveGoalHandoff_rpc :: "env \<Rightarrow> string \<Rightarrow> int \<Rightarrow> int \<Rightarrow> response store_op" where
  "receiveGoalHandoff_rpc en handoffID goalID receivedBy =
     bnd (if handoffID = [] then ReceiveGoalHandoffForGoal goalID receivedBy (en_now en)
          else ReceiveGoalHandoff handoffID goalID receivedBy (en_now en)) (\<lambda>(h, page).
     bnd (receiveRoleEvidence receivedBy 0 (h_owner h) 0 (h_id h)) (\<lambda>evidence.
     ret (with_evidence (ReceivedData h page) evidence)))"

definition goal_review_request_rpc :: "env \<Rightarrow> string \<Rightarrow> int \<Rightarrow> int \<Rightarrow> string \<Rightarrow> response store_op" where
  "goal_review_request_rpc en handoffID goalID requestedBy report =
     bnd (authorizeRole [''subcommander''] 0 goalID 0 requestedBy) (\<lambda>_.
     bnd (refuseGoalBranchProblems (en_world en) (en_git_exit en) goalID) (\<lambda>_.
     bnd (goalReviewGate (en_world en) (en_is_dir en) goalID) (\<lambda>note.
     bnd (RequestGoalHandoffReview handoffID goalID requestedBy (appendFindings report note) (en_now en)) (\<lambda>h.
     ret (plain (HandoffData h))))))"

definition goal_review_receive_rpc :: "env \<Rightarrow> string \<Rightarrow> int \<Rightarrow> int \<Rightarrow> response store_op" where
  "goal_review_receive_rpc en handoffID goalID receivedBy =
     bnd (authorizeRole [''commander''] 0 goalID 0 receivedBy) (\<lambda>_.
     bnd (ReceiveGoalHandoffReview handoffID goalID receivedBy (en_now en)) (\<lambda>h.
     bnd (receiveRoleEvidence receivedBy 0 (h_owner h) 0 (h_id h)) (\<lambda>evidence.
     ret (with_evidence (HandoffData h) evidence))))"

definition goal_review_reject_rpc :: "env \<Rightarrow> string \<Rightarrow> int \<Rightarrow> int \<Rightarrow> string \<Rightarrow> response store_op" where
  "goal_review_reject_rpc en handoffID goalID reviewerID report =
     bnd (authorizeRole [''commander''] 0 goalID 0 reviewerID) (\<lambda>_.
     bnd (RejectGoalHandoffReview handoffID goalID reviewerID report (en_uuid en) (en_now en)) (\<lambda>h.
     ret (plain (HandoffData h))))"

definition goal_rejection_receive_rpc :: "env \<Rightarrow> string \<Rightarrow> int \<Rightarrow> int \<Rightarrow> response store_op" where
  "goal_rejection_receive_rpc en handoffID goalID receivedBy =
     bnd (ReceiveGoalHandoffReviewRejection handoffID goalID receivedBy (en_now en)) (\<lambda>h.
     ret (plain (HandoffData h)))"

definition completeGoalHandoff :: "env \<Rightarrow> string \<Rightarrow> int \<Rightarrow> int \<Rightarrow> string \<Rightarrow> handoff store_op" where
  "completeGoalHandoff en handoffID goalID session report =
     bnd (check (session \<noteq> 0) (DaemonE ErrHandoffCompletionSessionRequired)) (\<lambda>_.
     bnd (check (handoffID \<noteq> []) (Failure ''goal handoff completion by reviewer requires handoff_id'')) (\<lambda>_.
     bnd (GetGoal goalID) (\<lambda>g.
     bnd (authorizeCommander goalID (g_project_id g) session) (\<lambda>_.
     CompleteGoalHandoffByReviewer handoffID goalID session report (en_now en)))))"

definition goal_handoff_complete_rpc :: "env \<Rightarrow> string \<Rightarrow> int \<Rightarrow> int \<Rightarrow> string \<Rightarrow> response store_op" where
  "goal_handoff_complete_rpc en handoffID goalID session report =
     bnd (check (session \<noteq> 0) (DaemonE ErrHandoffCompletionSessionRequired)) (\<lambda>_.
     bnd (authorizeRole [''commander''] 0 goalID 0 session) (\<lambda>_.
     bnd (completeGoalHandoff en handoffID goalID session report) (\<lambda>h. ret (plain (HandoffData h)))))"

definition goal_report_amend_rpc :: "env \<Rightarrow> string \<Rightarrow> int \<Rightarrow> string \<Rightarrow> response store_op" where
  "goal_report_amend_rpc en handoffID goalID report =
     bnd (AmendGoalHandoffReport handoffID goalID report (en_now en)) (\<lambda>h. ret (plain (HandoffData h)))"

section \<open>The review of the human\<close>

definition goal_review_request :: "env \<Rightarrow> int \<Rightarrow> completion_report \<Rightarrow> int \<Rightarrow> bool \<Rightarrow> response store_op" where
  "goal_review_request en goalID report session inc =
     bnd (GetGoal goalID) (\<lambda>g.
     bnd (authorizeCommander goalID (g_project_id g) session) (\<lambda>_.
     bnd (RequestGoalReview goalID session [report] (en_now en)) (\<lambda>review.
     answer_scoped inc (DecisionData review) goalID session [d_id review])))"

definition goal_review_complete :: "env \<Rightarrow> int \<Rightarrow> int \<Rightarrow> bool \<Rightarrow> response store_op" where
  "goal_review_complete en goalID session inc =
     bnd (GetGoal goalID) (\<lambda>g.
     bnd (authorizeCommander goalID (g_project_id g) session) (\<lambda>_.
     bnd (FinalizeGoalReview goalID session (en_now en)) (\<lambda>completed.
     answer_scoped inc (GoalData completed) goalID session [])))"

section \<open>Plans\<close>

definition plan_review_request_rpc :: "env \<Rightarrow> string \<Rightarrow> int \<Rightarrow> int \<Rightarrow> string \<Rightarrow> response store_op" where
  "plan_review_request_rpc en handoffID goalID requestedBy report =
     bnd (authorizeRole [''subcommander''] 0 goalID 0 requestedBy) (\<lambda>_.
     bnd (RequestPlanHandoffReview handoffID goalID requestedBy report (en_now en)) (\<lambda>h.
     ret (plain (PlanHandoffData h))))"

definition plan_review_receive_rpc :: "env \<Rightarrow> string \<Rightarrow> int \<Rightarrow> int \<Rightarrow> response store_op" where
  "plan_review_receive_rpc en handoffID goalID receivedBy =
     bnd (authorizeRole [''commander''] 0 goalID 0 receivedBy) (\<lambda>_.
     bnd (ReceivePlanHandoffReview handoffID goalID receivedBy (en_now en)) (\<lambda>h.
     bnd (receiveRoleEvidence receivedBy 0 (pl_goal_id h) 0 (pl_id h)) (\<lambda>evidence.
     ret (with_evidence (PlanHandoffData h) evidence))))"

definition plan_review_reject_rpc :: "env \<Rightarrow> string \<Rightarrow> int \<Rightarrow> int \<Rightarrow> string \<Rightarrow> response store_op" where
  "plan_review_reject_rpc en handoffID goalID reviewerID report =
     bnd (authorizeRole [''commander''] 0 goalID 0 reviewerID) (\<lambda>_.
     bnd (RejectPlanHandoffReview handoffID goalID reviewerID report (en_now en)) (\<lambda>h.
     ret (plain (PlanHandoffData h))))"

definition plan_rejection_receive_rpc :: "env \<Rightarrow> string \<Rightarrow> int \<Rightarrow> int \<Rightarrow> response store_op" where
  "plan_rejection_receive_rpc en handoffID goalID receivedBy =
     bnd (ReceivePlanHandoffReviewRejection handoffID goalID receivedBy (en_now en)) (\<lambda>h.
     ret (plain (PlanHandoffData h)))"

definition plan_handoff_complete_rpc :: "env \<Rightarrow> string \<Rightarrow> int \<Rightarrow> int \<Rightarrow> string \<Rightarrow> response store_op" where
  "plan_handoff_complete_rpc en handoffID goalID session report =
     bnd (check (session \<noteq> 0) (Failure ''plan handoff completion requires agent_session_id'')) (\<lambda>_.
     bnd (authorizeRole [''commander''] 0 goalID 0 session) (\<lambda>_.
     bnd (CompletePlanHandoff handoffID goalID session report (en_uuid en) (en_now en)) (\<lambda>h.
     ret (plain (PlanHandoffData h)))))"

section \<open>Reading changes nothing\<close>

lemma reads_goal_lists [reads_intros]:
  "reads (ListOpenDecisions g)" "reads (goalPendingState d (ListGoalHandoffs g))" "reads (GoalPendingState g)"
  unfolding ListOpenDecisions_def GoalPendingState_def goalPendingState_def Let_def
  by (rule reads_intros)+

lemma reads_goal_methods [reads_intros]:
  "reads (list_goal hs g)" "reads (goal_get i)" "reads (goal_sessions i)"
  unfolding list_goal_def goal_get_def goal_sessions_def Let_def
  by (rule reads_intros)+

end
