(* ===== verification/Atct_Rpc_Task.thy ===== *)
theory Atct_Rpc_Task
  imports Atct_Rpc_Goal
begin

text \<open>
  The methods about tasks, their handoffs and the threads of handoffs (the cases
  \<^verbatim>\<open>task.*\<close> and \<^verbatim>\<open>handoff.*\<close> of
  \<^verbatim>\<open>internal/daemon/handler.go\<close>, and
  \<^verbatim>\<open>handoff_entry_rpc.go\<close>).
\<close>

section \<open>Tasks\<close>

definition task_update_content :: "env \<Rightarrow> int \<Rightarrow> string option \<Rightarrow> string option \<Rightarrow> int \<Rightarrow> bool \<Rightarrow> response store_op" where
  "task_update_content en taskID title description session inc =
     bnd (GetTaskGoalID taskID) (\<lambda>goalID.
     bnd (GetGoal goalID) (\<lambda>g.
     bnd (ensureAgentSessionProject session (g_project_id g) (en_now en)) (\<lambda>_.
     bnd (UpdateTaskContent taskID title description session (en_now en)) (\<lambda>t.
     answer_scoped inc (TaskData t) goalID session []))))"

text \<open>
  A request without the id of a task-create handoff is the older form: it is refused as soon as the
  goal has such a handoff, and answers only with the tasks of its idempotency key.
\<close>

definition create_without_handoff :: "env \<Rightarrow> int \<Rightarrow> string \<Rightarrow> string \<Rightarrow> string list \<Rightarrow> string list \<Rightarrow> int \<Rightarrow>
    ((task \<times> bool option) list) store_op" where
  "create_without_handoff en goalID agent key titles descriptions session =
     bnd (GetGoal goalID) (\<lambda>g.
     bnd (ensureAgentSessionProject session (g_project_id g) (en_now en)) (\<lambda>_.
     bnd (ListTaskCreateHandoffs goalID) (\<lambda>hs.
     bnd (check (hs = []) (TaskE ErrTaskCreateHandoffState)) (\<lambda>_.
     bnd (CreateTasks goalID agent key titles descriptions (en_now en)) (\<lambda>ts.
     ret (tasksCreatedWithIdempotencyKey ts key))))))"

definition task_create :: "env \<Rightarrow> string \<Rightarrow> int \<Rightarrow> string \<Rightarrow> string \<Rightarrow> string list \<Rightarrow> string list \<Rightarrow> int \<Rightarrow> bool \<Rightarrow>
    response store_op" where
  "task_create en handoffID goalID agent key titles descriptions session inc =
     bnd (if handoffID \<noteq> [] then authorizeRole [''subcommander''] 0 goalID 0 session else ret ()) (\<lambda>_.
     bnd (if handoffID \<noteq> []
          then bnd (CreateTasksForHandoff handoffID session goalID agent key titles descriptions (en_now en)) (\<lambda>ts.
            ret (map (\<lambda>(t, created). (t, Some created)) ts))
          else create_without_handoff en goalID agent key titles descriptions session) (\<lambda>ts.
     answer_scoped inc (TasksData ts) goalID session []))"

definition task_create_receive :: "env \<Rightarrow> string \<Rightarrow> int \<Rightarrow> response store_op" where
  "task_create_receive en handoffID receivedBy =
     bnd (ReceiveTaskCreateHandoff handoffID receivedBy (en_now en)) (\<lambda>h. ret (plain (CreateHandoffData h)))"

text \<open>Every commit is resolved before the first is linked.\<close>

definition resolve_commits :: "env \<Rightarrow> int \<Rightarrow> string list \<Rightarrow> (task_commit list) store_op" where
  "resolve_commits en projectID shas =
     bnd ListProjects (\<lambda>ps.
     (let root = (case List.find (\<lambda>p. p_id p = projectID) ps of None \<Rightarrow> [] | Some p \<Rightarrow> p_root_path p)
      in collect (\<lambda>sha. case ResolveCommit (w_git (en_world en) root) sha of
           Inl e \<Rightarrow> fail e
         | Inr (hash, subject, stats) \<Rightarrow>
             ret \<lparr>tc_task_id = 0, tc_sha = hash, tc_subject = subject, tc_files_changed = FilesChanged stats,
                  tc_insertions = Insertions stats, tc_deletions = Deletions stats, tc_created_at = en_now en\<rparr>) shas))"

definition task_update :: "env \<Rightarrow> int \<Rightarrow> string \<Rightarrow> string list \<Rightarrow> int \<Rightarrow> bool \<Rightarrow> response store_op" where
  "task_update en taskID status commits session inc =
     bnd (ProjectIDForTask taskID) (\<lambda>targetProjectID.
     bnd (ensureAgentSessionProject session targetProjectID (en_now en)) (\<lambda>_.
     bnd (need (Failure ''unknown task status'') (ParseTaskStatus status)) (\<lambda>st.
     bnd (if commits = [] then ret ()
          else bnd (resolve_commits en targetProjectID commits) (\<lambda>cs. each (LinkTaskCommit taskID) cs)) (\<lambda>_.
     bnd (UpdateTask taskID st session (en_now en)) (\<lambda>t.
     answer_scoped inc (TaskData (t\<lparr>t_description := summaryLine (t_description t)\<rparr>)) (t_goal_id t) session [])))))"

section \<open>Handoffs of tasks\<close>

definition requestTaskHandoff_rpc :: "env \<Rightarrow> string \<Rightarrow> int \<Rightarrow> int \<Rightarrow> string \<Rightarrow> response store_op" where
  "requestTaskHandoff_rpc en handoffID taskID requestedBy report =
     bnd (authorizeRole [''subcommander''] 0 0 taskID requestedBy) (\<lambda>_.
     bnd (RequestTaskHandoff handoffID taskID requestedBy report (en_now en)) (\<lambda>h. ret (plain (HandoffData h))))"

definition receiveTaskHandoff :: "env \<Rightarrow> string \<Rightarrow> int \<Rightarrow> int \<Rightarrow> (handoff \<times> handoff_entry_page) store_op" where
  "receiveTaskHandoff en handoffID taskID receivedBy =
     (if handoffID = [] then ReceiveTaskHandoffForTask taskID receivedBy (en_now en)
      else ReceiveTaskHandoff handoffID taskID receivedBy (en_now en))"

definition task_handoff_receive :: "env \<Rightarrow> string \<Rightarrow> int \<Rightarrow> int \<Rightarrow> response store_op" where
  "task_handoff_receive en handoffID taskID receivedBy =
     bnd (receiveTaskHandoff en handoffID taskID receivedBy) (\<lambda>(h, page).
     bnd (receiveRoleEvidence receivedBy 0 0 (h_owner h) (h_id h)) (\<lambda>evidence.
     ret (with_evidence (ReceivedData h page) evidence)))"

definition handoff_receive :: "env \<Rightarrow> string \<Rightarrow> int \<Rightarrow> int \<Rightarrow> response store_op" where
  "handoff_receive en handoffID taskID receivedBy =
     bnd (receiveTaskHandoff en handoffID taskID receivedBy) (\<lambda>(h, page). ret (plain (ReceivedData h page)))"

definition requireHandoffParticipant :: "int \<Rightarrow> int \<Rightarrow> int \<Rightarrow> ('s, error, unit) op" where
  "requireHandoffParticipant session requestedBy receivedBy =
     check (\<not> (session \<le> 0 \<or> (session \<noteq> requestedBy \<and> session \<noteq> receivedBy)))
       (EntryE ErrHandoffEntryParticipant)"

text \<open>The older completion of a task handoff: no role is checked, only a capability when one is given.\<close>

definition handoff_complete :: "env \<Rightarrow> nat \<Rightarrow> string \<Rightarrow> int \<Rightarrow> string \<Rightarrow> int \<Rightarrow> capabilityFields \<Rightarrow> response daemon_op" where
  "handoff_complete en peer handoffID taskID report session0 cfs =
     bnd (sessionFromCapability cfs session0 peer (en_now en)) (\<lambda>session.
     bnd (if session \<noteq> 0 \<and> handoffID \<noteq> []
          then bnd (on_store (GetTaskHandoff handoffID)) (\<lambda>h.
            requireHandoffParticipant session (nz (h_requested_by h)) (nz (h_received_by h)))
          else ret ()) (\<lambda>_.
     bnd (on_store (if handoffID = [] then CompleteTaskHandoffForTask taskID report (en_now en)
                    else CompleteTaskHandoff handoffID taskID report (en_now en))) (\<lambda>h.
     ret (plain (HandoffData h)))))"

definition task_review_request_rpc :: "env \<Rightarrow> string \<Rightarrow> int \<Rightarrow> int \<Rightarrow> string \<Rightarrow> response store_op" where
  "task_review_request_rpc en handoffID taskID requestedBy report =
     bnd (authorizeRole [''executor''] 0 0 taskID requestedBy) (\<lambda>_.
     bnd (taskReviewNote (en_world en) (en_is_dir en) taskID) (\<lambda>note.
     bnd (RequestTaskHandoffReview handoffID taskID requestedBy (appendFindings report note) (en_now en)) (\<lambda>h.
     ret (plain (HandoffData h)))))"

definition task_review_receive_rpc :: "env \<Rightarrow> string \<Rightarrow> int \<Rightarrow> int \<Rightarrow> response store_op" where
  "task_review_receive_rpc en handoffID taskID receivedBy =
     bnd (authorizeRole [''subcommander''] 0 0 taskID receivedBy) (\<lambda>_.
     bnd (ReceiveTaskHandoffReview handoffID taskID receivedBy (en_now en)) (\<lambda>h.
     bnd (receiveRoleEvidence receivedBy 0 0 (h_owner h) (h_id h)) (\<lambda>evidence.
     ret (with_evidence (HandoffData h) evidence))))"

definition task_review_reject_rpc :: "env \<Rightarrow> string \<Rightarrow> int \<Rightarrow> int \<Rightarrow> string \<Rightarrow> response store_op" where
  "task_review_reject_rpc en handoffID taskID reviewerID report =
     bnd (authorizeRole [''subcommander''] 0 0 taskID reviewerID) (\<lambda>_.
     bnd (RejectTaskHandoffReview handoffID taskID reviewerID report (en_now en)) (\<lambda>h.
     ret (plain (HandoffData h))))"

definition task_rejection_receive_rpc :: "env \<Rightarrow> string \<Rightarrow> int \<Rightarrow> int \<Rightarrow> response store_op" where
  "task_rejection_receive_rpc en handoffID taskID receivedBy =
     bnd (ReceiveTaskHandoffReviewRejection handoffID taskID receivedBy (en_now en)) (\<lambda>h.
     ret (plain (HandoffData h)))"

definition completeTaskHandoff :: "env \<Rightarrow> string \<Rightarrow> int \<Rightarrow> int \<Rightarrow> string \<Rightarrow> handoff store_op" where
  "completeTaskHandoff en handoffID taskID session report =
     bnd (check (session \<noteq> 0) (DaemonE ErrHandoffCompletionSessionRequired)) (\<lambda>_.
     bnd (check (handoffID \<noteq> []) (Failure ''task handoff completion by reviewer requires handoff_id'')) (\<lambda>_.
     CompleteTaskHandoffByReviewer handoffID taskID session report (en_now en)))"

definition task_handoff_complete_rpc :: "env \<Rightarrow> string \<Rightarrow> int \<Rightarrow> int \<Rightarrow> string \<Rightarrow> response store_op" where
  "task_handoff_complete_rpc en handoffID taskID session report =
     bnd (check (session \<noteq> 0) (DaemonE ErrHandoffCompletionSessionRequired)) (\<lambda>_.
     bnd (authorizeRole [''subcommander''] 0 0 taskID session) (\<lambda>_.
     bnd (completeTaskHandoff en handoffID taskID session report) (\<lambda>h. ret (plain (HandoffData h)))))"

definition task_report_amend_rpc :: "env \<Rightarrow> string \<Rightarrow> int \<Rightarrow> string \<Rightarrow> response store_op" where
  "task_report_amend_rpc en handoffID taskID report =
     bnd (AmendTaskHandoffReport handoffID taskID report (en_now en)) (\<lambda>h. ret (plain (HandoffData h)))"

section \<open>Threads\<close>

definition inReplyToStoreValue :: "int option \<Rightarrow> ('s, error, string) op" where
  "inReplyToStoreValue v =
     (case v of None \<Rightarrow> ret []
      | Some i \<Rightarrow> if i \<le> 0 then fail (EntryE ErrHandoffEntryRelatesToInvalid) else ret (Itoa_int i))"

definition appendTaskHandoffEntryRPC :: "env \<Rightarrow> nat \<Rightarrow> string \<Rightarrow> int \<Rightarrow> string \<Rightarrow> string \<Rightarrow> int option \<Rightarrow> int \<Rightarrow>
    capabilityFields \<Rightarrow> response daemon_op" where
  "appendTaskHandoffEntryRPC en peer handoffID taskID kind body reply session0 cfs =
     bnd (on_store (GetTaskHandoff handoffID)) (\<lambda>h.
     bnd (check (h_owner h = taskID) (ErrTaskHandoff OwnerMismatch)) (\<lambda>_.
     bnd (sessionFromCapability cfs session0 peer (en_now en)) (\<lambda>session.
     bnd (inReplyToStoreValue reply) (\<lambda>relatesTo.
     bnd (on_store (AppendTaskHandoffEntry handoffID kind body session relatesTo (en_now en))) (\<lambda>e.
     ret (plain (EntryData e)))))))"

definition appendGoalHandoffEntryRPC :: "env \<Rightarrow> nat \<Rightarrow> string \<Rightarrow> int \<Rightarrow> string \<Rightarrow> string \<Rightarrow> int option \<Rightarrow> int \<Rightarrow>
    capabilityFields \<Rightarrow> response daemon_op" where
  "appendGoalHandoffEntryRPC en peer handoffID goalID kind body reply session0 cfs =
     bnd (on_store (GetGoalHandoff handoffID)) (\<lambda>h.
     bnd (check (h_owner h = goalID) (ErrGoalHandoff OwnerMismatch)) (\<lambda>_.
     bnd (sessionFromCapability cfs session0 peer (en_now en)) (\<lambda>session.
     bnd (inReplyToStoreValue reply) (\<lambda>relatesTo.
     bnd (on_store (AppendGoalHandoffEntry handoffID kind body session relatesTo (en_now en))) (\<lambda>e.
     ret (plain (EntryData e)))))))"

text \<open>A limit of 0 means the largest page; the store refuses a negative one as it refuses the page size 0.\<close>

definition page_limit :: "int \<Rightarrow> nat" where
  "page_limit lim = (if lim = 0 then HandoffHistoryMaxLimit else nat lim)"

definition historyTaskHandoffEntryRPC :: "env \<Rightarrow> nat \<Rightarrow> string \<Rightarrow> int \<Rightarrow> int \<Rightarrow> int \<Rightarrow> int \<Rightarrow> capabilityFields \<Rightarrow>
    response daemon_op" where
  "historyTaskHandoffEntryRPC en peer handoffID taskID afterID lim session0 cfs =
     bnd (on_store (GetTaskHandoff handoffID)) (\<lambda>h.
     bnd (check (h_owner h = taskID) (ErrTaskHandoff OwnerMismatch)) (\<lambda>_.
     bnd (sessionFromCapability cfs session0 peer (en_now en)) (\<lambda>session.
     bnd (requireHandoffParticipant session (nz (h_requested_by h)) (nz (h_received_by h))) (\<lambda>_.
     bnd (on_store (ListTaskHandoffEntries handoffID afterID (page_limit lim))) (\<lambda>page. ret (plain (PageData page)))))))"

definition historyGoalHandoffEntryRPC :: "env \<Rightarrow> nat \<Rightarrow> string \<Rightarrow> int \<Rightarrow> int \<Rightarrow> int \<Rightarrow> int \<Rightarrow> capabilityFields \<Rightarrow>
    response daemon_op" where
  "historyGoalHandoffEntryRPC en peer handoffID goalID afterID lim session0 cfs =
     bnd (on_store (GetGoalHandoff handoffID)) (\<lambda>h.
     bnd (check (h_owner h = goalID) (ErrGoalHandoff OwnerMismatch)) (\<lambda>_.
     bnd (sessionFromCapability cfs session0 peer (en_now en)) (\<lambda>session.
     bnd (requireHandoffParticipant session (nz (h_requested_by h)) (nz (h_received_by h))) (\<lambda>_.
     bnd (on_store (ListGoalHandoffEntries handoffID afterID (page_limit lim))) (\<lambda>page. ret (plain (PageData page)))))))"

definition listReviewExchangesRPC :: "env \<Rightarrow> nat \<Rightarrow> int \<Rightarrow> int \<Rightarrow> int \<Rightarrow> capabilityFields \<Rightarrow> response daemon_op" where
  "listReviewExchangesRPC en peer goalID taskID session cfs =
     bnd (sessionFromCapability cfs session peer (en_now en)) (\<lambda>_.
     bnd (on_store (ListReviewExchanges goalID taskID)) (\<lambda>(exchanges, gaps).
     ret (plain (ReviewsData exchanges gaps))))"

lemma reads_history [reads_intros]:
  "reads (ListTaskHandoffEntries hid after lim)" "reads (ListGoalHandoffEntries hid after lim)"
  "reads (requireHandoffParticipant i j k)" "reads (inReplyToStoreValue v)"
  unfolding ListTaskHandoffEntries_def ListGoalHandoffEntries_def listHandoffEntries_def
    ListTaskHandoffEntries_sql_def ListGoalHandoffEntries_sql_def requireHandoffParticipant_def inReplyToStoreValue_def Let_def
  by (rule reads_intros)+

end
