(* ===== verification/Atct_Rpc_Decision.thy ===== *)
theory Atct_Rpc_Decision
  imports Atct_Rpc_Task
begin

text \<open>
  The methods about decisions (the cases \<^verbatim>\<open>decision.*\<close> of
  \<^verbatim>\<open>internal/daemon/handler.go\<close>) and the wait for an answer
  (\<^verbatim>\<open>WaitForAnswer\<close> in \<^verbatim>\<open>internal/store/notify.go\<close>).
\<close>

section \<open>Waiting\<close>

text \<open>
  \<open>wait\<close> is what the other requests do to the store meanwhile. A wait that its timeout ends gives
  nothing; one that a notification ends gives the decision, unless it is still open.
\<close>

definition WaitForAnswer :: "(store \<Rightarrow> store) \<Rightarrow> bool \<Rightarrow> int \<Rightarrow> (decision option) store_op" where
  "WaitForAnswer wait woken decisionID =
     bnd (GetDecision decisionID) (\<lambda>d.
     if d_status d \<noteq> DecisionOpen then ret (Some d)
     else bnd (change wait) (\<lambda>_.
       if \<not> woken then ret None
       else bnd (GetDecision decisionID) (\<lambda>d. ret (if d_status d \<noteq> DecisionOpen then Some d else None))))"

section \<open>Asking\<close>

text \<open>The answer for a question that is parked: with the tasks that can be claimed meanwhile, when asked for.\<close>

definition parked :: "int \<Rightarrow> int \<Rightarrow> int \<Rightarrow> int \<Rightarrow> bool \<Rightarrow> response store_op" where
  "parked decisionID goalID taskID session inc =
     (if \<not> inc then ret (plain (ParkedData decisionID))
      else bnd (answer_scoped True (ParkedData decisionID) goalID session [decisionID]) (\<lambda>r.
        bnd (GetGoal goalID) (\<lambda>g.
        bnd (listClaimableTasks (g_project_id g) taskID) (\<lambda>ts. ret (r\<lparr>rp_Claimable := ts\<rparr>)))))"

text \<open>
  A subcommander does not ask the human directly. The wait lasts 30 seconds unless the request says
  otherwise; \<open>waitMs\<close> is None when it does not.
\<close>

definition decision_ask :: "env \<Rightarrow> AskInput \<Rightarrow> int option \<Rightarrow> bool \<Rightarrow> bool \<Rightarrow> response store_op" where
  "decision_ask en inp waitMs inc afterReview =
     (let session = ask_AgentSessionID inp; goalID = ask_GoalID inp; taskID = ask_TaskID inp
      in bnd (deriveSessionRole session) (\<lambda>role.
         bnd (check (ra_Role role \<noteq> ''subcommander'') (Failure ''an executor cannot file a decision to the human'')) (\<lambda>_.
         bnd (GetGoal goalID) (\<lambda>g.
         bnd (ensureAgentSessionProject session (g_project_id g) (en_now en)) (\<lambda>_.
         bnd (if taskID \<noteq> 0
              then bnd (ProjectIDForTask taskID) (\<lambda>p. ensureAgentSessionProject session p (en_now en))
              else ret ()) (\<lambda>_.
         bnd (AskDecision (inp\<lparr>ask_Kind := (if afterReview then KindPostMerge else KindDecision)\<rparr>) (en_now en)) (\<lambda>d.
         if (case waitMs of None \<Rightarrow> False | Some ms \<Rightarrow> ms \<le> 0) then parked (d_id d) goalID taskID session inc
         else bnd (WaitForAnswer (en_wait en) (en_woken en) (d_id d)) (\<lambda>found. case found of
           None \<Rightarrow> parked (d_id d) goalID taskID session inc
         | Some ans \<Rightarrow>
             bnd (PollDecisions session (d_id d) (en_now en)) (\<lambda>applied.
             answer_scoped inc (AnsweredData (case applied of [] \<Rightarrow> ans | a # _ \<Rightarrow> a)) goalID session [d_id d])))))))))"

section \<open>Polling\<close>

definition foreign_decision :: error where
  "foreign_decision = Failure ''decision is owned by another agent session''"

text \<open>
  May the session poll this decision? A commander may only look at the decision of another session
  of its project, \<open>Some d\<close>, unless it is addressed to the commander or its goal is over; the answer
  None goes on to the poll.
\<close>

definition poll_guard :: "int \<Rightarrow> int \<Rightarrow> (decision option) store_op" where
  "poll_guard session decisionID =
     bnd (GetDecision decisionID) (\<lambda>d.
     bnd (deriveSessionRole session) (\<lambda>role.
     bnd (check (session \<noteq> 0) foreign_decision) (\<lambda>_.
     bnd (if ra_Role role = ''commander'' \<and> d_agent_session_id d \<noteq> session
          then bnd (GetGoal (d_goal_id d)) (\<lambda>g.
            bnd (check (g_project_id g = ra_ProjectID role) foreign_decision) (\<lambda>_.
            ret (if DecisionRoutesToCommander d \<or> g_status g \<noteq> GoalActive then None else Some d)))
          else ret None) (\<lambda>readOnly.
     bnd (check (readOnly \<noteq> None \<or> \<not> (ra_Role role = ''subcommander'' \<and> ra_GoalID role \<noteq> 0
            \<and> d_goal_id d \<noteq> ra_GoalID role)) (DaemonE ErrDecisionOutsideGoal)) (\<lambda>_.
     ret readOnly)))))"

definition decision_poll :: "env \<Rightarrow> int \<Rightarrow> int \<Rightarrow> bool \<Rightarrow> response store_op" where
  "decision_poll en session decisionID inc =
     bnd (if decisionID \<noteq> 0 then poll_guard session decisionID else ret None) (\<lambda>readOnly. case readOnly of
       Some d \<Rightarrow> answer_scoped inc (DecisionsData [d]) (d_goal_id d) session [d_id d]
     | None \<Rightarrow>
         bnd (PollDecisions session decisionID (en_now en)) (\<lambda>ds.
         bnd (if decisionID = 0 \<and> session \<noteq> 0 then appendCommanderRoutedDecisions session ds (en_now en)
              else ret ds) (\<lambda>ds.
         if \<not> inc then ret (plain (DecisionsData ds))
         else bnd (case ds of d # _ \<Rightarrow> ret (d_goal_id d)
                   | [] \<Rightarrow> if decisionID \<noteq> 0 then bnd (GetDecision decisionID) (\<lambda>d. ret (d_goal_id d)) else ret 0)
                (\<lambda>goalID.
           if goalID = 0 then ret ((plain (DecisionsData ds))\<lparr>rp_Unapplied := Some []\<rparr>)
           else answer_scoped True (DecisionsData ds) goalID session (map d_id ds)))))"

section \<open>Answering and withdrawing\<close>

definition decision_answer :: "env \<Rightarrow> decisionAnswerParams \<Rightarrow> bool \<Rightarrow> response store_op" where
  "decision_answer en p inc =
     bnd (answerDecisionFromChat (en_harness en) p (en_now en)) (\<lambda>d.
     answer_scoped inc (DecisionData d) (d_goal_id d) (da_AgentSessionID p) [d_id d])"

definition decision_withdraw :: "int \<Rightarrow> string \<Rightarrow> bool \<Rightarrow> response store_op" where
  "decision_withdraw decisionID reason inc =
     bnd (if inc then bnd (GetDecision decisionID) (\<lambda>d. ret (d_goal_id d)) else ret 0) (\<lambda>goalID.
     bnd (WithdrawDecision decisionID reason) (\<lambda>_.
     answer_scoped inc OkData goalID 0 [decisionID]))"

end
