(* ===== verification/Atct_Dispatch.thy ===== *)
theory Atct_Dispatch
  imports Atct_Rpc_Decision
begin

text \<open>
  The dispatch of a request (\<^verbatim>\<open>dispatchWithPeer\<close> and
  \<^verbatim>\<open>dispatchMethodWithPeer\<close> in \<^verbatim>\<open>internal/daemon/handler.go\<close>,
  \<^verbatim>\<open>archive_guard.go\<close>): the ids of its parameters are normalized, a project that is
  archived refuses the methods that would change it, the parameters are decoded into the struct of the
  method, the method answers, and the next step of the flow is added. The switch over the methods is a
  table of methods and handlers. An error hint, which only changes the text of an error, is left out;
  so is which of several bad ids is reported.
\<close>

section \<open>Normalizing ids\<close>

definition optionalEntityID :: "string \<Rightarrow> string \<Rightarrow> bool" where
  "optionalEntityID m k \<longleftrightarrow>
     m = ''decision.ask'' \<and> k = ''task_id'' \<or> m = ''decision.poll'' \<and> k = ''decision_id''
     \<or> m = ''goal.set_derived_from'' \<and> k = ''derived_from_goal_id''"

definition put_int :: "fields \<Rightarrow> string \<Rightarrow> int \<Rightarrow> fields" where
  "put_int fs k i = filter (\<lambda>(k', _). k' \<noteq> k) fs @ [(k, JInt i)]"

definition plain_int :: "json \<Rightarrow> ('s, error, int) op" where
  "plain_int v = (if is_int v then ret (int_of_json v) else fail bad_params)"

definition normalize_entity :: "string \<Rightarrow> string \<Rightarrow> fields \<Rightarrow> fields store_op" where
  "normalize_entity m k fs =
     (case field fs k of
        JNull \<Rightarrow> ret fs
      | JString s \<Rightarrow> if blank s \<and> optionalEntityID m k then ret (put_int fs k 0)
                     else bnd (resolveID s) (\<lambda>i. ret (put_int fs k i))
      | v \<Rightarrow> bnd (plain_int v) (\<lambda>i. ret (put_int fs k i)))"

definition parseAgentSessionID :: "json \<Rightarrow> ('s, error, int) op" where
  "parseAgentSessionID v =
     (case v of
        JString s \<Rightarrow> if blank s then ret 0 else need bad_params (ParseInt (TrimSpace s))
      | _ \<Rightarrow> plain_int v)"

definition normalize_session :: "string \<Rightarrow> fields \<Rightarrow> fields store_op" where
  "normalize_session k fs =
     (if k \<in> fst ` set fs then bnd (parseAgentSessionID (field fs k)) (\<lambda>i. ret (put_int fs k i)) else ret fs)"

fun chain :: "('k \<Rightarrow> 'a \<Rightarrow> ('s, 'e, 'a) op) \<Rightarrow> 'k list \<Rightarrow> 'a \<Rightarrow> ('s, 'e, 'a) op" where
  "chain f [] x = ret x"
| "chain f (k # ks) x = bnd (f k x) (chain f ks)"

definition entity_fields :: "string list" where
  "entity_fields = [''project_id'', ''goal_id'', ''task_id'', ''decision_id'', ''derived_from_goal_id'']"

definition session_fields :: "string list" where
  "session_fields = [''agent_session_id'', ''requested_by'', ''received_by'', ''reviewer_id'', ''target_session_id'']"

definition normalizeEntityIDs :: "string \<Rightarrow> json option \<Rightarrow> (json option) store_op" where
  "normalizeEntityIDs m ps =
     (case ps of
        None \<Rightarrow> ret None
      | Some JNull \<Rightarrow> ret ps
      | Some (JObject fs) \<Rightarrow>
          bnd (chain (normalize_entity m) entity_fields fs) (\<lambda>fs.
          bnd (chain normalize_session session_fields fs) (\<lambda>fs. ret (Some (JObject fs))))
      | _ \<Rightarrow> fail bad_params)"

section \<open>Archived projects\<close>

definition archiveExemptMethods :: "string list" where
  "archiveExemptMethods =
     [''run.register'', ''monitor.capability.issue'', ''session.capability.issue'', ''session.identify'',
      ''session.discard.request'', ''session.discard'', ''session.role'', ''session.stop_check'',
      ''session.monitor_check'', ''session.monitor_form_check'', ''session.tool_use.bind'',
      ''session.tool_use.resolve'', ''development.start'', ''handoff.recover'', ''handoff.entry.history'',
      ''goal.handoff.entry.history'', ''project.create'', ''project.list'', ''project.archive'',
      ''project.unarchive'', ''project.release'', ''goal.list'', ''goal.get'', ''goal.sessions'',
      ''review.exchange.list'']"

definition guard_id :: "fields \<Rightarrow> string \<Rightarrow> int" where
  "guard_id fs k = (if is_int (field fs k) then int_of_json (field fs k) else 0)"

definition archiveGuardProjectID :: "env \<Rightarrow> fields \<Rightarrow> int store_op" where
  "archiveGuardProjectID en fs =
     (if guard_id fs ''goal_id'' \<noteq> 0
      then bnd (GetGoal (guard_id fs ''goal_id'')) (\<lambda>g. ret (g_project_id g))
      else if guard_id fs ''task_id'' \<noteq> 0 then ProjectIDForTask (guard_id fs ''task_id'')
      else if guard_id fs ''decision_id'' \<noteq> 0
      then bnd (GetDecision (guard_id fs ''decision_id'')) (\<lambda>d.
           bnd (GetGoal (d_goal_id d)) (\<lambda>g. ret (g_project_id g)))
      else if guard_id fs ''project_id'' \<noteq> 0 then ret (guard_id fs ''project_id'')
      else case field fs ''cwd'' of
        JString cwd \<Rightarrow> if blank cwd then ret 0
                       else bnd (ResolveProject (en_world en) cwd) (\<lambda>p. ret (p_id p))
      | _ \<Rightarrow> ret 0)"

definition ensureProjectActiveForMethod :: "env \<Rightarrow> string \<Rightarrow> json option \<Rightarrow> unit store_op" where
  "ensureProjectActiveForMethod en m ps =
     (if m \<in> set archiveExemptMethods then ret ()
      else case ps of
        Some (JObject fs) \<Rightarrow>
          bnd (try_op (archiveGuardProjectID en fs)) (\<lambda>found. case found of
            Inl _ \<Rightarrow> ret ()
          | Inr projectID \<Rightarrow>
              if projectID = 0 then ret ()
              else bnd (try_op (EnsureProjectActive projectID)) (\<lambda>active. case active of
                Inl e \<Rightarrow> if e = ProjectE ErrProjectArchived then fail e else ret ()
              | Inr _ \<Rightarrow> ret ()))
      | _ \<Rightarrow> ret ())"

section \<open>Structs of parameters that several methods share\<close>

definition capability_struct :: struct where
  "capability_struct = [(''capability'', StringF), (''caller_capability'', StringF), (''monitor_capability'', StringF)]"

definition capabilities_arg :: "fields \<Rightarrow> capabilityFields" where
  "capabilities_arg fs = map (string_arg fs) [''capability'', ''caller_capability'', ''monitor_capability'']"

definition handoffEntryRPCParams :: struct where
  "handoffEntryRPCParams =
     [(''handoff_id'', StringF), (''task_id'', IntF), (''goal_id'', IntF), (''kind'', StringF), (''body'', StringF),
      (''in_reply_to_id'', IntF), (''agent_session_id'', IntF)] @ capability_struct"

definition handoffHistoryRPCParams :: struct where
  "handoffHistoryRPCParams =
     [(''handoff_id'', StringF), (''task_id'', IntF), (''goal_id'', IntF), (''after_id'', IntF), (''limit'', IntF),
      (''agent_session_id'', IntF)] @ capability_struct"

definition reviewExchangeRPCParams :: struct where
  "reviewExchangeRPCParams =
     [(''goal_id'', IntF), (''task_id'', IntF), (''agent_session_id'', IntF)] @ capability_struct"

definition handoff_struct :: "string \<Rightarrow> string \<Rightarrow> string list \<Rightarrow> struct" where
  "handoff_struct owner session reports =
     [(''handoff_id'', StringF), (owner, IntF), (session, IntF)] @ map (\<lambda>r. (r, StringF)) reports"

definition completionReportParams :: struct where
  "completionReportParams =
     [(''goal_id'', IntF), (''work_done'', StringF), (''now_possible'', StringF), (''how_to_verify'', StringF),
      (''surprises'', StringF), (''needs_review'', StringF), (''agent_session_id'', IntF),
      (''include_unapplied_answers'', BoolF)]"

definition report_arg :: "fields \<Rightarrow> completion_report" where
  "report_arg fs =
     \<lparr>WorkDone = string_arg fs ''work_done'', NowPossible = string_arg fs ''now_possible'',
      HowToVerify = string_arg fs ''how_to_verify'', Surprises = string_arg fs ''surprises'',
      NeedsReview = string_arg fs ''needs_review'', NextGoalIDs = ints_arg fs ''next_goal_ids''\<rparr>"

section \<open>The methods\<close>

text \<open>A handler takes the surroundings, the connection and the parameters.\<close>

type_synonym handler = "env \<Rightarrow> nat \<Rightarrow> json option \<Rightarrow> response daemon_op"

definition h_run_register :: handler where
  "h_run_register en peer ps =
     decode [(''pid'', IntF), (''cwd'', StringF), (''monitored'', BoolF)] ps (\<lambda>fs.
       run_register en peer (int_arg fs ''pid'') (string_arg fs ''cwd'')
            (bool_arg fs ''monitored''))"

definition h_capability_issue :: handler where
  "h_capability_issue en peer ps =
     decode [(''agent_session_id'', IntF), (''monitored'', BoolF)] ps (\<lambda>fs.
       capability_issue en peer (int_arg fs ''agent_session_id'') (bool_arg fs ''monitored''))"

definition h_session_identify :: handler where
  "h_session_identify en peer ps =
     decode [(''agent_session_id'', IntF), (''session_key'', StringF), (''monitor_token'', StringF),
        (''cwd'', StringF)] ps (\<lambda>fs.
       on_store (session_identify en (int_arg fs ''agent_session_id'') (string_arg fs ''session_key'')
            (string_arg fs ''monitor_token'') (string_arg fs ''cwd'')))"

definition h_development_start :: handler where
  "h_development_start en peer ps =
     decode [(''agent_session_id'', IntF)] ps (\<lambda>fs.
       on_store (development_start (int_arg fs ''agent_session_id'')))"

definition h_session_discard_request :: handler where
  "h_session_discard_request en peer ps =
     decode [(''project_id'', IntF), (''goal_id'', IntF), (''target_session_id'', IntF),
        (''reason'', StringF), (''agent_session_id'', IntF)] ps (\<lambda>fs.
       on_store (session_discard_request en (int_arg fs ''project_id'') (int_arg fs ''goal_id'')
            (int_arg fs ''target_session_id'') (string_arg fs ''reason'')
            (int_arg fs ''agent_session_id'')))"

definition h_session_discard :: handler where
  "h_session_discard en peer ps =
     decode [(''project_id'', IntF), (''target_session_id'', IntF), (''decision_id'', IntF),
        (''agent_session_id'', IntF)] ps (\<lambda>fs.
       on_store (session_discard en (int_arg fs ''project_id'') (int_arg fs ''target_session_id'')
            (int_arg fs ''decision_id'') (int_arg fs ''agent_session_id'')))"

definition h_handoff_recover :: handler where
  "h_handoff_recover en peer ps =
     decode [(''handoff_kind'', StringF), (''handoff_id'', StringF), (''goal_id'', IntF),
        (''task_id'', IntF), (''reason'', StringF), (''agent_session_id'', IntF)] ps (\<lambda>fs.
       on_store (recoverHandoff en (string_arg fs ''handoff_kind'') (string_arg fs ''handoff_id'')
            (int_arg fs ''goal_id'') (int_arg fs ''task_id'') (string_arg fs ''reason'')
            (int_arg fs ''agent_session_id'')))"

definition h_session_role :: handler where
  "h_session_role en peer ps =
     decode [(''agent_session_id'', IntF), (''require_identified'', BoolF)] ps (\<lambda>fs.
       on_store (session_role (int_arg fs ''agent_session_id'') (bool_arg fs ''require_identified'')))"

definition h_stop_check :: handler where
  "h_stop_check en peer ps =
     decode [(''session_key'', StringF), (''stop_hook_active'', BoolF)] ps (\<lambda>fs.
       bnd (stopCheck (string_arg fs ''session_key'') (bool_arg fs ''stop_hook_active'') (en_now en))
            (\<lambda>r. ret (plain (StopData r))))"

definition h_monitor_check :: handler where
  "h_monitor_check en peer ps =
     decode [(''session_key'', StringF)] ps (\<lambda>fs.
       on_store
            (bnd (monitorCheck (string_arg fs ''session_key'') (en_now en)) (\<lambda>r. ret (plain (MonitorData r)))))"

text \<open>Parameters that cannot be read let the monitor be armed.\<close>

definition h_monitor_form_check :: handler where
  "h_monitor_form_check en peer ps =
     bnd (try_op (decode [(''session_key'', StringF)] ps ret)) (\<lambda>r. case r of
       Inl _ \<Rightarrow> ret (plain (MonitorData False))
     | Inr fs \<Rightarrow> on_store (bnd (monitorFormCheck (string_arg fs ''session_key'') (en_now en)) (\<lambda>x.
         ret (plain (MonitorData x)))))"

definition h_tool_use_bind :: handler where
  "h_tool_use_bind en peer ps =
     decode [(''session_key'', StringF), (''tool_use_id'', StringF)] ps (\<lambda>fs.
       bnd (bindToolUse (string_arg fs ''session_key'') (string_arg fs ''tool_use_id'') (en_now en))
            (\<lambda>r. ret (plain (ToolBoundData r))))"

definition h_tool_use_resolve :: handler where
  "h_tool_use_resolve en peer ps =
     decode [(''agent_session_id'', IntF), (''tool_use_id'', StringF)] ps (\<lambda>fs.
       bnd (resolveToolUse (int_arg fs ''agent_session_id'') (string_arg fs ''tool_use_id'') (en_pid en) (en_started en (en_pid en)) (en_now en))
            (\<lambda>i. ret (plain (ToolSessionData i))))"

definition h_project_create :: handler where
  "h_project_create en peer ps =
     decode [(''name'', StringF), (''root_path'', StringF)] ps (\<lambda>fs.
       on_store (project_create en (string_arg fs ''name'') (string_arg fs ''root_path'')))"

definition h_project_list :: handler where
  "h_project_list en peer ps = on_store project_list"

definition h_project_archive :: handler where
  "h_project_archive en peer ps =
     decode [(''project_id'', IntF)] ps (\<lambda>fs.
       on_store (project_archive en True (int_arg fs ''project_id'')))"

definition h_project_unarchive :: handler where
  "h_project_unarchive en peer ps =
     decode [(''project_id'', IntF)] ps (\<lambda>fs.
       on_store (project_archive en False (int_arg fs ''project_id'')))"

definition h_project_claim :: handler where
  "h_project_claim en peer ps =
     decode [(''project_id'', IntF), (''agent_session_id'', IntF), (''force'', BoolF)] ps (\<lambda>fs.
       on_store (project_claim en (int_arg fs ''project_id'') (int_arg fs ''agent_session_id'')
            (bool_arg fs ''force'')))"

definition h_project_release :: handler where
  "h_project_release en peer ps =
     decode [(''project_id'', IntF), (''agent_session_id'', IntF)] ps (\<lambda>fs.
       on_store (project_release (int_arg fs ''project_id'') (int_arg fs ''agent_session_id'')))"

definition h_goal_list :: handler where
  "h_goal_list en peer ps =
     decode [(''cwd'', StringF), (''agent_session_id'', IntF), (''include_unapplied_answers'', BoolF)] ps (\<lambda>fs.
       on_store (goal_list en (string_arg fs ''cwd'') (int_arg fs ''agent_session_id'')
            (bool_arg fs ''include_unapplied_answers'')))"

definition h_goal_get :: handler where
  "h_goal_get en peer ps =
     decode [(''goal_id'', IntF)] ps (\<lambda>fs.
       on_store (goal_get (int_arg fs ''goal_id'')))"

definition h_goal_sessions :: handler where
  "h_goal_sessions en peer ps =
     decode [(''goal_id'', IntF)] ps (\<lambda>fs.
       on_store (goal_sessions (int_arg fs ''goal_id'')))"

definition h_goal_create :: handler where
  "h_goal_create en peer ps =
     decode [(''cwd'', StringF), (''content'', StringF), (''creator'', StringF)] ps (\<lambda>fs.
       on_store (goal_create en (string_arg fs ''cwd'') (string_arg fs ''content'')
            (string_arg fs ''creator'')))"

definition h_goal_claim :: handler where
  "h_goal_claim en peer ps =
     decode [(''goal_id'', IntF), (''agent_session_id'', IntF), (''include_unapplied_answers'', BoolF)] ps (\<lambda>fs.
       on_store (goal_claim en (int_arg fs ''goal_id'') (int_arg fs ''agent_session_id'')
            (bool_arg fs ''include_unapplied_answers'')))"

definition h_goal_release :: handler where
  "h_goal_release en peer ps =
     decode [(''goal_id'', IntF)] ps (\<lambda>fs.
       on_store (goal_release en (int_arg fs ''goal_id'')))"

definition h_goal_withdraw :: handler where
  "h_goal_withdraw en peer ps =
     decode [(''goal_id'', IntF), (''agent_session_id'', IntF), (''reason'', StringF)] ps (\<lambda>fs.
       on_store (goal_withdraw en (int_arg fs ''goal_id'') (int_arg fs ''agent_session_id'')
            (string_arg fs ''reason'')))"

definition h_goal_update_request_report :: handler where
  "h_goal_update_request_report en peer ps =
     decode [(''goal_id'', IntF), (''spec'', StringF), (''plan'', StringF), (''agent_session_id'', IntF)] ps (\<lambda>fs.
       on_store (goal_update_request_report en (int_arg fs ''goal_id'') (string_arg fs ''spec'')
            (string_arg fs ''plan'') (int_arg fs ''agent_session_id'')))"

definition h_goal_set_derived_from :: handler where
  "h_goal_set_derived_from en peer ps =
     decode [(''goal_id'', IntF), (''derived_from_goal_id'', IntF), (''agent_session_id'', IntF),
        (''include_unapplied_answers'', BoolF)] ps (\<lambda>fs.
       on_store (goal_set_derived_from en (int_arg fs ''goal_id'') (int_arg fs ''derived_from_goal_id'')
            (int_arg fs ''agent_session_id'') (bool_arg fs ''include_unapplied_answers'')))"

definition h_goal_handoff_request :: handler where
  "h_goal_handoff_request en peer ps =
     decode (handoff_struct ''goal_id'' ''requested_by'' [''request_report'']) ps (\<lambda>fs.
       on_store (requestGoalHandoff_rpc en (string_arg fs ''handoff_id'') (int_arg fs ''goal_id'')
            (int_arg fs ''requested_by'') (string_arg fs ''request_report'')))"

definition h_goal_handoff_receive :: handler where
  "h_goal_handoff_receive en peer ps =
     decode (handoff_struct ''goal_id'' ''received_by'' []) ps (\<lambda>fs.
       on_store (receiveGoalHandoff_rpc en (string_arg fs ''handoff_id'') (int_arg fs ''goal_id'')
            (int_arg fs ''received_by'')))"

definition h_goal_review_request :: handler where
  "h_goal_review_request en peer ps =
     decode (handoff_struct ''goal_id'' ''requested_by'' [''review_request_report'']) ps (\<lambda>fs.
       on_store (goal_review_request_rpc en (string_arg fs ''handoff_id'') (int_arg fs ''goal_id'')
            (int_arg fs ''requested_by'') (string_arg fs ''review_request_report'')))"

definition h_goal_review_receive :: handler where
  "h_goal_review_receive en peer ps =
     decode (handoff_struct ''goal_id'' ''received_by'' []) ps (\<lambda>fs.
       on_store (goal_review_receive_rpc en (string_arg fs ''handoff_id'') (int_arg fs ''goal_id'')
            (int_arg fs ''received_by'')))"

definition h_goal_review_reject :: handler where
  "h_goal_review_reject en peer ps =
     decode (handoff_struct ''goal_id'' ''reviewer_id'' [''reject_report'']) ps (\<lambda>fs.
       on_store (goal_review_reject_rpc en (string_arg fs ''handoff_id'') (int_arg fs ''goal_id'')
            (int_arg fs ''reviewer_id'') (string_arg fs ''reject_report'')))"

definition h_goal_rejection_receive :: handler where
  "h_goal_rejection_receive en peer ps =
     decode (handoff_struct ''goal_id'' ''received_by'' []) ps (\<lambda>fs.
       on_store (goal_rejection_receive_rpc en (string_arg fs ''handoff_id'') (int_arg fs ''goal_id'')
            (int_arg fs ''received_by'')))"

definition h_goal_handoff_complete :: handler where
  "h_goal_handoff_complete en peer ps =
     decode (handoff_struct ''goal_id'' ''agent_session_id'' [''complete_report''] @ capability_struct) ps (\<lambda>fs.
       on_store (goal_handoff_complete_rpc en (string_arg fs ''handoff_id'') (int_arg fs ''goal_id'')
            (int_arg fs ''agent_session_id'') (string_arg fs ''complete_report'')))"

definition h_goal_report_amend :: handler where
  "h_goal_report_amend en peer ps =
     decode [(''handoff_id'', StringF), (''goal_id'', IntF), (''complete_report'', StringF)] ps (\<lambda>fs.
       on_store (goal_report_amend_rpc en (string_arg fs ''handoff_id'') (int_arg fs ''goal_id'')
            (string_arg fs ''complete_report'')))"

definition h_human_review_request :: handler where
  "h_human_review_request en peer ps =
     decode_strict ((''next_goal_ids'', IntsF) # completionReportParams) ps (\<lambda>fs.
       on_store (goal_review_request en (int_arg fs ''goal_id'') (report_arg fs)
            (int_arg fs ''agent_session_id'') (bool_arg fs ''include_unapplied_answers'')))"

definition h_human_review_complete :: handler where
  "h_human_review_complete en peer ps =
     decode [(''goal_id'', IntF), (''agent_session_id'', IntF), (''include_unapplied_answers'', BoolF)] ps (\<lambda>fs.
       on_store (goal_review_complete en (int_arg fs ''goal_id'') (int_arg fs ''agent_session_id'')
            (bool_arg fs ''include_unapplied_answers'')))"

definition h_goal_complete :: handler where
  "h_goal_complete en peer ps =
     decode_strict completionReportParams ps (\<lambda>fs.
       fail
            (Failure ''goal.complete is retired; use atct_goal_review_request followed by atct_goal_review_complete''))"

definition h_goal_entry_append :: handler where
  "h_goal_entry_append en peer ps =
     decode_strict handoffEntryRPCParams ps (\<lambda>fs.
       appendGoalHandoffEntryRPC en peer (string_arg fs ''handoff_id'') (int_arg fs ''goal_id'')
            (string_arg fs ''kind'') (string_arg fs ''body'') (int_pointer fs ''in_reply_to_id'')
            (int_arg fs ''agent_session_id'') (capabilities_arg fs))"

definition h_goal_entry_history :: handler where
  "h_goal_entry_history en peer ps =
     decode_strict handoffHistoryRPCParams ps (\<lambda>fs.
       historyGoalHandoffEntryRPC en peer (string_arg fs ''handoff_id'') (int_arg fs ''goal_id'')
            (int_arg fs ''after_id'') (int_arg fs ''limit'') (int_arg fs ''agent_session_id'')
            (capabilities_arg fs))"

definition h_plan_review_request :: handler where
  "h_plan_review_request en peer ps =
     decode (handoff_struct ''goal_id'' ''requested_by'' [''review_request_report'']) ps (\<lambda>fs.
       on_store (plan_review_request_rpc en (string_arg fs ''handoff_id'') (int_arg fs ''goal_id'')
            (int_arg fs ''requested_by'') (string_arg fs ''review_request_report'')))"

definition h_plan_review_receive :: handler where
  "h_plan_review_receive en peer ps =
     decode (handoff_struct ''goal_id'' ''received_by'' []) ps (\<lambda>fs.
       on_store (plan_review_receive_rpc en (string_arg fs ''handoff_id'') (int_arg fs ''goal_id'')
            (int_arg fs ''received_by'')))"

definition h_plan_review_reject :: handler where
  "h_plan_review_reject en peer ps =
     decode (handoff_struct ''goal_id'' ''reviewer_id'' [''reject_report'']) ps (\<lambda>fs.
       on_store (plan_review_reject_rpc en (string_arg fs ''handoff_id'') (int_arg fs ''goal_id'')
            (int_arg fs ''reviewer_id'') (string_arg fs ''reject_report'')))"

definition h_plan_rejection_receive :: handler where
  "h_plan_rejection_receive en peer ps =
     decode (handoff_struct ''goal_id'' ''received_by'' []) ps (\<lambda>fs.
       on_store (plan_rejection_receive_rpc en (string_arg fs ''handoff_id'') (int_arg fs ''goal_id'')
            (int_arg fs ''received_by'')))"

definition h_plan_handoff_complete :: handler where
  "h_plan_handoff_complete en peer ps =
     decode (handoff_struct ''goal_id'' ''agent_session_id'' [''complete_report'']) ps (\<lambda>fs.
       on_store (plan_handoff_complete_rpc en (string_arg fs ''handoff_id'') (int_arg fs ''goal_id'')
            (int_arg fs ''agent_session_id'') (string_arg fs ''complete_report'')))"

definition h_task_update_content :: handler where
  "h_task_update_content en peer ps =
     decode [(''task_id'', IntF), (''title'', StringF), (''description'', StringF),
        (''agent_session_id'', IntF), (''include_unapplied_answers'', BoolF)] ps (\<lambda>fs.
       on_store (task_update_content en (int_arg fs ''task_id'') (string_pointer fs ''title'')
            (string_pointer fs ''description'') (int_arg fs ''agent_session_id'')
            (bool_arg fs ''include_unapplied_answers'')))"

definition h_task_create :: handler where
  "h_task_create en peer ps =
     decode [(''handoff_id'', StringF), (''goal_id'', IntF), (''agent'', StringF),
        (''idempotency_key'', StringF), (''titles'', StringsF), (''descriptions'', StringsF),
        (''agent_session_id'', IntF), (''include_unapplied_answers'', BoolF)] ps (\<lambda>fs.
       on_store (task_create en (string_arg fs ''handoff_id'') (int_arg fs ''goal_id'')
            (string_arg fs ''agent'') (string_arg fs ''idempotency_key'') (strings_arg fs ''titles'')
            (strings_arg fs ''descriptions'') (int_arg fs ''agent_session_id'')
            (bool_arg fs ''include_unapplied_answers'')))"

definition h_task_create_receive :: handler where
  "h_task_create_receive en peer ps =
     decode [(''handoff_id'', StringF), (''received_by'', IntF)] ps (\<lambda>fs.
       on_store (task_create_receive en (string_arg fs ''handoff_id'') (int_arg fs ''received_by'')))"

definition h_task_update :: handler where
  "h_task_update en peer ps =
     decode [(''task_id'', IntF), (''status'', StringF), (''commits'', StringsF),
        (''agent_session_id'', IntF), (''include_unapplied_answers'', BoolF)] ps (\<lambda>fs.
       on_store (task_update en (int_arg fs ''task_id'') (string_arg fs ''status'')
            (strings_arg fs ''commits'') (int_arg fs ''agent_session_id'')
            (bool_arg fs ''include_unapplied_answers'')))"

definition h_task_handoff_request :: handler where
  "h_task_handoff_request en peer ps =
     decode (handoff_struct ''task_id'' ''requested_by'' [''request_report'']) ps (\<lambda>fs.
       on_store (requestTaskHandoff_rpc en (string_arg fs ''handoff_id'') (int_arg fs ''task_id'')
            (int_arg fs ''requested_by'') (string_arg fs ''request_report'')))"

definition h_task_handoff_receive :: handler where
  "h_task_handoff_receive en peer ps =
     decode (handoff_struct ''task_id'' ''received_by'' []) ps (\<lambda>fs.
       on_store (task_handoff_receive en (string_arg fs ''handoff_id'') (int_arg fs ''task_id'')
            (int_arg fs ''received_by'')))"

definition h_handoff_receive :: handler where
  "h_handoff_receive en peer ps =
     decode (handoff_struct ''task_id'' ''received_by'' []) ps (\<lambda>fs.
       on_store (handoff_receive en (string_arg fs ''handoff_id'') (int_arg fs ''task_id'')
            (int_arg fs ''received_by'')))"

definition h_handoff_complete :: handler where
  "h_handoff_complete en peer ps =
     decode (handoff_struct ''task_id'' ''agent_session_id'' [''complete_report''] @ capability_struct) ps (\<lambda>fs.
       handoff_complete en peer (string_arg fs ''handoff_id'') (int_arg fs ''task_id'')
            (string_arg fs ''complete_report'') (int_arg fs ''agent_session_id'')
            (capabilities_arg fs))"

definition h_task_review_request :: handler where
  "h_task_review_request en peer ps =
     decode (handoff_struct ''task_id'' ''requested_by'' [''review_request_report'']) ps (\<lambda>fs.
       on_store (task_review_request_rpc en (string_arg fs ''handoff_id'') (int_arg fs ''task_id'')
            (int_arg fs ''requested_by'') (string_arg fs ''review_request_report'')))"

definition h_task_review_receive :: handler where
  "h_task_review_receive en peer ps =
     decode (handoff_struct ''task_id'' ''received_by'' []) ps (\<lambda>fs.
       on_store (task_review_receive_rpc en (string_arg fs ''handoff_id'') (int_arg fs ''task_id'')
            (int_arg fs ''received_by'')))"

definition h_task_review_reject :: handler where
  "h_task_review_reject en peer ps =
     decode (handoff_struct ''task_id'' ''reviewer_id'' [''reject_report'']) ps (\<lambda>fs.
       on_store (task_review_reject_rpc en (string_arg fs ''handoff_id'') (int_arg fs ''task_id'')
            (int_arg fs ''reviewer_id'') (string_arg fs ''reject_report'')))"

definition h_task_rejection_receive :: handler where
  "h_task_rejection_receive en peer ps =
     decode (handoff_struct ''task_id'' ''received_by'' []) ps (\<lambda>fs.
       on_store (task_rejection_receive_rpc en (string_arg fs ''handoff_id'') (int_arg fs ''task_id'')
            (int_arg fs ''received_by'')))"

definition h_task_handoff_complete :: handler where
  "h_task_handoff_complete en peer ps =
     decode (handoff_struct ''task_id'' ''agent_session_id'' [''complete_report'']) ps (\<lambda>fs.
       on_store (task_handoff_complete_rpc en (string_arg fs ''handoff_id'') (int_arg fs ''task_id'')
            (int_arg fs ''agent_session_id'') (string_arg fs ''complete_report'')))"

definition h_task_report_amend :: handler where
  "h_task_report_amend en peer ps =
     decode [(''handoff_id'', StringF), (''task_id'', IntF), (''complete_report'', StringF)] ps (\<lambda>fs.
       on_store (task_report_amend_rpc en (string_arg fs ''handoff_id'') (int_arg fs ''task_id'')
            (string_arg fs ''complete_report'')))"

definition h_task_entry_append :: handler where
  "h_task_entry_append en peer ps =
     decode_strict handoffEntryRPCParams ps (\<lambda>fs.
       appendTaskHandoffEntryRPC en peer (string_arg fs ''handoff_id'') (int_arg fs ''task_id'')
            (string_arg fs ''kind'') (string_arg fs ''body'') (int_pointer fs ''in_reply_to_id'')
            (int_arg fs ''agent_session_id'') (capabilities_arg fs))"

definition h_task_entry_history :: handler where
  "h_task_entry_history en peer ps =
     decode_strict handoffHistoryRPCParams ps (\<lambda>fs.
       historyTaskHandoffEntryRPC en peer (string_arg fs ''handoff_id'') (int_arg fs ''task_id'')
            (int_arg fs ''after_id'') (int_arg fs ''limit'') (int_arg fs ''agent_session_id'')
            (capabilities_arg fs))"

definition h_review_exchange_list :: handler where
  "h_review_exchange_list en peer ps =
     decode_strict reviewExchangeRPCParams ps (\<lambda>fs.
       listReviewExchangesRPC en peer (int_arg fs ''goal_id'') (int_arg fs ''task_id'')
            (int_arg fs ''agent_session_id'') (capabilities_arg fs))"

definition h_decision_ask :: handler where
  "h_decision_ask en peer ps =
     decode [(''goal_id'', IntF), (''task_id'', IntF), (''question'', StringF),
        (''options'', OptionsF), (''default_option'', StringF), (''default_after_ms'', IntF),
        (''agent_session_id'', IntF), (''wait_ms'', IntF), (''include_unapplied_answers'', BoolF),
        (''after_review'', BoolF)] ps (\<lambda>fs.
       on_store (decision_ask en
         \<lparr>ask_GoalID = int_arg fs ''goal_id'', ask_TaskID = int_arg fs ''task_id'', ask_Kind = KindDecision,
          ask_Question = string_arg fs ''question'', ask_Options = options_arg fs ''options'',
          ask_DefaultOption = string_arg fs ''default_option'',
          ask_DefaultAfterMs = int_pointer fs ''default_after_ms'',
          ask_AgentSessionID = int_arg fs ''agent_session_id''\<rparr>
         (int_pointer fs ''wait_ms'') (bool_arg fs ''include_unapplied_answers'') (bool_arg fs ''after_review'')))"

definition h_decision_poll :: handler where
  "h_decision_poll en peer ps =
     decode [(''agent_session_id'', IntF), (''decision_id'', IntF),
        (''include_unapplied_answers'', BoolF)] ps (\<lambda>fs.
       on_store (decision_poll en (int_arg fs ''agent_session_id'') (int_arg fs ''decision_id'')
            (bool_arg fs ''include_unapplied_answers'')))"

definition h_decision_answer :: handler where
  "h_decision_answer en peer ps =
     decode [(''decision_id'', IntF), (''answer'', StringF), (''answer_text'', StringF),
        (''human_quote'', StringF), (''agent_session_id'', IntF),
        (''include_unapplied_answers'', BoolF)] ps (\<lambda>fs.
       on_store (decision_answer en
         \<lparr>da_DecisionID = int_arg fs ''decision_id'', da_Answer = string_arg fs ''answer'',
          da_AnswerText = string_arg fs ''answer_text'', da_HumanQuote = string_arg fs ''human_quote'',
          da_AgentSessionID = int_arg fs ''agent_session_id''\<rparr> (bool_arg fs ''include_unapplied_answers'')))"

definition h_decision_withdraw :: handler where
  "h_decision_withdraw en peer ps =
     decode [(''decision_id'', IntF), (''reason'', StringF), (''include_unapplied_answers'', BoolF)] ps (\<lambda>fs.
       on_store (decision_withdraw (int_arg fs ''decision_id'') (string_arg fs ''reason'')
            (bool_arg fs ''include_unapplied_answers'')))"

section \<open>Dispatch\<close>

definition handlers :: "(string \<times> handler) list" where
  "handlers =
     [(''run.register'', h_run_register), (''monitor.capability.issue'', h_capability_issue),
      (''session.capability.issue'', h_capability_issue), (''session.identify'', h_session_identify),
      (''development.start'', h_development_start),
      (''session.discard.request'', h_session_discard_request),
      (''session.discard'', h_session_discard), (''handoff.recover'', h_handoff_recover),
      (''session.role'', h_session_role), (''session.stop_check'', h_stop_check),
      (''session.monitor_check'', h_monitor_check),
      (''session.monitor_form_check'', h_monitor_form_check),
      (''session.tool_use.bind'', h_tool_use_bind), (''session.tool_use.resolve'', h_tool_use_resolve),
      (''project.create'', h_project_create), (''project.list'', h_project_list),
      (''project.archive'', h_project_archive), (''project.unarchive'', h_project_unarchive),
      (''project.claim'', h_project_claim), (''project.release'', h_project_release),
      (''goal.list'', h_goal_list), (''goal.get'', h_goal_get),
      (''review.exchange.list'', h_review_exchange_list), (''goal.sessions'', h_goal_sessions),
      (''goal.create'', h_goal_create), (''goal.claim'', h_goal_claim),
      (''goal.release'', h_goal_release), (''goal.withdraw'', h_goal_withdraw),
      (''goal.update_request_report'', h_goal_update_request_report),
      (''task.update_content'', h_task_update_content), (''task.create'', h_task_create),
      (''task.create_handoff.receive'', h_task_create_receive), (''task.update'', h_task_update),
      (''task.handoff.request'', h_task_handoff_request),
      (''handoff.request'', h_task_handoff_request), (''handoff.entry.append'', h_task_entry_append),
      (''handoff.entry.history'', h_task_entry_history),
      (''task.handoff.receive'', h_task_handoff_receive), (''handoff.receive'', h_handoff_receive),
      (''handoff.complete'', h_handoff_complete),
      (''task.handoff.review.request'', h_task_review_request),
      (''task.handoff.review.receive'', h_task_review_receive),
      (''task.handoff.review.reject'', h_task_review_reject),
      (''task.handoff.review.reject.receive'', h_task_rejection_receive),
      (''task.handoff.complete'', h_task_handoff_complete),
      (''task.handoff.report.amend'', h_task_report_amend),
      (''goal.handoff.request'', h_goal_handoff_request),
      (''goal.handoff.entry.append'', h_goal_entry_append),
      (''goal.handoff.entry.history'', h_goal_entry_history),
      (''goal.handoff.receive'', h_goal_handoff_receive),
      (''goal.handoff.review.request'', h_goal_review_request),
      (''goal.handoff.review.receive'', h_goal_review_receive),
      (''goal.handoff.review.reject'', h_goal_review_reject),
      (''goal.handoff.review.reject.receive'', h_goal_rejection_receive),
      (''goal.handoff.complete'', h_goal_handoff_complete),
      (''goal.review.request'', h_human_review_request),
      (''goal.review.complete'', h_human_review_complete),
      (''goal.handoff.report.amend'', h_goal_report_amend),
      (''plan.handoff.review.request'', h_plan_review_request),
      (''plan.handoff.review.receive'', h_plan_review_receive),
      (''plan.handoff.review.reject'', h_plan_review_reject),
      (''plan.handoff.review.reject.receive'', h_plan_rejection_receive),
      (''plan.handoff.complete'', h_plan_handoff_complete), (''decision.ask'', h_decision_ask),
      (''decision.poll'', h_decision_poll), (''decision.answer'', h_decision_answer),
      (''decision.withdraw'', h_decision_withdraw),
      (''goal.set_derived_from'', h_goal_set_derived_from), (''goal.complete'', h_goal_complete)]"

definition dispatchMethodWithPeer :: "env \<Rightarrow> nat \<Rightarrow> request \<Rightarrow> response daemon_op" where
  "dispatchMethodWithPeer en peer rq =
     (let m = rq_Method rq
      in bnd (on_store (normalizeEntityIDs m (rq_Params rq))) (\<lambda>ps.
         bnd (on_store (ensureProjectActiveForMethod en m ps)) (\<lambda>_.
         case map_of handlers m of
           None \<Rightarrow> fail (Failure ''unknown method'')
         | Some h \<Rightarrow> h en peer ps)))"

definition dispatchWithPeer :: "env \<Rightarrow> nat \<Rightarrow> request \<Rightarrow> response daemon_op" where
  "dispatchWithPeer en peer rq =
     bnd (dispatchMethodWithPeer en peer rq) (\<lambda>r. ret (withNextStep r (nextStepAfter (rq_Method rq))))"

lemma reads_chain [reads_intros]: "(\<And>k x. reads (f k x)) \<Longrightarrow> reads (chain f ks x)"
proof (induction ks arbitrary: x)
  case (Cons k ks)
  then have "reads (chain f ks y)" for y by blast
  then show ?case unfolding chain.simps by (intro reads_intros Cons.prems)
qed (simp add: reads_ret)

lemma reads_normalize [reads_intros]:
  "reads (plain_int v)" "reads (normalize_entity m k fs)" "reads (parseAgentSessionID v)" "reads (normalize_session k fs)"
  unfolding plain_int_def normalize_entity_def parseAgentSessionID_def normalize_session_def
  by (auto split: json.split intro!: reads_intros)

lemma reads_dispatch [reads_intros]:
  "reads (normalizeEntityIDs m ps)" "reads (archiveGuardProjectID en fs)" "reads (ensureProjectActiveForMethod en m ps)"
proof -
  show guard: "reads (archiveGuardProjectID en fs)" for fs
    unfolding archiveGuardProjectID_def by (auto split: json.split intro!: reads_intros)
  show "reads (normalizeEntityIDs m ps)"
    unfolding normalizeEntityIDs_def by (auto split: option.split json.split intro!: reads_intros)
  show "reads (ensureProjectActiveForMethod en m ps)"
    unfolding ensureProjectActiveForMethod_def
    by (auto split: option.split json.split sum.split intro!: reads_intros guard)
qed

text \<open>Every method that is exempt from the guard is one the dispatch knows.\<close>

lemma exempt_methods_known: "set archiveExemptMethods \<subseteq> fst ` set handlers"
  by (simp add: archiveExemptMethods_def handlers_def)

end
