(* ===== verification/Atct_Daemon_Example.thy ===== *)
theory Atct_Daemon_Example
  imports Atct_Dispatch Atct_Example
begin

text \<open>
  A daemon over the store of \<open>Atct_Example\<close>, its surroundings and a few requests, for the instances of
  the properties of the dispatch: nothing is on disk, git answers nothing, and no other request runs
  while one waits.
\<close>

definition an_env :: env where
  "an_env = \<lparr>en_now = sec 100, en_world = \<lparr>w_evalSymlinks = (\<lambda>p. None), w_cwd = None, w_git = (\<lambda>d a. None)\<rparr>,
     en_uuid = ''uuid'', en_token = ''token'', en_started = (\<lambda>p. ''boot''), en_encode = (\<lambda>p. ''{}''),
     en_decode = (\<lambda>s. None), en_git_exit = (\<lambda>d a. None), en_is_dir = (\<lambda>p. False),
     en_harness = \<lparr>hn_getenv = (\<lambda>v. []), hn_home = None, hn_lstat = (\<lambda>p. Missing), hn_readdir = (\<lambda>p. None),
       hn_evalSymlinks = (\<lambda>p. None), hn_read = (\<lambda>p. None), hn_claude = (\<lambda>l. None), hn_codex = (\<lambda>l. None),
       hn_alnum = (\<lambda>c. True)\<rparr>,
     en_pid = 11, en_wait = (\<lambda>s. s), en_woken = False\<rparr>"

definition a_daemon :: daemon where
  "a_daemon = \<lparr>dm_store = example, dm_capabilities = (\<lambda>t. None), dm_toolUse = [], dm_stopBlocked = (\<lambda>i. None),
     dm_stopNoWatch = (\<lambda>i. None)\<rparr>"

definition a_request :: "string \<Rightarrow> fields \<Rightarrow> request" where
  "a_request m fs = \<lparr>rq_Method = m, rq_Params = Some (JObject fs)\<rparr>"

definition withdraw_request :: request where
  "withdraw_request = a_request ''goal.withdraw''
     [(''goal_id'', JString ''1''), (''agent_session_id'', JInt 1), (''reason'', JString ''moot'')]"

lemma en_wait_example: "steps s (en_wait an_env s)"
  by (simp add: an_env_def)

text \<open>A dispatch, from its parts.\<close>

lemma handlers_distinct: "distinct (map fst handlers)"
  by (simp add: handlers_def)

lemma handler_of: "(m, h) \<in> set handlers \<Longrightarrow> map_of handlers m = Some h"
  using handlers_distinct by simp

lemma dispatch_eval:
  assumes "rq = a_request m fs" and "fst (normalizeEntityIDs m (Some (JObject fs)) (dm_store d)) = Inr ps"
    and "fst (ensureProjectActiveForMethod en m ps (dm_store d)) = Inr ()"
    and "(m, h) \<in> set handlers" and "fst (h en peer ps d) = Inr r"
  shows "dispatchWithPeer en peer rq d = (Inr (withNextStep r (nextStepAfter m)), snd (h en peer ps d))"
proof -
  have stay: "on_store q d = (fst (q (dm_store d)), d)" if "reads q" for q :: "'a store_op"
    by (cases "q (dm_store d)") (simp add: on_store_def readsD [OF that])
  have "dispatchMethodWithPeer en peer rq d = h en peer ps d"
    using assms handler_of [OF assms(4)]
    by (simp add: dispatchMethodWithPeer_def Let_def bnd_def stay reads_dispatch a_request_def)
  with assms(1,5) show ?thesis
    by (cases "h en peer ps d") (simp add: dispatchWithPeer_def bnd_def ret_def a_request_def)
qed

lemma withdraw_request_ok: "dispatchWithPeer an_env 0 withdraw_request a_daemon
    = (Inr (projr (fst (dispatchWithPeer an_env 0 withdraw_request a_daemon))),
       snd (dispatchWithPeer an_env 0 withdraw_request a_daemon))"
proof -
  let ?ps = "Some (JObject [(''reason'', JString ''moot''), (''goal_id'', JInt 1), (''agent_session_id'', JInt 1)])"
  have "fst (normalizeEntityIDs ''goal.withdraw'' (Some (JObject [(''goal_id'', JString ''1''), (''agent_session_id'', JInt 1), (''reason'', JString ''moot'')]))
      (dm_store a_daemon)) = Inr ?ps" by code_simp
  moreover have "fst (ensureProjectActiveForMethod an_env ''goal.withdraw'' ?ps (dm_store a_daemon)) = Inr ()" by code_simp
  moreover have "(''goal.withdraw'', h_goal_withdraw) \<in> set handlers"
    unfolding handlers_def list.set by (rule insertI1 | rule insertI2)+
  moreover have "\<not> isl (fst (h_goal_withdraw an_env 0 ?ps a_daemon))" by code_simp
  ultimately show ?thesis
    by (cases "fst (h_goal_withdraw an_env 0 ?ps a_daemon)")
      (simp_all add: dispatch_eval [OF withdraw_request_def])
qed

end
