(* ===== verification/Atct_Dispatch_Facts.thy ===== *)
theory Atct_Dispatch_Facts
  imports Atct_Daemon_Example
begin

text \<open>
  What the dispatch does to the store. Every request, whatever it carries and whether it is answered or
  refused, is a finite sequence of calls of the exported operations of the store: a run in the sense of
  \<open>store_step\<close>. So everything that is proved of runs holds along the life of the daemon.
\<close>

section \<open>Handlers are runs\<close>

interpretation run: state_order steps
  by unfold_locales (auto intro: rtranclp_trans)

definition daemon_run :: "daemon \<Rightarrow> daemon \<Rightarrow> bool" where
  "daemon_run d e \<longleftrightarrow> steps (dm_store d) (dm_store e)"

interpretation daemon_run: state_order daemon_run
  by unfold_locales (auto simp: daemon_run_def intro: rtranclp_trans)

lemma runs_step: "(\<And>s. store_step s (snd (m s))) \<Longrightarrow> evolves steps m"
  by (simp add: evolves_def one_step)

lemma runs_on_store: "evolves steps m \<Longrightarrow> evolves daemon_run (on_store m)"
  by (auto simp: evolves_def daemon_run_def on_store_def split: prod.split) (metis snd_conv)

lemma runs_memory: "(\<And>d. dm_store (f d) = dm_store d) \<Longrightarrow> evolves daemon_run (change f)"
  by (simp add: evolves_change daemon_run_def)

named_theorems run_queries "operations above the store that only run it"

lemmas run_rules = run.ev_rules run.ev_check run.ev_need run.ev_ask run.ev_ret run.ev_fail

lemma runs_sessions [run_queries]:
  "evolves steps (ensureAgentSessionProject i p now)"
  "evolves steps (resolveOrRegisterProject w cwd now)"
  unfolding ensureAgentSessionProject_def resolveOrRegisterProject_def Let_def
  by (rule run_rules run_queries reads_intros | rule run.ev_reads, rule reads_intros
      | rule runs_step, rule store_step.intros)+

lemma runs_session_methods [run_queries]:
  "evolves steps (session_identify en i key token cwd)"
  "evolves steps (development_start i)"
  "evolves steps (session_discard_request en p g tg reason i)"
  "evolves steps (session_discard en p tg d i)"
  "evolves steps (recoverHandoff en kind hid g tk reason i)"
  "evolves steps (session_role i b)"
  unfolding session_identify_def development_start_def session_discard_request_def session_discard_def recoverHandoff_def session_role_def Let_def
  by (rule run_rules run_queries reads_intros | rule run.ev_reads, rule reads_intros
      | rule runs_step, rule store_step.intros)+

lemma runs_project_methods [run_queries]:
  "evolves steps (project_create en name root)"
  "evolves steps (project_list)"
  "evolves steps (project_archive en b p)"
  "evolves steps (project_claim en p i b)"
  "evolves steps (project_release p i)"
  unfolding project_create_def project_list_def project_archive_def project_claim_def project_release_def Let_def
  by (rule run_rules run_queries reads_intros | rule run.ev_reads, rule reads_intros
      | rule runs_step, rule store_step.intros)+

lemma runs_goal_methods [run_queries]:
  "evolves steps (list_goal hs gl)"
  "evolves steps (goal_list en cwd i b)"
  "evolves steps (goal_get g)"
  "evolves steps (goal_sessions g)"
  "evolves steps (goal_create en cwd content creator)"
  "evolves steps (goal_claim en g i b)"
  "evolves steps (goal_release en g)"
  "evolves steps (goal_withdraw en g i reason)"
  "evolves steps (goal_update_request_report en g spec plan i)"
  "evolves steps (goal_set_derived_from en g p i b)"
  unfolding list_goal_def goal_list_def goal_get_def goal_sessions_def goal_create_def goal_claim_def goal_release_def goal_withdraw_def goal_update_request_report_def goal_set_derived_from_def Let_def
  by (rule run_rules run_queries reads_intros | rule run.ev_reads, rule reads_intros
      | rule runs_step, rule store_step.intros)+

lemma runs_goal_handoff_methods [run_queries]:
  "evolves steps (requestGoalHandoff_rpc en hid g i report)"
  "evolves steps (receiveGoalHandoff_rpc en hid g i)"
  "evolves steps (goal_review_request_rpc en hid g i report)"
  "evolves steps (goal_review_receive_rpc en hid g i)"
  "evolves steps (goal_review_reject_rpc en hid g i report)"
  "evolves steps (goal_rejection_receive_rpc en hid g i)"
  "evolves steps (completeGoalHandoff en hid g i report)"
  "evolves steps (goal_handoff_complete_rpc en hid g i report)"
  "evolves steps (goal_report_amend_rpc en hid g report)"
  "evolves steps (goal_review_request en g cr i b)"
  "evolves steps (goal_review_complete en g i b)"
  unfolding requestGoalHandoff_rpc_def receiveGoalHandoff_rpc_def goal_review_request_rpc_def goal_review_receive_rpc_def goal_review_reject_rpc_def goal_rejection_receive_rpc_def completeGoalHandoff_def goal_handoff_complete_rpc_def goal_report_amend_rpc_def goal_review_request_def goal_review_complete_def Let_def
  by (rule run_rules run_queries reads_intros | rule run.ev_reads, rule reads_intros
      | rule runs_step, rule store_step.intros)+

lemma runs_plan_methods [run_queries]:
  "evolves steps (plan_review_request_rpc en hid g i report)"
  "evolves steps (plan_review_receive_rpc en hid g i)"
  "evolves steps (plan_review_reject_rpc en hid g i report)"
  "evolves steps (plan_rejection_receive_rpc en hid g i)"
  "evolves steps (plan_handoff_complete_rpc en hid g i report)"
  unfolding plan_review_request_rpc_def plan_review_receive_rpc_def plan_review_reject_rpc_def plan_rejection_receive_rpc_def plan_handoff_complete_rpc_def Let_def
  by (rule run_rules run_queries reads_intros | rule run.ev_reads, rule reads_intros
      | rule runs_step, rule store_step.intros)+

lemma runs_task_methods [run_queries]:
  "evolves steps (task_update_content en tk title desc i b)"
  "evolves steps (create_without_handoff en g agent key titles descs i)"
  "evolves steps (task_create en hid g agent key titles descs i b)"
  "evolves steps (task_create_receive en hid i)"
  "evolves steps (resolve_commits en p shas)"
  "evolves steps (task_update en tk st commits i b)"
  unfolding task_update_content_def create_without_handoff_def task_create_def task_create_receive_def resolve_commits_def task_update_def Let_def
  by (rule run_rules run_queries reads_intros | rule run.ev_reads, rule reads_intros
      | rule runs_step, rule store_step.intros)+

lemma runs_task_handoff_methods [run_queries]:
  "evolves steps (requestTaskHandoff_rpc en hid tk i report)"
  "evolves steps (receiveTaskHandoff en hid tk i)"
  "evolves steps (task_handoff_receive en hid tk i)"
  "evolves steps (handoff_receive en hid tk i)"
  "evolves steps (task_review_request_rpc en hid tk i report)"
  "evolves steps (task_review_receive_rpc en hid tk i)"
  "evolves steps (task_review_reject_rpc en hid tk i report)"
  "evolves steps (task_rejection_receive_rpc en hid tk i)"
  "evolves steps (completeTaskHandoff en hid tk i report)"
  "evolves steps (task_handoff_complete_rpc en hid tk i report)"
  "evolves steps (task_report_amend_rpc en hid tk report)"
  unfolding requestTaskHandoff_rpc_def receiveTaskHandoff_def task_handoff_receive_def handoff_receive_def task_review_request_rpc_def task_review_receive_rpc_def task_review_reject_rpc_def task_rejection_receive_rpc_def completeTaskHandoff_def task_handoff_complete_rpc_def task_report_amend_rpc_def Let_def
  by (rule run_rules run_queries reads_intros | rule run.ev_reads, rule reads_intros
      | rule runs_step, rule store_step.intros)+


text \<open>Waiting for an answer runs what the other requests run meanwhile.\<close>

lemma runs_decision_methods [run_queries]:
  assumes wait: "\<And>s. steps s (en_wait en s)"
  shows "evolves steps (WaitForAnswer (en_wait en) woken i)"
    "evolves steps (decision_ask en inp ms b after)"
  unfolding WaitForAnswer_def decision_ask_def parked_def Let_def
  by (rule run_rules run_queries reads_intros evolves_change wait | rule run.ev_reads, rule reads_intros
      | rule runs_step, rule store_step.intros)+

lemma runs_chat_answers [run_queries]: "evolves steps (writeChatAnswer d p src now)" "evolves steps (answer_with d p now hs)"
proof -
  show one: "evolves steps (writeChatAnswer d p src now)" for src
    unfolding writeChatAnswer_def
    by (rule run_rules reads_intros | rule runs_step, rule store_step.intros)+
  show "evolves steps (answer_with d p now hs)"
    by (induction hs) (unfold answer_with.simps, (rule run_rules reads_intros one | assumption
        | rule run.ev_reads, rule reads_intros)+)
qed

lemma runs_decision_answers [run_queries]:
  "evolves steps (poll_guard i d)" "evolves steps (appendCommanderRoutedDecisions i ds now)"
  "evolves steps (decision_poll en i d b)"
  "evolves steps (answerDecisionFromChat hn p now)" "evolves steps (decision_answer en p b)"
  "evolves steps (decision_withdraw d reason b)"
  unfolding poll_guard_def appendCommanderRoutedDecisions_def decision_poll_def answerDecisionFromChat_def decision_answer_def
    decision_withdraw_def Let_def
  by (rule run_rules run_queries reads_intros | rule run.ev_reads, rule reads_intros
      | rule runs_step, rule store_step.intros)+

section \<open>What the daemon keeps in memory\<close>

lemmas daemon_rules = daemon_run.ev_rules daemon_run.ev_check daemon_run.ev_need daemon_run.ev_ask daemon_run.ev_ret
  daemon_run.ev_fail runs_on_store

lemma runs_memory_operations [run_queries]:
  "evolves daemon_run (issueMonitoredCallerCapability token i peer now)"
  "evolves daemon_run (consumeMonitoredCallerCapability token peer now)"
  "evolves daemon_run (tool_use_take now u)"
  unfolding issueMonitoredCallerCapability_def consumeMonitoredCallerCapability_def tool_use_take_def Let_def
  by (rule daemon_rules reads_intros runs_memory | (simp (no_asm); fail))+

lemma runs_memory_methods [run_queries]:
  "evolves daemon_run (sessionFromCapability cfs i peer now)"
  "evolves daemon_run (bindToolUse key u now)" "evolves daemon_run (resolveToolUse i u pid st now)"
  "evolves daemon_run (stopCheckWatch i role now)" "evolves daemon_run (stopCheckWork i role now)"
  "evolves daemon_run (stopCheck key active now)"
  unfolding sessionFromCapability_def bindToolUse_def resolveToolUse_def stopCheck_def stopCheckWatch_def watch_answer_def
    stopCheckWork_def Let_def
  by (rule daemon_rules run_queries reads_intros runs_memory | (simp (no_asm); fail)
      | rule run.ev_reads, rule reads_intros | rule runs_step, rule store_step.intros)+

section \<open>Every handler\<close>

lemma runs_decode:
  "(\<And>fs. evolves daemon_run (f fs)) \<Longrightarrow> evolves daemon_run (decode sig ps f)"
  "(\<And>fs. evolves daemon_run (f fs)) \<Longrightarrow> evolves daemon_run (decode_strict sig ps f)"
  unfolding decode_def decode_strict_def
  by (rule daemon_rules reads_intros | assumption)+

lemma runs_daemon_methods [run_queries]:
  "evolves daemon_run (run_register en peer pid cwd b)" "evolves daemon_run (capability_issue en peer i b)"
  "evolves daemon_run (handoff_complete en peer hid tk report i cfs)"
  "evolves daemon_run (appendTaskHandoffEntryRPC en peer hid tk kind body reply i cfs)"
  "evolves daemon_run (appendGoalHandoffEntryRPC en peer hid g kind body reply i cfs)"
  "evolves daemon_run (historyTaskHandoffEntryRPC en peer hid tk after lim i cfs)"
  "evolves daemon_run (historyGoalHandoffEntryRPC en peer hid g after lim i cfs)"
  "evolves daemon_run (listReviewExchangesRPC en peer g tk i cfs)"
  unfolding run_register_def capability_issue_def handoff_complete_def appendTaskHandoffEntryRPC_def
    appendGoalHandoffEntryRPC_def historyTaskHandoffEntryRPC_def historyGoalHandoffEntryRPC_def
    listReviewExchangesRPC_def requireHandoffParticipant_def inReplyToStoreValue_def Let_def
  by (rule daemon_rules run_queries reads_intros run_rules | rule run.ev_reads, rule reads_intros
      | rule runs_step, rule store_step.intros)+

lemma runs_normalize:
  "evolves daemon_run (on_store (normalizeEntityIDs m ps))"
  "evolves daemon_run (on_store (ensureProjectActiveForMethod en m ps))"
  by (rule runs_on_store, rule run.ev_reads, rule reads_dispatch)+

lemma runs_session_handlers:
  "evolves daemon_run (h_run_register en peer ps)"
  "evolves daemon_run (h_capability_issue en peer ps)"
  "evolves daemon_run (h_session_identify en peer ps)"
  "evolves daemon_run (h_development_start en peer ps)"
  "evolves daemon_run (h_session_discard_request en peer ps)"
  "evolves daemon_run (h_session_discard en peer ps)"
  "evolves daemon_run (h_handoff_recover en peer ps)"
  "evolves daemon_run (h_session_role en peer ps)"
  "evolves daemon_run (h_stop_check en peer ps)"
  "evolves daemon_run (h_monitor_check en peer ps)"
  "evolves daemon_run (h_monitor_form_check en peer ps)"
  "evolves daemon_run (h_tool_use_bind en peer ps)"
  "evolves daemon_run (h_tool_use_resolve en peer ps)"
  unfolding h_run_register_def h_capability_issue_def h_session_identify_def h_development_start_def h_session_discard_request_def h_session_discard_def h_handoff_recover_def h_session_role_def h_stop_check_def h_monitor_check_def h_monitor_form_check_def h_tool_use_bind_def h_tool_use_resolve_def
  by (rule runs_decode daemon_rules run_queries reads_intros
      | rule run_rules reads_intros | rule run.ev_reads, rule reads_intros)+

lemma runs_project_handlers:
  "evolves daemon_run (h_project_create en peer ps)"
  "evolves daemon_run (h_project_list en peer ps)"
  "evolves daemon_run (h_project_archive en peer ps)"
  "evolves daemon_run (h_project_unarchive en peer ps)"
  "evolves daemon_run (h_project_claim en peer ps)"
  "evolves daemon_run (h_project_release en peer ps)"
  unfolding h_project_create_def h_project_list_def h_project_archive_def h_project_unarchive_def h_project_claim_def h_project_release_def
  by (rule runs_decode daemon_rules run_queries reads_intros
      | rule run_rules reads_intros | rule run.ev_reads, rule reads_intros)+

lemma runs_goal_handlers:
  "evolves daemon_run (h_goal_list en peer ps)"
  "evolves daemon_run (h_goal_get en peer ps)"
  "evolves daemon_run (h_goal_sessions en peer ps)"
  "evolves daemon_run (h_goal_create en peer ps)"
  "evolves daemon_run (h_goal_claim en peer ps)"
  "evolves daemon_run (h_goal_release en peer ps)"
  "evolves daemon_run (h_goal_withdraw en peer ps)"
  "evolves daemon_run (h_goal_update_request_report en peer ps)"
  "evolves daemon_run (h_goal_set_derived_from en peer ps)"
  unfolding h_goal_list_def h_goal_get_def h_goal_sessions_def h_goal_create_def h_goal_claim_def h_goal_release_def h_goal_withdraw_def h_goal_update_request_report_def h_goal_set_derived_from_def
  by (rule runs_decode daemon_rules run_queries reads_intros
      | rule run_rules reads_intros | rule run.ev_reads, rule reads_intros)+

lemma runs_goal_handoff_handlers:
  "evolves daemon_run (h_goal_handoff_request en peer ps)"
  "evolves daemon_run (h_goal_handoff_receive en peer ps)"
  "evolves daemon_run (h_goal_review_request en peer ps)"
  "evolves daemon_run (h_goal_review_receive en peer ps)"
  "evolves daemon_run (h_goal_review_reject en peer ps)"
  "evolves daemon_run (h_goal_rejection_receive en peer ps)"
  "evolves daemon_run (h_goal_handoff_complete en peer ps)"
  "evolves daemon_run (h_goal_report_amend en peer ps)"
  "evolves daemon_run (h_human_review_request en peer ps)"
  "evolves daemon_run (h_human_review_complete en peer ps)"
  "evolves daemon_run (h_goal_complete en peer ps)"
  "evolves daemon_run (h_goal_entry_append en peer ps)"
  "evolves daemon_run (h_goal_entry_history en peer ps)"
  unfolding h_goal_handoff_request_def h_goal_handoff_receive_def h_goal_review_request_def h_goal_review_receive_def h_goal_review_reject_def h_goal_rejection_receive_def h_goal_handoff_complete_def h_goal_report_amend_def h_human_review_request_def h_human_review_complete_def h_goal_complete_def h_goal_entry_append_def h_goal_entry_history_def
  by (rule runs_decode daemon_rules run_queries reads_intros
      | rule run_rules reads_intros | rule run.ev_reads, rule reads_intros)+

lemma runs_plan_handlers:
  "evolves daemon_run (h_plan_review_request en peer ps)"
  "evolves daemon_run (h_plan_review_receive en peer ps)"
  "evolves daemon_run (h_plan_review_reject en peer ps)"
  "evolves daemon_run (h_plan_rejection_receive en peer ps)"
  "evolves daemon_run (h_plan_handoff_complete en peer ps)"
  unfolding h_plan_review_request_def h_plan_review_receive_def h_plan_review_reject_def h_plan_rejection_receive_def h_plan_handoff_complete_def
  by (rule runs_decode daemon_rules run_queries reads_intros
      | rule run_rules reads_intros | rule run.ev_reads, rule reads_intros)+

lemma runs_task_handlers:
  "evolves daemon_run (h_task_update_content en peer ps)"
  "evolves daemon_run (h_task_create en peer ps)"
  "evolves daemon_run (h_task_create_receive en peer ps)"
  "evolves daemon_run (h_task_update en peer ps)"
  "evolves daemon_run (h_task_handoff_request en peer ps)"
  "evolves daemon_run (h_task_handoff_receive en peer ps)"
  "evolves daemon_run (h_handoff_receive en peer ps)"
  "evolves daemon_run (h_handoff_complete en peer ps)"
  "evolves daemon_run (h_task_review_request en peer ps)"
  "evolves daemon_run (h_task_review_receive en peer ps)"
  "evolves daemon_run (h_task_review_reject en peer ps)"
  "evolves daemon_run (h_task_rejection_receive en peer ps)"
  "evolves daemon_run (h_task_handoff_complete en peer ps)"
  "evolves daemon_run (h_task_report_amend en peer ps)"
  "evolves daemon_run (h_task_entry_append en peer ps)"
  "evolves daemon_run (h_task_entry_history en peer ps)"
  "evolves daemon_run (h_review_exchange_list en peer ps)"
  unfolding h_task_update_content_def h_task_create_def h_task_create_receive_def h_task_update_def h_task_handoff_request_def h_task_handoff_receive_def h_handoff_receive_def h_handoff_complete_def h_task_review_request_def h_task_review_receive_def h_task_review_reject_def h_task_rejection_receive_def h_task_handoff_complete_def h_task_report_amend_def h_task_entry_append_def h_task_entry_history_def h_review_exchange_list_def
  by (rule runs_decode daemon_rules run_queries reads_intros
      | rule run_rules reads_intros | rule run.ev_reads, rule reads_intros)+

lemma runs_decision_handlers:
  assumes wait: "\<And>s. steps s (en_wait en s)"
  shows "evolves daemon_run (h_decision_ask en peer ps)"
  "evolves daemon_run (h_decision_poll en peer ps)"
  "evolves daemon_run (h_decision_answer en peer ps)"
  "evolves daemon_run (h_decision_withdraw en peer ps)"
  unfolding h_decision_ask_def h_decision_poll_def h_decision_answer_def h_decision_withdraw_def
  by (rule runs_decode daemon_rules run_queries reads_intros wait
      | rule run_rules reads_intros | rule run.ev_reads, rule reads_intros)+

lemmas runs_handlers = runs_session_handlers runs_project_handlers runs_goal_handlers runs_goal_handoff_handlers
  runs_plan_handlers runs_task_handlers

lemma handlers_run:
  assumes wait: "\<And>s. steps s (en_wait en s)"
  shows "\<forall>(m, h) \<in> set handlers. evolves daemon_run (h en peer ps)"
  unfolding handlers_def by (simp add: runs_handlers runs_decision_handlers [OF wait])

lemma dispatch_runs:
  assumes wait: "\<And>s. steps s (en_wait en s)"
  shows "evolves daemon_run (dispatchWithPeer en peer rq)"
proof -
  have "evolves daemon_run (case map_of handlers m of None \<Rightarrow> fail e | Some h \<Rightarrow> h en peer ps)" for m e ps
    using handlers_run [OF wait, of peer ps] by (auto simp: daemon_run.ev_fail split: option.split dest: map_of_SomeD)
  then show ?thesis
    unfolding dispatchWithPeer_def dispatchMethodWithPeer_def Let_def
    by (intro daemon_run.ev_bnd runs_normalize daemon_run.ev_ret)
qed

section \<open>The daemon runs the store\<close>

text \<open>The daemon after a sequence of requests, each with its surroundings and its connection.\<close>

definition serve :: "(env \<times> nat \<times> request) list \<Rightarrow> daemon \<Rightarrow> daemon" where
  "serve = fold (\<lambda>(en, peer, rq) d. snd (dispatchWithPeer en peer rq d))"

text \<open>
  The daemon runs the store. Whatever requests arrive, with whatever parameters, and whether
  they are answered or refused, the store moves by a finite sequence of calls of its exported operations,
  and its invariants are kept. While a request waits for an answer the store may make any such sequence.
\<close>

theorem requests_run_the_store:
  assumes "\<forall>(en, peer, rq) \<in> set requests. \<forall>s. steps s (en_wait en s)"
  shows "steps (dm_store d) (dm_store (serve requests d))
    \<and> (wf_store (dm_store d) \<longrightarrow> wf_store (dm_store (serve requests d)))"
proof -
  have "steps (dm_store d) (dm_store (serve requests d))"
    using assms
  proof (induction requests arbitrary: d)
    case (Cons r rs)
    obtain en peer rq where r: "r = (en, peer, rq)" by (cases r)
    from Cons.prems have "evolves daemon_run (dispatchWithPeer en peer rq)"
      unfolding r by (intro dispatch_runs) simp
    then have "steps (dm_store d) (dm_store (snd (dispatchWithPeer en peer rq d)))"
      by (simp add: evolves_def daemon_run_def)
    also have "steps \<dots> (dm_store (serve rs (snd (dispatchWithPeer en peer rq d))))"
      using Cons by simp
    finally show ?case by (simp add: serve_def r)
  qed (simp add: serve_def)
  then show ?thesis using wf_store_step by blast
qed

theorem requests_run_the_store_witness:
  "steps example (dm_store (serve [(an_env, 0, withdraw_request), (an_env, 0, withdraw_request)] a_daemon))"
  using requests_run_the_store [of "[(an_env, 0, withdraw_request), (an_env, 0, withdraw_request)]" a_daemon]
    en_wait_example
  by (simp add: a_daemon_def)

section \<open>Archived projects\<close>

text \<open>
  The project the parameters of a request name: that of the goal, of the task or of the decision they name, the
  project they name by its id, or the one their working directory is resolved to.
\<close>

definition targets :: "world \<Rightarrow> fields \<Rightarrow> store \<Rightarrow> int \<Rightarrow> bool" where
  "targets w fs s p \<longleftrightarrow>
     (let i = guard_id fs in
      if i ''goal_id'' \<noteq> 0 then \<exists>g. goal_row (i ''goal_id'') s = Some g \<and> g_project_id g = p
      else if i ''task_id'' \<noteq> 0
      then \<exists>t g. task_row (i ''task_id'') s = Some t \<and> goal_row (t_goal_id t) s = Some g \<and> g_project_id g = p
      else if i ''decision_id'' \<noteq> 0
      then \<exists>d g. decision_row (i ''decision_id'') s = Some d \<and> goal_row (d_goal_id d) s = Some g \<and> g_project_id g = p
      else if i ''project_id'' \<noteq> 0 then i ''project_id'' = p
      else \<exists>cwd q. field fs ''cwd'' = JString cwd \<and> \<not> blank cwd \<and> fst (ResolveProject w cwd s) = Inr q \<and> p_id q = p)"

lemma guard_finds:
  assumes "targets (en_world en) fs s p" and "p \<noteq> 0"
  shows "archiveGuardProjectID en fs s = (Inr p, s)"
proof -
  have "reads (archiveGuardProjectID en fs)" by (rule reads_dispatch)
  then have s: "snd (archiveGuardProjectID en fs s) = s" by (simp add: reads_def)
  have goal: "fst (bnd (GetGoal i) (\<lambda>g. ret (g_project_id g)) s) = Inr (g_project_id g)" if "goal_row i s = Some g" for i g
    using GetGoal_value [of i s] that by (cases "GetGoal i s") (simp add: bnd_def ret_def)
  have "fst (archiveGuardProjectID en fs s) = Inr p"
  proof (cases "guard_id fs ''goal_id'' \<noteq> 0")
    case True
    with assms goal show ?thesis by (auto simp: targets_def archiveGuardProjectID_def)
  next
    case False
    with assms goal show ?thesis
      by (auto simp: targets_def archiveGuardProjectID_def Let_def GetDecision_def GetDecision_sql_def ProjectIDForTask_def
          decisionFromRow_def GetTaskProjectID_sql_def bnd_def ask_def need_def ret_def map_error_def check_def
          split: if_splits prod.split)
  qed
  with s show ?thesis by (cases "archiveGuardProjectID en fs s") simp
qed

text \<open>
  Property C27. An archived project is left alone. A request whose parameters name an archived project, by the
  first of a goal, a task, a decision, the id of the project and a working directory that they carry, and whose
  method is not exempt, is refused with \<open>ErrProjectArchived\<close>, and the daemon and its store stay as they were.
  Nothing is said of a request that carries none of the five, as one that names only a handoff.
\<close>

theorem archived_project_is_left_alone:
  assumes guarded_method: "rq_Method rq \<notin> set archiveExemptMethods"
    and ids: "fst (normalizeEntityIDs (rq_Method rq) (rq_Params rq) (dm_store d)) = Inr (Some (JObject fs))"
    and project: "targets (en_world en) fs (dm_store d) (p_id r)" "p_id r \<noteq> 0"
    and archived: "List.find (\<lambda>q. p_id q = p_id r) (projects (dm_store d)) = Some r" "p_archived_at r \<noteq> None"
  shows "dispatchWithPeer en peer rq d = (Inl (ProjectE ErrProjectArchived), d)"
proof -
  have stay: "on_store q d = (fst (q (dm_store d)), d)" if "reads q" for q :: "'a store_op"
    by (cases "q (dm_store d)") (simp add: on_store_def readsD [OF that])
  have "ensureProjectActiveForMethod en (rq_Method rq) (Some (JObject fs)) (dm_store d)
      = (Inl (ProjectE ErrProjectArchived), dm_store d)"
    using guarded_method guard_finds [OF project] project(2) archived
    by (simp add: ensureProjectActiveForMethod_def EnsureProjectActive_def lookup_project_def GetProject_sql_def
        bnd_def try_op_def ask_def need_def ret_def map_error_def check_def fail_def split: option.splits)
  then show ?thesis
    using ids by (simp add: dispatchWithPeer_def dispatchMethodWithPeer_def Let_def bnd_def stay reads_dispatch)
qed

definition create_request :: request where
  "create_request = a_request ''goal.create'' [(''cwd'', JString ''/p''), (''content'', JString ''more''), (''creator'', JString ''user'')]"

theorem archived_project_is_left_alone_witness:
  "let d = a_daemon\<lparr>dm_store := example\<lparr>projects := [(hd (projects example))\<lparr>p_archived_at := Some 1\<rparr>]\<rparr>\<rparr>
   in dispatchWithPeer an_env 0 withdraw_request d = (Inl (ProjectE ErrProjectArchived), d)
    \<and> dispatchWithPeer an_env 0 create_request d = (Inl (ProjectE ErrProjectArchived), d)"
proof -
  let ?d = "a_daemon\<lparr>dm_store := example\<lparr>projects := [(hd (projects example))\<lparr>p_archived_at := Some 1\<rparr>]\<rparr>\<rparr>"
  let ?r = "(hd (projects example))\<lparr>p_archived_at := Some 1\<rparr>"
  let ?fs = "[(''reason'', JString ''moot''), (''goal_id'', JInt 1), (''agent_session_id'', JInt 1)]"
  let ?gs = "[(''cwd'', JString ''/p''), (''content'', JString ''more''), (''creator'', JString ''user'')]"
  have "rq_Method withdraw_request \<notin> set archiveExemptMethods" "rq_Method create_request \<notin> set archiveExemptMethods"
    "fst (normalizeEntityIDs (rq_Method withdraw_request) (rq_Params withdraw_request) (dm_store ?d)) = Inr (Some (JObject ?fs))"
    "fst (normalizeEntityIDs (rq_Method create_request) (rq_Params create_request) (dm_store ?d)) = Inr (Some (JObject ?gs))"
    "guard_id ?fs ''goal_id'' = 1" "p_id ?r = 1" "p_archived_at ?r \<noteq> None"
    "map (guard_id ?gs) [''goal_id'', ''task_id'', ''decision_id'', ''project_id''] = [0, 0, 0, 0]"
    "field ?gs ''cwd'' = JString ''/p''" "\<not> blank ''/p''"
    "map_sum id p_id (fst (ResolveProject (en_world an_env) ''/p'' (dm_store ?d))) = Inr 1"
    by code_simp+
  moreover have "goal_row 1 (dm_store ?d) = Some (a_goal 1)" "g_project_id (a_goal 1) = 1"
    by (simp_all add: goal_row_def example_def a_daemon_def a_goal_def)
  moreover have "List.find (\<lambda>q. p_id q = p_id ?r) (projects (dm_store ?d)) = Some ?r" 
    by (simp add: a_daemon_def example_def)
  moreover obtain q where "fst (ResolveProject (en_world an_env) ''/p'' (dm_store ?d)) = Inr q" "p_id q = 1"
    using calculation by (cases "fst (ResolveProject (en_world an_env) ''/p'' (dm_store ?d))") auto
  ultimately show ?thesis
    unfolding Let_def
    by (intro conjI archived_project_is_left_alone [where fs = ?fs and r = ?r] archived_project_is_left_alone [where fs = ?gs and r = ?r])
      (simp_all add: targets_def)
qed

section \<open>The ids of a request\<close>

lemma field_put: "field (put_int fs k i) k' = (if k' = k then JInt i else field fs k')"
proof -
  have "map_of (filter (\<lambda>(k', _). k' \<noteq> k) xs) k' = (if k' = k then None else map_of xs k')" for xs :: fields
    by (induction xs) auto
  then show ?thesis by (simp add: field_def put_int_def rev_filter)
qed

text \<open>A loop over distinct fields, each round of which only changes its own.\<close>

lemma chain_fields:
  assumes "chain f ks fs s = (Inr gs, t)" and "distinct ks"
    and "\<And>k fs gs s t. f k fs s = (Inr gs, t) \<Longrightarrow>
      r k (field fs k) (field gs k) \<and> (\<forall>k'. k' \<noteq> k \<longrightarrow> field gs k' = field fs k')"
  shows "if k \<in> set ks then r k (field fs k) (field gs k) else field gs k = field fs k"
  using assms(1,2)
proof (induction ks arbitrary: fs s)
  case (Cons a ks)
  then obtain hs u where a: "f a fs s = (Inr hs, u)" and rest: "chain f ks hs u = (Inr gs, t)"
    by (auto simp: op_run)
  note IH = Cons.IH [OF rest]
  from assms(3) [OF a] IH Cons.prems(2) show ?case by (auto split: if_splits)
qed (auto simp: op_run)

text \<open>The number a JSON value stands for where an id is expected.\<close>

definition id_of_json :: "json \<Rightarrow> int option" where
  "id_of_json v =
     (case v of JNull \<Rightarrow> Some 0 | JInt i \<Rightarrow> (if int64 i then Some i else None)
      | JString s \<Rightarrow> (if blank s then Some 0 else ParseInt (TrimSpace s)) | _ \<Rightarrow> None)"

lemma ParseInt_int64: "ParseInt s = Some i \<Longrightarrow> int64 i"
  by (auto simp: ParseInt_def int64_def split: option.splits if_splits)

lemma int64_0: "int64 0"
  by (simp add: int64_def)

definition normal_id :: "json \<Rightarrow> json \<Rightarrow> bool" where
  "normal_id v w \<longleftrightarrow> is_int w \<and> id_of_json v = Some (int_of_json w)"

lemma normalize_entity_field:
  assumes "normalize_entity m k fs s = (Inr gs, t)"
  shows "normal_id (field fs k) (field gs k) \<and> (\<forall>k'. k' \<noteq> k \<longrightarrow> field gs k' = field fs k')"
  using assms
  by (cases "field fs k") (auto simp: normalize_entity_def normal_id_def id_of_json_def plain_int_def resolveID_def Let_def
      op_run field_put blank_def ParseInt_int64 int64_0 split: if_splits)

lemma normalize_session_field:
  assumes "normalize_session k fs s = (Inr gs, t)"
  shows "normal_id (field fs k) (field gs k) \<and> (\<forall>k'. k' \<noteq> k \<longrightarrow> field gs k' = field fs k')"
proof (cases "k \<in> fst ` set fs")
  case True
  with assms show ?thesis
    by (cases "field fs k") (auto simp: normalize_session_def parseAgentSessionID_def normal_id_def id_of_json_def
        plain_int_def op_run field_put blank_def ParseInt_int64 int64_0 split: if_splits)
next
  case False
  then have "map_of (rev fs) k = None" by (simp add: map_of_eq_None_iff)
  with False assms show ?thesis
    by (auto simp: normalize_session_def op_run normal_id_def id_of_json_def field_def)
qed

text \<open>
  Property C30. The ids of a normalized request are integers. Where \<open>normalizeEntityIDs\<close> returns, each of
  the ten fields that name an entity or a session is an integer of 64 bits or null, whether it came as a
  number, as null or as decimal text, and stands for the number it stood for; no other field is touched
  and nothing is written.
\<close>

theorem normalized_ids_are_integers:
  assumes "normalizeEntityIDs m (Some (JObject fs)) s = (Inr ps, t)"
  shows "t = s \<and> (\<exists>gs. ps = Some (JObject gs)
    \<and> (\<forall>k. if k \<in> set entity_fields \<union> set session_fields
           then is_int (field gs k) \<and> id_of_json (field fs k) = Some (int_of_json (field gs k))
           else field gs k = field fs k))"
proof -
  have "reads (normalizeEntityIDs m (Some (JObject fs)))" by (rule reads_dispatch)
  then have t: "t = s" using assms by (simp add: readsD)
  from assms obtain hs gs u v where
    e: "chain (normalize_entity m) entity_fields fs s = (Inr hs, u)"
    and i: "chain normalize_session session_fields hs u = (Inr gs, v)" and ps: "ps = Some (JObject gs)"
    by (auto simp: normalizeEntityIDs_def op_run)
  have d: "distinct entity_fields" "distinct session_fields" "set entity_fields \<inter> set session_fields = {}"
    by code_simp+
  have e': "if k \<in> set entity_fields then normal_id (field fs k) (field hs k) else field hs k = field fs k" for k
    by (rule chain_fields [OF e d(1), where r = "\<lambda>k. normal_id"]) (rule normalize_entity_field)
  have i': "if k \<in> set session_fields then normal_id (field hs k) (field gs k) else field gs k = field hs k" for k
    by (rule chain_fields [OF i d(2), where r = "\<lambda>k. normal_id"]) (rule normalize_session_field)
  have "\<forall>k. if k \<in> set entity_fields \<union> set session_fields then normal_id (field fs k) (field gs k)
      else field gs k = field fs k"
    using e' i' d(3) by (auto split: if_splits) (metis disjoint_iff)+
  with t ps show ?thesis unfolding normal_id_def by blast
qed

theorem normalized_ids_are_integers_witness:
  "\<exists>gs. fst (normalizeEntityIDs ''goal.withdraw'' (rq_Params withdraw_request) example) = Inr (Some (JObject gs))
    \<and> is_int (field gs ''goal_id'') \<and> id_of_json (JString ''1'') = Some (int_of_json (field gs ''goal_id''))"
proof -
  let ?fs = "[(''goal_id'', JString ''1''), (''agent_session_id'', JInt 1), (''reason'', JString ''moot'')]"
  let ?r = "normalizeEntityIDs ''goal.withdraw'' (Some (JObject ?fs)) example"
  have "\<not> isl (fst ?r)" by code_simp
  from normalized_ids_are_integers [OF run_ok [OF this]] obtain gs where gs: "projr (fst ?r) = Some (JObject gs)"
    "\<forall>k. if k \<in> set entity_fields \<union> set session_fields
       then is_int (field gs k) \<and> id_of_json (field ?fs k) = Some (int_of_json (field gs k)) else field gs k = field ?fs k"
    by blast
  moreover have "''goal_id'' \<in> set entity_fields \<union> set session_fields" "field ?fs ''goal_id'' = JString ''1''"
    by code_simp+
  ultimately have "is_int (field gs ''goal_id'') \<and> id_of_json (JString ''1'') = Some (int_of_json (field gs ''goal_id''))"
    by metis
  moreover have "fst ?r = Inr (Some (JObject gs))" using run_ok [OF \<open>\<not> isl (fst ?r)\<close>] gs(1) by (metis fst_conv)
  ultimately show ?thesis by (auto simp: withdraw_request_def a_request_def)
qed

end
