(* ===== verification/Atct_Role_Facts.thy ===== *)
theory Atct_Role_Facts
  imports Atct_Daemon_Example
begin

text \<open>
  Roles: what the assignment of a session says, and which requests need which role.
  \<open>guarded P m\<close> says that \<open>m\<close> succeeds only from states that satisfy \<open>P\<close>.
\<close>

section \<open>The role of a session\<close>

definition claims_project :: "int \<Rightarrow> store \<Rightarrow> project \<Rightarrow> bool" where
  "claims_project i s p \<longleftrightarrow> p \<in> set (projects s) \<and> p_claimed_by p = i"

definition holds_goal :: "int \<Rightarrow> store \<Rightarrow> goal \<Rightarrow> bool" where
  "holds_goal i s g \<longleftrightarrow> g \<in> set (goals s) \<and> (\<exists>h \<in> set (goal_handoffs s). h_owner h = g_id g \<and> held_by i h)"

definition works_on :: "int \<Rightarrow> store \<Rightarrow> task \<Rightarrow> goal \<Rightarrow> bool" where
  "works_on i s t g \<longleftrightarrow> (\<exists>h \<in> set (task_handoffs s). held_by i h \<and> task_row (h_owner h) s = Some t
     \<and> goal_row (t_goal_id t) s = Some g)"

lemma commander_query:
  "GetMonitorCommanderProjectID_sql i s = (r, t) \<Longrightarrow> t = s
    \<and> (case r of Inl e \<Rightarrow> e = NoRows \<and> (\<forall>p. \<not> claims_project i s p) | Inr p \<Rightarrow> \<exists>q. claims_project i s q \<and> p_id q = p)"
  unfolding GetMonitorCommanderProjectID_sql_def claims_project_def
  by (cases r) (auto simp: op_run find_None_iff dest!: find_Some_in)

lemma holder_query:
  "GetMonitorSubcommanderAssignment_sql i s = (r, t) \<Longrightarrow> t = s
    \<and> (case r of Inl e \<Rightarrow> e = NoRows \<and> (\<forall>g. \<not> holds_goal i s g)
       | Inr (p, gid) \<Rightarrow> \<exists>g. holds_goal i s g \<and> g_project_id g = p \<and> g_id g = gid)"
  unfolding GetMonitorSubcommanderAssignment_sql_def holds_goal_def
  by (cases r) (auto simp: op_run find_None_iff list_ex_iff dest!: find_Some_in)

lemma row_ids: "task_row i s = Some k \<Longrightarrow> t_id k = i" "goal_row i s = Some g \<Longrightarrow> g_id g = i"
  by (auto simp: task_row_def goal_row_def dest: find_Some_in)

lemma executor_scopes:
  assumes "ListMonitorExecutorAssignments_sql i s = (r, t)"
  shows "t = s" "\<exists>ts. r = Inr ts \<and> set ts =
    {\<lparr>ms_ProjectID = g_project_id g, ms_GoalID = g_id g, ms_TaskID = t_id k\<rparr> |k g. works_on i s k g}"
proof -
  from assms show "t = s" by (cases r) (auto simp: ListMonitorExecutorAssignments_sql_def op_run)
  define scope :: "handoff \<Rightarrow> MonitorScope list" where "scope h = (case task_row (h_owner h) s of None \<Rightarrow> []
      | Some t \<Rightarrow> case goal_row (t_goal_id t) s of None \<Rightarrow> []
      | Some g \<Rightarrow> [\<lparr>ms_ProjectID = g_project_id g, ms_GoalID = t_goal_id t, ms_TaskID = h_owner h\<rparr>])" for h
  have mem: "x \<in> set (scope h) \<longleftrightarrow> (\<exists>k g. task_row (h_owner h) s = Some k \<and> goal_row (t_goal_id k) s = Some g
      \<and> x = \<lparr>ms_ProjectID = g_project_id g, ms_GoalID = g_id g, ms_TaskID = t_id k\<rparr>)" for x h
    by (auto simp: scope_def split: option.splits) (metis row_ids)+
  have "r = Inr (concat (map scope (order_by h_owner (filter (held_by i) (task_handoffs s)))))"
    using assms by (cases r) (auto simp: ListMonitorExecutorAssignments_sql_def op_run scope_def [abs_def])
  then show "\<exists>ts. r = Inr ts \<and> set ts =
      {\<lparr>ms_ProjectID = g_project_id g, ms_GoalID = g_id g, ms_TaskID = t_id k\<rparr> |k g. works_on i s k g}"
    by (fastforce simp: mem works_on_def)
qed

text \<open>
  Property C29. The role of a session. \<open>MonitorAssignment\<close> always answers and only reads. A session, whose id is never 0, that
  claims a project is commander of such a project, with no goal and no task; one that claims none but
  holds the received, open handoff of a goal is subcommander of such a goal, in the project of that goal;
  every other session is executor, of exactly the tasks whose handoff it holds, and a session that holds
  nothing has no project either.
\<close>

theorem role_of_a_session:
  assumes "i \<noteq> 0"
  shows "\<exists>a. MonitorAssignment i s = (Inr a, s)
    \<and> (if \<exists>p. claims_project i s p
       then ma_Role a = ''commander'' \<and> (\<exists>p. claims_project i s p \<and> ma_ProjectID a = p_id p)
            \<and> ma_GoalID a = 0 \<and> ma_Tasks a = []
       else if \<exists>g. holds_goal i s g
       then ma_Role a = ''subcommander'' \<and> ma_Tasks a = []
            \<and> (\<exists>g. holds_goal i s g \<and> ma_ProjectID a = g_project_id g \<and> ma_GoalID a = g_id g)
       else ma_Role a = ''executor'' \<and> ma_GoalID a = 0
            \<and> set (ma_Tasks a) = {\<lparr>ms_ProjectID = g_project_id g, ms_GoalID = g_id g, ms_TaskID = t_id k\<rparr> |k g.
                                    works_on i s k g}
            \<and> (ma_Tasks a = [] \<longrightarrow> ma_ProjectID a = 0))"
proof -
  obtain c t where c: "GetMonitorCommanderProjectID_sql i s = (c, t)" by fastforce
  obtain g u where g: "GetMonitorSubcommanderAssignment_sql i s = (g, u)" by fastforce
  obtain ts v where l: "ListMonitorExecutorAssignments_sql i s = (ts, v)" by fastforce
  note c' = commander_query [OF c] and g' = holder_query [OF g] and l' = executor_scopes [OF l]
  from l'(2) obtain xs where xs: "ts = Inr xs" "set xs =
      {\<lparr>ms_ProjectID = g_project_id g, ms_GoalID = g_id g, ms_TaskID = t_id k\<rparr> |k g. works_on i s k g}" by blast
  show ?thesis
  proof (cases c)
    case (Inr p)
    with c c' assms show ?thesis
      by (auto simp: MonitorAssignment_def bnd_def try_op_def ret_def no_assignment_def)
  next
    case (Inl e)
    with c' have none: "e = NoRows" "\<not> (\<exists>p. claims_project i s p)" "t = s" by auto
    show ?thesis
    proof (cases g)
      case (Inr pg)
      obtain p gid where pg: "pg = (p, gid)" by fastforce
      with Inr g' obtain r where r: "holds_goal i s r" "g_project_id r = p" "g_id r = gid" by auto
      have "MonitorAssignment i s =
          (Inr (no_assignment\<lparr>ma_Role := ''subcommander'', ma_ProjectID := p, ma_GoalID := gid\<rparr>), s)"
        using c g g' Inl Inr pg none assms by (simp add: MonitorAssignment_def bnd_def try_op_def ret_def)
      with none r show ?thesis by (auto simp: no_assignment_def)
    next
      case (Inl e')
      with g' have none': "e' = NoRows" "\<not> (\<exists>g. holds_goal i s g)" "u = s" by auto
      have "MonitorAssignment i s = (Inr (no_assignment\<lparr>ma_Tasks := xs,
          ma_ProjectID := (case xs of [] \<Rightarrow> 0 | t # _ \<Rightarrow> ms_ProjectID t)\<rparr>), s)"
        using c g l Inl \<open>c = Inl e\<close> none none' l'(1) xs(1) assms
        by (simp add: MonitorAssignment_def bnd_def try_op_def ret_def)
      with none none' xs(2) show ?thesis by (auto simp: no_assignment_def)
    qed
  qed
qed

theorem role_of_a_session_witness:
  "\<exists>a. MonitorAssignment 2 example = (Inr a, example) \<and> ma_Role a = ''subcommander''"
proof -
  have "\<not> (\<exists>p. claims_project 2 example p)" "\<exists>g. holds_goal 2 example g"
    by (auto simp: claims_project_def holds_goal_def example_def held_by_def receive_row_def new_handoff_def a_goal_def empty_store_def)
  with role_of_a_session [of 2 example] show ?thesis by auto
qed

section \<open>What a request needs\<close>

definition guarded :: "('s \<Rightarrow> bool) \<Rightarrow> ('s, 'e, 'a) op \<Rightarrow> bool" where
  "guarded P m \<longleftrightarrow> (\<forall>s x t. m s = (Inr x, t) \<longrightarrow> P s)"

lemma guardedD: "guarded P m \<Longrightarrow> m s = (Inr x, t) \<Longrightarrow> P s"
  by (auto simp: guarded_def)

lemma guarded_first: "guarded P m \<Longrightarrow> guarded P (bnd m f)"
  by (auto simp: guarded_def op_run)

lemma guarded_after: "reads m \<Longrightarrow> (\<And>x. guarded P (f x)) \<Longrightarrow> guarded P (bnd m f)"
  by (auto simp: guarded_def op_run) (metis readsD)

lemma guarded_on_store: "guarded P m \<Longrightarrow> guarded (\<lambda>d. P (dm_store d)) (on_store m)"
  by (auto simp: guarded_def on_store_def split: prod.splits)

lemma guarded_decode:
  assumes "\<And>fs. object_fields ps = Some fs \<Longrightarrow> guarded P (f fs)"
  shows "guarded P (decode sig ps f)" "guarded P (decode_strict sig ps f)"
  using assms
  by (auto simp: guarded_def decode_def decode_strict_def fail_def bnd_def check_def ret_def
      split: option.splits if_splits sum.splits)

definition commander_of :: "int \<Rightarrow> int \<Rightarrow> store \<Rightarrow> bool" where
  "commander_of goal i s \<longleftrightarrow> i \<noteq> 0
     \<and> (\<exists>g p. goal_row goal s = Some g \<and> claims_project i s p \<and> p_id p = g_project_id g)"

lemma GetGoal_project:
  assumes "GetGoal i s = (Inr g, t)"
  shows "t = s \<and> (\<exists>r. goal_row i s = Some r \<and> g_project_id g = g_project_id r)"
proof -
  have "reads (GetGoal i)" by (rule reads_intros)
  with assms have "t = s" by (simp add: readsD)
  with assms show ?thesis by (auto simp: GetGoal_def GetGoal_sql_def op_run)
qed

lemma authorized_as_commander:
  assumes run: "authorizeRole [''commander''] project goal 0 i s = (Inr u, t)" and "goal \<noteq> 0"
    and project: "project = 0 \<or> (\<exists>g. goal_row goal s = Some g \<and> g_project_id g = project)"
  shows "commander_of goal i s"
proof -
  from run have i: "i \<noteq> 0" by (auto simp: authorizeRole_def op_run)
  obtain a where a: "MonitorAssignment i s = (Inr a, s)"
    "ma_Role a = ''commander'' \<Longrightarrow> \<exists>p. claims_project i s p \<and> ma_ProjectID a = p_id p"
    using role_of_a_session [OF i, of s] by (auto split: if_splits)
  from run \<open>goal \<noteq> 0\<close> i a(1) project
  have "ma_Role a = ''commander''" "\<exists>g. goal_row goal s = Some g \<and> ma_ProjectID a = g_project_id g"
    by (auto simp: authorizeRole_def deriveSessionRole_def role_granted_def op_run dest!: GetGoal_project split: if_splits)
  with a(2) i show ?thesis by (auto simp: commander_of_def)
qed

lemma commander_guard:
  "guarded (\<lambda>s. goal \<noteq> 0 \<longrightarrow> commander_of goal i s) (authorizeRole [''commander''] 0 goal 0 i)"
  by (auto simp: guarded_def dest: authorized_as_commander)

lemma commander_guard_of_goal:
  "guarded (\<lambda>s. goal \<noteq> 0 \<longrightarrow> commander_of goal i s)
     (bnd (GetGoal goal) (\<lambda>g. bnd (authorizeCommander goal (g_project_id g) i) (f g)))"
  by (auto simp: guarded_def authorizeCommander_def op_run dest!: GetGoal_project dest: authorized_as_commander)

lemma commander_guards:
  fixes goal i :: int
  defines "P \<equiv> \<lambda>s. goal \<noteq> 0 \<longrightarrow> commander_of goal i s"
  shows "guarded P (goal_withdraw en goal i reason)" "guarded P (requestGoalHandoff_rpc en hid goal i report)"
    "guarded P (goal_review_receive_rpc en hid goal i)" "guarded P (goal_review_reject_rpc en hid goal i report)"
    "guarded P (goal_handoff_complete_rpc en hid goal i report)" "guarded P (goal_review_request en goal cr i inc)"
    "guarded P (goal_review_complete en goal i inc)" "guarded P (plan_review_receive_rpc en hid goal i)"
    "guarded P (plan_review_reject_rpc en hid goal i report)" "guarded P (plan_handoff_complete_rpc en hid goal i report)"
  unfolding goal_withdraw_def requestGoalHandoff_rpc_def goal_review_receive_rpc_def goal_review_reject_rpc_def
    goal_handoff_complete_rpc_def goal_review_request_def goal_review_complete_def plan_review_receive_rpc_def
    plan_review_reject_rpc_def plan_handoff_complete_rpc_def P_def
  by (rule commander_guard_of_goal guarded_first [OF commander_guard]
      | rule guarded_after, rule reads_intros)+

text \<open>The methods only a commander may use, each with the field that names the session that asks.\<close>

definition commander_methods :: "(string \<times> string) list" where
  "commander_methods =
     [(''goal.withdraw'', ''agent_session_id''), (''goal.handoff.request'', ''requested_by''),
      (''goal.handoff.review.receive'', ''received_by''), (''goal.handoff.review.reject'', ''reviewer_id''),
      (''goal.handoff.complete'', ''agent_session_id''), (''goal.review.request'', ''agent_session_id''),
      (''goal.review.complete'', ''agent_session_id''), (''plan.handoff.review.receive'', ''received_by''),
      (''plan.handoff.review.reject'', ''reviewer_id''), (''plan.handoff.complete'', ''agent_session_id'')]"

definition needs_commander :: "string \<Rightarrow> json option \<Rightarrow> store \<Rightarrow> bool" where
  "needs_commander k ps s \<longleftrightarrow> (\<exists>fs. object_fields ps = Some fs
     \<and> (int_arg fs ''goal_id'' \<noteq> 0 \<longrightarrow> commander_of (int_arg fs ''goal_id'') (int_arg fs k) s))"

lemma guarded_handler:
  assumes "\<And>fs. guarded (\<lambda>s. int_arg fs ''goal_id'' \<noteq> 0 \<longrightarrow> commander_of (int_arg fs ''goal_id'') (int_arg fs k) s) (f fs)"
  shows "guarded (\<lambda>d. needs_commander k ps (dm_store d)) (decode sig ps (\<lambda>fs. on_store (f fs)))"
    "guarded (\<lambda>d. needs_commander k ps (dm_store d)) (decode_strict sig ps (\<lambda>fs. on_store (f fs)))"
proof -
  have "guarded (\<lambda>d. needs_commander k ps (dm_store d)) (on_store (f fs))" if "object_fields ps = Some fs" for fs
    using guarded_on_store [OF assms [of fs]] that by (simp add: needs_commander_def)
  note on = this
  show "guarded (\<lambda>d. needs_commander k ps (dm_store d)) (decode sig ps (\<lambda>fs. on_store (f fs)))"
    by (rule guarded_decode(1)) (rule on)
  show "guarded (\<lambda>d. needs_commander k ps (dm_store d)) (decode_strict sig ps (\<lambda>fs. on_store (f fs)))"
    by (rule guarded_decode(2)) (rule on)
qed

lemma commander_handlers:
  "guarded (\<lambda>d. needs_commander ''agent_session_id'' ps (dm_store d)) (h_goal_withdraw en peer ps)"
  "guarded (\<lambda>d. needs_commander ''requested_by'' ps (dm_store d)) (h_goal_handoff_request en peer ps)"
  "guarded (\<lambda>d. needs_commander ''received_by'' ps (dm_store d)) (h_goal_review_receive en peer ps)"
  "guarded (\<lambda>d. needs_commander ''reviewer_id'' ps (dm_store d)) (h_goal_review_reject en peer ps)"
  "guarded (\<lambda>d. needs_commander ''agent_session_id'' ps (dm_store d)) (h_goal_handoff_complete en peer ps)"
  "guarded (\<lambda>d. needs_commander ''agent_session_id'' ps (dm_store d)) (h_human_review_request en peer ps)"
  "guarded (\<lambda>d. needs_commander ''agent_session_id'' ps (dm_store d)) (h_human_review_complete en peer ps)"
  "guarded (\<lambda>d. needs_commander ''received_by'' ps (dm_store d)) (h_plan_review_receive en peer ps)"
  "guarded (\<lambda>d. needs_commander ''reviewer_id'' ps (dm_store d)) (h_plan_review_reject en peer ps)"
  "guarded (\<lambda>d. needs_commander ''agent_session_id'' ps (dm_store d)) (h_plan_handoff_complete en peer ps)"
  unfolding h_goal_withdraw_def h_goal_handoff_request_def h_goal_review_receive_def h_goal_review_reject_def
    h_goal_handoff_complete_def h_human_review_request_def h_human_review_complete_def h_plan_review_receive_def
    h_plan_review_reject_def h_plan_handoff_complete_def
  by (rule guarded_handler, rule commander_guards)+

lemma commander_entries:
  "(''goal.withdraw'', h_goal_withdraw) \<in> set handlers"
  "(''goal.handoff.request'', h_goal_handoff_request) \<in> set handlers"
  "(''goal.handoff.review.receive'', h_goal_review_receive) \<in> set handlers"
  "(''goal.handoff.review.reject'', h_goal_review_reject) \<in> set handlers"
  "(''goal.handoff.complete'', h_goal_handoff_complete) \<in> set handlers"
  "(''goal.review.request'', h_human_review_request) \<in> set handlers"
  "(''goal.review.complete'', h_human_review_complete) \<in> set handlers"
  "(''plan.handoff.review.receive'', h_plan_review_receive) \<in> set handlers"
  "(''plan.handoff.review.reject'', h_plan_review_reject) \<in> set handlers"
  "(''plan.handoff.complete'', h_plan_handoff_complete) \<in> set handlers"
  unfolding handlers_def list.set by (rule insertI1 | rule insertI2)+

lemmas commander_lookup = commander_entries [THEN handler_of]

lemma commander_methods_guarded:
  assumes "(m, k) \<in> set commander_methods"
  shows "\<exists>h. map_of handlers m = Some h \<and> (\<forall>en peer ps. guarded (\<lambda>d. needs_commander k ps (dm_store d)) (h en peer ps))"
proof -
  have "list_all (\<lambda>(m, k). \<exists>h. map_of handlers m = Some h
      \<and> (\<forall>en peer ps. guarded (\<lambda>d. needs_commander k ps (dm_store d)) (h en peer ps))) commander_methods"
    unfolding commander_methods_def list.pred_inject case_prod_conv
    by (intro conjI, (rule exI, rule conjI, rule commander_lookup, intro allI, rule commander_handlers)+, simp)
  with assms show ?thesis by (auto simp: list_all_iff)
qed

text \<open>The parts of a dispatch that answers.\<close>

lemma dispatch_run:
  assumes "dispatchWithPeer en peer rq d = (Inr r, e)"
  shows "\<exists>ps h x. fst (normalizeEntityIDs (rq_Method rq) (rq_Params rq) (dm_store d)) = Inr ps
    \<and> fst (ensureProjectActiveForMethod en (rq_Method rq) ps (dm_store d)) = Inr ()
    \<and> map_of handlers (rq_Method rq) = Some h \<and> h en peer ps d = (Inr x, e)"
proof -
  have stay: "fst (on_store m d) = fst (m (dm_store d)) \<and> snd (on_store m d) = d" if "reads m" for m :: "'a store_op"
    using that reads_on_store [OF that] by (auto simp: reads_def on_store_def split: prod.split)
  from assms obtain ps t u x where
    n: "on_store (normalizeEntityIDs (rq_Method rq) (rq_Params rq)) d = (Inr ps, t)"
    and g: "on_store (ensureProjectActiveForMethod en (rq_Method rq) ps) t = (Inr (), u)"
    and h: "(case map_of handlers (rq_Method rq) of None \<Rightarrow> fail (Failure ''unknown method'') | Some h \<Rightarrow> h en peer ps) u = (Inr x, e)"
    by (auto simp: dispatchWithPeer_def dispatchMethodWithPeer_def Let_def op_run)
  from n stay [OF reads_dispatch(1)] have t: "t = d" "fst (normalizeEntityIDs (rq_Method rq) (rq_Params rq) (dm_store d)) = Inr ps"
    by (metis fst_conv snd_conv)+
  from g stay [OF reads_dispatch(3)] t have "u = d" "fst (ensureProjectActiveForMethod en (rq_Method rq) ps (dm_store d)) = Inr ()"
    by (metis fst_conv snd_conv)+
  with t h show ?thesis by (auto simp: op_run)
qed

text \<open>
  Property C7. What only the commander may do. A request that names a goal, to withdraw it, to hand it
  over, to take, reject or complete the review of its work or of its plan, or to have the human review
  it, is answered only when the session it names claims the project of the goal; for every other
  session, whatever it holds, it is refused. The ids are those of the normalized request.
\<close>

theorem commander_requests:
  assumes "dispatchWithPeer en peer rq d = (Inr r, e)" and "(rq_Method rq, k) \<in> set commander_methods"
  shows "\<exists>ps fs. fst (normalizeEntityIDs (rq_Method rq) (rq_Params rq) (dm_store d)) = Inr ps
    \<and> object_fields ps = Some fs
    \<and> (int_arg fs ''goal_id'' \<noteq> 0 \<longrightarrow> commander_of (int_arg fs ''goal_id'') (int_arg fs k) (dm_store d))"
proof -
  from dispatch_run [OF assms(1)] obtain ps h x where
    n: "fst (normalizeEntityIDs (rq_Method rq) (rq_Params rq) (dm_store d)) = Inr ps"
    and h: "map_of handlers (rq_Method rq) = Some h" "h en peer ps d = (Inr x, e)" by blast
  from commander_methods_guarded [OF assms(2)] h have "needs_commander k ps (dm_store d)"
    by (auto dest: guardedD)
  with n show ?thesis by (auto simp: needs_commander_def)
qed

theorem commander_requests_witness:
  "\<exists>ps fs. fst (normalizeEntityIDs ''goal.withdraw'' (rq_Params withdraw_request) example) = Inr ps
    \<and> object_fields ps = Some fs
    \<and> (int_arg fs ''goal_id'' \<noteq> 0 \<longrightarrow> commander_of (int_arg fs ''goal_id'') (int_arg fs ''agent_session_id'') example)"
  using commander_requests [OF withdraw_request_ok, of "''agent_session_id''"]
  by (simp add: withdraw_request_def a_request_def commander_methods_def a_daemon_def)

end
