(* ===== verification/Atct_Chat_Facts.thy ===== *)
theory Atct_Chat_Facts
  imports Atct_Chat_Answer Atct_Example
begin

text \<open>
  An answer from the chat is one the human gave: what stands in the store after
  \<open>answerDecisionFromChat\<close> was read in the transcript of the session.
\<close>

section \<open>Writing the answer\<close>

lemma answer_update_run:
  assumes run: "answer_update src P f i s = (Inr n, u)" and n: "n \<noteq> 0"
    and ids: "distinct (map d_id (decisions s))" and keeps_id: "\<And>d. d_id (f d) = d_id d"
  shows "\<exists>d. decision_row i s = Some d \<and> P d
    \<and> decisions u = update_where (\<lambda>e. d_id e = i) (\<lambda>_. set_source src (f d)) (decisions s)
    \<and> decision_row i u = Some (set_source src (f d))
    \<and> (PromptID src \<noteq> [] \<longrightarrow> (\<forall>e\<in>set (decisions s). d_answer_prompt_id e = PromptID src \<longrightarrow> d_id e = i))"
proof -
  let ?P = "\<lambda>d. d_id d = i \<and> P d" and ?f = "\<lambda>d. set_source src (f d)"
  have aff: "affected ?P (decisions s) \<noteq> 0"
    and u: "u = decisions_update (update_where ?P ?f) s"
    and prompt: "PromptID src = [] \<or> list_all (\<lambda>d. d_id d = i \<or> d_answer_prompt_id d \<noteq> PromptID src) (decisions s)"
    using run n by (auto simp: answer_update_def op_run)
  from aff affected_key [OF ids] obtain d where d: "decision_row i s = Some d" "P d"
    by (auto simp: decision_row_def)
  have uniq: "e = d" if "e \<in> set (decisions s)" "d_id e = i" for e
    using that ids d(1) by (auto simp: decision_row_def dest: find_key_unique)
  have "update_where ?P ?f (decisions s) = update_where (\<lambda>e. d_id e = i) (\<lambda>_. ?f d) (decisions s)"
    by (rule update_where_cong) (use uniq d in auto)
  moreover have "decision_row i u = Some (?f d)"
    using d u decision_row_update [of ?P ?f i s] keeps_id
    by (auto simp: decision_row_def set_source_def dest: find_Some_in)
  ultimately show ?thesis using d u prompt by (auto simp: list_all_iff)
qed

text \<open>
  What an accepted answer from the chat leaves: one row has it, with the quote and the message it was
  found in, and no other row had that message before.
\<close>

definition records :: "decision \<Rightarrow> decisionAnswerParams \<Rightarrow> AnswerSource \<Rightarrow> store \<Rightarrow> store \<Rightarrow> decision \<Rightarrow> bool" where
  "records d p src s t row \<longleftrightarrow>
     decision_row (d_id d) t = Some row
   \<and> decisions t = update_where (\<lambda>e. d_id e = d_id d) (\<lambda>_. row) (decisions s)
   \<and> d_status row \<noteq> DecisionOpen \<and> d_answer_label row = da_Answer p
   \<and> d_answered_via row = Via src \<and> d_answer_quote row = Quote src \<and> d_answer_prompt_id row = PromptID src
   \<and> (PromptID src \<noteq> [] \<longrightarrow> (\<forall>e\<in>set (decisions s). d_answer_prompt_id e = PromptID src \<longrightarrow> d_id e = d_id d))"

lemma read_kept: "reads m \<Longrightarrow> m u = (r, v) \<Longrightarrow> v = u"
  by (metis readsD snd_conv)

lemma GetGoal_run: "GetGoal i u = (r, v) \<Longrightarrow> v = u"
  by (erule read_kept [rotated]) (rule reads_intros)

lemma writeChatAnswer_run:
  assumes run: "writeChatAnswer d p src now s = (Inr x, t)" and wf: "wf_decisions (decisions s)"
    and label: "d_kind d = KindGoalReview \<Longrightarrow> da_Answer p \<in> {''approve'', ''reject''}"
  shows "\<exists>row. records d p src s t row"
proof -
  have ids: "distinct (map d_id (decisions s))" using wf by (simp add: wf_decisions_def)
  consider "d_kind d = KindGoalReview" "da_Answer p = ''approve''"
    | "d_kind d = KindGoalReview" "da_Answer p = ''reject''" | "d_kind d \<noteq> KindGoalReview"
    using label by blast
  then show ?thesis
  proof cases
    case 1
    with run obtain n u where w: "ApproveGoalReviewDecision_sql (rfc3339 now) src (d_id d) s = (Inr n, u)" "n \<noteq> 0"
        "decisions t = decisions u"
      by (auto simp: writeChatAnswer_def ApproveGoalReviewWith_def op_run GetDecision_sql_def GetOpenGoalReviewGoalID_sql_def
          GetGoalStatus_sql_def dest!: GetGoal_run)
    from answer_update_run [OF w(1) [unfolded ApproveGoalReviewDecision_sql_def] w(2) ids] 1 w(3)
    show ?thesis by (auto simp: records_def decision_row_def set_source_def)
  next
    case 2
    with run obtain n u where w: "RejectGoalReviewDecision_sql (da_AnswerText p) now src (d_id d) s = (Inr n, u)" "n \<noteq> 0"
        "decisions t = decisions u"
      by (auto simp: writeChatAnswer_def RejectGoalReviewWith_def op_run GetDecision_sql_def)
    from answer_update_run [OF w(1) [unfolded RejectGoalReviewDecision_sql_def] w(2) ids] 2 w(3)
    show ?thesis by (auto simp: records_def decision_row_def set_source_def)
  next
    case 3
    with run obtain n u where w: "AnswerDecision_sql (da_Answer p) (da_AnswerText p) (rfc3339 now) src (d_id d) s = (Inr n, u)"
        "n \<noteq> 0" "decisions t = decisions u"
      by (auto simp: writeChatAnswer_def AnswerDecisionWith_def answerDecision_def op_run GetDecision_sql_def)
    from answer_update_run [OF w(1) [unfolded AnswerDecision_sql_def] w(2) ids] w(3)
    show ?thesis by (auto simp: records_def decision_row_def set_source_def)
  qed
qed

lemma reused_changes_nothing:
  assumes "writeChatAnswer d p src now s = (Inl (DecisionE ErrAnswerPromptReused), t)"
  shows "t = s"
proof -
  have "e \<noteq> DecisionE ErrAnswerPromptReused" if "GetGoal i u = (Inl e, v)" for i u v e
    using that by (auto simp: GetGoal_def GetGoal_sql_def ListNextGoals_def ListNextGoals_sql_def op_run split: if_splits)
  with assms show ?thesis
    by (fastforce simp: writeChatAnswer_def ApproveGoalReviewWith_def RejectGoalReviewWith_def AnswerDecisionWith_def
        answerDecision_def op_run split: if_splits)
qed

text \<open>The first message that answers nothing else yet is the one that is recorded.\<close>

lemma answer_with_run:
  assumes "answer_with d p now found s = (Inr r, t)" and wf: "wf_decisions (decisions s)"
    and label: "d_kind d = KindGoalReview \<Longrightarrow> da_Answer p \<in> {''approve'', ''reject''}"
  shows "\<exists>human\<in>set found. \<exists>row. records d p (chat_source p human) s t row \<and> r = decisionFromRow row"
  using assms(1)
proof (induction found)
  case (Cons human rest)
  obtain w u where w: "writeChatAnswer d p (chat_source p human) now s = (w, u)" by fastforce
  show ?case
  proof (cases w)
    case (Inl e)
    with Cons.prems w have "e = DecisionE ErrAnswerPromptReused" "answer_with d p now rest u = (Inr r, t)"
      by (auto simp: op_run split: if_splits)
    with reused_changes_nothing [of d p "chat_source p human" now s u] w Inl Cons.IH show ?thesis
      by fastforce
  next
    case (Inr x)
    from writeChatAnswer_run [OF w [unfolded Inr] wf label] obtain row where row: "records d p (chat_source p human) s u row"
      by blast
    from Cons.prems w Inr have "GetDecision (d_id d) u = (Inr r, t)" by (auto simp: op_run)
    then have "t = u" "decision_row (d_id d) u = Some row \<longrightarrow> r = decisionFromRow row"
      by (auto simp: GetDecision_def GetDecision_sql_def op_run)
    with row show ?thesis by (auto simp: records_def)
  qed
qed (simp add: op_run)

section \<open>What the human typed\<close>

text \<open>
  A message the human typed, as a line of a transcript holds it: its own id, its text and its time, and
  not one the program sent in the name of the human.
\<close>

definition human_message :: "harness \<Rightarrow> bool \<Rightarrow> string \<Rightarrow> time \<Rightarrow> humanEvidence \<Rightarrow> bool" where
  "human_message hn codex line at h \<longleftrightarrow>
     (if codex
      then \<exists>e. hn_codex hn line = Some e \<and> cx_ItemType e = ''UserMessage'' \<and> cx_At e = Some at
             \<and> cx_ClientID e \<noteq> [] \<and> \<not> starts_with ''atct:'' (cx_ClientID e)
             \<and> cx_ItemID e = he_ID h \<and> codexMessageText (cx_Content e) = he_Text h
      else \<exists>e. hn_claude hn line = Some e \<and> te_Type e = ''user'' \<and> te_OriginKind e = ''human'' \<and> te_At e = Some at
             \<and> te_UUID e = he_ID h \<and> messageText (te_Content e) = he_Text h)"

text \<open>
  The words stand, as a line of their own up to spaces, in a message the human typed a second or more
  after the question was stored; the message is in the only transcript of the session there is, a
  regular file under the folders of the harness that is named after the session.
\<close>

definition human_typed :: "harness \<Rightarrow> string \<Rightarrow> string \<Rightarrow> time \<Rightarrow> humanEvidence \<Rightarrow> bool" where
  "human_typed hn key quote asked h \<longleftrightarrow>
     (\<exists>path codex content line at.
        (if codex then isCodexRolloutPath path key \<and> insideCodexSessions hn path key
         else isHarnessTranscriptPath path key \<and> insideClaudeProjects hn path key)
      \<and> (\<exists>cs. transcriptCandidates hn key = Some cs \<and> filter (\<lambda>c. hn_lstat hn c \<noteq> Missing) cs = [path])
      \<and> hn_lstat hn path = RegularFile \<and> hn_read hn path = Some content
      \<and> line \<in> set (raw_lines (split_char newline content))
      \<and> human_message hn codex line at h \<and> asked + second \<le> at \<and> he_ID h \<noteq> []
      \<and> (\<exists>l\<in>set (split_char newline (he_Text h)). normalizeQuoteText l = normalizeQuoteText quote))"

lemma lines_match:
  "transcriptLineHumanQuote hn needle since line = Some h \<Longrightarrow>
     \<exists>at. human_message hn False line at h \<and> since \<le> at \<and> he_ID h \<noteq> [] \<and> quoteLineMatches (he_Text h) needle"
  "codexLineHumanQuote hn needle since line = Some h \<Longrightarrow>
     \<exists>at. human_message hn True line at h \<and> since \<le> at \<and> he_ID h \<noteq> [] \<and> quoteLineMatches (he_Text h) needle"
  by (auto simp: transcriptLineHumanQuote_def codexLineHumanQuote_def human_message_def not_before_def
      atctClientMessagePrefix_def split: if_splits option.splits)

lemma scan_finds:
  assumes "scanTranscript hn path match = Some found" and "h \<in> set found"
  shows "\<exists>content line. hn_read hn path = Some content \<and> line \<in> set (raw_lines (split_char newline content)) \<and> match line = Some h"
proof -
  from assms obtain content where c: "hn_read hn path = Some content"
    and f: "found = List.map_filter match (filter (\<lambda>l. length l \<le> maxTranscriptLine) (raw_lines (split_char newline content)))"
    by (auto simp: scanTranscript_def)
  from assms(2) obtain line where "line \<in> set (raw_lines (split_char newline content))" "match line = Some h"
    unfolding f by (auto simp: List.map_filter_def)
  with c show ?thesis by blast
qed

lemma the_transcript:
  assumes "harnessTranscript hn key cs = Inr (path, codex)"
  shows "filter (\<lambda>c. hn_lstat hn c \<noteq> Missing) cs = [path]"
    and "if codex then isCodexRolloutPath path key \<and> insideCodexSessions hn path key
         else isHarnessTranscriptPath path key \<and> insideClaudeProjects hn path key"
    and "hn_lstat hn path = RegularFile"
  using assms
  by (auto simp: harnessTranscript_def insideCodexSessions_def insideClaudeProjects_def inside_roots_def
      split: if_splits list.splits)

lemma verified_quote:
  assumes run: "verifyHumanQuote hn i d quote s = (Inr found, t)" and h: "h \<in> set found"
  shows "\<exists>key. fst (AgentSessionKey i s) = Inr key \<and> human_typed hn key quote (d_created_at d) h"
proof -
  obtain key cs path codex where k: "fst (AgentSessionKey i s) = Inr key"
    and c: "transcriptCandidates hn key = Some cs" "harnessTranscript hn key cs = Inr (path, codex)"
    and f: "scanTranscript hn path (if codex then codexLineHumanQuote hn (normalizeQuoteText quote) (d_created_at d + second)
        else transcriptLineHumanQuote hn (normalizeQuoteText quote) (d_created_at d + second)) = Some (rev found)"
    using run by (auto simp: verifyHumanQuote_def Let_def op_run AgentSessionKey_def split: sum.splits if_splits)
  from h have "h \<in> set (rev found)" by simp
  from scan_finds [OF f this] obtain content line where l: "hn_read hn path = Some content"
      "line \<in> set (raw_lines (split_char newline content))"
      "(if codex then codexLineHumanQuote hn (normalizeQuoteText quote) (d_created_at d + second)
        else transcriptLineHumanQuote hn (normalizeQuoteText quote) (d_created_at d + second)) line = Some h" by blast
  then obtain at where "human_message hn codex line at h" "d_created_at d + second \<le> at" "he_ID h \<noteq> []"
      "quoteLineMatches (he_Text h) (normalizeQuoteText quote)"
    by (cases codex) (auto dest!: lines_match)
  with k c l(1,2) the_transcript [OF c(2)] show ?thesis
    unfolding human_typed_def quoteLineMatches_def list_ex_iff by blast
qed

section \<open>The answer\<close>

text \<open>
  Property C5. An answer from the chat is one the human gave. When \<open>answerDecisionFromChat\<close> returns, the
  decision was open; its row, and no other, now has the answer that was passed on, with the way it came;
  the quote stands as a line of its own in a message the human typed a second or more after the question
  was stored, in the one transcript of the calling session, a regular file under the folders of the
  harness; the row names that message, no other decision was answered by it before, and the approval or
  rejection of a goal review quotes the id of the decision.
\<close>

theorem chat_answer_is_from_the_human:
  assumes run: "answerDecisionFromChat hn p now s = (Inr r, t)" and wf: "wf_decisions (decisions s)"
  shows "\<exists>d human key row. decision_row (da_DecisionID p) s = Some d \<and> d_status d = DecisionOpen
    \<and> fst (AgentSessionKey (da_AgentSessionID p) s) = Inr key
    \<and> human_typed hn key (da_HumanQuote p) (d_created_at d) human
    \<and> records d p (chat_source p human) s t row \<and> r = decisionFromRow row
    \<and> (\<forall>e\<in>set (decisions s). d_answer_prompt_id e = he_ID human \<longrightarrow> d_id e = d_id d)
    \<and> (d_kind d = KindGoalReview \<longrightarrow> goalReviewQuoteMatches d (da_Answer p) (da_HumanQuote p))"
proof -
  obtain d' u1 u2 u3 u4 found where steps: "GetDecision (da_DecisionID p) s = (Inr d', u1)" "d_status d' = DecisionOpen"
      "ensureCanAnswerFromChat (da_AgentSessionID p) d' u1 = (Inr (), u2)" "validateChatAnswer d' p u2 = (Inr (), u3)"
      "verifyHumanQuote hn (da_AgentSessionID p) d' (da_HumanQuote p) u3 = (Inr found, u4)"
      "answer_with d' p now found u4 = (Inr r, t)"
    using run by (auto simp: answerDecisionFromChat_def op_run)
  from steps(1) obtain d where d: "decision_row (da_DecisionID p) s = Some d" "d' = decisionFromRow d" and "u1 = s"
    by (auto simp: GetDecision_def GetDecision_sql_def op_run)
  with steps(3-5) have u: "u2 = s" "u3 = s" "u4 = s" by (auto dest!: read_kept [OF reads_chat(1)] read_kept [OF reads_chat(2)] read_kept [OF reads_chat(3)])
  note valid = steps(4) [unfolded u d(2)] and found = steps(5) [unfolded u d(2)] and ans = steps(6) [unfolded u d(2)]
  from steps(2) d(2) have op: "d_status d = DecisionOpen" by (simp add: decisionFromRow_def)
  have label: "d_kind d = KindGoalReview \<Longrightarrow> da_Answer p \<in> {''approve'', ''reject''}"
    and quote: "d_kind d = KindGoalReview \<Longrightarrow> goalReviewQuoteMatches d (da_Answer p) (da_HumanQuote p)"
    using valid by (auto simp: validateChatAnswer_def decisionFromRow_def goalReviewQuoteMatches_def goalReviewForms_def Let_def op_run)
  from answer_with_run [OF ans wf] label obtain human row where
    h: "human \<in> set found" and row: "records (decisionFromRow d) p (chat_source p human) s t row" "r = decisionFromRow row"
    by (auto simp: decisionFromRow_def)
  from verified_quote [OF found h] obtain key where k: "fst (AgentSessionKey (da_AgentSessionID p) s) = Inr key"
      "human_typed hn key (da_HumanQuote p) (d_created_at d) human"
    by (auto simp: decisionFromRow_def)
  from row(1) have rec: "records d p (chat_source p human) s t row" by (simp add: records_def decisionFromRow_def)
  moreover from k(2) have "he_ID human \<noteq> []" by (auto simp: human_typed_def)
  ultimately have "\<forall>e\<in>set (decisions s). d_answer_prompt_id e = he_ID human \<longrightarrow> d_id e = d_id d"
    by (simp add: records_def chat_source_def)
  with d(1) op k rec row(2) quote show ?thesis by blast
qed

text \<open>A harness with one transcript, in which the human typed the words.\<close>

definition a_line :: transcriptEntry where
  "a_line = \<lparr>te_Type = ''user'', te_UUID = ''m1'', te_At = Some (sec 60), te_OriginKind = ''human'',
     te_Content = ContentText ''take  a now''\<rparr>"

definition a_harness :: harness where
  "a_harness = \<lparr>hn_getenv = (\<lambda>v. []), hn_home = Some ''/h'',
     hn_lstat = (\<lambda>p. if p = ''/h/.claude/projects/p/two.jsonl'' then RegularFile else Missing),
     hn_readdir = (\<lambda>p. if p = ''/h/.claude/projects'' then Some [(''p'', True)] else Some []),
     hn_evalSymlinks = (\<lambda>p. if p = ''/h/.claude/projects'' \<or> p = ''/h/.claude/projects/p/two.jsonl'' then Some p else None),
     hn_read = (\<lambda>p. Some human_word), hn_claude = (\<lambda>l. Some a_line), hn_codex = (\<lambda>l. None),
     hn_alnum = (\<lambda>c. True)\<rparr>"

definition a_chat_answer :: decisionAnswerParams where
  "a_chat_answer = \<lparr>da_DecisionID = 1, da_Answer = [], da_AnswerText = ''a'', da_HumanQuote = ''take a now'',
     da_AgentSessionID = 2\<rparr>"

lemma a_chat_answer_fields [simp]:
  "da_DecisionID a_chat_answer = 1" "da_HumanQuote a_chat_answer = ''take a now''" "da_AgentSessionID a_chat_answer = 2"
  by (simp_all add: a_chat_answer_def)

lemma read_step: "reads m \<Longrightarrow> fst (m u) = Inr x \<Longrightarrow> bnd m f u = f x u"
  by (cases "m u") (auto simp: bnd_def dest: readsD)

lemma pure_steps: "bnd (check True e) f = f ()" "bnd (need e (Some x)) g = g x"
  by (simp_all add: fun_eq_iff bnd_def check_def need_def ret_def)

lemma a_quote_verified:
  "verifyHumanQuote a_harness 2 (decisionFromRow (a_decision 1)) ''take a now'' example
     = (Inr [\<lparr>he_ID = ''m1'', he_Text = ''take  a now''\<rparr>], example)"
proof -
  let ?path = "''/h/.claude/projects/p/two.jsonl''" and ?h = "\<lparr>he_ID = ''m1'', he_Text = ''take  a now''\<rparr>"
  have "transcriptLineHumanQuote a_harness (normalizeQuoteText ''take a now'') second human_word = Some ?h"
    "raw_lines (split_char newline human_word) = [human_word]" "length human_word = 7" by code_simp+
  then have scan: "scanTranscript a_harness ?path (transcriptLineHumanQuote a_harness (normalizeQuoteText ''take a now'') second)
      = Some [?h]"
    by (simp add: scanTranscript_def List.map_filter_def maxTranscriptLine_def a_harness_def [THEN arg_cong [where f = hn_read]])
  have "hasLetterOrDigit a_harness (normalizeQuoteText ''take a now'')" "fst (AgentSessionKey 2 example) = Inr ''two''"
    "transcriptCandidates a_harness ''two'' = Some [?path]"
    "harnessTranscript a_harness ''two'' [?path] = Inr (?path, False)"
    "d_created_at (decisionFromRow (a_decision 1)) = 0" by code_simp+
  moreover have "reads (AgentSessionKey 2)" unfolding AgentSessionKey_def by (rule reads_intros)
  ultimately show ?thesis
    by (simp add: verifyHumanQuote_def Let_def read_step pure_steps scan ret_def)
qed

theorem chat_answer_is_from_the_human_witness:
  "\<exists>d human key. decision_row 1 example = Some d \<and> human_typed a_harness key ''take a now'' (d_created_at d) human"
proof -
  let ?d = "decisionFromRow (a_decision 1)" and ?p = a_chat_answer and ?h = "\<lparr>he_ID = ''m1'', he_Text = ''take  a now''\<rparr>"
  let ?src = "\<lparr>Via = ''chat'', Quote = ''take a now'', Evidence = ''take  a now'', PromptID = ''m1''\<rparr>"
  have "fst (GetDecision 1 example) = Inr ?d" "d_status ?d = DecisionOpen" "d_id ?d = 1"
    "fst (ensureCanAnswerFromChat 2 ?d example) = Inr ()" "fst (validateChatAnswer ?d ?p example) = Inr ()" by code_simp+
  note parts = this
  have "length (runes ''take  a now'') = 11" "TrimSpace ''take a now'' = ''take a now''" by code_simp+
  then have src: "chat_source ?p ?h = ?src"
    by (simp add: chat_source_def truncateRunes_def humanEvidenceMaxRunes_def)
  have "\<not> isl (fst (bnd (writeChatAnswer ?d ?p ?src (sec 100)) (\<lambda>_. GetDecision 1) example))" by code_simp
  then have "\<not> isl (fst (answer_with ?d ?p (sec 100) [?h] example))"
    using parts(3) by (auto simp: src bnd_def try_op_def ret_def split: prod.splits sum.splits)
  moreover have "reads (GetDecision 1)" by (rule reads_intros)
  ultimately have ok: "\<not> isl (fst (answerDecisionFromChat a_harness ?p (sec 100) example))"
    using parts
    by (simp add: answerDecisionFromChat_def read_step reads_chat a_quote_verified bnd_def [of "verifyHumanQuote _ _ _ _"]
        pure_steps del: answer_with.simps)
  have "wf_decisions (decisions example)" by (rule wf_store_parts(5) [OF wf_example])
  from chat_answer_is_from_the_human [OF run_ok [OF ok] this] show ?thesis
    by auto
qed

end
