(* ===== verification/Atct_Capability_Facts.thy ===== *)
theory Atct_Capability_Facts
  imports Atct_Dispatch_Facts
begin

text \<open>
  The one-request capability of a monitored caller: whoever shows it is the session it was issued to,
  over the same connection and in time, and nobody shows it twice along the life of the daemon.
\<close>

section \<open>A used capability stays used\<close>

definition stays_used :: "string \<Rightarrow> daemon \<Rightarrow> daemon \<Rightarrow> bool" where
  "stays_used tok d e \<longleftrightarrow>
     ((\<exists>c. dm_capabilities d tok = Some c \<and> cp_Used c) \<longrightarrow> (\<exists>c. dm_capabilities e tok = Some c \<and> cp_Used c))"

interpretation used: state_order "stays_used tok" for tok
  by unfold_locales (auto simp: stays_used_def)

lemma used_on_store: "evolves (stays_used tok) (on_store m)"
  by (auto simp: evolves_def stays_used_def on_store_def split: prod.split)

lemma used_memory: "(\<And>d. dm_capabilities (f d) = dm_capabilities d) \<Longrightarrow> evolves (stays_used tok) (change f)"
  by (simp add: evolves_change stays_used_def)

lemma used_mark: "cp_Used c \<Longrightarrow> evolves (stays_used tok) (change (dm_capabilities_update (\<lambda>m. m(k \<mapsto> c))))"
  by (auto simp: evolves_def stays_used_def change_def)

lemma used_issue: "k \<noteq> tok \<Longrightarrow> evolves (stays_used tok) (change (dm_capabilities_update (\<lambda>m. m(k \<mapsto> c))))"
  by (auto simp: evolves_def stays_used_def change_def)

lemmas used_rules = used.ev_rules used.ev_check used.ev_need used.ev_ask used.ev_ret used.ev_fail used_on_store

lemma used_decode:
  "(\<And>fs. evolves (stays_used tok) (f fs)) \<Longrightarrow> evolves (stays_used tok) (decode sig ps f)"
  "(\<And>fs. evolves (stays_used tok) (f fs)) \<Longrightarrow> evolves (stays_used tok) (decode_strict sig ps f)"
  unfolding decode_def decode_strict_def by (rule used_rules | assumption)+

lemma used_capabilities:
  "k \<noteq> tok \<Longrightarrow> evolves (stays_used tok) (issueMonitoredCallerCapability k i peer now)"
  "evolves (stays_used tok) (consumeMonitoredCallerCapability token peer now)"
  "evolves (stays_used tok) (sessionFromCapability cfs i peer now)"
  unfolding issueMonitoredCallerCapability_def sessionFromCapability_def consumeMonitoredCallerCapability_def Let_def
  by (rule used_rules | (rule used_issue, assumption) | (rule used_mark, simp (no_asm)))+

lemma used_bindings:
  "evolves (stays_used tok) (tool_use_take now u)" "evolves (stays_used tok) (bindToolUse key u now)"
  "evolves (stays_used tok) (resolveToolUse i u pid st now)" "evolves (stays_used tok) (stopCheckWatch i role now)"
  "evolves (stays_used tok) (stopCheckWork i role now)" "evolves (stays_used tok) (stopCheck key active now)"
  unfolding resolveToolUse_def bindToolUse_def tool_use_take_def stopCheck_def stopCheckWatch_def watch_answer_def stopCheckWork_def Let_def
  by (rule used_rules | (rule used_memory, simp (no_asm)))+

lemma used_store_handlers:
  "evolves (stays_used tok) (h_session_identify en peer ps)"
  "evolves (stays_used tok) (h_development_start en peer ps)"
  "evolves (stays_used tok) (h_session_discard_request en peer ps)"
  "evolves (stays_used tok) (h_session_discard en peer ps)"
  "evolves (stays_used tok) (h_handoff_recover en peer ps)"
  "evolves (stays_used tok) (h_session_role en peer ps)"
  "evolves (stays_used tok) (h_monitor_check en peer ps)"
  "evolves (stays_used tok) (h_project_create en peer ps)"
  "evolves (stays_used tok) (h_project_list en peer ps)"
  "evolves (stays_used tok) (h_project_archive en peer ps)"
  "evolves (stays_used tok) (h_project_unarchive en peer ps)"
  "evolves (stays_used tok) (h_project_claim en peer ps)"
  "evolves (stays_used tok) (h_project_release en peer ps)"
  "evolves (stays_used tok) (h_goal_list en peer ps)" "evolves (stays_used tok) (h_goal_get en peer ps)"
  "evolves (stays_used tok) (h_goal_sessions en peer ps)"
  "evolves (stays_used tok) (h_goal_create en peer ps)"
  "evolves (stays_used tok) (h_goal_claim en peer ps)"
  "evolves (stays_used tok) (h_goal_release en peer ps)"
  "evolves (stays_used tok) (h_goal_withdraw en peer ps)"
  "evolves (stays_used tok) (h_goal_update_request_report en peer ps)"
  "evolves (stays_used tok) (h_goal_set_derived_from en peer ps)"
  "evolves (stays_used tok) (h_goal_handoff_request en peer ps)"
  "evolves (stays_used tok) (h_goal_handoff_receive en peer ps)"
  "evolves (stays_used tok) (h_goal_review_request en peer ps)"
  "evolves (stays_used tok) (h_goal_review_receive en peer ps)"
  "evolves (stays_used tok) (h_goal_review_reject en peer ps)"
  "evolves (stays_used tok) (h_goal_rejection_receive en peer ps)"
  "evolves (stays_used tok) (h_goal_handoff_complete en peer ps)"
  "evolves (stays_used tok) (h_goal_report_amend en peer ps)"
  "evolves (stays_used tok) (h_human_review_request en peer ps)"
  "evolves (stays_used tok) (h_human_review_complete en peer ps)"
  "evolves (stays_used tok) (h_plan_review_request en peer ps)"
  "evolves (stays_used tok) (h_plan_review_receive en peer ps)"
  "evolves (stays_used tok) (h_plan_review_reject en peer ps)"
  "evolves (stays_used tok) (h_plan_rejection_receive en peer ps)"
  "evolves (stays_used tok) (h_plan_handoff_complete en peer ps)"
  "evolves (stays_used tok) (h_task_update_content en peer ps)"
  "evolves (stays_used tok) (h_task_create en peer ps)"
  "evolves (stays_used tok) (h_task_create_receive en peer ps)"
  "evolves (stays_used tok) (h_task_update en peer ps)"
  "evolves (stays_used tok) (h_task_handoff_request en peer ps)"
  "evolves (stays_used tok) (h_task_handoff_receive en peer ps)"
  "evolves (stays_used tok) (h_handoff_receive en peer ps)"
  "evolves (stays_used tok) (h_task_review_request en peer ps)"
  "evolves (stays_used tok) (h_task_review_receive en peer ps)"
  "evolves (stays_used tok) (h_task_review_reject en peer ps)"
  "evolves (stays_used tok) (h_task_rejection_receive en peer ps)"
  "evolves (stays_used tok) (h_task_handoff_complete en peer ps)"
  "evolves (stays_used tok) (h_task_report_amend en peer ps)"
  "evolves (stays_used tok) (h_decision_ask en peer ps)"
  "evolves (stays_used tok) (h_decision_poll en peer ps)"
  "evolves (stays_used tok) (h_decision_answer en peer ps)"
  "evolves (stays_used tok) (h_decision_withdraw en peer ps)"
  unfolding
    h_session_identify_def h_development_start_def h_session_discard_request_def h_session_discard_def
    h_handoff_recover_def h_session_role_def h_monitor_check_def h_project_create_def h_project_list_def
    h_project_archive_def h_project_unarchive_def h_project_claim_def h_project_release_def h_goal_list_def
    h_goal_get_def h_goal_sessions_def h_goal_create_def h_goal_claim_def h_goal_release_def
    h_goal_withdraw_def h_goal_update_request_report_def h_goal_set_derived_from_def
    h_goal_handoff_request_def h_goal_handoff_receive_def h_goal_review_request_def
    h_goal_review_receive_def h_goal_review_reject_def h_goal_rejection_receive_def
    h_goal_handoff_complete_def h_goal_report_amend_def h_human_review_request_def
    h_human_review_complete_def h_plan_review_request_def h_plan_review_receive_def
    h_plan_review_reject_def h_plan_rejection_receive_def h_plan_handoff_complete_def
    h_task_update_content_def h_task_create_def h_task_create_receive_def h_task_update_def
    h_task_handoff_request_def h_task_handoff_receive_def h_handoff_receive_def h_task_review_request_def
    h_task_review_receive_def h_task_review_reject_def h_task_rejection_receive_def
    h_task_handoff_complete_def h_task_report_amend_def h_decision_ask_def h_decision_poll_def
    h_decision_answer_def h_decision_withdraw_def
  by (rule used_decode used_rules)+

lemma used_other_handlers:
  assumes "en_token en \<noteq> tok"
  shows "evolves (stays_used tok) (h_run_register en peer ps)"
    "evolves (stays_used tok) (h_capability_issue en peer ps)"
    "evolves (stays_used tok) (h_stop_check en peer ps)"
    "evolves (stays_used tok) (h_monitor_form_check en peer ps)"
    "evolves (stays_used tok) (h_tool_use_bind en peer ps)"
    "evolves (stays_used tok) (h_tool_use_resolve en peer ps)"
    "evolves (stays_used tok) (h_goal_complete en peer ps)"
    "evolves (stays_used tok) (h_goal_entry_append en peer ps)"
    "evolves (stays_used tok) (h_goal_entry_history en peer ps)"
    "evolves (stays_used tok) (h_handoff_complete en peer ps)"
    "evolves (stays_used tok) (h_task_entry_append en peer ps)"
    "evolves (stays_used tok) (h_task_entry_history en peer ps)"
    "evolves (stays_used tok) (h_review_exchange_list en peer ps)"
  unfolding
    h_run_register_def h_capability_issue_def h_stop_check_def h_monitor_form_check_def h_tool_use_bind_def
    h_tool_use_resolve_def h_goal_complete_def h_goal_entry_append_def h_goal_entry_history_def
    h_handoff_complete_def h_task_entry_append_def h_task_entry_history_def h_review_exchange_list_def
    run_register_def capability_issue_def handoff_complete_def appendGoalHandoffEntryRPC_def
    historyGoalHandoffEntryRPC_def appendTaskHandoffEntryRPC_def historyTaskHandoffEntryRPC_def
    listReviewExchangesRPC_def requireHandoffParticipant_def inReplyToStoreValue_def
  by (rule used_decode used_rules used_capabilities used_bindings assms)+

lemma used_handlers:
  assumes "en_token en \<noteq> tok"
  shows "\<forall>(m, h) \<in> set handlers. evolves (stays_used tok) (h en peer ps)"
  unfolding handlers_def by (simp add: used_store_handlers used_other_handlers [OF assms])

lemma used_dispatch:
  assumes "en_token en \<noteq> tok"
  shows "evolves (stays_used tok) (dispatchWithPeer en peer rq)"
proof -
  have "evolves (stays_used tok) (case map_of handlers m of None \<Rightarrow> fail e | Some h \<Rightarrow> h en peer ps)" for m e ps
    using used_handlers [OF assms, of peer ps] by (auto simp: used.ev_fail split: option.split dest: map_of_SomeD)
  then show ?thesis
    unfolding dispatchWithPeer_def dispatchMethodWithPeer_def Let_def
    by (intro used.ev_bnd used_on_store used.ev_ret)
qed

lemma used_serve:
  assumes "\<forall>(en, peer, rq) \<in> set requests. en_token en \<noteq> tok"
  shows "stays_used tok d (serve requests d)"
  using assms
proof (induction requests arbitrary: d)
  case (Cons r rs)
  obtain en peer rq where r: "r = (en, peer, rq)" by (cases r)
  with Cons.prems have "stays_used tok d (snd (dispatchWithPeer en peer rq d))"
    using used_dispatch by (fastforce simp: evolves_def)
  with Cons show ?case by (auto simp: serve_def r intro: used.trans)
qed (simp add: serve_def used.refl)

section \<open>Showing a capability\<close>

text \<open>
  Property C10. A capability is shown once. When a capability is accepted, the daemon holds it for the
  session it is accepted for and for the connection it comes from, its expiry has not been reached and
  it had not been shown before; the store is untouched; and it is refused as a replay at every later
  point of the life of the daemon, over every connection and at every time, as long as no new capability
  is issued under the same random text.
\<close>

theorem capability_is_shown_once:
  assumes run: "consumeMonitoredCallerCapability token peer now d = (Inr i, e)"
    and fresh: "\<forall>(en, peer, rq) \<in> set requests. en_token en \<noteq> TrimSpace token"
  shows "(\<exists>c. dm_capabilities d (TrimSpace token) = Some c \<and> cp_AgentSessionID c = i \<and> cp_PeerID c = peer
        \<and> \<not> cp_Used c \<and> now < cp_ExpiresAt c)
    \<and> dm_store e = dm_store d
    \<and> (\<forall>peer' now'. fst (consumeMonitoredCallerCapability token peer' now' (serve requests e))
                    = Inl (DaemonE ErrCapabilityReplay))"
proof -
  from run have blank: "TrimSpace token \<noteq> []" by (auto simp: consumeMonitoredCallerCapability_def op_run)
  from run obtain c where c: "dm_capabilities d (TrimSpace token) = Some c" "cp_AgentSessionID c = i" "cp_PeerID c = peer"
      "\<not> cp_Used c" "now < cp_ExpiresAt c"
    and e: "e = dm_capabilities_update (\<lambda>m. m(TrimSpace token \<mapsto> c\<lparr>cp_Used := True\<rparr>)) d"
    by (auto simp: consumeMonitoredCallerCapability_def Let_def op_run split: if_splits)
  from used_serve [OF fresh, of e] obtain c' where "dm_capabilities (serve requests e) (TrimSpace token) = Some c'" "cp_Used c'"
    by (auto simp: stays_used_def e)
  with blank have "fst (consumeMonitoredCallerCapability token peer' now' (serve requests e)) = Inl (DaemonE ErrCapabilityReplay)"
    for peer' now'
    by (simp add: consumeMonitoredCallerCapability_def Let_def bnd_def ask_def need_def ret_def check_def fail_def)
  with c e show ?thesis by auto
qed

theorem capability_is_shown_once_witness:
  "fst (consumeMonitoredCallerCapability '' token '' 7 (sec 101)
     (serve [(an_env\<lparr>en_token := ''other''\<rparr>, 7, withdraw_request)]
       (snd (consumeMonitoredCallerCapability '' token '' 7 (sec 101)
         (snd (issueMonitoredCallerCapability ''token'' 2 7 (sec 100) a_daemon))))))
   = Inl (DaemonE ErrCapabilityReplay)"
proof -
  let ?d = "snd (issueMonitoredCallerCapability ''token'' 2 7 (sec 100) a_daemon)"
  have ok: "\<not> isl (fst (consumeMonitoredCallerCapability '' token '' 7 (sec 101) ?d))" by code_simp
  have "TrimSpace '' token '' = ''token''" by code_simp
  then show ?thesis
    using capability_is_shown_once [OF run_ok [OF ok], of "[(an_env\<lparr>en_token := ''other''\<rparr>, 7, withdraw_request)]"]
    by simp
qed

end
