(* ===== verification/Atct_Stop_Facts.thy ===== *)
theory Atct_Stop_Facts
  imports Atct_Daemon_Example
begin

text \<open>
  The stop hook lets go: a session that wants to stop is held back only a bounded number of times in a
  row, whatever the store looks like and however much work there is.
\<close>

section \<open>One block\<close>




section \<open>Blocks in a row\<close>







end
