(* ===== verification/Atct_Wakeup_Facts.thy ===== *)
theory Atct_Wakeup_Facts
  imports Atct_Wakeup Atct_Example
begin

text \<open>
  What wakes an agent up is what is there: the counts of \<open>EvaluateWakeup\<close> against the tasks they count.
\<close>

section \<open>Reading the rows\<close>

lemma collect_value: "(\<And>x. x \<in> set xs \<Longrightarrow> f x s = (Inr (g x), s)) \<Longrightarrow> collect f xs s = (Inr (map g xs), s)"
  by (induction xs) (auto simp: bnd_def ret_def)

lemma search_some: "(\<And>x. x \<in> set xs \<Longrightarrow> \<exists>v. f x s = (Inr v, s)) \<Longrightarrow> \<exists>v. search f xs s = (Inr v, s)"
proof (induction xs)
  case (Cons x xs)
  then obtain v w where "f x s = (Inr v, s)" "search f xs s = (Inr w, s)" by fastforce
  then show ?case by (cases v) (auto simp: bnd_def ret_def)
qed (simp add: ret_def)

definition tasks_of :: "store \<Rightarrow> int \<Rightarrow> task list" where
  "tasks_of s goal = order_by (\<lambda>t. (t_sort_order t, t_id t)) (filter (\<lambda>t. t_goal_id t = goal) (tasks s))"

definition handoffs_of :: "store \<Rightarrow> int \<Rightarrow> handoff list" where
  "handoffs_of s task = order_by h_id (filter (\<lambda>h. h_owner h = task) (task_handoffs s))"

definition active_goals :: "store \<Rightarrow> int \<Rightarrow> goal list" where
  "active_goals s p = filter (\<lambda>g. g_status g = GoalActive) (order_by g_created_at
     (filter (\<lambda>g. g_project_id g = p \<and> \<not> project_archived (g_project_id g) s) (goals s)))"

text \<open>
  What the counts are about, on the rows alone: the tasks to do of a project's active goals that are not put
  off; the tasks somebody received and did not complete, and those of them that were not taken away by a
  recovery either; the tasks an open question is about.
\<close>

definition tasks_to_do :: "store \<Rightarrow> int \<Rightarrow> time \<Rightarrow> task set" where
  "tasks_to_do s p now = {t \<in> set (tasks s). t_status t = TaskTodo \<and> (\<forall>u. t_snoozed_until t = Some u \<longrightarrow> u \<le> now)
     \<and> (\<exists>g \<in> set (goals s). g_id g = t_goal_id t \<and> g_project_id g = p \<and> g_status g = GoalActive \<and> \<not> project_archived p s)}"

definition was_received :: "store \<Rightarrow> task \<Rightarrow> bool" where
  "was_received s t \<longleftrightarrow>
     (\<exists>h \<in> set (task_handoffs s). h_owner h = t_id t \<and> h_received_at h \<noteq> None \<and> h_completed_report_at h = None)"

definition is_held :: "store \<Rightarrow> task \<Rightarrow> bool" where
  "is_held s t \<longleftrightarrow>
     (\<exists>h \<in> set (task_handoffs s). h_owner h = t_id t \<and> h_received_at h \<noteq> None \<and> h_completed_report_at h = None
        \<and> h_recovered_at h = None)"

definition asked_about :: "store \<Rightarrow> task \<Rightarrow> bool" where
  "asked_about s t \<longleftrightarrow> t_id t \<noteq> 0
     \<and> (\<exists>d \<in> set (decisions s). d_status d = DecisionOpen \<and> d_goal_id d = t_goal_id t \<and> d_task_id d = Some (t_id t))"

definition waits_for_work :: "store \<Rightarrow> time \<Rightarrow> task \<Rightarrow> bool" where
  "waits_for_work s now t \<longleftrightarrow> t_status t = TaskTodo \<and> \<not> was_received s t
     \<and> (case t_snoozed_until t of None \<Rightarrow> True | Some u \<Rightarrow> u \<le> now)"

lemma ListTasks_value: "ListTasks goal s = (Inr (tasks_of s goal), s)"
  by (simp add: ListTasks_def ListTasks_sql_def ask_def tasks_of_def)

lemma ListTaskHandoffs_value: "t \<in> set (tasks s) \<Longrightarrow> ListTaskHandoffs (t_id t) s = (Inr (handoffs_of s (t_id t)), s)"
proof -
  assume "t \<in> set (tasks s)"
  then have "task_row (t_id t) s \<noteq> None" by (auto simp: task_row_def find_None_iff)
  then obtain u where "task_row (t_id t) s = Some u" by blast
  then show ?thesis
    by (simp add: ListTaskHandoffs_def ListTaskHandoffs_sql_def GetTaskGoalID_sql_def handoffs_of_def bnd_def ask_def
        need_def ret_def)
qed

lemma ListOpenDecisions_value: "\<exists>ds. ListOpenDecisions goal s = (Inr ds, s)
    \<and> (ds = [] \<longleftrightarrow> fst (ListOpenDecisions goal s) = Inr [])"
  by (simp add: ListOpenDecisions_def convertDecisionRows_def ListOpenDecisions_sql_def select_decisions_def bnd_def ask_def ret_def)

definition open_decisions :: "store \<Rightarrow> int \<Rightarrow> decision list" where
  "open_decisions s goal = projr (fst (ListOpenDecisions goal s))"

lemma ListOpenDecisions_run: "ListOpenDecisions goal s = (Inr (open_decisions s goal), s)"
  using ListOpenDecisions_value [of goal s] by (auto simp: open_decisions_def)

lemma open_decisions_rows:
  "map d_task_id (open_decisions s goal) = map (\<lambda>d. nullable (nz (d_task_id d)))
     (order_by d_created_at (filter (\<lambda>d. d_goal_id d = goal \<and> d_status d = DecisionOpen) (decisions s)))"
  by (simp add: open_decisions_def ListOpenDecisions_def convertDecisionRows_def ListOpenDecisions_sql_def select_decisions_def
      decisionFromRow_def bnd_def ask_def ret_def comp_def)

lemma no_open_decisions: "open_decisions s goal = [] \<longleftrightarrow> (\<forall>d \<in> set (decisions s). d_status d = DecisionOpen \<longrightarrow> d_goal_id d \<noteq> goal)"
proof -
  have "open_decisions s goal = [] \<longleftrightarrow> map d_task_id (open_decisions s goal) = []" by simp
  also have "\<dots> \<longleftrightarrow> set (order_by d_created_at (filter (\<lambda>d. d_goal_id d = goal \<and> d_status d = DecisionOpen) (decisions s))) = {}"
    by (simp only: open_decisions_rows map_is_Nil_conv set_empty)
  finally show ?thesis unfolding set_order_by set_filter by blast
qed

lemma work_value:
  "collect (\<lambda>t. bnd (ListTaskHandoffs (t_id t)) (\<lambda>hs. ret (t, hs))) (tasks_of s goal) s
    = (Inr (map (\<lambda>t. (t, handoffs_of s (t_id t))) (tasks_of s goal)), s)"
  by (rule collect_value) (auto simp: tasks_of_def ListTaskHandoffs_value bnd_def ret_def)

lemma unstarted_iff: "unstarted now (t, handoffs_of s (t_id t)) \<longleftrightarrow> waits_for_work s now t"
  by (auto simp: unstarted_def waits_for_work_def was_received_def claims_owner_def handoffs_of_def list_ex_iff)

lemma unstarted_work:
  "map fst (filter (unstarted now) (map (\<lambda>t. (t, handoffs_of s (t_id t))) ts)) = filter (waits_for_work s now) ts"
  by (induction ts) (auto simp: unstarted_iff)

definition awaits_answer :: "store \<Rightarrow> int \<Rightarrow> task \<Rightarrow> bool" where
  "awaits_answer s goal t \<longleftrightarrow> list_ex (\<lambda>d. d_task_id d \<noteq> None \<and> nz (d_task_id d) \<noteq> 0 \<and> nz (d_task_id d) = t_id t)
     (open_decisions s goal)"

lemma awaits_answer_iff: "awaits_answer s (t_goal_id t) t \<longleftrightarrow> asked_about s t"
proof -
  have "awaits_answer s (t_goal_id t) t
      \<longleftrightarrow> (\<exists>v \<in> set (map d_task_id (open_decisions s (t_goal_id t))). v \<noteq> None \<and> nz v \<noteq> 0 \<and> nz v = t_id t)"
    by (auto simp: awaits_answer_def list_ex_iff)
  also have "\<dots> \<longleftrightarrow> asked_about s t"
    unfolding open_decisions_rows set_map bex_simps(7)
    by (auto simp: asked_about_def nullable_def nz_def split: option.splits if_splits)
  finally show ?thesis .
qed

lemma wakeup_goal_value:
  "\<exists>w. wakeup_goal ps now g s = (Inr w, s)
    \<and> wk_UnstartedTaskCount w = length (filter (waits_for_work s now) (tasks_of s (g_id g)))
    \<and> wk_WaitingAnswerTaskCount w = length (filter (awaits_answer s (g_id g)) (filter (waits_for_work s now) (tasks_of s (g_id g))))
    \<and> wk_Tasks w = filter (\<lambda>t. \<not> awaits_answer s (g_id g) t) (filter (waits_for_work s now) (tasks_of s (g_id g)))
    \<and> wk_UntouchedTaskCount w = length (wk_Tasks w)"
proof -
  have linked: "\<exists>b. linked_commit ts s = (Inr b, s)" for ts
  proof -
    have "\<exists>v. search (\<lambda>t. bnd (ListTaskCommits (t_id t)) (\<lambda>cs. ret (if cs = [] then None else Some ()))) ts s = (Inr v, s)"
      by (rule search_some) (simp add: ListTaskCommits_def ListTaskCommits_sql_def bnd_def ask_def ret_def)
    then show ?thesis by (auto simp: linked_commit_def bnd_def ret_def)
  qed
  have "\<exists>b. (if c then linked_commit ts else ret True) s = (Inr b, s)" for c ts
    using linked by (cases c) (auto simp: ret_def)
  then obtain b where b: "(if tasks_of s (g_id g) \<noteq> [] \<and> list_all (\<lambda>t. t_status t \<in> {TaskDone, TaskDropped}) (tasks_of s (g_id g))
      \<and> list_ex (\<lambda>t. t_status t = TaskDone) (tasks_of s (g_id g)) then linked_commit (tasks_of s (g_id g)) else ret True) s = (Inr b, s)"
    by blast
  have gh: "ListGoalHandoffs (g_id g) s = (Inr (projr (fst (ListGoalHandoffs (g_id g) s))), s)"
    by (simp add: ListGoalHandoffs_def ListGoalHandoffs_sql_def ask_def)
  obtain ghs where ghs: "ListGoalHandoffs (g_id g) s = (Inr ghs, s)" using gh by blast
  show ?thesis
    unfolding wakeup_goal_def Let_def bnd_def [of "ListTasks _"] ListTasks_value bnd_def [of "ListOpenDecisions _"]
      ListOpenDecisions_run bnd_def [of "ListGoalHandoffs _"] ghs bnd_def [of "collect _ _"] work_value prod.case sum.case
      bnd_def [of "If _ _ _"] b
    by (simp add: ret_def no_wakeup_def unstarted_work awaits_answer_def [abs_def])
qed

section \<open>Adding up\<close>

lemma wk_foldl:
  "wk_UnstartedTaskCount (foldl wk_add z ws) = wk_UnstartedTaskCount z + sum_list (map wk_UnstartedTaskCount ws)"
  "wk_WaitingAnswerTaskCount (foldl wk_add z ws) = wk_WaitingAnswerTaskCount z + sum_list (map wk_WaitingAnswerTaskCount ws)"
  "wk_UntouchedTaskCount (foldl wk_add z ws) = wk_UntouchedTaskCount z + sum_list (map wk_UntouchedTaskCount ws)"
  "wk_Tasks (foldl wk_add z ws) = wk_Tasks z @ concat (map wk_Tasks ws)"
  by (induction ws arbitrary: z) (auto simp: wk_add_def)

definition unstarted_tasks :: "store \<Rightarrow> int \<Rightarrow> time \<Rightarrow> task list" where
  "unstarted_tasks s p now = concat (map (\<lambda>g. filter (waits_for_work s now) (tasks_of s (g_id g))) (active_goals s p))"

lemma unstarted_tasks_set: "set (unstarted_tasks s p now) = {t \<in> tasks_to_do s p now. \<not> was_received s t}"
  by (auto simp: unstarted_tasks_def tasks_of_def active_goals_def tasks_to_do_def waits_for_work_def split: option.splits)

lemma unstarted_tasks_distinct:
  assumes "wf_goals (goals s)" "wf_tasks (tasks s)"
  shows "distinct (unstarted_tasks s p now)"
proof -
  have d: "distinct (map g_id (active_goals s p))"
    using assms(1) by (auto simp: active_goals_def wf_goals_def filter_order_by distinct_order_by distinct_map_filter)
  have "distinct (map t_id (tasks_of s i))" for i
    using assms(2) by (auto simp: tasks_of_def wf_tasks_def intro!: distinct_order_by distinct_map_filter)
  then have ts: "distinct (tasks_of s i)" for i by (simp add: distinct_map)
  have "distinct (concat (map (\<lambda>g. filter (waits_for_work s now) (tasks_of s (g_id g))) gs))" if "distinct (map g_id gs)" for gs
    using that
  proof (induction gs)
    case (Cons g gs)
    then show ?case by (auto simp: ts) (auto simp: tasks_of_def)
  qed simp
  then show ?thesis unfolding unstarted_tasks_def using d by blast
qed

lemma EvaluateWakeup_value:
  assumes "p \<noteq> 0"
  shows "\<exists>st. EvaluateWakeup p now s = (Inr st, s)
    \<and> wk_UnstartedTaskCount st = sum_list (map (\<lambda>g. length (filter (waits_for_work s now) (tasks_of s (g_id g)))) (active_goals s p))
    \<and> wk_WaitingAnswerTaskCount st = sum_list (map (\<lambda>g. length (filter (awaits_answer s (g_id g))
         (filter (waits_for_work s now) (tasks_of s (g_id g))))) (active_goals s p))
    \<and> wk_UntouchedTaskCount st = length (wk_Tasks st)
    \<and> wk_Tasks st = concat (map (\<lambda>g. filter (\<lambda>t. \<not> awaits_answer s (g_id g) t)
         (filter (waits_for_work s now) (tasks_of s (g_id g)))) (active_goals s p))"
proof -
  obtain ps where ps: "ListProjects s = (Inr ps, s)" by (simp add: ListProjects_def ListProjects_sql_def ask_def)
  obtain ds where ds: "ListUnappliedDecisions s = (Inr ds, s)"
    by (simp add: ListUnappliedDecisions_def convertDecisionRows_def ListUnappliedDecisions_sql_def select_decisions_def
        bnd_def ask_def ret_def)
  obtain cl where cl: "ClaimLiveness p now s = (Inr cl, s)"
    using assms by (simp add: ClaimLiveness_def ListOpenTaskHandoffClaims_sql_def bnd_def ask_def)
  obtain gs where gs: "ListGoals p s = (Inr gs, s)" "filter (\<lambda>g. g_status g = GoalActive) gs = active_goals s p"
    by (simp add: ListGoals_def ListGoals_sql_def ask_def active_goals_def)
  have "\<forall>g. \<exists>v. wakeup_goal ps now g s = (Inr v, s)
      \<and> wk_UnstartedTaskCount v = length (filter (waits_for_work s now) (tasks_of s (g_id g)))
      \<and> wk_WaitingAnswerTaskCount v = length (filter (awaits_answer s (g_id g)) (filter (waits_for_work s now) (tasks_of s (g_id g))))
      \<and> wk_Tasks v = filter (\<lambda>t. \<not> awaits_answer s (g_id g) t) (filter (waits_for_work s now) (tasks_of s (g_id g)))
      \<and> wk_UntouchedTaskCount v = length (wk_Tasks v)"
    using wakeup_goal_value by blast
  then obtain w where w: "\<And>g. wakeup_goal ps now g s = (Inr (w g), s)"
    "\<And>g. wk_UnstartedTaskCount (w g) = length (filter (waits_for_work s now) (tasks_of s (g_id g)))"
    "\<And>g. wk_WaitingAnswerTaskCount (w g) = length (filter (awaits_answer s (g_id g)) (filter (waits_for_work s now) (tasks_of s (g_id g))))"
    "\<And>g. wk_Tasks (w g) = filter (\<lambda>t. \<not> awaits_answer s (g_id g) t) (filter (waits_for_work s now) (tasks_of s (g_id g)))"
    "\<And>g. wk_UntouchedTaskCount (w g) = length (wk_Tasks (w g))"
    by metis
  define st0 where "st0 = foldl wk_add no_wakeup (map w (active_goals s p))"
  have parts: "collect (wakeup_goal ps now) (active_goals s p) s = (Inr (map w (active_goals s p)), s)"
    by (rule collect_value) (simp add: w(1))
  obtain ca cb where c: "classifyWakeupDecisions ds (g_id ` set gs) = (ca, cb)" by fastforce
  have "EvaluateWakeup p now s = (Inr (st0\<lparr>wk_AnsweredUnappliedDecisions := ca, wk_DefaultUnappliedDecisions := cb,
      wk_StaleClaims := filter (\<lambda>t. t_goal_id t \<in> g_id ` set (active_goals s p)) (snd cl),
      wk_UnassignedGoalIDs := sort (wk_UnassignedGoalIDs st0)\<rparr>), s)"
    unfolding EvaluateWakeup_def Let_def bnd_def [of "ListGoals _"] bnd_def [of ListProjects] bnd_def [of ListUnappliedDecisions]
      bnd_def [of "ClaimLiveness _ _"] gs ps ds cl prod.case sum.case case_prod_beta c fst_conv snd_conv
      bnd_def [of "collect _ _"] parts st0_def [symmetric] ret_def by (rule refl)
  moreover have "wk_UnstartedTaskCount st0 = sum_list (map (\<lambda>g. length (filter (waits_for_work s now) (tasks_of s (g_id g)))) (active_goals s p))"
    "wk_WaitingAnswerTaskCount st0 = sum_list (map (\<lambda>g. length (filter (awaits_answer s (g_id g))
         (filter (waits_for_work s now) (tasks_of s (g_id g))))) (active_goals s p))"
    "wk_UntouchedTaskCount st0 = length (wk_Tasks st0)"
    "wk_Tasks st0 = concat (map (\<lambda>g. filter (\<lambda>t. \<not> awaits_answer s (g_id g) t)
         (filter (waits_for_work s now) (tasks_of s (g_id g)))) (active_goals s p))"
    unfolding st0_def wk_foldl by (simp_all add: no_wakeup_def w(2-5) comp_def length_concat)
  ultimately show ?thesis by (intro exI conjI) (assumption | simp)+
qed

lemma CountUnstartedTasks_value:
  "CountUnstartedTasks p now s = (Inr (sum_list (map (\<lambda>g. if open_decisions s (g_id g) \<noteq> [] then 0
     else length (filter (waits_for_work s now) (tasks_of s (g_id g)))) (active_goals s p))), s)"
proof -
  obtain gs where gs: "ListGoals p s = (Inr gs, s)" "filter (\<lambda>g. g_status g = GoalActive) gs = active_goals s p"
    by (simp add: ListGoals_def ListGoals_sql_def ask_def active_goals_def)
  let ?f = "\<lambda>g. bnd (ListOpenDecisions (g_id g)) (\<lambda>openDecisions.
       if openDecisions \<noteq> [] then ret 0
       else bnd (ListTasks (g_id g)) (\<lambda>ts.
         bnd (collect (\<lambda>t. bnd (ListTaskHandoffs (t_id t)) (\<lambda>hs. ret (t, hs))) ts) (\<lambda>work.
         ret (length (filter (unstarted now) work)))))"
  let ?h = "\<lambda>g. if open_decisions s (g_id g) \<noteq> [] then 0 else length (filter (waits_for_work s now) (tasks_of s (g_id g)))"
  have one: "?f g s = (Inr (?h g), s)" for g
  proof -
    have "bnd (ListTasks (g_id g)) (\<lambda>ts.
        bnd (collect (\<lambda>t. bnd (ListTaskHandoffs (t_id t)) (\<lambda>hs. ret (t, hs))) ts) (\<lambda>work.
        ret (length (filter (unstarted now) work)))) s
      = (Inr (length (filter (waits_for_work s now) (tasks_of s (g_id g)))), s)"
      unfolding bnd_def [of "ListTasks _"] ListTasks_value prod.case sum.case bnd_def [of "collect _ _"] work_value
        unstarted_work [symmetric] length_map by (simp only: ret_def)
    then show ?thesis by (simp add: bnd_def [of "ListOpenDecisions _"] ListOpenDecisions_run ret_def)
  qed
  have "collect ?f (active_goals s p) s = (Inr (map ?h (active_goals s p)), s)"
    by (rule collect_value) (rule one)
  then show ?thesis
    unfolding CountUnstartedTasks_def bnd_def [of "ListGoals _"] gs prod.case sum.case bnd_def [of "collect _ _"]
    by (simp only: gs prod.case sum.case ret_def)
qed

lemma sum_filters: "sum_list (map (\<lambda>x. length (filter (P x) (f x))) xs) + sum_list (map (\<lambda>x. length (filter (\<lambda>y. \<not> P x y) (f x))) xs)
    = sum_list (map (\<lambda>x. length (f x)) xs)"
  by (simp add: sum_list_addf [symmetric] sum_length_filter_compl)

lemma length_parts: "distinct (concat (map f xs)) \<Longrightarrow> (\<And>x. x \<in> set xs \<Longrightarrow> filter (Q x) (f x) = filter P (f x))
   \<Longrightarrow> sum_list (map (\<lambda>x. length (filter (Q x) (f x))) xs) = card {y \<in> set (concat (map f xs)). P y}"
proof -
  assume d: "distinct (concat (map f xs))" and same: "\<And>x. x \<in> set xs \<Longrightarrow> filter (Q x) (f x) = filter P (f x)"
  then have "sum_list (map (\<lambda>x. length (filter (Q x) (f x))) xs) = sum_list (map (\<lambda>x. length (filter P (f x))) xs)"
    by (intro arg_cong [where f = sum_list] map_cong) simp_all
  also have "\<dots> = length (filter P (concat (map f xs)))"
    by (simp add: filter_concat length_concat comp_def)
  also have "\<dots> = card (set (filter P (concat (map f xs))))"
    using d by (intro distinct_card [symmetric]) (rule distinct_filter)
  finally show ?thesis by simp
qed

text \<open>
  Property C31. The wake-up counts the tasks there are. On a consistent store \<open>EvaluateWakeup\<close> of a
  project always returns. What it calls unstarted are exactly the tasks to do of the project's active goals that
  are not put off and of which no handoff was received and not completed, each counted once; of these, what it
  lists as untouched are those no open question is about, and what it calls waiting are the others. The
  narrower \<open>CountUnstartedTasks\<close> counts those whose goal has no open question at all. While no handoff that
  was received and not completed has been recovered, these are the tasks to do that nobody holds; a recovered
  handoff still counts as a claim, so the count may be smaller, but never larger.
\<close>

theorem wakeup_counts_what_is_there:
  assumes wf: "wf_store s" and p: "p \<noteq> 0"
  shows "\<exists>st n. EvaluateWakeup p now s = (Inr st, s) \<and> CountUnstartedTasks p now s = (Inr n, s)
    \<and> wk_UnstartedTaskCount st = card {t \<in> tasks_to_do s p now. \<not> was_received s t}
    \<and> wk_WaitingAnswerTaskCount st = card {t \<in> tasks_to_do s p now. \<not> was_received s t \<and> asked_about s t}
    \<and> set (wk_Tasks st) = {t \<in> tasks_to_do s p now. \<not> was_received s t \<and> \<not> asked_about s t}
    \<and> distinct (wk_Tasks st) \<and> wk_UntouchedTaskCount st = length (wk_Tasks st)
    \<and> wk_WaitingAnswerTaskCount st + wk_UntouchedTaskCount st = wk_UnstartedTaskCount st
    \<and> n = card {t \<in> tasks_to_do s p now. \<not> was_received s t
          \<and> \<not> (\<exists>d \<in> set (decisions s). d_status d = DecisionOpen \<and> d_goal_id d = t_goal_id t)}
    \<and> n \<le> wk_UnstartedTaskCount st
    \<and> wk_UnstartedTaskCount st \<le> card {t \<in> tasks_to_do s p now. \<not> is_held s t}
    \<and> ((\<forall>h \<in> set (task_handoffs s). h_received_at h \<noteq> None \<and> h_completed_report_at h = None \<longrightarrow> h_recovered_at h = None)
        \<longrightarrow> wk_UnstartedTaskCount st = card {t \<in> tasks_to_do s p now. \<not> is_held s t})"
proof -
  let ?todo = "\<lambda>g. filter (waits_for_work s now) (tasks_of s (g_id g))"
  let ?free = "\<lambda>g. open_decisions s (g_id g) = []"
  obtain st where st: "EvaluateWakeup p now s = (Inr st, s)"
    "wk_UnstartedTaskCount st = sum_list (map (\<lambda>g. length (?todo g)) (active_goals s p))"
    "wk_WaitingAnswerTaskCount st = sum_list (map (\<lambda>g. length (filter (awaits_answer s (g_id g)) (?todo g))) (active_goals s p))"
    "wk_UntouchedTaskCount st = length (wk_Tasks st)"
    "wk_Tasks st = concat (map (\<lambda>g. filter (\<lambda>t. \<not> awaits_answer s (g_id g) t) (?todo g)) (active_goals s p))"
    using EvaluateWakeup_value [OF p] by blast
  have d: "distinct (unstarted_tasks s p now)" using unstarted_tasks_distinct wf_store_parts [OF wf] by blast
  have goal: "t_goal_id t = g_id g" if "t \<in> set (?todo g)" for g t using that by (simp add: tasks_of_def)
  note parts = length_parts [OF d [unfolded unstarted_tasks_def], folded unstarted_tasks_def]
  have same: "filter (awaits_answer s (g_id g)) (?todo g) = filter (asked_about s) (?todo g)"
    "filter (\<lambda>t. \<not> awaits_answer s (g_id g) t) (?todo g) = filter (\<lambda>t. \<not> asked_about s t) (?todo g)"
    "filter (\<lambda>t. open_decisions s (g_id g) = []) (?todo g) = filter (\<lambda>t. open_decisions s (t_goal_id t) = []) (?todo g)" for g
    by (intro filter_cong refl; use goal [of _ g] awaits_answer_iff [of s] in force)+
  have count: "wk_UnstartedTaskCount st = card {t \<in> tasks_to_do s p now. \<not> was_received s t}"
    using parts [of "\<lambda>_ _. True" "\<lambda>_. True"] by (simp add: st(2) unstarted_tasks_set)
  have waiting: "wk_WaitingAnswerTaskCount st = card {t \<in> tasks_to_do s p now. \<not> was_received s t \<and> asked_about s t}"
    using parts [OF same(1)] by (simp add: st(3) unstarted_tasks_set conj_assoc)
  have tasks: "wk_Tasks st = filter (\<lambda>t. \<not> asked_about s t) (unstarted_tasks s p now)"
    unfolding st(5) unstarted_tasks_def filter_concat map_map comp_def
    by (intro arg_cong [where f = concat] map_cong refl same(2))
  have sums: "wk_WaitingAnswerTaskCount st + wk_UntouchedTaskCount st = wk_UnstartedTaskCount st"
    using sum_filters [of "\<lambda>g. awaits_answer s (g_id g)" ?todo "active_goals s p"]
    by (simp only: st(2-5) length_concat map_map comp_def)
  let ?n = "sum_list (map (\<lambda>g. if open_decisions s (g_id g) \<noteq> [] then 0 else length (?todo g)) (active_goals s p))"
  have le: "?n \<le> wk_UnstartedTaskCount st"
    unfolding st(2) by (rule sum_list_mono) simp
  have "?n = sum_list (map (\<lambda>g. length (filter (\<lambda>t. ?free g) (?todo g))) (active_goals s p))"
    by (intro arg_cong [where f = sum_list] map_cong) simp_all
  also have "\<dots> = card {t \<in> tasks_to_do s p now. \<not> was_received s t
      \<and> \<not> (\<exists>d \<in> set (decisions s). d_status d = DecisionOpen \<and> d_goal_id d = t_goal_id t)}"
    unfolding parts [OF same(3)] by (intro arg_cong [where f = card]) (auto simp: unstarted_tasks_set no_open_decisions)
  finally have n: "?n = card {t \<in> tasks_to_do s p now. \<not> was_received s t
      \<and> \<not> (\<exists>d \<in> set (decisions s). d_status d = DecisionOpen \<and> d_goal_id d = t_goal_id t)}" .
  have "finite (tasks_to_do s p now)" by (simp add: tasks_to_do_def)
  then have held: "wk_UnstartedTaskCount st \<le> card {t \<in> tasks_to_do s p now. \<not> is_held s t}"
    unfolding count by (intro card_mono) (auto simp: was_received_def is_held_def)
  have "wk_UnstartedTaskCount st = card {t \<in> tasks_to_do s p now. \<not> is_held s t}"
    if "\<forall>h \<in> set (task_handoffs s). h_received_at h \<noteq> None \<and> h_completed_report_at h = None \<longrightarrow> h_recovered_at h = None"
  proof -
    have "was_received s t \<longleftrightarrow> is_held s t" for t
      using that unfolding was_received_def is_held_def by blast
    then show ?thesis unfolding count by simp
  qed
  with st(1,4) count waiting tasks sums le n held d CountUnstartedTasks_value [of p now s] show ?thesis
    by (intro exI conjI) (assumption | simp add: unstarted_tasks_set conj_assoc | blast)+
qed

text \<open>
  A store with a second task, to do: its handoff was completed, so nobody holds it.
\<close>

definition more_to_do :: store where
  "more_to_do = example
     \<lparr>tasks := [a_task 1, (a_task 2)\<lparr>t_status := TaskTodo\<rparr>],
      task_handoffs := task_handoffs example @
        [(receive_row (Some 3) (sec 4) (new_handoff ''done'' 2 (Some 2) (sec 3) None))\<lparr>h_completed_report_at := Some (sec 9)\<rparr>]\<rparr>"

theorem wakeup_counts_what_is_there_witness:
  "\<exists>st. EvaluateWakeup 1 (sec 100) more_to_do = (Inr st, more_to_do)
    \<and> wk_UnstartedTaskCount st = 1 \<and> set (wk_Tasks st) = {(a_task 2)\<lparr>t_status := TaskTodo\<rparr>}"
proof -
  have wf: "wf_store more_to_do" by code_simp
  have todo: "tasks_to_do more_to_do 1 (sec 100) = {(a_task 2)\<lparr>t_status := TaskTodo\<rparr>}"
    by (auto simp: tasks_to_do_def more_to_do_def example_def a_task_def a_goal_def project_archived_def)
  have free: "\<not> was_received more_to_do ((a_task 2)\<lparr>t_status := TaskTodo\<rparr>)" "\<not> asked_about more_to_do ((a_task 2)\<lparr>t_status := TaskTodo\<rparr>)"
    by (simp_all add: was_received_def asked_about_def more_to_do_def example_def a_task_def a_decision_def receive_row_def new_handoff_def)
  have "{t \<in> tasks_to_do more_to_do 1 (sec 100). \<not> was_received more_to_do t} = {(a_task 2)\<lparr>t_status := TaskTodo\<rparr>}"
    "{t \<in> tasks_to_do more_to_do 1 (sec 100). \<not> was_received more_to_do t \<and> \<not> asked_about more_to_do t} = {(a_task 2)\<lparr>t_status := TaskTodo\<rparr>}"
    unfolding todo using free by auto
  with wakeup_counts_what_is_there [OF wf, of 1 "sec 100"] show ?thesis by auto
qed

section \<open>A recovered claim\<close>

text \<open>
  A recovered claim hides the task. Session 4 holds the task and its lease has lapsed; session 2
  recovers the handoff and the human gives the task back. The task is to do, no handoff of it is open and nobody
  holds it, yet the wake-up does not count it: it takes the recovered handoff, which was received and will never
  be completed, for a claim.
\<close>

theorem recovered_claim_hides_the_task:
  "let (r, t) = RecoverTaskHandoff ''th'' 1 2 ''lost'' (sec 100) abandoned;
       (q, u) = ReleaseTaskForHuman 1 (sec 101) t;
       (w, v) = EvaluateWakeup 1 (sec 102) u
   in \<not> isl r \<and> \<not> isl q \<and> wf_store u
    \<and> map t_status (tasks u) = [TaskTodo] \<and> map handoff_open (task_handoffs u) = [False]
    \<and> map_sum id wk_UnstartedTaskCount w = Inr 0"
  by code_simp

end
