(* ===== verification/Atct_Parse_Time.thy ===== *)
theory Atct_Parse_Time
  imports Atct_Timestamp Atct_Task_Create
begin

text \<open>
  \<^verbatim>\<open>time.Parse(time.RFC3339, value)\<close>, with which the dashboard's texts become times
  (\<^verbatim>\<open>handleSnooze\<close> in \<^verbatim>\<open>internal/httpapi/server.go\<close>): the reader of
  Go's library for the layout \<^verbatim>\<open>2006-01-02T15:04:05Z07:00\<close>. It takes a fraction the
  layout does not have, an hour of one digit, and offsets up to 24 hours and 60 minutes.
\<close>

section \<open>Reading a prefix\<close>

type_synonym 'a reader = "string \<Rightarrow> ('a \<times> string) option"

definition andthen :: "'a reader \<Rightarrow> ('a \<Rightarrow> 'b reader) \<Rightarrow> 'b reader" where
  "andthen p f = (\<lambda>s. case p s of None \<Rightarrow> None | Some (x, r) \<Rightarrow> f x r)"

definition literal :: "char \<Rightarrow> unit reader" where
  "literal c s = (case s of a # r \<Rightarrow> if a = c then Some ((), r) else None | [] \<Rightarrow> None)"

definition digit_nat :: "char \<Rightarrow> nat" where
  "digit_nat c = nat (digit_value c)"

fun getnum :: "bool \<Rightarrow> nat reader" where
  "getnum fixed (a # b # s) =
     (if \<not> is_digit a then None
      else if is_digit b then Some (10 * digit_nat a + digit_nat b, s)
      else if fixed then None else Some (digit_nat a, b # s))"
| "getnum fixed [a] = (if is_digit a \<and> \<not> fixed then Some (digit_nat a, []) else None)"
| "getnum fixed [] = None"

definition number :: "string \<Rightarrow> nat" where
  "number ds = foldl (\<lambda>n c. 10 * n + digit_nat c) 0 ds"

definition year4 :: "nat reader" where
  "year4 s = (if 4 \<le> length s \<and> list_all is_digit (take 4 s) then Some (number (take 4 s), drop 4 s) else None)"

text \<open>A number of two digits below a bound.\<close>

definition below :: "nat \<Rightarrow> bool \<Rightarrow> nat reader" where
  "below b fixed = andthen (getnum fixed) (\<lambda>n r. if n < b then Some (n, r) else None)"

text \<open>A fraction of any length; digits after the ninth are dropped.\<close>

definition fraction :: "nat reader" where
  "fraction s =
     (case s of
        c # d # r \<Rightarrow>
          if (c = CHR ''.'' \<or> c = CHR '','') \<and> is_digit d
          then let ds = takeWhile is_digit (d # r); used = take 9 ds
               in Some (number used * 10 ^ (9 - length used), drop (length ds) (d # r))
          else Some (0, s)
      | _ \<Rightarrow> Some (0, s))"

definition zone :: "int reader" where
  "zone s =
     (case s of
        a # r \<Rightarrow>
          if a = CHR ''Z'' then Some (0, r)
          else (case r of
            h1 # h2 # c # m1 # m2 # t \<Rightarrow>
              (case (getnum True [h1, h2], getnum True [m1, m2]) of
                (Some (h, _), Some (m, _)) \<Rightarrow>
                  if c = CHR '':'' \<and> (a = CHR ''+'' \<or> a = CHR ''-'') \<and> h \<le> 24 \<and> m \<le> 60
                  then Some ((if a = CHR ''-'' then -1 else 1) * int ((h * 60 + m) * 60), t) else None
              | _ \<Rightarrow> None)
          | _ \<Rightarrow> None)
      | [] \<Rightarrow> None)"

section \<open>The whole text\<close>

definition read_date :: "(nat \<times> nat \<times> nat) reader" where
  "read_date =
     andthen year4 (\<lambda>y. andthen (literal CHR ''-'') (\<lambda>_. andthen (below 13 True) (\<lambda>m.
     andthen (literal CHR ''-'') (\<lambda>_. andthen (getnum True) (\<lambda>d r. Some ((y, m, d), r))))))"

definition read_clock :: "(nat \<times> nat \<times> nat \<times> nat) reader" where
  "read_clock =
     andthen (below 24 False) (\<lambda>h. andthen (literal CHR '':'') (\<lambda>_. andthen (below 60 True) (\<lambda>m.
     andthen (literal CHR '':'') (\<lambda>_. andthen (below 60 True) (\<lambda>s.
     andthen fraction (\<lambda>n r. Some ((h, m, s, n), r)))))))"

text \<open>The instant: that of the same fields in UTC, less the offset.\<close>

definition ParseRFC3339 :: "string \<Rightarrow> int option" where
  "ParseRFC3339 value =
     (case andthen read_date (\<lambda>(y, mo, d). andthen (literal CHR ''T'') (\<lambda>_.
             andthen read_clock (\<lambda>(h, mi, s, n). andthen zone (\<lambda>off r. Some ((UTC y mo d h mi s n, off), r))))) value of
        Some ((u, off), []) \<Rightarrow>
          if 1 \<le> u_month u \<and> 1 \<le> u_day u \<and> u_day u \<le> month_lengths (u_year u) ! (u_month u - 1)
          then Some (int (instant u) - off * 1000000000) else None
      | _ \<Rightarrow> None)"

section \<open>What is written is read back\<close>

lemma digit_char_nat: "n < 10 \<Longrightarrow> digit_nat (char_of (48 + n)) = n" "n < 10 \<Longrightarrow> is_digit (char_of (48 + n))"
  by (simp_all add: digit_nat_def digit_char is_digit_def)

lemma pad_digits: "list_all is_digit (pad w n)"
  by (induction w arbitrary: n) (simp_all add: pad_unfold digit_char_nat)

lemma number_append: "number (ds @ es) = number ds * 10 ^ length es + number es"
proof (induction es rule: rev_induct)
  case (snoc e es)
  have "number (xs @ [e]) = 10 * number xs + digit_nat e" for xs by (simp add: number_def)
  from this [of "ds @ es"] this [of es] snoc show ?case by (simp add: algebra_simps)
qed (simp add: number_def)

lemma number_pad: "n < 10 ^ w \<Longrightarrow> number (pad w n) = n"
proof (induction w arbitrary: n)
  case (Suc w)
  then have "n div 10 < 10 ^ w" by (simp add: less_mult_imp_div_less)
  from Suc.IH [OF this] show ?case
    using number_append [of "pad w (n div 10)" "[char_of (48 + n mod 10)]"]
    by (simp add: pad_unfold number_def digit_char_nat)
qed (simp add: pad_unfold number_def)

lemma getnum_pad: "n < 100 \<Longrightarrow> getnum fixed (pad 2 n @ r) = Some (n, r)"
proof -
  assume n: "n < 100"
  then have "n div 10 < 10" by simp
  with n show ?thesis
    using digit_char_nat [of "n div 10"] digit_char_nat [of "n mod 10"]
    by (simp add: numeral_2_eq_2 pad_unfold)
qed

lemma below_pad: "n < b \<Longrightarrow> n < 100 \<Longrightarrow> below b fixed (pad 2 n @ r) = Some (n, r)"
  by (simp add: below_def andthen_def getnum_pad)

lemma year4_pad: "n < 10000 \<Longrightarrow> year4 (pad 4 n @ r) = Some (n, r)"
  by (simp add: year4_def pad_digits number_pad)

lemma literal_same: "literal c (c # r) = Some ((), r)"
  by (simp add: literal_def)

lemma number_zeros: "number (replicate k CHR ''0'') = 0"
  by (induction k) (simp_all add: number_def digit_nat_def digit_value_def)

lemma is_digit_Z: "\<not> is_digit CHR ''Z''"
  by (simp add: is_digit_def digit_value_def)

lemma fraction_digits:
  assumes "list_all is_digit ds" and "ds \<noteq> []" and "length ds \<le> 9"
  shows "fraction (''.'' @ ds @ ''Z'') = Some (number ds * 10 ^ (9 - length ds), ''Z'')"
proof -
  obtain d r where ds: "ds = d # r" using assms(2) by (cases ds) auto
  have "takeWhile is_digit (ds @ ''Z'') = ds"
    using assms(1) by (induction ds) (simp_all add: is_digit_Z)
  with assms ds show ?thesis by (simp add: fraction_def Let_def)
qed

lemma fraction_none: "fraction ''Z'' = Some (0, ''Z'')"
  by (simp add: fraction_def)

lemma read_date_time:
  assumes "valid_utc u" and "fraction f = Some (u_nano u, ''Z'')"
  shows "ParseRFC3339 (date_time u @ f) = Some (int (instant u))"
proof -
  note b = field_bounds [OF assms(1)]
  have f: "fraction f = Some (u_nano u, [CHR ''Z''])" using assms(2) by simp
  from assms(1) b show ?thesis
    by (cases u) (simp add: ParseRFC3339_def read_date_def read_clock_def andthen_def date_time_def year4_pad below_pad
        getnum_pad literal_same valid_utc_def zone_def f)
qed

lemma stripped_fraction:
  fixes n :: nat
  assumes "n < 10 ^ 9"
  defines "ds \<equiv> rev (dropWhile (\<lambda>c. c = CHR ''0'') (rev (pad 9 n)))"
  shows "list_all is_digit ds" "length ds \<le> 9" "number ds * 10 ^ (9 - length ds) = n"
proof -
  let ?k = "length (takeWhile (\<lambda>c. c = CHR ''0'') (rev (pad 9 n)))"
  have zeros: "takeWhile (\<lambda>c. c = CHR ''0'') xs = replicate (length (takeWhile (\<lambda>c. c = CHR ''0'') xs)) CHR ''0''" for xs
    by (induction xs) auto
  have "rev (pad 9 n) = replicate ?k CHR ''0'' @ rev ds"
    using zeros [of "rev (pad 9 n)"] takeWhile_dropWhile_id [of "\<lambda>c. c = CHR ''0''" "rev (pad 9 n)"]
    by (simp add: ds_def)
  then have p: "pad 9 n = ds @ replicate ?k CHR ''0''"
    by (metis rev_append rev_replicate rev_rev_ident)
  then have len: "length ds + ?k = 9" by (metis length_append length_pad length_replicate)
  from pad_digits [of 9 n] p show "list_all is_digit ds" by (metis list_all_append)
  from len show "length ds \<le> 9" by simp
  have "number (pad 9 n) = number ds * 10 ^ ?k"
    unfolding arg_cong [OF p, of number] by (simp add: number_append number_zeros)
  moreover have "number (pad 9 n) = n" using assms(1) by (rule number_pad)
  moreover have "9 - length ds = ?k" using len by simp
  ultimately show "number ds * 10 ^ (9 - length ds) = n" by simp
qed

text \<open>
  Property C39. A time that was written as text, in the spelling of the store or in that of Go's JSON, is read
  back as the instant it was, to the nanosecond.
\<close>

theorem written_times_are_read_back:
  assumes "valid_utc u"
  shows "ParseRFC3339 (formatTimestamp u) = Some (int (instant u))
    \<and> ParseRFC3339 (formatRFC3339Nano u) = Some (int (instant u))"
proof
  have n: "u_nano u < 10 ^ 9" by (rule field_bounds [OF assms])
  have "pad 9 (u_nano u) \<noteq> []" using length_pad [of 9 "u_nano u"] by (metis list.size(3) zero_neq_numeral)
  from fraction_digits [OF pad_digits this] number_pad [OF n]
  have "fraction (''.'' @ pad 9 (u_nano u) @ ''Z'') = Some (u_nano u, ''Z'')" by simp
  from read_date_time [OF assms this] show "ParseRFC3339 (formatTimestamp u) = Some (int (instant u))"
    by (simp add: formatTimestamp_def)
  let ?ds = "rev (dropWhile (\<lambda>c. c = CHR ''0'') (rev (pad 9 (u_nano u))))"
  note s = stripped_fraction [OF n]
  have "fraction ((if ?ds = [] then [] else ''.'' @ ?ds) @ ''Z'') = Some (u_nano u, ''Z'')"
  proof (cases "?ds = []")
    case True
    with s(3) have "u_nano u = 0" by (simp only: number_def) simp
    with True fraction_none show ?thesis by simp
  next
    case False
    from fraction_digits [OF s(1) this s(2)] s(3) False show ?thesis by (simp only: if_False append_assoc)
  qed
  from read_date_time [OF assms this] show "ParseRFC3339 (formatRFC3339Nano u) = Some (int (instant u))"
    by (simp add: formatRFC3339Nano_def Let_def)
qed

theorem written_times_are_read_back_witness:
  "ParseRFC3339 (formatRFC3339Nano (UTC 2024 2 29 23 59 58 120000000)) = Some (int (instant (UTC 2024 2 29 23 59 58 120000000)))"
  using written_times_are_read_back [of "UTC 2024 2 29 23 59 58 120000000"]
  by (simp add: valid_utc_def month_lengths_def leap_def)

end
