(* ===== verification/Atct_Http.thy ===== *)
theory Atct_Http
  imports Atct_Dispatch Atct_Parse_Time
begin

text \<open>
  The HTTP server of the dashboard (\<^verbatim>\<open>internal/httpapi/server.go\<close>): the routes, the
  guard of archived projects and the endpoints that change the store, with the status of every answer.
  An endpoint that only renders rows is named by its route and not followed further.
\<close>

section \<open>Requests and replies\<close>

text \<open>
  A body is missing or empty, is not one JSON value, or is one. The parameters: the clock and the surroundings
  of the daemon, \<^verbatim>\<open>strconv.Quote\<close>, the digest of a monitor's id, and the JSON reader for
  the report of a monitor with the time it stopped.
\<close>

datatype body = NoBody | BadBody | Body json

record http_request =
  hr_Method :: string
  hr_Path :: string
  hr_Body :: body

record http_env =
  he_env :: env
  he_quote :: "string \<Rightarrow> string"
  he_sha256 :: "string \<Rightarrow> string"
  he_health :: "json \<Rightarrow> (MonitorHealth \<times> time option) option"

datatype cause = Said string | Because error

datatype endpoint =
    UISettings | UILocale | InboxPage | MonitorHealthPage | BindingPage string | EventStream | EventReconciliation
  | WebSocketEvents | ProjectsPage | ArchiveEndpoint string bool | CreateGoalEndpoint | GoalHandoffsPage string string
  | GoalPage string | WithdrawEndpoint string | DerivedFromEndpoint string | GoalDiffPage string
  | ReviewExchangesPage string string | TaskPage string | TaskHandoffsPage string string
  | TaskCommitDiffPage string string | ReleaseEndpoint string | SnoozeEndpoint string | DecisionEndpoint string string

datatype reply_body =
    ErrorReply cause | GoalReply goal | TaskReply task | DecisionReply decision | ProjectReply project
  | LocaleReply string | HealthReply MonitorHealth "time option" | BindingReply MonitorAssignment | PendingBinding
  | PageReply endpoint

record reply =
  re_Status :: nat
  re_Body :: reply_body

text \<open>A handler ends with a reply, early or late.\<close>

type_synonym 'a http_op = "(store, reply, 'a) op"

definition errorReply :: "nat \<Rightarrow> string \<Rightarrow> reply" where
  "errorReply st m = \<lparr>re_Status = st, re_Body = ErrorReply (Said m)\<rparr>"

definition causeReply :: "nat \<Rightarrow> error \<Rightarrow> reply" where
  "causeReply st e = \<lparr>re_Status = st, re_Body = ErrorReply (Because e)\<rparr>"

definition okReply :: "reply_body \<Rightarrow> reply" where
  "okReply b = \<lparr>re_Status = 200, re_Body = b\<rparr>"

definition storeErrorReply :: "error \<Rightarrow> reply" where
  "storeErrorReply e = causeReply (if e = ProjectE ErrProjectArchived then 409 else 500) e"

text \<open>A call of the store: its error is looked at, or becomes a reply.\<close>

definition attempt :: "'a store_op \<Rightarrow> (error + 'a) http_op" where
  "attempt m = (\<lambda>s. case m s of (r, t) \<Rightarrow> (Inr r, t))"

definition calling :: "(error \<Rightarrow> reply) \<Rightarrow> 'a store_op \<Rightarrow> 'a http_op" where
  "calling g m = bnd (attempt m) (\<lambda>r. case r of Inl e \<Rightarrow> fail (g e) | Inr x \<Rightarrow> ret x)"

text \<open>The status of some errors; the others are errors of the store.\<close>

definition status_of :: "(error \<times> nat) list \<Rightarrow> error \<Rightarrow> reply" where
  "status_of known e = (case map_of known e of Some st \<Rightarrow> causeReply st e | None \<Rightarrow> storeErrorReply e)"

definition resolving :: "string \<Rightarrow> int http_op" where
  "resolving v = calling (causeReply 404) (resolveID v)"

definition read_body :: "struct \<Rightarrow> body \<Rightarrow> (fields \<Rightarrow> 'a http_op) \<Rightarrow> 'a http_op" where
  "read_body sig b f =
     (let bad = fail (errorReply 400 ''invalid JSON body'') in
      case b of
        Body v \<Rightarrow> (case object_fields (Some v) of
            None \<Rightarrow> bad
          | Some fs \<Rightarrow> if list_all (\<lambda>(k, ty). has_type ty (field fs k)) sig then f fs else bad)
      | _ \<Rightarrow> bad)"

text \<open>\<^verbatim>\<open>inputID\<close>: a text or an integer.\<close>

definition inputID :: "json \<Rightarrow> (string \<Rightarrow> 'a http_op) \<Rightarrow> 'a http_op" where
  "inputID v f =
     (if is_string v then f (string_of_json v)
      else if is_int v then f (Itoa_int (int_of_json v))
      else fail (errorReply 400 ''invalid JSON body''))"

section \<open>Archived projects\<close>

definition written_project :: "string \<Rightarrow> string \<Rightarrow> (int option) store_op" where
  "written_project kind i =
     (if kind = ''goals'' then bnd (resolveID i) (\<lambda>g. bnd (GetGoal g) (\<lambda>g. ret (Some (g_project_id g))))
      else if kind = ''tasks'' then bnd (resolveID i) (\<lambda>t. bnd (ProjectIDForTask t) (\<lambda>p. ret (Some p)))
      else if kind = ''decisions'' then bnd (resolveID i) (\<lambda>d. bnd (GetDecision d) (\<lambda>d.
             bnd (GetGoal (d_goal_id d)) (\<lambda>g. ret (Some (g_project_id g)))))
      else ret None)"

definition rejectArchivedWrite :: "string \<Rightarrow> string list \<Rightarrow> unit http_op" where
  "rejectArchivedWrite m parts =
     (case parts of
        api # kind # i # _ \<Rightarrow>
          if m = ''GET'' \<or> api \<noteq> ''api'' \<or> i = [] then ret ()
          else bnd (attempt (written_project kind i)) (\<lambda>found. case found of
            Inl _ \<Rightarrow> ret ()
          | Inr None \<Rightarrow> ret ()
          | Inr (Some p) \<Rightarrow>
              bnd (attempt (EnsureProjectActive p)) (\<lambda>active. case active of
                Inl e \<Rightarrow> check (e \<noteq> ProjectE ErrProjectArchived) (storeErrorReply e)
              | Inr _ \<Rightarrow> ret ()))
      | _ \<Rightarrow> ret ())"

section \<open>Goals\<close>

definition handleCreateGoal :: "http_env \<Rightarrow> body \<Rightarrow> reply http_op" where
  "handleCreateGoal h b =
     read_body [(''content'', StringF), (''creator'', StringF)] b (\<lambda>fs.
     inputID (field fs ''project_id'') (\<lambda>project.
     bnd (check (\<not> blank project) (errorReply 400 ''project_id is required'')) (\<lambda>_.
     bnd (check (\<not> blank (string_arg fs ''content'')) (errorReply 400 ''content is required'')) (\<lambda>_.
     bnd (resolving project) (\<lambda>projectID.
     bnd (calling storeErrorReply (EnsureProjectActive projectID)) (\<lambda>_.
     bnd (calling storeErrorReply (CreateGoal projectID (string_arg fs ''content'') (string_arg fs ''creator'') []
            (en_now (he_env h)))) (\<lambda>g.
     ret (okReply (GoalReply g)))))))))"

definition handleWithdraw :: "http_env \<Rightarrow> string \<Rightarrow> body \<Rightarrow> reply http_op" where
  "handleWithdraw h goal b =
     read_body [(''reason'', StringF)] b (\<lambda>fs.
     bnd (check (\<not> blank (string_arg fs ''reason'')) (errorReply 400 ''reason is required'')) (\<lambda>_.
     bnd (resolving goal) (\<lambda>goalID.
     bnd (attempt (WithdrawActiveGoal goalID (string_arg fs ''reason'') (en_now (he_env h)))) (\<lambda>r. case r of
       Inl e \<Rightarrow>
         if e = GoalE ErrGoalNotActive
         then bnd (calling (status_of [(GoalE ErrGoalNotFound, 404)]) (GetGoal goalID)) (\<lambda>g.
              fail (errorReply 409 (''goal '' @ goal @ '' is '' @ GoalStatus_string (g_status g) @ '', not active'')))
         else fail (storeErrorReply e)
     | Inr _ \<Rightarrow>
         bnd (calling storeErrorReply (GetGoal goalID)) (\<lambda>g. ret (okReply (GoalReply g)))))))"

definition handleSetGoalDerivedFrom :: "http_env \<Rightarrow> string \<Rightarrow> body \<Rightarrow> reply http_op" where
  "handleSetGoalDerivedFrom h goal b =
     read_body [] b (\<lambda>fs.
     inputID (field fs ''derived_from_goal_id'') (\<lambda>parent.
     bnd (resolving goal) (\<lambda>goalID.
     bnd (resolving parent) (\<lambda>parentID.
     bnd (calling (status_of [(GoalE ErrGoalNotFound, 404), (GoalE ErrGoalSelfReference, 400), (GoalE ErrGoalDerivationCycle, 400)])
            (SetGoalDerivedFrom goalID parentID (en_now (he_env h)))) (\<lambda>_.
     bnd (calling (status_of [(GoalE ErrGoalNotFound, 404)]) (GetGoal goalID)) (\<lambda>g.
     ret (okReply (GoalReply g))))))))"

section \<open>Tasks\<close>

definition handleRelease :: "http_env \<Rightarrow> string \<Rightarrow> reply http_op" where
  "handleRelease h task =
     bnd (resolving task) (\<lambda>taskID.
     bnd (calling (status_of [(TaskE ErrTaskNotFound, 404)]) (ReleaseTaskForHuman taskID (en_now (he_env h)))) (\<lambda>t.
     ret (okReply (TaskReply t))))"

text \<open>A missing body ends the snooze, as an empty time does.\<close>

definition snooze_time :: "body \<Rightarrow> (time option) http_op" where
  "snooze_time b =
     (if b = NoBody then ret None
      else read_body [(''snoozed_until'', StringF)] b (\<lambda>fs.
        (let v = string_arg fs ''snoozed_until''
         in if v = [] then ret None
            else bnd (need (errorReply 400 ''snoozed_until must be RFC3339'') (ParseRFC3339 v)) (\<lambda>t. ret (Some t)))))"

definition handleSnooze :: "http_env \<Rightarrow> string \<Rightarrow> body \<Rightarrow> reply http_op" where
  "handleSnooze h task b =
     bnd (snooze_time b) (\<lambda>until.
     bnd (resolving task) (\<lambda>taskID.
     bnd (calling (status_of [(TaskE ErrTaskNotFound, 404)]) (SnoozeTask taskID until (en_now (he_env h)))) (\<lambda>t.
     ret (okReply (TaskReply t)))))"

section \<open>Decisions\<close>

definition not_open :: reply where
  "not_open = causeReply 409 (DecisionE ErrDecisionNotOpen)"

definition decision_for :: "int \<Rightarrow> decision http_op" where
  "decision_for i = calling (status_of [(DecisionE ErrDecisionNotFound, 404)]) (GetDecision i)"

definition ensureOpenDecision :: "int \<Rightarrow> decision http_op" where
  "ensureOpenDecision i =
     bnd (decision_for i) (\<lambda>d. bnd (check (d_status d = DecisionOpen) not_open) (\<lambda>_. ret d))"

definition getOpenDecision :: "int \<Rightarrow> decision http_op" where
  "getOpenDecision i =
     bnd (decision_for i) (\<lambda>d.
     bnd (check (d_status d = DecisionOpen \<and> d_kind d = KindGoalReview) not_open) (\<lambda>_. ret d))"

definition answering :: "error \<Rightarrow> reply" where
  "answering = status_of [(DecisionE ErrDecisionNotOpen, 409)]"

text \<open>A kind \<^verbatim>\<open>completion\<close>, which some endpoints ask for, is not one a decision can have.\<close>

definition handleAnswer :: "http_env \<Rightarrow> string \<Rightarrow> body \<Rightarrow> reply http_op" where
  "handleAnswer h decision b =
     read_body [(''answer_label'', StringF), (''answer_text'', StringF)] b (\<lambda>fs.
     (let label = string_arg fs ''answer_label''; txt = string_arg fs ''answer_text''
      in bnd (check (\<not> (blank label \<and> blank txt)) (errorReply 400 ''an answer label or text is required'')) (\<lambda>_.
         bnd (resolving decision) (\<lambda>i.
         bnd (ensureOpenDecision i) (\<lambda>d.
         bnd (check (d_kind d \<noteq> KindGoalReview) (errorReply 400 ''use approve or reject for this decision'')) (\<lambda>_.
         bnd (calling answering (AnswerDecision \<lparr>DecisionID = i, AnswerLabel = label, AnswerText = txt\<rparr> (en_now (he_env h)))) (\<lambda>d.
         ret (okReply (DecisionReply d)))))))))"

definition revisionQuestion :: "(string \<Rightarrow> string) \<Rightarrow> decision \<Rightarrow> string" where
  "revisionQuestion quote original =
     (let label = TrimSpace (d_answer_label original);
          selected = (if label = [] then TrimSpace (d_default_option original) else label);
          txt = TrimSpace (d_answer_text original);
          selected = (if txt = [] then selected else if selected = [] then txt else selected @ '' - '' @ txt);
          selected = (if selected = [] then ''(no option recorded)'' else selected)
      in ''Reconsider the decision '' @ quote (d_question original) @ ''. The selected option was '' @ quote selected @ ''.'')"

definition handleRevise :: "http_env \<Rightarrow> string \<Rightarrow> body \<Rightarrow> reply http_op" where
  "handleRevise h decision b =
     read_body [(''options'', OptionsF)] b (\<lambda>fs.
     bnd (check (options_arg fs ''options'' \<noteq> []) (errorReply 400 ''at least one option is required'')) (\<lambda>_.
     bnd (resolving decision) (\<lambda>i.
     bnd (decision_for i) (\<lambda>original.
     bnd (check (\<not> (d_default_applied_at original = None \<and> d_answered_at original = None))
            (errorReply 409 ''decision is not settled'')) (\<lambda>_.
     bnd (calling storeErrorReply (AskDecision
            \<lparr>ask_GoalID = d_goal_id original, ask_TaskID = nz (d_task_id original), ask_Kind = d_kind original,
             ask_Question = revisionQuestion (he_quote h) original, ask_Options = options_arg fs ''options'',
             ask_DefaultOption = [], ask_DefaultAfterMs = None, ask_AgentSessionID = d_agent_session_id original\<rparr>
            (en_now (he_env h)))) (\<lambda>revised.
     ret \<lparr>re_Status = 201, re_Body = DecisionReply revised\<rparr>))))))"

definition handleApprove :: "http_env \<Rightarrow> string \<Rightarrow> body \<Rightarrow> reply http_op" where
  "handleApprove h decision b =
     read_body [] b (\<lambda>_.
     bnd (resolving decision) (\<lambda>i.
     bnd (getOpenDecision i) (\<lambda>d.
     bnd (check (d_kind d = KindGoalReview) not_open) (\<lambda>_.
     bnd (calling answering (ApproveGoalReview (d_id d) (en_now (he_env h)))) (\<lambda>g.
     ret (okReply (GoalReply g)))))))"

definition handleReject :: "http_env \<Rightarrow> string \<Rightarrow> body \<Rightarrow> reply http_op" where
  "handleReject h decision b =
     read_body [(''reason'', StringF)] b (\<lambda>fs.
     bnd (resolving decision) (\<lambda>i.
     bnd (getOpenDecision i) (\<lambda>d.
     bnd (check (d_kind d = KindGoalReview) not_open) (\<lambda>_.
     bnd (calling answering (RejectGoalReview i (string_arg fs ''reason'') (en_now (he_env h)))) (\<lambda>_.
     bnd (calling storeErrorReply (GetDecision i)) (\<lambda>d.
     ret (okReply (DecisionReply d))))))))"

definition handleDecision :: "http_env \<Rightarrow> string \<Rightarrow> string \<Rightarrow> body \<Rightarrow> reply http_op" where
  "handleDecision h decision action b =
     (if action = ''answer'' then handleAnswer h decision b
      else if action = ''revise'' then handleRevise h decision b
      else if action = ''approve'' then handleApprove h decision b
      else if action = ''reject'' then handleReject h decision b
      else fail (errorReply 404 ''endpoint not found''))"

section \<open>Projects, locale and monitors\<close>

definition handleArchiveProject :: "http_env \<Rightarrow> string \<Rightarrow> bool \<Rightarrow> reply http_op" where
  "handleArchiveProject h project archive =
     bnd (resolving project) (\<lambda>i.
     bnd (calling storeErrorReply
            (if archive then ArchiveProject i (en_now (he_env h)) else UnarchiveProject i (en_now (he_env h)))) (\<lambda>p.
     ret (okReply (ProjectReply p))))"

definition handleUISettings :: "reply http_op" where
  "handleUISettings = bnd (calling storeErrorReply GetUILocale) (\<lambda>l. ret (okReply (LocaleReply l)))"

definition handleUILocale :: "body \<Rightarrow> reply http_op" where
  "handleUILocale b =
     read_body [(''locale'', StringF)] b (\<lambda>fs.
     (let l = string_arg fs ''locale''
      in bnd (check (l \<noteq> []) (errorReply 400 ''locale is required'')) (\<lambda>_.
         bnd (calling (status_of [(MonitorE ErrUnsupportedUILocale, 400)]) (SetUILocale l)) (\<lambda>_.
         ret (okReply (LocaleReply l))))))"

text \<open>The poll of a monitor is its heartbeat: a read that renews the lease.\<close>

definition handleMonitorBinding :: "http_env \<Rightarrow> string \<Rightarrow> reply http_op" where
  "handleMonitorBinding h token =
     bnd (bnd (attempt (RenewMonitorLease token (en_now (he_env h)))) (\<lambda>renewed. case renewed of
            Inl e \<Rightarrow> check (e = MonitorE ErrMonitorBindingNotFound) (storeErrorReply e)
          | Inr _ \<Rightarrow> ret ())) (\<lambda>_.
     bnd (attempt (MonitorBinding token)) (\<lambda>r. case r of
       Inl e \<Rightarrow> if e = MonitorE ErrMonitorBindingNotFound then ret (okReply PendingBinding)
                 else fail (causeReply 500 e)
     | Inr binding \<Rightarrow> ret (okReply (BindingReply binding))))"

text \<open>The scope of a filter: the project and the goal of what is selected; 0 stands for nothing.\<close>

definition eventScopeIDs :: "int \<Rightarrow> int \<Rightarrow> int \<Rightarrow> (int \<times> int \<times> int) store_op" where
  "eventScopeIDs projectID0 goalID0 taskID =
     (let outside = Failure ''selector is outside its scope'';
          project_of = (\<lambda>projectID g. if projectID = 0 then ret (g_project_id g)
            else bnd (check (g_project_id g = projectID) outside) (\<lambda>_. ret projectID))
      in bnd (if goalID0 \<noteq> 0 then bnd (GetGoal goalID0) (project_of projectID0) else ret projectID0) (\<lambda>projectID.
         if taskID \<noteq> 0
         then bnd (GetTaskGoalID taskID) (\<lambda>taskGoalID.
              bnd (check (goalID0 = 0 \<or> goalID0 = taskGoalID) outside) (\<lambda>_.
              bnd (GetGoal taskGoalID) (\<lambda>g.
              bnd (project_of projectID g) (\<lambda>projectID. ret (projectID, taskGoalID, taskID)))))
         else ret (projectID, goalID0, taskID)))"

definition zero_utc :: utc where
  "zero_utc = UTC 1 1 1 0 0 0 0"

definition validateMonitorHealthScope :: "http_env \<Rightarrow> MonitorHealth \<Rightarrow> unit store_op" where
  "validateMonitorHealthScope h m =
     bnd (check (mi_Role m \<in> {''commander'', ''subcommander'', ''executor''}) (Failure ''monitor role is not eligible'')) (\<lambda>_.
     bnd (check (0 < mi_ProjectID m) (Failure ''project_id is required'')) (\<lambda>_.
     bnd (if mi_Role m = ''commander''
          then check (mi_GoalID m = None \<and> mi_TaskID m = None) (Failure ''commander monitor cannot carry goal or task selector'')
          else check (mi_GoalID m \<noteq> None) (Failure ''project_id and goal_id are required'')) (\<lambda>_.
     bnd (check (\<not> (mi_Role m = ''subcommander'' \<and> mi_TaskID m \<noteq> None))
            (Failure ''subcommander monitor cannot carry task selector'')) (\<lambda>_.
     bnd (check (\<not> (mi_Role m = ''executor'' \<and> mi_TaskID m = None))
            (Failure ''executor monitor requires task selector'')) (\<lambda>_.
     bnd (eventScopeIDs (mi_ProjectID m) (nz (mi_GoalID m)) (nz (mi_TaskID m))) (\<lambda>(projectID, goalID, taskID).
     bnd (check (projectID = mi_ProjectID m \<and> mi_GoalID m \<in> {None, Some goalID} \<and> mi_TaskID m \<in> {None, Some taskID})
            (Failure ''monitor selector does not match its canonical scope'')) (\<lambda>_.
     bnd (check (mi_MonitorID m = MonitorHealthID (en_world (he_env h)) (he_sha256 h) (mi_CWD m) (mi_Role m) (mi_ProjectID m)
              (mi_GoalID m) (mi_TaskID m) (mi_PID m)
              (case mi_ProcessStartedAt m of None \<Rightarrow> zero_utc | Some u \<Rightarrow> u) (mi_ScopeKey m))
            (Failure ''monitor identity does not match its process and scope'')) (\<lambda>_.
     check (0 < mi_PID m \<and> mi_ProcessStartedAt m \<noteq> None \<and> \<not> blank (mi_CWD m))
       (Failure ''monitor cwd, pid, and process start are required'')))))))))"

definition handleMonitorHealth :: "http_env \<Rightarrow> body \<Rightarrow> reply http_op" where
  "handleMonitorHealth h b =
     (let now = en_now (he_env h) in
      bnd (need (errorReply 400 ''invalid JSON body'') (case b of Body v \<Rightarrow> he_health h v | _ \<Rightarrow> None)) (\<lambda>(m, stoppedAt).
      bnd (calling (causeReply 400) (validateMonitorHealthScope h m)) (\<lambda>_.
      if mi_State m = ''stopped''
      then (let when = (case stoppedAt of None \<Rightarrow> now | Some t \<Rightarrow> t)
            in bnd (calling (\<lambda>e. if e = NoRows then errorReply 400 ''monitor health row does not exist'' else storeErrorReply e)
                      (StopMonitorHealth (mi_MonitorID m) (Some when) now)) (\<lambda>_.
               ret (okReply (HealthReply (m\<lparr>mi_TransitionedAt := Some when, mi_LastSeenAt := Some when\<rparr>) (Some when)))))
      else bnd (check (mi_State m \<in> {''healthy'', ''recovering'', ''degraded'', ''rearming''})
                  (errorReply 400 ''monitor state is invalid'')) (\<lambda>_.
           bnd (calling (causeReply 400) (UpsertMonitorHealth (en_world (he_env h)) (he_sha256 h) m now)) (\<lambda>_.
           ret (okReply (HealthReply m stoppedAt)))))))"

section \<open>Routes\<close>

text \<open>
  What a path names: an endpoint with the methods it takes, a path with a part missing, or nothing.
\<close>

datatype route = Route "string list" endpoint | Malformed string | NoRoute

definition or_missing :: "bool \<Rightarrow> string \<Rightarrow> route \<Rightarrow> route" where
  "or_missing bad m r = (if bad then Malformed m else r)"

definition goal_routes :: "string \<Rightarrow> string list \<Rightarrow> route" where
  "goal_routes g rest =
     (let missing = or_missing (g = []) ''goal id is missing'' in
      case rest of
        [] \<Rightarrow> missing (Route [''GET''] (GoalPage g))
      | [x] \<Rightarrow>
          if x = ''handoffs'' then missing (Route [''GET''] (GoalHandoffsPage g []))
          else if x = ''withdraw'' then missing (Route [''POST''] (WithdrawEndpoint g))
          else if x = ''derived-from'' then missing (Route [''POST''] (DerivedFromEndpoint g))
          else if x = ''diff'' then missing (Route [''GET''] (GoalDiffPage g))
          else if x = ''review-exchanges'' then missing (Route [''GET''] (ReviewExchangesPage g []))
          else NoRoute
      | [x, i] \<Rightarrow>
          if x = ''handoffs'' then or_missing (g = [] \<or> i = []) ''goal handoff path is malformed'' (Route [''GET''] (GoalHandoffsPage g i))
          else NoRoute
      | [x, i, y] \<Rightarrow>
          if x = ''handoffs'' \<and> y = ''history''
          then or_missing (g = [] \<or> i = []) ''goal handoff history path is malformed'' (Route [''GET''] (GoalHandoffsPage g i))
          else NoRoute
      | _ \<Rightarrow> NoRoute)"

definition task_routes :: "string \<Rightarrow> string list \<Rightarrow> route" where
  "task_routes t rest =
     (let missing = or_missing (t = []) ''task id is missing'' in
      case rest of
        [] \<Rightarrow> missing (Route [''GET''] (TaskPage t))
      | [x] \<Rightarrow>
          if x = ''review-exchanges'' then missing (Route [''GET''] (ReviewExchangesPage [] t))
          else if x = ''handoffs'' then missing (Route [''GET''] (TaskHandoffsPage t []))
          else if x = ''release'' then missing (Route [''POST''] (ReleaseEndpoint t))
          else if x = ''snooze'' then missing (Route [''POST''] (SnoozeEndpoint t))
          else NoRoute
      | [x, i] \<Rightarrow>
          if x = ''handoffs'' then or_missing (t = [] \<or> i = []) ''task handoff path is malformed'' (Route [''GET''] (TaskHandoffsPage t i))
          else NoRoute
      | [x, i, y] \<Rightarrow>
          if x = ''handoffs'' \<and> y = ''history''
          then or_missing (t = [] \<or> i = []) ''task handoff history path is malformed'' (Route [''GET''] (TaskHandoffsPage t i))
          else if x = ''commits'' \<and> y = ''diff''
          then or_missing (t = [] \<or> i = []) ''task commit path is malformed'' (Route [''GET''] (TaskCommitDiffPage t i))
          else NoRoute
      | _ \<Rightarrow> NoRoute)"

definition single_routes :: "string \<Rightarrow> route" where
  "single_routes kind =
     (if kind = ''ui-settings'' then Route [''GET''] UISettings
      else if kind = ''inbox'' then Route [''GET''] InboxPage
      else if kind = ''monitor-health'' then Route [''GET'', ''POST''] MonitorHealthPage
      else if kind = ''events'' then Route [''GET''] EventStream
      else if kind = ''ws'' then Route [''GET''] WebSocketEvents
      else if kind = ''projects'' then Route [''GET''] ProjectsPage
      else if kind = ''goals'' then Route [''POST''] CreateGoalEndpoint
      else NoRoute)"

definition route_of :: "string list \<Rightarrow> route" where
  "route_of parts =
     (case parts of
        [api, kind] \<Rightarrow> if api = ''api'' then single_routes kind else NoRoute
      | api # kind # i # rest \<Rightarrow>
          if api \<noteq> ''api'' then NoRoute
          else if kind = ''ui-settings'' \<and> i = ''locale'' \<and> rest = [] then Route [''PUT''] UILocale
          else if kind = ''monitor-bindings'' \<and> rest = [] then Route [''GET''] (BindingPage i)
          else if kind = ''events'' \<and> i = ''reconcile'' \<and> rest = [] then Route [''GET''] EventReconciliation
          else if kind = ''projects'' \<and> (i = ''archive'' \<or> i = ''unarchive'') \<and> rest = [] then Malformed ''project id is missing''
          else if kind = ''projects'' \<and> (rest = [''archive''] \<or> rest = [''unarchive''])
          then Route [''POST''] (ArchiveEndpoint i (rest = [''archive'']))
          else if kind = ''goals'' then goal_routes i rest
          else if kind = ''tasks'' then task_routes i rest
          else if kind = ''decisions'' then
            (case rest of [a] \<Rightarrow> or_missing (i = [] \<or> a = []) ''decision path is malformed'' (Route [''POST''] (DecisionEndpoint i a))
             | _ \<Rightarrow> NoRoute)
          else NoRoute
      | _ \<Rightarrow> NoRoute)"

definition malformedAPIPath :: "string \<Rightarrow> bool" where
  "malformedAPIPath path \<longleftrightarrow>
     list_ex (\<lambda>prefix. path = prefix \<or> starts_with (prefix @ ''/'') path)
       [''/api/inbox'', ''/api/ui-settings'', ''/api/monitor-health'', ''/api/events'', ''/api/ws'', ''/api/watch'',
        ''/api/projects'', ''/api/goals'', ''/api/tasks'', ''/api/decisions'']"

section \<open>Serving a request\<close>

text \<open>The endpoints that only render rows answer with their page.\<close>

definition serve_endpoint :: "http_env \<Rightarrow> string \<Rightarrow> body \<Rightarrow> endpoint \<Rightarrow> reply http_op" where
  "serve_endpoint h m b e =
     (case e of
        UISettings \<Rightarrow> handleUISettings
      | UILocale \<Rightarrow> handleUILocale b
      | MonitorHealthPage \<Rightarrow> if m = ''GET'' then ret (okReply (PageReply e)) else handleMonitorHealth h b
      | BindingPage token \<Rightarrow> handleMonitorBinding h token
      | ArchiveEndpoint p archive \<Rightarrow> handleArchiveProject h p archive
      | CreateGoalEndpoint \<Rightarrow> handleCreateGoal h b
      | WithdrawEndpoint g \<Rightarrow> handleWithdraw h g b
      | DerivedFromEndpoint g \<Rightarrow> handleSetGoalDerivedFrom h g b
      | ReleaseEndpoint t \<Rightarrow> handleRelease h t
      | SnoozeEndpoint t \<Rightarrow> handleSnooze h t b
      | DecisionEndpoint d action \<Rightarrow> handleDecision h d action b
      | _ \<Rightarrow> ret (okReply (PageReply e)))"

definition url_parts :: "string \<Rightarrow> string list" where
  "url_parts path = split_char CHR ''/'' (case path of [] \<Rightarrow> [] | c # r \<Rightarrow> if c = CHR ''/'' then r else path)"

definition ServeHTTP :: "http_env \<Rightarrow> http_request \<Rightarrow> reply http_op" where
  "ServeHTTP h rq =
     bnd (rejectArchivedWrite (hr_Method rq) (url_parts (hr_Path rq))) (\<lambda>_.
     case route_of (url_parts (hr_Path rq)) of
       Route ms e \<Rightarrow>
         bnd (check (hr_Method rq \<in> set ms) (errorReply 400 ''method is not allowed for this endpoint'')) (\<lambda>_.
         serve_endpoint h (hr_Method rq) (hr_Body rq) e)
     | Malformed m \<Rightarrow> fail (errorReply 400 m)
     | NoRoute \<Rightarrow>
         fail (if malformedAPIPath (hr_Path rq) then errorReply 400 ''api path is malformed''
               else errorReply 404 ''endpoint not found''))"

text \<open>The reply that is written, and the store it leaves.\<close>

definition replied :: "http_env \<Rightarrow> http_request \<Rightarrow> store \<Rightarrow> reply \<times> store" where
  "replied h rq s = (case ServeHTTP h rq s of (Inl r, t) \<Rightarrow> (r, t) | (Inr r, t) \<Rightarrow> (r, t))"

end
