(* ===== verification/Atct_Http_Facts.thy ===== *)
theory Atct_Http_Facts
  imports Atct_Http Atct_Dispatch_Facts Atct_Chat_Facts Atct_Failures
begin

text \<open>
  What the requests of the dashboard do to the store: they run it, a refused one leaves it alone, an
  archived project is not written, and an answer that is accepted settles an open decision.
\<close>

section \<open>Requests run the store\<close>

lemma reads_attempt [reads_intros]: "reads m \<Longrightarrow> reads (attempt m)"
  by (auto simp: reads_def attempt_def split: prod.splits) (metis snd_conv)

lemma reads_calling [reads_intros]: "reads m \<Longrightarrow> reads (calling g m)"
  unfolding calling_def by (intro reads_intros)

lemma runs_attempt: "evolves R m \<Longrightarrow> evolves R (attempt m)"
  by (auto simp: evolves_def attempt_def split: prod.splits) (metis snd_conv)

lemma runs_calling: "evolves steps m \<Longrightarrow> evolves steps (calling g m)"
  unfolding calling_def by (intro run_rules runs_attempt)

lemma runs_read_body: "(\<And>fs. evolves steps (f fs)) \<Longrightarrow> evolves steps (read_body sig b f)"
  unfolding read_body_def Let_def by (auto intro!: run_rules split: body.split option.split)

lemma runs_inputID: "(\<And>i. evolves steps (f i)) \<Longrightarrow> evolves steps (inputID v f)"
  unfolding inputID_def by (intro run_rules)

lemma reads_http [reads_intros]:
  "reads (resolving v)" "reads (decision_for i)" "reads (ensureOpenDecision i)" "reads (getOpenDecision i)"
  "reads (written_project kind v)" "reads (eventScopeIDs p g t)" "reads (validateMonitorHealthScope h m)"
  unfolding resolving_def decision_for_def ensureOpenDecision_def getOpenDecision_def written_project_def eventScopeIDs_def
    validateMonitorHealthScope_def Let_def
  by (rule reads_intros)+

lemma reads_rejectArchivedWrite [reads_intros]: "reads (rejectArchivedWrite m parts)"
proof -
  have "reads (case found of Inl _ \<Rightarrow> ret () | Inr None \<Rightarrow> ret () | Inr (Some p) \<Rightarrow>
              bnd (attempt (EnsureProjectActive p)) (\<lambda>active. case active of
                Inl e \<Rightarrow> check (e \<noteq> ProjectE ErrProjectArchived) (storeErrorReply e) | Inr _ \<Rightarrow> ret ()))" for found
    by (cases found; cases "projr found") (auto intro!: reads_intros)
  then show ?thesis
    unfolding rejectArchivedWrite_def by (auto intro!: reads_intros split: list.split)
qed

lemma reads_snooze_time [reads_intros]: "reads (snooze_time b)"
  unfolding snooze_time_def read_body_def Let_def by (auto intro!: reads_intros split: body.split option.split)

lemmas http_rules = run_rules runs_calling runs_read_body runs_inputID

lemma runs_handlers:
  "evolves steps (handleCreateGoal h b)" "evolves steps (handleWithdraw h i b)" "evolves steps (handleSetGoalDerivedFrom h i b)"
  "evolves steps (handleRelease h i)" "evolves steps (handleSnooze h i b)" "evolves steps (handleAnswer h i b)"
  "evolves steps (handleRevise h i b)" "evolves steps (handleApprove h i b)" "evolves steps (handleReject h i b)"
  "evolves steps (handleArchiveProject h i a)" "evolves steps handleUISettings" "evolves steps (handleUILocale b)"
  "evolves steps (handleMonitorBinding h i)" "evolves steps (handleMonitorHealth h b)"
  unfolding handleCreateGoal_def handleWithdraw_def handleSetGoalDerivedFrom_def handleRelease_def handleSnooze_def
    handleAnswer_def handleRevise_def handleApprove_def handleReject_def handleArchiveProject_def handleUISettings_def
    handleUILocale_def handleMonitorBinding_def handleMonitorHealth_def ApproveGoalReview_def RejectGoalReview_def
    AnswerDecision_def GetUILocale_def Let_def
  by (rule http_rules runs_attempt reads_intros | rule run.ev_reads, (rule reads_intros)+
      | rule runs_step, rule store_step.intros)+

lemma serving_runs_the_store: "steps s (snd (replied h rq s))"
proof -
  have "evolves steps (serve_endpoint h m b e)" for m b e
    by (cases e) (simp_all add: serve_endpoint_def handleDecision_def runs_handlers run_rules)
  then have "evolves steps (ServeHTTP h rq)"
    unfolding ServeHTTP_def
    by (auto intro!: run_rules split: route.split intro: run.ev_reads reads_intros)
  then show ?thesis
    by (auto simp: evolves_def replied_def split: prod.split sum.split) (metis snd_conv)+
qed

section \<open>A refused request leaves the store\<close>

text \<open>
  An operation is quiet when an early reply that is not a server error leaves the store as it was; it is
  late when all its early replies are server errors, so that it may follow a write.
\<close>

definition quiet :: "'a http_op \<Rightarrow> bool" where
  "quiet m \<longleftrightarrow> (\<forall>s r t. m s = (Inl r, t) \<longrightarrow> t = s \<or> re_Status r = 500)"

definition late :: "'a http_op \<Rightarrow> bool" where
  "late m \<longleftrightarrow> (\<forall>s r t. m s = (Inl r, t) \<longrightarrow> re_Status r = 500)"

lemma quietI: "(\<And>s r t. m s = (Inl r, t) \<Longrightarrow> t = s \<or> re_Status r = 500) \<Longrightarrow> quiet m"
  by (simp add: quiet_def)

lemma quietD: "quiet m \<Longrightarrow> m s = (Inl r, t) \<Longrightarrow> t = s \<or> re_Status r = 500"
  by (simp add: quiet_def)

lemma lateI: "(\<And>s r t. m s = (Inl r, t) \<Longrightarrow> re_Status r = 500) \<Longrightarrow> late m"
  by (simp add: late_def)

lemma lateD: "late m \<Longrightarrow> m s = (Inl r, t) \<Longrightarrow> re_Status r = 500"
  unfolding late_def by blast

lemma quiet_atomic: "atomic_op m \<Longrightarrow> quiet m"
  by (rule quietI) (auto dest: atomicD)

lemma quiet_reads: "reads m \<Longrightarrow> quiet m"
  by (intro quiet_atomic atomic_reads)

lemma quiet_bnd_reads: "reads m \<Longrightarrow> (\<And>x. quiet (f x)) \<Longrightarrow> quiet (bnd m f)"
  by (rule quietI) (auto simp: op_run dest: readsD quietD)

lemma quiet_bnd_late: "quiet m \<Longrightarrow> (\<And>x. late (f x)) \<Longrightarrow> quiet (bnd m f)"
  by (rule quietI) (auto simp: op_run dest: lateD quietD)

lemma quiet_attempt:
  assumes "atomic_op m" and "\<And>e. quiet (f (Inl e))" and "\<And>x. late (f (Inr x))"
  shows "quiet (bnd (attempt m) f)"
proof (rule quietI)
  fix s r t assume run: "bnd (attempt m) f s = (Inl r, t)"
  obtain v u where m: "m s = (v, u)" by fastforce
  with run have "f v u = (Inl r, t)" by (simp add: bnd_def attempt_def)
  with m assms show "t = s \<or> re_Status r = 500" by (cases v) (auto dest: atomicD quietD, metis lateD)
qed

lemma quiet_if: "quiet m \<Longrightarrow> quiet n \<Longrightarrow> quiet (if b then m else n)"
  by simp

lemma calling_run:
  "calling g m s = (Inl r, t) \<longleftrightarrow> (\<exists>e. m s = (Inl e, t) \<and> r = g e)"  "calling g m s = (Inr x, t) \<longleftrightarrow> m s = (Inr x, t)"
  by (auto simp: calling_def bnd_def attempt_def fail_def ret_def split: prod.splits sum.splits)

lemma quiet_calling:
  assumes "\<And>s e t. m s = (Inl e, t) \<Longrightarrow> t \<noteq> s \<Longrightarrow> re_Status (g e) = 500"
  shows "quiet (calling g m)"
  using assms by (intro quietI) (auto simp: calling_run)

lemma quiet_calling_atomic: "atomic_op m \<Longrightarrow> quiet (calling g m)"
  by (rule quiet_calling) (auto dest: atomicD)

lemma late_ret: "late (ret x)"
  by (simp add: late_def op_run)

lemma late_bnd: "late m \<Longrightarrow> (\<And>x. late (f x)) \<Longrightarrow> late (bnd m f)"
  by (rule lateI) (auto simp: op_run dest: lateD)

lemma late_calling:
  assumes "\<And>s e t. m s = (Inl e, t) \<Longrightarrow> re_Status (g e) = 500"
  shows "late (calling g m)"
  using assms by (intro lateI) (auto simp: calling_run)

lemma quiet_read_body: "(\<And>fs. quiet (f fs)) \<Longrightarrow> quiet (read_body sig b f)"
  unfolding read_body_def Let_def
  by (auto intro!: quiet_if intro: quiet_reads reads_fail split: body.split option.split)

lemma quiet_inputID: "(\<And>i. quiet (f i)) \<Longrightarrow> quiet (inputID v f)"
  unfolding inputID_def by (auto intro!: quiet_if intro: quiet_reads reads_fail)

subsection \<open>The calls of the store\<close>

lemma GetGoal_error: "GetGoal i s = (Inl e, t) \<Longrightarrow> e = GoalE ErrGoalNotFound \<and> t = s \<and> goal_row i s = None"
  by (auto simp: GetGoal_def GetGoal_sql_def ListNextGoals_def ListNextGoals_sql_def op_run split: if_splits)

lemma GetDecision_error: "GetDecision i s = (Inl e, t) \<Longrightarrow> e = DecisionE ErrDecisionNotFound \<and> t = s"
  by (auto simp: GetDecision_def GetDecision_sql_def op_run split: if_splits)

lemma late_read_back: "late (calling storeErrorReply (GetGoal i))" "late (calling storeErrorReply (GetDecision i))"
  by (rule late_calling; auto dest!: GetGoal_error GetDecision_error simp: storeErrorReply_def causeReply_def)+

lemma goal_calls_atomic:
  "atomic_op (CreateGoal p content creator [] now)" "atomic_op (RejectGoalReviewWith i reason src now)"
  unfolding CreateGoal_def RejectGoalReviewWith_def Let_def
  by (simp, intro atomic_intros total_intros reads_intros)
    (intro atomic_intros total_intros reads_intros)

lemma monitor_calls_atomic:
  "atomic_op (SetUILocale l)" "atomic_op (RenewMonitorLease token now)" "atomic_op (StopMonitorHealth m at now)"
  "atomic_op (UpsertMonitorHealth w sha hl now)"
  unfolding SetUILocale_def RenewMonitorLease_def StopMonitorHealth_def UpsertMonitorHealth_def Let_def
    RenewAgentSessionLease_sql_def
  by (intro atomic_intros total_intros reads_intros)+

lemma row_is_there:
  assumes "affected P rows \<noteq> 0" and "\<And>r. P (f r) = P r"
  shows "List.find P (update_where P f rows) \<noteq> None"
proof -
  from assms(1) obtain r where "r \<in> set rows" "P r" by (auto simp: affected_0)
  then have "f r \<in> set (update_where P f rows)" "P (f r)" using assms(2) by (auto simp: update_where_def image_iff)
  then show ?thesis by (auto simp: find_None_iff)
qed

lemma SetGoalDerivedFrom_atomic: "atomic_op (SetGoalDerivedFrom g p now)"
proof -
  have "atomic_op (bnd (SetGoalDerivedFrom_sql v at g) (\<lambda>n. check (n \<noteq> 0) e))" for v at e
    by (auto simp: atomic_op_def SetGoalDerivedFrom_sql_def op_run affected_0 update_where_none)
  then show ?thesis
    unfolding SetGoalDerivedFrom_def by (intro atomic_bnd_reads [OF reads_check] atomic_bnd_reads [OF reads_if])
      (assumption | intro reads_intros)+
qed

lemma derived_goal_is_there:
  assumes "SetGoalDerivedFrom g p now s = (Inr x, t)"
  shows "goal_row g t \<noteq> None"
proof -
  from assms obtain u v at n where "SetGoalDerivedFrom_sql v at g u = (Inr n, t)" "n \<noteq> 0"
    unfolding SetGoalDerivedFrom_def by (auto simp: op_run simp del: affected_0)
  then show ?thesis using row_is_there [of "\<lambda>r. g_id r = g" "goals u" "\<lambda>r. r\<lparr>g_derived_from := v, g_updated_at := at\<rparr>"]
    by (auto simp: SetGoalDerivedFrom_sql_def op_run goal_row_def)
qed

lemma task_read_back:
  assumes "task_row i s \<noteq> None"
  shows "\<exists>t. loadTask i s = (Inr t, s)"
    "\<exists>t. bnd (GetTaskGoalID_sql i) (\<lambda>goalID. bnd (ListTasks goalID) (find_task i)) s = (Inr t, s)"
proof -
  obtain t where t: "task_row i s = Some t" using assms by blast
  then have "t \<in> set (order_by (\<lambda>t. (t_sort_order t, t_id t)) (filter (\<lambda>u. t_goal_id u = t_goal_id t) (tasks s)))" "t_id t = i"
    by (auto simp: task_row_def dest: find_Some_in)
  then obtain u where "List.find (\<lambda>t. t_id t = i)
      (order_by (\<lambda>t. (t_sort_order t, t_id t)) (filter (\<lambda>u. t_goal_id u = t_goal_id t) (tasks s))) = Some u"
    by (metis (mono_tags, lifting) find_None_iff not_Some_eq)
  with t show "\<exists>t. loadTask i s = (Inr t, s)"
    "\<exists>t. bnd (GetTaskGoalID_sql i) (\<lambda>goalID. bnd (ListTasks goalID) (find_task i)) s = (Inr t, s)"
    by (simp_all add: loadTask_def GetTaskGoalID_def GetTaskGoalID_sql_def ListTasks_def ListTasks_sql_def find_task_def
        bnd_def ask_def need_def ret_def map_error_def)
qed

lemma SnoozeTask_atomic: "atomic_op (SnoozeTask i until now)"
proof -
  have "t = s" if run: "SnoozeTask i until now s = (Inl e, t)" for s e t
  proof (cases "affected (\<lambda>t. t_id t = i) (tasks s) = 0")
    case True
    with run show ?thesis
      by (auto simp: SnoozeTask_def UpdateTaskSnooze_sql_def TaskExists_sql_def op_run affected_0 update_where_none)
  next
    case False
    let ?t = "tasks_update (update_where (\<lambda>t. t_id t = i) (\<lambda>t. t\<lparr>t_snoozed_until := until, t_updated_at := rfc3339 now\<rparr>)) s"
    have "task_row i ?t \<noteq> None"
      using row_is_there [OF False] unfolding task_row_def by simp
    from task_read_back(1) [OF this] False run show ?thesis
      by (auto simp: SnoozeTask_def UpdateTaskSnooze_sql_def op_run)
  qed
  then show ?thesis by (simp add: atomic_op_def)
qed

text \<open>These may fail after they have written, but not with an error that has a status of its own.\<close>

lemma ApproveGoalReview_late:
  assumes "ApproveGoalReviewWith i src now s = (Inl e, t)" and "t \<noteq> s"
  shows "e = GoalE ErrGoalNotFound"
  using assms by (auto simp: ApproveGoalReviewWith_def op_run dest: GetGoal_error split: if_splits)

lemma setArchived_late:
  assumes "setArchived p archived now s = (Inl e, t)" and "t \<noteq> s"
  shows "e \<noteq> ProjectE ErrProjectArchived"
  using assms by (auto simp: setArchived_def GetProject_sql_def ArchiveProject_sql_def UnarchiveProject_sql_def op_run split: if_splits)

lemma GetTaskHandoff_error: "GetTaskHandoff hid s = (Inl e, t) \<Longrightarrow> e = ErrTaskHandoff NotFound \<or> e = NoRows"
  by (auto simp: GetTaskHandoff_def GetTaskHandoff_sql_def GetTaskGoalID_sql_def op_run split: if_splits)

lemma task_stays: "store_le s t \<Longrightarrow> task_row i s \<noteq> None \<Longrightarrow> task_row i t \<noteq> None"
proof -
  assume le: "store_le s t" and "task_row i s \<noteq> None"
  then obtain u where u: "u \<in> set (tasks s)" "t_id u = i"
    by (auto simp: task_row_def dest: find_Some_in)
  from le have "grows task_le (tasks s) (tasks t)" by (simp add: store_le_def tasks_le_def)
  from grows_row [OF this u(1)] u(2) obtain v where "v \<in> set (tasks t)" "t_id v = i" by (auto simp: task_le_def)
  then show ?thesis by (auto simp: task_row_def find_None_iff)
qed

text \<open>The two parts of a change of a task: the transaction, after which the task is there, and the report.\<close>

lemma changed_task_is_there:
  assumes "bnd (UpdateTaskStatus_sql st at i) (\<lambda>n. bnd (if n = 0 then bnd m (\<lambda>_. fail e) else ret ()) (\<lambda>_. f)) s = (Inr x, t)"
    and "evolves store_le f"
  shows "task_row i t \<noteq> None"
proof -
  from assms(1) obtain n v where "UpdateTaskStatus_sql st at i s = (Inr n, v)" "n \<noteq> 0" "f v = (Inr x, t)"
    by (auto simp: op_run)
  moreover from this have "task_row i v \<noteq> None"
    using row_is_there [of "\<lambda>r. t_id r = i" "tasks s" "\<lambda>t. t\<lparr>t_status := st, t_updated_at := at\<rparr>"]
    by (auto simp: UpdateTaskStatus_sql_def op_run task_row_def)
  ultimately show ?thesis using task_stays evolvesD [OF assms(2)] by blast
qed

lemma release_le: "evolves store_le (case h of None \<Rightarrow> ret () | Some h \<Rightarrow>
    bnd (CompleteTaskHandoff_sql (h_id h) i now r) (\<lambda>released. bnd (check (released = 1) e) (\<lambda>_.
    task_entry (h_id h) kind body (author h) now)))"
  by (rule le_rules le_queries reads_intros | rule store_le.ev_reads, rule reads_intros)+

definition report_release :: "handoff option \<Rightarrow> unit store_op" where
  "report_release h =
     (case h of None \<Rightarrow> ret () | Some h \<Rightarrow> bnd (GetTaskHandoff (h_id h)) (\<lambda>completed. publishTaskHandoffReported completed))"

lemma report_release_run:
  assumes "report_release h u = (r, w)"
  shows "store_le u w" "r = Inl e \<Longrightarrow> e = ErrTaskHandoff NotFound \<or> e = NoRows"
proof -
  have "evolves store_le (report_release h)"
    unfolding report_release_def by (rule le_rules le_queries reads_intros | rule store_le.ev_reads, rule reads_intros)+
  with assms show "store_le u w" by (blast dest: evolvesD)
  assume "r = Inl e"
  with assms show "e = ErrTaskHandoff NotFound \<or> e = NoRows"
    using publishTaskHandoffReported_total
    by (auto simp: report_release_def op_run total_op_def dest: GetTaskHandoff_error split: option.splits)
qed

definition change_task :: "int \<Rightarrow> TaskStatus \<Rightarrow> handoff option \<Rightarrow> time \<Rightarrow> unit store_op" where
  "change_task i st h now =
     bnd (if st = TaskDone then refuse_open_decisions i else ret ()) (\<lambda>_.
     bnd (UpdateTaskStatus_sql st (rfc3339 now) i) (\<lambda>n.
     bnd (if n = 0 then
            bnd (map_error (\<lambda>e. if e = NoRows then TaskE ErrTaskNotFound else e) (TaskExists_sql i)) (\<lambda>_.
            fail (Failure ''task claim changed while updating''))
          else ret ()) (\<lambda>_.
     case h of None \<Rightarrow> ret ()
     | Some h \<Rightarrow>
         bnd (CompleteTaskHandoff_sql (h_id h) i now (Some taskHandoffReleasedReport)) (\<lambda>released.
         bnd (check (released = 1) (Failure ''complete task handoff after release'')) (\<lambda>_.
         task_entry (h_id h) ''completed'' taskHandoffReleasedReport (nz (h_received_by h)) now)))))"

lemma updateTask_parts:
  "updateTask i st h now =
     bnd (transaction (change_task i st h now)) (\<lambda>_. bnd (report_release h) (\<lambda>_.
     bnd (GetTaskGoalID_sql i) (\<lambda>goalID. bnd (ListTasks goalID) (find_task i))))"
  by (simp only: updateTask_def change_task_def report_release_def)

lemma change_task_there:
  assumes "change_task i st h now s = (Inr x, u)"
  shows "task_row i u \<noteq> None"
  using assms unfolding change_task_def bnd_run_Inr [where m = "if st = TaskDone then refuse_open_decisions i else ret ()"]
  by (elim exE conjE) (drule changed_task_is_there [OF _ release_le], assumption)

lemma updateTask_late:
  assumes run: "updateTask i st h now s = (Inl e, t)" and moved: "t \<noteq> s"
  shows "e = ErrTaskHandoff NotFound \<or> e = NoRows"
proof -
  let ?read = "bnd (GetTaskGoalID_sql i) (\<lambda>goalID. bnd (ListTasks goalID) (find_task i))"
  from run moved obtain x u where changed: "change_task i st h now s = (Inr x, u)"
    and rest: "report_release h u = (Inl e, t) \<or> (\<exists>y w. report_release h u = (Inr y, w) \<and> ?read w = (Inl e, t))"
    unfolding updateTask_parts bnd_run_Inl [where m = "transaction m'" for m'] bnd_run_Inl [where m = "report_release h"] transaction_run
    by blast
  note there = change_task_there [OF changed]
  from rest show ?thesis
  proof (elim disjE exE conjE)
    fix y w assume "report_release h u = (Inr y, w)" "?read w = (Inl e, t)"
    with task_stays [OF report_release_run(1) there] task_read_back(2) show ?thesis by fastforce
  qed (rule report_release_run(2), simp_all)
qed

section \<open>The endpoints\<close>

lemmas quiet_rules = quiet_read_body quiet_inputID quiet_bnd_reads quiet_reads

lemma quiet_goal_handlers:
  "quiet (handleCreateGoal h b)" "quiet (handleWithdraw h i b)" "quiet (handleSetGoalDerivedFrom h i b)"
proof -
  show "quiet (handleCreateGoal h b)"
    unfolding handleCreateGoal_def
    by (intro quiet_read_body quiet_inputID quiet_bnd_reads [OF reads_check] quiet_bnd_reads [OF reads_http(1)]
        quiet_bnd_reads [OF reads_calling] quiet_bnd_late quiet_calling_atomic goal_calls_atomic late_ret)
      (intro reads_intros)
  show "quiet (handleWithdraw h i b)"
    unfolding handleWithdraw_def
    by (intro quiet_read_body quiet_bnd_reads [OF reads_check] quiet_bnd_reads [OF reads_http(1)] quiet_attempt
        WithdrawActiveGoal_atomic)
      (auto intro!: quiet_reads reads_intros late_bnd late_read_back late_ret)
  have "quiet (bnd (calling g (SetGoalDerivedFrom goal parent now)) (\<lambda>_.
     bnd (calling (status_of [(GoalE ErrGoalNotFound, 404)]) (GetGoal goal)) (\<lambda>g. ret (okReply (GoalReply g)))))" for g goal parent now
    by (rule quietI) (auto simp: op_run calling_run dest: GetGoal_error derived_goal_is_there
        atomicD [OF SetGoalDerivedFrom_atomic])
  then show "quiet (handleSetGoalDerivedFrom h i b)"
    unfolding handleSetGoalDerivedFrom_def
    by (intro quiet_read_body quiet_inputID quiet_bnd_reads [OF reads_http(1)])
qed

lemma quiet_task_handlers: "quiet (handleRelease h i)" "quiet (handleSnooze h i b)"
proof -
  have "re_Status (status_of [(TaskE ErrTaskNotFound, 404)] e) = 500"
    if "ReleaseTaskForHuman task now s = (Inl e, t)" "t \<noteq> s" for task now s e t
  proof -
    obtain v u where found: "openTaskHandoff task s = (v, u)" by fastforce
    then have "u = s" by (rule readsD [rotated]) (rule reads_intros)
    with that found obtain held where "updateTask task TaskTodo held now s = (Inl e, t)"
      by (cases v) (auto simp: ReleaseTaskForHuman_def bnd_def)
    from updateTask_late [OF this that(2)] show ?thesis
      by (auto simp: status_of_def storeErrorReply_def causeReply_def)
  qed
  then show "quiet (handleRelease h i)"
    unfolding handleRelease_def
    by (intro quiet_bnd_reads [OF reads_http(1)] quiet_bnd_late quiet_calling late_ret)
  show "quiet (handleSnooze h i b)"
    unfolding handleSnooze_def
    by (intro quiet_bnd_reads [OF reads_http(1)] quiet_bnd_reads [OF reads_snooze_time] quiet_bnd_late quiet_calling_atomic
        SnoozeTask_atomic late_ret)
qed

lemma quiet_answers:
  "quiet (calling answering (AnswerDecision ans now))" "quiet (calling answering (ApproveGoalReview i now))"
  "quiet (calling answering (RejectGoalReview i reason now))" "quiet (calling g (AskDecision inp now))"
proof -
  have "re_Status (answering e) = 500" if "ApproveGoalReviewWith i no_source now s = (Inl e, t)" "t \<noteq> s" for s e t
    using ApproveGoalReview_late [OF that] by (simp add: answering_def status_of_def storeErrorReply_def causeReply_def)
  then show "quiet (calling answering (ApproveGoalReview i now))"
    unfolding ApproveGoalReview_def by (intro quiet_calling)
qed (unfold AnswerDecision_def RejectGoalReview_def, (rule quiet_calling_atomic, rule decisions_atomic goal_calls_atomic)+)

lemma quiet_decision_handlers:
  "quiet (handleAnswer h i b)" "quiet (handleRevise h i b)" "quiet (handleApprove h i b)" "quiet (handleReject h i b)"
  unfolding handleAnswer_def handleRevise_def handleApprove_def handleReject_def Let_def
  by (intro quiet_read_body quiet_bnd_reads [OF reads_check] quiet_bnd_reads [OF reads_http(1)] quiet_bnd_reads [OF reads_http(2)]
      quiet_bnd_reads [OF reads_http(3)] quiet_bnd_reads [OF reads_http(4)] quiet_bnd_late [OF quiet_answers(1)]
      quiet_bnd_late [OF quiet_answers(2)] quiet_bnd_late [OF quiet_answers(3)] quiet_bnd_late [OF quiet_answers(4)]
      late_bnd late_read_back late_ret)+

lemma quiet_other_handlers:
  "quiet (handleArchiveProject h i a)" "quiet (handleUILocale b)" "quiet (handleMonitorBinding h i)" "quiet (handleMonitorHealth h b)"
proof -
  have "re_Status (storeErrorReply e) = 500"
    if "(if a then ArchiveProject p now else UnarchiveProject p now) s = (Inl e, t)" "t \<noteq> s" for p now s e t
    using that setArchived_late [of p a now s e t]
    by (cases a) (simp_all add: ArchiveProject_def UnarchiveProject_def storeErrorReply_def causeReply_def)
  then show "quiet (handleArchiveProject h i a)"
    unfolding handleArchiveProject_def
    by (intro quiet_bnd_reads [OF reads_http(1)] quiet_bnd_late quiet_calling late_ret)
  show "quiet (handleUILocale b)"
    unfolding handleUILocale_def Let_def
    by (intro quiet_read_body quiet_bnd_reads [OF reads_check] quiet_bnd_late quiet_calling_atomic monitor_calls_atomic late_ret)
  have "late (bnd (attempt (MonitorBinding i)) (\<lambda>r. case r of
       Inl e \<Rightarrow> if e = MonitorE ErrMonitorBindingNotFound then ret (okReply PendingBinding) else fail (causeReply 500 e)
     | Inr binding \<Rightarrow> ret (okReply (BindingReply binding))))"
    by (rule lateI) (auto simp: op_run attempt_def causeReply_def split: prod.splits sum.splits if_splits)
  then show "quiet (handleMonitorBinding h i)"
    unfolding handleMonitorBinding_def
    by (intro quiet_bnd_late quiet_attempt monitor_calls_atomic) (auto intro: quiet_reads reads_intros late_ret)
  have "quiet (let now = en_now (he_env h) in
      bnd (calling (causeReply 400) (validateMonitorHealthScope h m)) (\<lambda>_.
      if mi_State m = ''stopped''
      then (let when = (case stoppedAt of None \<Rightarrow> now | Some t \<Rightarrow> t)
            in bnd (calling g (StopMonitorHealth (mi_MonitorID m) (Some when) now)) (\<lambda>_.
               ret (okReply (HealthReply (m\<lparr>mi_TransitionedAt := Some when, mi_LastSeenAt := Some when\<rparr>) (Some when)))))
      else bnd (check P e) (\<lambda>_.
           bnd (calling (causeReply 400) (UpsertMonitorHealth w (he_sha256 h) m now)) (\<lambda>_.
           ret (okReply (HealthReply m stoppedAt))))))" for m stoppedAt g P e w
    unfolding Let_def
    by (intro quiet_bnd_reads [OF reads_calling] reads_http quiet_if quiet_bnd_reads [OF reads_check] quiet_bnd_late
        quiet_calling_atomic monitor_calls_atomic late_ret)
  then show "quiet (handleMonitorHealth h b)"
    unfolding handleMonitorHealth_def Let_def
    by (intro quiet_bnd_reads [OF reads_need]) (auto split: prod.split)
qed

lemma quiet_ServeHTTP: "quiet (ServeHTTP h rq)"
proof -
  have page: "quiet (ret x)" "quiet (fail r)" for x :: reply and r by (auto intro: quiet_reads reads_intros)
  have "quiet handleUISettings"
    unfolding handleUISettings_def GetUILocale_def by (intro quiet_reads reads_intros)
  then have "quiet (serve_endpoint h m b e)" for m b e
    by (cases e) (simp_all add: serve_endpoint_def handleDecision_def page quiet_goal_handlers quiet_task_handlers
        quiet_decision_handlers quiet_other_handlers)
  then show ?thesis
    unfolding ServeHTTP_def
    by (intro quiet_bnd_reads [OF reads_rejectArchivedWrite])
      (auto intro: page quiet_bnd_reads [OF reads_check] split: route.split)
qed

subsection \<open>What is answered in the end\<close>

definition succeeds :: "reply http_op \<Rightarrow> bool" where
  "succeeds m \<longleftrightarrow> (\<forall>s r t. m s = (Inr r, t) \<longrightarrow> re_Status r \<in> {200, 201})"

lemma succeeds_bnd: "(\<And>x. succeeds (f x)) \<Longrightarrow> succeeds (bnd m f)"
  unfolding succeeds_def bnd_run_Inr by blast

lemma succeeds_end: "succeeds (fail r)" "re_Status r \<in> {200, 201} \<Longrightarrow> succeeds (ret r)"
  by (auto simp: succeeds_def op_run)

lemma succeeds_if: "succeeds m \<Longrightarrow> succeeds n \<Longrightarrow> succeeds (if b then m else n)"
  by simp

lemma succeeds_sum: "(\<And>x. succeeds (f x)) \<Longrightarrow> (\<And>x. succeeds (g x)) \<Longrightarrow> succeeds (case v of Inl x \<Rightarrow> f x | Inr x \<Rightarrow> g x)"
  by (cases v) auto

lemma succeeds_pair: "(\<And>x y. succeeds (f x y)) \<Longrightarrow> succeeds (case v of (x, y) \<Rightarrow> f x y)"
  by (cases v) auto

lemma succeeds_bodies:
  "(\<And>fs. succeeds (f fs)) \<Longrightarrow> succeeds (read_body sig b f)" "(\<And>i. succeeds (g i)) \<Longrightarrow> succeeds (inputID v g)"
  unfolding read_body_def inputID_def Let_def
  by (auto intro!: succeeds_if intro: succeeds_end(1) split: body.split option.split)

lemma succeeds_ServeHTTP: "succeeds (ServeHTTP h rq)"
proof -
  have "succeeds (serve_endpoint h m b e)" for m b e
    unfolding serve_endpoint_def handleDecision_def handleCreateGoal_def handleWithdraw_def handleSetGoalDerivedFrom_def
      handleRelease_def handleSnooze_def handleAnswer_def handleRevise_def handleApprove_def handleReject_def
      handleArchiveProject_def handleUISettings_def handleUILocale_def handleMonitorBinding_def handleMonitorHealth_def Let_def
    by (cases e; simp only: endpoint.case;
        (rule succeeds_bodies succeeds_bnd succeeds_if succeeds_sum succeeds_pair succeeds_end | simp add: okReply_def)+)
  then show ?thesis
    unfolding ServeHTTP_def by (auto intro!: succeeds_bnd intro: succeeds_end(1) split: route.split)
qed

definition a_dashboard :: http_env where
  "a_dashboard = \<lparr>he_env = an_env, he_quote = (\<lambda>v. v), he_sha256 = (\<lambda>v. v), he_health = (\<lambda>v. None)\<rparr>"

definition a_post :: "string \<Rightarrow> fields \<Rightarrow> http_request" where
  "a_post path fs = \<lparr>hr_Method = ''POST'', hr_Path = path, hr_Body = Body (JObject fs)\<rparr>"

text \<open>
  Property C35. A refused request leaves the store. A request to the dashboard whose answer is an error of the
  client, which is any status but 200, 201 and 500, leaves every table, and what was published, as it was.
\<close>

theorem refused_request_leaves_the_store:
  assumes "re_Status (fst (replied h rq s)) \<notin> {200, 201, 500}"
  shows "snd (replied h rq s) = s"
proof (cases "ServeHTTP h rq s")
  case (Pair v t)
  show ?thesis
  proof (cases v)
    case (Inl r)
    with Pair assms quietD [OF quiet_ServeHTTP, of h rq s r t] show ?thesis by (simp add: replied_def)
  next
    case (Inr r)
    with Pair assms succeeds_ServeHTTP [of h rq] show ?thesis by (auto simp: replied_def succeeds_def)
  qed
qed

theorem refused_request_leaves_the_store_witness:
  "snd (replied a_dashboard (a_post ''/api/tasks/1/snooze'' [(''snoozed_until'', JString ''tomorrow'')]) example) = example"
proof -
  have "re_Status (fst (replied a_dashboard (a_post ''/api/tasks/1/snooze'' [(''snoozed_until'', JString ''tomorrow'')]) example)) = 400"
    by code_simp
  then show ?thesis by (intro refused_request_leaves_the_store) simp
qed

section \<open>Archived projects are not written\<close>

text \<open>The project of what a path names.\<close>

definition project_of_row :: "string \<Rightarrow> int \<Rightarrow> store \<Rightarrow> int option" where
  "project_of_row kind n s =
     (let of_goal = (\<lambda>g. map_option g_project_id (goal_row g s))
      in if kind = ''goals'' then of_goal n
         else if kind = ''tasks'' then Option.bind (task_row n s) (\<lambda>t. of_goal (t_goal_id t))
         else if kind = ''decisions'' then Option.bind (decision_row n s) (\<lambda>d. of_goal (d_goal_id d))
         else None)"

lemma written_project_finds:
  assumes "resolveID i s = (Inr n, s)" and "project_of_row kind n s = Some p" and "p \<noteq> 0"
  shows "written_project kind i s = (Inr (Some p), s)"
  using assms
  by (auto simp: written_project_def project_of_row_def bnd_def GetGoal_def GetGoal_sql_def ListNextGoals_def ListNextGoals_sql_def
      ProjectIDForTask_def GetTaskProjectID_sql_def GetDecision_def GetDecision_sql_def decisionFromRow_def ask_def need_def ret_def
      map_error_def check_def bind_eq_Some_conv split: if_splits)

text \<open>
  Property C28. An archived project refuses the dashboard. A request that is not a read, to a goal, a task or a
  decision of an archived project, is answered 409 with the reason, whatever the rest of its path and its
  body are, and nothing changes.
\<close>

theorem archived_project_refuses_the_dashboard:
  assumes "hr_Method rq \<noteq> ''GET''" and "url_parts (hr_Path rq) = ''api'' # kind # i # rest" and "i \<noteq> []"
    and "resolveID i s = (Inr n, s)" and "project_of_row kind n s = Some (p_id r)" and "p_id r \<noteq> 0"
    and "List.find (\<lambda>q. p_id q = p_id r) (projects s) = Some r" and "p_archived_at r \<noteq> None"
  shows "replied h rq s = (\<lparr>re_Status = 409, re_Body = ErrorReply (Because (ProjectE ErrProjectArchived))\<rparr>, s)"
proof -
  note found = written_project_finds [OF assms(4,5,6)]
  have "EnsureProjectActive (p_id r) s = (Inl (ProjectE ErrProjectArchived), s)"
    using assms(7,8)
    by (simp add: EnsureProjectActive_def lookup_project_def GetProject_sql_def bnd_def ask_def need_def ret_def map_error_def
        check_def fail_def split: option.splits)
  then have "rejectArchivedWrite (hr_Method rq) (''api'' # kind # i # rest) s = (Inl (storeErrorReply (ProjectE ErrProjectArchived)), s)"
    using assms(1,3) found by (simp add: rejectArchivedWrite_def attempt_def bnd_def check_def fail_def)
  then show ?thesis
    by (simp add: replied_def ServeHTTP_def bnd_def assms(2) storeErrorReply_def causeReply_def)
qed

theorem archived_project_refuses_the_dashboard_witness:
  "replied a_dashboard (a_post ''/api/tasks/1/release'' [])
      (example\<lparr>projects := [(hd (projects example))\<lparr>p_archived_at := Some 1\<rparr>]\<rparr>)
    = (\<lparr>re_Status = 409, re_Body = ErrorReply (Because (ProjectE ErrProjectArchived))\<rparr>,
       example\<lparr>projects := [(hd (projects example))\<lparr>p_archived_at := Some 1\<rparr>]\<rparr>)"
proof -
  let ?s = "example\<lparr>projects := [(hd (projects example))\<lparr>p_archived_at := Some 1\<rparr>]\<rparr>"
  let ?r = "(hd (projects example))\<lparr>p_archived_at := Some 1\<rparr>"
  have "hr_Method (a_post ''/api/tasks/1/release'' []) \<noteq> ''GET''"
    "url_parts (hr_Path (a_post ''/api/tasks/1/release'' [])) = [''api'', ''tasks'', ''1'', ''release'']"
    "fst (resolveID ''1'' ?s) = Inr 1" "project_of_row ''tasks'' 1 ?s = Some 1" "p_id ?r = 1" "p_archived_at ?r \<noteq> None"
    by code_simp+
  moreover have "List.find (\<lambda>q. p_id q = p_id ?r) (projects ?s) = Some ?r" by (simp add: example_def)
  moreover have "resolveID ''1'' ?s = (fst (resolveID ''1'' ?s), ?s)"
    by (rule prod_eqI) (simp_all add: reads_task_ops(1) [unfolded reads_def])
  ultimately show ?thesis
    by (intro archived_project_refuses_the_dashboard [where kind = "''tasks''" and i = "''1''" and rest = "[''release'']" and n = 1 and r = ?r])
      simp_all
qed

section \<open>What the human answers\<close>

lemma serve_decision:
  assumes "ServeHTTP h rq s = (Inr r, t)" and "url_parts (hr_Path rq) = [''api'', ''decisions'', i, action]"
  shows "handleDecision h i action (hr_Body rq) s = (Inr r, t)"
  using assms reads_rejectArchivedWrite [THEN readsD]
  by (fastforce simp: ServeHTTP_def op_run route_of_def or_missing_def serve_endpoint_def split: if_splits)

lemma read_body_run:
  "read_body sig b f s = (Inr r, t) \<Longrightarrow> \<exists>v fs. b = Body v \<and> object_fields (Some v) = Some fs \<and> f fs s = (Inr r, t)"
  by (auto simp: read_body_def Let_def op_run split: body.splits option.splits if_splits)

lemma open_decision_run:
  assumes "ensureOpenDecision n s = (Inr d, t) \<or> getOpenDecision n s = (Inr d, t)"
  shows "t = s \<and> (\<exists>e. decision_row n s = Some e \<and> d = decisionFromRow e \<and> d_status e = DecisionOpen)"
    "getOpenDecision n s = (Inr d, t) \<Longrightarrow> d_kind d = KindGoalReview"
  using assms
  by (auto simp: ensureOpenDecision_def getOpenDecision_def decision_for_def op_run calling_run GetDecision_def GetDecision_sql_def
      decisionFromRow_def)

text \<open>
  The row an accepted answer of the dashboard leaves, from the fields of the body of the request: it names no
  source, since the human is the one who asks.
\<close>

definition settled_row :: "string \<Rightarrow> fields \<Rightarrow> time \<Rightarrow> decision \<Rightarrow> decision \<Rightarrow> bool" where
  "settled_row action fs now d row \<longleftrightarrow>
     action = ''approve'' \<and> d_kind d = KindGoalReview \<and> row = set_source no_source
       (d\<lparr>d_status := DecisionApplied, d_answer_label := ''approve'', d_answered_at := Some (rfc3339 now), d_applied_at := Some (rfc3339 now)\<rparr>)
   \<or> action = ''reject'' \<and> d_kind d = KindGoalReview \<and> row = set_source no_source
       (d\<lparr>d_status := DecisionAnswered, d_answer_label := ''reject'', d_answer_text := string_arg fs ''reason'', d_answered_at := Some now\<rparr>)
   \<or> action = ''answer'' \<and> d_kind d \<noteq> KindGoalReview
     \<and> \<not> (blank (string_arg fs ''answer_label'') \<and> blank (string_arg fs ''answer_text'')) \<and> row = set_source no_source
       (d\<lparr>d_status := DecisionAnswered, d_answer_label := string_arg fs ''answer_label'',
          d_answer_text := string_arg fs ''answer_text'', d_answered_at := Some (rfc3339 now)\<rparr>)"

text \<open>An accepted answer, read backwards from its reply to the statement that wrote it.\<close>

lemma resolving_run: "resolving i s = (Inr n, u) \<Longrightarrow> u = s \<and> resolveID i s = (Inr n, s)"
  by (auto simp: resolving_def calling_run dest: readsD [OF reads_task_ops(1)])

lemmas open_kept = reads_run [OF reads_http(3)] reads_run [OF reads_http(4)]

lemma handleApprove_run:
  assumes "handleApprove h i b s = (Inr r, t)"
  shows "(\<exists>v fs. b = Body v \<and> object_fields (Some v) = Some fs)
    \<and> (\<exists>n e k u. resolveID i s = (Inr n, s) \<and> decision_row n s = Some e \<and> d_status e = DecisionOpen \<and> d_kind e = KindGoalReview
    \<and> ApproveGoalReviewDecision_sql (rfc3339 (en_now (he_env h))) no_source n s = (Inr k, u) \<and> k \<noteq> 0 \<and> decisions t = decisions u)"
proof -
  from assms have body: "\<exists>v fs. b = Body v \<and> object_fields (Some v) = Some fs"
    unfolding handleApprove_def by (blast dest: read_body_run)
  from assms have "\<exists>n d g. resolveID i s = (Inr n, s) \<and> fst (getOpenDecision n s) = Inr d
      \<and> ApproveGoalReviewWith (d_id d) no_source (en_now (he_env h)) s = (Inr g, t)"
    unfolding handleApprove_def ApproveGoalReview_def
    by (elim read_body_run [elim_format] exE) (clarsimp simp: op_run calling_run open_kept dest!: resolving_run)
  then obtain n d g where r: "resolveID i s = (Inr n, s)" "getOpenDecision n s = (Inr d, s)"
      "ApproveGoalReviewWith (d_id d) no_source (en_now (he_env h)) s = (Inr g, t)"
    by (auto simp: open_kept)
  from open_decision_run [of n s d s] r(2) obtain e where e: "decision_row n s = Some e" "d = decisionFromRow e" "d_status e = DecisionOpen"
      "d_kind d = KindGoalReview" by blast
  then have "d_id d = n" "d_kind e = KindGoalReview" by (auto simp: decisionFromRow_def decision_row_def dest: find_Some_in)
  with r e body show ?thesis
    by (auto simp: ApproveGoalReviewWith_def op_run GetDecision_sql_def GetOpenGoalReviewGoalID_sql_def GetGoalStatus_sql_def
        dest!: GetGoal_run)
qed

lemma handleReject_run:
  assumes "handleReject h i b s = (Inr r, t)"
  shows "\<exists>v fs n e k u. b = Body v \<and> object_fields (Some v) = Some fs
    \<and> resolveID i s = (Inr n, s) \<and> decision_row n s = Some e \<and> d_status e = DecisionOpen \<and> d_kind e = KindGoalReview
    \<and> RejectGoalReviewDecision_sql (string_arg fs ''reason'') (en_now (he_env h)) no_source n s = (Inr k, u) \<and> k \<noteq> 0
    \<and> decisions t = decisions u"
proof -
  obtain w fs where b: "b = Body w" "object_fields (Some w) = Some fs"
    and run: "bnd (resolving i) (\<lambda>n. bnd (getOpenDecision n) (\<lambda>d. bnd (check (d_kind d = KindGoalReview) not_open) (\<lambda>_.
      bnd (calling answering (RejectGoalReview n (string_arg fs ''reason'') (en_now (he_env h)))) (\<lambda>_.
      bnd (calling storeErrorReply (GetDecision n)) (\<lambda>d. ret (okReply (DecisionReply d))))))) s = (Inr r, t)"
    using read_body_run [OF assms [unfolded handleReject_def]] by blast
  have "\<exists>n d v x. resolveID i s = (Inr n, s) \<and> fst (getOpenDecision n s) = Inr d
      \<and> RejectGoalReviewWith n (string_arg fs ''reason'') no_source (en_now (he_env h)) s = (Inr (), v) \<and> GetDecision n v = (Inr x, t)"
    using run unfolding RejectGoalReview_def
    by (clarsimp simp: op_run calling_run open_kept dest!: resolving_run)
  then obtain n d v where r: "resolveID i s = (Inr n, s)" "getOpenDecision n s = (Inr d, s)"
      "RejectGoalReviewWith n (string_arg fs ''reason'') no_source (en_now (he_env h)) s = (Inr (), v)" "\<exists>x. GetDecision n v = (Inr x, t)"
    unfolding open_kept by blast
  from r(4) have "t = v" using readsD by (auto simp: GetDecision_def GetDecision_sql_def op_run)
  from open_decision_run [of n s d s] r(2) obtain e where e: "decision_row n s = Some e" "d = decisionFromRow e" "d_status e = DecisionOpen"
      "d_kind d = KindGoalReview" by blast
  then have "d_kind e = KindGoalReview" by (auto simp: decisionFromRow_def)
  moreover have "\<exists>k u. RejectGoalReviewDecision_sql (string_arg fs ''reason'') (en_now (he_env h)) no_source n s = (Inr k, u)
      \<and> k \<noteq> 0 \<and> decisions t = decisions u"
    using r(3) \<open>t = v\<close> by (fastforce simp: RejectGoalReviewWith_def op_run GetDecision_sql_def)
  ultimately show ?thesis using r(1) e(1,3) b by blast
qed

lemma handleAnswer_run:
  assumes "handleAnswer h i b s = (Inr r, t)"
  shows "\<exists>v fs n e k u. b = Body v \<and> object_fields (Some v) = Some fs
    \<and> resolveID i s = (Inr n, s) \<and> decision_row n s = Some e \<and> d_status e = DecisionOpen \<and> d_kind e \<noteq> KindGoalReview
    \<and> \<not> (blank (string_arg fs ''answer_label'') \<and> blank (string_arg fs ''answer_text''))
    \<and> AnswerDecision_sql (string_arg fs ''answer_label'') (string_arg fs ''answer_text'') (rfc3339 (en_now (he_env h))) no_source n s
        = (Inr k, u) \<and> k \<noteq> 0 \<and> decisions t = decisions u"
proof -
  define given where "given fs n = \<lparr>DecisionID = n, AnswerLabel = string_arg fs ''answer_label'', AnswerText = string_arg fs ''answer_text''\<rparr>"
    for fs n
  obtain w fs where b: "b = Body w" "object_fields (Some w) = Some fs"
    and run: "bnd (check (\<not> (blank (string_arg fs ''answer_label'') \<and> blank (string_arg fs ''answer_text'')))
        (errorReply 400 ''an answer label or text is required'')) (\<lambda>_.
      bnd (resolving i) (\<lambda>n. bnd (ensureOpenDecision n) (\<lambda>d.
      bnd (check (d_kind d \<noteq> KindGoalReview) (errorReply 400 ''use approve or reject for this decision'')) (\<lambda>_.
      bnd (calling answering (AnswerDecision (given fs n) (en_now (he_env h)))) (\<lambda>d. ret (okReply (DecisionReply d))))))) s
        = (Inr r, t)"
    using read_body_run [OF assms [unfolded handleAnswer_def Let_def]] unfolding given_def by blast
  have "\<exists>n d x. resolveID i s = (Inr n, s) \<and> fst (ensureOpenDecision n s) = Inr d \<and> d_kind d \<noteq> KindGoalReview
      \<and> \<not> (blank (string_arg fs ''answer_label'') \<and> blank (string_arg fs ''answer_text''))
      \<and> AnswerDecisionWith (given fs n) no_source (en_now (he_env h)) s = (Inr x, t)"
    using run unfolding AnswerDecision_def
    by (clarsimp simp: op_run calling_run open_kept dest!: resolving_run)
  then obtain n d x where r: "resolveID i s = (Inr n, s)" "ensureOpenDecision n s = (Inr d, s)" "d_kind d \<noteq> KindGoalReview"
      "\<not> (blank (string_arg fs ''answer_label'') \<and> blank (string_arg fs ''answer_text''))"
      "AnswerDecisionWith (given fs n) no_source (en_now (he_env h)) s = (Inr x, t)"
    unfolding open_kept by blast
  from open_decision_run [of n s d s] r(2) obtain e where e: "decision_row n s = Some e" "d = decisionFromRow e" "d_status e = DecisionOpen"
    by blast
  moreover have "\<exists>k u. AnswerDecision_sql (string_arg fs ''answer_label'') (string_arg fs ''answer_text'')
      (rfc3339 (en_now (he_env h))) no_source n s = (Inr k, u) \<and> k \<noteq> 0 \<and> decisions t = decisions u"
    using r(5) by (fastforce simp: AnswerDecisionWith_def answerDecision_def op_run GetDecision_sql_def given_def)
  ultimately show ?thesis using r(1,3,4) b by (auto simp: decisionFromRow_def)
qed

text \<open>
  Property C6. The dashboard settles an open decision with what the human sent, and nothing else. When the
  dashboard accepts the answer, the approval or the rejection of a decision, that decision was open; an
  approval or a rejection was of a goal review, an answer was of any other decision and says something.
  Afterwards that row, and no other row, is settled: an answer is stored with the label and the text of the
  body of the request, a rejection with its reason, an approval as applied, at the instant of the request
  and without a source.
\<close>

theorem dashboard_settles_open_decisions:
  assumes wf: "wf_decisions (decisions s)" and served: "ServeHTTP h rq s = (Inr r, t)"
    and path: "url_parts (hr_Path rq) = [''api'', ''decisions'', i, action]" and action: "action \<in> {''answer'', ''approve'', ''reject''}"
  shows "\<exists>v fs n d row. hr_Body rq = Body v \<and> object_fields (Some v) = Some fs
    \<and> resolveID i s = (Inr n, s) \<and> decision_row n s = Some d \<and> d_status d = DecisionOpen
    \<and> settled_row action fs (en_now (he_env h)) d row
    \<and> decisions t = update_where (\<lambda>e. d_id e = n) (\<lambda>_. row) (decisions s)"
proof -
  have ids: "distinct (map d_id (decisions s))" using wf by (simp add: wf_decisions_def)
  note handled = serve_decision [OF served path, unfolded handleDecision_def]
  from action consider "action = ''approve''" | "action = ''reject''" | "action = ''answer''" by blast
  then show ?thesis
  proof cases
    case 1
    with handled handleApprove_run [of h i "hr_Body rq" s r t] obtain v fs n e k u where run: "resolveID i s = (Inr n, s)" "decision_row n s = Some e"
        "d_status e = DecisionOpen" "d_kind e = KindGoalReview" "k \<noteq> 0" "decisions t = decisions u"
        "ApproveGoalReviewDecision_sql (rfc3339 (en_now (he_env h))) no_source n s = (Inr k, u)"
        "hr_Body rq = Body v" "object_fields (Some v) = Some fs"
      by auto
    from answer_update_run [OF run(7) [unfolded ApproveGoalReviewDecision_sql_def] run(5) ids] run(1-4,6,8,9) 1
    show ?thesis by (auto simp: settled_row_def)
  next
    case 2
    with handled handleReject_run [of h i "hr_Body rq" s r t] obtain v fs n e k u where run: "resolveID i s = (Inr n, s)" "decision_row n s = Some e"
        "d_status e = DecisionOpen" "d_kind e = KindGoalReview" "k \<noteq> 0" "decisions t = decisions u"
        "RejectGoalReviewDecision_sql (string_arg fs ''reason'') (en_now (he_env h)) no_source n s = (Inr k, u)"
        "hr_Body rq = Body v" "object_fields (Some v) = Some fs"
      by auto
    from answer_update_run [OF run(7) [unfolded RejectGoalReviewDecision_sql_def] run(5) ids] run(1-4,6,8,9) 2
    show ?thesis by (auto simp: settled_row_def)
  next
    case 3
    with handled handleAnswer_run [of h i "hr_Body rq" s r t] obtain v fs n e k u where run: "resolveID i s = (Inr n, s)" "decision_row n s = Some e"
        "d_status e = DecisionOpen" "d_kind e \<noteq> KindGoalReview" "k \<noteq> 0" "decisions t = decisions u"
        "\<not> (blank (string_arg fs ''answer_label'') \<and> blank (string_arg fs ''answer_text''))"
        "AnswerDecision_sql (string_arg fs ''answer_label'') (string_arg fs ''answer_text'') (rfc3339 (en_now (he_env h))) no_source n s = (Inr k, u)"
        "hr_Body rq = Body v" "object_fields (Some v) = Some fs"
      by (simp, blast)
    from answer_update_run [OF run(8) [unfolded AnswerDecision_sql_def] run(5) ids] run(1-4,6,7,9,10) 3
    show ?thesis by (auto simp: settled_row_def)
  qed
qed

theorem dashboard_settles_open_decisions_witness:
  "\<exists>n d row. resolveID ''1'' example = (Inr n, example) \<and> decision_row n example = Some d \<and> d_status d = DecisionOpen
    \<and> d_answer_label row = ''a'' \<and> d_answer_text row = ''go''
    \<and> decisions (snd (ServeHTTP a_dashboard
         (a_post ''/api/decisions/1/answer'' [(''answer_label'', JString ''a''), (''answer_text'', JString ''go'')]) example))
      = update_where (\<lambda>e. d_id e = n) (\<lambda>_. row) (decisions example)"
proof -
  let ?fs = "[(''answer_label'', JString ''a''), (''answer_text'', JString ''go'')]"
  let ?rq = "a_post ''/api/decisions/1/answer'' ?fs"
  have "\<not> isl (fst (ServeHTTP a_dashboard ?rq example))" by code_simp
  then obtain r where "ServeHTTP a_dashboard ?rq example = (Inr r, snd (ServeHTTP a_dashboard ?rq example))"
    by (cases "ServeHTTP a_dashboard ?rq example"; cases "fst (ServeHTTP a_dashboard ?rq example)") auto
  moreover have "url_parts (hr_Path ?rq) = [''api'', ''decisions'', ''1'', ''answer'']" by code_simp
  moreover have "''answer'' \<in> {''answer'', ''approve'', ''reject''}" by blast
  ultimately obtain v fs n d row where settled: "hr_Body ?rq = Body v" "object_fields (Some v) = Some fs"
    "resolveID ''1'' example = (Inr n, example)" "decision_row n example = Some d" "d_status d = DecisionOpen"
    "settled_row ''answer'' fs (en_now (he_env a_dashboard)) d row"
    "decisions (snd (ServeHTTP a_dashboard ?rq example)) = update_where (\<lambda>e. d_id e = n) (\<lambda>_. row) (decisions example)"
    using dashboard_settles_open_decisions [OF wf_store_parts(5) [OF wf_example], of a_dashboard ?rq r] by blast
  from settled(1,2) have "fs = ?fs" by (auto simp: a_post_def object_fields_def)
  then have "string_arg fs ''answer_label'' = ''a''" "string_arg fs ''answer_text'' = ''go''"
    by (simp_all add: string_arg_def field_def)
  with settled(6) have "d_answer_label row = ''a''" "d_answer_text row = ''go''"
    by (auto simp: settled_row_def set_source_def)
  with settled(3,4,5,7) show ?thesis by blast
qed

section \<open>Ids that name nothing\<close>

text \<open>
  The handlers have a 404 for a goal or a task that does not exist, but the operations of the store fail
  before with an error that is not theirs: the answer is a 500.
\<close>

lemma unknown_goal_is_a_server_error:
  assumes "goal_row n s = None" and "resolveID i s = (Inr n, s)" and "\<not> blank reason"
  shows "handleWithdraw h i (Body (JObject [(''reason'', JString reason)])) s = (Inl (causeReply 500 NoRows), s)"
  using assms
  by (simp add: handleWithdraw_def read_body_def object_fields_def field_def string_arg_def resolving_def calling_def attempt_def
      bnd_def check_def ret_def fail_def WithdrawActiveGoal_def transaction_def GetGoalProjectID_sql_def ask_def need_def
      storeErrorReply_def)

lemma unknown_task_is_a_server_error:
  assumes "task_row n s = None" and "resolveID i s = (Inr n, s)"
  shows "handleRelease h i s = (Inl (causeReply 500 NoRows), s)"
  using assms
  by (simp add: handleRelease_def resolving_def calling_def attempt_def bnd_def ret_def fail_def ReleaseTaskForHuman_def
      openTaskHandoff_def ListTaskHandoffs_def ListTaskHandoffs_sql_def GetTaskGoalID_sql_def ask_def need_def
      status_of_def storeErrorReply_def)

end
