(* ===== verification/Atct_Tracker.thy ===== *)
theory Atct_Tracker
  imports Atct_Findings
begin

text \<open>
  The maintenance round of the daemon (\<^verbatim>\<open>internal/daemon/wakeup.go\<close>): it settles the
  expired defaults, reclaims sessions and sends the wake-ups. A wake-up is a condition that has held for
  a while; the tracker remembers in memory since when each holds and when it was last sent. The random
  ids of the events are left out, and what a round publishes is a list of its own.
\<close>

section \<open>When a wake-up is sent\<close>

definition minute :: time where
  "minute = 60 * second"

definition wakeupPublishAfter :: time where
  "wakeupPublishAfter = 15 * minute"

definition wakeupInitialWait :: time where
  "wakeupInitialWait = 3 * minute"

definition wakeupResendInterval :: time where
  "wakeupResendInterval = 3 * minute"

definition wakeupHandoffUnreceivedAfter :: time where
  "wakeupHandoffUnreceivedAfter = 30 * minute"

definition wakeupHandoffUnreportedAfter :: time where
  "wakeupHandoffUnreportedAfter = 30 * minute"

definition wakeupClaimUndelegatedAfter :: time where
  "wakeupClaimUndelegatedAfter = 30 * minute"

definition wakeupAnsweredDecisionUnappliedAfter :: time where
  "wakeupAnsweredDecisionUnappliedAfter = 0"

definition wakeupDefaultDecisionUnappliedAfter :: time where
  "wakeupDefaultDecisionUnappliedAfter = 3 * minute"

definition wakeupStaleClaimAfter :: time where
  "wakeupStaleClaimAfter = 3 * minute"

definition wakeupMonitorLostAfter :: time where
  "wakeupMonitorLostAfter = MonitorHealthLease"

text \<open>\<open>ws_lastPublished\<close> is None where the Go code has the zero time and \<^verbatim>\<open>published\<close> is false.\<close>

record wakeupState =
  ws_activeSince :: time
  ws_lastPublished :: "time option"

definition wakeupKey :: "string \<Rightarrow> string \<Rightarrow> string" where
  "wakeupKey name targetID = name @ [CHR 0x00] @ targetID"

text \<open>The entry of a key after the check of its start; \<open>startedAt\<close> is None for the zero time.\<close>

definition tracked :: "time \<Rightarrow> time option \<Rightarrow> wakeupState option \<Rightarrow> wakeupState" where
  "tracked now startedAt entry =
     (case entry of
        None \<Rightarrow> \<lparr>ws_activeSince = (case startedAt of None \<Rightarrow> now | Some t \<Rightarrow> t), ws_lastPublished = None\<rparr>
      | Some w \<Rightarrow>
          (case startedAt of None \<Rightarrow> w
           | Some t \<Rightarrow> if ws_activeSince w = t then w else \<lparr>ws_activeSince = t, ws_lastPublished = None\<rparr>))"

definition is_due :: "time \<Rightarrow> time \<Rightarrow> time \<Rightarrow> wakeupState \<Rightarrow> bool" where
  "is_due now after resendInterval w \<longleftrightarrow>
     ws_activeSince w + after \<le> now
   \<and> (case ws_lastPublished w of None \<Rightarrow> True
      | Some sent \<Rightarrow> 0 < resendInterval \<and> sent + resendInterval \<le> now)"

definition publishWakeup ::
  "time \<Rightarrow> string \<Rightarrow> time option \<Rightarrow> time \<Rightarrow> time \<Rightarrow> (string \<Rightarrow> wakeupState option) \<Rightarrow>
     bool \<times> (string \<Rightarrow> wakeupState option)" where
  "publishWakeup now key startedAt after resendInterval ws =
     (let w = tracked now startedAt (ws key)
      in if is_due now after resendInterval w then (True, ws(key \<mapsto> w\<lparr>ws_lastPublished := Some now\<rparr>))
         else (False, ws(key \<mapsto> w)))"

section \<open>A lost monitor\<close>

definition monitor_of :: "string \<Rightarrow> int \<Rightarrow> int \<Rightarrow> time \<Rightarrow> monitor_health \<Rightarrow> bool" where
  "monitor_of role goalID taskID receivedAt h \<longleftrightarrow>
     mh_role h = role \<and> mh_goal_id h = Some goalID \<and> receivedAt - MonitorHealthLease \<le> mh_last_seen_at h
   \<and> mh_task_id h = (if taskID = 0 then None else Some taskID)"

definition lostMonitorAt ::
  "monitor_health list \<Rightarrow> time \<Rightarrow> string \<Rightarrow> int \<Rightarrow> int \<Rightarrow> time option \<Rightarrow> time option" where
  "lostMonitorAt history now role goalID taskID receivedAt =
     (case receivedAt of None \<Rightarrow> None
      | Some received \<Rightarrow>
          (let hs = filter (monitor_of role goalID taskID received) history
           in if list_ex (\<lambda>h. mh_stopped_at h = None \<and> now - MonitorHealthLease \<le> mh_last_seen_at h) hs then None
              else case map mh_last_seen_at hs of [] \<Rightarrow> None | t # ts \<Rightarrow> Some (foldl max t ts)))"

section \<open>The activity in the working copy\<close>

text \<open>What git and the file system tell, besides \<open>world\<close>, and the spelling of an instant for git.\<close>

record worktrees =
  wt_world :: world
  wt_is_dir :: "string \<Rightarrow> bool"
  wt_modified :: "string \<Rightarrow> time option"
  wt_format :: "time \<Rightarrow> string"

fun porcelain_paths :: "string list \<Rightarrow> string list" where
  "porcelain_paths [] = []"
| "porcelain_paths (e # es) =
     (if length e < 4 then porcelain_paths es
      else if list_ex (\<lambda>c. c = CHR ''R'' \<or> c = CHR ''C'') (take 2 e)
      then drop 3 e # (case es of [] \<Rightarrow> [] | e' # rest \<Rightarrow> (if e' \<noteq> [] then [e'] else []) @ porcelain_paths rest)
      else drop 3 e # porcelain_paths es)"

definition porcelainPaths :: "string \<Rightarrow> string list" where
  "porcelainPaths output = porcelain_paths (split_char (CHR 0x00) output)"

definition handoffWorktreeActivity :: "worktrees \<Rightarrow> string \<Rightarrow> int \<Rightarrow> time \<Rightarrow> string" where
  "handoffWorktreeActivity wt projectRoot goalID receivedAt =
     (let worktree = goal_worktree projectRoot goalID
      in if \<not> wt_is_dir wt worktree then []
         else case w_git (wt_world wt) worktree [''status'', ''--porcelain'', ''-z''] of None \<Rightarrow> []
         | Some status \<Rightarrow>
             if list_ex (\<lambda>p. case wt_modified wt (Join [worktree, p]) of None \<Rightarrow> False | Some t \<Rightarrow> receivedAt < t)
                  (porcelainPaths status)
             then ''changed''
             else case w_git (wt_world wt) worktree
                    [''log'', ''--format=%ct'', ''--after='' @ wt_format wt receivedAt, goalBranchName goalID] of None \<Rightarrow> []
             | Some commits \<Rightarrow>
                 if list_ex (\<lambda>v. case ParseInt v of None \<Rightarrow> False | Some n \<Rightarrow> receivedAt < n * second) (text_fields commits)
                 then ''changed'' else ''unchanged'')"

section \<open>A round\<close>

datatype wakeup_notice =
    Keepalive time
  | WakeupDiscrepancy int nat nat
  | ActionableWakeup int WakeupState
  | WakeupNotice (wn_name: string) (wn_project: int) (wn_goal: int) (wn_task: int) (wn_handoff: string)
      (wn_decision: int) (wn_activity: string)
  | WakeupEvaluateFailed

text \<open>
  The store, the tracker, the keys whose condition holds in this round and what was published.
\<close>

record round =
  rd_store :: store
  rd_wakeups :: "string \<Rightarrow> wakeupState option"
  rd_discrepancySeen :: "int list"
  rd_evaluateFailed :: bool
  rd_currentKeys :: "string list"
  rd_published :: "wakeup_notice list"

type_synonym 'a round_op = "(round, error, 'a) op"

definition at_store :: "'a store_op \<Rightarrow> 'a round_op" where
  "at_store m = (\<lambda>d. case m (rd_store d) of (r, s) \<Rightarrow> (r, d\<lparr>rd_store := s\<rparr>))"

definition publish_notice :: "wakeup_notice \<Rightarrow> unit round_op" where
  "publish_notice n = change (rd_published_update (\<lambda>ns. ns @ [n]))"

text \<open>A condition that holds: its key is kept, and the event is published when it is due.\<close>

definition record_wakeup :: "time \<Rightarrow> string \<Rightarrow> time option \<Rightarrow> time \<Rightarrow> time \<Rightarrow> wakeup_notice \<Rightarrow> unit round_op" where
  "record_wakeup now key startedAt after resendInterval n =
     bnd (ask (\<lambda>d. publishWakeup now key startedAt after resendInterval (rd_wakeups d))) (\<lambda>(due, ws).
     bnd (change (\<lambda>d. d\<lparr>rd_wakeups := ws, rd_currentKeys := rd_currentKeys d @ [key]\<rparr>)) (\<lambda>_.
     if due then publish_notice n else ret ()))"

definition recordWakeupEvent ::
  "worktrees \<Rightarrow> project \<Rightarrow> time \<Rightarrow> string \<Rightarrow> string \<Rightarrow> time option \<Rightarrow> time \<Rightarrow> int \<Rightarrow> int \<Rightarrow> string \<Rightarrow> int \<Rightarrow> unit round_op" where
  "recordWakeupEvent wt p now name targetID startedAt after goalID taskID handoffID decisionID =
     record_wakeup now (wakeupKey name targetID) startedAt after 0
       (WakeupNotice name (p_id p) goalID taskID handoffID decisionID
         (if name = ''wakeup.handoff_unreported''
          then (case startedAt of None \<Rightarrow> [] | Some t \<Rightarrow> handoffWorktreeActivity wt (p_root_path p) goalID t) else []))"

text \<open>
  Evaluating and counting again on a mismatch. A project without a mismatch forgets that one was reported.
\<close>

definition check_counts :: "int \<Rightarrow> time \<Rightarrow> WakeupState round_op" where
  "check_counts projectID now =
     (let look = bnd (EvaluateWakeup projectID now) (\<lambda>st.
                 bnd (CountUnstartedTasksForWakeup projectID now) (\<lambda>n. ret (st, n)));
          mismatch = (\<lambda>(st, n). wk_UnstartedTaskCount st = 0 \<and> 0 < n)
      in bnd (at_store (bnd look (\<lambda>r. if mismatch r then look else ret r))) (\<lambda>(st, counted).
         bnd (if mismatch (st, counted)
              then bnd (ask (\<lambda>d. projectID \<in> set (rd_discrepancySeen d))) (\<lambda>seen.
                if seen then ret ()
                else bnd (publish_notice (WakeupDiscrepancy projectID (wk_UnstartedTaskCount st) counted)) (\<lambda>_.
                  change (rd_discrepancySeen_update (\<lambda>is. projectID # is))))
              else change (rd_discrepancySeen_update (filter (\<lambda>i. i \<noteq> projectID)))) (\<lambda>_.
         ret st)))"

text \<open>The open task handoffs of a goal, one per task; a Go map has no order, the model takes that of the rows.\<close>

definition open_handoffs :: "int \<Rightarrow> (handoff list) store_op" where
  "open_handoffs goalID =
     bnd (ListOpenTaskHandoffsForGoal_sql goalID) (\<lambda>rows.
     ret (List.map_filter (by_owner rows) (remdups (map h_owner rows))))"

definition lost_monitors :: "worktrees \<Rightarrow> project \<Rightarrow> time \<Rightarrow> monitor_health list \<Rightarrow> goal \<Rightarrow> unit round_op" where
  "lost_monitors wt p now history g =
     bnd (at_store (ListGoalHandoffs (g_id g))) (\<lambda>ghs.
     bnd (case lostMonitorAt history now ''subcommander'' (g_id g) 0
            (case List.find (\<lambda>h. h_received_at h \<noteq> None \<and> handoff_live h) ghs of None \<Rightarrow> None | Some h \<Rightarrow> h_received_at h) of
            None \<Rightarrow> ret ()
          | Some lostAt \<Rightarrow> recordWakeupEvent wt p now ''wakeup.monitor_lost'' (''goal:'' @ Itoa_int (g_id g)) (Some lostAt)
              wakeupMonitorLostAfter (g_id g) 0 [] 0) (\<lambda>_.
     bnd (at_store (open_handoffs (g_id g))) (\<lambda>hs.
     each (\<lambda>h. case lostMonitorAt history now ''executor'' (g_id g) (h_owner h) (h_received_at h) of
            None \<Rightarrow> ret ()
          | Some lostAt \<Rightarrow> recordWakeupEvent wt p now ''wakeup.monitor_lost'' (''task:'' @ Itoa_int (h_owner h)) (Some lostAt)
              wakeupMonitorLostAfter (g_id g) (h_owner h) (h_id h) 0) hs)))"

text \<open>When the open handoff of a task was claimed, looked up for the goals of the given tasks.\<close>

definition claim_times :: "task list \<Rightarrow> (int \<Rightarrow> time option) store_op" where
  "claim_times ts =
     bnd (collect open_handoffs (filter (\<lambda>i. i \<noteq> 0) (remdups (map t_goal_id ts)))) (\<lambda>hss.
     ret (\<lambda>i. taskHandoffClaimedAt (List.find (\<lambda>h. h_owner h = i) (concat hss))))"

definition goal_wakeups :: "worktrees \<Rightarrow> project \<Rightarrow> time \<Rightarrow> string \<Rightarrow> goal list \<Rightarrow> unit round_op" where
  "goal_wakeups wt p now name gs =
     each (\<lambda>g. recordWakeupEvent wt p now name (Itoa_int (g_id g)) None wakeupPublishAfter (g_id g) 0 [] 0) gs"

definition handoff_wakeups ::
  "worktrees \<Rightarrow> project \<Rightarrow> time \<Rightarrow> string \<Rightarrow> (handoff \<Rightarrow> time option) \<Rightarrow> time \<Rightarrow> handoff list \<Rightarrow> unit round_op" where
  "handoff_wakeups wt p now name since after hs =
     each (\<lambda>h. case since h of None \<Rightarrow> ret ()
       | Some t \<Rightarrow> bnd (at_store (GetTaskGoalID (h_owner h))) (\<lambda>goalID.
           recordWakeupEvent wt p now name (h_id h) (Some t) after goalID (h_owner h) (h_id h) 0)) hs"

definition claim_wakeups ::
  "worktrees \<Rightarrow> project \<Rightarrow> time \<Rightarrow> string \<Rightarrow> (int \<Rightarrow> time option) \<Rightarrow> time \<Rightarrow> task list \<Rightarrow> unit round_op" where
  "claim_wakeups wt p now name claimedAt after ts =
     each (\<lambda>t. case claimedAt (t_id t) of None \<Rightarrow> ret ()
       | Some at \<Rightarrow> recordWakeupEvent wt p now name (Itoa_int (t_id t)) (Some at) after (t_goal_id t) (t_id t) [] 0) ts"

definition decision_wakeups ::
  "worktrees \<Rightarrow> project \<Rightarrow> time \<Rightarrow> string \<Rightarrow> (decision \<Rightarrow> time option) \<Rightarrow> time \<Rightarrow> decision list \<Rightarrow> unit round_op" where
  "decision_wakeups wt p now name since after ds =
     each (\<lambda>d. recordWakeupEvent wt p now name (Itoa_int (d_id d)) (since d) after
       (d_goal_id d) (nz (d_task_id d)) [] (d_id d)) ds"

definition evaluate_project :: "worktrees \<Rightarrow> time \<Rightarrow> project \<Rightarrow> unit round_op" where
  "evaluate_project wt now p =
     bnd (check_counts (p_id p) now) (\<lambda>st.
     bnd (if wk_Tasks st = [] then ret ()
          else record_wakeup now (wakeupKey ''actionable'' (Itoa_int (p_id p))) None wakeupInitialWait wakeupResendInterval
                 (ActionableWakeup (p_id p) st)) (\<lambda>_.
     bnd (at_store (ListMonitorHealthHistory (p_id p))) (\<lambda>history.
     bnd (at_store (ListGoals (p_id p))) (\<lambda>gs.
     bnd (each (lost_monitors wt p now history) (filter (\<lambda>g. g_status g = GoalActive) gs)) (\<lambda>_.
     bnd (at_store (claim_times (wk_UndelegatedClaims st @ wk_StaleClaims st))) (\<lambda>claimedAt.
     bnd (goal_wakeups wt p now ''wakeup.completion_report_missing'' (wk_CompletedGoals st)) (\<lambda>_.
     bnd (goal_wakeups wt p now ''wakeup.commits_missing'' (wk_CommitlessGoals st)) (\<lambda>_.
     bnd (goal_wakeups wt p now ''wakeup.all_tasks_dropped'' (wk_DroppedGoals st)) (\<lambda>_.
     bnd (each (\<lambda>t. recordWakeupEvent wt p now ''wakeup.unclaimed_doing'' (Itoa_int (t_id t)) None wakeupPublishAfter
             (t_goal_id t) (t_id t) [] 0) (wk_UnclaimedDoingTasks st)) (\<lambda>_.
     bnd (handoff_wakeups wt p now ''wakeup.handoff_unreceived'' h_requested_at wakeupHandoffUnreceivedAfter
            (wk_HandoffsAwaitingReceipt st)) (\<lambda>_.
     bnd (handoff_wakeups wt p now ''wakeup.handoff_unreported'' h_received_at wakeupHandoffUnreportedAfter
            (wk_HandoffsAwaitingReport st)) (\<lambda>_.
     bnd (claim_wakeups wt p now ''wakeup.claim_undelegated'' claimedAt wakeupClaimUndelegatedAfter
            (wk_UndelegatedClaims st)) (\<lambda>_.
     bnd (decision_wakeups wt p now ''wakeup.decision_answered_unapplied'' (\<lambda>d. None) wakeupAnsweredDecisionUnappliedAfter
            (wk_AnsweredUnappliedDecisions st)) (\<lambda>_.
     bnd (decision_wakeups wt p now ''wakeup.decision_default_unapplied'' d_default_applied_at
            wakeupDefaultDecisionUnappliedAfter (wk_DefaultUnappliedDecisions st)) (\<lambda>_.
     claim_wakeups wt p now ''wakeup.claim_stale'' claimedAt wakeupStaleClaimAfter (wk_StaleClaims st))))))))))))))))"

text \<open>
  A project that fails keeps what it did so far and the next one is taken; only a round without a failure
  forgets the conditions that no longer hold. The value says whether the round succeeded.
\<close>

definition evaluate_round :: "worktrees \<Rightarrow> time \<Rightarrow> bool round_op" where
  "evaluate_round wt now =
     bnd (change (rd_currentKeys_update (\<lambda>_. []))) (\<lambda>_.
     bnd (try_op (at_store ListProjects)) (\<lambda>r. case r of
       Inl _ \<Rightarrow> ret False
     | Inr ps \<Rightarrow>
         bnd (collect (\<lambda>p. try_op (evaluate_project wt now p)) (filter (\<lambda>p. p_archived_at p = None) ps)) (\<lambda>rs.
         if list_ex isl rs then ret False
         else bnd (change (\<lambda>d. d\<lparr>rd_wakeups := rd_wakeups d |` set (rd_currentKeys d)\<rparr>)) (\<lambda>_. ret True))))"

definition runMaintenance :: "worktrees \<Rightarrow> time \<Rightarrow> unit round_op" where
  "runMaintenance wt now =
     bnd (try_op (at_store (ApplyExpiredDefaults now))) (\<lambda>_.
     bnd (try_op (at_store (ReclaimAgentSessions now))) (\<lambda>_.
     bnd (publish_notice (Keepalive now)) (\<lambda>_.
     bnd (evaluate_round wt now) (\<lambda>ok.
     if ok then change (rd_evaluateFailed_update (\<lambda>_. False))
     else bnd (change (rd_evaluateFailed_update (\<lambda>_. True))) (\<lambda>_. publish_notice WakeupEvaluateFailed)))))"

end
