(* ===== verification/Atct_Tracker_Facts.thy ===== *)
theory Atct_Tracker_Facts
  imports Atct_Tracker Atct_Example
begin

text \<open>
  Wake-ups are sent in time and not too often, and a maintenance round only takes steps of the store.
\<close>

section \<open>The schedule of one wake-up\<close>

text \<open>
  The tracker is asked about one condition after the other, in one round after the other: a sequence of
  calls of \<open>publishWakeup\<close>. \<open>sent_times\<close> are the times at which the wake-up of a key is sent.
\<close>

record tracker_call =
  tc_now :: time
  tc_key :: string
  tc_startedAt :: "time option"
  tc_after :: time
  tc_resend :: time

definition ask_tracker :: "tracker_call \<Rightarrow> (string \<Rightarrow> wakeupState option) \<Rightarrow> bool \<times> (string \<Rightarrow> wakeupState option)" where
  "ask_tracker c = publishWakeup (tc_now c) (tc_key c) (tc_startedAt c) (tc_after c) (tc_resend c)"

fun sent_times :: "string \<Rightarrow> tracker_call list \<Rightarrow> (string \<Rightarrow> wakeupState option) \<Rightarrow> time list" where
  "sent_times key [] ws = []"
| "sent_times key (c # cs) ws =
     (case ask_tracker c ws of (due, ws') \<Rightarrow>
        (if due \<and> tc_key c = key then [tc_now c] else []) @ sent_times key cs ws')"

text \<open>The calls about \<open>key\<close> are about one condition that holds since \<open>start\<close>.\<close>

definition same_condition :: "string \<Rightarrow> time \<Rightarrow> time \<Rightarrow> time \<Rightarrow> tracker_call \<Rightarrow> bool" where
  "same_condition key start after resend c \<longleftrightarrow>
     (tc_key c = key \<longrightarrow> tc_startedAt c \<in> {None, Some start} \<and> tc_after c = after \<and> tc_resend c = resend)"

lemma other_key: "tc_key c \<noteq> key \<Longrightarrow> snd (ask_tracker c ws) key = ws key"
  by (simp add: ask_tracker_def publishWakeup_def Let_def)

lemma own_call:
  assumes "ws key = Some w" and "ws_activeSince w = start" and "same_condition key start after resend c" and "tc_key c = key"
  shows "ask_tracker c ws =
    (if is_due (tc_now c) after resend w then (True, ws(key \<mapsto> w\<lparr>ws_lastPublished := Some (tc_now c)\<rparr>)) else (False, ws(key \<mapsto> w)))"
  using assms by (auto simp: ask_tracker_def publishWakeup_def tracked_def same_condition_def Let_def split: option.splits)

definition sent_before :: "wakeupState \<Rightarrow> time list" where
  "sent_before w = (case ws_lastPublished w of None \<Rightarrow> [] | Some t \<Rightarrow> [t])"

lemma schedule:
  assumes "ws key = Some w" and "ws_activeSince w = start" and "\<forall>c\<in>set cs. same_condition key start after resend c"
  shows "(\<forall>t\<in>set (sent_times key cs ws). start + after \<le> t)
    \<and> sorted_wrt (\<lambda>t u. 0 < resend \<and> t + resend \<le> u) (sent_before w @ sent_times key cs ws)
    \<and> (cs \<noteq> [] \<longrightarrow> tc_key (last cs) = key \<longrightarrow> start + after \<le> tc_now (last cs) \<longrightarrow>
         (\<exists>t\<in>set (sent_before w @ sent_times key cs ws). 0 < resend \<longrightarrow> tc_now (last cs) < t + resend))"
  using assms
proof (induction cs arbitrary: ws w)
  case Nil
  then show ?case by (simp add: sent_before_def split: option.split)
next
  case (Cons c cs)
  obtain due ws' where c: "ask_tracker c ws = (due, ws')" by fastforce
  show ?case
  proof (cases "tc_key c = key")
    case False
    with Cons.prems c have "ws' key = Some w" using other_key [of c key ws] by simp
    from Cons.IH [of ws' w] this Cons.prems c False show ?thesis by auto
  next
    case True
    let ?w = "w\<lparr>ws_lastPublished := Some (tc_now c)\<rparr>"
    from own_call [of ws key w start after resend c] Cons.prems True c
    have due: "due \<longleftrightarrow> is_due (tc_now c) after resend w" and ws': "ws' key = Some (if due then ?w else w)"
      by (auto split: if_splits)
    show ?thesis
    proof (cases due)
      case False
      have "0 < resend \<longrightarrow> tc_now c < t + resend" if "start + after \<le> tc_now c" "ws_lastPublished w = Some t" for t
        using that False due Cons.prems(2) by (auto simp: is_due_def)
      moreover have "ws_lastPublished w \<noteq> None" if "start + after \<le> tc_now c"
        using that False due Cons.prems(2) by (auto simp: is_due_def split: option.splits)
      ultimately have here: "\<exists>t\<in>set (sent_before w). 0 < resend \<longrightarrow> tc_now c < t + resend" if "start + after \<le> tc_now c"
        using that by (auto simp: sent_before_def)
      from Cons.IH [of ws' w] Cons.prems ws' False c here show ?thesis by auto
    next
      case True
      with due Cons.prems(2) have grace: "start + after \<le> tc_now c"
        and apart: "\<forall>t\<in>set (sent_before w). 0 < resend \<and> t + resend \<le> tc_now c"
        by (auto simp: is_due_def sent_before_def split: option.splits)
      let ?ts = "sent_times key cs ws'"
      from Cons.IH [of ws' ?w] Cons.prems ws' True have IH: "\<forall>t\<in>set ?ts. start + after \<le> t"
        "sorted_wrt (\<lambda>t u. 0 < resend \<and> t + resend \<le> u) (tc_now c # ?ts)"
        "cs \<noteq> [] \<longrightarrow> tc_key (last cs) = key \<longrightarrow> start + after \<le> tc_now (last cs) \<longrightarrow>
          (\<exists>t\<in>set (tc_now c # ?ts). 0 < resend \<longrightarrow> tc_now (last cs) < t + resend)"
        by (auto simp: sent_before_def [of ?w])
      have "sent_times key (c # cs) ws = tc_now c # ?ts" using c True \<open>tc_key c = key\<close> by simp
      moreover have "sorted_wrt (\<lambda>t u. 0 < resend \<and> t + resend \<le> u) (sent_before w @ tc_now c # ?ts)"
        using IH(2) apart by (auto simp: sent_before_def split: option.splits)
      ultimately show ?thesis using IH(1,3) grace by auto
    qed
  qed
qed

text \<open>The first call about a condition enters it with its start.\<close>

lemma first_call:
  assumes "ws (tc_key c) = None"
  defines "w \<equiv> \<lparr>ws_activeSince = (case tc_startedAt c of None \<Rightarrow> tc_now c | Some t \<Rightarrow> t), ws_lastPublished = None\<rparr>"
  shows "ask_tracker c ws = ask_tracker c (ws(tc_key c \<mapsto> w))"
  using assms by (auto simp: ask_tracker_def publishWakeup_def tracked_def Let_def split: option.splits)

text \<open>
  Property C17. A wake-up is sent in time and not too often. As long as a condition holds, its wake-up is
  never sent before its grace period is over; two sendings are at least the resend interval apart, and
  without such an interval it is sent only once; whenever the tracker is asked after the grace period, it
  has been sent by then, and less than the resend interval ago. Other conditions may be asked about in
  between. A round that succeeds remembers only conditions it found to hold, so the grace period of a
  condition that holds again starts anew.
\<close>

theorem wakeup_is_sent_in_time:
  assumes "ws key = None" and "tc_key c = key" and "calls = c # rest"
    and "start = (case tc_startedAt c of None \<Rightarrow> tc_now c | Some t \<Rightarrow> t)"
    and "\<forall>c\<in>set calls. same_condition key start after resend c"
  shows "(\<forall>t\<in>set (sent_times key calls ws). start + after \<le> t)
    \<and> sorted_wrt (\<lambda>t u. 0 < resend \<and> t + resend \<le> u) (sent_times key calls ws)
    \<and> (tc_key (last calls) = key \<longrightarrow> start + after \<le> tc_now (last calls) \<longrightarrow>
         (\<exists>t\<in>set (sent_times key calls ws). 0 < resend \<longrightarrow> tc_now (last calls) < t + resend))
    \<and> (\<forall>wt now d e. evaluate_round wt now d = (Inr True, e) \<longrightarrow> dom (rd_wakeups e) \<subseteq> set (rd_currentKeys e))"
proof -
  let ?w = "\<lparr>ws_activeSince = start, ws_lastPublished = None\<rparr>"
  have "sent_times key calls ws = sent_times key calls (ws(key \<mapsto> ?w))"
    using first_call [of ws c] assms(1-4) by simp
  moreover have "sent_before ?w = []" by (simp add: sent_before_def)
  moreover have "dom (rd_wakeups e) \<subseteq> set (rd_currentKeys e)" if "evaluate_round wt now d = (Inr True, e)" for wt now d e
    using that by (auto simp: evaluate_round_def op_run restrict_map_def split: sum.splits if_splits)
  ultimately show ?thesis
    using schedule [of "ws(key \<mapsto> ?w)" key ?w start calls after resend] assms(3,5) by simp
qed

theorem wakeup_is_sent_in_time_witness:
  "sorted_wrt (\<lambda>t u. wakeupResendInterval > 0 \<and> t + wakeupResendInterval \<le> u)
     (sent_times ''actionable'' (map (\<lambda>i. \<lparr>tc_now = i * minute, tc_key = ''actionable'', tc_startedAt = None,
        tc_after = wakeupInitialWait, tc_resend = wakeupResendInterval\<rparr>) [0, 1, 2, 3, 4, 5, 6, 7]) (\<lambda>k. None))"
  using wakeup_is_sent_in_time [of "\<lambda>k. None" "''actionable''", OF refl _ refl refl, of
      "\<lparr>tc_now = 0 * minute, tc_key = ''actionable'', tc_startedAt = None, tc_after = wakeupInitialWait, tc_resend = wakeupResendInterval\<rparr>"
      "map (\<lambda>i. \<lparr>tc_now = i * minute, tc_key = ''actionable'', tc_startedAt = None,
        tc_after = wakeupInitialWait, tc_resend = wakeupResendInterval\<rparr>) [1, 2, 3, 4, 5, 6, 7]"
      wakeupInitialWait wakeupResendInterval]
  by (simp add: same_condition_def)

section \<open>A round runs the store\<close>

definition round_run :: "round \<Rightarrow> round \<Rightarrow> bool" where
  "round_run d e \<longleftrightarrow> steps (rd_store d) (rd_store e)"

interpretation round_run: state_order round_run
  by unfold_locales (auto simp: round_run_def intro: rtranclp_trans)

lemma reads_round [reads_intros]:
  "reads m \<Longrightarrow> reads (at_store m)"
  by (auto simp: reads_def at_store_def split: prod.splits) (metis snd_conv round.surjective round.update_convs(1))

lemma reads_tracker [reads_intros]: "reads (open_handoffs g)" "reads (claim_times ts)"
  unfolding open_handoffs_def claim_times_def ListOpenTaskHandoffsForGoal_sql_def by (rule reads_intros)+

lemma round_rules:
  "evolves round_run (publish_notice n)" "evolves round_run (record_wakeup now k s a r n)"
  "evolves round_run (change (rd_discrepancySeen_update f))" "evolves round_run (change (rd_evaluateFailed_update g))"
  "evolves round_run (change (rd_currentKeys_update h))" "evolves round_run (change (\<lambda>d. d\<lparr>rd_wakeups := u d\<rparr>))"
  by (auto simp: evolves_def round_run_def publish_notice_def record_wakeup_def bnd_def ask_def change_def ret_def
      split: prod.splits)

lemma runs_the_store:
  "(\<And>s. store_step s (snd (m s))) \<Longrightarrow> evolves round_run (at_store m)"
  by (auto simp: evolves_def round_run_def at_store_def split: prod.splits) (metis r_into_rtranclp snd_conv)

lemma maintenance_runs_the_store: "steps (rd_store d) (rd_store (snd (runMaintenance wt now d)))"
proof -
  have project: "evolves round_run (evaluate_project wt now p)" for p
    unfolding evaluate_project_def check_counts_def lost_monitors_def goal_wakeups_def handoff_wakeups_def claim_wakeups_def
      decision_wakeups_def recordWakeupEvent_def Let_def
    by (rule round_run.ev_rules round_rules | rule round_run.ev_reads, (rule reads_intros)+)+
  have "evolves round_run (runMaintenance wt now)"
    unfolding runMaintenance_def evaluate_round_def
    by (rule round_run.ev_rules round_rules project | rule runs_the_store, rule store_step.intros
      | rule round_run.ev_reads, (rule reads_intros)+)+
  then show ?thesis by (simp add: evolves_def round_run_def)
qed

end
