(* ===== verification/Atct_Life.thy ===== *)
theory Atct_Life
  imports Atct_Http_Facts Atct_Tracker_Facts
begin

text \<open>
  The life of the daemon: requests of agents, requests of the dashboard and maintenance rounds in any order.
  The store is shared; the memory of the daemon and that of the tracker are apart.
\<close>

datatype daemon_event = Request env nat request | Dashboard http_env http_request | Round worktrees time

text \<open>The daemon, and the tracker with a copy of the store that is brought up to date before a round.\<close>

fun happen :: "daemon_event \<Rightarrow> daemon \<times> round \<Rightarrow> daemon \<times> round" where
  "happen (Request en peer rq) (d, r) = (snd (dispatchWithPeer en peer rq d), r)"
| "happen (Dashboard h rq) (d, r) = (d\<lparr>dm_store := snd (replied h rq (dm_store d))\<rparr>, r)"
| "happen (Round wt now) (d, r) =
     (let r' = snd (runMaintenance wt now (r\<lparr>rd_store := dm_store d\<rparr>)) in (d\<lparr>dm_store := rd_store r'\<rparr>, r'))"

definition life :: "daemon_event list \<Rightarrow> daemon \<times> round \<Rightarrow> daemon \<times> round" where
  "life = fold happen"

definition waits_honestly :: "daemon_event \<Rightarrow> bool" where
  "waits_honestly e \<longleftrightarrow> (\<forall>en peer rq. e = Request en peer rq \<longrightarrow> (\<forall>s. steps s (en_wait en s)))"

definition an_idle_tracker :: round where
  "an_idle_tracker = \<lparr>rd_store = empty_store, rd_wakeups = (\<lambda>k. None), rd_discrepancySeen = [],
     rd_evaluateFailed = False, rd_currentKeys = [], rd_published = []\<rparr>"

lemma one_event:
  assumes "waits_honestly e"
  shows "steps (dm_store (fst x)) (dm_store (fst (happen e x)))"
proof (cases e)
  case (Request en peer rq)
  with assms have "\<forall>(en, peer, rq) \<in> set [(en, peer, rq)]. \<forall>s. steps s (en_wait en s)" by (simp add: waits_honestly_def)
  from requests_run_the_store [OF this, of "fst x"] Request show ?thesis by (cases x) (simp add: serve_def)
next
  case (Dashboard h rq)
  then show ?thesis using serving_runs_the_store by (cases x) simp
next
  case (Round wt now)
  then show ?thesis
    using maintenance_runs_the_store [of "snd x\<lparr>rd_store := dm_store (fst x)\<rparr>" wt now] by (cases x) (simp add: Let_def)
qed

text \<open>
  Property C2. The daemon runs the store. Whatever requests of agents and of the dashboard arrive, with
  whatever parameters, and whether they are answered or refused, and whenever maintenance rounds run in
  between, the store moves by a finite
  sequence of calls of its exported operations, and its invariants are kept: a daemon that starts on an
  empty store always has a consistent one. While a request waits for an answer the store may make any
  such sequence.
\<close>

theorem daemon_life:
  assumes "\<forall>e\<in>set events. waits_honestly e"
  shows "steps (dm_store d) (dm_store (fst (life events (d, r))))
    \<and> (wf_store (dm_store d) \<longrightarrow> wf_store (dm_store (fst (life events (d, r)))))
    \<and> (dm_store d = empty_store \<longrightarrow> wf_store (dm_store (fst (life events (d, r)))))"
proof -
  have "steps (dm_store (fst x)) (dm_store (fst (life events x)))" for x
    using assms unfolding life_def
  proof (induction events arbitrary: x)
    case (Cons e es)
    from Cons.prems have "steps (dm_store (fst x)) (dm_store (fst (happen e x)))" by (intro one_event) simp
    with Cons.IH [of "happen e x"] Cons.prems show ?case by simp
  qed simp
  from this [of "(d, r)"] show ?thesis
    using wf_store_step wf_store_empty by auto
qed

theorem daemon_life_witness:
  "steps example (dm_store (fst (life [Request an_env 0 withdraw_request, Dashboard a_dashboard (a_post ''/api/tasks/1/release'' []),
      Round \<lparr>wt_world = en_world an_env, wt_is_dir = (\<lambda>p. False), wt_modified = (\<lambda>p. None), wt_format = (\<lambda>t. [])\<rparr> (sec 200)]
     (a_daemon, an_idle_tracker))))"
  using daemon_life [of "[Request an_env 0 withdraw_request, Dashboard a_dashboard (a_post ''/api/tasks/1/release'' []),
      Round \<lparr>wt_world = en_world an_env, wt_is_dir = (\<lambda>p. False), wt_modified = (\<lambda>p. None), wt_format = (\<lambda>t. [])\<rparr> (sec 200)]"
      a_daemon an_idle_tracker] en_wait_example
  by (simp add: waits_honestly_def a_daemon_def)

end
