(* ===== verification/Atct_Stream.thy ===== *)
theory Atct_Stream
  imports Atct_Http Atct_Tracker
begin

text \<open>
  The event stream of the dashboard and of the watchers (\<^verbatim>\<open>internal/httpapi/server.go\<close>,
  \<^verbatim>\<open>handoff.go\<close>, \<^verbatim>\<open>ws.go\<close>). A stream carries what the store and the daemon
  publish, as far as it passes the filter of the stream, and the entries of the handoffs: a tick reads
  all of them when the watermark has moved, and sends the ones it does not know. Then the pages of handoffs.
  The text of a frame is its data; JSON is not written out.
\<close>

section \<open>Previews\<close>

text \<open>
  The width of the UTF-8 encoding a text starts with, 0 when it starts with none.
  \<^verbatim>\<open>strings.ToValidUTF8\<close> puts one U+FFFD for a run of bytes that belong to none.
\<close>

definition rune_width :: "string \<Rightarrow> nat" where
  "rune_width s = (case List.find (\<lambda>n. n \<le> length s \<and> ValidString (take n s)) [1, 2, 3, 4] of None \<Rightarrow> 0 | Some n \<Rightarrow> n)"

definition replacement :: string where
  "replacement = [CHR 0xEF, CHR 0xBF, CHR 0xBD]"

lemma rune_width_length: "rune_width s \<le> length s"
  by (auto simp: rune_width_def split: option.splits dest!: find_Some_iff [THEN iffD1])

function ToValidUTF8 :: "bool \<Rightarrow> string \<Rightarrow> string" where
  "ToValidUTF8 invalid s =
     (if s = [] then []
      else let w = rune_width s in
        if w = 0 then (if invalid then [] else replacement) @ ToValidUTF8 True (drop 1 s)
        else take w s @ ToValidUTF8 False (drop w s))"
  by pat_completeness auto
termination by (relation "measure (\<lambda>(invalid, s). length s)") auto

declare ToValidUTF8.simps [simp del]

function take_runes :: "nat \<Rightarrow> string \<Rightarrow> string" where
  "take_runes room s =
     (let w = rune_width s in
      if w = 0 \<or> room < w then [] else take w s @ take_runes (room - w) (drop w s))"
  by pat_completeness auto
termination
proof (relation "measure (\<lambda>(room, s). length s)", goal_cases)
  case (2 room s w)
  then show ?case using rune_width_length [of s] by auto
qed simp

declare take_runes.simps [simp del]

definition HandoffEntryPreviewMaxBytes :: nat where
  "HandoffEntryPreviewMaxBytes = 256"

definition truncateHandoffEntryPreview :: "string \<Rightarrow> string" where
  "truncateHandoffEntryPreview body0 =
     (let body = (if ValidString body0 then body0 else ToValidUTF8 False body0) in
      if length body \<le> HandoffEntryPreviewMaxBytes then body else take_runes HandoffEntryPreviewMaxBytes body)"

section \<open>Entries on a stream\<close>

record HandoffEntryAddedEvent =
  ae_ProjectID :: int
  ae_Scope :: string
  ae_GoalID :: int
  ae_TaskID :: int
  ae_HandoffID :: string
  ae_ID :: int
  ae_Kind :: string
  ae_AuthorSessionID :: int
  ae_InReplyToID :: "int option"
  ae_BodyPreview :: string
  ae_parties :: "int list"

record handoffEntryRecord =
  er_event :: HandoffEntryAddedEvent
  er_createdAt :: time

text \<open>
  The data of an event that is published is a value of this type; reading it from JSON, which only
  another type would need, is left out.
\<close>

definition normalizeHandoffEntryEvent :: "HandoffEntryAddedEvent \<Rightarrow> HandoffEntryAddedEvent option" where
  "normalizeHandoffEntryEvent e0 =
     (let e1 = e0\<lparr>ae_BodyPreview := truncateHandoffEntryPreview (ae_BodyPreview e0)\<rparr>;
          e = (if ae_Scope e1 \<noteq> [] then e1
               else if ae_TaskID e1 \<noteq> 0 then e1\<lparr>ae_Scope := ''task''\<rparr>
               else if ae_GoalID e1 \<noteq> 0 then e1\<lparr>ae_Scope := ''goal''\<rparr> else e1)
      in if ae_HandoffID e = [] \<or> ae_ID e \<le> 0 \<or> ae_GoalID e = 0 \<or> \<not> validHandoffEntryKind (ae_Kind e)
         then None else Some e)"

definition handoffEventKey :: "HandoffEntryAddedEvent \<Rightarrow> string" where
  "handoffEventKey e =
     (if ae_ID e \<le> 0 then [] else ae_Scope e @ '':'' @ ae_HandoffID e @ '':'' @ Itoa_int (ae_ID e))"

text \<open>The tracker is the list of the keys it knows. Marking says whether the entry was not known.\<close>

definition mark_entry :: "HandoffEntryAddedEvent \<Rightarrow> string list \<Rightarrow> bool \<times> string list" where
  "mark_entry e known =
     (let key = handoffEventKey e in
      if key = [] then (True, known) else if key \<in> set known then (False, known) else (True, key # known))"

definition mark_all :: "handoffEntryRecord list \<Rightarrow> string list \<Rightarrow> string list" where
  "mark_all records known = fold (\<lambda>r known. snd (mark_entry (er_event r) known)) records known"

fun mark_until :: "int \<Rightarrow> handoffEntryRecord list \<Rightarrow> bool \<Rightarrow> string list \<Rightarrow> bool \<times> string list" where
  "mark_until lastID [] lastFound known = (lastFound, known)"
| "mark_until lastID (r # rs) lastFound known =
     mark_until lastID rs (lastFound \<or> ae_ID (er_event r) = lastID)
       (if lastFound then known else snd (mark_entry (er_event r) known))"

definition zeroTime :: time where
  "zeroTime = - 62135596800 * second"

definition newHandoffEntryTracker :: "handoffEntryRecord list \<Rightarrow> string \<Rightarrow> time \<Rightarrow> string list" where
  "newHandoffEntryTracker records lastEventID baselineAt =
     (let old = filter (\<lambda>r. baselineAt = zeroTime \<or> er_createdAt r < baselineAt) records in
      if TrimSpace lastEventID = [] then mark_all old []
      else case ParseInt (TrimSpace lastEventID) of
        None \<Rightarrow> mark_all old []
      | Some lastID \<Rightarrow>
          if lastID \<le> 0 then mark_all old []
          else (case mark_until lastID old False [] of (lastFound, known) \<Rightarrow>
                 if lastFound then known else mark_all old known))"

section \<open>Reading the entries of a scope\<close>

text \<open>
  What is read from a store without changing it: a value or an error, and None when the reading does not return.
\<close>

type_synonym 'a reading = "store \<Rightarrow> (error + 'a) option"

definition from_store :: "'a store_op \<Rightarrow> 'a reading" where
  "from_store m = (\<lambda>s. Some (fst (m s)))"

definition read_then :: "'a reading \<Rightarrow> ('a \<Rightarrow> 'b reading) \<Rightarrow> 'b reading" where
  "read_then m f = (\<lambda>s. case m s of None \<Rightarrow> None | Some (Inl e) \<Rightarrow> Some (Inl e) | Some (Inr x) \<Rightarrow> f x s)"

fun read_each :: "('a \<Rightarrow> ('b list) reading) \<Rightarrow> 'a list \<Rightarrow> ('b list) reading" where
  "read_each f [] = from_store (ret [])"
| "read_each f (x # xs) = read_then (f x) (\<lambda>ys. read_then (read_each f xs) (\<lambda>zs. from_store (ret (ys @ zs))))"

record eventFilter =
  ef_projectID :: string
  ef_goalID :: string
  ef_canonicalProjectID :: int
  ef_canonicalGoalID :: int
  ef_canonicalTaskID :: int
  ef_taskID :: string
  ef_agentSessionID :: int

definition handoffEntryRecordForEntry ::
  "int \<Rightarrow> int \<Rightarrow> int \<Rightarrow> string \<Rightarrow> string \<Rightarrow> int list \<Rightarrow> handoff_entry \<Rightarrow> handoffEntryRecord" where
  "handoffEntryRecordForEntry projectID goalID taskID scope handoffID parties e =
     \<lparr>er_event = \<lparr>ae_ProjectID = projectID, ae_Scope = scope, ae_GoalID = goalID, ae_TaskID = taskID,
        ae_HandoffID = handoffID, ae_ID = e_id e, ae_Kind = e_kind e,
        ae_AuthorSessionID = nz (e_author_session_id e), ae_InReplyToID = e_in_reply_to_id e,
        ae_BodyPreview = truncateHandoffEntryPreview (e_body e), ae_parties = parties\<rparr>,
      er_createdAt = e_created_at e\<rparr>"

definition handoffParties :: "int list \<Rightarrow> int list" where
  "handoffParties ids = foldl (\<lambda>parties i. if i \<noteq> 0 \<and> i \<notin> set parties then parties @ [i] else parties) [] ids"

definition parties_of :: "handoff \<Rightarrow> int list" where
  "parties_of h = handoffParties [nz (h_requested_by h), nz (h_received_by h), nz (h_review_requested_by h),
     nz (h_review_received_by h), nz (h_review_rejection_received_by h)]"

definition thread_records ::
  "(handoff_entry \<Rightarrow> handoffEntryRecord) \<Rightarrow> (int \<Rightarrow> handoff_entry_page store_op) \<Rightarrow> (handoffEntryRecord list) reading" where
  "thread_records record_of listPage =
     (\<lambda>s. map_option (map_sum id (map record_of)) (appendHandoffEntryRecords (\<lambda>c. fst (listPage c s)) 0 []))"

definition appendGoalHandoffEntryRecords :: "int \<Rightarrow> handoff \<Rightarrow> (handoffEntryRecord list) reading" where
  "appendGoalHandoffEntryRecords projectID h =
     thread_records (handoffEntryRecordForEntry projectID (h_owner h) 0 ''goal'' (h_id h) (parties_of h))
       (\<lambda>afterID. ListGoalHandoffEntries (h_id h) afterID HandoffHistoryMaxLimit)"

definition appendTaskHandoffEntryRecords :: "int \<Rightarrow> int \<Rightarrow> handoff \<Rightarrow> (handoffEntryRecord list) reading" where
  "appendTaskHandoffEntryRecords projectID goalID h =
     thread_records (handoffEntryRecordForEntry projectID goalID (h_owner h) ''task'' (h_id h) (parties_of h))
       (\<lambda>afterID. ListTaskHandoffEntries (h_id h) afterID HandoffHistoryMaxLimit)"

definition sortHandoffEntryRecords :: "handoffEntryRecord list \<Rightarrow> handoffEntryRecord list" where
  "sortHandoffEntryRecords records = order_by (\<lambda>r. ae_ID (er_event r)) records"

definition scan_task :: "int \<Rightarrow> int \<Rightarrow> int \<Rightarrow> (handoffEntryRecord list) reading" where
  "scan_task projectID goalID taskID =
     read_then (from_store (ListTaskHandoffs taskID)) (read_each (appendTaskHandoffEntryRecords projectID goalID))"

definition scan_goal :: "goal \<Rightarrow> (handoffEntryRecord list) reading" where
  "scan_goal g =
     read_then (from_store (ListGoalHandoffs (g_id g))) (\<lambda>hs.
     read_then (read_each (appendGoalHandoffEntryRecords (g_project_id g)) hs) (\<lambda>goalRecords.
     read_then (from_store (ListTasks (g_id g))) (\<lambda>ts.
     read_then (read_each (\<lambda>t. scan_task (g_project_id g) (g_id g) (t_id t)) ts) (\<lambda>taskRecords.
     from_store (ret (goalRecords @ taskRecords))))))"

definition scans_goal :: "eventFilter \<Rightarrow> goal \<Rightarrow> bool" where
  "scans_goal f g \<longleftrightarrow>
     (ef_goalID f \<noteq> [] \<longrightarrow> g_id g = ef_canonicalGoalID f)
   \<and> (ef_projectID f \<noteq> [] \<longrightarrow> g_project_id g = ef_canonicalProjectID f)"

definition scanHandoffEntryRecords :: "eventFilter \<Rightarrow> (handoffEntryRecord list) reading" where
  "scanHandoffEntryRecords f =
     read_then
       (if ef_taskID f \<noteq> [] then
          read_then (from_store (GetTaskGoalID (ef_canonicalTaskID f))) (\<lambda>goalID.
          read_then (from_store (GetGoal goalID)) (\<lambda>g.
          scan_task (g_project_id g) goalID (ef_canonicalTaskID f)))
        else
          read_then (from_store ListAllGoals) (\<lambda>gs.
          read_each (\<lambda>g. if scans_goal f g then scan_goal g else from_store (ret [])) gs))
       (\<lambda>records. from_store (ret (sortHandoffEntryRecords records)))"

section \<open>What passes a filter\<close>

text \<open>
  The data of an event: an entry, what the store publishes, or what a maintenance round publishes. A
  report and a receipt that were due are published as wake-ups, as \<open>HandoffReportedEvent\<close> here.
\<close>

datatype stream_data = EntryAdded HandoffEntryAddedEvent | OfStore event | OfDaemon wakeup_notice

record stream_event =
  se_Data :: stream_data
  se_ProjectID :: int

definition event_named :: "stream_data \<Rightarrow> stream_event" where
  "event_named d = \<lparr>se_Data = d, se_ProjectID = 0\<rparr>"

fun eventProjectID :: "stream_data \<Rightarrow> int store_op" where
  "eventProjectID (EntryAdded e) = ret (ae_ProjectID e)"
| "eventProjectID (OfStore (WorkflowDecisionEvent _ d)) = bnd (GetGoal (d_goal_id d)) (\<lambda>g. ret (g_project_id g))"
| "eventProjectID (OfStore (HandoffEvent _ p _ _ _ _ _)) = ret p"
| "eventProjectID (OfStore (HandoffReviewEvent _ p _ _ _ _ _)) = ret p"
| "eventProjectID (OfStore (HandoffReportedEvent p _ _ _ _)) = ret p"
| "eventProjectID (OfStore (GoalWithdrawnEvent _ p _ _ _ _)) = ret p"
| "eventProjectID (OfStore (GoalCreatedEvent _)) = ret 0"
| "eventProjectID (OfStore NoEvent) = ret 0"
| "eventProjectID (OfDaemon (WakeupDiscrepancy p _ _)) = ret p"
| "eventProjectID (OfDaemon (ActionableWakeup p _)) = ret p"
| "eventProjectID (OfDaemon (WakeupNotice _ p _ _ _ _ _)) = ret p"
| "eventProjectID (OfDaemon (Keepalive _)) = ret 0"
| "eventProjectID (OfDaemon WakeupEvaluateFailed) = ret 0"

fun eventMatchesGoalID :: "stream_data \<Rightarrow> int \<Rightarrow> bool" where
  "eventMatchesGoalID (EntryAdded e) goalID \<longleftrightarrow> ae_GoalID e \<noteq> 0 \<and> ae_GoalID e = goalID"
| "eventMatchesGoalID (OfStore (WorkflowDecisionEvent _ d)) goalID \<longleftrightarrow> d_goal_id d \<noteq> 0 \<and> d_goal_id d = goalID"
| "eventMatchesGoalID (OfStore (HandoffEvent _ _ g _ _ _ _)) goalID \<longleftrightarrow> g \<noteq> 0 \<and> g = goalID"
| "eventMatchesGoalID (OfStore (HandoffReviewEvent _ _ g _ _ _ _)) goalID \<longleftrightarrow> g \<noteq> 0 \<and> g = goalID"
| "eventMatchesGoalID (OfStore (HandoffReportedEvent _ g _ _ _)) goalID \<longleftrightarrow> g \<noteq> 0 \<and> g = goalID"
| "eventMatchesGoalID (OfStore (GoalWithdrawnEvent g _ _ _ _ _)) goalID \<longleftrightarrow> g \<noteq> 0 \<and> g = goalID"
| "eventMatchesGoalID (OfDaemon (WakeupNotice _ _ g _ _ _ _)) goalID \<longleftrightarrow> g \<noteq> 0 \<and> g = goalID"
| "eventMatchesGoalID (OfDaemon (Keepalive _)) goalID \<longleftrightarrow> True"
| "eventMatchesGoalID (OfDaemon WakeupEvaluateFailed) goalID \<longleftrightarrow> True"
| "eventMatchesGoalID _ goalID \<longleftrightarrow> False"

fun eventMatchesTaskID :: "stream_data \<Rightarrow> int \<Rightarrow> bool" where
  "eventMatchesTaskID (EntryAdded e) taskID \<longleftrightarrow> ae_TaskID e \<noteq> 0 \<and> ae_TaskID e = taskID"
| "eventMatchesTaskID (OfStore (WorkflowDecisionEvent _ d)) taskID \<longleftrightarrow> nz (d_task_id d) \<noteq> 0 \<and> nz (d_task_id d) = taskID"
| "eventMatchesTaskID (OfStore (HandoffEvent _ _ _ i _ _ _)) taskID \<longleftrightarrow> i \<noteq> 0 \<and> i = taskID"
| "eventMatchesTaskID (OfStore (HandoffReviewEvent _ _ _ i _ _ _)) taskID \<longleftrightarrow> i \<noteq> 0 \<and> i = taskID"
| "eventMatchesTaskID (OfStore (HandoffReportedEvent _ _ i _ _)) taskID \<longleftrightarrow> i \<noteq> 0 \<and> i = taskID"
| "eventMatchesTaskID (OfDaemon (WakeupNotice _ _ _ i _ _ _)) taskID \<longleftrightarrow> i \<noteq> 0 \<and> i = taskID"
| "eventMatchesTaskID (OfDaemon (Keepalive _)) taskID \<longleftrightarrow> True"
| "eventMatchesTaskID _ taskID \<longleftrightarrow> False"

definition meant_for :: "int \<Rightarrow> HandoffEntryAddedEvent \<Rightarrow> bool" where
  "meant_for session e \<longleftrightarrow>
     session = 0 \<or> ae_AuthorSessionID e \<noteq> session \<and> (ae_parties e = [] \<or> session \<in> set (ae_parties e))"

definition eventPasses :: "eventFilter \<Rightarrow> stream_event \<Rightarrow> store \<Rightarrow> bool" where
  "eventPasses f ev0 s \<longleftrightarrow>
     (case (case se_Data ev0 of
              EntryAdded e0 \<Rightarrow> (case normalizeHandoffEntryEvent e0 of
                  None \<Rightarrow> None
                | Some e \<Rightarrow> if meant_for (ef_agentSessionID f) e then Some (ev0\<lparr>se_Data := EntryAdded e\<rparr>) else None)
            | _ \<Rightarrow> Some ev0) of
        None \<Rightarrow> False
      | Some ev \<Rightarrow>
          (ef_projectID f \<noteq> [] \<longrightarrow>
             (case (if se_ProjectID ev \<noteq> 0 then Inr (se_ProjectID ev) else fst (eventProjectID (se_Data ev) s)) of
                Inl _ \<Rightarrow> False
              | Inr p \<Rightarrow> p = 0 \<or> p = ef_canonicalProjectID f))
        \<and> (ef_goalID f \<noteq> [] \<longrightarrow> eventMatchesGoalID (se_Data ev) (ef_canonicalGoalID f))
        \<and> (ef_taskID f \<noteq> [] \<longrightarrow> eventMatchesTaskID (se_Data ev) (ef_canonicalTaskID f)))"

section \<open>A stream\<close>

record event_query =
  q_project_id :: string
  q_goal_id :: string
  q_task_id :: string
  q_monitor_token :: string

definition resolving_filter :: "string \<Rightarrow> int http_op" where
  "resolving_filter v = (if v = [] then ret 0 else resolving v)"

definition parseEventFilter :: "event_query \<Rightarrow> eventFilter http_op" where
  "parseEventFilter q =
     bnd (resolving_filter (q_project_id q)) (\<lambda>projectID.
     bnd (resolving_filter (q_goal_id q)) (\<lambda>goalID.
     bnd (resolving_filter (q_task_id q)) (\<lambda>taskID.
     bnd (if q_monitor_token q = [] then ret 0
          else bnd (attempt (MonitorBindingAgentSessionID (q_monitor_token q))) (\<lambda>r. case r of
            Inr i \<Rightarrow> ret i
          | Inl e \<Rightarrow> if e = MonitorE ErrMonitorBindingNotFound then ret 0 else fail (causeReply 500 e))) (\<lambda>session.
     ret \<lparr>ef_projectID = q_project_id q, ef_goalID = q_goal_id q, ef_canonicalProjectID = projectID,
          ef_canonicalGoalID = goalID, ef_canonicalTaskID = taskID, ef_taskID = q_task_id q,
          ef_agentSessionID = session\<rparr>))))"

text \<open>
  A stream: its filter, the keys the tracker knows, the watermark of the last scan, and the frames
  that were written, each with its id when it has one.
\<close>

record stream =
  st_filter :: eventFilter
  st_known :: "string list"
  st_seen :: int
  st_sent :: "(int option \<times> stream_data) list"

definition writeHandoffHistoryError :: "error \<Rightarrow> reply" where
  "writeHandoffHistoryError =
     status_of [(ErrGoalHandoff NotFound, 404), (ErrTaskHandoff NotFound, 404), (EntryE ErrHandoffEntryNotFound, 404),
       (EntryE ErrHandoffHistoryCursorInvalid, 400), (EntryE ErrHandoffHistoryLimitInvalid, 400)]"

text \<open>The first part of \<^verbatim>\<open>handleEvents\<close>, up to its loop; None when the first scan does not return.\<close>

definition openStream :: "event_query \<Rightarrow> string \<Rightarrow> time \<Rightarrow> store \<Rightarrow> (reply + stream) option" where
  "openStream q lastEventID baselineAt s =
     (case fst (parseEventFilter q s) of
        Inl r \<Rightarrow> Some (Inl r)
      | Inr f \<Rightarrow>
          (case fst (eventScopeIDs (ef_canonicalProjectID f) (ef_canonicalGoalID f) (ef_canonicalTaskID f) s) of
             Inl e \<Rightarrow> Some (Inl (causeReply 400 e))
           | Inr _ \<Rightarrow>
               (case scanHandoffEntryRecords f s of
                  None \<Rightarrow> None
                | Some (Inl e) \<Rightarrow> Some (Inl (writeHandoffHistoryError e))
                | Some (Inr records) \<Rightarrow> Some (Inr
                    \<lparr>st_filter = f, st_known = newHandoffEntryTracker records lastEventID baselineAt,
                     st_seen = -1, st_sent = []\<rparr>))))"

definition frame_of :: "stream_data \<Rightarrow> int option \<times> stream_data" where
  "frame_of d =
     (case d of
        EntryAdded e \<Rightarrow> (map_option ae_ID (normalizeHandoffEntryEvent e), d)
      | _ \<Rightarrow> (None, d))"

definition writeSSEEvent :: "store \<Rightarrow> stream_event \<Rightarrow> stream \<Rightarrow> stream" where
  "writeSSEEvent s ev st =
     (if eventPasses (st_filter st) ev s then st\<lparr>st_sent := st_sent st @ [frame_of (se_Data ev)]\<rparr> else st)"

definition send_entry :: "store \<Rightarrow> stream_event \<Rightarrow> HandoffEntryAddedEvent \<Rightarrow> stream \<Rightarrow> stream" where
  "send_entry s ev e st =
     (case mark_entry e (st_known st) of
        (False, _) \<Rightarrow> st
      | (True, known) \<Rightarrow> writeSSEEvent s (ev\<lparr>se_Data := EntryAdded e\<rparr>) (st\<lparr>st_known := known\<rparr>))"

definition on_event :: "store \<Rightarrow> stream_event \<Rightarrow> stream \<Rightarrow> stream" where
  "on_event s ev st =
     (case se_Data ev of
        EntryAdded e0 \<Rightarrow> (case normalizeHandoffEntryEvent e0 of
            None \<Rightarrow> st
          | Some e \<Rightarrow> send_entry s ev e st)
      | _ \<Rightarrow> writeSSEEvent s ev st)"

definition send_record :: "store \<Rightarrow> handoffEntryRecord \<Rightarrow> stream \<Rightarrow> stream" where
  "send_record s r st = send_entry s (event_named (EntryAdded (er_event r))) (er_event r) st"

definition on_tick :: "store \<Rightarrow> stream \<Rightarrow> stream option" where
  "on_tick s st =
     (case fst (HandoffEntryWatermark s) of mark \<Rightarrow>
      if mark = Inr (st_seen st) then Some st
      else case scanHandoffEntryRecords (st_filter st) s of
        None \<Rightarrow> None
      | Some (Inl _) \<Rightarrow> Some st
      | Some (Inr records) \<Rightarrow>
          Some (fold (send_record s) records (st\<lparr>st_seen := (case mark of Inl _ \<Rightarrow> -1 | Inr m \<Rightarrow> m)\<rparr>)))"

section \<open>The pages of handoffs\<close>

record HandoffView =
  hv_Scope :: string
  hv_ProjectID :: int
  hv_GoalID :: int
  hv_TaskID :: int
  hv_Handoff :: handoff
  hv_Entries :: "handoff_entry list"
  hv_HasMore :: bool
  hv_NextAfterID :: int

definition parseHandoffPage :: "string \<Rightarrow> string \<Rightarrow> (int \<times> nat) http_op" where
  "parseHandoffPage after_id0 limit0 =
     (let bad_cursor = fail (causeReply 400 (EntryE ErrHandoffHistoryCursorInvalid));
          bad_limit = fail (causeReply 400 (EntryE ErrHandoffHistoryLimitInvalid))
      in bnd (if after_id0 = [] then ret 0
              else case ParseInt after_id0 of
                None \<Rightarrow> bad_cursor
              | Some i \<Rightarrow> if i < 0 then bad_cursor else ret i) (\<lambda>afterID.
         bnd (if limit0 = [] then ret HandoffHistoryMaxLimit
              else case ParseInt limit0 of
                None \<Rightarrow> bad_limit
              | Some i \<Rightarrow> if i < 1 \<or> int HandoffHistoryMaxLimit < i then bad_limit else ret (nat i)) (\<lambda>lim.
         ret (afterID, lim))))"

definition newGoalHandoffView :: "int \<Rightarrow> handoff \<Rightarrow> handoff_entry_page \<Rightarrow> HandoffView" where
  "newGoalHandoffView projectID h page =
     \<lparr>hv_Scope = ''goal'', hv_ProjectID = projectID, hv_GoalID = h_owner h, hv_TaskID = 0, hv_Handoff = h,
      hv_Entries = Entries page, hv_HasMore = HasMore page, hv_NextAfterID = NextCursor page\<rparr>"

definition newTaskHandoffView :: "int \<Rightarrow> int \<Rightarrow> handoff \<Rightarrow> handoff_entry_page \<Rightarrow> HandoffView" where
  "newTaskHandoffView projectID goalID h page =
     \<lparr>hv_Scope = ''task'', hv_ProjectID = projectID, hv_GoalID = goalID, hv_TaskID = h_owner h, hv_Handoff = h,
      hv_Entries = Entries page, hv_HasMore = HasMore page, hv_NextAfterID = NextCursor page\<rparr>"

definition listGoalHandoffViews :: "int \<Rightarrow> int \<Rightarrow> int \<Rightarrow> nat \<Rightarrow> (HandoffView list) store_op" where
  "listGoalHandoffViews goalID projectID afterID lim =
     bnd (ListGoalHandoffs goalID) (collect (\<lambda>h.
     bnd (ListGoalHandoffEntries (h_id h) afterID lim) (\<lambda>page. ret (newGoalHandoffView projectID h page))))"

definition listTaskHandoffViews :: "int \<Rightarrow> int \<Rightarrow> int \<Rightarrow> int \<Rightarrow> nat \<Rightarrow> (HandoffView list) store_op" where
  "listTaskHandoffViews taskID goalID projectID afterID lim =
     bnd (ListTaskHandoffs taskID) (collect (\<lambda>h.
     bnd (ListTaskHandoffEntries (h_id h) afterID lim) (\<lambda>page. ret (newTaskHandoffView projectID goalID h page))))"

definition handleGoalHandoffs :: "string \<Rightarrow> string \<Rightarrow> string \<Rightarrow> string \<Rightarrow> (HandoffView list) http_op" where
  "handleGoalHandoffs goal handoffID after_id0 limit0 =
     bnd (parseHandoffPage after_id0 limit0) (\<lambda>(afterID, lim).
     bnd (resolving goal) (\<lambda>goalID.
     bnd (calling writeHandoffHistoryError (GetGoal goalID)) (\<lambda>g.
     if handoffID = [] then
       calling writeHandoffHistoryError (listGoalHandoffViews goalID (g_project_id g) afterID lim)
     else
       bnd (calling writeHandoffHistoryError (GetGoalHandoff handoffID)) (\<lambda>h.
       bnd (check (h_owner h = goalID) (causeReply 404 (ErrGoalHandoff NotFound))) (\<lambda>_.
       bnd (calling writeHandoffHistoryError (ListGoalHandoffEntries (h_id h) afterID lim)) (\<lambda>page.
       ret [newGoalHandoffView (g_project_id g) h page]))))))"

definition handleTaskHandoffs :: "string \<Rightarrow> string \<Rightarrow> string \<Rightarrow> string \<Rightarrow> (HandoffView list) http_op" where
  "handleTaskHandoffs task handoffID after_id0 limit0 =
     bnd (parseHandoffPage after_id0 limit0) (\<lambda>(afterID, lim).
     bnd (resolving task) (\<lambda>taskID.
     bnd (calling writeHandoffHistoryError (GetTaskGoalID taskID)) (\<lambda>goalID.
     bnd (calling writeHandoffHistoryError (GetGoal goalID)) (\<lambda>g.
     if handoffID = [] then
       calling writeHandoffHistoryError (listTaskHandoffViews taskID goalID (g_project_id g) afterID lim)
     else
       bnd (calling writeHandoffHistoryError (GetTaskHandoff handoffID)) (\<lambda>h.
       bnd (check (h_owner h = taskID) (causeReply 404 (ErrTaskHandoff NotFound))) (\<lambda>_.
       bnd (calling writeHandoffHistoryError (ListTaskHandoffEntries (h_id h) afterID lim)) (\<lambda>page.
       ret [newTaskHandoffView (g_project_id g) goalID h page])))))))"

end
