(* ===== verification/Atct_Stream_Facts.thy ===== *)
theory Atct_Stream_Facts
  imports Atct_Stream Atct_Entry_Facts Atct_Dispatch_Facts
begin

text \<open>
  What a stream sends: every entry of its scope that is appended while it is open, once, and nothing that
  does not pass its filter; what a resumed stream leaves out; and what a preview of an entry is.
\<close>

section \<open>Previews\<close>

lemma ValidString_append: "ValidString a \<Longrightarrow> ValidString (a @ b) = ValidString b"
proof (induction a rule: length_induct)
  case (1 a)
  then have IH: "\<And>x. length x < length a \<Longrightarrow> ValidString x \<Longrightarrow> ValidString (x @ b) = ValidString b" by blast
  show ?case
  proof (cases a)
    case (Cons c s)
    note a = this
    show ?thesis
    proof (cases "of_char c < (128::nat)")
      case False
      show ?thesis
      proof (cases s)
        case s: (Cons d s1)
        show ?thesis
        proof (cases "194 \<le> (of_char c :: nat) \<and> of_char c \<le> (223::nat)")
          case True
          with 1(2) a s False IH [of s1] show ?thesis by simp
        next
          case two: False
          show ?thesis
          proof (cases s1)
            case s1: (Cons f s2)
            show ?thesis
            proof (cases "224 \<le> (of_char c :: nat) \<and> of_char c \<le> (239::nat)")
              case True
              with 1(2) a s s1 False two IH [of s2] show ?thesis by (auto simp: Let_def)
            next
              case three: False
              show ?thesis
              proof (cases s2)
                case (Cons g s3)
                with 1(2) a s s1 False two three IH [of s3] show ?thesis by (auto simp: Let_def)
              qed (use 1(2) a s s1 False two three in simp)
            qed
          qed (use 1(2) a s False two in simp)
        qed
      qed (use 1(2) a False in simp)
    qed (use 1(2) a IH [of s] in simp)
  qed simp
qed

lemma rune_width_valid: "ValidString (take (rune_width s) s)" and rune_width_bound: "rune_width s \<le> 4"
  by (auto simp: rune_width_def split: option.splits dest!: find_Some_iff [THEN iffD1] simp: nth_Cons split: nat.splits)

lemma starts_with_rune:
  assumes "ValidString s" and "s \<noteq> []"
  shows "\<exists>n\<in>{1, 2, 3, 4}. n \<le> length s \<and> ValidString (take n s)"
proof (cases s)
  case s: (Cons a t)
  show ?thesis
  proof (cases t)
    case t: (Cons c t1)
    show ?thesis
    proof (cases t1)
      case t1: (Cons d t2)
      show ?thesis
      proof (cases t2)
        case Nil
        with assms(1) s t t1 show ?thesis by (simp add: Let_def split: if_splits)
      next
        case (Cons f t3)
        with assms(1) s t t1 show ?thesis by (simp add: Let_def split: if_splits)
      qed
    qed (use assms(1) s t in \<open>simp add: Let_def split: if_splits\<close>)
  qed (use assms(1) s in \<open>simp add: Let_def split: if_splits\<close>)
qed (use assms(2) in simp)

lemma rune_width_pos: "ValidString s \<Longrightarrow> s \<noteq> [] \<Longrightarrow> rune_width s \<noteq> 0"
proof -
  assume "ValidString s" "s \<noteq> []"
  then have "\<exists>n\<in>set [1, 2, 3, 4]. n \<le> length s \<and> ValidString (take n s)"
    using starts_with_rune by auto
  then show ?thesis
    unfolding rune_width_def
    by (auto split: option.split simp: find_None_iff dest!: find_Some_iff [THEN iffD1] simp: nth_Cons simp del: find.simps split: nat.splits)
qed

lemma ToValidUTF8_valid: "ValidString (ToValidUTF8 invalid s)"
proof (induction invalid s rule: ToValidUTF8.induct)
  case (1 invalid s)
  have r: "ValidString replacement" by code_simp
  show ?case
    using 1 by (subst ToValidUTF8.simps)
      (auto simp: Let_def ValidString_append [OF r] ValidString_append [OF rune_width_valid])
qed

lemma take_runes_parts:
  "ValidString (take_runes n s)" "length (take_runes n s) \<le> n" "\<exists>r. s = take_runes n s @ r"
proof (induction n s rule: take_runes.induct)
  case (1 room s)
  let ?w = "rune_width s"
  { case 1
    show ?case
      using "1.IH"(1) by (subst take_runes.simps) (auto simp: Let_def ValidString_append [OF rune_width_valid])
  next
    case 2
    show ?case
      using "1.IH"(2) rune_width_length [of s] by (subst take_runes.simps) (auto simp: Let_def)
  next
    case 3
    show ?case
    proof (cases "?w = 0 \<or> room < ?w")
      case False
      with "1.IH"(3) obtain r where "drop ?w s = take_runes (room - ?w) (drop ?w s) @ r" by auto
      then have "s = take ?w s @ take_runes (room - ?w) (drop ?w s) @ r" by (metis append_take_drop_id)
      with False show ?thesis by (subst take_runes.simps) (simp only: Let_def if_False append_assoc, blast)
    qed (subst take_runes.simps, simp)
  }
qed

lemma take_runes_fills: "ValidString s \<Longrightarrow> n < length s \<Longrightarrow> n < length (take_runes n s) + 4"
proof (induction n s rule: take_runes.induct)
  case (1 room s)
  let ?w = "rune_width s"
  have w: "?w \<noteq> 0" "?w \<le> 4" "?w \<le> length s"
    using rune_width_pos [OF 1(2)] rune_width_bound rune_width_length 1(3) by force+
  note IH = "1.IH"
  show ?case
  proof (cases "room < ?w")
    case False
    have "ValidString (drop ?w s)"
      using 1(2) ValidString_append [OF rune_width_valid, of s "drop ?w s"] by simp
    then have "room - ?w < length (take_runes (room - ?w) (drop ?w s)) + 4" using IH [OF refl] 1(2,3) w False by (auto simp: less_diff_iff)
    with False w show ?thesis by (subst take_runes.simps) (auto simp: Let_def)
  qed (use w in \<open>auto simp: take_runes.simps\<close>)
qed

text \<open>
  A preview is valid UTF-8 of at most 256 bytes. Of a valid text it is a prefix: the whole
  text when it fits, and else one that leaves less than a rune of the room unused.
\<close>

theorem preview_is_a_prefix:
  "ValidString (truncateHandoffEntryPreview b) \<and> length (truncateHandoffEntryPreview b) \<le> 256
   \<and> (ValidString b \<longrightarrow> (\<exists>r. b = truncateHandoffEntryPreview b @ r
        \<and> (r \<noteq> [] \<longleftrightarrow> 256 < length b) \<and> (r \<noteq> [] \<longrightarrow> 252 < length (truncateHandoffEntryPreview b))))"
proof -
  obtain r where r: "b = take_runes 256 b @ r" using take_runes_parts(3) by blast
  have "256 < length b \<Longrightarrow> r \<noteq> []"
    using r take_runes_parts(2) [of 256 b] by (metis append_Nil2 leD)
  then show ?thesis
    using r take_runes_fills [of b 256] take_runes_parts(1,2) ToValidUTF8_valid
    by (auto simp: truncateHandoffEntryPreview_def HandoffEntryPreviewMaxBytes_def Let_def)
qed

section \<open>Reading the entries\<close>

lemma read_then_value: "m s = Some (Inr x) \<Longrightarrow> read_then m f s = f x s"
  by (simp add: read_then_def)

lemma from_store_value: "fst (m s) = r \<Longrightarrow> from_store m s = Some r"
  by (simp add: from_store_def)

lemma from_store_ret [simp]: "from_store (ret x) s = Some (Inr x)"
  by (simp add: from_store_def ret_def)

lemma read_each_value:
  "(\<And>x. x \<in> set xs \<Longrightarrow> f x s = Some (Inr (g x))) \<Longrightarrow> read_each f xs s = Some (Inr (concat (map g xs)))"
  by (induction xs) (simp_all add: read_then_value)

lemma ListGoalHandoffEntries_page:
  assumes "goal_handoff_row hid s = Some h" and "0 < lim" and "lim \<le> HandoffHistoryMaxLimit" and "0 \<le> c"
  shows "fst (ListGoalHandoffEntries hid c lim s) =
    Inr (trimHandoffEntryPage (take (lim + 1) (thread_after hid c (goal_handoff_entries s))) lim)"
  using assms by (simp add: ListGoalHandoffEntries_def listHandoffEntries_def
      GetGoalHandoffEntryState_sql_def ListGoalHandoffEntries_sql_def op_eval op_eval_defs)

definition thread_of :: "string \<Rightarrow> handoff_entry list \<Rightarrow> handoff_entry list" where
  "thread_of hid es = filter (\<lambda>e. e_handoff_id e = hid) es"

lemma whole_thread: "wf_entries es \<Longrightarrow> thread_after hid 0 es = thread_of hid es"
  by (auto simp: thread_after_sorted thread_of_def wf_entries_def intro: filter_cong)

lemma row_exists: "h \<in> set hs \<Longrightarrow> \<exists>h'. List.find (\<lambda>x. h_id x = h_id h) hs = Some h'"
  by (metis (mono_tags, lifting) find_None_iff not_None_eq)

text \<open>The records of the thread of one handoff.\<close>

definition goal_thread :: "int \<Rightarrow> store \<Rightarrow> handoff \<Rightarrow> handoffEntryRecord list" where
  "goal_thread projectID s h =
     map (handoffEntryRecordForEntry projectID (h_owner h) 0 ''goal'' (h_id h) (parties_of h))
       (thread_of (h_id h) (goal_handoff_entries s))"

definition task_thread :: "int \<Rightarrow> int \<Rightarrow> store \<Rightarrow> handoff \<Rightarrow> handoffEntryRecord list" where
  "task_thread projectID goalID s h =
     map (handoffEntryRecordForEntry projectID goalID (h_owner h) ''task'' (h_id h) (parties_of h))
       (thread_of (h_id h) (task_handoff_entries s))"

lemma read_goal_thread:
  assumes wf: "wf_store s" and h: "h \<in> set (goal_handoffs s)"
  shows "appendGoalHandoffEntryRecords projectID h s = Some (Inr (goal_thread projectID s h))"
proof -
  have es: "wf_entries (goal_handoff_entries s)"
    using wf_store_parts(2) [OF wf] by (simp add: wf_logs_def)
  obtain h' where "goal_handoff_row (h_id h) s = Some h'"
    using row_exists [OF h] by (auto simp: goal_handoff_row_def)
  then have "appendHandoffEntryRecords (\<lambda>c. fst (ListGoalHandoffEntries (h_id h) c HandoffHistoryMaxLimit s)) 0 []
      = Some (Inr ([] @ thread_after (h_id h) 0 (goal_handoff_entries s)))"
    by (intro read_thread [OF es, where lim = HandoffHistoryMaxLimit] ListGoalHandoffEntries_page) (simp_all add: HandoffHistoryMaxLimit_def)
  then show ?thesis
    by (simp add: appendGoalHandoffEntryRecords_def thread_records_def goal_thread_def whole_thread [OF es])
qed

lemma read_task_thread:
  assumes wf: "wf_store s" and h: "h \<in> set (task_handoffs s)"
  shows "appendTaskHandoffEntryRecords projectID goalID h s = Some (Inr (task_thread projectID goalID s h))"
proof -
  have es: "wf_entries (task_handoff_entries s)"
    using wf_store_parts(2) [OF wf] by (simp add: wf_logs_def)
  obtain h' where "task_handoff_row (h_id h) s = Some h'"
    using row_exists [OF h] by (auto simp: task_handoff_row_def)
  then have "appendHandoffEntryRecords (\<lambda>c. fst (ListTaskHandoffEntries (h_id h) c HandoffHistoryMaxLimit s)) 0 []
      = Some (Inr ([] @ thread_after (h_id h) 0 (task_handoff_entries s)))"
    by (intro read_thread [OF es, where lim = HandoffHistoryMaxLimit] ListTaskHandoffEntries_page) (simp_all add: HandoffHistoryMaxLimit_def)
  then show ?thesis
    by (simp add: appendTaskHandoffEntryRecords_def thread_records_def task_thread_def whole_thread [OF es])
qed

definition task_threads :: "int \<Rightarrow> int \<Rightarrow> store \<Rightarrow> int \<Rightarrow> handoffEntryRecord list" where
  "task_threads projectID goalID s taskID =
     concat (map (task_thread projectID goalID s) (order_by h_id (filter (\<lambda>h. h_owner h = taskID) (task_handoffs s))))"

lemma GetTaskGoalID_sql_value: "task_row i s = Some t \<Longrightarrow> GetTaskGoalID_sql i s = (Inr (t_goal_id t), s)"
  by (simp add: GetTaskGoalID_sql_def op_eval op_eval_defs)

lemma scan_task_value:
  assumes wf: "wf_store s" and t: "task_row taskID s = Some t"
  shows "scan_task projectID goalID taskID s = Some (Inr (task_threads projectID goalID s taskID))"
proof -
  have "fst (ListTaskHandoffs taskID s) = Inr (order_by h_id (filter (\<lambda>h. h_owner h = taskID) (task_handoffs s)))"
    by (simp add: ListTaskHandoffs_def ListTaskHandoffs_sql_def ask_def bnd_def ret_def GetTaskGoalID_sql_value [OF t])
  then show ?thesis
    unfolding scan_task_def task_threads_def
    by (subst read_then_value [OF from_store_value]) (auto intro!: read_each_value read_task_thread [OF wf])
qed

definition goal_threads :: "store \<Rightarrow> goal \<Rightarrow> handoffEntryRecord list" where
  "goal_threads s g =
     concat (map (goal_thread (g_project_id g) s) (order_by h_id (filter (\<lambda>h. h_owner h = g_id g) (goal_handoffs s))))
   @ concat (map (\<lambda>t. task_threads (g_project_id g) (g_id g) s (t_id t))
       (order_by (\<lambda>t. (t_sort_order t, t_id t)) (filter (\<lambda>t. t_goal_id t = g_id g) (tasks s))))"

lemma task_row_exists: "t \<in> set (tasks s) \<Longrightarrow> \<exists>t'. task_row (t_id t) s = Some t'"
  unfolding task_row_def by (metis (mono_tags, lifting) find_None_iff not_None_eq)

lemma scan_goal_value:
  assumes wf: "wf_store s"
  shows "scan_goal g s = Some (Inr (goal_threads s g))"
proof -
  let ?hs = "order_by h_id (filter (\<lambda>h. h_owner h = g_id g) (goal_handoffs s))"
  let ?ts = "order_by (\<lambda>t. (t_sort_order t, t_id t)) (filter (\<lambda>t. t_goal_id t = g_id g) (tasks s))"
  have hs: "from_store (ListGoalHandoffs (g_id g)) s = Some (Inr ?hs)"
    by (simp add: from_store_def ListGoalHandoffs_def ListGoalHandoffs_sql_def ask_def)
  have ts: "from_store (ListTasks (g_id g)) s = Some (Inr ?ts)"
    by (simp add: from_store_def ListTasks_def ListTasks_sql_def ask_def)
  have goal: "read_each (appendGoalHandoffEntryRecords (g_project_id g)) ?hs s
      = Some (Inr (concat (map (goal_thread (g_project_id g) s) ?hs)))"
    by (rule read_each_value) (simp add: read_goal_thread [OF wf])
  have task: "read_each (\<lambda>t. scan_task (g_project_id g) (g_id g) (t_id t)) ?ts s
      = Some (Inr (concat (map (\<lambda>t. task_threads (g_project_id g) (g_id g) s (t_id t)) ?ts)))"
    by (rule read_each_value) (auto dest!: task_row_exists simp: scan_task_value [OF wf])
  show ?thesis
    unfolding scan_goal_def goal_threads_def
    by (simp add: read_then_value hs goal ts task)
qed

text \<open>The records of everything a filter scans, in the order they are read.\<close>

definition scanned_goals :: "eventFilter \<Rightarrow> store \<Rightarrow> goal list" where
  "scanned_goals f s =
     filter (scans_goal f) (order_by g_created_at (filter (\<lambda>g. \<not> project_archived (g_project_id g) s) (goals s)))"

lemma scan_goals_value:
  assumes wf: "wf_store s" and f: "ef_taskID f = []"
  shows "scanHandoffEntryRecords f s
     = Some (Inr (sortHandoffEntryRecords (concat (map (goal_threads s) (scanned_goals f s)))))"
proof -
  let ?gs = "order_by g_created_at (filter (\<lambda>g. \<not> project_archived (g_project_id g) s) (goals s))"
  have gs: "from_store ListAllGoals s = Some (Inr ?gs)"
    by (simp add: from_store_def ListAllGoals_def ListAllGoals_sql_def ask_def)
  have all: "read_each (\<lambda>g. if scans_goal f g then scan_goal g else from_store (ret [])) ?gs s
      = Some (Inr (concat (map (\<lambda>g. if scans_goal f g then goal_threads s g else []) ?gs)))"
    by (rule read_each_value) (simp add: scan_goal_value [OF wf])
  have part: "concat (map (\<lambda>g. if P g then h g else []) gs) = concat (map h (filter P gs))"
    for P and h :: "goal \<Rightarrow> handoffEntryRecord list" and gs
    by (induction gs) auto
  have "read_then (from_store ListAllGoals)
      (\<lambda>gs. read_each (\<lambda>g. if scans_goal f g then scan_goal g else from_store (ret [])) gs) s
      = Some (Inr (concat (map (goal_threads s) (scanned_goals f s))))"
    by (simp add: read_then_value gs all part scanned_goals_def)
  then show ?thesis
    unfolding scanHandoffEntryRecords_def by (simp add: f read_then_value)
qed

lemma scan_task_filter_value:
  assumes wf: "wf_store s" and f: "ef_taskID f \<noteq> []"
    and t: "task_row (ef_canonicalTaskID f) s = Some t" and g: "goal_row (t_goal_id t) s = Some g"
  shows "scanHandoffEntryRecords f s = Some (Inr (sortHandoffEntryRecords
      (task_threads (g_project_id g) (t_goal_id t) s (ef_canonicalTaskID f))))"
proof -
  have "fst (GetTaskGoalID (ef_canonicalTaskID f) s) = Inr (t_goal_id t)"
    by (simp add: GetTaskGoalID_def map_error_def GetTaskGoalID_sql_value [OF t])
  moreover have "fst (GetGoal (t_goal_id t) s) = Inr (g\<lparr>g_derived_from := nullable (nz (g_derived_from g))\<rparr>)"
    by (simp add: GetGoal_value g)
  ultimately show ?thesis
    unfolding scanHandoffEntryRecords_def
    by (simp add: f read_then_value from_store_value scan_task_value [OF wf t])
qed

subsection \<open>What a scan returns\<close>

text \<open>The records of a goal, and of a task, as a relation.\<close>

definition goal_record :: "store \<Rightarrow> goal \<Rightarrow> handoffEntryRecord \<Rightarrow> bool" where
  "goal_record s g r \<longleftrightarrow>
     (\<exists>h\<in>set (goal_handoffs s). \<exists>e\<in>set (goal_handoff_entries s). h_owner h = g_id g \<and> e_handoff_id e = h_id h
        \<and> r = handoffEntryRecordForEntry (g_project_id g) (g_id g) 0 ''goal'' (h_id h) (parties_of h) e)"

definition task_record :: "store \<Rightarrow> int \<Rightarrow> int \<Rightarrow> int \<Rightarrow> handoffEntryRecord \<Rightarrow> bool" where
  "task_record s projectID goalID taskID r \<longleftrightarrow>
     (\<exists>h\<in>set (task_handoffs s). \<exists>e\<in>set (task_handoff_entries s). h_owner h = taskID \<and> e_handoff_id e = h_id h
        \<and> r = handoffEntryRecordForEntry projectID goalID taskID ''task'' (h_id h) (parties_of h) e)"

lemma set_task_threads: "r \<in> set (task_threads p g s i) \<longleftrightarrow> task_record s p g i r"
  by (auto simp: task_threads_def task_record_def task_thread_def thread_of_def)

lemma set_goal_threads:
  "r \<in> set (goal_threads s g) \<longleftrightarrow>
     goal_record s g r \<or> (\<exists>t\<in>set (tasks s). t_goal_id t = g_id g \<and> task_record s (g_project_id g) (g_id g) (t_id t) r)"
  by (auto simp: goal_threads_def goal_record_def goal_thread_def thread_of_def set_task_threads)

text \<open>What a filter selects: the entries of the visible goals that match it, or those of its task.\<close>

definition in_scope :: "eventFilter \<Rightarrow> store \<Rightarrow> handoffEntryRecord \<Rightarrow> bool" where
  "in_scope f s r \<longleftrightarrow>
     (if ef_taskID f = [] then
        \<exists>g\<in>set (goals s). \<not> project_archived (g_project_id g) s \<and> scans_goal f g
          \<and> (goal_record s g r
             \<or> (\<exists>t\<in>set (tasks s). t_goal_id t = g_id g \<and> task_record s (g_project_id g) (g_id g) (t_id t) r))
      else
        \<exists>t g. task_row (ef_canonicalTaskID f) s = Some t \<and> goal_row (t_goal_id t) s = Some g
          \<and> task_record s (g_project_id g) (t_goal_id t) (ef_canonicalTaskID f) r)"

definition scope_exists :: "eventFilter \<Rightarrow> store \<Rightarrow> bool" where
  "scope_exists f s \<longleftrightarrow> ef_taskID f = [] \<or>
     (\<exists>t g. task_row (ef_canonicalTaskID f) s = Some t \<and> goal_row (t_goal_id t) s = Some g)"

lemma scan_value:
  assumes wf: "wf_store s" and f: "scope_exists f s"
  shows "\<exists>rs. scanHandoffEntryRecords f s = Some (Inr rs) \<and> sorted (map (\<lambda>r. ae_ID (er_event r)) rs)
     \<and> (\<forall>r. r \<in> set rs \<longleftrightarrow> in_scope f s r)"
proof (cases "ef_taskID f = []")
  case True
  then show ?thesis
    by (auto simp: scan_goals_value [OF wf] sortHandoffEntryRecords_def sorted_order_by scanned_goals_def
        set_goal_threads in_scope_def)
next
  case False
  with f obtain t g where "task_row (ef_canonicalTaskID f) s = Some t" "goal_row (t_goal_id t) s = Some g"
    by (auto simp: scope_exists_def)
  with False show ?thesis
    by (auto simp: scan_task_filter_value [OF wf] sortHandoffEntryRecords_def sorted_order_by
        set_task_threads in_scope_def)
qed

lemma scan_needs_scope:
  assumes wf: "wf_store s" and scan: "scanHandoffEntryRecords f s = Some (Inr rs)"
  shows "scope_exists f s"
proof (rule ccontr)
  assume "\<not> scope_exists f s"
  then have f: "ef_taskID f \<noteq> []" and
    none: "task_row (ef_canonicalTaskID f) s = None \<or>
      (\<exists>t. task_row (ef_canonicalTaskID f) s = Some t \<and> goal_row (t_goal_id t) s = None)"
    by (auto simp: scope_exists_def split: option.splits)
  from none scan show False
    unfolding scanHandoffEntryRecords_def
    by (auto simp: f read_then_def from_store_def GetTaskGoalID_def GetTaskGoalID_sql_def op_eval op_eval_defs GetGoal_value)
qed

lemma scan_set:
  assumes "wf_store s" and "scanHandoffEntryRecords f s = Some (Inr rs)"
  shows "r \<in> set rs \<longleftrightarrow> in_scope f s r" and "sorted (map (\<lambda>r. ae_ID (er_event r)) rs)"
  using scan_value [OF assms(1) scan_needs_scope [OF assms]] assms(2) by auto

subsection \<open>Keys\<close>

definition entry_at :: "store \<Rightarrow> HandoffEntryAddedEvent \<Rightarrow> bool" where
  "entry_at s n \<longleftrightarrow>
     ae_Scope n = ''goal'' \<and> (\<exists>e\<in>set (goal_handoff_entries s). e_handoff_id e = ae_HandoffID n \<and> e_id e = ae_ID n)
   \<or> ae_Scope n = ''task'' \<and> (\<exists>e\<in>set (task_handoff_entries s). e_handoff_id e = ae_HandoffID n \<and> e_id e = ae_ID n)"

lemma record_event [simp]:
  "ae_Scope (er_event (handoffEntryRecordForEntry p g i sc hid ps e)) = sc"
  "ae_HandoffID (er_event (handoffEntryRecordForEntry p g i sc hid ps e)) = hid"
  "ae_ID (er_event (handoffEntryRecordForEntry p g i sc hid ps e)) = e_id e"
  "ae_ProjectID (er_event (handoffEntryRecordForEntry p g i sc hid ps e)) = p"
  "ae_GoalID (er_event (handoffEntryRecordForEntry p g i sc hid ps e)) = g"
  "ae_TaskID (er_event (handoffEntryRecordForEntry p g i sc hid ps e)) = i"
  by (simp_all add: handoffEntryRecordForEntry_def)

lemma in_scope_entry: "in_scope f s r \<Longrightarrow> entry_at s (er_event r)"
  by (auto simp: in_scope_def goal_record_def task_record_def entry_at_def split: if_splits)

lemma wf_entry_at: "wf_store s \<Longrightarrow> entry_at s n \<Longrightarrow> 0 < ae_ID n"
  using wf_store_parts(2) [of s] by (auto simp: entry_at_def wf_logs_def wf_entries_def)

lemma entries_extend_at:
  assumes "entries_extend es es'" and "e \<in> set es"
  shows "\<exists>e'\<in>set es'. e_handoff_id e' = e_handoff_id e \<and> e_id e' = e_id e"
proof -
  obtain new where "map entry_core es' = map entry_core es @ new"
    using assms(1) by (auto simp: entries_extend_def)
  then have "entry_core e \<in> entry_core ` set es'"
    using assms(2) by (metis UnCI image_eqI list.set_map set_append)
  then obtain e' where "e' \<in> set es'" "entry_core e = entry_core e'" by blast
  then have "e_handoff_id (entry_core e') = e_handoff_id (entry_core e)" "e_id (entry_core e') = e_id (entry_core e)"
    by simp_all
  with \<open>e' \<in> set es'\<close> show ?thesis by (auto simp: entry_core_def)
qed

lemma entry_at_later: "steps s t \<Longrightarrow> entry_at s n \<Longrightarrow> entry_at t n"
  using steps_tables(1) [of s t] entries_extend_at unfolding entry_at_def logs_extend_def by metis

text \<open>The key of an entry names its table, its handoff and its id.\<close>

definition entry_name :: "HandoffEntryAddedEvent \<Rightarrow> string \<times> string \<times> int" where
  "entry_name n = (ae_Scope n, ae_HandoffID n, ae_ID n)"

lemma last_colon:
  assumes "a @ CHR '':'' # x = b @ CHR '':'' # y" and "CHR '':'' \<notin> set x" and "CHR '':'' \<notin> set y"
  shows "a = b \<and> x = y"
  using assms by (auto simp: append_eq_append_conv2 Cons_eq_append_conv append_eq_Cons_conv)

lemma Itoa_no_colon: "CHR '':'' \<notin> set (Itoa n)"
proof
  assume "CHR '':'' \<in> set (Itoa n)"
  then have "is_digit CHR '':''" using Itoa_digits [of n] by (simp add: list_all_iff)
  then show False by (simp add: is_digit_def digit_value_def)
qed

lemma key_names_entry:
  assumes eq: "handoffEventKey n = handoffEventKey m" and ids: "0 < ae_ID n" "0 < ae_ID m"
    and scopes: "ae_Scope n \<in> {''goal'', ''task''}" "ae_Scope m \<in> {''goal'', ''task''}"
  shows "entry_name n = entry_name m"
proof -
  have "(ae_Scope n @ '':'' @ ae_HandoffID n) @ CHR '':'' # Itoa (nat (ae_ID n))
      = (ae_Scope m @ '':'' @ ae_HandoffID m) @ CHR '':'' # Itoa (nat (ae_ID m))"
    using eq ids by (simp add: handoffEventKey_def Itoa_int_def)
  from last_colon [OF this] have "ae_Scope n @ '':'' @ ae_HandoffID n = ae_Scope m @ '':'' @ ae_HandoffID m"
    "Itoa (nat (ae_ID n)) = Itoa (nat (ae_ID m))" by (auto simp: Itoa_no_colon)
  then show ?thesis using ids scopes by (auto simp: entry_name_def)
qed

lemma entry_at_scope: "entry_at s n \<Longrightarrow> ae_Scope n \<in> {''goal'', ''task''}"
  by (auto simp: entry_at_def)

lemma entry_at_name: "entry_name n = entry_name m \<Longrightarrow> entry_at s n = entry_at s m"
  by (simp add: entry_at_def entry_name_def)

lemma key_at:
  assumes "wf_store s" "entry_at s n" "entry_at s m"
  shows "handoffEventKey n = handoffEventKey m \<longleftrightarrow> entry_name n = entry_name m"
proof
  show "handoffEventKey n = handoffEventKey m \<Longrightarrow> entry_name n = entry_name m"
    by (rule key_names_entry) (use assms wf_entry_at entry_at_scope in blast)+
qed (auto simp: entry_name_def handoffEventKey_def)

text \<open>A scan holds one record of an entry.\<close>

lemma same_id: "distinct (map k xs) \<Longrightarrow> x \<in> set xs \<Longrightarrow> y \<in> set xs \<Longrightarrow> k x = k y \<Longrightarrow> x = y"
  by (auto simp: distinct_map inj_on_def)

lemma wf_ids:
  assumes "wf_store s"
  shows "distinct (map g_id (goals s))" "distinct (map t_id (tasks s))" "distinct (map h_id (goal_handoffs s))"
    "distinct (map h_id (task_handoffs s))" "distinct (map e_id (goal_handoff_entries s))"
    "distinct (map e_id (task_handoff_entries s))"
  using wf_store_parts [OF assms]
  by (auto simp: wf_goals_def wf_tasks_def wf_table_def wf_handoffs_def wf_logs_def wf_entries_def strict_sorted_iff)

lemma goal_record_unique:
  assumes wf: "wf_store s" and g: "g \<in> set (goals s)" "g' \<in> set (goals s)"
    and r: "goal_record s g r" "goal_record s g' r'"
    and eq: "entry_name (er_event r) = entry_name (er_event r')"
  shows "r = r'"
proof -
  obtain h e where a: "h \<in> set (goal_handoffs s)" "e \<in> set (goal_handoff_entries s)" "h_owner h = g_id g"
    "r = handoffEntryRecordForEntry (g_project_id g) (g_id g) 0 ''goal'' (h_id h) (parties_of h) e"
    using r(1) by (auto simp: goal_record_def)
  obtain h' e' where b: "h' \<in> set (goal_handoffs s)" "e' \<in> set (goal_handoff_entries s)" "h_owner h' = g_id g'"
    "r' = handoffEntryRecordForEntry (g_project_id g') (g_id g') 0 ''goal'' (h_id h') (parties_of h') e'"
    using r(2) by (auto simp: goal_record_def)
  have "h = h'" "e = e'"
    using eq same_id [OF wf_ids(3) [OF wf] a(1) b(1)] same_id [OF wf_ids(5) [OF wf] a(2) b(2)]
    by (simp_all add: a(4) b(4) entry_name_def)
  moreover from this have "g = g'" using a(3) b(3) same_id [OF wf_ids(1) [OF wf] g] by simp
  ultimately show ?thesis using a(4) b(4) by simp
qed

lemma task_record_parts:
  assumes wf: "wf_store s" and r: "task_record s p g i r" "task_record s p' g' i' r'"
    and eq: "entry_name (er_event r) = entry_name (er_event r')"
  shows "i = i'" and "p = p' \<Longrightarrow> g = g' \<Longrightarrow> r = r'"
proof -
  obtain h e where a: "h \<in> set (task_handoffs s)" "e \<in> set (task_handoff_entries s)" "h_owner h = i"
    "r = handoffEntryRecordForEntry p g i ''task'' (h_id h) (parties_of h) e"
    using r(1) by (auto simp: task_record_def)
  obtain h' e' where b: "h' \<in> set (task_handoffs s)" "e' \<in> set (task_handoff_entries s)" "h_owner h' = i'"
    "r' = handoffEntryRecordForEntry p' g' i' ''task'' (h_id h') (parties_of h') e'"
    using r(2) by (auto simp: task_record_def)
  have "h = h'" "e = e'"
    using eq same_id [OF wf_ids(4) [OF wf] a(1) b(1)] same_id [OF wf_ids(6) [OF wf] a(2) b(2)]
    by (simp_all add: a(4) b(4) entry_name_def)
  then show "i = i'" and "p = p' \<Longrightarrow> g = g' \<Longrightarrow> r = r'" using a(3,4) b(3,4) by simp_all
qed

lemma record_scopes:
  "goal_record s g r \<Longrightarrow> ae_Scope (er_event r) = ''goal''" "task_record s p g' i r \<Longrightarrow> ae_Scope (er_event r) = ''task''"
  by (auto simp: goal_record_def task_record_def)

lemma in_scope_unique:
  assumes wf: "wf_store s" and r: "in_scope f s r" "in_scope f s r'"
    and eq: "entry_name (er_event r) = entry_name (er_event r')"
  shows "r = r'"
proof (cases "ef_taskID f = []")
  case True
  have same: "ae_Scope (er_event r) = ae_Scope (er_event r')" using eq by (simp add: entry_name_def)
  from True r obtain g g' where g: "g \<in> set (goals s)" "g' \<in> set (goals s)"
    and rg: "goal_record s g r \<or> (\<exists>t\<in>set (tasks s). t_goal_id t = g_id g \<and> task_record s (g_project_id g) (g_id g) (t_id t) r)"
    and rg': "goal_record s g' r' \<or> (\<exists>t\<in>set (tasks s). t_goal_id t = g_id g' \<and> task_record s (g_project_id g') (g_id g') (t_id t) r')"
    unfolding in_scope_def by auto
  show ?thesis
  proof (cases "goal_record s g r")
    case True
    with same rg' have "goal_record s g' r'" using record_scopes(1) [OF True] record_scopes(2) by force
    with True show ?thesis using goal_record_unique [OF wf g _ _ eq] by blast
  next
    case False
    with rg obtain t where t: "t \<in> set (tasks s)" "t_goal_id t = g_id g" "task_record s (g_project_id g) (g_id g) (t_id t) r" by blast
    with same rg' obtain t' where t': "t' \<in> set (tasks s)" "t_goal_id t' = g_id g'"
      "task_record s (g_project_id g') (g_id g') (t_id t') r'"
      using record_scopes(2) [OF t(3)] record_scopes(1) by force
    have "t = t'" using same_id [OF wf_ids(2) [OF wf] t(1) t'(1)] task_record_parts(1) [OF wf t(3) t'(3) eq] by blast
    then have "g = g'" using same_id [OF wf_ids(1) [OF wf] g] t(2) t'(2) by simp
    then show ?thesis using task_record_parts(2) [OF wf t(3) t'(3) eq] by simp
  qed
next
  case False
  with r task_record_parts(2) [OF wf _ _ eq] show ?thesis by (auto simp: in_scope_def)
qed

section \<open>What is sent\<close>

definition sent_entries :: "stream \<Rightarrow> HandoffEntryAddedEvent list" where
  "sent_entries st = concat (map (\<lambda>fr. case snd fr of EntryAdded e \<Rightarrow> [e] | _ \<Rightarrow> []) (st_sent st))"

lemma writeSSEEvent_parts [simp]:
  "st_filter (writeSSEEvent s ev st) = st_filter st" "st_known (writeSSEEvent s ev st) = st_known st"
  "st_seen (writeSSEEvent s ev st) = st_seen st"
  by (simp_all add: writeSSEEvent_def)

lemma sent_writeSSEEvent:
  "sent_entries (writeSSEEvent s ev st) = sent_entries st @
     (case se_Data ev of EntryAdded e \<Rightarrow> if eventPasses (st_filter st) ev s then [e] else [] | _ \<Rightarrow> [])"
  by (auto simp: writeSSEEvent_def sent_entries_def frame_of_def split: stream_data.split)

lemma sent_known_update [simp]: "sent_entries (st_known_update f st) = sent_entries st"
  by (simp add: sent_entries_def)

text \<open>Sending an entry: the key becomes known, and the entry is written when it was not known and passes.\<close>

lemma send_entry_effect:
  assumes "0 < ae_ID e"
  shows "st_filter (send_entry s ev e st) = st_filter st" "st_seen (send_entry s ev e st) = st_seen st"
    "set (st_known (send_entry s ev e st)) = insert (handoffEventKey e) (set (st_known st))"
    "sent_entries (send_entry s ev e st) = sent_entries st @
       (if handoffEventKey e \<notin> set (st_known st) \<and> eventPasses (st_filter st) (ev\<lparr>se_Data := EntryAdded e\<rparr>) s then [e] else [])"
  using assms
  by (auto simp: send_entry_def mark_entry_def Let_def handoffEventKey_def sent_writeSSEEvent split: if_splits)

definition sendable :: "eventFilter \<Rightarrow> store \<Rightarrow> HandoffEntryAddedEvent \<Rightarrow> bool" where
  "sendable f s e \<longleftrightarrow> eventPasses f (event_named (EntryAdded e)) s"

lemma send_record_effect:
  assumes "0 < ae_ID (er_event r)"
  shows "st_filter (send_record s r st) = st_filter st" "st_seen (send_record s r st) = st_seen st"
    "set (st_known (send_record s r st)) = insert (handoffEventKey (er_event r)) (set (st_known st))"
    "sent_entries (send_record s r st) = sent_entries st @
       (if handoffEventKey (er_event r) \<notin> set (st_known st) \<and> sendable (st_filter st) s (er_event r) then [er_event r] else [])"
  unfolding send_record_def by (simp_all add: send_entry_effect [OF assms] sendable_def event_named_def)

text \<open>A round of records: every key becomes known, and what is new and passes is written once.\<close>

lemma send_records_effect:
  assumes "\<forall>r\<in>set rs. 0 < ae_ID (er_event r)"
  shows "st_filter (fold (send_record s) rs st) = st_filter st \<and> st_seen (fold (send_record s) rs st) = st_seen st
    \<and> set (st_known (fold (send_record s) rs st)) = set (st_known st) \<union> (\<lambda>r. handoffEventKey (er_event r)) ` set rs
    \<and> (\<exists>new. sent_entries (fold (send_record s) rs st) = sent_entries st @ new
        \<and> distinct (map handoffEventKey new)
        \<and> (\<forall>n\<in>set new. n \<in> er_event ` set rs \<and> handoffEventKey n \<notin> set (st_known st) \<and> sendable (st_filter st) s n)
        \<and> (\<forall>r\<in>set rs. handoffEventKey (er_event r) \<notin> set (st_known st) \<and> sendable (st_filter st) s (er_event r)
             \<and> (\<forall>r'\<in>set rs. handoffEventKey (er_event r') = handoffEventKey (er_event r) \<longrightarrow> r' = r)
           \<longrightarrow> er_event r \<in> set new))"
  using assms
proof (induction rs arbitrary: st)
  case (Cons r rs)
  let ?k = "\<lambda>r. handoffEventKey (er_event r)"
  let ?st = "send_record s r st"
  let ?first = "if ?k r \<notin> set (st_known st) \<and> sendable (st_filter st) s (er_event r) then [er_event r] else []"
  have pos: "0 < ae_ID (er_event r)" "\<forall>r\<in>set rs. 0 < ae_ID (er_event r)" using Cons.prems by auto
  note eff = send_record_effect [OF pos(1), of s st]
  note IH = Cons.IH [OF pos(2), of ?st, unfolded eff(1,2)]
  from IH have known: "set (st_known (fold (send_record s) rs ?st)) = set (st_known ?st) \<union> ?k ` set rs"
    and parts: "st_filter (fold (send_record s) rs ?st) = st_filter st" "st_seen (fold (send_record s) rs ?st) = st_seen st"
    by blast+
  from IH obtain new where
    sent: "sent_entries (fold (send_record s) rs ?st) = sent_entries ?st @ new" and
    dist: "distinct (map handoffEventKey new)" and
    new: "\<forall>n\<in>set new. n \<in> er_event ` set rs \<and> handoffEventKey n \<notin> set (st_known ?st) \<and> sendable (st_filter st) s n" and
    all: "\<forall>x\<in>set rs. ?k x \<notin> set (st_known ?st) \<and> sendable (st_filter st) s (er_event x)
             \<and> (\<forall>y\<in>set rs. ?k y = ?k x \<longrightarrow> y = x) \<longrightarrow> er_event x \<in> set new"
    by (elim conjE exE)
  have "sent_entries (fold (send_record s) (r # rs) st) = sent_entries st @ (?first @ new)"
    using sent eff(4) by simp
  moreover have "distinct (map handoffEventKey (?first @ new))" using dist new eff(3) by auto
  moreover have "\<forall>n\<in>set (?first @ new). n \<in> er_event ` set (r # rs) \<and> handoffEventKey n \<notin> set (st_known st) \<and> sendable (st_filter st) s n"
    using new eff(3) by auto
  moreover have "\<forall>x\<in>set (r # rs). ?k x \<notin> set (st_known st) \<and> sendable (st_filter st) s (er_event x)
             \<and> (\<forall>y\<in>set (r # rs). ?k y = ?k x \<longrightarrow> y = x) \<longrightarrow> er_event x \<in> set (?first @ new)"
    using all eff(3) by auto
  moreover have "set (st_known (fold (send_record s) (r # rs) st)) = set (st_known st) \<union> ?k ` set (r # rs)"
    using known eff(3) by simp
  moreover have "st_filter (fold (send_record s) (r # rs) st) = st_filter st"
    "st_seen (fold (send_record s) (r # rs) st) = st_seen st" using parts by simp_all
  ultimately show ?case by (intro conjI exI [of _ "?first @ new"])
qed simp

subsection \<open>A stream and its store\<close>

text \<open>
  The life of an open stream: the store goes on, an event arrives, or the clock ticks. No part of the program
  publishes an entry as an event; entries come from the ticks only.
\<close>

inductive stream_run :: "store \<Rightarrow> stream \<Rightarrow> store \<Rightarrow> stream \<Rightarrow> bool" for s0 st0 where
  opened: "stream_run s0 st0 s0 st0"
| store_moves: "stream_run s0 st0 s st \<Longrightarrow> steps s t \<Longrightarrow> stream_run s0 st0 t st"
| event_comes: "stream_run s0 st0 s st \<Longrightarrow> \<forall>e. se_Data ev \<noteq> EntryAdded e \<Longrightarrow> stream_run s0 st0 s (on_event s ev st)"
| ticks: "stream_run s0 st0 s st \<Longrightarrow> on_tick s st = Some st' \<Longrightarrow> stream_run s0 st0 s st'"

lemma on_event_entries:
  assumes "\<forall>e. se_Data ev \<noteq> EntryAdded e"
  shows "sent_entries (on_event s ev st) = sent_entries st" "st_known (on_event s ev st) = st_known st"
    "st_filter (on_event s ev st) = st_filter st" "st_seen (on_event s ev st) = st_seen st"
  using assms by (auto simp: on_event_def sent_writeSSEEvent split: stream_data.split)

definition mark_of :: "store \<Rightarrow> int" where
  "mark_of s = max_entry_id (task_handoff_entries s) + max_entry_id (goal_handoff_entries s)"

lemma watermark_mark: "fst (HandoffEntryWatermark s) = Inr (mark_of s)"
  by (simp add: HandoffEntryWatermark_value mark_of_def)

lemma mark_of_later:
  assumes "wf_store s" and "steps s t"
  shows "mark_of s \<le> mark_of t"
    and "mark_of s = mark_of t \<longleftrightarrow> map e_id (task_handoff_entries s) = map e_id (task_handoff_entries t)
      \<and> map e_id (goal_handoff_entries s) = map e_id (goal_handoff_entries t)"
proof -
  have ext: "logs_extend s t" using steps_tables(1) [OF assms(2)] .
  have "wf_logs t" using wf_store_parts(2) [OF wf_store_step [OF assms(2,1)]] .
  with ext have tm: "max_entry_id (task_handoff_entries s) \<le> max_entry_id (task_handoff_entries t)"
    and gm: "max_entry_id (goal_handoff_entries s) \<le> max_entry_id (goal_handoff_entries t)"
    unfolding logs_extend_def wf_logs_def by (auto intro: max_entry_id_extend(1))
  then show "mark_of s \<le> mark_of t" by (simp add: mark_of_def)
  show "mark_of s = mark_of t \<longleftrightarrow> map e_id (task_handoff_entries s) = map e_id (task_handoff_entries t)
      \<and> map e_id (goal_handoff_entries s) = map e_id (goal_handoff_entries t)"
    using watermark_detects [OF ext wf_store_parts(2) [OF assms(1)]] by (simp add: watermark_mark)
qed

lemma mark_of_nonneg: "wf_store s \<Longrightarrow> 0 \<le> mark_of s"
  using next_id_pos [of e_id "task_handoff_entries s"] next_id_pos [of e_id "goal_handoff_entries s"]
  by (simp add: mark_of_def max_entry_id_def)

text \<open>A tick, on a well-formed store.\<close>

lemma tick_cases:
  assumes tick: "on_tick s st = Some st'" and wf: "wf_store s"
  shows "st' = st \<or> (\<exists>rs. mark_of s \<noteq> st_seen st \<and> scanHandoffEntryRecords (st_filter st) s = Some (Inr rs)
           \<and> st' = fold (send_record s) rs (st\<lparr>st_seen := mark_of s\<rparr>)
           \<and> (\<forall>r\<in>set rs. entry_at s (er_event r) \<and> 0 < ae_ID (er_event r)))"
  using tick in_scope_entry wf_entry_at [OF wf] scan_set(1) [OF wf]
  unfolding on_tick_def watermark_mark
  by (auto split: if_splits option.splits sum.splits)

lemma sent_seen_update [simp]: "sent_entries (st_seen_update f st) = sent_entries st"
  by (simp add: sent_entries_def)

lemma stream_run_inv:
  assumes "stream_run s0 st0 s st" and wf: "wf_store s0" and start: "st_seen st0 = -1" "sent_entries st0 = []"
  shows "wf_store s \<and> steps s0 s \<and> st_filter st = st_filter st0 \<and> st_seen st \<le> mark_of s
    \<and> set (st_known st0) \<subseteq> set (st_known st)
    \<and> (\<forall>k\<in>set (st_known st). k \<in> set (st_known st0) \<or> (\<exists>n. entry_at s n \<and> k = handoffEventKey n))
    \<and> distinct (map handoffEventKey (sent_entries st))
    \<and> (\<forall>n\<in>set (sent_entries st). handoffEventKey n \<in> set (st_known st) \<and> handoffEventKey n \<notin> set (st_known st0)
         \<and> entry_at s n \<and> (\<exists>u. sendable (st_filter st0) u n))"
  using assms(1)
proof induction
  case opened
  show ?case using wf start mark_of_nonneg [OF wf] by auto
next
  case (store_moves s st t)
  then have wf: "wf_store s" "wf_store t" and "steps s0 t" by (auto intro: wf_store_step rtranclp_trans)
  with store_moves mark_of_later(1) [OF wf(1) store_moves(2)] show ?case
    by (auto intro: order_trans dest: entry_at_later [OF store_moves(2)])
next
  case (event_comes s st ev)
  then show ?case by (simp add: on_event_entries)
next
  case (ticks s st st')
  then have wf: "wf_store s" by blast
  from tick_cases [OF ticks(2) wf] show ?case
  proof
    assume "st' = st"
    with ticks show ?thesis by blast
  next
    assume "\<exists>rs. mark_of s \<noteq> st_seen st \<and> scanHandoffEntryRecords (st_filter st) s = Some (Inr rs)
           \<and> st' = fold (send_record s) rs (st\<lparr>st_seen := mark_of s\<rparr>)
           \<and> (\<forall>r\<in>set rs. entry_at s (er_event r) \<and> 0 < ae_ID (er_event r))"
    then obtain rs where st': "st' = fold (send_record s) rs (st\<lparr>st_seen := mark_of s\<rparr>)"
      and at: "\<forall>r\<in>set rs. entry_at s (er_event r)" and pos: "\<forall>r\<in>set rs. 0 < ae_ID (er_event r)" by blast
    note eff = send_records_effect [OF pos, of s "st\<lparr>st_seen := mark_of s\<rparr>", folded st']
    from eff obtain new where sent: "sent_entries st' = sent_entries st @ new" and dist: "distinct (map handoffEventKey new)"
      and new: "\<forall>n\<in>set new. n \<in> er_event ` set rs \<and> handoffEventKey n \<notin> set (st_known st) \<and> sendable (st_filter st) s n"
      by auto
    have known: "set (st_known st') = set (st_known st) \<union> (\<lambda>r. handoffEventKey (er_event r)) ` set rs"
      and parts: "st_filter st' = st_filter st" "st_seen st' = mark_of s" using eff by auto
    have fresh: "\<forall>n\<in>set new. entry_at s n \<and> handoffEventKey n \<in> set (st_known st')
        \<and> handoffEventKey n \<notin> set (st_known st0) \<and> sendable (st_filter st0) s n"
      using new at known ticks.IH by auto
    show ?thesis
      unfolding parts sent
      using ticks.IH known dist new at fresh by (auto 4 3)
  qed
qed

text \<open>A stream that was opened.\<close>

lemma opened_stream:
  assumes "openStream q lastEventID baselineAt s = Some (Inr st)"
  shows "st_seen st = -1" and "sent_entries st = []"
    and "\<exists>rs. scanHandoffEntryRecords (st_filter st) s = Some (Inr rs)
           \<and> st_known st = newHandoffEntryTracker rs lastEventID baselineAt"
  using assms by (auto simp: openStream_def sent_entries_def split: sum.splits option.splits)

lemma tracker_known:
  assumes "\<forall>r\<in>set rs. 0 < ae_ID (er_event r)"
  shows "set (mark_all rs known) = set known \<union> (\<lambda>r. handoffEventKey (er_event r)) ` set rs"
  using assms
  by (induction rs arbitrary: known) (auto simp: mark_all_def mark_entry_def Let_def handoffEventKey_def)

lemma mark_until_known:
  assumes "sorted (map (\<lambda>r. ae_ID (er_event r)) rs)" and "\<forall>r\<in>set rs. 0 < ae_ID (er_event r)"
    and "mark_until n rs b known = (b', known')"
  shows "b' \<longleftrightarrow> b \<or> (\<exists>r\<in>set rs. ae_ID (er_event r) = n)"
    and "b \<Longrightarrow> known' = known"
    and "\<not> b \<Longrightarrow> (\<exists>r\<in>set rs. ae_ID (er_event r) = n) \<Longrightarrow>
      (\<forall>r\<in>set rs. ae_ID (er_event r) < n \<longrightarrow> handoffEventKey (er_event r) \<in> set known')
      \<and> set known \<subseteq> set known'
      \<and> (\<forall>k\<in>set known'. k \<in> set known \<or> (\<exists>r\<in>set rs. ae_ID (er_event r) \<le> n \<and> k = handoffEventKey (er_event r)))"
proof -
  have stays: "mark_until n xs True k = (c, k') \<Longrightarrow> c \<and> k' = k" for xs k c k'
    by (induction xs) auto
  have marked: "0 < ae_ID e \<Longrightarrow> set (snd (mark_entry e k)) = insert (handoffEventKey e) (set k)" for e k
    by (auto simp: mark_entry_def Let_def handoffEventKey_def)
  show "b' \<longleftrightarrow> b \<or> (\<exists>r\<in>set rs. ae_ID (er_event r) = n)"
    using assms(3) by (induction rs arbitrary: b known) auto
  show "b \<Longrightarrow> known' = known" using stays assms(3) by auto
  show "\<not> b \<Longrightarrow> (\<exists>r\<in>set rs. ae_ID (er_event r) = n) \<Longrightarrow>
      (\<forall>r\<in>set rs. ae_ID (er_event r) < n \<longrightarrow> handoffEventKey (er_event r) \<in> set known')
      \<and> set known \<subseteq> set known'
      \<and> (\<forall>k\<in>set known'. k \<in> set known \<or> (\<exists>r\<in>set rs. ae_ID (er_event r) \<le> n \<and> k = handoffEventKey (er_event r)))"
    using assms
  proof (induction rs arbitrary: known)
    case (Cons r rs)
    have pos: "0 < ae_ID (er_event r)" using Cons.prems(4) by simp
    show ?case
    proof (cases "ae_ID (er_event r) = n")
      case True
      have "known' = snd (mark_entry (er_event r) known)"
        using Cons.prems(1,5) True stays [of rs] by auto
      then show ?thesis using True Cons.prems(3) marked [OF pos] by auto
    next
      case False
      with Cons.prems have below: "ae_ID (er_event r) < n" "\<exists>r\<in>set rs. ae_ID (er_event r) = n" by auto
      have run: "mark_until n rs False (snd (mark_entry (er_event r) known)) = (b', known')"
        using Cons.prems(1,5) False by simp
      have "sorted (map (\<lambda>r. ae_ID (er_event r)) rs)" "\<forall>r\<in>set rs. 0 < ae_ID (er_event r)"
        using Cons.prems(3,4) by auto
      from Cons.IH [OF Cons.prems(1) below(2) this, of "snd (mark_entry (er_event r) known)"] run Cons.prems(1) below(1)
      show ?thesis unfolding marked [OF pos] by auto
    qed
  qed simp
qed

lemma opened_run:
  assumes wf: "wf_store s0" and opened: "openStream q lastEventID baselineAt s0 = Some (Inr st0)"
    and run: "stream_run s0 st0 s st"
  shows "wf_store s" "steps s0 s" "st_filter st = st_filter st0" "st_seen st \<le> mark_of s"
    and "k \<in> set (st_known st) \<Longrightarrow> k \<in> set (st_known st0) \<or> (\<exists>n. entry_at s n \<and> k = handoffEventKey n)"
    and "distinct (map handoffEventKey (sent_entries st))"
    and "n \<in> set (sent_entries st) \<Longrightarrow> handoffEventKey n \<notin> set (st_known st0) \<and> entry_at s n \<and> (\<exists>u. sendable (st_filter st0) u n)"
  using stream_run_inv [OF run wf opened_stream(1,2) [OF opened]] by blast+

lemma mark_until_subset:
  "mark_until n rs b known = (b', known') \<Longrightarrow> set known' \<subseteq> set known \<union> (\<lambda>r. handoffEventKey (er_event r)) ` set rs"
proof (induction rs arbitrary: b known)
  case (Cons r rs)
  have "set (snd (mark_entry e k)) \<subseteq> insert (handoffEventKey e) (set k)" for e k
    by (auto simp: mark_entry_def Let_def)
  with Cons.IH Cons.prems show ?case by (fastforce split: if_splits)
qed simp

lemma mark_all_subset: "set (mark_all rs known) \<subseteq> set known \<union> (\<lambda>r. handoffEventKey (er_event r)) ` set rs"
proof (induction rs arbitrary: known)
  case (Cons r rs)
  have "set (snd (mark_entry e k)) \<subseteq> insert (handoffEventKey e) (set k)" for e k
    by (auto simp: mark_entry_def Let_def)
  with Cons [of "snd (mark_entry (er_event r) known)"] show ?case by (fastforce simp: mark_all_def)
qed (simp add: mark_all_def)

lemma tracker_subset: "set (newHandoffEntryTracker rs lastEventID baselineAt) \<subseteq> (\<lambda>r. handoffEventKey (er_event r)) ` set rs"
proof -
  define old where "old = filter (\<lambda>r. baselineAt = zeroTime \<or> er_createdAt r < baselineAt) rs"
  have sub: "set old \<subseteq> set rs" by (auto simp: old_def)
  have all: "set (mark_all old []) \<subseteq> (\<lambda>r. handoffEventKey (er_event r)) ` set old"
    using mark_all_subset [of old "[]"] by simp
  have some: "set (case mark_until n old False [] of (b, known) \<Rightarrow> if b then known else mark_all old known)
      \<subseteq> (\<lambda>r. handoffEventKey (er_event r)) ` set old" for n
  proof (cases "mark_until n old False []")
    case (Pair b known)
    then show ?thesis using mark_until_subset [OF Pair] mark_all_subset [of old known] by auto
  qed
  have "set (newHandoffEntryTracker rs lastEventID baselineAt) \<subseteq> (\<lambda>r. handoffEventKey (er_event r)) ` set old"
    unfolding newHandoffEntryTracker_def Let_def old_def [symmetric]
    using all some by (cases "TrimSpace lastEventID = []"; cases "ParseInt (TrimSpace lastEventID)") (simp_all split del: if_split, simp)
  with sub show ?thesis by (meson dual_order.trans image_mono)
qed

lemma opened_known:
  assumes wf: "wf_store s" and "openStream q lastEventID baselineAt s = Some (Inr st)" and "k \<in> set (st_known st)"
  shows "\<exists>n. entry_at s n \<and> k = handoffEventKey n"
  using opened_stream(3) [OF assms(2)] tracker_subset assms(3) in_scope_entry scan_set(1) [OF wf] by fastforce

lemma run_knows:
  assumes wf: "wf_store s0" and opened: "openStream q lastEventID baselineAt s0 = Some (Inr st0)"
    and run: "stream_run s0 st0 s st" and k: "k \<in> set (st_known st)"
    and found: "\<And>n. entry_at s n \<Longrightarrow> k = handoffEventKey n \<Longrightarrow> thesis"
  shows thesis
proof (cases "k \<in> set (st_known st0)")
  case True
  from opened_known [OF wf opened this] obtain n where "entry_at s0 n" "k = handoffEventKey n" by blast
  then show thesis using found entry_at_later [OF opened_run(2) [OF wf opened run]] by blast
next
  case False
  then show thesis using found opened_run(5) [OF wf opened run k] by blast
qed

lemma same_ids_same_entries:
  assumes "entries_extend es es'" and "map e_id es = map e_id es'" and "e \<in> set es'"
  shows "\<exists>x\<in>set es. e_handoff_id x = e_handoff_id e \<and> e_id x = e_id e"
proof -
  obtain new where new: "map entry_core es' = map entry_core es @ new"
    using assms(1) by (auto simp: entries_extend_def)
  then have "length es' = length es + length new" by (metis length_append length_map)
  then have "map entry_core es = map entry_core es'" using new assms(2) by (metis add_cancel_right_right append_Nil2 length_0_conv length_map)
  then have "entries_extend es' es" by (auto simp: entries_extend_def)
  from entries_extend_at [OF this assms(3)] show ?thesis .
qed

lemma new_entry_moves_mark:
  assumes wf: "wf_store s" and later: "steps s t" and at: "entry_at t n" "\<not> entry_at s n"
  shows "mark_of s < mark_of t"
proof -
  have ext: "logs_extend s t" using steps_tables(1) [OF later] .
  have "mark_of s \<noteq> mark_of t"
  proof
    assume "mark_of s = mark_of t"
    with mark_of_later(2) [OF wf later] have ids: "map e_id (task_handoff_entries s) = map e_id (task_handoff_entries t)"
      "map e_id (goal_handoff_entries s) = map e_id (goal_handoff_entries t)" by auto
    with ext have "entry_at s n"
      using at(1) same_ids_same_entries unfolding entry_at_def logs_extend_def by metis
    with at(2) show False ..
  qed
  with mark_of_later(1) [OF wf later] show ?thesis by simp
qed

lemma round_sends:
  assumes wf: "wf_store s" and scan: "scanHandoffEntryRecords f s = Some (Inr rs)" and r: "r \<in> set rs"
    and unknown: "handoffEventKey (er_event r) \<notin> set (st_known st)" and passes: "sendable (st_filter st) s (er_event r)"
  shows "er_event r \<in> set (sent_entries (fold (send_record s) rs (st\<lparr>st_seen := m\<rparr>)))"
proof -
  note rs = scan_set(1) [OF wf scan]
  have pos: "\<forall>x\<in>set rs. 0 < ae_ID (er_event x)" by (auto simp: rs intro: wf_entry_at [OF wf in_scope_entry])
  have one: "x = r" if "x \<in> set rs" "handoffEventKey (er_event x) = handoffEventKey (er_event r)" for x
  proof -
    have "in_scope f s x" "in_scope f s r" using that r by (simp_all add: rs)
    moreover from this have "entry_name (er_event x) = entry_name (er_event r)"
      using key_at [OF wf in_scope_entry in_scope_entry] that(2) by blast
    ultimately show ?thesis by (rule in_scope_unique [OF wf])
  qed
  let ?st = "st\<lparr>st_seen := m\<rparr>"
  from send_records_effect [OF pos, of s ?st] obtain new where
    "sent_entries (fold (send_record s) rs ?st) = sent_entries ?st @ new"
    "\<forall>r\<in>set rs. handoffEventKey (er_event r) \<notin> set (st_known ?st) \<and> sendable (st_filter ?st) s (er_event r)
             \<and> (\<forall>r'\<in>set rs. handoffEventKey (er_event r') = handoffEventKey (er_event r) \<longrightarrow> r' = r)
           \<longrightarrow> er_event r \<in> set new" by blast
  with r unknown passes one show ?thesis by simp
qed

section \<open>An example\<close>

text \<open>
  A stream of everything, and the example with two entries of the goal handoff and one of the task handoff,
  which has a smaller id than the second of them and was written later.
\<close>

definition any_query :: event_query where
  "any_query = \<lparr>q_project_id = [], q_goal_id = [], q_task_id = [], q_monitor_token = []\<rparr>"

definition any_filter :: eventFilter where
  "any_filter = \<lparr>ef_projectID = [], ef_goalID = [], ef_canonicalProjectID = 0, ef_canonicalGoalID = 0,
     ef_canonicalTaskID = 0, ef_taskID = [], ef_agentSessionID = 0\<rparr>"

definition a_goal_entry :: "int \<Rightarrow> handoff_entry" where
  "a_goal_entry i = \<lparr>e_id = i, e_handoff_id = ''gh'', e_kind = ''received'', e_body = ''received'',
     e_author_session_id = Some 2, e_in_reply_to_id = None, e_created_at = sec (1 + i)\<rparr>"

definition followed :: store where
  "followed = example\<lparr>goal_handoff_entries := [a_goal_entry 1, a_goal_entry 2],
     task_handoff_entries := [(an_entry 1)\<lparr>e_created_at := sec 5\<rparr>]\<rparr>"

lemma any_filter_parts [simp]:
  "ef_projectID any_filter = []" "ef_goalID any_filter = []" "ef_taskID any_filter = []"
  by (simp_all add: any_filter_def)

lemma open_any:
  assumes "wf_store s"
  shows "\<exists>st. openStream any_query lastEventID baselineAt s = Some (Inr st) \<and> st_filter st = any_filter"
proof -
  have filter: "fst (parseEventFilter any_query s) = Inr any_filter"
    by (simp add: parseEventFilter_def resolving_filter_def any_query_def any_filter_def op_eval op_eval_defs)
  have scope: "fst (eventScopeIDs 0 0 0 s) = Inr (0, 0, 0)"
    by (simp add: eventScopeIDs_def op_eval op_eval_defs)
  obtain rs where "scanHandoffEntryRecords any_filter s = Some (Inr rs)"
    using scan_value [OF assms, of any_filter] by (auto simp: scope_exists_def)
  then show ?thesis using scope by (simp add: openStream_def filter) (simp add: any_filter_def)
qed

text \<open>The scope of a filter without a task, computed.\<close>

lemma in_scope_check:
  assumes "ef_taskID f = []"
  shows "in_scope f s r \<longleftrightarrow> list_ex (\<lambda>g. \<not> project_archived (g_project_id g) s \<and> scans_goal f g \<and>
     (list_ex (\<lambda>h. h_owner h = g_id g \<and> list_ex (\<lambda>e. e_handoff_id e = h_id h
         \<and> r = handoffEntryRecordForEntry (g_project_id g) (g_id g) 0 ''goal'' (h_id h) (parties_of h) e)
        (goal_handoff_entries s)) (goal_handoffs s)
      \<or> list_ex (\<lambda>t. t_goal_id t = g_id g \<and> list_ex (\<lambda>h. h_owner h = t_id t \<and> list_ex (\<lambda>e. e_handoff_id e = h_id h
         \<and> r = handoffEntryRecordForEntry (g_project_id g) (g_id g) (t_id t) ''task'' (h_id h) (parties_of h) e)
        (task_handoff_entries s)) (task_handoffs s)) (tasks s))) (goals s)"
  unfolding in_scope_def goal_record_def task_record_def list_ex_iff by (auto simp: assms)

definition goal_entry_record :: "int \<Rightarrow> handoffEntryRecord" where
  "goal_entry_record i = handoffEntryRecordForEntry 1 1 0 ''goal'' ''gh'' [1, 2] (a_goal_entry i)"

definition task_entry_record :: handoffEntryRecord where
  "task_entry_record = handoffEntryRecordForEntry 1 1 1 ''task'' ''th'' [2, 3] ((an_entry 1)\<lparr>e_created_at := sec 5\<rparr>)"

definition appended_record :: handoffEntryRecord where
  "appended_record = handoffEntryRecordForEntry 1 1 1 ''task'' ''th'' [2, 3] new_entry"

lemma wf_followed: "wf_store followed"
  by code_simp

lemma followed_scope: "in_scope any_filter followed (goal_entry_record 2)" "in_scope any_filter followed task_entry_record"
  by (subst in_scope_check; code_simp)+

lemma appended_scope: "in_scope any_filter appended appended_record"
  by (subst in_scope_check; code_simp)

lemma appended_new: "\<not> entry_at example (er_event appended_record)"
  by code_simp

lemma appended_passes: "eventPasses any_filter (event_named (EntryAdded (er_event appended_record))) appended"
  by code_simp

section \<open>The properties of a stream\<close>

lemma same_key: "entry_name n = entry_name m \<Longrightarrow> handoffEventKey n = handoffEventKey m"
  by (simp add: handoffEventKey_def entry_name_def)

lemma coarser_distinct: "distinct (map f xs) \<Longrightarrow> (\<And>x y. g x = g y \<Longrightarrow> f x = f y) \<Longrightarrow> distinct (map g xs)"
  unfolding distinct_map inj_on_def by blast

lemma sendable_parts:
  assumes "sendable f u n"
  shows "meant_for (ef_agentSessionID f) n"
    and "ef_goalID f \<noteq> [] \<Longrightarrow> ae_GoalID n = ef_canonicalGoalID f"
    and "ef_taskID f \<noteq> [] \<Longrightarrow> ae_TaskID n = ef_canonicalTaskID f"
    and "ef_projectID f \<noteq> [] \<Longrightarrow> ae_ProjectID n = 0 \<or> ae_ProjectID n = ef_canonicalProjectID f"
    and "validHandoffEntryKind (ae_Kind n)"
proof -
  obtain e where e: "normalizeHandoffEntryEvent n = Some e" and m: "meant_for (ef_agentSessionID f) e"
    and g: "ef_goalID f \<noteq> [] \<longrightarrow> ae_GoalID e = ef_canonicalGoalID f"
    and t: "ef_taskID f \<noteq> [] \<longrightarrow> ae_TaskID e = ef_canonicalTaskID f"
    and p: "ef_projectID f \<noteq> [] \<longrightarrow> ae_ProjectID e = 0 \<or> ae_ProjectID e = ef_canonicalProjectID f"
    using assms by (auto simp: sendable_def eventPasses_def event_named_def ret_def split: option.splits if_splits)
  have same: "ae_GoalID e = ae_GoalID n" "ae_TaskID e = ae_TaskID n" "ae_ProjectID e = ae_ProjectID n"
    "ae_AuthorSessionID e = ae_AuthorSessionID n" "ae_parties e = ae_parties n" "ae_Kind e = ae_Kind n"
    and "validHandoffEntryKind (ae_Kind e)"
    using e by (auto simp: normalizeHandoffEntryEvent_def Let_def split: if_splits)
  then show "meant_for (ef_agentSessionID f) n"
    "ef_goalID f \<noteq> [] \<Longrightarrow> ae_GoalID n = ef_canonicalGoalID f"
    "ef_taskID f \<noteq> [] \<Longrightarrow> ae_TaskID n = ef_canonicalTaskID f"
    "ef_projectID f \<noteq> [] \<Longrightarrow> ae_ProjectID n = 0 \<or> ae_ProjectID n = ef_canonicalProjectID f"
    "validHandoffEntryKind (ae_Kind n)"
    using m g t p by (simp_all add: meant_for_def)
qed

text \<open>
  Property C23. A stream reads its whole scope. The scan of the handoff entries, whose loops over the pages
  have no bound of their own, returns on every well-formed store where the task of the filter, if it
  has one, exists with its goal. What it returns is, in the order of the entry ids, the entries of the goal handoffs and of the task
  handoffs of the goals that match the filter and whose project is not archived, or those of the
  task of the filter, and nothing else.
\<close>

theorem scan_reads_the_scope:
  assumes wf: "wf_store s"
    and scope: "ef_taskID f = [] \<or>
      (\<exists>t g. task_row (ef_canonicalTaskID f) s = Some t \<and> goal_row (t_goal_id t) s = Some g)"
  shows "\<exists>rs. scanHandoffEntryRecords f s = Some (Inr rs) \<and> sorted (map (\<lambda>r. ae_ID (er_event r)) rs)
     \<and> (\<forall>r. r \<in> set rs \<longleftrightarrow> in_scope f s r)"
  using scan_value [OF wf] scope by (simp add: scope_exists_def)

theorem scan_reads_the_scope_witness:
  "\<exists>rs. scanHandoffEntryRecords any_filter followed = Some (Inr rs) \<and> task_entry_record \<in> set rs \<and> goal_entry_record 2 \<in> set rs"
  using scan_reads_the_scope [OF wf_followed, of any_filter] followed_scope by auto

lemma tick_sends_new_entry:
  assumes wf: "wf_store s0" and opened: "openStream q lastEventID baselineAt s0 = Some (Inr st0)"
    and run: "stream_run s0 st0 s st" and later: "steps s t"
    and scope: "in_scope (st_filter st0) t r" and new: "\<not> entry_at s (er_event r)"
    and passes: "eventPasses (st_filter st0) (event_named (EntryAdded (er_event r))) t"
  shows "\<exists>st'. on_tick t st = Some st' \<and> er_event r \<in> set (sent_entries st')"
proof -
  note inv = opened_run [OF wf opened run]
  note ws = inv(1) and f = inv(3) and seen = inv(4)
  have wt: "wf_store t" using wf_store_step [OF later ws] .
  have at: "entry_at t (er_event r)" using in_scope_entry [OF scope] .
  have "scope_exists (st_filter st) t" using scope by (auto simp: f scope_exists_def in_scope_def split: if_splits)
  from scan_value [OF wt this] obtain rs where scan: "scanHandoffEntryRecords (st_filter st) t = Some (Inr rs)"
    and rs: "\<forall>x. x \<in> set rs \<longleftrightarrow> in_scope (st_filter st) t x" by blast
  define st' where "st' = fold (send_record t) rs (st\<lparr>st_seen := mark_of t\<rparr>)"
  have "mark_of t \<noteq> st_seen st" using new_entry_moves_mark [OF ws later at new] seen by simp
  then have tick: "on_tick t st = Some st'" by (simp add: on_tick_def watermark_mark scan st'_def)
  have unknown: "handoffEventKey (er_event r) \<notin> set (st_known st)"
  proof
    assume "handoffEventKey (er_event r) \<in> set (st_known st)"
    then obtain n where n: "entry_at s n" and key: "handoffEventKey (er_event r) = handoffEventKey n"
      by (elim run_knows [OF wf opened run])
    have "entry_name (er_event r) = entry_name n"
      by (rule key_at [OF wt at entry_at_later [OF later n], THEN iffD1]) (rule key)
    then have "entry_at s (er_event r) = entry_at s n" by (rule entry_at_name)
    with n new show False by simp
  qed
  have "er_event r \<in> set (sent_entries st')"
    unfolding st'_def
  proof (rule round_sends [OF wt scan])
    show "r \<in> set rs" using rs scope f by simp
    show "sendable (st_filter st) t (er_event r)" using passes f by (simp add: sendable_def)
  qed (rule unknown)
  with tick show ?thesis by blast
qed

text \<open>
  Property C21. A stream sends an entry at most once and only what is meant for it. Whatever happens
  after a stream was opened, new or resumed, no two of the entries it has sent are the same entry of the same thread; each exists
  in the store, is of a kind of the vocabulary, was written by another session than the one that
  listens, in a handoff that session has a part in, and belongs to the goal, the task and the
  project the stream asks for; an entry that names no project passes for any, as in the filter of the code.
\<close>

theorem entry_is_sent_once:
  assumes wf: "wf_store s0" and opened: "openStream q lastEventID baselineAt s0 = Some (Inr st0)"
    and run: "stream_run s0 st0 s st"
  shows "distinct (map entry_name (sent_entries st))
     \<and> (\<forall>n\<in>set (sent_entries st).
          entry_at s n \<and> validHandoffEntryKind (ae_Kind n) \<and> meant_for (ef_agentSessionID (st_filter st0)) n
        \<and> (ef_goalID (st_filter st0) \<noteq> [] \<longrightarrow> ae_GoalID n = ef_canonicalGoalID (st_filter st0))
        \<and> (ef_taskID (st_filter st0) \<noteq> [] \<longrightarrow> ae_TaskID n = ef_canonicalTaskID (st_filter st0))
        \<and> (ef_projectID (st_filter st0) \<noteq> [] \<longrightarrow>
             ae_ProjectID n = 0 \<or> ae_ProjectID n = ef_canonicalProjectID (st_filter st0)))"
proof -
  note inv = opened_run [OF wf opened run]
  have "distinct (map entry_name (sent_entries st))"
    using inv(6) by (rule coarser_distinct) (rule same_key)
  moreover have "entry_at s n \<and> validHandoffEntryKind (ae_Kind n) \<and> meant_for (ef_agentSessionID (st_filter st0)) n
        \<and> (ef_goalID (st_filter st0) \<noteq> [] \<longrightarrow> ae_GoalID n = ef_canonicalGoalID (st_filter st0))
        \<and> (ef_taskID (st_filter st0) \<noteq> [] \<longrightarrow> ae_TaskID n = ef_canonicalTaskID (st_filter st0))
        \<and> (ef_projectID (st_filter st0) \<noteq> [] \<longrightarrow>
             ae_ProjectID n = 0 \<or> ae_ProjectID n = ef_canonicalProjectID (st_filter st0))"
    if sent: "n \<in> set (sent_entries st)" for n
  proof -
    obtain u where u: "sendable (st_filter st0) u n" and at: "entry_at s n" using inv(7) [OF sent] by blast
    show ?thesis using at sendable_parts [OF u] by simp
  qed
  ultimately show ?thesis by simp
qed

theorem entry_is_sent_once_witness:
  "\<exists>st0 st. openStream any_query [] (sec 50) example = Some (Inr st0) \<and> stream_run example st0 appended st
     \<and> er_event appended_record \<in> set (sent_entries st) \<and> distinct (map entry_name (sent_entries st))"
proof -
  obtain st0 where opened: "openStream any_query [] (sec 50) example = Some (Inr st0)" and f: "st_filter st0 = any_filter"
    using open_any [OF wf_example] by blast
  from tick_sends_new_entry [OF wf_example opened stream_run.opened appended_later] obtain st
    where tick: "on_tick appended st0 = Some st" and sent: "er_event appended_record \<in> set (sent_entries st)"
    using appended_scope appended_new appended_passes unfolding f by blast
  have run: "stream_run example st0 appended st"
    by (rule stream_run.ticks [OF stream_run.store_moves [OF stream_run.opened appended_later] tick])
  show ?thesis using opened run sent entry_is_sent_once [OF wf_example opened run] by blast
qed

text \<open>
  Property C22. A new entry reaches the stream. When an entry of the scope of an open stream is appended
  to its store, the next tick returns and has sent it, as long as it passes the filter: ticks that
  skip the scan because the watermark stands still miss nothing, and no earlier entry of another
  thread or table can hide it.
\<close>

theorem appended_entry_is_streamed:
  assumes wf: "wf_store s0" and opened: "openStream q lastEventID baselineAt s0 = Some (Inr st0)"
    and run: "stream_run s0 st0 s st" and later: "steps s t"
    and scope: "in_scope (st_filter st0) t r" and new: "\<not> entry_at s (er_event r)"
    and passes: "eventPasses (st_filter st0) (event_named (EntryAdded (er_event r))) t"
  shows "\<exists>st'. on_tick t st = Some st' \<and> er_event r \<in> set (sent_entries st')"
  by (rule tick_sends_new_entry [OF assms])

theorem appended_entry_is_streamed_witness:
  "\<exists>st0 st. openStream any_query [] (sec 50) example = Some (Inr st0) \<and> on_tick appended st0 = Some st
     \<and> er_event appended_record \<in> set (sent_entries st) \<and> ae_BodyPreview (er_event appended_record) = ''half way''"
proof -
  obtain st0 where opened: "openStream any_query [] (sec 50) example = Some (Inr st0)" and f: "st_filter st0 = any_filter"
    using open_any [OF wf_example] by blast
  have "ae_BodyPreview (er_event appended_record) = ''half way''" by code_simp
  with appended_entry_is_streamed [OF wf_example opened stream_run.opened appended_later] opened show ?thesis
    using appended_scope appended_new appended_passes unfolding f by blast
qed

text \<open>
  Property C24. What a resumed stream sends. When a stream is opened with the id of the last frame
  the client saw, and an entry written before has that id, then of the entries in
  scope those written before with a smaller id are taken for seen, in whatever table and thread they are, and will never be
  sent. The others with a larger id, and those written since, are sent by the first tick, if they pass.
\<close>

theorem resumed_stream_sends_larger_ids:
  assumes wf: "wf_store s0" and opened: "openStream q lastEventID baselineAt s0 = Some (Inr st0)"
    and id: "ParseInt (TrimSpace lastEventID) = Some n" "0 < n" and clock: "baselineAt \<noteq> zeroTime"
    and last: "in_scope (st_filter st0) s0 r0" "ae_ID (er_event r0) = n" "er_createdAt r0 < baselineAt"
    and r: "in_scope (st_filter st0) s0 r"
  shows "(er_createdAt r < baselineAt \<and> ae_ID (er_event r) < n \<longrightarrow>
      (\<forall>s st. stream_run s0 st0 s st \<longrightarrow> entry_name (er_event r) \<notin> entry_name ` set (sent_entries st)))
    \<and> (baselineAt \<le> er_createdAt r \<or> n < ae_ID (er_event r) \<longrightarrow>
      eventPasses (st_filter st0) (event_named (EntryAdded (er_event r))) s0 \<longrightarrow>
      (\<exists>st. on_tick s0 st0 = Some st \<and> er_event r \<in> set (sent_entries st)))"
proof -
  obtain rs where scan: "scanHandoffEntryRecords (st_filter st0) s0 = Some (Inr rs)"
    and known: "st_known st0 = newHandoffEntryTracker rs lastEventID baselineAt"
    using opened_stream(3) [OF opened] by blast
  note rs = scan_set(1) [OF wf scan]
  define old where "old = filter (\<lambda>r. er_createdAt r < baselineAt) rs"
  have sorted: "sorted (map (\<lambda>r. ae_ID (er_event r)) old)"
    using scan_set(2) [OF wf scan] unfolding old_def by (rule sorted_filter)
  have pos: "\<forall>x\<in>set old. 0 < ae_ID (er_event x)" by (auto simp: old_def rs intro: wf_entry_at [OF wf in_scope_entry])
  have found: "\<exists>x\<in>set old. ae_ID (er_event x) = n" using last by (auto simp: old_def rs)
  obtain b k where until: "mark_until n old False [] = (b, k)" by fastforce
  have "b" using mark_until_known(1) [OF sorted pos until] found by simp
  note marked = mark_until_known(3) [OF sorted pos until _ found, simplified]
  have below: "\<forall>x\<in>set old. ae_ID (er_event x) < n \<longrightarrow> handoffEventKey (er_event x) \<in> set k"
    and above: "\<forall>x\<in>set k. \<exists>r\<in>set old. ae_ID (er_event r) \<le> n \<and> x = handoffEventKey (er_event r)"
    using marked by simp_all
  have "TrimSpace lastEventID \<noteq> []" using id(1) by (auto simp: ParseInt_def)
  with id clock until \<open>b\<close> have k: "st_known st0 = k"
    unfolding known newHandoffEntryTracker_def by (simp flip: old_def)
  have at: "entry_at s0 (er_event r)" using in_scope_entry [OF r] .
  show ?thesis
  proof (intro conjI impI allI notI)
    fix s st
    assume "er_createdAt r < baselineAt \<and> ae_ID (er_event r) < n" and run: "stream_run s0 st0 s st"
    then have "handoffEventKey (er_event r) \<in> set (st_known st0)" using below r by (simp add: k old_def rs)
    moreover assume "entry_name (er_event r) \<in> entry_name ` set (sent_entries st)"
    then obtain m where m: "m \<in> set (sent_entries st)" and name: "entry_name (er_event r) = entry_name m" by (elim imageE)
    ultimately show False using opened_run(7) [OF wf opened run m] unfolding same_key [OF name] by (elim conjE notE)
  next
    assume after: "baselineAt \<le> er_createdAt r \<or> n < ae_ID (er_event r)"
      and passes: "eventPasses (st_filter st0) (event_named (EntryAdded (er_event r))) s0"
    have unknown: "handoffEventKey (er_event r) \<notin> set (st_known st0)"
    proof
      assume "handoffEventKey (er_event r) \<in> set (st_known st0)"
      then obtain x where x: "x \<in> set old" "ae_ID (er_event x) \<le> n"
        and key: "handoffEventKey (er_event r) = handoffEventKey (er_event x)" using above by (auto simp: k)
      have scope: "in_scope (st_filter st0) s0 x" using x(1) by (simp add: old_def rs)
      have "entry_name (er_event r) = entry_name (er_event x)"
        by (rule key_at [OF wf at in_scope_entry [OF scope], THEN iffD1]) (rule key)
      then have "r = x" by (rule in_scope_unique [OF wf r scope])
      with x after show False by (simp add: old_def)
    qed
    let ?st = "fold (send_record s0) rs (st0\<lparr>st_seen := mark_of s0\<rparr>)"
    have "on_tick s0 st0 = Some ?st"
      using mark_of_nonneg [OF wf] by (simp add: on_tick_def watermark_mark scan opened_stream(1) [OF opened])
    moreover have "er_event r \<in> set (sent_entries ?st)"
    proof (rule round_sends [OF wf scan])
      show "r \<in> set rs" using r by (simp add: rs)
      show "sendable (st_filter st0) s0 (er_event r)" using passes by (simp add: sendable_def)
    qed (rule unknown)
    ultimately show "\<exists>st. on_tick s0 st0 = Some st \<and> er_event r \<in> set (sent_entries st)" by blast
  qed
qed

theorem resumed_stream_sends_larger_ids_witness:
  "\<exists>st0. openStream any_query ''2'' (sec 50) followed = Some (Inr st0)
     \<and> eventPasses (st_filter st0) (event_named (EntryAdded (er_event task_entry_record))) followed
     \<and> (\<forall>s st. stream_run followed st0 s st \<longrightarrow> entry_name (er_event task_entry_record) \<notin> entry_name ` set (sent_entries st))"
proof -
  obtain st0 where opened: "openStream any_query ''2'' (sec 50) followed = Some (Inr st0)" and f: "st_filter st0 = any_filter"
    using open_any [OF wf_followed] by blast
  have id: "ParseInt (TrimSpace ''2'') = Some 2" by code_simp
  have clock: "sec 50 \<noteq> zeroTime" by code_simp
  have last: "ae_ID (er_event (goal_entry_record 2)) = 2" "er_createdAt (goal_entry_record 2) < sec 50" by code_simp+
  have old: "er_createdAt task_entry_record < sec 50" "ae_ID (er_event task_entry_record) < 2" by code_simp+
  have "eventPasses any_filter (event_named (EntryAdded (er_event task_entry_record))) followed" by code_simp
  moreover have "\<forall>s st. stream_run followed st0 s st \<longrightarrow> entry_name (er_event task_entry_record) \<notin> entry_name ` set (sent_entries st)"
    using resumed_stream_sends_larger_ids [OF wf_followed opened id _ clock _ last, of task_entry_record] followed_scope old
    unfolding f by simp
  ultimately show ?thesis using opened f by auto
qed

text \<open>A goal that is created passes the filter of every project: its event names none, and none is looked up.\<close>

theorem created_goal_passes_every_project:
  "ef_goalID f = [] \<Longrightarrow> ef_taskID f = [] \<Longrightarrow> eventPasses f (event_named (OfStore (GoalCreatedEvent g))) s"
  by (simp add: eventPasses_def event_named_def ret_def)

end
