(* ===== verification/Spec2Isabelle.thy ===== *)
theory Spec2Isabelle
  imports Atct_Decision_Facts Atct_Handoff_Facts Atct_Goal_Facts Atct_Withdrawal Atct_Entry_Facts
    Atct_Task_Facts Atct_Claims Atct_Text_Facts Atct_Session_Facts Atct_Failures Atct_Next_Action_Facts
    Atct_Dispatch_Facts Atct_Role_Facts Atct_Chat_Facts Atct_Capability_Facts Atct_Stop_Facts Atct_Wakeup_Facts
    Atct_Http_Facts Atct_Life Atct_Stream_Facts
begin

text \<open>
  A model of atct, a daemon through which coding agents and one human share the work on goals.

  \<^bold>\<open>The program.\<close> Sessions of agents register with the daemon. A project has goals, a goal has tasks. A
  goal and a task are handed over: a handoff is requested, received, submitted for review, rejected or
  completed, or recovered from a session that is gone. Decisions are questions to the human; an answer is
  delivered to the session that asked. The store keeps all of this in SQLite tables; the daemon reads a
  request from a socket, checks the role of the caller, calls the store and answers. The human works with
  the dashboard, pages over an HTTP server that calls the store. Command line, MCP shim and watchers are
  clients of the daemon.

  \<^bold>\<open>The shape of the model.\<close> An operation takes a state and gives an error or a value together with the
  state it leaves: \<open>('s, 'e, 'a) op\<close> in \<open>Atct_Prelude\<close>, with \<open>bnd\<close>, \<open>check\<close>, \<open>need\<close>, \<open>try_op\<close> and
  \<open>transaction\<close>, which takes the writes back when it fails. The state of the store is the record \<open>store\<close> of
  \<open>Atct_Schema\<close>: one list of rows per table, in the order of insertion, and the list of what was published.
  The state of the daemon is the record \<open>daemon\<close> of \<open>Atct_Daemon\<close>: the store, the capabilities, the
  bindings of tool uses and the two maps of the stop hook. Names are those of the Go code; a definition
  whose name ends in \<open>_sql\<close> is a generated query of \<^verbatim>\<open>internal/store/sqlcgen\<close>.

  \<^bold>\<open>Which theory models what.\<close> Below \<^verbatim>\<open>internal/store\<close>:
  \<open>Atct_Domain\<close>, \<open>Atct_Schema\<close> (the domain package, the rows, the errors, \<^verbatim>\<open>notify.go\<close>);
  \<open>Atct_Sessions\<close> (\<^verbatim>\<open>store.go\<close>, \<^verbatim>\<open>run.go\<close>, \<^verbatim>\<open>runtime_lease.go\<close>, \<^verbatim>\<open>handoff_recovery.go\<close>);
  \<open>Atct_Entries\<close> (\<^verbatim>\<open>handoff_entry.go\<close>); \<open>Atct_Handoff_Row\<close>, \<open>Atct_Decision_Row\<close>, \<open>Atct_Goal_Row\<close>,
  \<open>Atct_Plan_Row\<close> (the queries); \<open>Atct_Decision\<close> (\<^verbatim>\<open>decision.go\<close>); \<open>Atct_Goal_Handoff\<close>,
  \<open>Atct_Plan_Handoff\<close>, \<open>Atct_Task_Handoff\<close>, \<open>Atct_Guards\<close> (\<^verbatim>\<open>goal_handoff.go\<close>,
  \<^verbatim>\<open>task_handoff.go\<close>, \<^verbatim>\<open>spec_plan_reference.go\<close>); \<open>Atct_Task\<close>, \<open>Atct_Task_Create\<close>
  (\<^verbatim>\<open>task.go\<close>, \<^verbatim>\<open>commit.go\<close>, \<^verbatim>\<open>task_create_handoff.go\<close>); \<open>Atct_Goal\<close> (\<^verbatim>\<open>goal.go\<close>);
  \<open>Atct_Next_Action\<close> (\<^verbatim>\<open>goal_next_action.go\<close>, \<^verbatim>\<open>goal_pending_state.go\<close>); \<open>Atct_Paths\<close>,
  \<open>Atct_Projects\<close> (\<^verbatim>\<open>project.go\<close>, with what it uses of \<^verbatim>\<open>path/filepath\<close>); \<open>Atct_Timestamp\<close>
  (\<^verbatim>\<open>timestamp.go\<close>); \<open>Atct_Monitors\<close> (monitor health, bindings, assignments); \<open>Atct_Discard\<close>
  (discards and \<^verbatim>\<open>agent_session_reclaim.go\<close>); \<open>Atct_Wakeup\<close> (\<^verbatim>\<open>wakeup.go\<close>,
  \<^verbatim>\<open>claim_liveness.go\<close>); \<open>Atct_Review_Exchange\<close> (\<^verbatim>\<open>review_exchange.go\<close>); \<open>Atct_Reconcile\<close>
  (\<^verbatim>\<open>workflow_events.go\<close>). Below \<^verbatim>\<open>internal/daemon\<close>: \<open>Atct_Roles\<close> (the part of
  \<^verbatim>\<open>handler.go\<close> before the dispatch); \<open>Atct_Daemon\<close> (\<^verbatim>\<open>capability.go\<close>,
  \<^verbatim>\<open>tool_use_binding.go\<close>); \<open>Atct_Stop_Check\<close> (\<^verbatim>\<open>stop_check.go\<close>,
  \<^verbatim>\<open>monitor_check.go\<close>, \<^verbatim>\<open>monitor_form_check.go\<close>); \<open>Atct_Chat_Answer\<close>
  (\<^verbatim>\<open>decision_answer.go\<close>); \<open>Atct_Findings\<close> (\<^verbatim>\<open>report_findings.go\<close>, \<^verbatim>\<open>spec_files.go\<close>);
  \<open>Atct_Rpc\<close> and \<open>Atct_Rpc_Session\<close>, \<open>Atct_Rpc_Goal\<close>, \<open>Atct_Rpc_Task\<close>, \<open>Atct_Rpc_Decision\<close> (the cases of
  \<^verbatim>\<open>dispatchMethodWithPeer\<close>, \<^verbatim>\<open>handoff_entry_rpc.go\<close>, \<^verbatim>\<open>next_step.go\<close>);
  \<open>Atct_Dispatch\<close> (ids, archive guard, decoding of parameters, the table of methods);
  \<open>Atct_Tracker\<close> (\<^verbatim>\<open>wakeup.go\<close>, the maintenance round). Below \<^verbatim>\<open>internal/httpapi\<close>:
  \<open>Atct_Http\<close> (the routes of \<^verbatim>\<open>server.go\<close>, the guard of archived projects and the endpoints that
  change the store), with \<open>Atct_Parse_Time\<close> (what it uses of Go's \<^verbatim>\<open>time.Parse\<close>);
  \<open>Atct_Stream\<close> (the event stream and the pages of handoffs, \<^verbatim>\<open>handoff.go\<close>).

  \<^bold>\<open>What is shown.\<close> \<open>Atct_System\<close> defines a step of the store as a call of any of its exported
  operations, with any arguments and whatever its outcome, and shows that every step keeps the invariant
  \<open>wf_store\<close> and the order \<open>store_le\<close>, which says how rows may change; the component orders
  \<open>decisions_le\<close>, \<open>goals_le\<close>, \<open>tasks_le\<close>, \<open>plans_le\<close>, \<open>creates_le\<close>, \<open>logs_extend\<close> and those of the handoff
  tables are instances of the locale \<open>state_order\<close>. The locales \<open>one_table\<close>, \<open>handoff_table\<close> and
  \<open>entry_table\<close> are the interface of a table and are interpreted on each table of the store.
  \<open>Atct_Post\<close>, \<open>Atct_Goal_Effects\<close> and \<open>Atct_Task_Effects\<close> hold the postconditions of the longer
  operations. The theories whose names end in \<open>Facts\<close>, and \<open>Atct_Withdrawal\<close>, \<open>Atct_Claims\<close> and
  \<open>Atct_Failures\<close>, hold the properties: the life of decisions, handoffs and threads, claims and leases, the
  review and the end of a goal, idempotent declaration of tasks, the next action, stored times and ids.
  Those about the daemon are: whatever requests arrive and whatever rounds run, the store only takes
  steps (\<open>Atct_Dispatch_Facts\<close>, \<open>Atct_Life\<close>), so that every property of runs of the store
  holds of the daemon; who may do what (\<open>Atct_Role_Facts\<close>); a capability is shown once (\<open>Atct_Capability_Facts\<close>); a session that wants
  to stop is let go (\<open>Atct_Stop_Facts\<close>); an answer from the chat is one the human typed
  (\<open>Atct_Chat_Facts\<close>); wake-ups are sent in time (\<open>Atct_Tracker_Facts\<close>); a request of the dashboard that
  is refused leaves the store, one to an archived project is refused, and an accepted answer settles one
  open decision with what the human sent (\<open>Atct_Http_Facts\<close>); what a wake-up counts
  (\<open>Atct_Wakeup_Facts\<close>); an event stream sends every new entry of its scope once and
  nothing else (\<open>Atct_Stream_Facts\<close>). \<open>Atct_Example\<close> and \<open>Atct_Daemon_Example\<close> are the states the instances are
  evaluated on. Some theorems show where the code does not do what it says, for example
  \<open>default_delay_overflows\<close> in \<open>Atct_Decision_Facts\<close>, \<open>failed_claim_blocks_the_goal\<close> in \<open>Atct_Claims\<close>
  and \<open>recovered_claim_hides_the_task\<close> in \<open>Atct_Wakeup_Facts\<close>.

  \<^bold>\<open>Bounds and termination.\<close> Loops over rows are recursion on lists. The walk up the parents of a goal
  (\<open>walk\<close>) stops at a goal it has seen, measured by the goals not seen yet. The loop that reads a thread
  page by page (\<open>appendHandoffEntryRecords\<close>) is a partial function with the value None when it does not
  return; \<open>thread_is_read_whole\<close> and \<open>scan_reads_the_scope\<close> show that it returns. No definition takes fuel. Durations are products
  of 64 bit words where the code multiplies an int64 (\<open>Duration_of_ms\<close>); ids are integers, bounded where
  they are parsed. Time is counted in nanoseconds.

  \<^bold>\<open>What is assumed or left out.\<close> The clock is read once per operation. Random ids, the process table, git,
  the file system, the transcripts of the harness and the JSON codec are parameters, the fields of \<open>env\<close>,
  \<open>world\<close>, \<open>harness\<close> and \<open>http_env\<close> (which also has Go's \<^verbatim>\<open>strconv.Quote\<close> and the digest of a monitor's id); while a request waits for an answer any other calls may run (\<open>en_wait\<close>).
  Operations run one after the other: SQLite serializes the writers, and the locks of the daemon are not
  modelled. The texts of errors are shortened to their kind, deprecated alias fields, the random ids of wake-ups and the
  hint to identify are left out, JSON field names are matched exactly, the answer of a request is a value
  and not its JSON text. A NULL column is an option, and \<open>nz\<close> reads it as Go does.

  \<^bold>\<open>Not modelled.\<close> The migrations of old databases and the DDL (raw SQL text); opening the database and
  the channel between the store and a stream, which drops events when it is full; the socket server and its
  timers; the pages of the HTTP server that only render rows, and its web socket, which repeats the loop of the
  event stream; the MCP shim, which forwards to the methods modelled here;
  the command line, the watchers and the Codex monitor, which supervise processes and print; starting and
  stopping the daemon; the report on token usage.
\<close>

section \<open>The store as a whole\<close>

text \<open>
  Property C1. A store is always consistent. In every store that any sequence of calls can reach
  from the empty one, whatever fails on the way: projects aside, every table has distinct ids; a
  goal has at most one open handoff and so has a task; no two tasks of a goal share a position or a
  declare key; no two sessions share a session key; an answer given to a prompt is recorded at most
  once; a done goal has a complete report; a decision is answered when it has the time of its
  answer, and delivered when it has the time of its delivery.
\<close>

theorem reachable_store_is_consistent:
  assumes "steps empty_store s"
  shows "distinct (map s_id (agent_sessions s)) \<and> distinct (map g_id (goals s))
     \<and> distinct (map t_id (tasks s)) \<and> distinct (map d_id (decisions s))
     \<and> distinct (map h_id (goal_handoffs s)) \<and> distinct (map h_id (task_handoffs s))
     \<and> (\<forall>goal. length (filter (\<lambda>h. h_owner h = goal \<and> handoff_open h) (goal_handoffs s)) \<le> 1)
     \<and> (\<forall>task. length (filter (\<lambda>h. h_owner h = task \<and> handoff_open h) (task_handoffs s)) \<le> 1)
     \<and> distinct (map (\<lambda>t. (t_goal_id t, t_sort_order t)) (tasks s))
     \<and> distinct (map (\<lambda>t. (t_goal_id t, t_declare_key t)) (tasks s))
     \<and> distinct (filter (\<lambda>k. k \<noteq> []) (map s_session_key (agent_sessions s)))
     \<and> distinct (filter (\<lambda>p. p \<noteq> []) (map d_answer_prompt_id (decisions s)))
     \<and> (\<forall>g\<in>set (goals s). goal_check g)
     \<and> (\<forall>d\<in>set (decisions s). (d_status d \<in> {DecisionAnswered, DecisionApplied} \<longleftrightarrow> d_answered_at d \<noteq> None)
          \<and> (d_status d = DecisionApplied \<longleftrightarrow> d_applied_at d \<noteq> None))"
proof -
  have wf: "wf_store s" by (rule wf_store_step [OF assms wf_store_empty])
  have one: "length (filter (\<lambda>h. h_owner h = i \<and> handoff_open h) hs) \<le> 1" if "wf_table hs" for i hs
  proof -
    have "distinct (map h_owner (filter handoff_open hs))"
      using that by (simp add: wf_table_def wf_handoffs_def one_open_def)
    from distinct_map_filter [OF this, of "\<lambda>h. h_owner h = i"]
    have "distinct (map h_owner (filter (\<lambda>h. h_owner h = i \<and> handoff_open h) hs))"
      by (simp add: conj_commute)
    moreover have "map h_owner (filter (\<lambda>h. h_owner h = i \<and> handoff_open h) hs)
        = map (\<lambda>_. i) (filter (\<lambda>h. h_owner h = i \<and> handoff_open h) hs)" by simp
    ultimately have "length (filter (\<lambda>h. h_owner h = i \<and> handoff_open h) hs)
        = card (set (map (\<lambda>_. i) (filter (\<lambda>h. h_owner h = i \<and> handoff_open h) hs)))"
      using distinct_card by fastforce
    also have "\<dots> \<le> card {i}" by (rule card_mono) auto
    finally show ?thesis by simp
  qed
  have "(d_status d \<in> {DecisionAnswered, DecisionApplied} \<longleftrightarrow> d_answered_at d \<noteq> None)
          \<and> (d_status d = DecisionApplied \<longleftrightarrow> d_applied_at d \<noteq> None)" if "wf_decision d" for d
    using that by (cases "d_status d") (auto simp: wf_decision_def)
  then have settled: "\<forall>d\<in>set (decisions s). (d_status d \<in> {DecisionAnswered, DecisionApplied} \<longleftrightarrow> d_answered_at d \<noteq> None)
          \<and> (d_status d = DecisionApplied \<longleftrightarrow> d_applied_at d \<noteq> None)"
    using wf_store_parts(5) [OF wf] by (simp only: wf_decisions_def) blast
  show ?thesis
    by (intro conjI allI; (rule settled | use wf_store_parts [OF wf] one in
      \<open>simp add: wf_table_def wf_handoffs_def wf_sessions_def wf_goals_def wf_tasks_def wf_decisions_def\<close>))
qed

theorem reachable_store_is_consistent_witness:
  "distinct (map s_id (agent_sessions (snd (RegisterAgentSessionInProject 10 ''boot'' 0 0 empty_store))))"
  using reachable_store_is_consistent
    [OF one_step [OF store_step.register [of empty_store 10 "''boot''" 0 0]]] by blast

text \<open>
  Property C34. A call that fails leaves nothing. Asking, answering, withdrawing and polling
  decisions, registering, identifying and associating sessions, appending to a thread, declaring
  tasks and withdrawing a goal either return, or fail and leave the store, and what has been
  published, exactly as they were.
\<close>

theorem failed_calls_leave_nothing:
  "(fst (AskDecision inp now s) = Inl e \<longrightarrow> snd (AskDecision inp now s) = s)
   \<and> (fst (AnswerDecisionWith ans src now s) = Inl e \<longrightarrow> snd (AnswerDecisionWith ans src now s) = s)
   \<and> (fst (WithdrawDecision i reason s) = Inl e \<longrightarrow> snd (WithdrawDecision i reason s) = s)
   \<and> (fst (PollDecisions j i now s) = Inl e \<longrightarrow> snd (PollDecisions j i now s) = s)
   \<and> (fst (RegisterAgentSessionInProject pid st p now s) = Inl e \<longrightarrow>
        snd (RegisterAgentSessionInProject pid st p now s) = s)
   \<and> (fst (IdentifyAgentSession i key pid st now s) = Inl e \<longrightarrow> snd (IdentifyAgentSession i key pid st now s) = s)
   \<and> (fst (AssociateAgentSessionWithProject i p now s) = Inl e \<longrightarrow>
        snd (AssociateAgentSessionWithProject i p now s) = s)
   \<and> (fst (AppendTaskHandoffEntry hid kind body i rel now s) = Inl e \<longrightarrow>
        snd (AppendTaskHandoffEntry hid kind body i rel now s) = s)
   \<and> (fst (AppendGoalHandoffEntry hid kind body i rel now s) = Inl e \<longrightarrow>
        snd (AppendGoalHandoffEntry hid kind body i rel now s) = s)
   \<and> (fst (CreateTasks i agent key titles descs now s) = Inl e \<longrightarrow>
        snd (CreateTasks i agent key titles descs now s) = s)
   \<and> (fst (WithdrawActiveGoal i reason now s) = Inl e \<longrightarrow> snd (WithdrawActiveGoal i reason now s) = s)"
  by (intro conjI impI; rule atomic_failed;
    (rule decisions_atomic | rule sessions_atomic | rule entries_atomic | rule CreateTasks_atomic
      | rule WithdrawActiveGoal_atomic | assumption))

theorem failed_calls_leave_nothing_witness:
  "snd (AnswerDecisionWith (an_answer\<lparr>DecisionID := 2\<rparr>) no_source (sec 100) example) = example"
proof -
  have "fst (AnswerDecisionWith (an_answer\<lparr>DecisionID := 2\<rparr>) no_source (sec 100) example) = Inl (DecisionE ErrDecisionNotOpen)"
    by code_simp
  then show ?thesis using failed_calls_leave_nothing by blast
qed

end
